(* ===== verification/Prelude.thy ===== *)
theory Prelude
  imports Main "HOL-Library.State_Monad" "HOL-Library.Sublist" "HOL-Library.AList"
    "HOL-Library.List_Lexorder" "HOL-Library.Product_Lexorder" "HOL-Library.Char_ord"
begin

text \<open>
  What the components share: the theorem collections of the library, Go's string,
  number and map operations as far as the modelled code uses them, and Go errors.

  A Go \<^verbatim>\<open>string\<close> is its bytes, a HOL \<^typ>\<open>string\<close>. A Go \<^verbatim>\<open>map[string]string\<close> is an
  association list, written by \<open>map_put\<close> and read by \<open>map_of\<close>; the nil map and the
  empty map are both \<open>[]\<close>. Times are nanoseconds since the epoch and durations are
  nanoseconds, both of type \<^typ>\<open>int\<close>.
\<close>

named_theorems go_string "evaluation and round-trip facts of the string operations"
named_theorems emits_intro "introduction rules for the calls a handler may issue"
named_theorems io_run "what the primitive actions of the effect monad do"

section \<open>Strings\<close>

subsection \<open>Searching and splitting\<close>

fun str_index :: "string \<Rightarrow> string \<Rightarrow> nat option" where
  "str_index sub [] = (if sub = [] then Some 0 else None)"
| "str_index sub (c # s) =
     (if prefix sub (c # s) then Some 0 else map_option Suc (str_index sub s))"

fun str_last_index :: "string \<Rightarrow> string \<Rightarrow> nat option" where
  "str_last_index sub [] = (if sub = [] then Some 0 else None)"
| "str_last_index sub (c # s) =
     (case str_last_index sub s of
        Some i \<Rightarrow> Some (Suc i)
      | None \<Rightarrow> (if prefix sub (c # s) then Some 0 else None))"

definition str_contains :: "string \<Rightarrow> string \<Rightarrow> bool" where
  "str_contains s sub \<longleftrightarrow> str_index sub s \<noteq> None"

definition str_cut :: "string \<Rightarrow> string \<Rightarrow> (string \<times> string) option" where
  "str_cut s sep =
     map_option (\<lambda>i. (take i s, drop (i + length sep) s)) (str_index sep s)"

definition trim_suffix :: "string \<Rightarrow> string \<Rightarrow> string" where
  "trim_suffix s p = (if suffix p s then take (length s - length p) s else s)"

definition trim_prefix :: "string \<Rightarrow> string \<Rightarrow> string" where
  "trim_prefix s p = (if prefix p s then drop (length p) s else s)"

fun split_lines :: "string \<Rightarrow> string list" where
  "split_lines [] = [[]]"
| "split_lines (c # s) =
     (if c = CHR 0x0A then [] # split_lines s
      else (case split_lines s of
              [] \<Rightarrow> [[c]]
            | l # ls \<Rightarrow> (c # l) # ls))"

fun str_join :: "string list \<Rightarrow> string \<Rightarrow> string" where
  "str_join [] sep = []"
| "str_join [s] sep = s"
| "str_join (s # t # ss) sep = s @ sep @ str_join (t # ss) sep"

lemma str_index_bound:
  "str_index sub s = Some i \<Longrightarrow> i + length sub \<le> length s"
proof (induction sub s arbitrary: i rule: str_index.induct)
  case (2 sub c s)
  then show ?case by (fastforce split: if_splits dest: prefix_length_le)
qed (auto split: if_splits)

lemma str_index_prefix:
  "str_index sub s = Some i \<Longrightarrow> prefix sub (drop i s)"
proof (induction sub s arbitrary: i rule: str_index.induct)
  case (2 sub c s)
  then show ?case by (auto split: if_splits)
qed (auto split: if_splits)

lemma str_index_least:
  "str_index sub s = Some i \<Longrightarrow> j < i \<Longrightarrow> \<not> prefix sub (drop j s)"
proof (induction sub s arbitrary: i j rule: str_index.induct)
  case (2 sub c s)
  then show ?case by (cases j) (auto split: if_splits)
qed (auto split: if_splits)

lemma str_index_None:
  "str_index sub s = None \<Longrightarrow> \<not> prefix sub (drop j s)"
proof (induction sub s arbitrary: j rule: str_index.induct)
  case (2 sub c s)
  then show ?case by (cases j) (auto split: if_splits)
qed (auto split: if_splits)

lemma str_last_index_prefix:
  "str_last_index sub s = Some i \<Longrightarrow> prefix sub (drop i s)"
proof (induction sub s arbitrary: i rule: str_last_index.induct)
  case (2 sub c s)
  then show ?case by (auto split: if_splits option.splits)
qed (auto split: if_splits)

lemma str_last_index_bound:
  assumes "str_last_index sub s = Some i"
  shows "i + length sub \<le> length s"
  using assms
proof (induction sub s arbitrary: i rule: str_last_index.induct)
  case (2 sub c s)
  then show ?case by (fastforce split: if_splits option.splits dest: prefix_length_le)
qed (auto split: if_splits)

lemma str_last_index_greatest:
  "str_last_index sub s = Some i \<Longrightarrow> i < j \<Longrightarrow> j \<le> length s \<Longrightarrow> \<not> prefix sub (drop j s)"
proof (induction sub s arbitrary: i j rule: str_last_index.induct)
  case (2 sub c s)
  have none: "\<And>j. str_last_index sub s = None \<Longrightarrow> j \<le> length s \<Longrightarrow> \<not> prefix sub (drop j s)"
  proof -
    fix j show "str_last_index sub s = None \<Longrightarrow> j \<le> length s \<Longrightarrow> \<not> prefix sub (drop j s)"
      by (induction s arbitrary: j) (auto split: option.splits if_splits simp: drop_Cons')
  qed
  show ?case
    using 2 none by (cases j) (auto split: if_splits option.splits)
qed (auto split: if_splits)

lemma str_last_index_None:
  "str_last_index sub s = None \<Longrightarrow> j \<le> length s \<Longrightarrow> \<not> prefix sub (drop j s)"
proof (induction sub s arbitrary: j rule: str_last_index.induct)
  case (2 sub c s)
  then show ?case by (cases j) (auto split: if_splits option.splits)
qed (auto split: if_splits)

lemma split_lines_nonempty [simp]: "split_lines s \<noteq> []"
  by (induction s rule: split_lines.induct) (auto split: list.splits)

lemma split_lines_no_newline:
  "l \<in> set (split_lines s) \<Longrightarrow> CHR 0x0A \<notin> set l"
proof (induction s arbitrary: l rule: split_lines.induct)
  case (2 c s)
  then show ?case by (auto split: list.splits if_splits)
qed simp

lemma join_split_lines [go_string]: "str_join (split_lines s) [CHR 0x0A] = s"
proof (induction s rule: split_lines.induct)
  case (2 c s)
  then show ?case
    by (cases "split_lines s"; cases "tl (split_lines s)") auto
qed simp

subsection \<open>White space and letter case\<close>

text \<open>
  \<^verbatim>\<open>strings.TrimSpace\<close> removes Unicode white space, listed here by its UTF-8 encoding.
  Letter case is modelled on ASCII letters; other bytes are left alone.
\<close>

definition space_runes :: "string list" where
  "space_runes =
     [[CHR 0x09], [CHR 0x0A], [CHR 0x0B], [CHR 0x0C], [CHR 0x0D], [CHR 0x20],
      [CHR 0xC2, CHR 0x85], [CHR 0xC2, CHR 0xA0], [CHR 0xE1, CHR 0x9A, CHR 0x80],
      [CHR 0xE2, CHR 0x80, CHR 0x80], [CHR 0xE2, CHR 0x80, CHR 0x81],
      [CHR 0xE2, CHR 0x80, CHR 0x82], [CHR 0xE2, CHR 0x80, CHR 0x83],
      [CHR 0xE2, CHR 0x80, CHR 0x84], [CHR 0xE2, CHR 0x80, CHR 0x85],
      [CHR 0xE2, CHR 0x80, CHR 0x86], [CHR 0xE2, CHR 0x80, CHR 0x87],
      [CHR 0xE2, CHR 0x80, CHR 0x88], [CHR 0xE2, CHR 0x80, CHR 0x89],
      [CHR 0xE2, CHR 0x80, CHR 0x8A], [CHR 0xE2, CHR 0x80, CHR 0xA8],
      [CHR 0xE2, CHR 0x80, CHR 0xA9], [CHR 0xE2, CHR 0x80, CHR 0xAF],
      [CHR 0xE2, CHR 0x81, CHR 0x9F], [CHR 0xE3, CHR 0x80, CHR 0x80]]"

definition leading_rune :: "string list \<Rightarrow> string \<Rightarrow> string option" where
  "leading_rune rs s = List.find (\<lambda>r. r \<noteq> [] \<and> prefix r s) rs"

lemma leading_rune_Some:
  "leading_rune rs s = Some r \<Longrightarrow> r \<in> set rs \<and> r \<noteq> [] \<and> prefix r s"
  by (auto simp: leading_rune_def find_Some_iff)

function trim_front :: "string list \<Rightarrow> string \<Rightarrow> string" where
  "trim_front rs s =
     (case leading_rune rs s of
        None \<Rightarrow> s
      | Some r \<Rightarrow> trim_front rs (drop (length r) s))"
  by pat_completeness auto
termination
  by (relation "measure (\<lambda>(rs, s). length s)")
    (auto dest!: leading_rune_Some simp: neq_Nil_conv prefix_def)

declare trim_front.simps [simp del]

definition trim_space :: "string \<Rightarrow> string" where
  "trim_space s = rev (trim_front (map rev space_runes) (rev (trim_front space_runes s)))"

lemma trim_front_suffix: "suffix (trim_front rs s) s"
proof (induction rs s rule: trim_front.induct)
  case (1 rs s)
  then show ?case
    by (cases "leading_rune rs s")
      (auto simp: trim_front.simps [of rs s] intro: suffix_order.trans suffix_drop)
qed

lemma trim_front_clean: "leading_rune rs (trim_front rs s) = None"
proof (induction rs s rule: trim_front.induct)
  case (1 rs s)
  then show ?case by (cases "leading_rune rs s") (auto simp: trim_front.simps [of rs s])
qed

lemma trim_front_id: "leading_rune rs s = None \<Longrightarrow> trim_front rs s = s"
  by (simp add: trim_front.simps)

lemma trim_front_idem [simp]: "trim_front rs (trim_front rs s) = trim_front rs s"
  by (simp add: trim_front_id trim_front_clean)

definition lower_char :: "char \<Rightarrow> char" where
  "lower_char c =
     (if 65 \<le> (of_char c :: nat) \<and> (of_char c :: nat) \<le> 90
      then char_of ((of_char c :: nat) + 32) else c)"

definition to_lower :: "string \<Rightarrow> string" where
  "to_lower s = map lower_char s"

lemma lower_char_idem [simp]: "lower_char (lower_char c) = lower_char c"
  by (auto simp: lower_char_def)

lemma to_lower_idem [simp]: "to_lower (to_lower s) = to_lower s"
  by (simp add: to_lower_def)

definition trim_right_set :: "char list \<Rightarrow> string \<Rightarrow> string" where
  "trim_right_set cs s = rev (dropWhile (\<lambda>c. c \<in> set cs) (rev s))"

lemma trim_right_set_length: "length (trim_right_set cs s) \<le> length s"
  by (simp add: trim_right_set_def) (metis length_dropWhile_le length_rev)

lemma trim_right_set_prefix: "prefix (trim_right_set cs s) s"
  by (metis trim_right_set_def suffix_dropWhile suffix_to_prefix rev_rev_ident)

subsection \<open>Numbers\<close>

definition digit_char :: "nat \<Rightarrow> char" where
  "digit_char d = char_of (48 + d)"

definition digit_value :: "char \<Rightarrow> nat option" where
  "digit_value c =
     (let n = of_char c in if 48 \<le> n \<and> n \<le> 57 then Some (n - 48) else None)"

lemma digit_value_char [simp]: "d < 10 \<Longrightarrow> digit_value (digit_char d) = Some d"
  by (simp add: digit_value_def digit_char_def Let_def)

fun show_nat :: "nat \<Rightarrow> string" where
  "show_nat n = (if n < 10 then [digit_char n]
                 else show_nat (n div 10) @ [digit_char (n mod 10)])"

declare show_nat.simps [simp del]

text \<open>\<^verbatim>\<open>strconv.Itoa\<close> and the \<^verbatim>\<open>%d\<close> verb.\<close>

definition itoa :: "int \<Rightarrow> string" where
  "itoa i = (if i < 0 then ''-'' @ show_nat (nat (- i)) else show_nat (nat i))"

fun parse_digits :: "nat \<Rightarrow> string \<Rightarrow> nat option" where
  "parse_digits acc [] = Some acc"
| "parse_digits acc (c # s) =
     (case digit_value c of None \<Rightarrow> None | Some d \<Rightarrow> parse_digits (10 * acc + d) s)"

text \<open>
  \<^verbatim>\<open>strconv.Atoi\<close> and \<^verbatim>\<open>strconv.ParseInt(s, 10, 64)\<close>: an optional sign, at least one
  digit, and a value in the range of \<^verbatim>\<open>int64\<close>; \<open>None\<close> is the error.
\<close>

definition max_int64 :: int where "max_int64 = 9223372036854775807"

definition parse_decimal :: "string \<Rightarrow> int option" where
  "parse_decimal s =
     (let (neg, ds) = (case s of
            [] \<Rightarrow> (False, [])
          | c # r \<Rightarrow> if c = CHR ''-'' then (True, r)
                    else if c = CHR ''+'' then (False, r) else (False, s))
      in if ds = [] then None
         else map_option (\<lambda>n. if neg then - int n else int n) (parse_digits 0 ds))"

definition parse_int :: "string \<Rightarrow> int option" where
  "parse_int s =
     (case parse_decimal s of
        None \<Rightarrow> None
      | Some v \<Rightarrow> if - max_int64 - 1 \<le> v \<and> v \<le> max_int64 then Some v else None)"

text \<open>
  The value \<^verbatim>\<open>strconv.Atoi\<close> returns next to its error: zero for a malformed number and
  the nearest bound for one that is out of range.
\<close>

definition atoi_value :: "string \<Rightarrow> int" where
  "atoi_value s =
     (case parse_decimal s of
        None \<Rightarrow> 0
      | Some v \<Rightarrow> if v < - max_int64 - 1 then - max_int64 - 1
                  else if max_int64 < v then max_int64 else v)"

lemma show_nat_nonempty [simp]: "show_nat n \<noteq> []"
  by (subst show_nat.simps) simp

lemma parse_digits_append:
  "parse_digits acc (s @ t) =
     (case parse_digits acc s of None \<Rightarrow> None | Some a \<Rightarrow> parse_digits a t)"
  by (induction acc s rule: parse_digits.induct) (auto split: option.splits)

lemma parse_digits_show_nat [go_string]: "parse_digits 0 (show_nat n) = Some n"
proof (induction n rule: show_nat.induct)
  case (1 n)
  show ?case
  proof (cases "n < 10")
    case True
    then show ?thesis by (simp add: show_nat.simps [of n])
  next
    case False
    with 1 show ?thesis
      by (subst show_nat.simps) (simp add: parse_digits_append)
  qed
qed

lemma show_nat_hd: "\<exists>d < 10. hd (show_nat n) = digit_char d"
proof (induction n rule: show_nat.induct)
  case (1 n)
  then show ?case by (subst show_nat.simps) (auto simp: hd_append)
qed

lemma digit_char_not_sign: "d < 10 \<Longrightarrow> digit_char d \<noteq> CHR ''-'' \<and> digit_char d \<noteq> CHR ''+''"
  by (auto simp: digit_char_def dest: arg_cong [where f = "of_char :: char \<Rightarrow> nat"])

lemma parse_int_itoa [go_string]:
  assumes "0 \<le> i" and "i \<le> max_int64"
  shows "parse_int (itoa i) = Some i"
proof -
  obtain d where d: "d < 10" "hd (show_nat (nat i)) = digit_char d"
    using show_nat_hd by blast
  obtain c r where cr: "show_nat (nat i) = c # r"
    by (cases "show_nat (nat i)") auto
  with d have "c \<noteq> CHR ''-''" "c \<noteq> CHR ''+''" using digit_char_not_sign by auto
  moreover have "parse_digits 0 (c # r) = Some (nat i)"
    using parse_digits_show_nat [of "nat i"] cr by simp
  ultimately show ?thesis
    using assms cr by (simp add: parse_int_def parse_decimal_def itoa_def max_int64_def)
qed

lemma atoi_value_parse: "parse_int s = Some v \<Longrightarrow> atoi_value s = v"
  by (auto simp: parse_int_def atoi_value_def split: option.splits if_splits)

lemma itoa_inj: "0 \<le> i \<Longrightarrow> 0 \<le> j \<Longrightarrow> itoa i = itoa j \<Longrightarrow> i = j"
  by (metis itoa_def nat_eq_iff2 not_less option.inject parse_digits_show_nat int_nat_eq)

text \<open>Two's complement wrap-around of \<^verbatim>\<open>int64\<close> and \<^verbatim>\<open>int32\<close> arithmetic.\<close>

definition wrap64 :: "int \<Rightarrow> int" where
  "wrap64 x = (x + 2 ^ 63) mod 2 ^ 64 - 2 ^ 63"

definition wrap32 :: "int \<Rightarrow> int" where
  "wrap32 x = (x + 2 ^ 31) mod 2 ^ 32 - 2 ^ 31"

lemma wrap64_id: "- (2 ^ 63) \<le> x \<Longrightarrow> x < 2 ^ 63 \<Longrightarrow> wrap64 x = x"
  by (simp add: wrap64_def)

lemma wrap32_id: "- (2 ^ 31) \<le> x \<Longrightarrow> x < 2 ^ 31 \<Longrightarrow> wrap32 x = x"
  by (simp add: wrap32_def)

lemma wrap64_range: "- (2 ^ 63) \<le> wrap64 x \<and> wrap64 x < 2 ^ 63"
  by (simp add: wrap64_def)

subsection \<open>Quoting\<close>

text \<open>
  The \<^verbatim>\<open>%q\<close> verb. Printable ASCII is kept, the escapes of \<^verbatim>\<open>strconv.Quote\<close> are written
  out, and bytes from 0x80 on are kept, as they are for printable characters in UTF-8.
\<close>

definition hex_char :: "nat \<Rightarrow> char" where
  "hex_char d = (if d < 10 then char_of (48 + d) else char_of (87 + d))"

definition quote_char :: "char \<Rightarrow> string" where
  "quote_char c =
     (if c = CHR 0x22 then [CHR 0x5C, CHR 0x22]
      else if c = CHR 0x5C then [CHR 0x5C, CHR 0x5C]
      else if c = CHR 0x07 then [CHR 0x5C, CHR ''a'']
      else if c = CHR 0x08 then [CHR 0x5C, CHR ''b'']
      else if c = CHR 0x0C then [CHR 0x5C, CHR ''f'']
      else if c = CHR 0x0A then [CHR 0x5C, CHR ''n'']
      else if c = CHR 0x0D then [CHR 0x5C, CHR ''r'']
      else if c = CHR 0x09 then [CHR 0x5C, CHR ''t'']
      else if c = CHR 0x0B then [CHR 0x5C, CHR ''v'']
      else if (of_char c :: nat) < 32 \<or> (of_char c :: nat) = 127
        then [CHR 0x5C, CHR ''x'', hex_char (of_char c div 16), hex_char (of_char c mod 16)]
      else [c])"

definition quote :: "string \<Rightarrow> string" where
  "quote s = [CHR 0x22] @ concat (map quote_char s) @ [CHR 0x22]"

section \<open>Maps\<close>

type_synonym strmap = "(string \<times> string) list"

text \<open>\<^verbatim>\<open>m[k] = v\<close>, \<^verbatim>\<open>delete(m, k)\<close> and the zero-value read \<^verbatim>\<open>m[k]\<close>.\<close>

abbreviation map_put :: "'k \<Rightarrow> 'v \<Rightarrow> ('k \<times> 'v) list \<Rightarrow> ('k \<times> 'v) list" where
  "map_put \<equiv> AList.update"

abbreviation map_del :: "'k \<Rightarrow> ('k \<times> 'v) list \<Rightarrow> ('k \<times> 'v) list" where
  "map_del \<equiv> AList.delete"

definition map_str :: "('k \<times> string) list \<Rightarrow> 'k \<Rightarrow> string" where
  "map_str m k = (case map_of m k of None \<Rightarrow> [] | Some v \<Rightarrow> v)"

lemma map_str_put [simp]: "map_str (map_put k v m) k' = (if k = k' then v else map_str m k')"
  by (simp add: map_str_def update_conv')

section \<open>Errors\<close>

text \<open>
  A Go \<^verbatim>\<open>error\<close> keeps the reason the API machinery attaches to it, which
  \<^verbatim>\<open>apierrors.IsNotFound\<close> and its kin read through any number of \<^verbatim>\<open>%w\<close> wrappers, and
  its text. \<open>OtherStatus\<close> is an API error with a reason that no code asks for, \<open>OtherErr\<close> an
  error that no API error is in.
\<close>

datatype err_kind = NotFound | AlreadyExists | Conflict | BadRequest | OtherStatus | OtherErr

datatype go_err = GoErr (err_kind: err_kind) (err_text: string)

definition new_err :: "string \<Rightarrow> go_err" where
  "new_err t = GoErr OtherErr t"

definition wrap_err :: "string \<Rightarrow> go_err \<Rightarrow> go_err" where
  "wrap_err t e = GoErr (err_kind e) (t @ '': '' @ err_text e)"

definition is_not_found :: "go_err \<Rightarrow> bool" where
  "is_not_found e \<longleftrightarrow> err_kind e = NotFound"

definition is_bad_request :: "go_err \<Rightarrow> bool" where
  "is_bad_request e \<longleftrightarrow> err_kind e = BadRequest"

definition is_already_exists :: "go_err \<Rightarrow> bool" where
  "is_already_exists e \<longleftrightarrow> err_kind e = AlreadyExists"

text \<open>
  \<^verbatim>\<open>errors.Join\<close>: the texts on lines of their own; the reason is that of the first API error.
\<close>

definition join_errs :: "go_err list \<Rightarrow> go_err option" where
  "join_errs es =
     (if es = [] then None
      else Some (GoErr (case List.find (\<lambda>k. k \<noteq> OtherErr) (map err_kind es) of None \<Rightarrow> OtherErr | Some k \<Rightarrow> k)
             (str_join (map err_text es) [CHR 0x0A])))"

lemma wrap_err_kind [simp]: "err_kind (wrap_err t e) = err_kind e"
  by (simp add: wrap_err_def)

section \<open>Durations\<close>

abbreviation seconds :: "int \<Rightarrow> int" where
  "seconds n \<equiv> n * 1000000000"

abbreviation minutes :: "int \<Rightarrow> int" where
  "minutes n \<equiv> seconds (60 * n)"

end
