(* ===== verification/GoText.thy ===== *)
theory GoText
  imports Prelude
begin

text \<open>
  More of Go's standard library on texts: splitting, runes, \<^verbatim>\<open>path.Clean\<close>, base64, the encoding of
  strings by \<^verbatim>\<open>encoding/json\<close>, and quoting for a shell.
\<close>

section \<open>Splitting at a character\<close>

fun split_char :: "char \<Rightarrow> string \<Rightarrow> string list" where
  "split_char d [] = [[]]"
| "split_char d (c # s) =
     (if c = d then [] # split_char d s
      else (case split_char d s of [] \<Rightarrow> [[c]] | l # ls \<Rightarrow> (c # l) # ls))"

lemma split_char_nonempty [simp]: "split_char d s \<noteq> []"
  by (induction d s rule: split_char.induct) (auto split: list.splits)

lemma split_char_parts: "l \<in> set (split_char d s) \<Longrightarrow> d \<notin> set l \<and> set l \<subseteq> set s"
proof (induction d s arbitrary: l rule: split_char.induct)
  case (2 d c s)
  then show ?case by (force split: list.splits if_splits)
qed simp

lemma split_char_none: "d \<notin> set s \<Longrightarrow> split_char d s = [s]"
  by (induction d s rule: split_char.induct) auto

lemma split_char_sep: "d \<notin> set a \<Longrightarrow> split_char d (a @ d # s) = a # split_char d s"
  by (induction a) auto

lemma split_join [go_string]:
  assumes "ls \<noteq> []" and "\<forall>l \<in> set ls. d \<notin> set l"
  shows "split_char d (str_join ls [d]) = ls"
  using assms
proof (induction ls rule: induct_list012)
  case (3 x y zs)
  then show ?case by (simp add: split_char_sep)
qed (simp_all add: split_char_none)

lemma join_split [go_string]: "str_join (split_char d s) [d] = s"
proof (induction d s rule: split_char.induct)
  case (2 d c s)
  then show ?case
    by (cases "split_char d s"; cases "tl (split_char d s)") (auto split: if_splits)
qed simp

section \<open>Runes\<close>


text \<open>
  The width of the rune that a string starts with, as \<^verbatim>\<open>utf8.DecodeRune\<close> finds it: a byte that
  does not start a valid encoding is a rune of its own.
\<close>

definition byte_in :: "nat \<Rightarrow> nat \<Rightarrow> char \<Rightarrow> bool" where
  "byte_in lo hi c \<longleftrightarrow> lo \<le> (of_char c :: nat) \<and> (of_char c :: nat) \<le> hi"

fun rune_width :: "string \<Rightarrow> nat" where
  "rune_width [] = 0"
| "rune_width (a # s) =
     (case s of
        [] \<Rightarrow> 1
      | b # s' \<Rightarrow>
          if byte_in 0xC2 0xDF a then (if byte_in 0x80 0xBF b then 2 else 1)
          else (case s' of
             [] \<Rightarrow> 1
           | c # s'' \<Rightarrow>
               if (byte_in 0xE0 0xE0 a \<and> byte_in 0xA0 0xBF b
                   \<or> byte_in 0xE1 0xEC a \<and> byte_in 0x80 0xBF b
                   \<or> byte_in 0xED 0xED a \<and> byte_in 0x80 0x9F b
                   \<or> byte_in 0xEE 0xEF a \<and> byte_in 0x80 0xBF b) \<and> byte_in 0x80 0xBF c then 3
               else (case s'' of
                  [] \<Rightarrow> 1
                | d # _ \<Rightarrow>
                    if (byte_in 0xF0 0xF0 a \<and> byte_in 0x90 0xBF b
                        \<or> byte_in 0xF1 0xF3 a \<and> byte_in 0x80 0xBF b
                        \<or> byte_in 0xF4 0xF4 a \<and> byte_in 0x80 0x8F b)
                       \<and> byte_in 0x80 0xBF c \<and> byte_in 0x80 0xBF d then 4 else 1)))"

lemma rune_width_pos: "s \<noteq> [] \<Longrightarrow> 0 < rune_width s"
  by (cases s) (auto split: list.splits)

function go_runes :: "string \<Rightarrow> string list" where
  "go_runes s = (if s = [] then [] else take (rune_width s) s # go_runes (drop (rune_width s) s))"
  by pat_completeness auto
termination
  by (relation "measure length") (auto simp: rune_width_pos)

declare go_runes.simps [simp del]

section \<open>Paths\<close>

text \<open>
  \<^verbatim>\<open>path.Clean\<close>: empty segments and dots are dropped, two dots take back the segment before them,
  and what would lead above the root of an absolute path is dropped as well. The segments kept so
  far are in reverse order.
\<close>

fun clean_segments :: "bool \<Rightarrow> string list \<Rightarrow> string list \<Rightarrow> string list" where
  "clean_segments rooted kept [] = rev kept"
| "clean_segments rooted kept (s # rest) =
     (if s = [] \<or> s = ''.'' then clean_segments rooted kept rest
      else if s = ''..'' then
        (case kept of
           [] \<Rightarrow> clean_segments rooted (if rooted then [] else [s]) rest
         | k # ks \<Rightarrow> if k = ''..'' then clean_segments rooted (s # kept) rest
                     else clean_segments rooted ks rest)
      else clean_segments rooted (s # kept) rest)"

definition path_clean :: "string \<Rightarrow> string" where
  "path_clean p =
     (let rooted = prefix ''/'' p; segments = clean_segments rooted [] (split_char (CHR ''/'') p)
      in if rooted then ''/'' @ str_join segments ''/''
         else if segments = [] then ''.'' else str_join segments ''/'')"

section \<open>Base64\<close>

definition base64_char :: "nat \<Rightarrow> char" where
  "base64_char n =
     (if n < 26 then char_of (65 + n) else if n < 52 then char_of (71 + n)
      else if n < 62 then char_of (n - 4) else if n = 62 then CHR ''+'' else CHR ''/'')"

abbreviation byte :: "char \<Rightarrow> nat" where
  "byte \<equiv> of_char"

text \<open>\<^verbatim>\<open>base64.StdEncoding.EncodeToString\<close>.\<close>

fun base64 :: "string \<Rightarrow> string" where
  "base64 [] = []"
| "base64 [a] = [base64_char (byte a div 4), base64_char (byte a mod 4 * 16), CHR ''='', CHR ''='']"
| "base64 [a, b] =
     [base64_char (byte a div 4), base64_char (byte a mod 4 * 16 + byte b div 16),
      base64_char (byte b mod 16 * 4), CHR ''='']"
| "base64 (a # b # c # s) =
     [base64_char (byte a div 4), base64_char (byte a mod 4 * 16 + byte b div 16),
      base64_char (byte b mod 16 * 4 + byte c div 64), base64_char (byte c mod 64)] @ base64 s"

section \<open>JSON\<close>

definition upper_hex :: "nat \<Rightarrow> char" where
  "upper_hex d = (if d < 10 then char_of (48 + d) else char_of (55 + d))"

text \<open>
  \<^verbatim>\<open>json.Marshal\<close> of a string: the characters of HTML are escaped too, and what is not UTF-8 becomes
  the replacement character.
\<close>

definition json_byte :: "char \<Rightarrow> string" where
  "json_byte c =
     (if c = CHR 0x22 \<or> c = CHR 0x5C then [CHR 0x5C, c]
      else if c = CHR 0x08 then [CHR 0x5C, CHR ''b'']
      else if c = CHR 0x0C then [CHR 0x5C, CHR ''f'']
      else if c = CHR 0x0A then [CHR 0x5C, CHR ''n'']
      else if c = CHR 0x0D then [CHR 0x5C, CHR ''r'']
      else if c = CHR 0x09 then [CHR 0x5C, CHR ''t'']
      else if byte c < 32 \<or> c \<in> set ''<>&''
        then [CHR 0x5C] @ ''u00'' @ [hex_char (byte c div 16), hex_char (byte c mod 16)]
      else [c])"

definition json_rune :: "string \<Rightarrow> string" where
  "json_rune r =
     (case r of
        [c] \<Rightarrow> if byte c < 128 then json_byte c else [CHR 0x5C] @ ''ufffd''
      | _ \<Rightarrow> if r = [CHR 0xE2, CHR 0x80, CHR 0xA8] then [CHR 0x5C] @ ''u2028''
             else if r = [CHR 0xE2, CHR 0x80, CHR 0xA9] then [CHR 0x5C] @ ''u2029''
             else r)"

definition json_string :: "string \<Rightarrow> string" where
  "json_string s = [CHR 0x22] @ concat (map json_rune (go_runes s)) @ [CHR 0x22]"

definition json_list :: "string list \<Rightarrow> string" where
  "json_list xs = ''['' @ str_join xs '','' @ '']''"

definition json_fields :: "(string \<times> string) list \<Rightarrow> string" where
  "json_fields fs = ''{'' @ str_join (map (\<lambda>(k, v). json_string k @ '':'' @ v) fs) '','' @ ''}''"

text \<open>A Go map is written with its keys in order.\<close>

definition json_strmap :: "strmap \<Rightarrow> string" where
  "json_strmap m =
     json_fields (map (\<lambda>k. (k, json_string (map_str m k))) (sort (remdups (map fst m))))"

section \<open>Shell words\<close>

text \<open>\<^verbatim>\<open>shellQuote\<close> of \<^verbatim>\<open>job_builder.go\<close>: a quote ends the quoted text, stands between double quotes, and
  the quoted text goes on.\<close>

definition shellQuote :: "string \<Rightarrow> string" where
  "shellQuote value =
     [CHR 0x27] @ concat (map (\<lambda>c. if c = CHR 0x27 then [CHR 0x27, CHR 0x22, CHR 0x27, CHR 0x22, CHR 0x27]
       else [c]) value) @ [CHR 0x27]"

text \<open>A text between quotes, and lines put together.\<close>

abbreviation dquoted :: "string \<Rightarrow> string" where
  "dquoted s \<equiv> [CHR 0x22] @ s @ [CHR 0x22]"

abbreviation squoted :: "string \<Rightarrow> string" where
  "squoted s \<equiv> [CHR 0x27] @ s @ [CHR 0x27]"

abbreviation unlines :: "string list \<Rightarrow> string" where
  "unlines ls \<equiv> str_join ls [CHR 0x0A]"

end
