(* ===== verification/GitRepo.thy ===== *)
theory GitRepo
  imports GoText
begin

text \<open>
  What the controllers read off the URL of a repository, \<^verbatim>\<open>parseGitHubRepo\<close> and
  \<^verbatim>\<open>gitHubAPIBaseURL\<close> of \<^verbatim>\<open>internal/controller/taskspawner_deployment_builder.go\<close>, with the part of
  \<^verbatim>\<open>net/url\<close> that they use.
\<close>

section \<open>Hosts of URLs\<close>

definition is_alpha :: "char \<Rightarrow> bool" where
  "is_alpha c \<longleftrightarrow> byte_in 97 122 c \<or> byte_in 65 90 c"

definition is_digit :: "char \<Rightarrow> bool" where
  "is_digit c \<longleftrightarrow> byte_in 48 57 c"

text \<open>The value of a hexadecimal digit.\<close>

definition unhex :: "char \<Rightarrow> nat option" where
  "unhex c =
     (if is_digit c then Some (byte c - 48)
      else if byte_in 97 102 c then Some (byte c - 87)
      else if byte_in 65 70 c then Some (byte c - 55) else None)"

text \<open>The bytes that \<^verbatim>\<open>shouldEscape\<close> leaves alone in a host.\<close>

definition host_char :: "char \<Rightarrow> bool" where
  "host_char c \<longleftrightarrow> is_alpha c \<or> is_digit c \<or> c \<in> set ''!$&()*+,;=:[]<>-_.~'' \<or> c = CHR 0x27 \<or> c = CHR 0x22"

text \<open>
  \<^verbatim>\<open>unescape\<close>: \<open>bad v h\<close> refuses an escape of the byte \<open>v\<close>, \<open>plain c\<close> accepts an unescaped one.
\<close>

fun url_unescape :: "(nat \<Rightarrow> bool) \<Rightarrow> (char \<Rightarrow> bool) \<Rightarrow> string \<Rightarrow> string option" where
  "url_unescape bad plain [] = Some []"
| "url_unescape bad plain (c # s) =
     (if c = CHR 0x25 then
        (case s of
           a # b # s' \<Rightarrow>
             (case (unhex a, unhex b) of
                (Some h, Some l) \<Rightarrow>
                  if bad (16 * h + l) then None
                  else map_option (Cons (char_of (16 * h + l))) (url_unescape bad plain s')
              | _ \<Rightarrow> None)
         | _ \<Rightarrow> None)
      else if plain c then map_option (Cons c) (url_unescape bad plain s) else None)"

definition unescape_text :: "string \<Rightarrow> string option" where
  "unescape_text = url_unescape (\<lambda>v. False) (\<lambda>c. True)"

definition unescape_host :: "string \<Rightarrow> string option" where
  "unescape_host = url_unescape (\<lambda>v. v < 128 \<and> v \<noteq> 0x25) (\<lambda>c. 128 \<le> byte c \<or> host_char c)"

definition unescape_zone :: "string \<Rightarrow> string option" where
  "unescape_zone = url_unescape (\<lambda>v. v \<noteq> 0x25 \<and> v \<noteq> 0x20 \<and> \<not> host_char (char_of v))
     (\<lambda>c. 128 \<le> byte c \<or> host_char c)"

definition validOptionalPort :: "string \<Rightarrow> bool" where
  "validOptionalPort port =
     (case port of [] \<Rightarrow> True | c # s \<Rightarrow> c = CHR '':'' \<and> list_all is_digit s)"

definition validUserinfo :: "string \<Rightarrow> bool" where
  "validUserinfo s \<longleftrightarrow>
     list_all (\<lambda>c. is_alpha c \<or> is_digit c \<or> c \<in> set ''-._:~!$&()*+,;=%@'' \<or> c = CHR 0x27) s"

definition parseHost :: "string \<Rightarrow> string option" where
  "parseHost host =
     (if prefix ''['' host then
        (case str_last_index '']'' host of
           None \<Rightarrow> None
         | Some i \<Rightarrow>
             if \<not> validOptionalPort (drop (Suc i) host) then None
             else (case str_index ''%25'' (take i host) of
                     None \<Rightarrow> unescape_host host
                   | Some z \<Rightarrow>
                       (case (unescape_host (take z host), unescape_zone (drop z (take i host)),
                              unescape_host (drop i host)) of
                          (Some a, Some b, Some c) \<Rightarrow> Some (a @ b @ c)
                        | _ \<Rightarrow> None)))
      else (case str_last_index '':'' host of
              None \<Rightarrow> unescape_host host
            | Some i \<Rightarrow> if validOptionalPort (drop i host) then unescape_host host else None))"

definition parseAuthority :: "string \<Rightarrow> string option" where
  "parseAuthority authority =
     (case str_last_index ''@'' authority of
        None \<Rightarrow> parseHost authority
      | Some i \<Rightarrow>
          (let user = take i authority
           in case parseHost (drop (Suc i) authority) of
                None \<Rightarrow> None
              | Some host \<Rightarrow>
                  if \<not> validUserinfo user then None
                  else (case str_cut user '':'' of
                          None \<Rightarrow> (if unescape_text user = None then None else Some host)
                        | Some (name, password) \<Rightarrow>
                            if unescape_text name = None \<or> unescape_text password = None then None
                            else Some host)))"

text \<open>\<^verbatim>\<open>getScheme\<close>: the scheme, empty if there is none, and the rest of the URL.\<close>

fun url_scheme :: "string \<Rightarrow> string \<Rightarrow> string \<Rightarrow> (string \<times> string) option" where
  "url_scheme raw seen [] = Some ([], raw)"
| "url_scheme raw seen (c # s) =
     (if is_alpha c then url_scheme raw (seen @ [c]) s
      else if is_digit c \<or> c \<in> set ''+-.'' then
        (if seen = [] then Some ([], raw) else url_scheme raw (seen @ [c]) s)
      else if c = CHR '':'' then (if seen = [] then None else Some (seen, s))
      else Some ([], raw))"

text \<open>The host that \<^verbatim>\<open>url.Parse\<close> finds; \<open>None\<close> is a parse error.\<close>

definition before_query :: "string \<Rightarrow> string" where
  "before_query rest =
     (if suffix ''?'' rest \<and> count_list rest (CHR ''?'') = 1 then butlast rest
      else takeWhile (\<lambda>c. c \<noteq> CHR ''?'') rest)"

definition split_authority :: "string \<Rightarrow> string \<times> string" where
  "split_authority s = (takeWhile (\<lambda>c. c \<noteq> CHR ''/'') s, dropWhile (\<lambda>c. c \<noteq> CHR ''/'') s)"

definition url_host :: "string \<Rightarrow> string option" where
  "url_host raw =
     (let (u, frag) = (case str_cut raw ''#'' of None \<Rightarrow> (raw, []) | Some x \<Rightarrow> x)
      in if unescape_text frag = None \<or> list_ex (\<lambda>c. byte c < 32 \<or> byte c = 127) u then None
         else if u = ''*'' then Some []
         else (case url_scheme u [] u of
                 None \<Rightarrow> None
               | Some (scheme, rest) \<Rightarrow>
                   (let rest = before_query rest
                    in if \<not> prefix ''/'' rest \<and> scheme \<noteq> [] then Some []
                       else if \<not> prefix ''/'' rest \<and> CHR '':'' \<in> set (fst (split_authority rest)) then None
                       else if prefix ''//'' rest \<and> (scheme \<noteq> [] \<or> \<not> prefix ''///'' rest) then
                         (let (authority, p) = split_authority (drop 2 rest)
                          in case parseAuthority authority of
                               None \<Rightarrow> None
                             | Some host \<Rightarrow> if unescape_text p = None then None else Some host)
                       else if unescape_text rest = None then None else Some [])))"

section \<open>Repositories\<close>

text \<open>
  The two regular expressions, matched at a given place: host, owner and repository, of which the
  last ends before a slash or a dot. A match is looked for at each place in turn.
\<close>

definition take_until :: "char list \<Rightarrow> string \<Rightarrow> string" where
  "take_until stops = takeWhile (\<lambda>c. c \<notin> set stops)"

definition match_host :: "char \<Rightarrow> string \<Rightarrow> (string \<times> string \<times> string) option" where
  "match_host sep s =
     (let host = take_until [sep] s; s1 = drop (length host) s;
          owner = take_until ''/'' (tl s1); s2 = drop (length owner) (tl s1);
          repo = take_until ''/.'' (tl s2)
      in if s1 = [] \<or> s2 = [] \<or> host = [] \<or> owner = [] \<or> repo = [] then None
         else Some (host, owner, repo))"

definition httpsRepoRe :: "string \<Rightarrow> (string \<times> string \<times> string) option" where
  "httpsRepoRe s =
     (if prefix ''http://'' s then match_host (CHR ''/'') (drop 7 s)
      else if prefix ''https://'' s then match_host (CHR ''/'') (drop 8 s)
      else None)"

definition sshRepoRe :: "string \<Rightarrow> (string \<times> string \<times> string) option" where
  "sshRepoRe s = (if prefix ''git@'' s then match_host (CHR '':'') (drop 4 s) else None)"

fun find_match :: "(string \<Rightarrow> 'a option) \<Rightarrow> string \<Rightarrow> 'a option" where
  "find_match re [] = re []"
| "find_match re (c # s) = (case re (c # s) of None \<Rightarrow> find_match re s | Some m \<Rightarrow> Some m)"

definition parseGitHubRepo :: "string \<Rightarrow> string \<times> string \<times> string" where
  "parseGitHubRepo url =
     (let repoURL = trim_suffix url ''.git''
      in case find_match httpsRepoRe repoURL of
           Some (h, owner, repo) \<Rightarrow>
             ((case url_host repoURL of Some host \<Rightarrow> if host \<noteq> [] then host else h | None \<Rightarrow> h), owner, repo)
         | None \<Rightarrow>
             (case find_match sshRepoRe repoURL of
                Some m \<Rightarrow> m
              | None \<Rightarrow>
                  (let parts = split_char (CHR ''/'') (trim_suffix repoURL ''/''); n = length parts
                   in if 2 \<le> n then ([], parts ! (n - 2), parts ! (n - 1))
                      else ([], [], ''unknown-repo-'' @ repoURL))))"

definition repo_host :: "string \<Rightarrow> string" where
  "repo_host url = fst (parseGitHubRepo url)"

definition parseGitHubOwnerRepo :: "string \<Rightarrow> string \<times> string" where
  "parseGitHubOwnerRepo repoURL = snd (parseGitHubRepo repoURL)"

text \<open>\<^verbatim>\<open>URL.String\<close> escapes what does not belong into a host.\<close>

definition escape_host :: "string \<Rightarrow> string" where
  "escape_host s = concat (map (\<lambda>c. if host_char c then [c]
     else [CHR 0x25, upper_hex (byte c div 16), upper_hex (byte c mod 16)]) s)"

definition gitHubAPIBaseURL :: "string \<Rightarrow> string" where
  "gitHubAPIBaseURL host =
     (if host = [] \<or> host = ''github.com'' then []
      else ''https://'' @ escape_host host @ ''/api/v3'')"

end
