(* ===== verification/Pods.thy ===== *)
theory Pods
  imports GitRepo
begin

text \<open>
  The types of \<^verbatim>\<open>k8s.io/api\<close> that describe what runs in a pod, as far as the builders of Jobs,
  StatefulSets, Deployments and CronJobs fill them. What a user may set beyond that and the code
  only passes along is an \<open>opaque\<close> value, \<open>nothing\<close> if it is left out.
\<close>

datatype opaque = Opaque string

definition nothing :: opaque where
  "nothing = Opaque []"

section \<open>Environment variables\<close>

record key_selector =
  ks_name :: string
  ks_key :: string
  ks_optional :: "bool option"

record env_source =
  es_field :: "string option"
  es_resource_field :: "opaque option"
  es_file_key :: "opaque option"
  es_secret :: "key_selector option"
  es_config_map :: "key_selector option"

record env_var =
  ev_name :: string
  ev_value :: string
  ev_from :: "env_source option"

definition plain_env :: "string \<Rightarrow> string \<Rightarrow> env_var" where
  "plain_env name value = \<lparr>ev_name = name, ev_value = value, ev_from = None\<rparr>"

definition no_source :: env_source where
  "no_source = \<lparr>es_field = None, es_resource_field = None, es_file_key = None, es_secret = None,
     es_config_map = None\<rparr>"

definition secret_env :: "string \<Rightarrow> string \<Rightarrow> string \<Rightarrow> env_var" where
  "secret_env name secret key =
     \<lparr>ev_name = name, ev_value = [],
      ev_from = Some (no_source\<lparr>es_secret := Some \<lparr>ks_name = secret, ks_key = key, ks_optional = None\<rparr>\<rparr>)\<rparr>"

definition field_env :: "string \<Rightarrow> string \<Rightarrow> env_var" where
  "field_env name path = \<lparr>ev_name = name, ev_value = [], ev_from = Some (no_source\<lparr>es_field := Some path\<rparr>)\<rparr>"

section \<open>Volumes\<close>

text \<open>A Secret or ConfigMap is mounted with the projection of its keys to paths.\<close>

datatype volume_source =
  EmptyDir
| SecretVolume string "(string \<times> string) list" "bool option"
| ConfigMapVolume string "(string \<times> string) list"
| OtherVolume opaque

record volume =
  vol_name :: string
  vol_source :: volume_source

record volume_mount =
  vm_name :: string
  vm_path :: string
  vm_read_only :: bool
  vm_rest :: opaque

definition mount :: "string \<Rightarrow> string \<Rightarrow> volume_mount" where
  "mount name path = \<lparr>vm_name = name, vm_path = path, vm_read_only = False, vm_rest = nothing\<rparr>"

definition read_only :: "volume_mount \<Rightarrow> volume_mount" where
  "read_only m = m\<lparr>vm_read_only := True\<rparr>"

section \<open>Containers and pods\<close>

record security_context =
  scx_user :: "int option"
  scx_rest :: opaque

record pod_security =
  psc_fs_group :: "int option"
  psc_rest :: opaque

record container_port =
  cp_name :: string
  cp_port :: int
  cp_protocol :: string

record container =
  ct_name :: string
  ct_image :: string
  ct_pull :: string
  ct_command :: "string list"
  ct_args :: "string list"
  ct_dir :: string
  ct_env :: "env_var list"
  ct_mounts :: "volume_mount list"
  ct_ports :: "container_port list"
  ct_resources :: "opaque option"
  ct_security :: "security_context option"
  ct_rest :: opaque

definition blank_container :: container where
  "blank_container =
     \<lparr>ct_name = [], ct_image = [], ct_pull = [], ct_command = [], ct_args = [], ct_dir = [], ct_env = [],
      ct_mounts = [], ct_ports = [], ct_resources = None, ct_security = None, ct_rest = nothing\<rparr>"

record pod_spec =
  pd_service_account :: string
  pd_restart :: string
  pd_security :: "pod_security option"
  pd_init :: "container list"
  pd_containers :: "container list"
  pd_volumes :: "volume list"
  pd_node_selector :: strmap
  pd_tolerations :: "opaque list"
  pd_affinity :: "opaque option"
  pd_pull_secrets :: "string list"
  pd_rest :: opaque

definition blank_pod_spec :: pod_spec where
  "blank_pod_spec =
     \<lparr>pd_service_account = [], pd_restart = [], pd_security = None, pd_init = [], pd_containers = [],
      pd_volumes = [], pd_node_selector = [], pd_tolerations = [], pd_affinity = None,
      pd_pull_secrets = [], pd_rest = nothing\<rparr>"

record pod_template =
  tpl_labels :: strmap
  tpl_annotations :: strmap
  tpl_spec :: pod_spec

text \<open>A rule of a failure policy, with its action.\<close>

record pod_failure_policy =
  pfp_rules :: "(string \<times> opaque) list"

record job_spec =
  js_backoff :: "int option"
  js_failure_policy :: "pod_failure_policy option"
  js_deadline :: "int option"
  js_template :: pod_template

definition blank_job_spec :: job_spec where
  "blank_job_spec =
     \<lparr>js_backoff = None, js_failure_policy = None, js_deadline = None,
      js_template = \<lparr>tpl_labels = [], tpl_annotations = [], tpl_spec = blank_pod_spec\<rparr>\<rparr>"

text \<open>The images that a controller was configured with, an empty text where it was not.\<close>

record agent_images =
  ai_claude :: string
  ai_claude_pull :: string
  ai_codex :: string
  ai_codex_pull :: string
  ai_gemini :: string
  ai_gemini_pull :: string
  ai_opencode :: string
  ai_opencode_pull :: string
  ai_cursor :: string
  ai_cursor_pull :: string

section \<open>What a user may override\<close>

text \<open>\<^verbatim>\<open>PodOverrides\<close> of \<^verbatim>\<open>api/v1alpha2/task_types.go\<close>.\<close>

record pod_overrides =
  po_labels :: strmap
  po_resources :: "opaque option"
  po_deadline :: "int option"
  po_env :: "env_var list"
  po_node_selector :: strmap
  po_tolerations :: "opaque list"
  po_affinity :: "opaque option"
  po_pull_secrets :: "string list"
  po_service_account :: string
  po_volumes :: "volume list"
  po_mounts :: "volume_mount list"
  po_pod_security :: "pod_security option"
  po_security :: "security_context option"
  po_extra :: "container list"
  po_extra_init :: "container list"

text \<open>
  What \<^verbatim>\<open>equality.Semantic.DeepEqual\<close> is asked about. How it compares, a nil list with an empty one
  or one quantity with another, is the library's affair.
\<close>

datatype pod_part =
  PartName string
| PartSecurity "pod_security option"
| PartContainers "container list"
| PartVolumes "volume list"
| PartLabels strmap
| PartTolerations "opaque list"
| PartAffinity "opaque option"
| PartPullSecrets "string list"

end
