(* ===== verification/Api.thy ===== *)
theory Api
  imports Pods
begin

text \<open>
  The API objects of \<^verbatim>\<open>api/v1alpha2\<close> that the controllers read and write, as records with
  the Go structs' fields. A pointer field is an \<open>option\<close>. A field whose type belongs to
  Kubernetes and that the modelled code only passes along is an \<open>opaque\<close> value.

  The object metadata, conditions and Job, Pod and Secret objects at the top are types of
  the Kubernetes libraries, cut to the fields that the code under \<^verbatim>\<open>src/\<close> looks at.
\<close>

section \<open>Kubernetes objects\<close>

record owner_reference =
  or_api_version :: string
  or_kind :: string
  or_name :: string
  or_uid :: string
  or_controller :: "bool option"

record object_meta =
  m_name :: string
  m_namespace :: string
  m_uid :: string
  m_generation :: int
  m_labels :: strmap
  m_annotations :: strmap
  m_creation :: int
  m_deletion :: "int option"
  m_finalizers :: "string list"
  m_owners :: "owner_reference list"

definition blank_meta :: object_meta where
  "blank_meta = \<lparr>m_name = [], m_namespace = [], m_uid = [], m_generation = 0, m_labels = [],
     m_annotations = [], m_creation = 0, m_deletion = None, m_finalizers = [], m_owners = []\<rparr>"

datatype cond_status = CondTrue | CondFalse | CondUnknown

record condition =
  c_type :: string
  c_status :: cond_status
  c_reason :: string
  c_message :: string
  c_generation :: int
  c_transition :: int

record secret =
  sec_meta :: object_meta
  sec_data :: strmap
  sec_string_data :: strmap

record config_map =
  cm_meta :: object_meta
  cm_data :: strmap
  cm_binary :: strmap

record job =
  job_meta :: object_meta
  job_active :: int
  job_succeeded :: int
  job_conditions :: "(string \<times> cond_status) list"
  job_spec :: job_spec

record pod =
  pod_meta :: object_meta
  pod_phase :: string

record service_port =
  spt_name :: string
  spt_port :: int
  spt_target :: int
  spt_protocol :: string

record service =
  svc_meta :: object_meta
  svc_selector :: strmap
  svc_cluster_ip :: string
  svc_ports :: "service_port list"

record stateful_set =
  sts_meta :: object_meta
  sts_replicas :: "int option"
  sts_template :: pod_template
  sts_current :: int
  sts_ready :: int
  sts_service :: string
  sts_policy :: string
  sts_selector :: strmap
  sts_claims :: "(string \<times> opaque) list"

text \<open>\<^verbatim>\<open>resource.Quantity\<close> is an exact decimal of at least nano precision; here, in nanos.\<close>

type_synonym quantity = int

section \<open>Tasks\<close>

datatype task_phase =
  PhaseUnset | PhasePending | PhaseRunning | PhaseSucceeded | PhaseFailed | PhaseWaiting

datatype branch_lock_policy = LockUnset | LockExclusive | LockNone

record credentials =
  cr_type :: string
  cr_secret :: "string option"

record worker_spec =
  wk_type :: string
  wk_credentials :: "credentials option"
  wk_model :: string
  wk_effort :: string
  wk_image :: string
  wk_workspace :: "string option"
  wk_agent_configs :: "string list"
  wk_pod_overrides :: "pod_overrides option"

record task_spec =
  ts_worker :: "worker_spec option"
  ts_pool :: "string option"
  ts_type :: string
  ts_prompt :: string
  ts_credentials :: "credentials option"
  ts_model :: string
  ts_effort :: string
  ts_image :: string
  ts_workspace :: "string option"
  ts_agent_configs :: "string list"
  ts_depends_on :: "string list"
  ts_branch :: string
  ts_branch_lock :: branch_lock_policy
  ts_upstream_repo :: string
  ts_ttl :: "int option"
  ts_pod_failure_policy :: "pod_failure_policy option"
  ts_pod_overrides :: "pod_overrides option"

record task_usage =
  u_cost :: "quantity option"
  u_input :: "int option"
  u_output :: "int option"

record task_status =
  st_phase :: task_phase
  st_job_name :: string
  st_pod_name :: string
  st_start :: "int option"
  st_completion :: "int option"
  st_message :: string
  st_outputs :: "string list"
  st_results :: strmap
  st_usage :: "task_usage option"
  st_conditions :: "condition list"

text \<open>The Go zero value, which a task is created with.\<close>

definition zero_task_status :: task_status where
  "zero_task_status =
     \<lparr>st_phase = PhaseUnset, st_job_name = [], st_pod_name = [], st_start = None,
      st_completion = None, st_message = [], st_outputs = [], st_results = [], st_usage = None,
      st_conditions = []\<rparr>"

record task =
  t_meta :: object_meta
  t_spec :: task_spec
  t_status :: task_status

abbreviation t_name :: "task \<Rightarrow> string" where "t_name t \<equiv> m_name (t_meta t)"
abbreviation t_namespace :: "task \<Rightarrow> string" where "t_namespace t \<equiv> m_namespace (t_meta t)"
abbreviation t_phase :: "task \<Rightarrow> task_phase" where "t_phase t \<equiv> st_phase (t_status t)"

text \<open>The accessors of \<^verbatim>\<open>internal/controller/job_builder.go\<close> that every controller uses.\<close>

definition resolveTaskType :: "task \<Rightarrow> string" where
  "resolveTaskType t =
     (case ts_worker (t_spec t) of
        Some w \<Rightarrow> if wk_type w \<noteq> [] then wk_type w else ts_type (t_spec t)
      | None \<Rightarrow> ts_type (t_spec t))"

definition spawner_label :: string where
  "spawner_label = ''kelos.dev/taskspawner''"

definition resolveTaskSpawner :: "task \<Rightarrow> string" where
  "resolveTaskSpawner t = map_str (m_labels (t_meta t)) spawner_label"

definition resolveTaskWorkspaceRef :: "task \<Rightarrow> string option" where
  "resolveTaskWorkspaceRef t =
     (case ts_worker (t_spec t) of
        Some w \<Rightarrow> (case wk_workspace w of Some r \<Rightarrow> Some r | None \<Rightarrow> ts_workspace (t_spec t))
      | None \<Rightarrow> ts_workspace (t_spec t))"

definition resolveTaskModel :: "task \<Rightarrow> string" where
  "resolveTaskModel t =
     (case ts_worker (t_spec t) of
        Some w \<Rightarrow> if wk_model w \<noteq> [] then wk_model w else ts_model (t_spec t)
      | None \<Rightarrow> ts_model (t_spec t))"

definition isTerminalTaskPhase :: "task_phase \<Rightarrow> bool" where
  "isTerminalTaskPhase p \<longleftrightarrow> p = PhaseSucceeded \<or> p = PhaseFailed"

section \<open>Worker pools\<close>

datatype pool_phase = PoolUnset | PoolPending | PoolReady | PoolScaling | PoolFailed

record pool_status =
  wps_generation :: int
  wps_phase :: pool_phase
  wps_stateful_set :: string
  wps_service :: string
  wps_replicas :: int
  wps_ready :: int
  wps_message :: string

record worker_pool =
  wp_meta :: object_meta
  wp_worker :: worker_spec
  wp_replicas :: "int option"
  wp_claim_template :: opaque
  wp_status :: pool_status

abbreviation wp_name :: "worker_pool \<Rightarrow> string" where "wp_name p \<equiv> m_name (wp_meta p)"
abbreviation wp_namespace :: "worker_pool \<Rightarrow> string" where "wp_namespace p \<equiv> m_namespace (wp_meta p)"

section \<open>Workspaces and agent configurations\<close>

record workspace_clone =
  wc_branches :: string
  wc_paths :: "string list"
  wc_remove_git_dir :: bool

record workspace_spec =
  ws_repo :: string
  ws_ref :: string
  ws_clone :: "workspace_clone option"
  ws_secret :: "string option"
  ws_agent_credentials :: string
  ws_ghproxy :: bool
  ws_remotes :: "(string \<times> string) list"
  ws_files :: "(string \<times> string) list"
  ws_setup :: "string list"

record plugin_spec =
  pl_name :: string
  pl_skills :: "(string \<times> string) list"
  pl_agents :: "(string \<times> string) list"

record skills_sh_spec =
  sk_source :: string
  sk_skill :: string
  sk_secret :: "string option"
  sk_optional :: bool

record mcp_server_spec =
  mcp_name :: string
  mcp_type :: string
  mcp_command :: string
  mcp_args :: "string list"
  mcp_url :: string
  mcp_headers :: strmap
  mcp_headers_from :: "string option"
  mcp_env :: "env_var list"
  mcp_env_from :: "string option"
  mcp_always_load :: bool

record agent_config_spec =
  ac_agents_md :: string
  ac_plugins :: "plugin_spec list"
  ac_skills :: "skills_sh_spec list"
  ac_mcp_servers :: "mcp_server_spec list"

section \<open>Budgets and records\<close>

record budget_period =
  bp_type :: string
  bp_timezone :: string

record task_budget_spec =
  bs_selector :: opaque
  bs_period :: budget_period
  bs_max_cost :: "quantity option"
  bs_max_input :: "int option"
  bs_max_output :: "int option"

record task_budget_status =
  bst_generation :: int
  bst_start :: "int option"
  bst_end :: "int option"
  bst_used :: "task_usage option"
  bst_conditions :: "condition list"

record task_budget =
  b_meta :: object_meta
  b_spec :: task_budget_spec
  b_status :: task_budget_status

abbreviation b_name :: "task_budget \<Rightarrow> string" where "b_name b \<equiv> m_name (b_meta b)"

record task_record_spec =
  rs_task_name :: string
  rs_task_uid :: string
  rs_type :: string
  rs_model :: string
  rs_phase :: task_phase
  rs_start :: "int option"
  rs_completion :: "int option"
  rs_usage :: "task_usage option"
  rs_ttl :: "int option"

record task_record =
  r_meta :: object_meta
  r_spec :: task_record_spec

section \<open>Pipelines\<close>

datatype pipeline_phase =
  PipeUnset | PipePending | PipeRunning | PipeSucceeded | PipeFailed

record pipeline_template =
  pt_worker :: "worker_spec option"
  pt_pool :: "string option"
  pt_prompt :: string
  pt_branch :: string
  pt_branch_lock :: branch_lock_policy

record pipeline_stage =
  sg_name :: string
  sg_template :: pipeline_template
  sg_matrix :: "strmap list option"

record stage_status =
  ss_name :: string
  ss_phase :: task_phase
  ss_total :: int
  ss_succeeded :: int
  ss_failed :: int
  ss_active :: int

record pipeline_status =
  ps_generation :: int
  ps_phase :: pipeline_phase
  ps_stages :: "stage_status list"
  ps_conditions :: "condition list"

record task_pipeline =
  p_meta :: object_meta
  p_stages :: "pipeline_stage list"
  p_status :: pipeline_status

abbreviation p_name :: "task_pipeline \<Rightarrow> string" where "p_name p \<equiv> m_name (p_meta p)"

section \<open>Task spawners\<close>

record spawner_credential =
  sc_name :: string
  sc_type :: string
  sc_secret :: string

text \<open>\<open>gr_comments\<close> is the mode of the comment reporting, \<open>gr_checks\<close> the configured check name.\<close>

record github_reporting =
  gr_enabled :: bool
  gr_comments :: "string option"
  gr_checks :: "string option"

record comment_policy_spec =
  cp_trigger :: string
  cp_exclude :: "string list"
  cp_users :: "string list"
  cp_teams :: "string list"
  cp_permission :: string

record github_issues =
  gi_repo :: string
  gi_types :: "string list"
  gi_labels :: "string list"
  gi_exclude_labels :: "string list"
  gi_state :: string
  gi_policy :: "comment_policy_spec option"
  gi_assignee :: string
  gi_author :: string
  gi_exclude_authors :: "string list"
  gi_priority :: "string list"
  gi_reporting :: "github_reporting option"
  gi_poll :: string

record file_patterns =
  fp_include :: "string list"
  fp_exclude :: "string list"

record github_pull_requests =
  gp_repo :: string
  gp_labels :: "string list"
  gp_exclude_labels :: "string list"
  gp_state :: string
  gp_review_state :: string
  gp_policy :: "comment_policy_spec option"
  gp_author :: string
  gp_exclude_authors :: "string list"
  gp_draft :: "bool option"
  gp_priority :: "string list"
  gp_reporting :: "github_reporting option"
  gp_files :: "file_patterns option"
  gp_poll :: string

record jira_when =
  jw_base_url :: string
  jw_project :: string
  jw_jql :: string
  jw_secret :: string
  jw_poll :: string

text \<open>Webhook sources. A gateway is referred to by its name.\<close>

record github_webhook_filter =
  gf_event :: string
  gf_action :: string
  gf_body_contains :: string
  gf_body_pattern :: string
  gf_exclude_body :: "string list"
  gf_labels :: "string list"
  gf_exclude_labels :: "string list"
  gf_state :: string
  gf_branch :: string
  gf_tag :: string
  gf_draft :: "bool option"
  gf_comment_on :: string
  gf_author :: string
  gf_pr_author :: string
  gf_exclude_authors :: "string list"
  gf_files :: "file_patterns option"
  gf_conclusion :: string
  gf_check_name :: string

record github_webhook =
  gw_events :: "string list"
  gw_gateway :: "string option"
  gw_repository :: string
  gw_exclude_authors :: "string list"
  gw_filters :: "github_webhook_filter list"
  gw_exclude_filters :: "github_webhook_filter list"
  gw_reporting :: "github_reporting option"

record linear_webhook_filter =
  lf_type :: string
  lf_action :: string
  lf_states :: "string list"
  lf_labels :: "string list"
  lf_exclude_labels :: "string list"

record linear_webhook =
  lw_types :: "string list"
  lw_gateway :: "string option"
  lw_filters :: "linear_webhook_filter list"

record generic_webhook_filter =
  xf_field :: string
  xf_value :: "string option"
  xf_pattern :: string

record generic_webhook =
  xw_source :: string
  xw_gateway :: "string option"
  xw_mapping :: strmap
  xw_filters :: "generic_webhook_filter list"
  xw_exclude_filters :: "generic_webhook_filter list"

text \<open>The sources that the spawner itself polls, and those that the webhook server serves.\<close>

record when_spec =
  wn_issues :: "github_issues option"
  wn_pulls :: "github_pull_requests option"
  wn_cron :: "string option"
  wn_jira :: "jira_when option"
  wn_github :: "github_webhook option"
  wn_linear :: "linear_webhook option"
  wn_generic :: "generic_webhook option"
  wn_slack :: "opaque option"

record task_template =
  tt_worker :: "worker_spec option"
  tt_pool :: "string option"
  tt_type :: string
  tt_credentials :: "credentials option"
  tt_model :: string
  tt_effort :: string
  tt_image :: string
  tt_workspace :: "string option"
  tt_agent_configs :: "string list"
  tt_depends_on :: "string list"
  tt_branch :: string
  tt_branch_lock :: branch_lock_policy
  tt_prompt :: string
  tt_name :: string
  tt_ttl :: "int option"
  tt_pod_overrides :: "pod_overrides option"
  tt_pod_failure_policy :: "pod_failure_policy option"
  tt_metadata :: "(strmap \<times> strmap) option"
  tt_context :: "opaque list"
  tt_upstream_repo :: string

datatype spawner_phase =
  SpawnerUnset | SpawnerPending | SpawnerRunning | SpawnerFailed | SpawnerSuspended

record spawner_status =
  sst_phase :: spawner_phase
  sst_deployment :: string
  sst_cron_job :: string
  sst_discovered :: int
  sst_created :: int
  sst_active :: int
  sst_last_discovery :: "int option"
  sst_message :: string
  sst_conditions :: "condition list"

record task_spawner =
  s_meta :: object_meta
  s_when :: when_spec
  s_template :: task_template
  s_credentials :: "spawner_credential list"
  s_max_concurrency :: "int option"
  s_suspend :: "bool option"
  s_max_total :: "int option"
  s_status :: spawner_status

abbreviation s_name :: "task_spawner \<Rightarrow> string" where "s_name s \<equiv> m_name (s_meta s)"
abbreviation s_namespace :: "task_spawner \<Rightarrow> string" where "s_namespace s \<equiv> m_namespace (s_meta s)"

section \<open>Webhook gateways\<close>

record github_gateway =
  gg_secret :: string
  gg_api_base_url :: string
  gg_credentials :: "string option"

datatype gateway_phase =
  GatewayUnset | GatewayAuthenticated | GatewaySecretMissing | GatewayUnauthenticated

record gateway_status =
  wgs_path :: string
  wgs_phase :: gateway_phase
  wgs_message :: string
  wgs_generation :: int

record webhook_gateway =
  wg_meta :: object_meta
  wg_github :: "github_gateway option"
  wg_linear :: "string option"
  wg_generic :: bool
  wg_status :: gateway_status

section \<open>Sessions\<close>

text \<open>The fields of a Session that only its controller and runtime read are kept opaque.\<close>

record session_spec =
  se_worker :: worker_spec
  se_suspend :: "bool option"
  se_branch :: string
  se_prompt :: string
  se_claim_template :: "opaque option"
  se_idle_policy :: "opaque option"

record session =
  se_meta :: object_meta
  se_spec :: session_spec

record session_spawner =
  sp_meta :: object_meta
  sp_github :: "github_webhook option"
  sp_template :: session_spec
  sp_credentials :: "spawner_credential list"
  sp_last_session :: string
  sp_last_delivery :: "int option"
  sp_conditions :: "condition list"
  sp_generation :: int
  sp_total :: int

abbreviation sp_name :: "session_spawner \<Rightarrow> string" where "sp_name s \<equiv> m_name (sp_meta s)"
abbreviation sp_namespace :: "session_spawner \<Rightarrow> string" where "sp_namespace s \<equiv> m_namespace (sp_meta s)"

section \<open>Objects that the controllers of spawners and workspaces manage\<close>

text \<open>
  The fields of Kubernetes objects that the code reads or sets. \<open>dp_rest\<close> and \<open>cjs_rest\<close> stand for what
  it leaves to the API server, which an update sends back as it was read.
\<close>

record deployment =
  dp_meta :: object_meta
  dp_replicas :: "int option"
  dp_selector :: strmap
  dp_template :: pod_template
  dp_rest :: opaque

record cron_job_spec =
  cjs_schedule :: string
  cjs_policy :: string
  cjs_suspend :: "bool option"
  cjs_successful :: "int option"
  cjs_failed :: "int option"
  cjs_labels :: strmap
  cjs_job :: job_spec
  cjs_rest :: opaque

record cron_job =
  cj_meta :: object_meta
  cj_spec :: cron_job_spec

record role_rule =
  rr_groups :: "string list"
  rr_resources :: "string list"
  rr_names :: "string list"
  rr_verbs :: "string list"

record role =
  ro_meta :: object_meta
  ro_rules :: "role_rule list"

record role_subject =
  rsu_kind :: string
  rsu_name :: string
  rsu_namespace :: string

record role_binding =
  rb_meta :: object_meta
  rb_group :: string
  rb_kind :: string
  rb_name :: string
  rb_subjects :: "role_subject list"

record workspace =
  wsp_meta :: object_meta
  wsp_spec :: workspace_spec

end
