(* ===== verification/BranchLocker.thy ===== *)
theory BranchLocker
  imports Prelude
begin

text \<open>
  \<^verbatim>\<open>internal/controller/branch_locker.go\<close>: the in-memory table that records which task owns
  each workspace and branch. The mutex makes each operation atomic, so an operation is a
  function on the table. \<^verbatim>\<open>lock_service\<close> is the contract the task reconciler relies on;
  it is interpreted on the table at the end.
\<close>

type_synonym lock_table = "(string \<times> string) list"

definition NewBranchLocker :: lock_table where
  "NewBranchLocker = []"

definition TryAcquire :: "lock_table \<Rightarrow> string \<Rightarrow> string \<Rightarrow> (bool \<times> string) \<times> lock_table" where
  "TryAcquire owners key taskName =
     (case map_of owners key of
        Some holder \<Rightarrow>
          if holder \<noteq> taskName then ((False, holder), owners)
          else ((True, []), map_put key taskName owners)
      | None \<Rightarrow> ((True, []), map_put key taskName owners))"

definition Release :: "lock_table \<Rightarrow> string \<Rightarrow> string \<Rightarrow> lock_table" where
  "Release owners key taskName =
     (if map_str owners key = taskName then map_del key owners else owners)"

definition Holder :: "lock_table \<Rightarrow> string \<Rightarrow> string" where
  "Holder owners key = map_str owners key"

section \<open>The contract\<close>

text \<open>
  \<open>owner s k\<close> is who holds \<open>k\<close>. An acquisition succeeds exactly when nobody else holds
  the key, a release takes effect only for the holder, and neither touches other keys.
\<close>

locale lock_service =
  fixes acquire :: "'s \<Rightarrow> 'k \<Rightarrow> 'o \<Rightarrow> bool \<times> 's"
    and release :: "'s \<Rightarrow> 'k \<Rightarrow> 'o \<Rightarrow> 's"
    and owner :: "'s \<Rightarrow> 'k \<Rightarrow> 'o option"
  assumes acquire_granted:
      "fst (acquire s k t) \<longleftrightarrow> owner s k = None \<or> owner s k = Some t"
    and acquire_owner:
      "owner (snd (acquire s k t)) j =
         (if j = k \<and> fst (acquire s k t) then Some t else owner s j)"
    and release_owner:
      "owner (release s k t) j = (if j = k \<and> owner s k = Some t then None else owner s j)"
begin

lemma acquire_granted_owner: "fst (acquire s k t) \<Longrightarrow> owner (snd (acquire s k t)) k = Some t"
  by (simp add: acquire_owner)

lemma acquire_refused:
  assumes "\<not> fst (acquire s k t)"
  obtains u where "owner s k = Some u" "u \<noteq> t"
  using assms acquire_granted by (cases "owner s k") auto

lemma acquire_refused_owner: "\<not> fst (acquire s k t) \<Longrightarrow> owner (snd (acquire s k t)) j = owner s j"
  by (simp add: acquire_owner)

lemma acquire_idempotent:
  assumes "fst (acquire s k t)"
  shows "fst (acquire (snd (acquire s k t)) k t)"
  using assms by (simp add: acquire_granted acquire_owner)

lemma acquire_excludes:
  assumes "fst (acquire s k t)" and "u \<noteq> t"
  shows "\<not> fst (acquire (snd (acquire s k t)) k u)"
  using assms by (simp add: acquire_granted acquire_owner)

lemma release_by_other: "owner s k \<noteq> Some t \<Longrightarrow> owner (release s k t) j = owner s j"
  by (simp add: release_owner)

lemma release_frees: "owner s k = Some t \<Longrightarrow> fst (acquire (release s k t) k u)"
  by (simp add: acquire_granted release_owner)

end

text \<open>
  Histories of lock operations. A client believes it holds a key from a granted
  acquisition until its own release; \<open>claims_of\<close> collects these beliefs.
\<close>

datatype ('k, 'o) lock_op = AcquireOp 'k 'o | ReleaseOp 'k 'o

fun claims_step :: "('k \<times> 'o) set \<Rightarrow> ('k, 'o) lock_op \<times> bool \<Rightarrow> ('k \<times> 'o) set" where
  "claims_step C (AcquireOp k t, granted) = (if granted then insert (k, t) C else C)"
| "claims_step C (ReleaseOp k t, _) = C - {(k, t)}"

definition claims_of :: "(('k, 'o) lock_op \<times> bool) list \<Rightarrow> ('k \<times> 'o) set" where
  "claims_of log = foldl claims_step {} log"

locale lock_history = lock_service acquire release owner
  for acquire :: "'s \<Rightarrow> 'k \<Rightarrow> 'o \<Rightarrow> bool \<times> 's"
    and release :: "'s \<Rightarrow> 'k \<Rightarrow> 'o \<Rightarrow> 's"
    and owner :: "'s \<Rightarrow> 'k \<Rightarrow> 'o option" +
  fixes run :: "'s \<Rightarrow> ('k, 'o) lock_op list \<Rightarrow> (('k, 'o) lock_op \<times> bool) list \<times> 's"
  assumes run_Nil: "run s [] = ([], s)"
    and run_Acquire:
      "run s (AcquireOp k t # ops) =
         (let (g, s') = acquire s k t; (log, s'') = run s' ops
          in ((AcquireOp k t, g) # log, s''))"
    and run_Release:
      "run s (ReleaseOp k t # ops) =
         (let (log, s') = run (release s k t) ops in ((ReleaseOp k t, True) # log, s'))"
begin

lemma claims_track_owner:
  assumes "C = {(k, t). owner s k = Some t}"
  shows "foldl claims_step C (fst (run s ops)) =
         {(k, t). owner (snd (run s ops)) k = Some t}"
  using assms
proof (induction ops arbitrary: s C)
  case Nil
  then show ?case by (simp add: run_Nil)
next
  case (Cons p ops)
  show ?case
  proof (cases p)
    case (AcquireOp k t)
    obtain g s' where gs: "acquire s k t = (g, s')" by (cases "acquire s k t")
    then have "claims_step C (AcquireOp k t, g) = {(k, t). owner s' k = Some t}"
      using Cons.prems acquire_owner [of s k t] acquire_granted [of s k t]
      by (auto split: if_splits)
    from Cons.IH [OF this] AcquireOp gs show ?thesis
      by (simp add: run_Acquire split_beta)
  next
    case (ReleaseOp k t)
    have "claims_step C (ReleaseOp k t, True) = {(j, u). owner (release s k t) j = Some u}"
      using Cons.prems release_owner [of s k t] by (auto split: if_splits)
    from Cons.IH [OF this] ReleaseOp show ?thesis
      by (simp add: run_Release split_beta)
  qed
qed

lemma claims_exclusive:
  assumes "\<And>k. owner s k = None" and "run s ops = (log, s')"
    and "(k, t) \<in> claims_of log" and "(k, u) \<in> claims_of log"
  shows "t = u"
proof -
  have "claims_of log = {(k, t). owner s' k = Some t}"
    using claims_track_owner [of "{}" s ops] assms(1,2) by (simp add: claims_of_def)
  with assms(3,4) show ?thesis by simp
qed

end

section \<open>The table keeps the contract\<close>

definition lock_acquire :: "lock_table \<Rightarrow> string \<Rightarrow> string \<Rightarrow> bool \<times> lock_table" where
  "lock_acquire s k t = (fst (fst (TryAcquire s k t)), snd (TryAcquire s k t))"

text \<open>
  A release by the empty name is a no-op on a free key, and names of Kubernetes objects
  are never empty; the table of the reconciler never maps a key to the empty name, but the
  contract holds without knowing that, because deleting an absent key changes nothing.
\<close>

lemma map_of_map_del: "map_of (map_del k xs) j = (if j = k then None else map_of xs j)"
  by (simp add: delete_conv')

lemma Release_owner:
  "map_of (Release s k t) j = (if j = k \<and> map_of s k = Some t then None else map_of s j)"
  by (auto simp: Release_def map_str_def map_of_map_del split: option.splits)

interpretation branch_lock: lock_service lock_acquire Release map_of
  by unfold_locales
    (auto simp: lock_acquire_def TryAcquire_def Release_owner update_conv' split: option.splits)

fun lock_run :: "lock_table \<Rightarrow> (string, string) lock_op list \<Rightarrow>
    ((string, string) lock_op \<times> bool) list \<times> lock_table" where
  "lock_run s [] = ([], s)"
| "lock_run s (AcquireOp k t # ops) =
     (let (g, s') = lock_acquire s k t; (log, s'') = lock_run s' ops
      in ((AcquireOp k t, g) # log, s''))"
| "lock_run s (ReleaseOp k t # ops) =
     (let (log, s') = lock_run (Release s k t) ops in ((ReleaseOp k t, True) # log, s'))"

interpretation branch_history: lock_history lock_acquire Release map_of lock_run
  by unfold_locales auto

lemma TryAcquire_refused_holder:
  assumes "\<not> fst (fst (TryAcquire s k t))"
  shows "map_of s k = Some (snd (fst (TryAcquire s k t)))"
    and "snd (fst (TryAcquire s k t)) \<noteq> t"
    and "snd (TryAcquire s k t) = s"
  using assms by (auto simp: TryAcquire_def split: option.splits if_splits)

lemma lock_acquire_iff:
  "fst (fst (TryAcquire s k t)) \<longleftrightarrow> map_of s k = None \<or> map_of s k = Some t"
  using branch_lock.acquire_granted [of s k t] by (simp add: lock_acquire_def)

lemma TryAcquire_owner:
  "map_of (snd (TryAcquire s k t)) j =
     (if j = k \<and> fst (fst (TryAcquire s k t)) then Some t else map_of s j)"
  using branch_lock.acquire_owner [of s k t j] by (simp add: lock_acquire_def)

end
