(* ===== verification/Effects.thy ===== *)
theory Effects
  imports Api BranchLocker
begin

text \<open>
  The boundary to everything that is not under \<^verbatim>\<open>src/\<close>: the Kubernetes API server and the
  client libraries, GitHub, the clock, and the template, JSON, quantity and time-zone
  routines. They are one parameter \<open>E\<close> of the model, a record of functions. What a read
  returns and whether a write fails may depend on the whole history of calls, so every
  theorem that quantifies over \<open>E\<close> covers any behaviour of the cluster and of the other
  controllers that run in between.

  A handler is a program of the state monad over the world: the calls issued so far, in
  order, and the branch-lock table that lives in the controller's memory.
\<close>

section \<open>Calls\<close>

datatype call =
    Read string string string
  | UpdateTask task
  | UpdateTaskStatus task
  | PatchTask task
  | DeleteTask string string
  | CreateTask task
  | CreateJob job
  | DeleteJob string string
  | CreateConfigMap config_map
  | UpdateConfigMap config_map
  | CreateSecret secret
  | UpdateSecret secret
  | PatchPod pod
  | PatchPodLocked pod pod
  | UpdatePod pod
  | CreateService service
  | CreateStatefulSet stateful_set
  | UpdateStatefulSet stateful_set
  | CreateServiceAccount string string
  | CreateRoleBinding string string
  | UpdatePoolStatus worker_pool
  | CreateRecord task_record
  | DeleteRecord string string
  | UpdateBudgetStatus task_budget
  | PatchPipelineStatus task_pipeline
  | MintToken string
  | RecordEvent string string string
  | CountCreated string string string
  | CountCompleted string string string task_phase
  | ObserveDuration string string string task_phase int
  | CountReconcileError string
  | CountUsage string "string list" opaque
  | Print string
  | RunAgent task "string list"
  | HttpGet string string
  | FetchContext "opaque list"
  | UpdateSpawnerStatus task_spawner
  | ReportTask task
  | AddCounter string int
  | HttpPost string string
  | CreateSession session
  | PatchSessionSpawner session_spawner
  | UpdateSpawner task_spawner
  | CreateDeployment deployment
  | UpdateDeployment deployment
  | DeleteDeployment string string
  | CreateCronJob cron_job
  | UpdateCronJob cron_job
  | DryRunCronJob cron_job
  | DeleteCronJob string string
  | UpdateService service
  | DeleteService string string
  | CreateAccount object_meta
  | UpdateAccount object_meta
  | DeleteAccount string string
  | CreateRole role
  | UpdateRole role
  | DeleteRole string string
  | CreateBinding role_binding
  | UpdateBinding role_binding
  | DeleteBinding string string
  | UpdateGatewayStatus webhook_gateway

record world =
  w_calls :: "call list"
  w_locks :: lock_table

type_synonym 'a io = "(world, 'a) state"

section \<open>The environment\<close>

text \<open>The values a template sees; nil slices and maps are the empty ones.\<close>

datatype tmpl_value =
  TStr string | TInt int | TList "tmpl_value list" | TMap "(string \<times> tmpl_value) list"

type_synonym template_fun = "tmpl_value \<Rightarrow> go_err + string"

text \<open>
  The fields \<open>q_\<close> are answers of services, which may depend on the calls made before; the
  fields \<open>l_\<close> are functions of libraries. The fields \<open>cfg_\<close> are the images that the
  builders of Jobs and StatefulSets were configured with, and the one of the worker runner with
  its pull policy. The two flags say whether the optional clients of the reconciler are set,
  and \<open>token_base_url\<close> is the configured base URL of the token client.
  \<open>l_parse_float\<close> gives, with the parsed number, whether it is positive.

  The worker runner sees \<open>q_stop\<close>, whether its context is done, \<open>q_watch_ticks\<close>, how often
  the ticker of its watcher fires while an agent process runs, and \<open>q_agent\<close>, how the process
  ends, given whether it was killed.

  A time zone gives the civil day and the nanosecond of that day of an instant, and the
  instant of a civil day and time, as \<^verbatim>\<open>time.Time\<close>'s accessors and \<^verbatim>\<open>time.Date\<close> do.
\<close>

record location =
  civil :: "int \<Rightarrow> int \<times> int"
  instant :: "int \<Rightarrow> int \<Rightarrow> int"

text \<open>\<^verbatim>\<open>githubapp.Credentials\<close>; the parsed RSA key is not looked into.\<close>

record app_credentials =
  app_id :: string
  app_installation :: string
  app_key :: opaque

type_synonym 'a answer = "call list \<Rightarrow> string \<Rightarrow> string \<Rightarrow> go_err + 'a"

record env =
  q_task :: "task answer"
  q_job :: "job answer"
  q_workspace :: "workspace_spec answer"
  q_agent_config :: "agent_config_spec answer"
  q_secret :: "secret answer"
  q_config_map :: "config_map answer"
  q_pod :: "pod answer"
  q_budget :: "task_budget answer"
  q_record :: "task_record answer"
  q_pool :: "worker_pool answer"
  q_pipeline :: "task_pipeline answer"
  q_tasks :: "task list answer"
  q_pods :: "pod list answer"
  q_pool_pods :: "pod list answer"
  q_pools :: "worker_pool list answer"
  q_workspaces :: "(string \<times> workspace_spec) list answer"
  q_service :: "service answer"
  q_stateful_set :: "stateful_set answer"
  q_service_account :: "unit answer"
  q_role_binding :: "unit answer"
  q_pipeline_tasks :: "task list answer"
  q_budgets :: "task_budget list answer"
  q_records :: "call list \<Rightarrow> string \<Rightarrow> opaque \<Rightarrow> go_err + task_record list"
  q_logs :: "call list \<Rightarrow> string \<Rightarrow> string \<Rightarrow> string option"
  q_token :: "call list \<Rightarrow> string \<Rightarrow> app_credentials \<Rightarrow> go_err + (string \<times> int)"
  q_write :: "call list \<Rightarrow> call \<Rightarrow> go_err option"
  q_clock :: "call list \<Rightarrow> int"
  q_stop :: "call list \<Rightarrow> bool"
  q_watch_ticks :: "call list \<Rightarrow> nat"
  q_agent :: "call list \<Rightarrow> bool \<Rightarrow> go_err option"
  l_selector :: "opaque \<Rightarrow> go_err + (strmap \<Rightarrow> bool)"
  l_location :: "string \<Rightarrow> go_err + location"
  l_encode_labels :: "strmap \<Rightarrow> go_err + string"
  l_decode_labels :: "string \<Rightarrow> go_err + strmap"
  l_quantity_string :: "quantity \<Rightarrow> string"
  l_parse_quantity :: "string \<Rightarrow> quantity option"
  l_parse_time :: "string \<Rightarrow> int option"
  l_format_time :: "int \<Rightarrow> string"
  l_set_condition :: "condition list \<Rightarrow> condition \<Rightarrow> condition list"
  l_find_condition :: "condition list \<Rightarrow> string \<Rightarrow> condition option"
  l_remove_condition :: "condition list \<Rightarrow> string \<Rightarrow> condition list"
  l_controlled_by :: "object_meta \<Rightarrow> object_meta \<Rightarrow> bool"
  l_set_controller :: "object_meta \<Rightarrow> object_meta \<Rightarrow> go_err + object_meta"
  l_hash8 :: "string \<Rightarrow> string"
  l_parse_float :: "string \<Rightarrow> (bool \<times> opaque) option"
  l_private_key :: "string \<Rightarrow> go_err + opaque"
  l_dns_label_errors :: "string \<Rightarrow> string list"
  l_prompt_template :: "string \<Rightarrow> go_err + template_fun"
  l_pipeline_template :: "string \<Rightarrow> string \<Rightarrow> go_err + template_fun"
  l_semantic_equal :: "pod_part \<Rightarrow> pod_part \<Rightarrow> bool"
  cfg_job_images :: agent_images
  cfg_pool_images :: agent_images
  cfg_runner_image :: "string \<times> string"
  token_base_url :: string
  has_token_client :: bool
  has_clientset :: bool

section \<open>Primitive actions\<close>

definition log_call :: "call \<Rightarrow> unit io" where
  "log_call c = State (\<lambda>w. ((), w\<lparr>w_calls := w_calls w @ [c]\<rparr>))"

definition write_call :: "env \<Rightarrow> call \<Rightarrow> go_err option io" where
  "write_call E c = State (\<lambda>w. (q_write E (w_calls w) c, w\<lparr>w_calls := w_calls w @ [c]\<rparr>))"

definition read_obj :: "'a answer \<Rightarrow> string \<Rightarrow> string \<Rightarrow> string \<Rightarrow> (go_err + 'a) io" where
  "read_obj q kind ns name =
     State (\<lambda>w. (q (w_calls w) ns name, w\<lparr>w_calls := w_calls w @ [Read kind ns name]\<rparr>))"

definition read_records :: "env \<Rightarrow> string \<Rightarrow> opaque \<Rightarrow> (go_err + task_record list) io" where
  "read_records E ns sel =
     State (\<lambda>w. (q_records E (w_calls w) ns sel,
                 w\<lparr>w_calls := w_calls w @ [Read ''TaskRecordList'' ns []]\<rparr>))"

definition read_logs :: "env \<Rightarrow> string \<Rightarrow> string \<Rightarrow> string option io" where
  "read_logs E ns pod =
     State (\<lambda>w. (q_logs E (w_calls w) ns pod,
                 w\<lparr>w_calls := w_calls w @ [Read ''PodLog'' ns pod]\<rparr>))"

definition mint_token :: "env \<Rightarrow> string \<Rightarrow> app_credentials \<Rightarrow> (go_err + (string \<times> int)) io" where
  "mint_token E url creds =
     State (\<lambda>w. (q_token E (w_calls w) url creds,
                 w\<lparr>w_calls := w_calls w @ [MintToken url]\<rparr>))"

definition clock :: "env \<Rightarrow> int io" where
  "clock E = State (\<lambda>w. (q_clock E (w_calls w), w))"

definition lock_acquire_io :: "string \<Rightarrow> string \<Rightarrow> (bool \<times> string) io" where
  "lock_acquire_io k t =
     State (\<lambda>w. (fst (TryAcquire (w_locks w) k t),
                 w\<lparr>w_locks := snd (TryAcquire (w_locks w) k t)\<rparr>))"

definition lock_release_io :: "string \<Rightarrow> string \<Rightarrow> unit io" where
  "lock_release_io k t = State (\<lambda>w. ((), w\<lparr>w_locks := Release (w_locks w) k t\<rparr>))"

definition skip_io :: "unit io" where
  "skip_io = State_Monad.return ()"

abbreviation ret :: "'a \<Rightarrow> 'a io" where
  "ret \<equiv> State_Monad.return"

definition when_io :: "bool \<Rightarrow> unit io \<Rightarrow> unit io" where
  "when_io b m = (if b then m else skip_io)"

lemma run_primitives [io_run]:
  "run_state (log_call c) w = ((), w\<lparr>w_calls := w_calls w @ [c]\<rparr>)"
  "run_state (write_call E c) w = (q_write E (w_calls w) c, w\<lparr>w_calls := w_calls w @ [c]\<rparr>)"
  "run_state (read_obj q kind ns name) w =
     (q (w_calls w) ns name, w\<lparr>w_calls := w_calls w @ [Read kind ns name]\<rparr>)"
  "run_state (read_records E ns sel) w =
     (q_records E (w_calls w) ns sel, w\<lparr>w_calls := w_calls w @ [Read ''TaskRecordList'' ns []]\<rparr>)"
  "run_state (read_logs E ns pod) w =
     (q_logs E (w_calls w) ns pod, w\<lparr>w_calls := w_calls w @ [Read ''PodLog'' ns pod]\<rparr>)"
  "run_state (mint_token E url creds) w =
     (q_token E (w_calls w) url creds, w\<lparr>w_calls := w_calls w @ [MintToken url]\<rparr>)"
  "run_state (clock E) w = (q_clock E (w_calls w), w)"
  "run_state (lock_acquire_io k t) w =
     (fst (TryAcquire (w_locks w) k t), w\<lparr>w_locks := snd (TryAcquire (w_locks w) k t)\<rparr>)"
  "run_state (lock_release_io k t) w = ((), w\<lparr>w_locks := Release (w_locks w) k t\<rparr>)"
  "run_state skip_io w = ((), w)"
  by (simp_all add: log_call_def write_call_def read_obj_def read_records_def read_logs_def
      mint_token_def clock_def lock_acquire_io_def lock_release_io_def skip_io_def)

lemma run_bindE:
  assumes "run_state (State_Monad.bind m f) w = (a, w')"
  obtains b w1 where "run_state m w = (b, w1)" and "run_state (f b) w1 = (a, w')"
  using assms by (cases "run_state m w") simp

section \<open>What a program may do\<close>

text \<open>
  \<open>emits P m\<close>: started anywhere, \<open>m\<close> extends the history by calls that satisfy \<open>P\<close>.
  \<open>keeps_locks m\<close>: \<open>m\<close> leaves the lock table alone. Both are closed under the monad's
  operations, so a handler's footprint is found by applying the rules along its text.
\<close>

definition emits :: "(call \<Rightarrow> bool) \<Rightarrow> 'a io \<Rightarrow> bool" where
  "emits P m \<longleftrightarrow>
     (\<forall>w. \<exists>cs. w_calls (snd (run_state m w)) = w_calls w @ cs \<and> list_all P cs)"

definition keeps_locks :: "'a io \<Rightarrow> bool" where
  "keeps_locks m \<longleftrightarrow> (\<forall>w. w_locks (snd (run_state m w)) = w_locks w)"

lemma emits_return [emits_intro]: "emits P (ret x)"
  by (simp add: emits_def)

lemma emits_bind [emits_intro]:
  assumes "emits P m" and "\<And>a. emits P (f a)"
  shows "emits P (State_Monad.bind m f)"
  unfolding emits_def
proof
  fix w
  obtain a w' where m: "run_state m w = (a, w')" by (cases "run_state m w")
  with assms(1) obtain cs where cs: "w_calls w' = w_calls w @ cs" "list_all P cs"
    unfolding emits_def by (metis snd_conv)
  obtain ds where "w_calls (snd (run_state (f a) w')) = w_calls w' @ ds" "list_all P ds"
    using assms(2) unfolding emits_def by blast
  with m cs show "\<exists>cs. w_calls (snd (run_state (State_Monad.bind m f) w)) = w_calls w @ cs
      \<and> list_all P cs"
    by (intro exI [where x = "cs @ ds"]) simp
qed

lemma emits_log [emits_intro]: "P c \<Longrightarrow> emits P (log_call c)"
  and emits_write [emits_intro]: "P c \<Longrightarrow> emits P (write_call E c)"
  and emits_read [emits_intro]: "P (Read kind ns name) \<Longrightarrow> emits P (read_obj q kind ns name)"
  and emits_records [emits_intro]: "P (Read ''TaskRecordList'' ns []) \<Longrightarrow> emits P (read_records E ns sel)"
  and emits_logs [emits_intro]: "P (Read ''PodLog'' ns pod) \<Longrightarrow> emits P (read_logs E ns pod)"
  and emits_mint [emits_intro]: "P (MintToken url) \<Longrightarrow> emits P (mint_token E url creds)"
  and emits_clock [emits_intro]: "emits P (clock E)"
  and emits_acquire [emits_intro]: "emits P (lock_acquire_io k t)"
  and emits_release [emits_intro]: "emits P (lock_release_io k t)"
  and emits_skip [emits_intro]: "emits P skip_io"
  by (simp_all add: emits_def io_run)

lemma emits_if [emits_intro]:
  "(b \<Longrightarrow> emits P m) \<Longrightarrow> (\<not> b \<Longrightarrow> emits P n) \<Longrightarrow> emits P (if b then m else n)"
  by simp

lemma emits_bool [emits_intro]:
  "(b \<Longrightarrow> emits P m) \<Longrightarrow> (\<not> b \<Longrightarrow> emits P n) \<Longrightarrow>
   emits P (case b of True \<Rightarrow> m | False \<Rightarrow> n)"
  by (cases b) auto

lemma emits_option [emits_intro]:
  "(x = None \<Longrightarrow> emits P m) \<Longrightarrow> (\<And>a. x = Some a \<Longrightarrow> emits P (f a)) \<Longrightarrow>
   emits P (case x of None \<Rightarrow> m | Some a \<Rightarrow> f a)"
  by (cases x) auto

lemma emits_sum [emits_intro]:
  "(\<And>e. x = Inl e \<Longrightarrow> emits P (f e)) \<Longrightarrow> (\<And>a. x = Inr a \<Longrightarrow> emits P (g a)) \<Longrightarrow>
   emits P (case x of Inl e \<Rightarrow> f e | Inr a \<Rightarrow> g a)"
  by (cases x) auto

lemma emits_prod [emits_intro]:
  "(\<And>a b. x = (a, b) \<Longrightarrow> emits P (f a b)) \<Longrightarrow> emits P (case x of (a, b) \<Rightarrow> f a b)"
  by (cases x) auto

lemma emits_list [emits_intro]:
  "(x = [] \<Longrightarrow> emits P m) \<Longrightarrow> (\<And>a as. x = a # as \<Longrightarrow> emits P (f a as)) \<Longrightarrow>
   emits P (case x of [] \<Rightarrow> m | a # as \<Rightarrow> f a as)"
  by (cases x) auto

lemma emits_let [emits_intro]: "emits P (f x) \<Longrightarrow> emits P (let y = x in f y)"
  by simp

lemma emits_mono: "emits P m \<Longrightarrow> (\<And>c. P c \<Longrightarrow> Q c) \<Longrightarrow> emits Q m"
  by (auto simp: emits_def list_all_iff) metis

lemma emitsD:
  assumes "emits P m" and "run_state m w = (a, w')"
  obtains cs where "w_calls w' = w_calls w @ cs" and "\<And>c. c \<in> set cs \<Longrightarrow> P c"
  using assms unfolding emits_def by (metis snd_conv list_all_iff)

lemma keeps_locks_return [emits_intro]: "keeps_locks (ret x)"
  and keeps_locks_log [emits_intro]: "keeps_locks (log_call c)"
  and keeps_locks_write [emits_intro]: "keeps_locks (write_call E c)"
  and keeps_locks_read [emits_intro]: "keeps_locks (read_obj q kind ns name)"
  and keeps_locks_records [emits_intro]: "keeps_locks (read_records E ns sel)"
  and keeps_locks_logs [emits_intro]: "keeps_locks (read_logs E ns pod)"
  and keeps_locks_mint [emits_intro]: "keeps_locks (mint_token E url creds)"
  and keeps_locks_clock [emits_intro]: "keeps_locks (clock E)"
  and keeps_locks_skip [emits_intro]: "keeps_locks skip_io"
  by (simp_all add: keeps_locks_def io_run)

lemma keeps_locks_bind [emits_intro]:
  assumes "keeps_locks m" and "\<And>a. keeps_locks (f a)"
  shows "keeps_locks (State_Monad.bind m f)"
  using assms unfolding keeps_locks_def by (simp add: split_beta)

lemma keeps_locks_if [emits_intro]:
  "(b \<Longrightarrow> keeps_locks m) \<Longrightarrow> (\<not> b \<Longrightarrow> keeps_locks n) \<Longrightarrow> keeps_locks (if b then m else n)"
  by simp

lemma keeps_locks_bool [emits_intro]:
  "(b \<Longrightarrow> keeps_locks m) \<Longrightarrow> (\<not> b \<Longrightarrow> keeps_locks n) \<Longrightarrow>
   keeps_locks (case b of True \<Rightarrow> m | False \<Rightarrow> n)"
  by (cases b) auto

lemma keeps_locks_option [emits_intro]:
  "(x = None \<Longrightarrow> keeps_locks m) \<Longrightarrow> (\<And>a. x = Some a \<Longrightarrow> keeps_locks (f a)) \<Longrightarrow>
   keeps_locks (case x of None \<Rightarrow> m | Some a \<Rightarrow> f a)"
  by (cases x) auto

lemma keeps_locks_sum [emits_intro]:
  "(\<And>e. x = Inl e \<Longrightarrow> keeps_locks (f e)) \<Longrightarrow> (\<And>a. x = Inr a \<Longrightarrow> keeps_locks (g a)) \<Longrightarrow>
   keeps_locks (case x of Inl e \<Rightarrow> f e | Inr a \<Rightarrow> g a)"
  by (cases x) auto

lemma keeps_locks_prod [emits_intro]:
  "(\<And>a b. x = (a, b) \<Longrightarrow> keeps_locks (f a b)) \<Longrightarrow> keeps_locks (case x of (a, b) \<Rightarrow> f a b)"
  by (cases x) auto

lemma keeps_locks_let [emits_intro]: "keeps_locks (f x) \<Longrightarrow> keeps_locks (let y = x in f y)"
  by simp

lemma keeps_locks_list [emits_intro]:
  "(x = [] \<Longrightarrow> keeps_locks m) \<Longrightarrow> (\<And>a as. x = a # as \<Longrightarrow> keeps_locks (f a as)) \<Longrightarrow>
   keeps_locks (case x of [] \<Rightarrow> m | a # as \<Rightarrow> f a as)"
  by (cases x) auto

lemma emits_when [emits_intro]: "(b \<Longrightarrow> emits P m) \<Longrightarrow> emits P (when_io b m)"
  by (simp add: when_io_def emits_intro)

lemma keeps_locks_when [emits_intro]: "(b \<Longrightarrow> keeps_locks m) \<Longrightarrow> keeps_locks (when_io b m)"
  by (simp add: when_io_def emits_intro)

lemma keeps_locksD: "keeps_locks m \<Longrightarrow> run_state m w = (a, w') \<Longrightarrow> w_locks w' = w_locks w"
  unfolding keeps_locks_def by (metis snd_conv)

text \<open>The calls of a run, and the histories a run can lead to.\<close>

abbreviation new_calls :: "world \<Rightarrow> world \<Rightarrow> call list" where
  "new_calls w w' \<equiv> drop (length (w_calls w)) (w_calls w')"

definition grows :: "world \<Rightarrow> world \<Rightarrow> bool" where
  "grows w w' \<longleftrightarrow> prefix (w_calls w) (w_calls w')"

lemma emits_grows: "emits P m \<Longrightarrow> run_state m w = (a, w') \<Longrightarrow> grows w w'"
  unfolding grows_def by (erule (1) emitsD) simp

lemma grows_trans: "grows w w1 \<Longrightarrow> grows w1 w2 \<Longrightarrow> grows w w2"
  by (simp add: grows_def)

lemma new_calls_mono:
  assumes "grows w w1" and "grows w1 w2" and "grows w2 w'" and "c \<in> set (new_calls w1 w2)"
  shows "c \<in> set (new_calls w w')"
  using assms by (auto simp: grows_def prefix_def)

lemma new_calls_append:
  "grows w w1 \<Longrightarrow> grows w1 w2 \<Longrightarrow> new_calls w w2 = new_calls w w1 @ new_calls w1 w2"
  by (auto simp: grows_def prefix_def)

text \<open>A write that the API server accepted when it was made.\<close>

definition granted :: "env \<Rightarrow> world \<Rightarrow> world \<Rightarrow> call \<Rightarrow> bool" where
  "granted E w w' c \<longleftrightarrow>
     (\<exists>h h'. w_calls w' = w_calls w @ h @ c # h' \<and> q_write E (w_calls w @ h) c = None)"

lemma granted_write: "run_state (write_call E c) w = (None, w') \<Longrightarrow> granted E w w' c"
  unfolding granted_def by (intro exI [where x = "[]"]) (auto simp: io_run)

lemma granted_new: "granted E w w' c \<Longrightarrow> c \<in> set (new_calls w w')"
  by (auto simp: granted_def)

lemma granted_mono:
  assumes "grows w w1" and "granted E w1 w2 c" and "grows w2 w'"
  shows "granted E w w' c"
proof -
  from assms obtain a h h' b where "w_calls w1 = w_calls w @ a"
    "w_calls w2 = w_calls w1 @ h @ c # h'" "q_write E (w_calls w1 @ h) c = None"
    "w_calls w' = w_calls w2 @ b"
    by (auto simp: grows_def granted_def prefix_def)
  then show ?thesis unfolding granted_def
    by (intro exI [where x = "a @ h"] exI [where x = "h' @ b"]) simp
qed

lemma grows_calls [simp]: "grows w (w\<lparr>w_calls := w_calls w @ cs\<rparr>)"
  by (simp add: grows_def)

lemma grows_refl [simp]: "grows w w"
  by (simp add: grows_def)

section \<open>Read, change, write\<close>

text \<open>
  \<^verbatim>\<open>retry.RetryOnConflict\<close> around \<^verbatim>\<open>Get; change; Status().Update\<close>. Every attempt starts
  by reading a fresh copy into the local object, and an attempt that ends in a conflict
  has changed nothing on the server, so the last attempt alone decides the outcome and it
  is the one modelled. \<open>f\<close> is the body of the closure; it returns \<open>None\<close> where the body
  returns early without a write. The result is the error of the loop and the local object
  as the loop leaves it.
\<close>

definition modify_task_status ::
  "env \<Rightarrow> task \<Rightarrow> (int \<Rightarrow> task \<Rightarrow> task option) \<Rightarrow> (go_err option \<times> task) io" where
  "modify_task_status E t f = do {
     r \<leftarrow> read_obj (q_task E) ''Task'' (t_namespace t) (t_name t);
     (case r of
        Inl e \<Rightarrow> ret (Some e, t)
      | Inr fresh \<Rightarrow> do {
          now \<leftarrow> clock E;
          (case f now fresh of
             None \<Rightarrow> ret (None, fresh)
           | Some t' \<Rightarrow> do {
               e \<leftarrow> write_call E (UpdateTaskStatus t');
               ret (e, t')
             })
        })
   }"

definition modify_budget_status ::
  "env \<Rightarrow> task_budget \<Rightarrow> (int \<Rightarrow> task_budget \<Rightarrow> task_budget option) \<Rightarrow>
   (go_err option \<times> task_budget) io" where
  "modify_budget_status E b f = do {
     r \<leftarrow> read_obj (q_budget E) ''TaskBudget'' (m_namespace (b_meta b)) (b_name b);
     (case r of
        Inl e \<Rightarrow> ret (Some e, b)
      | Inr fresh \<Rightarrow> do {
          now \<leftarrow> clock E;
          (case f now fresh of
             None \<Rightarrow> ret (None, fresh)
           | Some b' \<Rightarrow> do {
               e \<leftarrow> write_call E (UpdateBudgetStatus b');
               ret (e, b')
             })
        })
   }"

lemma emits_modify_task [emits_intro]:
  assumes "P (Read ''Task'' (t_namespace t) (t_name t))"
    and "\<And>now fresh t'. f now fresh = Some t' \<Longrightarrow> P (UpdateTaskStatus t')"
  shows "emits P (modify_task_status E t f)"
  unfolding modify_task_status_def
  by (intro emits_intro) (use assms in auto)

lemma emits_modify_budget [emits_intro]:
  assumes "P (Read ''TaskBudget'' (m_namespace (b_meta b)) (b_name b))"
    and "\<And>now fresh b'. f now fresh = Some b' \<Longrightarrow> P (UpdateBudgetStatus b')"
  shows "emits P (modify_budget_status E b f)"
  unfolding modify_budget_status_def
  by (intro emits_intro) (use assms in auto)

lemma keeps_locks_modify_task [emits_intro]: "keeps_locks (modify_task_status E t f)"
  unfolding modify_task_status_def by (intro emits_intro)

lemma keeps_locks_modify_budget [emits_intro]: "keeps_locks (modify_budget_status E b f)"
  unfolding modify_budget_status_def by (intro emits_intro)

section \<open>Results\<close>

text \<open>\<^verbatim>\<open>ctrl.Result\<close> and the pair a reconcile step returns.\<close>

record ctrl_result =
  requeue :: bool
  requeue_after :: int

definition no_requeue :: ctrl_result where
  "no_requeue = \<lparr>requeue = False, requeue_after = 0\<rparr>"

definition after :: "int \<Rightarrow> ctrl_result" where
  "after d = \<lparr>requeue = False, requeue_after = d\<rparr>"

definition requeue_now :: ctrl_result where
  "requeue_now = \<lparr>requeue = True, requeue_after = 0\<rparr>"

type_synonym outcome = "ctrl_result \<times> go_err option"

text \<open>A request to reconcile: namespace and name.\<close>

type_synonym request = "string \<times> string"

section \<open>Shared steps\<close>

text \<open>Equality of two Go maps, as \<^verbatim>\<open>DeepEqual\<close> has it.\<close>

definition strmap_equal :: "strmap \<Rightarrow> strmap \<Rightarrow> bool" where
  "strmap_equal a b \<longleftrightarrow> list_all (\<lambda>(k, v). map_of a k = map_of b k) (a @ b)"

text \<open>Create unless the read finds it; an object that appears in between is accepted.\<close>

definition ensure_exists :: "env \<Rightarrow> (go_err + unit) io \<Rightarrow> call \<Rightarrow> go_err option io" where
  "ensure_exists E look create = do {
     r \<leftarrow> look;
     (case r of
        Inr u \<Rightarrow> ret None
      | Inl e \<Rightarrow>
          if \<not> is_not_found e then ret (Some e)
          else do {
            c \<leftarrow> write_call E create;
            ret (case c of
                   None \<Rightarrow> None
                 | Some e \<Rightarrow> if is_already_exists e then None else Some e)
          })
   }"

end
