(* ===== verification/AgentConfig.thy ===== *)
theory AgentConfig
  imports Effects
begin

text \<open>
  Agent configurations: merging (\<^verbatim>\<open>agentconfig_merge.go\<close>), resolving the secrets of MCP
  servers and validating the secrets of skills (\<^verbatim>\<open>task_controller.go\<close>), and the plugin
  ConfigMap (\<^verbatim>\<open>job_builder.go\<close>), which the task and the worker-pool reconcilers share.
\<close>

section \<open>Merging\<close>

definition merge_server ::
  "(string \<times> nat) list \<times> mcp_server_spec list \<Rightarrow> mcp_server_spec \<Rightarrow>
   (string \<times> nat) list \<times> mcp_server_spec list" where
  "merge_server st server =
     (case st of (seen, servers) \<Rightarrow>
        (case map_of seen (mcp_name server) of
           Some idx \<Rightarrow> (seen, servers[idx := server])
         | None \<Rightarrow> (map_put (mcp_name server) (length servers) seen, servers @ [server])))"

definition MergeAgentConfigs :: "agent_config_spec list \<Rightarrow> agent_config_spec option" where
  "MergeAgentConfigs configs =
     (case configs of
        [] \<Rightarrow> None
      | [c] \<Rightarrow> Some c
      | _ \<Rightarrow> Some
          \<lparr>ac_agents_md = str_join (filter (\<lambda>s. s \<noteq> []) (map ac_agents_md configs))
                            [CHR 0x0A, CHR 0x0A],
           ac_plugins = concat (map ac_plugins configs),
           ac_skills = concat (map ac_skills configs),
           ac_mcp_servers =
             snd (foldl (\<lambda>st c. foldl merge_server st (ac_mcp_servers c)) ([], []) configs)\<rparr>)"

definition ResolveAgentConfigRefs :: "task_spec \<Rightarrow> string list" where
  "ResolveAgentConfigRefs spec =
     (case ts_worker spec of
        Some w \<Rightarrow> if wk_agent_configs w \<noteq> [] then wk_agent_configs w else ts_agent_configs spec
      | None \<Rightarrow> ts_agent_configs spec)"

section \<open>The environment of an MCP server\<close>

definition is_optional :: "key_selector \<Rightarrow> bool" where
  "is_optional ref \<longleftrightarrow> ks_optional ref = Some True"

text \<open>The suffix of the error messages.\<close>

definition for_env :: "string \<Rightarrow> env_var \<Rightarrow> string" where
  "for_env serverName entry =
     '' for MCP server '' @ quote serverName @ '' env '' @ quote (ev_name entry)"

text \<open>\<open>Inr None\<close> is the result whose \<^verbatim>\<open>ok\<close> is false: the variable is left out.\<close>

definition resolveEnvVarValue ::
  "env \<Rightarrow> string \<Rightarrow> string \<Rightarrow> env_var \<Rightarrow> (go_err + string option) io" where
  "resolveEnvVarValue E ns serverName entry =
     (let fail = (\<lambda>m. ret (Inl (new_err (''MCP server '' @ quote serverName @ '' env ''
                        @ quote (ev_name entry) @ '': '' @ m))))
      in case ev_from entry of
           None \<Rightarrow> ret (Inr (Some (ev_value entry)))
         | Some src \<Rightarrow>
             if ev_value entry \<noteq> [] then fail ''value and valueFrom are mutually exclusive''
             else if es_field src \<noteq> None \<or> es_resource_field src \<noteq> None \<or> es_file_key src \<noteq> None
             then fail ''valueFrom only supports secretKeyRef and configMapKeyRef''
             else (case (es_secret src, es_config_map src) of
                (Some _, Some _) \<Rightarrow>
                  fail ''valueFrom must set only one of secretKeyRef or configMapKeyRef''
              | (Some ref, None) \<Rightarrow> do {
                  r \<leftarrow> read_obj (q_secret E) ''Secret'' ns (ks_name ref);
                  ret (case r of
                         Inl e \<Rightarrow>
                           if is_not_found e \<and> is_optional ref then Inr None
                           else Inl (wrap_err (''fetching secret '' @ quote (ks_name ref)
                                  @ for_env serverName entry) e)
                       | Inr secret \<Rightarrow>
                           (case map_of (sec_data secret) (ks_key ref) of
                              Some raw \<Rightarrow> Inr (Some raw)
                            | None \<Rightarrow>
                                if is_optional ref then Inr None
                                else Inl (new_err (''secret '' @ quote (ks_name ref) @ '' has no key ''
                                       @ quote (ks_key ref) @ for_env serverName entry))))
                }
              | (None, Some ref) \<Rightarrow> do {
                  r \<leftarrow> read_obj (q_config_map E) ''ConfigMap'' ns (ks_name ref);
                  ret (case r of
                         Inl e \<Rightarrow>
                           if is_not_found e \<and> is_optional ref then Inr None
                           else Inl (wrap_err (''fetching configmap '' @ quote (ks_name ref)
                                  @ for_env serverName entry) e)
                       | Inr cm \<Rightarrow>
                           (case map_of (cm_data cm) (ks_key ref) of
                              Some v \<Rightarrow> Inr (Some v)
                            | None \<Rightarrow>
                                (case map_of (cm_binary cm) (ks_key ref) of
                                   Some raw \<Rightarrow> Inr (Some raw)
                                 | None \<Rightarrow>
                                     if is_optional ref then Inr None
                                     else Inl (new_err (''configmap '' @ quote (ks_name ref)
                                            @ '' has no key '' @ quote (ks_key ref)
                                            @ for_env serverName entry)))))
                }
              | (None, None) \<Rightarrow> fail ''valueFrom must set secretKeyRef or configMapKeyRef''))"

text \<open>The map of values and the order in which its names were first set.\<close>

type_synonym ordered_env = "strmap \<times> string list"

definition env_set :: "string \<Rightarrow> string \<Rightarrow> ordered_env \<Rightarrow> ordered_env" where
  "env_set name value st =
     (case st of (values, order) \<Rightarrow>
        (map_put name value values,
         if map_of values name = None then order @ [name] else order))"

fun resolve_env_entries ::
  "env \<Rightarrow> string \<Rightarrow> string \<Rightarrow> ordered_env \<Rightarrow> env_var list \<Rightarrow> (go_err + ordered_env) io" where
  "resolve_env_entries E ns serverName st [] = ret (Inr st)"
| "resolve_env_entries E ns serverName st (entry # rest) =
     (if ev_name entry = []
      then ret (Inl (new_err (''MCP server '' @ quote serverName
                              @ '' has an env entry with an empty name'')))
      else do {
        r \<leftarrow> resolveEnvVarValue E ns serverName entry;
        (case r of
           Inl e \<Rightarrow> ret (Inl e)
         | Inr None \<Rightarrow> resolve_env_entries E ns serverName st rest
         | Inr (Some value) \<Rightarrow>
             resolve_env_entries E ns serverName (env_set (ev_name entry) value st) rest)
      })"

definition env_from_secret :: "strmap \<Rightarrow> ordered_env \<Rightarrow> ordered_env" where
  "env_from_secret data st =
     foldl (\<lambda>st key. env_set key (map_str data key) st) st (sort (remdups (map fst data)))"

definition env_list :: "ordered_env \<Rightarrow> env_var list" where
  "env_list st =
     (case st of (values, order) \<Rightarrow>
        map (\<lambda>name. \<lparr>ev_name = name, ev_value = map_str values name, ev_from = None\<rparr>) order)"

definition resolveMCPServerEnv ::
  "env \<Rightarrow> string \<Rightarrow> mcp_server_spec \<Rightarrow> (go_err + env_var list) io" where
  "resolveMCPServerEnv E ns server = do {
     r \<leftarrow> resolve_env_entries E ns (mcp_name server) ([], []) (mcp_env server);
     (case r of
        Inl e \<Rightarrow> ret (Inl e)
      | Inr st \<Rightarrow>
          (case mcp_env_from server of
             None \<Rightarrow> ret (Inr (env_list st))
           | Some ref \<Rightarrow> do {
               s \<leftarrow> read_obj (q_secret E) ''Secret'' ns ref;
               ret (case s of
                      Inl e \<Rightarrow> Inl (wrap_err (''fetching envFrom secret '' @ quote ref
                                 @ '' for MCP server '' @ quote (mcp_name server)) e)
                    | Inr secret \<Rightarrow> Inr (env_list (env_from_secret (sec_data secret) st)))
             }))
   }"

definition resolve_headers ::
  "env \<Rightarrow> string \<Rightarrow> mcp_server_spec \<Rightarrow> (go_err + mcp_server_spec) io" where
  "resolve_headers E ns server =
     (case mcp_headers_from server of
        None \<Rightarrow> ret (Inr server)
      | Some ref \<Rightarrow> do {
          s \<leftarrow> read_obj (q_secret E) ''Secret'' ns ref;
          ret (case s of
                 Inl e \<Rightarrow> Inl (wrap_err (''fetching headersFrom secret '' @ quote ref
                            @ '' for MCP server '' @ quote (mcp_name server)) e)
               | Inr secret \<Rightarrow>
                   Inr (server\<lparr>mcp_headers := foldl (\<lambda>m (k, v). map_put k v m)
                                 (mcp_headers server) (sec_data secret),
                               mcp_headers_from := None\<rparr>))
        })"

fun resolveMCPServerSecrets ::
  "env \<Rightarrow> string \<Rightarrow> mcp_server_spec list \<Rightarrow> (go_err + mcp_server_spec list) io" where
  "resolveMCPServerSecrets E ns [] = ret (Inr [])"
| "resolveMCPServerSecrets E ns (server # rest) = do {
     h \<leftarrow> resolve_headers E ns server;
     (case h of
        Inl e \<Rightarrow> ret (Inl e)
      | Inr server1 \<Rightarrow> do {
          v \<leftarrow> resolveMCPServerEnv E ns server;
          (case v of
             Inl e \<Rightarrow> ret (Inl e)
           | Inr vars \<Rightarrow> do {
               r \<leftarrow> resolveMCPServerSecrets E ns rest;
               ret (case r of
                      Inl e \<Rightarrow> Inl e
                    | Inr servers \<Rightarrow>
                        Inr (server1\<lparr>mcp_env := vars, mcp_env_from := None\<rparr> # servers))
             })
        })
   }"

section \<open>The secrets of skills\<close>

fun validate_skills ::
  "env \<Rightarrow> string \<Rightarrow> string list \<Rightarrow> skills_sh_spec list \<Rightarrow> go_err option io" where
  "validate_skills E ns checked [] = ret None"
| "validate_skills E ns checked (skill # rest) =
     (case sk_secret skill of
        None \<Rightarrow> validate_skills E ns checked rest
      | Some ref \<Rightarrow>
          if ref = []
          then ret (Some (new_err (''skills.sh source '' @ quote (sk_source skill)
                                   @ '' has secretRef with empty name'')))
          else if ref \<in> set checked then validate_skills E ns checked rest
          else do {
            r \<leftarrow> read_obj (q_secret E) ''Secret'' ns ref;
            (case r of
               Inl e \<Rightarrow> ret (Some (wrap_err (''fetching secret '' @ quote ref
                          @ '' for skills.sh source '' @ quote (sk_source skill)) e))
             | Inr secret \<Rightarrow>
                 (case map_of (sec_data secret) ''GITHUB_TOKEN'' of
                    None \<Rightarrow> ret (Some (new_err (''secret '' @ quote ref @ '' has no key ''
                              @ quote ''GITHUB_TOKEN'' @ '' for skills.sh source ''
                              @ quote (sk_source skill))))
                  | Some token \<Rightarrow>
                      if token = []
                      then ret (Some (new_err (''secret '' @ quote ref @ '' has empty key ''
                              @ quote ''GITHUB_TOKEN'' @ '' for skills.sh source ''
                              @ quote (sk_source skill))))
                      else validate_skills E ns (ref # checked) rest))
          })"

definition validateSkillsAuthSecrets :: "env \<Rightarrow> string \<Rightarrow> skills_sh_spec list \<Rightarrow> go_err option io" where
  "validateSkillsAuthSecrets E ns skills = validate_skills E ns [] skills"

section \<open>The plugin ConfigMap\<close>

definition sanitizeComponentName :: "string \<Rightarrow> string \<Rightarrow> go_err option" where
  "sanitizeComponentName name kind =
     (if name = [] then Some (new_err (kind @ '' name is empty''))
      else if CHR ''/'' \<in> set name \<or> CHR 0x5C \<in> set name
      then Some (new_err (kind @ '' name '' @ quote name @ '' contains path separators''))
      else if name = ''.'' \<or> name = ''..''
      then Some (new_err (kind @ '' name '' @ quote name @ '' is a path traversal''))
      else None)"

definition pluginConfigMapMaxBytes :: int where
  "pluginConfigMapMaxBytes = 900 * 1024"

definition PluginConfigMapName :: "string \<Rightarrow> string" where
  "PluginConfigMapName taskName = taskName @ ''-plugins''"

text \<open>The accumulated data, projection items (key and path) and size.\<close>

record plugin_payload =
  pp_data :: strmap
  pp_items :: "(string \<times> string) list"
  pp_bytes :: int

definition component_key :: "int \<Rightarrow> string \<Rightarrow> int \<Rightarrow> string" where
  "component_key i letter j = ''p'' @ itoa i @ ''-'' @ letter @ itoa j"

definition add_component :: "string \<Rightarrow> string \<Rightarrow> string \<Rightarrow> plugin_payload \<Rightarrow> plugin_payload" where
  "add_component key path content p =
     p\<lparr>pp_data := map_put key content (pp_data p), pp_items := pp_items p @ [(key, path)],
       pp_bytes := pp_bytes p + int (length content)\<rparr>"

text \<open>
  \<^verbatim>\<open>path.Join\<close> joins with slashes and cleans the result; component names that passed
  \<^verbatim>\<open>sanitizeComponentName\<close> leave nothing to clean.
\<close>

definition skill_path :: "string \<Rightarrow> string \<Rightarrow> string" where
  "skill_path plugin skill = plugin @ ''/skills/'' @ skill @ ''/SKILL.md''"

definition agent_path :: "string \<Rightarrow> string \<Rightarrow> string" where
  "agent_path plugin agent = plugin @ ''/agents/'' @ agent @ ''.md''"

fun add_skills :: "string \<Rightarrow> int \<Rightarrow> int \<Rightarrow> (string \<times> string) list \<Rightarrow> plugin_payload \<Rightarrow>
    go_err + plugin_payload" where
  "add_skills plugin i j [] p = Inr p"
| "add_skills plugin i j ((name, content) # rest) p =
     (case sanitizeComponentName name ''skill'' of
        Some e \<Rightarrow> Inl e
      | None \<Rightarrow> add_skills plugin i (j + 1) rest
                  (add_component (component_key i ''s'' j) (skill_path plugin name) content p))"

fun add_agents :: "string \<Rightarrow> int \<Rightarrow> int \<Rightarrow> (string \<times> string) list \<Rightarrow> plugin_payload \<Rightarrow>
    go_err + plugin_payload" where
  "add_agents plugin i j [] p = Inr p"
| "add_agents plugin i j ((name, content) # rest) p =
     (case sanitizeComponentName name ''agent'' of
        Some e \<Rightarrow> Inl e
      | None \<Rightarrow> add_agents plugin i (j + 1) rest
                  (add_component (component_key i ''a'' j) (agent_path plugin name) content p))"

fun add_plugins :: "int \<Rightarrow> plugin_spec list \<Rightarrow> plugin_payload \<Rightarrow> go_err + plugin_payload" where
  "add_plugins i [] p = Inr p"
| "add_plugins i (plugin # rest) p =
     (case sanitizeComponentName (pl_name plugin) ''plugin'' of
        Some e \<Rightarrow> Inl e
      | None \<Rightarrow>
          (case add_skills (pl_name plugin) i 0 (pl_skills plugin) p of
             Inl e \<Rightarrow> Inl e
           | Inr p1 \<Rightarrow>
               (case add_agents (pl_name plugin) i 0 (pl_agents plugin) p1 of
                  Inl e \<Rightarrow> Inl e
                | Inr p2 \<Rightarrow> add_plugins (i + 1) rest p2)))"

definition buildPluginConfigMapData ::
  "plugin_spec list \<Rightarrow> go_err + strmap \<times> (string \<times> string) list" where
  "buildPluginConfigMapData plugins =
     (case add_plugins 0 plugins \<lparr>pp_data = [], pp_items = [], pp_bytes = 0\<rparr> of
        Inl e \<Rightarrow> Inl e
      | Inr p \<Rightarrow>
          if pp_bytes p > pluginConfigMapMaxBytes
          then Inl (new_err (''plugin content totals '' @ itoa (pp_bytes p)
                 @ '' bytes, exceeding the '' @ itoa pluginConfigMapMaxBytes
                 @ '' byte ConfigMap budget; reduce skill/agent content size''))
          else Inr (pp_data p, pp_items p))"

definition buildPluginConfigMap :: "task \<Rightarrow> plugin_spec list \<Rightarrow> go_err + config_map" where
  "buildPluginConfigMap t plugins =
     (case buildPluginConfigMapData plugins of
        Inl e \<Rightarrow> Inl (wrap_err ''invalid plugin configuration'' e)
      | Inr (data, _) \<Rightarrow>
          Inr \<lparr>cm_meta = blank_meta\<lparr>m_name := PluginConfigMapName (t_name t),
                                     m_namespace := t_namespace t\<rparr>,
               cm_data = data, cm_binary = []\<rparr>)"

text \<open>The update of an existing ConfigMap, the last attempt of its retry loop.\<close>

definition adopt_config_map :: "env \<Rightarrow> task \<Rightarrow> config_map \<Rightarrow> go_err option io" where
  "adopt_config_map E t configMap = do {
     r \<leftarrow> read_obj (q_config_map E) ''ConfigMap'' (m_namespace (cm_meta configMap))
            (m_name (cm_meta configMap));
     (case r of
        Inl e \<Rightarrow> ret (Some e)
      | Inr existing \<Rightarrow>
          if \<not> l_controlled_by E (cm_meta existing) (t_meta t)
          then ret (Some (new_err (''plugin ConfigMap '' @ quote (m_name (cm_meta configMap))
                 @ '' already exists and is not controlled by this Task'')))
          else (case l_set_controller E (t_meta t) (cm_meta existing) of
                  Inl e \<Rightarrow> ret (Some e)
                | Inr meta \<Rightarrow> write_call E (UpdateConfigMap
                    (existing\<lparr>cm_data := cm_data configMap, cm_meta := meta\<rparr>))))
   }"

definition ensurePluginConfigMap :: "env \<Rightarrow> task \<Rightarrow> config_map \<Rightarrow> go_err option io" where
  "ensurePluginConfigMap E t configMap =
     (case l_set_controller E (t_meta t) (cm_meta configMap) of
        Inl e \<Rightarrow> ret (Some (wrap_err ''setting owner reference on plugin ConfigMap'' e))
      | Inr meta \<Rightarrow> do {
          c \<leftarrow> write_call E (CreateConfigMap (configMap\<lparr>cm_meta := meta\<rparr>));
          (case c of
             None \<Rightarrow> ret None
           | Some e \<Rightarrow>
               if \<not> is_already_exists e
               then ret (Some (wrap_err ''creating plugin ConfigMap'' e))
               else do {
                 u \<leftarrow> adopt_config_map E t (configMap\<lparr>cm_meta := meta\<rparr>);
                 ret (case u of
                        Some e \<Rightarrow> Some (wrap_err ''updating plugin ConfigMap'' e)
                      | None \<Rightarrow> None)
               })
        })"

end
