(* ===== verification/GitHubToken.thy ===== *)
theory GitHubToken
  imports Effects
begin

text \<open>
  GitHub App credentials: \<^verbatim>\<open>internal/githubapp/token.go\<close> and \<^verbatim>\<open>resolver.go\<close>, the derived
  token Secret of \<^verbatim>\<open>internal/controller/github_token_secret.go\<close>, and the two entry points
  of the task reconciler. Parsing a PEM key and the HTTP exchange are the environment's.
\<close>

section \<open>Credentials\<close>

definition IsGitHubApp :: "strmap \<Rightarrow> bool" where
  "IsGitHubApp secretData \<longleftrightarrow>
     map_of secretData ''appID'' \<noteq> None \<and> map_of secretData ''installationID'' \<noteq> None
     \<and> map_of secretData ''privateKey'' \<noteq> None"

definition ParseCredentials :: "env \<Rightarrow> strmap \<Rightarrow> go_err + app_credentials" where
  "ParseCredentials E data =
     (if map_str data ''appID'' = [] then Inl (new_err ''missing appID in secret data'')
      else if map_str data ''installationID'' = []
      then Inl (new_err ''missing installationID in secret data'')
      else if map_str data ''privateKey'' = []
      then Inl (new_err ''missing privateKey in secret data'')
      else (case l_private_key E (map_str data ''privateKey'') of
              Inl e \<Rightarrow> Inl (wrap_err ''parsing private key'' e)
            | Inr key \<Rightarrow>
                Inr \<lparr>app_id = trim_space (map_str data ''appID''),
                     app_installation = trim_space (map_str data ''installationID''),
                     app_key = key\<rparr>))"

definition defaultGitHubAPIURL :: string where
  "defaultGitHubAPIURL = ''https://api.github.com''"

definition token_client_base :: "string \<Rightarrow> string" where
  "token_client_base base = (if base \<noteq> [] then base else defaultGitHubAPIURL)"

definition GenerateInstallationToken ::
  "env \<Rightarrow> string \<Rightarrow> app_credentials \<Rightarrow> (go_err + (string \<times> int)) io" where
  "GenerateInstallationToken E base creds =
     mint_token E (token_client_base base @ ''/app/installations/'' @ app_installation creds
                   @ ''/access_tokens'') creds"

section \<open>The caching provider\<close>

definition tokenExpiryMargin :: int where
  "tokenExpiryMargin = minutes 5"

record token_provider =
  tp_base :: string
  tp_creds :: app_credentials
  tp_token :: string
  tp_expires :: int

definition NewTokenProvider :: "string \<Rightarrow> app_credentials \<Rightarrow> token_provider" where
  "NewTokenProvider base creds = \<lparr>tp_base = base, tp_creds = creds, tp_token = [], tp_expires = 0\<rparr>"

definition Token :: "env \<Rightarrow> token_provider \<Rightarrow> ((go_err + string) \<times> token_provider) io" where
  "Token E tp = do {
     now \<leftarrow> clock E;
     (if tp_token tp \<noteq> [] \<and> now + tokenExpiryMargin < tp_expires tp
      then ret (Inr (tp_token tp), tp)
      else do {
        r \<leftarrow> GenerateInstallationToken E (tp_base tp) (tp_creds tp);
        (case r of
           Inl e \<Rightarrow>
             if tp_token tp \<noteq> [] \<and> now < tp_expires tp then ret (Inr (tp_token tp), tp)
             else ret (Inl (wrap_err ''generating installation token'' e), tp)
         | Inr (token, expiresAt) \<Rightarrow>
             ret (Inr token, tp\<lparr>tp_token := token, tp_expires := expiresAt\<rparr>))
      })
   }"

text \<open>What a resolver is: nothing, a fixed token, or a provider.\<close>

datatype token_resolver = NoResolver | FixedToken string | ProviderToken token_provider

definition app_keys_present :: "strmap \<Rightarrow> nat" where
  "app_keys_present data =
     length (filter (\<lambda>k. trim_space (map_str data k) \<noteq> [])
       [''appID'', ''installationID'', ''privateKey''])"

definition NewSecretTokenResolver :: "env \<Rightarrow> strmap \<Rightarrow> string \<Rightarrow> go_err + token_resolver" where
  "NewSecretTokenResolver E secretData apiBaseURL =
     (let token = trim_space (map_str secretData ''GITHUB_TOKEN'')
      in if token \<noteq> [] then Inr (FixedToken token)
         else if app_keys_present secretData = 0 then Inr NoResolver
         else if app_keys_present secretData = 3
         then (case ParseCredentials E secretData of
                 Inl e \<Rightarrow> Inl (wrap_err ''parsing GitHub App credentials'' e)
               | Inr creds \<Rightarrow>
                   Inr (ProviderToken (NewTokenProvider
                     (if apiBaseURL \<noteq> [] then apiBaseURL else defaultGitHubAPIURL) creds)))
         else Inl (new_err (''incomplete GitHub App credentials: provide all of appID, ''
                            @ ''installationID, and privateKey'')))"

section \<open>The derived token Secret\<close>

definition tokenRefreshMargin :: int where "tokenRefreshMargin = minutes 5"

definition tokenRefreshRetryInterval :: int where "tokenRefreshRetryInterval = seconds 30"

definition tokenExpiresAtAnnotation :: string where
  "tokenExpiresAtAnnotation = ''kelos.dev/token-expires-at''"

definition githubAppSecretAnnotation :: string where
  "githubAppSecretAnnotation = ''kelos.dev/github-app-secret''"

definition GitHubTokenSecretKey :: string where
  "GitHubTokenSecretKey = ''GITHUB_TOKEN''"

definition githubTokenSecretName :: "string \<Rightarrow> string" where
  "githubTokenSecretName ownerName = ownerName @ ''-github-token''"

definition tokenClientForRepo :: "env \<Rightarrow> string \<Rightarrow> string" where
  "tokenClientForRepo E repoURL =
     (if repoURL \<noteq> [] \<and> gitHubAPIBaseURL (repo_host repoURL) \<noteq> [] then gitHubAPIBaseURL (repo_host repoURL)
      else token_base_url E)"

definition token_annotations :: "env \<Rightarrow> string \<Rightarrow> int \<Rightarrow> strmap" where
  "token_annotations E appSecretName expiresAt =
     [(githubAppSecretAnnotation, appSecretName),
      (tokenExpiresAtAnnotation, l_format_time E expiresAt)]"

text \<open>The update of an existing Secret, the last attempt of its retry loop.\<close>

definition adopt_token_secret ::
  "env \<Rightarrow> object_meta \<Rightarrow> string \<Rightarrow> strmap \<Rightarrow> strmap \<Rightarrow> go_err option io" where
  "adopt_token_secret E owner tokenSecretName annotations stringData = do {
     r \<leftarrow> read_obj (q_secret E) ''Secret'' (m_namespace owner) tokenSecretName;
     (case r of
        Inl e \<Rightarrow> ret (Some e)
      | Inr existing \<Rightarrow>
          if \<not> l_controlled_by E (sec_meta existing) owner
          then ret (Some (new_err (''token secret '' @ quote tokenSecretName
                 @ '' already exists and is not controlled by '' @ quote (m_name owner))))
          else (let existing1 = existing\<lparr>sec_string_data := stringData,
                      sec_meta := (sec_meta existing)\<lparr>m_annotations :=
                        foldl (\<lambda>m (k, v). map_put k v m) (m_annotations (sec_meta existing)) annotations\<rparr>\<rparr>
                in case l_set_controller E owner (sec_meta existing1) of
                     Inl e \<Rightarrow> ret (Some e)
                   | Inr meta \<Rightarrow> write_call E (UpdateSecret (existing1\<lparr>sec_meta := meta\<rparr>))))
   }"

definition mintGitHubAppTokenSecret ::
  "env \<Rightarrow> object_meta \<Rightarrow> string \<Rightarrow> string \<Rightarrow> string \<Rightarrow> app_credentials \<Rightarrow> (go_err + int) io" where
  "mintGitHubAppTokenSecret E owner tokenSecretName appSecretName repoURL creds = do {
     r \<leftarrow> GenerateInstallationToken E (tokenClientForRepo E repoURL) creds;
     (case r of
        Inl e \<Rightarrow> ret (Inl (wrap_err ''generating installation token'' e))
      | Inr (token, expiresAt) \<Rightarrow>
          (let annotations = token_annotations E appSecretName expiresAt;
               stringData = [(GitHubTokenSecretKey, token)];
               meta0 = blank_meta\<lparr>m_name := tokenSecretName, m_namespace := m_namespace owner,
                                  m_annotations := annotations\<rparr>
           in case l_set_controller E owner meta0 of
                Inl e \<Rightarrow> ret (Inl (wrap_err ''setting owner reference on token secret'' e))
              | Inr meta \<Rightarrow> do {
                  c \<leftarrow> write_call E (CreateSecret
                         \<lparr>sec_meta = meta, sec_data = [], sec_string_data = stringData\<rparr>);
                  (case c of
                     None \<Rightarrow> ret (Inr expiresAt)
                   | Some e \<Rightarrow>
                       if \<not> is_already_exists e
                       then ret (Inl (wrap_err ''creating token secret'' e))
                       else do {
                         u \<leftarrow> adopt_token_secret E owner tokenSecretName annotations stringData;
                         (case u of
                            Some e \<Rightarrow> ret (Inl (wrap_err ''updating token secret'' e))
                          | None \<Rightarrow> ret (Inr expiresAt))
                       })
                }))
   }"

definition tokenRefreshFailureRetryAfter :: "int \<Rightarrow> int \<Rightarrow> int" where
  "tokenRefreshFailureRetryAfter now expiresAt =
     (let remaining = expiresAt - now
      in if remaining \<le> 0 then tokenRefreshRetryInterval
         else (let retryAfter = remaining div 2
               in if retryAfter > tokenRefreshRetryInterval then tokenRefreshRetryInterval
                  else if retryAfter < seconds 1 then seconds 1
                  else retryAfter))"

record refresh_result =
  rf_next :: int
  rf_expires :: int
  rf_refreshed :: bool
  rf_error :: "go_err option"

definition no_refresh :: refresh_result where
  "no_refresh = \<lparr>rf_next = 0, rf_expires = 0, rf_refreshed = False, rf_error = None\<rparr>"

definition refresh_failed :: "int \<Rightarrow> go_err \<Rightarrow> refresh_result" where
  "refresh_failed retryAfter e =
     \<lparr>rf_next = retryAfter, rf_expires = 0, rf_refreshed = False, rf_error = Some e\<rparr>"

text \<open>The part after the expiry check, which mints the new token.\<close>

definition remint_token ::
  "env \<Rightarrow> string \<Rightarrow> secret \<Rightarrow> string \<Rightarrow> string \<Rightarrow> int \<Rightarrow> refresh_result io" where
  "remint_token E ns tokenSecret appSecretName repoURL retryAfter =
     (if \<not> has_token_client E
      then ret (refresh_failed retryAfter
             (new_err ''GitHub App token refresh requested but TokenClient is not configured''))
      else do {
        s \<leftarrow> read_obj (q_secret E) ''Secret'' ns appSecretName;
        (case s of
           Inl e \<Rightarrow> ret (refresh_failed retryAfter
                      (wrap_err (''fetching GitHub App secret '' @ quote appSecretName) e))
         | Inr appSecret \<Rightarrow>
             if \<not> IsGitHubApp (sec_data appSecret) then ret no_refresh
             else (case ParseCredentials E (sec_data appSecret) of
                Inl e \<Rightarrow> ret (refresh_failed retryAfter (wrap_err ''parsing GitHub App credentials'' e))
              | Inr creds \<Rightarrow> do {
                  r \<leftarrow> GenerateInstallationToken E (tokenClientForRepo E repoURL) creds;
                  (case r of
                     Inl e \<Rightarrow> ret (refresh_failed retryAfter
                                (wrap_err ''generating refreshed installation token'' e))
                   | Inr (token, expiresAt) \<Rightarrow> do {
                       u \<leftarrow> write_call E (UpdateSecret (tokenSecret
                              \<lparr>sec_string_data := [(GitHubTokenSecretKey, token)],
                               sec_meta := (sec_meta tokenSecret)\<lparr>m_annotations :=
                                 map_put tokenExpiresAtAnnotation (l_format_time E expiresAt)
                                   (m_annotations (sec_meta tokenSecret))\<rparr>\<rparr>));
                       (case u of
                          Some e \<Rightarrow> ret (refresh_failed retryAfter
                                      (wrap_err ''updating token secret with refreshed token'' e))
                        | None \<Rightarrow> do {
                            now \<leftarrow> clock E;
                            (let next = expiresAt - tokenRefreshMargin - now
                             in ret \<lparr>rf_next = (if next < 0 then 0 else next), rf_expires = expiresAt,
                                     rf_refreshed = True, rf_error = None\<rparr>)
                          })
                     })
                }))
      })"

definition refreshGitHubAppTokenSecret ::
  "env \<Rightarrow> string \<Rightarrow> string \<Rightarrow> string \<Rightarrow> refresh_result io" where
  "refreshGitHubAppTokenSecret E ns tokenSecretName repoURL = do {
     r \<leftarrow> read_obj (q_secret E) ''Secret'' ns tokenSecretName;
     (case r of
        Inl e \<Rightarrow>
          if is_not_found e then ret no_refresh
          else ret (refresh_failed 0 (wrap_err (''fetching token secret '' @ quote tokenSecretName) e))
      | Inr tokenSecret \<Rightarrow>
          (let appSecretName = map_str (m_annotations (sec_meta tokenSecret)) githubAppSecretAnnotation;
               expiresAtStr = map_str (m_annotations (sec_meta tokenSecret)) tokenExpiresAtAnnotation
           in if appSecretName = [] then ret no_refresh
              else (case (if expiresAtStr \<noteq> [] then l_parse_time E expiresAtStr else None) of
                 None \<Rightarrow> remint_token E ns tokenSecret appSecretName repoURL tokenRefreshRetryInterval
               | Some expiresAt \<Rightarrow> do {
                   now \<leftarrow> clock E;
                   (let refreshAt = expiresAt - tokenRefreshMargin
                    in if now < refreshAt
                       then ret \<lparr>rf_next = refreshAt - now, rf_expires = 0, rf_refreshed = False,
                                 rf_error = None\<rparr>
                       else remint_token E ns tokenSecret appSecretName repoURL
                              (tokenRefreshFailureRetryAfter now expiresAt))
                 })))
   }"

section \<open>The task reconciler's use\<close>

definition resolveGitHubAppToken :: "env \<Rightarrow> task \<Rightarrow> workspace_spec \<Rightarrow> string \<Rightarrow>
    (go_err + workspace_spec) io" where
  "resolveGitHubAppToken E t workspace secretRef = do {
     r \<leftarrow> read_obj (q_secret E) ''Secret'' (t_namespace t) secretRef;
     (case r of
        Inl e \<Rightarrow> ret (Inl (wrap_err (''fetching workspace secret '' @ quote secretRef) e))
      | Inr secret \<Rightarrow>
          if \<not> IsGitHubApp (sec_data secret) then ret (Inr workspace)
          else if \<not> has_token_client E
          then ret (Inl (new_err ''GitHub App secret detected but TokenClient is not configured''))
          else (case ParseCredentials E (sec_data secret) of
             Inl e \<Rightarrow> ret (Inl (wrap_err ''parsing GitHub App credentials'' e))
           | Inr creds \<Rightarrow> do {
               m \<leftarrow> mintGitHubAppTokenSecret E (t_meta t) (githubTokenSecretName (t_name t)) secretRef
                      (ws_repo workspace) creds;
               ret (case m of
                      Inl e \<Rightarrow> Inl e
                    | Inr _ \<Rightarrow> Inr (workspace\<lparr>ws_secret := Some (githubTokenSecretName (t_name t))\<rparr>))
             }))
   }"

text \<open>The result is the delay and the error; the event is recorded on a refresh.\<close>

definition refreshGitHubAppTokenIfNeeded :: "env \<Rightarrow> task \<Rightarrow> (int \<times> go_err option) io" where
  "refreshGitHubAppTokenIfNeeded E t = do {
     repoURL \<leftarrow> (case resolveTaskWorkspaceRef t of
         None \<Rightarrow> ret []
       | Some ref \<Rightarrow> do {
           w \<leftarrow> read_obj (q_workspace E) ''Workspace'' (t_namespace t) ref;
           ret (case w of Inl e \<Rightarrow> [] | Inr ws \<Rightarrow> ws_repo ws)
         });
     res \<leftarrow> refreshGitHubAppTokenSecret E (t_namespace t) (githubTokenSecretName (t_name t)) repoURL;
     (if rf_refreshed res
      then log_call (RecordEvent ''Normal'' ''GitHubTokenRefreshed''
             (''Refreshed GitHub App installation token (expires at ''
              @ l_format_time E (rf_expires res) @ '')''))
      else skip_io);
     ret (rf_next res, rf_error res)
   }"

end
