(* ===== verification/JobBuilder.thy ===== *)
theory JobBuilder
  imports AgentConfig GitHubToken
begin

text \<open>
  \<^verbatim>\<open>internal/controller/job_builder.go\<close> and \<^verbatim>\<open>agent_command.go\<close>: the Job that runs a task, with the
  containers that clone the repository and install plugins and skills before the agent starts. The
  containers of worker pools, which are built from the same pieces, are in \<open>PoolBuilder\<close>.
\<close>

section \<open>Images and commands\<close>

definition ClaudeCodeImageRepository :: string where
  "ClaudeCodeImageRepository = ''ghcr.io/kelos-dev/claude-code''"

definition CodexImageRepository :: string where
  "CodexImageRepository = ''ghcr.io/kelos-dev/codex''"

definition GeminiImageRepository :: string where
  "GeminiImageRepository = ''ghcr.io/kelos-dev/gemini''"

definition OpenCodeImageRepository :: string where
  "OpenCodeImageRepository = ''ghcr.io/kelos-dev/opencode''"

definition CursorImageRepository :: string where
  "CursorImageRepository = ''ghcr.io/kelos-dev/cursor''"

definition GitCloneImage :: string where "GitCloneImage = ''alpine/git:v2.47.2''"

definition NodeImage :: string where "NodeImage = ''node:22.14.0-alpine''"

definition WorkspaceVolumeName :: string where "WorkspaceVolumeName = ''workspace''"

definition WorkspaceMountPath :: string where "WorkspaceMountPath = ''/workspace''"

definition PluginVolumeName :: string where "PluginVolumeName = ''kelos-plugin''"

definition PluginMountPath :: string where "PluginMountPath = ''/kelos/plugin''"

definition PluginStagingVolumeName :: string where "PluginStagingVolumeName = ''kelos-plugin-src''"

definition PluginStagingMountPath :: string where "PluginStagingMountPath = ''/kelos-plugin-src''"

definition SkillsShPluginName :: string where "SkillsShPluginName = ''skills-sh''"

definition GHConfigDir :: string where "GHConfigDir = WorkspaceMountPath @ ''/.gh-config''"

definition GitHubTokenVolumeName :: string where "GitHubTokenVolumeName = ''kelos-github-token''"

definition GitHubTokenMountPath :: string where "GitHubTokenMountPath = ''/kelos/github-token''"

definition gitCredentialDefaultUsername :: string where
  "gitCredentialDefaultUsername = ''x-access-token''"

definition AgentUID :: int where "AgentUID = 61100"

definition AgentContainerName :: string where "AgentContainerName = ''kelos-agent''"

definition ReservedNamePrefix :: string where "ReservedNamePrefix = ''kelos-''"

definition reservedEnvNames :: "string list" where
  "reservedEnvNames = [''KELOS_SETUP_COMMAND'', ''KELOS_SESSION_SETUP_ONLY'']"

lemmas job_constants = GitCloneImage_def NodeImage_def WorkspaceVolumeName_def WorkspaceMountPath_def
  PluginVolumeName_def PluginMountPath_def PluginStagingVolumeName_def PluginStagingMountPath_def
  SkillsShPluginName_def GHConfigDir_def GitHubTokenVolumeName_def GitHubTokenMountPath_def
  GitHubTokenSecretKey_def gitCredentialDefaultUsername_def AgentUID_def AgentContainerName_def
  ReservedNamePrefix_def reservedEnvNames_def

definition bundledAgentImageRepositories :: "string list" where
  "bundledAgentImageRepositories =
     [ClaudeCodeImageRepository, CodexImageRepository, GeminiImageRepository, OpenCodeImageRepository,
      CursorImageRepository]"

definition isBundledAgentImage :: "string \<Rightarrow> bool" where
  "isBundledAgentImage img \<longleftrightarrow>
     list_ex (\<lambda>repository. img = repository \<or> prefix (repository @ '':'') img
       \<or> prefix (repository @ ''@'') img) bundledAgentImageRepositories"

definition agentProcessCommand :: "string \<Rightarrow> bool \<Rightarrow> string list" where
  "agentProcessCommand program useTini =
     (if useTini then [''/usr/bin/tini'', ''-g'', ''--'', program] else [program])"

definition NewJobBuilder :: agent_images where
  "NewJobBuilder =
     \<lparr>ai_claude = ClaudeCodeImageRepository @ '':latest'', ai_claude_pull = [],
      ai_codex = CodexImageRepository @ '':latest'', ai_codex_pull = [],
      ai_gemini = GeminiImageRepository @ '':latest'', ai_gemini_pull = [],
      ai_opencode = OpenCodeImageRepository @ '':latest'', ai_opencode_pull = [],
      ai_cursor = CursorImageRepository @ '':latest'', ai_cursor_pull = []\<rparr>"

section \<open>What a task asks for\<close>

definition resolveTaskPodOverrides :: "task \<Rightarrow> pod_overrides option" where
  "resolveTaskPodOverrides t =
     (case ts_worker (t_spec t) of
        Some w \<Rightarrow> (case wk_pod_overrides w of Some po \<Rightarrow> Some po | None \<Rightarrow> ts_pod_overrides (t_spec t))
      | None \<Rightarrow> ts_pod_overrides (t_spec t))"

definition resolveTaskCredentials :: "task \<Rightarrow> credentials option" where
  "resolveTaskCredentials t =
     (case ts_worker (t_spec t) of
        Some w \<Rightarrow> (case wk_credentials w of Some c \<Rightarrow> Some c | None \<Rightarrow> ts_credentials (t_spec t))
      | None \<Rightarrow> ts_credentials (t_spec t))"

definition resolveTaskEffort :: "task \<Rightarrow> string" where
  "resolveTaskEffort t =
     (case ts_worker (t_spec t) of
        Some w \<Rightarrow> if wk_effort w \<noteq> [] then wk_effort w else ts_effort (t_spec t)
      | None \<Rightarrow> ts_effort (t_spec t))"

definition resolveTaskImage :: "task \<Rightarrow> string" where
  "resolveTaskImage t =
     (case ts_worker (t_spec t) of
        Some w \<Rightarrow> if wk_image w \<noteq> [] then wk_image w else ts_image (t_spec t)
      | None \<Rightarrow> ts_image (t_spec t))"

section \<open>The environment of the agent\<close>

definition apiKeyEnvVar :: "string \<Rightarrow> string" where
  "apiKeyEnvVar agentType =
     (if agentType = ''codex'' then ''CODEX_API_KEY''
      else if agentType = ''gemini'' then ''GEMINI_API_KEY''
      else if agentType = ''opencode'' then ''OPENCODE_API_KEY''
      else if agentType = ''cursor'' then ''CURSOR_API_KEY'' else ''ANTHROPIC_API_KEY'')"

definition oauthEnvVar :: "string \<Rightarrow> string" where
  "oauthEnvVar agentType =
     (if agentType = ''codex'' then ''CODEX_AUTH_JSON''
      else if agentType = ''gemini'' then ''GEMINI_API_KEY''
      else if agentType = ''opencode'' then ''OPENCODE_API_KEY''
      else if agentType = ''cursor'' then ''CURSOR_API_KEY'' else ''CLAUDE_CODE_OAUTH_TOKEN'')"

definition credentialEnvVars :: "credentials \<Rightarrow> string \<Rightarrow> env_var list" where
  "credentialEnvVars creds agentType =
     (let secretName = (case cr_secret creds of None \<Rightarrow> [] | Some n \<Rightarrow> n);
          ref = (\<lambda>key. secret_env key secretName key)
      in if cr_type creds = ''api-key'' then [ref (apiKeyEnvVar agentType)]
         else if cr_type creds = ''oauth'' then [ref (oauthEnvVar agentType)]
         else [])"

text \<open>A variable that is left out if its value is empty.\<close>

definition opt_env :: "string \<Rightarrow> string \<Rightarrow> env_var list" where
  "opt_env name value = (if value = [] then [] else [plain_env name value])"

definition task_env :: "task \<Rightarrow> env_var list" where
  "task_env t =
     opt_env ''KELOS_MODEL'' (resolveTaskModel t) @ opt_env ''KELOS_EFFORT'' (resolveTaskEffort t)
     @ opt_env ''KELOS_BRANCH'' (ts_branch (t_spec t))
     @ [plain_env ''KELOS_AGENT_TYPE'' (resolveTaskType t)]
     @ opt_env ''KELOS_TASKSPAWNER'' (resolveTaskSpawner t)
     @ (case resolveTaskCredentials t of None \<Rightarrow> [] | Some c \<Rightarrow> credentialEnvVars c (resolveTaskType t))"

definition effectiveWorkspaceRemotes :: "workspace_spec option \<Rightarrow> (string \<times> string) list" where
  "effectiveWorkspaceRemotes workspace = (case workspace of None \<Rightarrow> [] | Some ws \<Rightarrow> ws_remotes ws)"

fun upstreamRepoEnvValue :: "(string \<times> string) list \<Rightarrow> string" where
  "upstreamRepoEnvValue [] = []"
| "upstreamRepoEnvValue ((name, url) # rest) =
     (if name \<noteq> ''upstream'' then upstreamRepoEnvValue rest
      else (let (host, owner, repo) = parseGitHubRepo url
            in if owner \<noteq> [] \<and> repo \<noteq> [] then owner @ ''/'' @ repo else upstreamRepoEnvValue rest))"

definition is_enterprise :: "workspace_spec \<Rightarrow> bool" where
  "is_enterprise ws \<longleftrightarrow> repo_host (ws_repo ws) \<noteq> [] \<and> repo_host (ws_repo ws) \<noteq> ''github.com''"

definition gh_host_env :: "workspace_spec \<Rightarrow> env_var list" where
  "gh_host_env ws = (if is_enterprise ws then [plain_env ''GH_HOST'' (repo_host (ws_repo ws))] else [])"

definition upstream_env :: "string \<Rightarrow> workspace_spec \<Rightarrow> env_var list" where
  "upstream_env explicit ws =
     opt_env ''KELOS_UPSTREAM_REPO''
       (if explicit \<noteq> [] then explicit else upstreamRepoEnvValue (effectiveWorkspaceRemotes (Some ws)))"

text \<open>The variables that hold the token: git's and the one of the \<^verbatim>\<open>gh\<close> command.\<close>

definition token_envs :: "workspace_spec \<Rightarrow> env_var list" where
  "token_envs ws =
     (case ws_secret ws of
        None \<Rightarrow> []
      | Some secret \<Rightarrow>
          [secret_env ''GITHUB_TOKEN'' secret GitHubTokenSecretKey,
           secret_env (if is_enterprise ws then ''GH_ENTERPRISE_TOKEN'' else ''GH_TOKEN'') secret
             GitHubTokenSecretKey])"

definition token_file_env :: env_var where
  "token_file_env = plain_env ''KELOS_GITHUB_TOKEN_FILE'' (GitHubTokenMountPath @ ''/'' @ GitHubTokenSecretKey)"

definition workspaceAgentGetsGitHubToken :: "workspace_spec \<Rightarrow> bool" where
  "workspaceAgentGetsGitHubToken ws \<longleftrightarrow> ws_secret ws \<noteq> None \<and> ws_agent_credentials ws \<noteq> ''None''"

definition agent_workspace_env :: "task \<Rightarrow> workspace_spec \<Rightarrow> env_var list" where
  "agent_workspace_env t ws =
     gh_host_env ws @ opt_env ''KELOS_BASE_BRANCH'' (ws_ref ws) @ upstream_env (ts_upstream_repo (t_spec t)) ws
     @ (if workspaceAgentGetsGitHubToken ws
        then token_envs ws @ [plain_env ''GH_CONFIG_DIR'' GHConfigDir, token_file_env] else [])"

text \<open>What the containers get that clone and set up the repository.\<close>

definition init_workspace_env :: "workspace_spec \<Rightarrow> env_var list" where
  "init_workspace_env ws =
     gh_host_env ws @ token_envs ws @ (if ws_secret ws = None then [] else [token_file_env])"

section \<open>Checking out the repository\<close>

definition workspaceClonesSingleBranch :: "workspace_spec \<Rightarrow> bool" where
  "workspaceClonesSingleBranch ws \<longleftrightarrow>
     (case ws_clone ws of None \<Rightarrow> False | Some c \<Rightarrow> wc_branches c = ''Single'')"

definition workspaceCloneBranchesFlag :: "workspace_spec \<Rightarrow> string" where
  "workspaceCloneBranchesFlag ws =
     (if workspaceClonesSingleBranch ws then ''--single-branch'' else ''--no-single-branch'')"

definition isFullGitCommitSHA :: "string \<Rightarrow> bool" where
  "isFullGitCommitSHA ref \<longleftrightarrow>
     length ref = 40 \<and> list_all (\<lambda>c. is_digit c \<or> byte_in 97 102 c \<or> byte_in 65 70 c) ref"

definition workspaceRemovesGitDir :: "workspace_spec \<Rightarrow> bool" where
  "workspaceRemovesGitDir ws \<longleftrightarrow> (case ws_clone ws of None \<Rightarrow> False | Some c \<Rightarrow> wc_remove_git_dir c)"

definition workspacePersistsGitCredentialHelper :: "workspace_spec \<Rightarrow> bool" where
  "workspacePersistsGitCredentialHelper ws \<longleftrightarrow>
     workspaceAgentGetsGitHubToken ws \<and> \<not> workspaceRemovesGitDir ws"

definition sanitizeClonePath :: "string \<Rightarrow> go_err + string" where
  "sanitizeClonePath p =
     (let trimmed = trim_suffix p ''/''
      in if p = [] then Inl (new_err ''path is empty'')
         else if prefix ''/'' p then Inl (new_err ''absolute paths are not allowed'')
         else if list_ex (\<lambda>c. byte c < 32 \<or> byte c = 127 \<or> c \<in> set ''*?['' \<or> c = CHR 0x5C) p
         then Inl (new_err (''path must not contain control characters or any of *?['' @ [CHR 0x5C]))
         else if suffix '' '' trimmed then Inl (new_err ''path must not end with a space'')
         else if list_ex (\<lambda>s. s = [] \<or> s = ''.'' \<or> s = ''..'') (split_char (CHR ''/'') trimmed)
         then Inl (new_err (''path must not contain empty, '' @ squoted ''.'' @ '' or '' @ squoted ''..''
                            @ '' segments''))
         else Inr trimmed)"

fun check_clone_paths :: "string list \<Rightarrow> go_err option" where
  "check_clone_paths [] = None"
| "check_clone_paths (p # ps) =
     (case sanitizeClonePath p of
        Inl e \<Rightarrow> Some (wrap_err (''invalid workspace clone path '' @ quote p) e)
      | Inr _ \<Rightarrow> check_clone_paths ps)"

definition validateWorkspaceCheckout :: "task \<Rightarrow> workspace_spec \<Rightarrow> go_err option" where
  "validateWorkspaceCheckout t ws =
     (case ws_clone ws of
        None \<Rightarrow> None
      | Some clone \<Rightarrow>
          (case check_clone_paths (wc_paths clone) of
             Some e \<Rightarrow> Some e
           | None \<Rightarrow>
               if wc_remove_git_dir clone \<and> ws_remotes ws \<noteq> []
               then Some (new_err ''workspace clone.removeGitDir cannot be combined with remotes'')
               else if wc_remove_git_dir clone \<and> ts_branch (t_spec t) \<noteq> []
               then Some (new_err (''workspace clone.removeGitDir cannot be combined with branch ''
                      @ quote (ts_branch (t_spec t)) @ '': setting up the branch needs the .git directory''))
               else None))"

subsection \<open>The credential helper\<close>

definition gitCredentialHelperForTokenFile :: "string \<Rightarrow> string" where
  "gitCredentialHelperForTokenFile tokenFile =
     ''!f() { if [ -r '' @ quote tokenFile @ '' ]; then echo \"password=$(cat '' @ quote tokenFile
     @ '')\"; else echo \"password=$GITHUB_TOKEN\"; fi; }; f''"

definition gitCredentialHelper :: string where
  "gitCredentialHelper =
     gitCredentialHelperForTokenFile (GitHubTokenMountPath @ ''/'' @ GitHubTokenSecretKey)"

text \<open>The options of a git command that uses the helper and no other.\<close>

definition helper_options :: "string \<Rightarrow> string" where
  "helper_options helper =
     '' -c credential.helper= -c credential.helper='' @ squoted helper @ '' -c credential.username=''
     @ gitCredentialDefaultUsername"

definition workspaceGitCredentialConfigScript :: "string \<Rightarrow> string" where
  "workspaceGitCredentialConfigScript helper =
     ''git -C '' @ WorkspaceMountPath @ ''/repo config --unset-all credential.helper 2>/dev/null || true; ''
     @ ''git -C '' @ WorkspaceMountPath @ ''/repo config --add credential.helper '' @ squoted helper @ '' && ''
     @ ''git -C '' @ WorkspaceMountPath @ ''/repo config credential.username '' @ gitCredentialDefaultUsername"

subsection \<open>The scripts of the clone\<close>

record workspace_checkout =
  co_helper :: string
  co_persist :: bool
  co_sparse :: "string list"
  co_remove_git :: bool

definition workspaceCheckoutFor :: "workspace_spec \<Rightarrow> workspace_checkout" where
  "workspaceCheckoutFor ws =
     \<lparr>co_helper = (if ws_secret ws = None then [] else gitCredentialHelper),
      co_persist = workspacePersistsGitCredentialHelper ws,
      co_sparse = (case ws_clone ws of
                     None \<Rightarrow> []
                   | Some c \<Rightarrow> map (\<lambda>p. ''/'' @ (case sanitizeClonePath p of Inl _ \<Rightarrow> [] | Inr q \<Rightarrow> q)) (wc_paths c)),
      co_remove_git = workspaceRemovesGitDir ws\<rparr>"

definition restricted :: "workspace_checkout \<Rightarrow> bool" where
  "restricted c \<longleftrightarrow> co_sparse c \<noteq> [] \<or> co_remove_git c \<or> (co_helper c \<noteq> [] \<and> \<not> co_persist c)"

definition remoteGit :: "workspace_checkout \<Rightarrow> string \<Rightarrow> string" where
  "remoteGit c dir =
     (let cmd = ''git'' @ (if dir \<noteq> [] then '' -C '' @ dir else [])
      in if co_helper c = [] then cmd else cmd @ helper_options (co_helper c))"

definition sparseCheckoutSetLine :: "workspace_checkout \<Rightarrow> string \<Rightarrow> string" where
  "sparseCheckoutSetLine c dir =
     ''git -C '' @ dir @ '' sparse-checkout set --no-cone -- '' @ str_join (map shellQuote (co_sparse c)) '' ''"

definition finishLines :: "workspace_checkout \<Rightarrow> string \<Rightarrow> string list" where
  "finishLines c dir =
     (if co_persist c then
        [''git -C '' @ dir @ '' config --unset-all credential.helper 2>/dev/null || true'',
         ''git -C '' @ dir @ '' config --add credential.helper '' @ squoted (co_helper c),
         ''git -C '' @ dir @ '' config credential.username '' @ gitCredentialDefaultUsername]
      else [])
     @ (if co_remove_git c then [''rm -rf '' @ dir @ ''/.git''] else [])"

definition buildWorkspaceCloneScript :: "workspace_checkout \<Rightarrow> string" where
  "buildWorkspaceCloneScript c =
     (let dir = WorkspaceMountPath @ ''/repo''
      in unlines ([''set -eu'', remoteGit c [] @ '' \"$@\"'']
           @ (if co_sparse c \<noteq> [] then [sparseCheckoutSetLine c dir, remoteGit c dir @ '' checkout''] else [])
           @ finishLines c dir))"

definition buildWorkspaceCommitCheckoutScript :: "workspace_checkout \<Rightarrow> string" where
  "buildWorkspaceCommitCheckoutScript c =
     (let target = dquoted ''$target''; sparse = co_sparse c \<noteq> []
      in unlines ([''set -eu'', ''repo=$1'', ''target=$2'', ''ref=$3'', ''git init '' @ target,
             ''git -C '' @ target @ '' remote add origin '' @ dquoted ''$repo'']
           @ (if sparse then
                [''git -C '' @ target @ '' config remote.origin.promisor true'',
                 ''git -C '' @ target @ '' config remote.origin.partialclonefilter blob:none'',
                 sparseCheckoutSetLine c target]
              else [])
           @ [remoteGit c target @ '' fetch '' @ (if sparse then ''--depth 1 --filter=blob:none'' else ''--depth 1'')
                @ '' origin '' @ dquoted ''$ref'',
              (if sparse then remoteGit c target else ''git -C '' @ target) @ '' checkout --detach FETCH_HEAD'']
           @ finishLines c target))"

definition buildCommitRefCheckoutScript :: "string \<Rightarrow> string" where
  "buildCommitRefCheckoutScript helper =
     buildWorkspaceCommitCheckoutScript
       \<lparr>co_helper = helper, co_persist = helper \<noteq> [], co_sparse = [], co_remove_git = False\<rparr>"

section \<open>Files put into the repository\<close>

definition sanitizeWorkspaceFilePath :: "string \<Rightarrow> go_err + string" where
  "sanitizeWorkspaceFilePath filePath =
     (let cleanPath = path_clean filePath
      in if trim_space filePath = [] then Inl (new_err ''path is empty'')
         else if CHR 0x5C \<in> set filePath then Inl (new_err ''path must use forward slashes'')
         else if cleanPath = ''.'' then Inl (new_err ''path resolves to current directory'')
         else if prefix ''/'' cleanPath then Inl (new_err ''absolute paths are not allowed'')
         else if cleanPath = ''..'' \<or> prefix ''../'' cleanPath
         then Inl (new_err ''path escapes repository root'')
         else Inr cleanPath)"

definition injection_lines :: "string \<Rightarrow> string \<Rightarrow> string list" where
  "injection_lines relativePath content =
     [''target='' @ shellQuote (WorkspaceMountPath @ ''/repo/'' @ relativePath),
      ''mkdir -p \"$(dirname \"$target\")\"'',
      ''printf '' @ squoted ''%s'' @ '' '' @ shellQuote (base64 content) @ '' | base64 -d > '' @ dquoted ''$target'']"

fun injected_files :: "(string \<times> string) list \<Rightarrow> go_err + string list" where
  "injected_files [] = Inr []"
| "injected_files ((path, content) # rest) =
     (case sanitizeWorkspaceFilePath path of
        Inl e \<Rightarrow> Inl (wrap_err (''invalid workspace file path '' @ quote path) e)
      | Inr relativePath \<Rightarrow>
          (case injected_files rest of
             Inl e \<Rightarrow> Inl e
           | Inr ls \<Rightarrow> Inr (injection_lines relativePath content @ ls)))"

definition buildWorkspaceFileInjectionScript :: "(string \<times> string) list \<Rightarrow> go_err + string" where
  "buildWorkspaceFileInjectionScript files =
     (case injected_files files of Inl e \<Rightarrow> Inl e | Inr ls \<Rightarrow> Inr (unlines (''set -eu'' # ls)))"

section \<open>Checks of what users supply\<close>

fun check_volumes :: "string list \<Rightarrow> volume list \<Rightarrow> go_err option" where
  "check_volumes seen [] = None"
| "check_volumes seen (v # vs) =
     (if prefix ReservedNamePrefix (vol_name v)
      then Some (new_err (''podOverrides.volumes: '' @ quote (vol_name v) @ '' uses the reserved ''
             @ quote ReservedNamePrefix @ '' volume name prefix''))
      else if vol_name v = WorkspaceVolumeName
      then Some (new_err (''podOverrides.volumes: '' @ quote (vol_name v) @ '' is a Kelos-reserved volume name''))
      else if vol_name v \<in> set seen
      then Some (new_err (''podOverrides.volumes: duplicate volume name '' @ quote (vol_name v)))
      else check_volumes (vol_name v # seen) vs)"

definition validateUserVolumes :: "volume list \<Rightarrow> go_err option" where
  "validateUserVolumes vs = check_volumes [] vs"

definition reservedContainerNames :: "string list" where
  "reservedContainerNames =
     [''git-clone'', ''remote-setup'', ''branch-setup'', ''workspace-files'', ''plugin-setup'', ''skills-install'']"

fun check_containers :: "string list \<Rightarrow> container list \<Rightarrow> go_err option" where
  "check_containers seen [] = None"
| "check_containers seen (c # cs) =
     (if prefix ReservedNamePrefix (ct_name c)
      then Some (new_err (''podOverrides: '' @ quote (ct_name c) @ '' uses the reserved ''
             @ quote ReservedNamePrefix @ '' container name prefix''))
      else if ct_name c \<in> set reservedContainerNames
      then Some (new_err (''podOverrides: '' @ quote (ct_name c) @ '' is a Kelos-reserved container name''))
      else if ct_name c \<in> set seen
      then Some (new_err (''podOverrides: duplicate container name '' @ quote (ct_name c)))
      else check_containers (ct_name c # seen) cs)"

definition validateExtraContainers :: "container list \<Rightarrow> go_err option" where
  "validateExtraContainers cs = check_containers [] cs"

definition validateNoContainerNameCollision :: "container list \<Rightarrow> container list \<Rightarrow> go_err option" where
  "validateNoContainerNameCollision extra init =
     map_option (\<lambda>c. new_err (''podOverrides: container name '' @ quote (ct_name c)
         @ '' appears in both extraContainers and extraInitContainers''))
       (List.find (\<lambda>c. ct_name c \<in> set (map ct_name extra)) init)"

fun check_rules :: "int \<Rightarrow> (string \<times> opaque) list \<Rightarrow> go_err option" where
  "check_rules i [] = None"
| "check_rules i ((action, _) # rest) =
     (if action = ''FailIndex''
      then Some (new_err (''podFailurePolicy.rules['' @ itoa i
             @ ''].action: FailIndex is not supported for Task Jobs''))
      else check_rules (i + 1) rest)"

definition validatePodFailurePolicy :: "pod_failure_policy option \<Rightarrow> go_err option" where
  "validatePodFailurePolicy policy =
     (case policy of None \<Rightarrow> None | Some p \<Rightarrow> check_rules 0 (pfp_rules p))"

section \<open>Plugins and skills\<close>

definition pluginSetupScript :: string where
  "pluginSetupScript =
     unlines [''set -eu'',
       ''find '' @ PluginStagingMountPath @ '' -mindepth 1 -maxdepth 1 ! -name '' @ squoted ''..*''
       @ '' -exec cp -RL {} '' @ PluginMountPath @ ''/ '' @ squoted '';'']"

text \<open>The Secrets of the skills with the variables that carry their tokens, each Secret once.\<close>

fun collect_auth :: "(string \<times> string) list \<Rightarrow> skills_sh_spec list \<Rightarrow> (string \<times> string) list" where
  "collect_auth out [] = out"
| "collect_auth out (skill # rest) =
     (case sk_secret skill of
        None \<Rightarrow> collect_auth out rest
      | Some secret \<Rightarrow>
          if secret \<in> set (map fst out) then collect_auth out rest
          else collect_auth (out @ [(secret, ''KELOS_SKILLS_GITHUB_TOKEN_'' @ itoa (int (length out)))]) rest)"

definition collectSkillsAuthEnvs :: "skills_sh_spec list \<Rightarrow> (string \<times> string) list" where
  "collectSkillsAuthEnvs skills = collect_auth [] skills"

definition skillsAuthEnvVars :: "(string \<times> string) list \<Rightarrow> env_var list" where
  "skillsAuthEnvVars authEnvs = map (\<lambda>(secret, name). secret_env name secret GitHubTokenSecretKey) authEnvs"

definition envFromVar :: "string \<Rightarrow> string \<Rightarrow> string" where
  "envFromVar name valueVar = name @ ''='' @ dquoted (''${'' @ valueVar @ ''}'')"

definition authenticatedSkillsInstallCommand :: "string \<Rightarrow> string \<Rightarrow> string \<Rightarrow> string" where
  "authenticatedSkillsInstallCommand source tokenEnvName command =
     (let host = repo_host source
      in str_join
           ([envFromVar ''GITHUB_TOKEN'' tokenEnvName, envFromVar ''KELOS_SKILLS_GIT_TOKEN'' tokenEnvName,
             ''KELOS_SKILLS_GIT_USERNAME=x-access-token'', ''GIT_ASKPASS=/tmp/kelos-skills-askpass'',
             ''GIT_TERMINAL_PROMPT=0'']
            @ (if host \<noteq> [] \<and> host \<noteq> ''github.com''
               then [''GH_HOST='' @ shellQuote host, envFromVar ''GH_ENTERPRISE_TOKEN'' tokenEnvName]
               else [envFromVar ''GH_TOKEN'' tokenEnvName])) '' ''
         @ '' '' @ command)"

definition askpass_lines :: "string list" where
  "askpass_lines =
     [''cat > /tmp/kelos-skills-askpass <<'' @ squoted ''EOF'', ''#!/bin/sh'',
      ''case \"$1\" in'',
      ''  *Username*|*username*) printf '' @ squoted (''%s'' @ [CHR 0x5C] @ ''n'')
        @ '' \"${KELOS_SKILLS_GIT_USERNAME:-x-access-token}\" ;;'',
      ''  *) printf '' @ squoted (''%s'' @ [CHR 0x5C] @ ''n'') @ '' \"$KELOS_SKILLS_GIT_TOKEN\" ;;'',
      ''esac'', ''EOF'', ''chmod 700 /tmp/kelos-skills-askpass'']"

fun skill_lines :: "(string \<times> string) list \<Rightarrow> skills_sh_spec list \<Rightarrow> go_err + string list" where
  "skill_lines auth [] = Inr []"
| "skill_lines auth (s # rest) =
     (let add = ''npx -y skills add '' @ shellQuote (sk_source s) @ '' -a universal -y -g''
                @ (if sk_skill s = [] then [] else '' -s '' @ shellQuote (sk_skill s));
          token = (case sk_secret s of None \<Rightarrow> [] | Some secret \<Rightarrow> map_str auth secret);
          args = (if sk_secret s = None then add
                  else authenticatedSkillsInstallCommand (sk_source s) token add)
      in if sk_source s = [] then Inl (new_err ''skills.sh source is empty'')
         else if sk_secret s \<noteq> None \<and> token = []
         then Inl (new_err (''skills.sh source '' @ quote (sk_source s) @ '' references secret ''
                @ quote (the (sk_secret s)) @ '' without a token env var''))
         else (case skill_lines auth rest of
                 Inl e \<Rightarrow> Inl e
               | Inr ls \<Rightarrow>
                   Inr ((if sk_optional s
                         then [''if ! '' @ args @ ''; then'',
                               ''  printf \"Optional skills.sh package '' @ squoted ''%s''
                               @ '' failed to install; continuing'' @ [CHR 0x5C, CHR 0x5C] @ ''n\" ''
                               @ shellQuote (sk_source s) @ '' >&2'', ''fi'']
                         else [args]) @ ls)))"

definition skills_install_dir :: string where
  "skills_install_dir = PluginMountPath @ ''/.agents/skills''"

definition plugin_skills_dir :: string where
  "plugin_skills_dir = PluginMountPath @ ''/'' @ SkillsShPluginName @ ''/skills''"

definition relocation_lines :: "string list" where
  "relocation_lines =
     (let d = shellQuote skills_install_dir
      in [''mkdir -p '' @ shellQuote plugin_skills_dir, ''moved_skills=0'',
          ''if [ -d '' @ d @ '' ]; then'',
          ''  for skill_path in '' @ d @ ''/* '' @ d @ ''/.[!.]* '' @ d @ ''/..?*; do'',
          ''    [ -e \"$skill_path\" ] || continue'',
          ''    mv \"$skill_path\" '' @ shellQuote plugin_skills_dir @ ''/'',
          ''    moved_skills=$((moved_skills + 1))'', ''  done'', ''fi''])"

definition buildSkillsInstallScript ::
  "skills_sh_spec list \<Rightarrow> (string \<times> string) list \<Rightarrow> go_err + string" where
  "buildSkillsInstallScript skills authEnvs =
     (case skill_lines authEnvs skills of
        Inl e \<Rightarrow> Inl e
      | Inr installs \<Rightarrow>
          Inr (unlines
            ([''set -eu'', ''apk add --no-cache git >/dev/null 2>&1'']
             @ (if authEnvs \<noteq> [] then askpass_lines else []) @ installs @ relocation_lines
             @ (if list_ex (\<lambda>s. \<not> sk_optional s) skills
                then [''[ \"$moved_skills\" -gt 0 ] || { echo '' @ squoted ''No skills.sh skills were installed''
                      @ '' >&2; exit 1; }'']
                else [])
             @ [''rm -rf '' @ shellQuote (PluginMountPath @ ''/.agents'') @ '' ''
                @ shellQuote (PluginMountPath @ ''/.npm''),
                ''chown -R '' @ itoa AgentUID @ '':'' @ itoa AgentUID @ '' '' @ shellQuote PluginMountPath])))"

section \<open>MCP servers\<close>

fun env_to_map :: "string \<Rightarrow> strmap \<Rightarrow> env_var list \<Rightarrow> go_err + strmap" where
  "env_to_map serverName out [] = Inr out"
| "env_to_map serverName out (e # es) =
     (if ev_name e = []
      then Inl (new_err (''MCP server '' @ quote serverName @ '' has an env entry with an empty name''))
      else if ev_from e \<noteq> None
      then Inl (new_err (''MCP server '' @ quote serverName @ '' env '' @ quote (ev_name e)
             @ '': valueFrom must be resolved before rendering''))
      else env_to_map serverName (map_put (ev_name e) (ev_value e) out) es)"

definition envVarsToMap :: "string \<Rightarrow> env_var list \<Rightarrow> go_err + strmap" where
  "envVarsToMap serverName env = env_to_map serverName [] env"

definition mcp_entry :: "mcp_server_spec \<Rightarrow> strmap \<Rightarrow> string" where
  "mcp_entry s env =
     json_fields
       ((if mcp_type s = [] then [] else [(''type'', json_string (mcp_type s))])
        @ (if mcp_command s = [] then [] else [(''command'', json_string (mcp_command s))])
        @ (if mcp_args s = [] then [] else [(''args'', json_list (map json_string (mcp_args s)))])
        @ (if mcp_url s = [] then [] else [(''url'', json_string (mcp_url s))])
        @ (if mcp_headers s = [] then [] else [(''headers'', json_strmap (mcp_headers s))])
        @ (if env = [] then [] else [(''env'', json_strmap env)])
        @ (if mcp_always_load s then [(''alwaysLoad'', ''true'')] else []))"

fun mcp_entries :: "strmap \<Rightarrow> mcp_server_spec list \<Rightarrow> go_err + strmap" where
  "mcp_entries m [] = Inr m"
| "mcp_entries m (s # rest) =
     (if mcp_name s = [] then Inl (new_err ''MCP server name is empty'')
      else (case sanitizeComponentName (mcp_name s) ''MCP server'' of
              Some e \<Rightarrow> Inl e
            | None \<Rightarrow>
                if map_of m (mcp_name s) \<noteq> None
                then Inl (new_err (''duplicate MCP server name '' @ quote (mcp_name s)))
                else (case envVarsToMap (mcp_name s) (mcp_env s) of
                        Inl e \<Rightarrow> Inl e
                      | Inr env \<Rightarrow> mcp_entries (map_put (mcp_name s) (mcp_entry s env) m) rest)))"

definition buildMCPServersJSON :: "mcp_server_spec list \<Rightarrow> go_err + string" where
  "buildMCPServersJSON servers =
     (case mcp_entries [] servers of
        Inl e \<Rightarrow> Inl e
      | Inr m \<Rightarrow>
          Inr (json_fields [(''mcpServers'',
                 json_fields (map (\<lambda>k. (k, map_str m k)) (sort (map fst m))))]))"

section \<open>The containers that prepare the workspace\<close>

definition agent_user :: "security_context option" where
  "agent_user = Some \<lparr>scx_user = Some AgentUID, scx_rest = nothing\<rparr>"

definition shell_container :: "string \<Rightarrow> string \<Rightarrow> env_var list \<Rightarrow> volume_mount list \<Rightarrow> container" where
  "shell_container name script env mounts =
     blank_container\<lparr>ct_name := name, ct_image := GitCloneImage, ct_command := [''sh'', ''-c'', script],
                     ct_env := env, ct_mounts := mounts, ct_security := agent_user\<rparr>"

definition workspace_mount :: volume_mount where
  "workspace_mount = mount WorkspaceVolumeName WorkspaceMountPath"

definition token_mount :: volume_mount where
  "token_mount = read_only (mount GitHubTokenVolumeName GitHubTokenMountPath)"

definition workspace_mounts :: "workspace_spec \<Rightarrow> volume_mount list" where
  "workspace_mounts ws = workspace_mount # (if ws_secret ws = None then [] else [token_mount])"

definition token_volumes :: "workspace_spec \<Rightarrow> volume list" where
  "token_volumes ws =
     (case ws_secret ws of
        None \<Rightarrow> []
      | Some secret \<Rightarrow>
          [\<lparr>vol_name = GitHubTokenVolumeName,
            vol_source = SecretVolume secret [(GitHubTokenSecretKey, GitHubTokenSecretKey)] (Some True)\<rparr>])"

definition target_path :: string where
  "target_path = WorkspaceMountPath @ ''/repo''"

text \<open>The arguments of the clone; \<open>sparse\<close> are those of a clone that leaves files out.\<close>

definition clone_args :: "string list \<Rightarrow> workspace_spec \<Rightarrow> string list" where
  "clone_args sparse ws =
     [''clone''] @ sparse
     @ (if ws_ref ws \<noteq> [] \<and> \<not> isFullGitCommitSHA (ws_ref ws) then [''--branch'', ws_ref ws] else [])
     @ [workspaceCloneBranchesFlag ws, ''--depth'', ''1'', ''--'', ws_repo ws, target_path]"

text \<open>The clone with the credential helper, which it then saves in the repository.\<close>

definition saving_clone_script :: string where
  "saving_clone_script =
     ''git'' @ helper_options gitCredentialHelper @ '' \"$@\" && { ''
     @ workspaceGitCredentialConfigScript gitCredentialHelper @ ''; }''"

definition git_clone_container :: "workspace_spec \<Rightarrow> container" where
  "git_clone_container ws =
     (let checkout = workspaceCheckoutFor ws;
          args = clone_args (if co_sparse checkout \<noteq> [] then [''--filter=blob:none'', ''--no-checkout''] else []) ws;
          c = blank_container\<lparr>ct_name := ''git-clone'', ct_image := GitCloneImage, ct_args := args,
                ct_env := init_workspace_env ws, ct_mounts := workspace_mounts ws, ct_security := agent_user\<rparr>
      in if isFullGitCommitSHA (ws_ref ws)
         then c\<lparr>ct_command := [''sh'', ''-c'', buildWorkspaceCommitCheckoutScript checkout],
                ct_args := [''--'', ws_repo ws, target_path, ws_ref ws]\<rparr>
         else if restricted checkout
         then c\<lparr>ct_command := [''sh'', ''-c'', buildWorkspaceCloneScript checkout], ct_args := ''--'' # args\<rparr>
         else if ws_secret ws \<noteq> None
         then c\<lparr>ct_command := [''sh'', ''-c'', saving_clone_script], ct_args := ''--'' # args\<rparr>
         else c)"

definition remote_line :: "string \<times> string \<Rightarrow> string" where
  "remote_line r =
     (case r of (name, url) \<Rightarrow>
        ''if git remote get-url '' @ shellQuote name @ '' >/dev/null 2>&1; then git remote set-url ''
        @ shellQuote name @ '' '' @ shellQuote url @ ''; else git remote add '' @ shellQuote name @ '' ''
        @ shellQuote url @ ''; fi'')"

definition remote_setup :: "(string \<times> string) list \<Rightarrow> container list" where
  "remote_setup remotes =
     (if remotes = [] then []
      else [shell_container ''remote-setup''
              (str_join ((''cd '' @ target_path) # map remote_line remotes) '' && '') [] [workspace_mount]])"

definition branch_script :: "workspace_spec \<Rightarrow> string" where
  "branch_script ws =
     (let remoteGit = ''git'' @ (if ws_secret ws = None then [] else helper_options gitCredentialHelper);
          localGit = (if ws_secret ws \<noteq> None \<and> \<not> workspacePersistsGitCredentialHelper ws then remoteGit
                      else ''git'');
          track = (if workspaceClonesSingleBranch ws \<and> \<not> isFullGitCommitSHA (ws_ref ws)
                   then [''git remote set-branches --add origin \"$KELOS_BRANCH\"''] else [])
      in unlines ([''set -e'', ''cd '' @ target_path] @ track @
           [''remote_status=0'',
            remoteGit @ '' ls-remote --exit-code --heads origin \"refs/heads/$KELOS_BRANCH\" >/dev/null || remote_status=$?'',
            ''if [ \"$remote_status\" -eq 0 ]; then'',
            ''  '' @ remoteGit @ '' fetch --depth 1 origin \"+refs/heads/$KELOS_BRANCH:refs/remotes/origin/$KELOS_BRANCH\"'',
            ''  if git show-ref --verify --quiet \"refs/heads/$KELOS_BRANCH\"; then'',
            ''    '' @ localGit @ '' checkout \"$KELOS_BRANCH\"'',
            ''    '' @ localGit @ '' reset --hard FETCH_HEAD'',
            ''  else'',
            ''    '' @ localGit @ '' checkout -b \"$KELOS_BRANCH\" FETCH_HEAD'',
            ''  fi'',
            ''elif [ \"$remote_status\" -eq 2 ]; then'',
            ''  if git show-ref --verify --quiet \"refs/heads/$KELOS_BRANCH\"; then'',
            ''    '' @ localGit @ '' checkout \"$KELOS_BRANCH\"'',
            ''  else'',
            ''    '' @ localGit @ '' checkout -b \"$KELOS_BRANCH\"'',
            ''  fi'',
            ''else'',
            ''  exit \"$remote_status\"'',
            ''fi'']))"

definition branch_setup :: "string \<Rightarrow> workspace_spec \<Rightarrow> container list" where
  "branch_setup branch ws =
     (if branch = [] then []
      else [shell_container ''branch-setup'' (branch_script ws)
              (init_workspace_env ws @ [plain_env ''KELOS_BRANCH'' branch]) (workspace_mounts ws)])"

definition workspace_files :: "workspace_spec \<Rightarrow> go_err + container list" where
  "workspace_files ws =
     (if ws_files ws = [] then Inr []
      else (case buildWorkspaceFileInjectionScript (ws_files ws) of
              Inl e \<Rightarrow> Inl e
            | Inr script \<Rightarrow> Inr [shell_container ''workspace-files'' script [] [workspace_mount]]))"

definition setup_env :: "workspace_spec \<Rightarrow> env_var list" where
  "setup_env ws =
     (if ws_setup ws = [] then []
      else [plain_env ''KELOS_SETUP_COMMAND'' (json_list (map json_string (ws_setup ws)))])"

text \<open>What has been put together of a pod.\<close>

record pod_parts =
  pp_main :: container
  pp_init :: "container list"
  pp_volumes :: "volume list"
  pp_security :: "pod_security option"

definition add_workspace :: "task \<Rightarrow> workspace_spec \<Rightarrow> pod_parts \<Rightarrow> go_err + pod_parts" where
  "add_workspace t ws p =
     (case workspace_files ws of
        Inl e \<Rightarrow> Inl e
      | Inr files \<Rightarrow>
          Inr (p\<lparr>pp_main := (pp_main p)\<lparr>ct_env := ct_env (pp_main p) @ setup_env ws,
                    ct_mounts := (if workspaceAgentGetsGitHubToken ws then workspace_mounts ws
                                  else [workspace_mount]),
                    ct_dir := target_path\<rparr>,
                 pp_init := [git_clone_container ws] @ remote_setup (ws_remotes ws)
                            @ branch_setup (ts_branch (t_spec t)) ws @ files,
                 pp_volumes := \<lparr>vol_name = WorkspaceVolumeName, vol_source = EmptyDir\<rparr> # token_volumes ws,
                 pp_security := Some \<lparr>psc_fs_group = Some AgentUID, psc_rest = nothing\<rparr>\<rparr>))"

section \<open>The agent's configuration\<close>

definition skills_container :: "skills_sh_spec list \<Rightarrow> go_err + container list" where
  "skills_container skills =
     (let auth = collectSkillsAuthEnvs skills
      in if skills = [] then Inr []
         else (case buildSkillsInstallScript skills auth of
                 Inl e \<Rightarrow> Inl (wrap_err ''invalid skills configuration'' e)
               | Inr script \<Rightarrow>
                   Inr [blank_container\<lparr>ct_name := ''skills-install'', ct_image := NodeImage,
                          ct_command := [''sh'', ''-c'', script],
                          ct_env := plain_env ''HOME'' PluginMountPath # skillsAuthEnvVars auth,
                          ct_mounts := [mount PluginVolumeName PluginMountPath]\<rparr>]))"

definition plugin_container :: container where
  "plugin_container =
     shell_container ''plugin-setup'' pluginSetupScript []
       [mount PluginVolumeName PluginMountPath, read_only (mount PluginStagingVolumeName PluginStagingMountPath)]"

text \<open>The plugins' container and volume, if there are plugins.\<close>

definition plugin_parts :: "string \<Rightarrow> plugin_spec list \<Rightarrow> go_err + (container list \<times> volume list)" where
  "plugin_parts configMap plugins =
     (if plugins = [] then Inr ([], [])
      else (case buildPluginConfigMapData plugins of
              Inl e \<Rightarrow> Inl (wrap_err ''invalid plugin configuration'' e)
            | Inr (_, items) \<Rightarrow>
                Inr ([plugin_container],
                     [\<lparr>vol_name = PluginStagingVolumeName, vol_source = ConfigMapVolume configMap items\<rparr>])))"

definition mcp_servers_env :: "mcp_server_spec list \<Rightarrow> go_err + env_var list" where
  "mcp_servers_env servers =
     (if servers = [] then Inr []
      else (case buildMCPServersJSON servers of
              Inl e \<Rightarrow> Inl (wrap_err ''invalid MCP server configuration'' e)
            | Inr json \<Rightarrow> Inr [plain_env ''KELOS_MCP_SERVERS'' json]))"

text \<open>\<open>reserve\<close> is whether the name of the plugin that holds the skills may not be used otherwise.\<close>

definition add_config :: "bool \<Rightarrow> string \<Rightarrow> agent_config_spec \<Rightarrow> pod_parts \<Rightarrow> go_err + pod_parts" where
  "add_config reserve configMap ac p =
     (let pluginVolume = ac_plugins ac \<noteq> [] \<or> ac_skills ac \<noteq> []
      in case plugin_parts configMap (ac_plugins ac) of
           Inl e \<Rightarrow> Inl e
         | Inr (plugin_init, plugin_volumes) \<Rightarrow>
             if reserve \<and> ac_skills ac \<noteq> [] \<and> list_ex (\<lambda>pl. pl_name pl = SkillsShPluginName) (ac_plugins ac)
             then Inl (new_err (''invalid plugin configuration: plugin name '' @ quote SkillsShPluginName
                    @ '' is reserved for skills.sh packages when spec.skills is set''))
             else (case skills_container (ac_skills ac) of
                     Inl e \<Rightarrow> Inl e
                   | Inr skill_init \<Rightarrow>
                       (case mcp_servers_env (ac_mcp_servers ac) of
                          Inl e \<Rightarrow> Inl e
                        | Inr mcp \<Rightarrow>
                            Inr (p\<lparr>pp_main := (pp_main p)\<lparr>
                                     ct_env := ct_env (pp_main p) @ opt_env ''KELOS_AGENTS_MD'' (ac_agents_md ac)
                                       @ (if pluginVolume then [plain_env ''KELOS_PLUGIN_DIR'' PluginMountPath] else [])
                                       @ mcp,
                                     ct_mounts := ct_mounts (pp_main p)
                                       @ (if pluginVolume then [mount PluginVolumeName PluginMountPath] else [])\<rparr>,
                                   pp_init := pp_init p @ plugin_init @ skill_init,
                                   pp_volumes := pp_volumes p
                                     @ (if pluginVolume then [\<lparr>vol_name = PluginVolumeName, vol_source = EmptyDir\<rparr>] else [])
                                     @ plugin_volumes\<rparr>))))"

section \<open>The user's overrides\<close>

text \<open>A built-in variable keeps its value, and some names are never the user's.\<close>

definition user_env :: "env_var list \<Rightarrow> env_var list \<Rightarrow> env_var list" where
  "user_env builtin env =
     filter (\<lambda>e. ev_name e \<notin> set (map ev_name builtin) \<and> ev_name e \<notin> set reservedEnvNames) env"

definition override_main :: "pod_overrides \<Rightarrow> container \<Rightarrow> container" where
  "override_main po main =
     main\<lparr>ct_resources := (if po_resources po \<noteq> None then po_resources po else ct_resources main),
          ct_env := ct_env main @ user_env (ct_env main) (po_env po),
          ct_mounts := ct_mounts main @ po_mounts po,
          ct_security := (if po_security po \<noteq> None then po_security po else ct_security main)\<rparr>"

definition merged_security :: "pod_security option \<Rightarrow> pod_security option \<Rightarrow> pod_security option" where
  "merged_security builtin user =
     (case user of
        None \<Rightarrow> builtin
      | Some u \<Rightarrow>
          Some (if psc_fs_group u = None
                then u\<lparr>psc_fs_group := (case builtin of None \<Rightarrow> None | Some b \<Rightarrow> psc_fs_group b)\<rparr> else u))"

definition add_overrides :: "pod_overrides \<Rightarrow> pod_parts \<Rightarrow> go_err + pod_parts" where
  "add_overrides po p =
     (case validateUserVolumes (po_volumes po) of
        Some e \<Rightarrow> Inl e
      | None \<Rightarrow>
          Inr (p\<lparr>pp_main := override_main po (pp_main p), pp_volumes := pp_volumes p @ po_volumes po,
                 pp_security := merged_security (pp_security p) (po_pod_security po)\<rparr>))"

text \<open>The checks of the additional containers, in the order in which they are made for a Job.\<close>

definition first_error :: "go_err option list \<Rightarrow> go_err option" where
  "first_error checks = (case filter (\<lambda>e. e \<noteq> None) checks of [] \<Rightarrow> None | e # _ \<Rightarrow> e)"

definition check_extra :: "pod_overrides \<Rightarrow> go_err option" where
  "check_extra po =
     first_error [validateExtraContainers (po_extra po), validateExtraContainers (po_extra_init po),
                  validateNoContainerNameCollision (po_extra po) (po_extra_init po)]"

section \<open>The Job\<close>

definition no_overrides :: pod_overrides where
  "no_overrides =
     \<lparr>po_labels = [], po_resources = None, po_deadline = None, po_env = [], po_node_selector = [],
      po_tolerations = [], po_affinity = None, po_pull_secrets = [], po_service_account = [],
      po_volumes = [], po_mounts = [], po_pod_security = None, po_security = None, po_extra = [],
      po_extra_init = []\<rparr>"

definition overrides_of :: "task \<Rightarrow> pod_overrides" where
  "overrides_of t = (case resolveTaskPodOverrides t of None \<Rightarrow> no_overrides | Some po \<Rightarrow> po)"

text \<open>Built-in labels take precedence.\<close>

definition job_labels :: "task \<Rightarrow> strmap" where
  "job_labels t =
     foldl (\<lambda>m (k, v). map_put k v m) (po_labels (overrides_of t))
       [(''kelos.dev/name'', ''kelos''), (''kelos.dev/component'', ''task''),
        (''kelos.dev/managed-by'', ''kelos-controller''), (''kelos.dev/task'', t_name t)]"

definition agent_container ::
  "task \<Rightarrow> workspace_spec option \<Rightarrow> string \<Rightarrow> string \<Rightarrow> string \<Rightarrow> container" where
  "agent_container t workspace defaultImage pull prompt =
     (let override = resolveTaskImage t; img = (if override \<noteq> [] then override else defaultImage)
      in blank_container\<lparr>ct_name := AgentContainerName, ct_image := img, ct_pull := pull,
           ct_command := agentProcessCommand ''/kelos_entrypoint.sh'' (override = [] \<and> isBundledAgentImage img),
           ct_args := [prompt],
           ct_env := task_env t @ (case workspace of None \<Rightarrow> [] | Some ws \<Rightarrow> agent_workspace_env t ws)\<rparr>)"

text \<open>The parts that the task's workspace, agent configuration and overrides ask for, in this order.\<close>

definition task_parts ::
  "task \<Rightarrow> workspace_spec option \<Rightarrow> agent_config_spec option \<Rightarrow> container \<Rightarrow> go_err + pod_parts" where
  "task_parts t workspace agentConfig main =
     (let p = \<lparr>pp_main = main, pp_init = [], pp_volumes = [], pp_security = None\<rparr>;
          checked = (case workspace of None \<Rightarrow> None | Some ws \<Rightarrow> validateWorkspaceCheckout t ws)
      in case checked of
           Some e \<Rightarrow> Inl e
         | None \<Rightarrow>
             (case (case workspace of None \<Rightarrow> Inr p | Some ws \<Rightarrow> add_workspace t ws p) of
                Inl e \<Rightarrow> Inl e
              | Inr p1 \<Rightarrow>
                  (case (case agentConfig of None \<Rightarrow> Inr p1
                         | Some ac \<Rightarrow> add_config True (PluginConfigMapName (t_name t)) ac p1) of
                     Inl e \<Rightarrow> Inl e
                   | Inr p2 \<Rightarrow> add_overrides (overrides_of t) p2)))"

definition job_of :: "task \<Rightarrow> pod_parts \<Rightarrow> job" where
  "job_of t p =
     (let po = overrides_of t
      in \<lparr>job_meta = blank_meta\<lparr>m_name := t_name t, m_namespace := t_namespace t, m_labels := job_labels t\<rparr>,
          job_active = 0, job_succeeded = 0, job_conditions = [],
          job_spec =
            \<lparr>js_backoff = Some 1, js_failure_policy = ts_pod_failure_policy (t_spec t), js_deadline = po_deadline po,
             js_template = \<lparr>tpl_labels = job_labels t, tpl_annotations = [],
               tpl_spec = blank_pod_spec\<lparr>pd_restart := ''Never'', pd_security := pp_security p,
                 pd_service_account := po_service_account po, pd_init := pp_init p @ po_extra_init po,
                 pd_volumes := pp_volumes p, pd_containers := pp_main p # po_extra po,
                 pd_node_selector := po_node_selector po, pd_tolerations := po_tolerations po,
                 pd_affinity := po_affinity po, pd_pull_secrets := po_pull_secrets po\<rparr>\<rparr>\<rparr>\<rparr>)"

definition buildAgentJob ::
  "task \<Rightarrow> workspace_spec option \<Rightarrow> agent_config_spec option \<Rightarrow> string \<Rightarrow> string \<Rightarrow> string \<Rightarrow> go_err + job" where
  "buildAgentJob t workspace agentConfig defaultImage pull prompt =
     (case task_parts t workspace agentConfig (agent_container t workspace defaultImage pull prompt) of
        Inl e \<Rightarrow> Inl e
      | Inr p \<Rightarrow>
          (case check_extra (overrides_of t) of
             Some e \<Rightarrow> Inl e
           | None \<Rightarrow>
               (case validatePodFailurePolicy (ts_pod_failure_policy (t_spec t)) of
                  Some e \<Rightarrow> Inl e
                | None \<Rightarrow> Inr (job_of t p))))"

definition Build ::
  "agent_images \<Rightarrow> task \<Rightarrow> workspace_spec option \<Rightarrow> agent_config_spec option \<Rightarrow> string \<Rightarrow> go_err + job" where
  "Build b t workspace agentConfig prompt =
     (let agentType = resolveTaskType t; build = buildAgentJob t workspace agentConfig
      in if agentType = ''claude-code'' then build (ai_claude b) (ai_claude_pull b) prompt
         else if agentType = ''codex'' then build (ai_codex b) (ai_codex_pull b) prompt
         else if agentType = ''gemini'' then build (ai_gemini b) (ai_gemini_pull b) prompt
         else if agentType = ''opencode'' then build (ai_opencode b) (ai_opencode_pull b) prompt
         else if agentType = ''cursor'' then build (ai_cursor b) (ai_cursor_pull b) prompt
         else Inl (new_err (''unsupported agent type: '' @ agentType)))"

end
