(* ===== verification/TextFacts.thy ===== *)
theory TextFacts
  imports JobBuilder
begin

text \<open>
  Texts that leave the process: words that a shell reads back as they were quoted, contents that
  base64 carries, and the paths that a workspace may write to.
\<close>

section \<open>Shell words\<close>

text \<open>
  How a shell reads a word: up to a separator, with the parts between single quotes taken literally
  and those between double quotes as long as nothing in them is expanded. \<open>None\<close> is a word that is
  not read to its end, or one that depends on the state of the shell.
\<close>

fun sh_single :: "string \<Rightarrow> (string \<times> string) option" where
  "sh_single [] = None"
| "sh_single (c # s) =
     (if c = CHR 0x27 then Some ([], s) else map_option (\<lambda>(a, r). (c # a, r)) (sh_single s))"

fun sh_double :: "string \<Rightarrow> (string \<times> string) option" where
  "sh_double [] = None"
| "sh_double (c # s) =
     (if c = CHR 0x22 then Some ([], s)
      else if c \<in> set ''$`'' \<or> c = CHR 0x5C then None
      else map_option (\<lambda>(a, r). (c # a, r)) (sh_double s))"

definition sh_separator :: "char \<Rightarrow> bool" where
  "sh_separator c \<longleftrightarrow> c \<in> set '' ;&|<>()'' \<or> c = CHR 0x0A \<or> c = CHR 0x09"

definition sh_plain :: "char \<Rightarrow> bool" where
  "sh_plain c \<longleftrightarrow> is_alpha c \<or> is_digit c \<or> c \<in> set ''/._-=:,+@%''"

lemma sh_single_shorter: "sh_single s = Some (a, r) \<Longrightarrow> length r < length s"
  by (induction s arbitrary: a) (auto split: if_splits intro: less_SucI)

lemma sh_double_shorter: "sh_double s = Some (a, r) \<Longrightarrow> length r < length s"
  by (induction s arbitrary: a) (auto split: if_splits intro: less_SucI)

function sh_word :: "string \<Rightarrow> (string \<times> string) option" where
  "sh_word s =
     (case s of
        [] \<Rightarrow> Some ([], [])
      | c # t \<Rightarrow>
          if c = CHR 0x27 then
            (case sh_single t of
               None \<Rightarrow> None
             | Some (a, r) \<Rightarrow> map_option (\<lambda>(b, r'). (a @ b, r')) (sh_word r))
          else if c = CHR 0x22 then
            (case sh_double t of
               None \<Rightarrow> None
             | Some (a, r) \<Rightarrow> map_option (\<lambda>(b, r'). (a @ b, r')) (sh_word r))
          else if sh_separator c then Some ([], s)
          else if sh_plain c then map_option (\<lambda>(b, r'). (c # b, r')) (sh_word t)
          else None)"
  by pat_completeness auto
termination
  by (relation "measure length") (auto dest: sh_single_shorter sh_double_shorter)

declare sh_word.simps [simp del]

lemma sh_word_end: "sh_word [] = Some ([], [])"
  by (simp add: sh_word.simps)

lemma sh_word_separator: "sh_separator c \<Longrightarrow> sh_word (c # s) = Some ([], c # s)"
  by (subst sh_word.simps) (auto simp: sh_separator_def)

definition word_rest :: "string \<Rightarrow> string \<Rightarrow> (string \<times> string) option" where
  "word_rest v rest = map_option (\<lambda>(b, r). (v @ b, r)) (sh_word rest)"

definition quoted_body :: "string \<Rightarrow> string" where
  "quoted_body value = concat (map (\<lambda>c. if c = CHR 0x27
     then [CHR 0x27, CHR 0x22, CHR 0x27, CHR 0x22, CHR 0x27] else [c]) value)"

lemma sh_single_body:
  "(case sh_single (quoted_body v @ CHR 0x27 # rest) of
      None \<Rightarrow> None | Some (a, r) \<Rightarrow> map_option (\<lambda>(b, r'). (a @ b, r')) (sh_word r)) = word_rest v rest"
proof (induction v)
  case Nil
  then show ?case by (simp add: quoted_body_def word_rest_def)
next
  case (Cons c v)
  have body: "quoted_body (c # v) = (if c = CHR 0x27
      then [CHR 0x27, CHR 0x22, CHR 0x27, CHR 0x22, CHR 0x27] else [c]) @ quoted_body v"
    by (simp add: quoted_body_def)
  have "sh_word (CHR 0x27 # quoted_body v @ CHR 0x27 # rest) = word_rest v rest"
    using Cons by (subst sh_word.simps) simp
  then have quote: "sh_word (CHR 0x22 # CHR 0x27 # CHR 0x22 # CHR 0x27 # quoted_body v @ CHR 0x27 # rest)
      = word_rest (CHR 0x27 # v) rest"
    by (subst sh_word.simps) (cases "sh_word rest", auto simp: word_rest_def)
  show ?case
  proof (cases "c = CHR 0x27")
    case True
    then show ?thesis unfolding body using quote
      by (cases "word_rest (CHR 0x27 # v) rest") auto
  next
    case False
    then show ?thesis
      using Cons
      by (cases "sh_single (quoted_body v @ CHR 0x27 # rest)"; cases "sh_word rest")
        (auto simp: body word_rest_def option.map_comp comp_def split: prod.splits option.splits)
  qed
qed

lemma sh_word_quoted: "sh_word (shellQuote v @ rest) = word_rest v rest"
  using sh_single_body [of v rest] by (subst sh_word.simps) (simp add: shellQuote_def quoted_body_def)

text \<open>A quoted text is one word, and it is the text.\<close>

lemma shellQuote_word [go_string]:
  assumes "rest = [] \<or> sh_separator (hd rest)"
  shows "sh_word (shellQuote v @ rest) = Some (v, rest)"
  using assms
  using sh_word_quoted [of v rest]
  by (cases rest) (simp_all add: word_rest_def sh_word_end sh_word_separator)

section \<open>Base64\<close>

definition base64_value :: "char \<Rightarrow> nat option" where
  "base64_value c =
     (if byte_in 65 90 c then Some (byte c - 65) else if byte_in 97 122 c then Some (byte c - 71)
      else if byte_in 48 57 c then Some (byte c + 4) else if c = CHR ''+'' then Some 62
      else if c = CHR ''/'' then Some 63 else None)"

lemma base64_value_char [simp]:
  assumes "n < 64"
  shows "base64_value (base64_char n) = Some n"
  using assms by (auto simp: base64_value_def base64_char_def byte_in_def)

lemma base64_char_pad [simp]:
  assumes "n < 64"
  shows "base64_char n \<noteq> CHR ''=''"
proof -
  have "base64_value (CHR ''='') = None" by (simp add: base64_value_def byte_in_def)
  then show ?thesis using base64_value_char [OF assms] by force
qed

text \<open>\<^verbatim>\<open>base64 -d\<close>.\<close>

fun unbase64 :: "string \<Rightarrow> string option" where
  "unbase64 [] = Some []"
| "unbase64 (a # b # c # d # s) =
     (case (base64_value a, base64_value b) of
        (Some x, Some y) \<Rightarrow>
          if c = CHR ''='' then
            (if d = CHR ''='' \<and> s = [] then Some [char_of (x * 4 + y div 16)] else None)
          else (case base64_value c of
                  None \<Rightarrow> None
                | Some z \<Rightarrow>
                    if d = CHR ''='' then
                      (if s = [] then Some [char_of (x * 4 + y div 16), char_of (y mod 16 * 16 + z div 4)]
                       else None)
                    else (case base64_value d of
                            None \<Rightarrow> None
                          | Some u \<Rightarrow> map_option (\<lambda>r. char_of (x * 4 + y div 16)
                              # char_of (y mod 16 * 16 + z div 4) # char_of (z mod 4 * 64 + u) # r) (unbase64 s)))
      | _ \<Rightarrow> None)"
| "unbase64 s = None"

lemma byte_bound: "byte c < 256"
  by (rule nat_of_char_less_256)

lemma base64_bits:
  fixes a b c :: nat
  assumes "a < 256" and "b < 256" and "c < 256"
  shows "a div 4 < 64" and "a mod 4 * 16 + b div 16 < 64" and "b mod 16 * 4 + c div 64 < 64"
    and "c mod 64 < 64"
    and "a div 4 * 4 + (a mod 4 * 16 + b div 16) div 16 = a"
    and "(a mod 4 * 16 + b div 16) mod 16 * 16 + (b mod 16 * 4 + c div 64) div 4 = b"
    and "(b mod 16 * 4 + c div 64) mod 4 * 64 + c mod 64 = c"
proof -
  have *: "b div 16 < 16" "c div 64 < 4" "a mod 4 < 4" "b mod 16 < 16" using assms by auto
  show "a div 4 < 64" and "c mod 64 < 64" using assms by auto
  show "a mod 4 * 16 + b div 16 < 64" and "b mod 16 * 4 + c div 64 < 64" using * by auto
  show "a div 4 * 4 + (a mod 4 * 16 + b div 16) div 16 = a" using * by simp
  show "(a mod 4 * 16 + b div 16) mod 16 * 16 + (b mod 16 * 4 + c div 64) div 4 = b"
    using * by simp
  show "(b mod 16 * 4 + c div 64) mod 4 * 64 + c mod 64 = c" using * by simp
qed

lemma unbase64_base64 [go_string]: "unbase64 (base64 s) = Some s"
proof (induction s rule: base64.induct)
  case (2 a)
  then show ?case using base64_bits [of "byte a" 0 0] byte_bound [of a] by simp
next
  case (3 a b)
  show ?case
  proof -
    have "byte b div 16 < 16" using byte_bound [of b] by (intro less_mult_imp_div_less) simp
    then show ?thesis using base64_bits [of "byte a" "byte b" 0] byte_bound [of a] byte_bound [of b] by simp
  qed
next
  case (4 a b c s)
  have "byte b div 16 < 16" and "byte c div 64 < 4"
    using byte_bound [of b] byte_bound [of c] by (auto intro: less_mult_imp_div_less)
  with 4 show ?case
    using base64_bits [of "byte a" "byte b" "byte c"] byte_bound [of a] byte_bound [of b] byte_bound [of c]
    by simp
qed simp

section \<open>Paths below the repository\<close>

text \<open>
  Where a relative path leads, segment by segment: \<open>None\<close> if it leaves the directory it starts in.
  The segments so far are in reverse order.
\<close>

fun walk_path :: "string list \<Rightarrow> string list \<Rightarrow> string list option" where
  "walk_path at [] = Some (rev at)"
| "walk_path at (s # rest) =
     (if s = [] \<or> s = ''.'' then walk_path at rest
      else if s = ''..'' then (case at of [] \<Rightarrow> None | _ # up \<Rightarrow> walk_path up rest)
      else walk_path (s # at) rest)"

definition proper :: "string \<Rightarrow> bool" where
  "proper s \<longleftrightarrow> s \<noteq> [] \<and> s \<noteq> ''.'' \<and> s \<noteq> ''..'' \<and> CHR ''/'' \<notin> set s"

lemma clean_above: "\<exists>t. clean_segments False (ks @ [''..'']) segs = ''..'' # t"
proof (induction segs arbitrary: ks)
  case (Cons s segs)
  then show ?case
    using Cons [of "s # ks"] Cons [of ks] Cons [of "tl ks"] Cons [of "[]"] by (cases ks) auto
qed simp

lemma clean_walk:
  assumes "\<forall>k \<in> set kept. proper k" and "\<forall>s \<in> set segs. CHR ''/'' \<notin> set s"
  shows "case walk_path kept segs of
           None \<Rightarrow> \<exists>t. clean_segments False kept segs = ''..'' # t
         | Some x \<Rightarrow> clean_segments False kept segs = x"
  using assms
proof (induction segs arbitrary: kept)
  case (Cons s segs)
  consider "s = [] \<or> s = ''.''" | "s = ''..''" "kept = []" | k ks where "s = ''..''" "kept = k # ks"
    | "s \<noteq> []" "s \<noteq> ''.''" "s \<noteq> ''..''"
    by (cases kept) auto
  then show ?case
  proof cases
    case 2
    then show ?thesis using clean_above [of "[]" segs] by simp
  next
    case 3
    moreover have "k \<noteq> ''..''" using Cons.prems 3 by (simp add: proper_def)
    ultimately show ?thesis using Cons.IH [of ks] Cons.prems by (auto split: option.splits)
  next
    case 4
    then show ?thesis using Cons.IH [of "s # kept"] Cons.prems
      by (auto simp: proper_def split: option.splits)
  next
    case 1
    then show ?thesis using Cons.IH [of kept] Cons.prems by (auto split: option.splits)
  qed
qed simp

lemma walk_proper:
  assumes "walk_path at segs = Some x" and "\<forall>k \<in> set at. proper k"
    and "\<forall>s \<in> set segs. CHR ''/'' \<notin> set s"
  shows "\<forall>k \<in> set x. proper k"
  using assms
proof (induction segs arbitrary: "at")
  case (Cons s segs)
  have prems: "\<forall>k \<in> set at. proper k" "\<forall>s \<in> set segs. CHR ''/'' \<notin> set s" "CHR ''/'' \<notin> set s"
    using Cons.prems by auto
  consider "s = [] \<or> s = ''.''" | "s = ''..''" | "s \<noteq> []" "s \<noteq> ''.''" "s \<noteq> ''..''" by blast
  then show ?case
  proof cases
    case 1
    then show ?thesis using Cons.prems(1) prems by (intro Cons.IH [of "at"]) auto
  next
    case 2
    then obtain k up where "at": "at = k # up" "walk_path up segs = Some x"
      using Cons.prems(1) by (cases "at") auto
    then show ?thesis using prems by (intro Cons.IH [of up]) auto
  next
    case 3
    then have "proper s" using prems by (simp add: proper_def)
    then show ?thesis using 3 Cons.prems(1) prems by (intro Cons.IH [of "s # at"]) auto
  qed
qed auto

lemma join_head:
  assumes "\<forall>k \<in> set (s # x). proper k"
  shows "str_join (s # x) ''/'' \<noteq> ''..''" and "\<not> prefix ''../'' (str_join (s # x) ''/'')"
    and "str_join (s # x) ''/'' \<noteq> ''.''" and "\<not> prefix ''/'' (str_join (s # x) ''/'')"
proof -
  let ?j = "str_join (s # x) ''/''"
  have parts: "split_char (CHR ''/'') ?j = s # x"
    using assms by (intro split_join) (auto simp: proper_def)
  have s: "s \<noteq> ''..''" "s \<noteq> ''.''" "s \<noteq> []" using assms by (auto simp: proper_def)
  show "?j \<noteq> ''..''" and "?j \<noteq> ''.''" using parts s by auto
  have "s = ''..''" if "?j = ''../'' @ t" for t using parts unfolding that by simp
  then show "\<not> prefix ''../'' ?j" using s by (metis prefix_def)
  have "s = []" if "?j = ''/'' @ t" for t using parts unfolding that by simp
  then show "\<not> prefix ''/'' ?j" using s by (metis prefix_def)
qed

text \<open>A path is accepted if it leads to a place below the repository, and that place is the result.\<close>

lemma sanitize_exact:
  "sanitizeWorkspaceFilePath p = Inr q \<longleftrightarrow>
     trim_space p \<noteq> [] \<and> CHR 0x5C \<notin> set p \<and> \<not> prefix ''/'' p
     \<and> (\<exists>segs. walk_path [] (split_char (CHR ''/'') p) = Some segs \<and> segs \<noteq> [] \<and> q = str_join segs ''/'')"
proof -
  let ?segs = "split_char (CHR ''/'') p"
  have free: "\<forall>s \<in> set ?segs. CHR ''/'' \<notin> set s" using split_char_parts by fast
  note walk = clean_walk [of "[]" ?segs, OF _ free, simplified]
  show ?thesis
  proof (cases "prefix ''/'' p")
    case True
    then show ?thesis by (simp add: sanitizeWorkspaceFilePath_def path_clean_def Let_def)
  next
    case relative: False
    show ?thesis
    proof (cases "walk_path [] ?segs")
      case None
      with walk obtain t where "clean_segments False [] ?segs = ''..'' # t" by auto
      then have "path_clean p = ''..'' \<or> prefix ''../'' (path_clean p)"
        using relative by (cases t) (auto simp: path_clean_def Let_def)
      then show ?thesis using None by (auto simp: sanitizeWorkspaceFilePath_def Let_def)
    next
      case (Some segs)
      with walk have clean: "clean_segments False [] ?segs = segs" by simp
      have good: "\<forall>k \<in> set segs. proper k" using walk_proper [OF Some _ free] by simp
      show ?thesis
      proof (cases segs)
        case Nil
        then show ?thesis using Some clean relative
          by (simp add: sanitizeWorkspaceFilePath_def path_clean_def Let_def)
      next
        case (Cons s x)
        then show ?thesis using Some clean relative good join_head [of s x]
          by (auto simp: sanitizeWorkspaceFilePath_def path_clean_def Let_def)
      qed
    qed
  qed
qed

section \<open>The files of a workspace\<close>

text \<open>
  What the shell does with the script of the container \<^verbatim>\<open>workspace-files\<close>: for each file it reads
  the word of the target, makes its directory, and decodes a word into the target.
\<close>

definition drop_prefix :: "string \<Rightarrow> string \<Rightarrow> string option" where
  "drop_prefix p s = (if prefix p s then Some (drop (length p) s) else None)"

lemma drop_prefix_append [simp]: "drop_prefix p (p @ s) = Some s"
  by (simp add: drop_prefix_def)

lemma drop_prefix_shorter: "drop_prefix p s = Some r \<Longrightarrow> length r \<le> length s"
  by (auto simp: drop_prefix_def split: if_splits)

lemma sh_word_shorter: "sh_word s = Some (v, r) \<Longrightarrow> length r \<le> length s"
proof (induction s arbitrary: v rule: measure_induct_rule [of length])
  case (less s)
  have shorter: "length r \<le> length s" if "length t < length s" "sh_word t = Some (b, r)" for t b
    using less.IH [OF that] that(1) by simp
  show ?case
  proof (cases s)
    case Nil
    then show ?thesis using less.prems by (simp add: sh_word_end)
  next
    case (Cons c t)
    then show ?thesis using less.prems
      by (subst (asm) sh_word.simps)
        (auto split: if_splits option.splits prod.splits dest: sh_single_shorter sh_double_shorter
          intro: shorter [unfolded Cons, simplified] less_SucI)
  qed
qed

definition before_file :: string where
  "before_file = [CHR 0x0A] @ ''target=''"

definition before_content :: string where
  "before_content = [CHR 0x0A] @ ''mkdir -p \"$(dirname \"$target\")\"'' @ [CHR 0x0A]
     @ ''printf '' @ squoted ''%s'' @ '' ''"

definition after_content :: string where
  "after_content = '' | base64 -d > '' @ dquoted ''$target''"

function written_files :: "string \<Rightarrow> (string \<times> string) list option" where
  "written_files s =
     (if s = [] then Some []
      else case drop_prefix before_file s of
        None \<Rightarrow> None
      | Some r \<Rightarrow>
          (case sh_word r of
             None \<Rightarrow> None
           | Some (target, r1) \<Rightarrow>
               (case drop_prefix before_content r1 of
                  None \<Rightarrow> None
                | Some r2 \<Rightarrow>
                    (case sh_word r2 of
                       None \<Rightarrow> None
                     | Some (code, r3) \<Rightarrow>
                         (case (unbase64 code, drop_prefix after_content r3) of
                            (Some content, Some r4) \<Rightarrow>
                              map_option (Cons (target, content)) (written_files r4)
                          | _ \<Rightarrow> None)))))"
  by pat_completeness auto
termination
proof (relation "measure length", goal_cases)
  case (2 s r x target r1 r2 y code r3 z content r4)
  have "length r < length s" using 2(1,2)
    by (auto simp: drop_prefix_def before_file_def split: if_splits dest: prefix_length_le)
  then show ?case using 2 by (auto dest!: sh_word_shorter drop_prefix_shorter drop_prefix_shorter [OF sym])
qed simp

declare written_files.simps [simp del]

definition run_injection :: "string \<Rightarrow> (string \<times> string) list option" where
  "run_injection script = Option.bind (drop_prefix ''set -eu'' script) written_files"

lemma append_single: "(@) [c] = (#) c"
  by (rule ext) simp

lemma unlines_cons: "str_join (l # ls) sep = l @ concat (map (\<lambda>x. sep @ x) ls)"
  by (induction ls arbitrary: l) auto

lemma written_one:
  "written_files (concat (map (\<lambda>x. [CHR 0x0A] @ x) (injection_lines q content)) @ rest)
     = map_option (Cons (target_path @ ''/'' @ q, content)) (written_files rest)"
proof -
  let ?t = "target_path @ ''/'' @ q"
  have script: "concat (map (\<lambda>x. [CHR 0x0A] @ x) (injection_lines q content)) @ rest
      = before_file @ shellQuote ?t @ before_content @ shellQuote (base64 content) @ after_content @ rest"
    by (simp add: injection_lines_def before_file_def before_content_def after_content_def target_path_def)
  have "sh_word (shellQuote ?t @ before_content @ r) = Some (?t, before_content @ r)" for r
    by (intro shellQuote_word) (simp add: before_content_def sh_separator_def)
  moreover have "sh_word (shellQuote c @ after_content @ r) = Some (c, after_content @ r)" for c r
    by (intro shellQuote_word) (simp add: after_content_def sh_separator_def)
  ultimately show ?thesis unfolding script
    by (subst written_files.simps) (simp add: unbase64_base64, simp add: before_file_def)
qed

definition lands_at :: "string \<Rightarrow> string \<Rightarrow> bool" where
  "lands_at p target \<longleftrightarrow>
     (\<exists>segs. walk_path [] (split_char (CHR ''/'') p) = Some segs \<and> segs \<noteq> []
        \<and> target = target_path @ ''/'' @ str_join segs ''/'')"

lemma injected_lines:
  assumes "injected_files files = Inr ls"
  shows "\<exists>targets. written_files (concat (map (\<lambda>x. [CHR 0x0A] @ x) ls)) = Some (zip targets (map snd files))
    \<and> list_all2 (\<lambda>(p, _) target. lands_at p target) files targets"
  using assms
proof (induction files arbitrary: ls)
  case Nil
  then show ?case by (simp add: written_files.simps)
next
  case (Cons f files)
  obtain p content where f: "f = (p, content)" by fastforce
  with Cons.prems obtain q ls' where q: "sanitizeWorkspaceFilePath p = Inr q"
    and ls': "injected_files files = Inr ls'" and ls: "ls = injection_lines q content @ ls'"
    by (auto split: sum.splits)
  obtain targets where
    "written_files (concat (map (\<lambda>x. [CHR 0x0A] @ x) ls')) = Some (zip targets (map snd files))"
    "list_all2 (\<lambda>(p, _) target. lands_at p target) files targets"
    using Cons.IH [OF ls'] by blast
  moreover have "lands_at p (target_path @ ''/'' @ q)"
    using q by (auto simp: sanitize_exact lands_at_def)
  ultimately show ?case
    unfolding ls f using written_one [of q content "concat (map (\<lambda>x. [CHR 0x0A] @ x) ls')"]
    by (intro exI [of _ "(target_path @ ''/'' @ q) # targets"]) simp
qed

text \<open>
  C11. The script that puts the files of a workspace into the repository, read as a shell reads it,
  writes for each file its content, byte by byte, to the place below the repository that its path
  leads to; no path or content, whatever characters it has, makes the shell do anything else.
\<close>

theorem files_written:
  assumes "buildWorkspaceFileInjectionScript files = Inr script"
  shows "\<exists>targets. run_injection script = Some (zip targets (map snd files))
    \<and> list_all2 (\<lambda>(p, _) target. lands_at p target) files targets"
proof -
  from assms obtain ls where ls: "injected_files files = Inr ls" and script: "script = unlines (''set -eu'' # ls)"
    by (auto simp: buildWorkspaceFileInjectionScript_def split: sum.splits)
  have "run_injection script = written_files (concat (map (\<lambda>x. [CHR 0x0A] @ x) ls))"
    unfolding script run_injection_def unlines_cons drop_prefix_append by (rule Option.bind_lunit)
  then show ?thesis using injected_lines [OF ls] by simp
qed

lemma files_written_witness:
  "\<exists>script targets. buildWorkspaceFileInjectionScript [(''b/../a'', ''it is'')] = Inr script
     \<and> run_injection script = Some (zip targets [''it is'']) \<and> list_all2 lands_at [''b/../a''] targets"
proof -
  have "\<not> isl (buildWorkspaceFileInjectionScript [(''b/../a'', ''it is'')])" by code_simp
  then obtain script where s: "buildWorkspaceFileInjectionScript [(''b/../a'', ''it is'')] = Inr script"
    by (cases "buildWorkspaceFileInjectionScript [(''b/../a'', ''it is'')]") auto
  from files_written [OF s] show ?thesis using s by (auto simp: list_all2_Cons1)
qed

section \<open>The size of the script\<close>

lemma length_base64: "length (base64 s) = 4 * ((length s + 2) div 3)"
proof (induction s rule: base64.induct)
  case (4 a b c s)
  moreover have "(5 + length s) div 3 = Suc ((2 + length s) div 3)" by presburger
  ultimately show ?case by simp
qed simp_all

lemma length_shellQuote: "length s \<le> length (shellQuote s)"
proof -
  have "length s \<le> length (quoted_body s)"
    by (induction s) (auto simp: quoted_body_def)
  then show ?thesis by (simp add: shellQuote_def quoted_body_def)
qed

definition encoded_size :: "(string \<times> string) list \<Rightarrow> nat" where
  "encoded_size files = sum_list (map (\<lambda>(p, content). 4 * ((length content + 2) div 3)) files)"

lemma length_injected:
  assumes "injected_files files = Inr ls"
  shows "encoded_size files \<le> length (concat (map (\<lambda>x. [CHR 0x0A] @ x) ls))"
  using assms
proof (induction files arbitrary: ls)
  case (Cons f files)
  obtain p content where f: "f = (p, content)" by fastforce
  with Cons.prems obtain q ls' where ls': "injected_files files = Inr ls'"
    and ls: "ls = injection_lines q content @ ls'"
    by (auto split: sum.splits)
  have "4 * ((length content + 2) div 3) \<le> length (shellQuote (base64 content))"
    using length_shellQuote [of "base64 content"] by (simp add: length_base64)
  also have "\<dots> \<le> length (concat (map (\<lambda>x. [CHR 0x0A] @ x) (injection_lines q content)))"
    by (simp add: injection_lines_def)
  finally show ?case using Cons.IH [OF ls'] by (simp add: ls f encoded_size_def)
qed (simp add: encoded_size_def)

text \<open>
  The script grows with the files: it is at least as long as their contents in base64. It is one
  argument of a shell, and nothing limits it, although Linux refuses an argument of more than 128 KiB.
\<close>

theorem script_size:
  assumes "buildWorkspaceFileInjectionScript files = Inr script"
  shows "encoded_size files \<le> length script"
proof -
  from assms obtain ls where "injected_files files = Inr ls" and "script = unlines (''set -eu'' # ls)"
    by (auto simp: buildWorkspaceFileInjectionScript_def split: sum.splits)
  then show ?thesis using length_injected [of files ls] unfolding unlines_cons append_single by simp
qed

text \<open>One file of 96 KiB is accepted, and its script is longer than 128 KiB.\<close>

lemma script_size_witness:
  "\<exists>script. buildWorkspaceFileInjectionScript [(''a'', replicate (96 * 1024) CHR ''x'')] = Inr script
     \<and> 128 * 1024 \<le> length script"
proof -
  have "sanitizeWorkspaceFilePath ''a'' = Inr ''a''" by code_simp
  then obtain script where
    s: "buildWorkspaceFileInjectionScript [(''a'', replicate (96 * 1024) CHR ''x'')] = Inr script"
    by (simp add: buildWorkspaceFileInjectionScript_def)
  from script_size [OF s] s show ?thesis by (simp add: encoded_size_def)
qed

end
