(* ===== verification/PoolBuilder.thy ===== *)
theory PoolBuilder
  imports JobBuilder
begin

text \<open>
  \<^verbatim>\<open>buildStatefulSet\<close> of \<^verbatim>\<open>internal/controller/workerpool_controller.go\<close> with the names of a pool's
  objects. The pods are put together from the pieces of \<open>JobBuilder\<close>, but the checkout survives on a
  persistent volume, the worker runner takes the place of the agent, and tasks bring their branch.
\<close>

section \<open>Names\<close>

definition truncateResourceNameTo :: "env \<Rightarrow> string \<Rightarrow> nat \<Rightarrow> string" where
  "truncateResourceNameTo E name maxLength =
     (if length name \<le> maxLength then name
      else (let suffix = l_hash8 E name
            in take (maxLength - length suffix - 1) name @ ''-'' @ suffix))"

definition truncateResourceName :: "env \<Rightarrow> string \<Rightarrow> string" where
  "truncateResourceName E name = truncateResourceNameTo E name 63"

definition workerPoolLabelValue :: "env \<Rightarrow> string \<Rightarrow> string" where
  "workerPoolLabelValue E poolName =
     (if length poolName \<le> 63 then poolName else truncateResourceName E poolName)"

definition workerPoolStatefulSetName :: "env \<Rightarrow> string \<Rightarrow> string" where
  "workerPoolStatefulSetName E poolName = truncateResourceName E (''wp-'' @ poolName)"

definition workerPoolPluginConfigMapName :: "env \<Rightarrow> string \<Rightarrow> string" where
  "workerPoolPluginConfigMapName E poolName = truncateResourceName E (''wp-'' @ poolName @ ''-plugins'')"

definition workerPoolLabels :: "env \<Rightarrow> string \<Rightarrow> strmap" where
  "workerPoolLabels E poolName =
     [(''kelos.dev/name'', ''kelos''), (''kelos.dev/component'', ''worker''),
      (''kelos.dev/managed-by'', ''kelos-controller''),
      (''kelos.dev/workerpool'', workerPoolLabelValue E poolName),
      (''kelos.dev/execution-mode'', ''persistent'')]"

section \<open>Images\<close>

definition or_default :: "string \<Rightarrow> string \<Rightarrow> string" where
  "or_default img repository = (if img \<noteq> [] then img else repository @ '':latest'')"

definition agentImage :: "agent_images \<Rightarrow> string \<Rightarrow> string" where
  "agentImage b agentType =
     (if agentType = ''claude-code'' then or_default (ai_claude b) ClaudeCodeImageRepository
      else if agentType = ''codex'' then or_default (ai_codex b) CodexImageRepository
      else if agentType = ''gemini'' then or_default (ai_gemini b) GeminiImageRepository
      else if agentType = ''opencode'' then or_default (ai_opencode b) OpenCodeImageRepository
      else if agentType = ''cursor'' then or_default (ai_cursor b) CursorImageRepository
      else ClaudeCodeImageRepository @ '':latest'')"

definition agentImagePullPolicy :: "agent_images \<Rightarrow> string \<Rightarrow> string" where
  "agentImagePullPolicy b agentType =
     (if agentType = ''codex'' then ai_codex_pull b
      else if agentType = ''gemini'' then ai_gemini_pull b
      else if agentType = ''opencode'' then ai_opencode_pull b
      else if agentType = ''cursor'' then ai_cursor_pull b
      else ai_claude_pull b)"

section \<open>The worker's container\<close>

definition pool_workspace_env :: "workspace_spec \<Rightarrow> env_var list" where
  "pool_workspace_env ws =
     gh_host_env ws @ opt_env ''KELOS_BASE_BRANCH'' (ws_ref ws) @ upstream_env [] ws
     @ (if ws_secret ws = None then []
        else token_envs ws @ [plain_env ''GH_CONFIG_DIR'' GHConfigDir, token_file_env])"

definition pool_env :: "worker_pool \<Rightarrow> workspace_spec option \<Rightarrow> env_var list" where
  "pool_env pool workspace =
     (let w = wp_worker pool
      in [field_env ''KELOS_POD_NAME'' ''metadata.name'', field_env ''KELOS_POD_NAMESPACE'' ''metadata.namespace'',
          plain_env ''KELOS_AGENT_TYPE'' (wk_type w)]
         @ opt_env ''KELOS_MODEL'' (wk_model w) @ opt_env ''KELOS_EFFORT'' (wk_effort w)
         @ (case wk_credentials w of None \<Rightarrow> [] | Some c \<Rightarrow> credentialEnvVars c (wk_type w))
         @ (case workspace of None \<Rightarrow> [] | Some ws \<Rightarrow> pool_workspace_env ws))"

definition runner_volume :: string where "runner_volume = ''worker-runner''"

definition runner_path :: string where "runner_path = ''/kelos/bin''"

definition pool_container :: "env \<Rightarrow> worker_pool \<Rightarrow> workspace_spec option \<Rightarrow> container" where
  "pool_container E pool workspace =
     (let w = wp_worker pool;
          img = (if wk_image w \<noteq> [] then wk_image w else agentImage (cfg_pool_images E) (wk_type w))
      in blank_container\<lparr>ct_name := AgentContainerName, ct_image := img,
           ct_pull := agentImagePullPolicy (cfg_pool_images E) (wk_type w),
           ct_command := agentProcessCommand (runner_path @ ''/kelos-worker-runner'')
                           (wk_image w = [] \<and> isBundledAgentImage img),
           ct_env := pool_env pool workspace,
           ct_mounts := [workspace_mount, mount runner_volume runner_path]
             @ (case workspace of None \<Rightarrow> [] | Some ws \<Rightarrow> if ws_secret ws = None then [] else [token_mount]),
           ct_dir := target_path\<rparr>)"

definition runner_container :: "env \<Rightarrow> container" where
  "runner_container E =
     (let (img, pull) = cfg_runner_image E
      in blank_container\<lparr>ct_name := ''inject-worker-runner'',
           ct_image := or_default img ''ghcr.io/kelos-dev/kelos-worker-runner'', ct_pull := pull,
           ct_command := [''/kelos-worker-runner'', ''--self-copy'', runner_path @ ''/kelos-worker-runner''],
           ct_mounts := [mount runner_volume runner_path], ct_security := agent_user\<rparr>)"

section \<open>The checkout\<close>

text \<open>A checkout that is there already is kept; the helper is configured anew.\<close>

definition existing_repo :: "string \<Rightarrow> string \<Rightarrow> string" where
  "existing_repo action rest =
     ''if [ -d '' @ squoted (target_path @ ''/.git'') @ '' ]; then echo ''
     @ squoted ''Workspace exists, skipping clone'' @ ''; '' @ action @ ''; fi; '' @ rest"

definition pool_clone_container :: "workspace_spec \<Rightarrow> container" where
  "pool_clone_container ws =
     (let commitRef = isFullGitCommitSHA (ws_ref ws);
          helper = (if ws_secret ws = None then [] else gitCredentialHelper);
          config = (if ws_secret ws = None then [] else workspaceGitCredentialConfigScript helper);
          action = (if config \<noteq> [] then ''{ '' @ config @ ''; } || exit $?; exit 0'' else ''exit 0'');
          script =
            (if commitRef then existing_repo action (buildCommitRefCheckoutScript helper)
             else if ws_secret ws \<noteq> None then existing_repo action saving_clone_script
             else existing_repo ''exit 0'' ''exec git \"$@\"'')
      in blank_container\<lparr>ct_name := ''git-clone'', ct_image := GitCloneImage,
           ct_command := [''sh'', ''-c'', script],
           ct_args := (if commitRef then [''--'', ws_repo ws, target_path, ws_ref ws]
                       else ''--'' # clone_args [] ws),
           ct_env := gh_host_env ws @ token_envs ws, ct_mounts := workspace_mounts ws,
           ct_security := agent_user\<rparr>)"

definition add_pool_workspace :: "workspace_spec \<Rightarrow> pod_parts \<Rightarrow> go_err + pod_parts" where
  "add_pool_workspace ws p =
     (case workspace_files ws of
        Inl e \<Rightarrow> Inl e
      | Inr files \<Rightarrow>
          Inr (p\<lparr>pp_main := (pp_main p)\<lparr>ct_env := ct_env (pp_main p) @ setup_env ws\<rparr>,
                 pp_init := pp_init p @ [pool_clone_container ws] @ remote_setup (ws_remotes ws) @ files,
                 pp_volumes := pp_volumes p @ token_volumes ws\<rparr>))"

section \<open>The StatefulSet\<close>

text \<open>The parts of the pods; the checks of additional containers come in another order than for a Job.\<close>

definition pool_overrides :: "worker_pool \<Rightarrow> pod_overrides" where
  "pool_overrides pool = (case wk_pod_overrides (wp_worker pool) of None \<Rightarrow> no_overrides | Some po \<Rightarrow> po)"

definition check_pool_extra :: "pod_overrides \<Rightarrow> go_err option" where
  "check_pool_extra po =
     first_error [validateExtraContainers (po_extra_init po),
                  validateNoContainerNameCollision (po_extra po) (po_extra_init po),
                  validateExtraContainers (po_extra po)]"

definition pool_parts ::
  "env \<Rightarrow> worker_pool \<Rightarrow> workspace_spec option \<Rightarrow> agent_config_spec option \<Rightarrow> go_err + pod_parts" where
  "pool_parts E pool workspace agentConfig =
     (let p = \<lparr>pp_main = pool_container E pool workspace, pp_init = [runner_container E],
               pp_volumes = [\<lparr>vol_name = runner_volume, vol_source = EmptyDir\<rparr>],
               pp_security = Some \<lparr>psc_fs_group = Some AgentUID, psc_rest = nothing\<rparr>\<rparr>
      in case (case workspace of None \<Rightarrow> Inr p | Some ws \<Rightarrow> add_pool_workspace ws p) of
           Inl e \<Rightarrow> Inl e
         | Inr p1 \<Rightarrow>
             (case (case agentConfig of None \<Rightarrow> Inr p1
                    | Some ac \<Rightarrow> add_config False (workerPoolPluginConfigMapName E (wp_name pool)) ac p1) of
                Inl e \<Rightarrow> Inl e
              | Inr p2 \<Rightarrow> add_overrides (pool_overrides pool) p2))"

definition buildStatefulSet ::
  "env \<Rightarrow> worker_pool \<Rightarrow> string \<Rightarrow> string \<Rightarrow> workspace_spec option \<Rightarrow> agent_config_spec option \<Rightarrow>
   go_err + stateful_set" where
  "buildStatefulSet E pool stsName svcName workspace agentConfig =
     (let labels = workerPoolLabels E (wp_name pool); po = pool_overrides pool
      in case pool_parts E pool workspace agentConfig of
           Inl e \<Rightarrow> Inl e
         | Inr p \<Rightarrow>
             (case check_pool_extra po of
                Some e \<Rightarrow> Inl e
              | None \<Rightarrow>
                  Inr \<lparr>sts_meta = blank_meta\<lparr>m_name := stsName, m_namespace := wp_namespace pool, m_labels := labels\<rparr>,
                       sts_replicas = wp_replicas pool,
                       sts_template =
                         \<lparr>tpl_labels = labels, tpl_annotations = [(''kelos.dev/workerpool-name'', wp_name pool)],
                          tpl_spec = blank_pod_spec\<lparr>pd_service_account := ''kelos-worker-runner'',
                            pd_security := pp_security p, pd_init := pp_init p @ po_extra_init po,
                            pd_containers := pp_main p # po_extra po, pd_volumes := pp_volumes p,
                            pd_node_selector := po_node_selector po, pd_tolerations := po_tolerations po,
                            pd_affinity := po_affinity po, pd_pull_secrets := po_pull_secrets po\<rparr>\<rparr>,
                       sts_current = 0, sts_ready = 0, sts_service = svcName, sts_policy = ''Parallel'',
                       sts_selector = labels, sts_claims = [(WorkspaceVolumeName, wp_claim_template pool)]\<rparr>))"

end
