(* ===== verification/OutputParser.thy ===== *)
theory OutputParser
  imports Api
begin

text \<open>
  \<^verbatim>\<open>internal/controller/output_parser.go\<close> and \<^verbatim>\<open>usageFromResults\<close> of
  \<^verbatim>\<open>task_controller.go\<close>: how the outputs, results and usage of an agent are read back
  from its log. A nil slice or map is the empty list.
\<close>

definition outputStartMarker :: string where
  "outputStartMarker = ''---KELOS_OUTPUTS_START---''"

definition outputEndMarker :: string where
  "outputEndMarker = ''---KELOS_OUTPUTS_END---''"

definition ParseOutputs :: "string \<Rightarrow> string list" where
  "ParseOutputs logData =
     (case str_last_index outputEndMarker logData of
        None \<Rightarrow> []
      | Some endIdx \<Rightarrow>
          (case str_last_index outputStartMarker (take endIdx logData) of
             None \<Rightarrow> []
           | Some startIdx \<Rightarrow>
               (let between =
                      trim_space (drop (startIdx + length outputStartMarker) (take endIdx logData))
                in if between = [] then []
                   else filter (\<lambda>line. line \<noteq> []) (map trim_space (split_lines between)))))"

definition result_entry :: "string \<Rightarrow> (string \<times> string) option" where
  "result_entry line =
     (case str_cut line '': '' of
        None \<Rightarrow> None
      | Some (key, v) \<Rightarrow> if key = [] then None else Some (key, v))"

definition ResultsFromOutputs :: "string list \<Rightarrow> strmap" where
  "ResultsFromOutputs outputs =
     foldl (\<lambda>m line. case result_entry line of None \<Rightarrow> m | Some (k, v) \<Rightarrow> map_put k v m)
       [] outputs"

definition usage_cost :: "(string \<Rightarrow> quantity option) \<Rightarrow> strmap \<Rightarrow> quantity option" where
  "usage_cost parse_quantity results =
     (case map_of results ''cost-usd'' of
        Some costStr \<Rightarrow>
          if costStr = [] then None
          else (case parse_quantity costStr of
                  Some q \<Rightarrow> if q \<noteq> 0 \<and> 0 \<le> q then Some q else None
                | None \<Rightarrow> None)
      | None \<Rightarrow> None)"

definition usage_tokens :: "strmap \<Rightarrow> string \<Rightarrow> int option" where
  "usage_tokens results key =
     (case map_of results key of
        Some s \<Rightarrow>
          if s = [] then None
          else (case parse_int s of
                  Some tokens \<Rightarrow> if 0 < tokens then Some tokens else None
                | None \<Rightarrow> None)
      | None \<Rightarrow> None)"

definition usageFromResults :: "(string \<Rightarrow> quantity option) \<Rightarrow> strmap \<Rightarrow> task_usage option" where
  "usageFromResults parse_quantity results =
     (if results = [] then None
      else
        (let cost = usage_cost parse_quantity results;
             input = usage_tokens results ''input-tokens'';
             output = usage_tokens results ''output-tokens''
         in if cost = None \<and> input = None \<and> output = None then None
            else Some \<lparr>u_cost = cost, u_input = input, u_output = output\<rparr>))"

section \<open>The last complete block\<close>

text \<open>The lines that a block between the markers stands for.\<close>

definition block_lines :: "string \<Rightarrow> string list" where
  "block_lines body = filter (\<lambda>line. line \<noteq> []) (map trim_space (split_lines (trim_space body)))"

lemma trim_space_Nil [simp]: "trim_space [] = []"
  by (simp add: trim_space_def trim_front.simps leading_rune_def find_None_iff space_runes_def)

lemma str_last_index_append:
  "str_last_index sub s = Some i \<Longrightarrow> str_last_index sub (pre @ s) = Some (length pre + i)"
  by (induction pre) auto

lemma block_lines_empty: "trim_space body = [] \<Longrightarrow> block_lines body = []"
  by (simp add: block_lines_def)

lemma ParseOutputs_block:
  assumes "str_last_index outputEndMarker (outputEndMarker @ post) = Some 0"
    and "str_last_index outputStartMarker (outputStartMarker @ body) = Some 0"
  shows "ParseOutputs (pre @ outputStartMarker @ body @ outputEndMarker @ post) = block_lines body"
proof -
  let ?head = "pre @ outputStartMarker @ body"
  have e: "str_last_index outputEndMarker (?head @ outputEndMarker @ post) = Some (length ?head)"
    using str_last_index_append [OF assms(1), of ?head] by simp
  have s: "str_last_index outputStartMarker ?head = Some (length pre)"
    using str_last_index_append [OF assms(2), of pre] by simp
  have l: "pre @ outputStartMarker @ body @ outputEndMarker @ post = ?head @ outputEndMarker @ post"
    by simp
  have t: "take (length ?head) (?head @ outputEndMarker @ post) = ?head"
    by (simp del: append_assoc)
  show ?thesis
    unfolding l ParseOutputs_def e option.case t s
    by (simp add: Let_def block_lines_def)
qed

lemma ParseOutputs_lines:
  assumes "line \<in> set (ParseOutputs logData)"
  shows "line \<noteq> [] \<and> (\<exists>raw. CHR 0x0A \<notin> set raw \<and> line = trim_space raw)"
  using assms split_lines_no_newline
  by (fastforce simp: ParseOutputs_def Let_def split: option.splits if_splits)

section \<open>Writing a block and reading it back\<close>

lemma newline_rune: "r \<in> set space_runes \<Longrightarrow> CHR 0x0A \<in> set r \<Longrightarrow> r = [CHR 0x0A]"
  by (auto simp: space_runes_def)

lemma leading_rune_None:
  "leading_rune rs s = None \<longleftrightarrow> (\<forall>r \<in> set rs. r \<noteq> [] \<longrightarrow> \<not> prefix r s)"
  by (auto simp: leading_rune_def find_None_iff)

text \<open>
  No white-space rune has a newline inside, so white space that starts or ends a line
  lies within the line.
\<close>

lemma prefix_newline:
  assumes "prefix r (l @ CHR 0x0A # s)" and "CHR 0x0A \<notin> set r"
  shows "prefix r l"
  using assms by (auto simp: prefix_append prefix_Cons)

lemma leading_rune_line:
  assumes none: "leading_rune rs l = None" and l: "l \<noteq> []" and nl: "CHR 0x0A \<notin> set l"
    and rs: "\<And>r. r \<in> set rs \<Longrightarrow> CHR 0x0A \<in> set r \<Longrightarrow> r = [CHR 0x0A]"
  shows "leading_rune rs (l @ CHR 0x0A # s) = None"
  unfolding leading_rune_None
proof (intro ballI impI notI)
  fix r assume r: "r \<in> set rs" "r \<noteq> []" "prefix r (l @ CHR 0x0A # s)"
  show False
  proof (cases "CHR 0x0A \<in> set r")
    case True
    with rs r(1) have "r = [CHR 0x0A]" by blast
    with r(3) l nl show False by (cases l) auto
  next
    case False
    with r(3) have "prefix r l" by (rule prefix_newline)
    with none r(1,2) show False by (auto simp: leading_rune_None)
  qed
qed

definition clean_line :: "string \<Rightarrow> bool" where
  "clean_line l \<longleftrightarrow> l \<noteq> [] \<and> CHR 0x0A \<notin> set l \<and> leading_rune space_runes l = None
     \<and> leading_rune (map rev space_runes) (rev l) = None"

lemma clean_line_trim: "clean_line l \<Longrightarrow> trim_space l = l"
  by (simp add: clean_line_def trim_space_def trim_front_id)

lemma rev_newline_rune:
  "r \<in> set (map rev space_runes) \<Longrightarrow> CHR 0x0A \<in> set r \<Longrightarrow> r = [CHR 0x0A]"
  using newline_rune by fastforce

lemma join_front:
  assumes "list_all clean_line ls" and "ls \<noteq> []"
  shows "leading_rune space_runes (str_join ls [CHR 0x0A] @ [CHR 0x0A] @ s) = None"
proof -
  obtain l ls' where ls: "ls = l # ls'" using assms(2) by (cases ls) auto
  have l: "clean_line l" using assms(1) ls by simp
  have "\<exists>t. str_join ls [CHR 0x0A] @ [CHR 0x0A] @ s = l @ CHR 0x0A # t"
    unfolding ls by (cases ls') auto
  then obtain t where t: "str_join ls [CHR 0x0A] @ [CHR 0x0A] @ s = l @ CHR 0x0A # t" ..
  show ?thesis
    unfolding t by (rule leading_rune_line) (use l newline_rune in \<open>auto simp: clean_line_def\<close>)
qed

lemma str_join_snoc:
  "ls \<noteq> [] \<Longrightarrow> str_join (ls @ [l]) sep = str_join ls sep @ sep @ l"
  by (induction ls sep rule: str_join.induct) auto

lemma join_back:
  assumes "list_all clean_line ls" and "ls \<noteq> []"
  shows "leading_rune (map rev space_runes) (rev (str_join ls [CHR 0x0A])) = None"
proof -
  obtain ls' l where ls: "ls = ls' @ [l]" using assms(2) by (metis rev_exhaust)
  have l: "clean_line l" using assms(1) ls by simp
  show ?thesis
  proof (cases "ls' = []")
    case True
    with ls l show ?thesis by (simp add: clean_line_def)
  next
    case False
    have "rev (str_join ls [CHR 0x0A]) = rev l @ CHR 0x0A # rev (str_join ls' [CHR 0x0A])"
      using ls False by (simp add: str_join_snoc)
    moreover have "leading_rune (map rev space_runes)
        (rev l @ CHR 0x0A # rev (str_join ls' [CHR 0x0A])) = None"
      by (rule leading_rune_line) (use l rev_newline_rune in \<open>auto simp: clean_line_def\<close>)
    ultimately show ?thesis by simp
  qed
qed

lemma leading_newline:
  "leading_rune space_runes (CHR 0x0A # s) = Some [CHR 0x0A]"
  "leading_rune (map rev space_runes) (CHR 0x0A # s) = Some [CHR 0x0A]"
  by (simp_all add: leading_rune_def space_runes_def)

lemma trim_front_newline:
  "trim_front space_runes (CHR 0x0A # s) = trim_front space_runes s"
  "trim_front (map rev space_runes) (CHR 0x0A # s) = trim_front (map rev space_runes) s"
  by (simp_all add: trim_front.simps [of _ "CHR 0x0A # s"] leading_newline)

lemma trim_space_block:
  assumes "list_all clean_line ls" and "ls \<noteq> []"
  shows "trim_space (CHR 0x0A # str_join ls [CHR 0x0A] @ [CHR 0x0A]) = str_join ls [CHR 0x0A]"
proof -
  have f: "trim_front space_runes (str_join ls [CHR 0x0A] @ [CHR 0x0A])
      = str_join ls [CHR 0x0A] @ [CHR 0x0A]"
    using join_front [OF assms, of "[]"] by (simp add: trim_front_id)
  have b: "trim_front (map rev space_runes) (rev (str_join ls [CHR 0x0A]))
      = rev (str_join ls [CHR 0x0A])"
    by (rule trim_front_id) (rule join_back [OF assms])
  show ?thesis
    unfolding trim_space_def trim_front_newline(1) f
    by (simp add: trim_front_newline(2) b)
qed

lemma split_lines_append_newline:
  "CHR 0x0A \<notin> set l \<Longrightarrow> split_lines (l @ CHR 0x0A # s) = l # split_lines s"
  by (induction l) auto

lemma split_lines_single: "CHR 0x0A \<notin> set l \<Longrightarrow> split_lines l = [l]"
  by (induction l) auto

lemma split_join_lines [go_string]:
  "ls \<noteq> [] \<Longrightarrow> \<forall>l \<in> set ls. CHR 0x0A \<notin> set l \<Longrightarrow> split_lines (str_join ls [CHR 0x0A]) = ls"
  by (induction ls "[CHR 0x0A]" rule: str_join.induct)
    (auto simp: split_lines_append_newline split_lines_single)

lemma block_lines_join:
  assumes "list_all clean_line ls" and "ls \<noteq> []"
  shows "block_lines (CHR 0x0A # str_join ls [CHR 0x0A] @ [CHR 0x0A]) = ls"
proof -
  have "split_lines (str_join ls [CHR 0x0A]) = ls"
    by (rule split_join_lines) (use assms in \<open>auto simp: list_all_iff clean_line_def\<close>)
  moreover have "map trim_space ls = ls"
    using assms(1) by (induction ls) (auto simp: clean_line_trim)
  moreover have "filter (\<lambda>line. line \<noteq> []) ls = ls"
    using assms(1) by (induction ls) (auto simp: clean_line_def)
  ultimately show ?thesis
    by (simp add: block_lines_def trim_space_block [OF assms])
qed

section \<open>Results\<close>

lemma result_entry_key: "result_entry line = Some (k, v) \<Longrightarrow> k \<noteq> []"
  by (auto simp: result_entry_def split: option.splits if_splits)

lemma ResultsFromOutputs_snoc:
  "ResultsFromOutputs (ls @ [l]) =
     (case result_entry l of
        None \<Rightarrow> ResultsFromOutputs ls
      | Some (k, v) \<Rightarrow> map_put k v (ResultsFromOutputs ls))"
  by (simp add: ResultsFromOutputs_def split: option.splits)

lemma ResultsFromOutputs_lookup:
  "map_of (ResultsFromOutputs ls) k =
     map_option snd (List.find (\<lambda>e. fst e = k) (rev (List.map_filter result_entry ls)))"
proof (induction ls rule: rev_induct)
  case Nil
  then show ?case by (simp add: ResultsFromOutputs_def map_filter_def)
next
  case (snoc l ls)
  then show ?case
    by (auto simp: ResultsFromOutputs_snoc update_conv' map_filter_def split: option.splits)
qed

lemma str_index_key:
  assumes "\<not> str_contains k '': ''"
  shows "str_index '': '' (k @ '': '' @ v) = Some (length k)"
  using assms
proof (induction k)
  case (Cons c k)
  then have "\<not> prefix '': '' (c # k)" and k: "\<not> str_contains k '': ''"
    by (auto simp: str_contains_def split: if_splits)
  then have "\<not> prefix '': '' ((c # k) @ '': '' @ v)"
    by (cases k) auto
  with Cons.IH [OF k] show ?case by simp
qed (simp add: str_contains_def)

lemma result_entry_pair:
  "k \<noteq> [] \<Longrightarrow> \<not> str_contains k '': '' \<Longrightarrow> result_entry (k @ '': '' @ v) = Some (k, v)"
  using str_index_key [of k v] by (simp add: result_entry_def str_cut_def)

lemma map_put_new: "k \<notin> set (map fst m) \<Longrightarrow> map_put k v m = m @ [(k, v)]"
  by (induction m) auto

lemma ResultsFromOutputs_pairs:
  assumes "distinct (map fst kvs)"
    and "\<And>k v. (k, v) \<in> set kvs \<Longrightarrow> k \<noteq> [] \<and> \<not> str_contains k '': ''"
  shows "ResultsFromOutputs (map (\<lambda>(k, v). k @ '': '' @ v) kvs) = kvs"
  using assms
proof (induction kvs rule: rev_induct)
  case Nil
  then show ?case by (simp add: ResultsFromOutputs_def)
next
  case (snoc kv kvs)
  obtain k v where kv: "kv = (k, v)" by (cases kv)
  with snoc have "ResultsFromOutputs (map (\<lambda>(k, v). k @ '': '' @ v) kvs) = kvs"
    and "k \<noteq> []" "\<not> str_contains k '': ''" "k \<notin> set (map fst kvs)"
    by auto
  then show ?case
    unfolding kv map_append list.map split_conv ResultsFromOutputs_snoc
    by (simp only: result_entry_pair [OF \<open>k \<noteq> []\<close> \<open>\<not> str_contains k '': ''\<close>]
        option.case split_conv map_put_new not_False_eq_True)
qed

section \<open>Usage\<close>

lemma usage_cost_positive: "usage_cost pq results = Some q \<Longrightarrow> 0 < q"
  by (auto simp: usage_cost_def split: option.splits if_splits)

lemma usage_tokens_positive: "usage_tokens results key = Some n \<Longrightarrow> 0 < n"
  by (auto simp: usage_tokens_def split: option.splits if_splits)

lemma usage_cost_value: "usage_cost pq results = Some q \<Longrightarrow> pq (map_str results ''cost-usd'') = Some q"
  by (auto simp: usage_cost_def map_str_def split: option.splits if_splits)

lemma parse_int_Nil [simp]: "parse_int [] = None"
  by (simp add: parse_int_def parse_decimal_def)

lemma usage_tokens_iff:
  "usage_tokens results key = Some n \<longleftrightarrow> 0 < n \<and> parse_int (map_str results key) = Some n"
  unfolding usage_tokens_def map_str_def
  by (cases "map_of results key") (auto split: option.splits if_splits)

lemma usageFromResults_Some:
  "usageFromResults pq results = Some u \<longleftrightarrow>
     results \<noteq> []
     \<and> u = \<lparr>u_cost = usage_cost pq results, u_input = usage_tokens results ''input-tokens'',
            u_output = usage_tokens results ''output-tokens''\<rparr>
     \<and> (u_cost u \<noteq> None \<or> u_input u \<noteq> None \<or> u_output u \<noteq> None)"
  by (auto simp: usageFromResults_def Let_def)

end
