(* ===== verification/TaskBudget.thy ===== *)
theory TaskBudget
  imports Effects
begin

text \<open>
  \<^verbatim>\<open>internal/controller/task_budget_admission.go\<close>: budget admission and the accounting of
  completed tasks, shared by the task and the worker-pool reconcilers, with the
  reconcilers of \<^verbatim>\<open>taskbudget_controller.go\<close> and \<^verbatim>\<open>taskrecord_controller.go\<close>.

  Logging is left out. Local objects that a helper overwrites by re-reading them are
  returned by the helper, because later steps look at the fresh copy.
\<close>

definition budgetBlockedMaxRequeue :: int where
  "budgetBlockedMaxRequeue = minutes 5"

definition taskBudgetLabelSnapshotAnnotation :: string where
  "taskBudgetLabelSnapshotAnnotation = ''kelos.dev/taskbudget-labels''"

definition defaultTaskRecordTTL :: int where
  "defaultTaskRecordTTL = 30 * 24 * 60 * 60"

section \<open>Periods and usage\<close>

definition day_ns :: int where
  "day_ns = seconds 86400"

text \<open>\<^verbatim>\<open>start.AddDate(0, 0, 1)\<close> keeps the clock of \<^verbatim>\<open>start\<close> and moves its civil day.\<close>

definition computePeriodBoundaries :: "env \<Rightarrow> budget_period \<Rightarrow> int \<Rightarrow> go_err + (int \<times> int)" where
  "computePeriodBoundaries E period now =
     (let tz = (if bp_timezone period = [] then ''UTC'' else bp_timezone period)
      in case l_location E tz of
           Inl e \<Rightarrow> Inl (wrap_err (''loading timezone '' @ quote tz) e)
         | Inr loc \<Rightarrow>
             if bp_type period = ''Daily''
             then (let start = instant loc (fst (civil loc now)) 0;
                       end = instant loc (fst (civil loc start) + 1) (snd (civil loc start))
                   in Inr (start, end))
             else Inl (new_err (''unsupported period type '' @ quote (bp_type period))))"

record usage_totals =
  tot_cost :: quantity
  tot_input :: int
  tot_output :: int

definition add_record :: "int \<Rightarrow> int \<Rightarrow> usage_totals \<Rightarrow> task_record \<Rightarrow> usage_totals" where
  "add_record periodStart periodEnd tot rec =
     (case rs_completion (r_spec rec) of
        None \<Rightarrow> tot
      | Some ct \<Rightarrow>
          if ct < periodStart \<or> \<not> ct < periodEnd then tot
          else (case rs_usage (r_spec rec) of
                  None \<Rightarrow> tot
                | Some u \<Rightarrow>
                    \<lparr>tot_cost = (case u_cost u of None \<Rightarrow> tot_cost tot | Some c \<Rightarrow> tot_cost tot + c),
                     tot_input = (case u_input u of None \<Rightarrow> tot_input tot
                                  | Some n \<Rightarrow> wrap64 (tot_input tot + n)),
                     tot_output = (case u_output u of None \<Rightarrow> tot_output tot
                                   | Some n \<Rightarrow> wrap64 (tot_output tot + n))\<rparr>))"

definition usage_of_records :: "task_record list \<Rightarrow> int \<Rightarrow> int \<Rightarrow> task_usage" where
  "usage_of_records recs periodStart periodEnd =
     (let tot = foldl (add_record periodStart periodEnd)
                  \<lparr>tot_cost = 0, tot_input = 0, tot_output = 0\<rparr> recs
      in \<lparr>u_cost = (if tot_cost tot \<noteq> 0 then Some (tot_cost tot) else None),
          u_input = (if 0 < tot_input tot then Some (tot_input tot) else None),
          u_output = (if 0 < tot_output tot then Some (tot_output tot) else None)\<rparr>)"

definition sumPeriodUsage ::
  "env \<Rightarrow> string \<Rightarrow> opaque \<Rightarrow> int \<Rightarrow> int \<Rightarrow> (go_err + task_usage) io" where
  "sumPeriodUsage E ns selector periodStart periodEnd = do {
     r \<leftarrow> read_records E ns selector;
     ret (case r of
            Inl e \<Rightarrow> Inl e
          | Inr recs \<Rightarrow> Inr (usage_of_records recs periodStart periodEnd))
   }"

definition or_zero :: "int option \<Rightarrow> int" where
  "or_zero x = (case x of None \<Rightarrow> 0 | Some n \<Rightarrow> n)"

text \<open>\<open>Some reason\<close> when a limit is reached.\<close>

definition checkLimitsExceeded :: "env \<Rightarrow> task_budget \<Rightarrow> task_usage \<Rightarrow> string option" where
  "checkLimitsExceeded E budget used =
     (let cost = (case bs_max_cost (b_spec budget) of
            Some limit \<Rightarrow>
              if limit \<le> or_zero (u_cost used)
              then Some (''cost '' @ l_quantity_string E (or_zero (u_cost used)) @ '' >= limit ''
                         @ l_quantity_string E limit)
              else None
          | None \<Rightarrow> None);
          input = (case bs_max_input (b_spec budget) of
            Some limit \<Rightarrow>
              if limit \<le> or_zero (u_input used)
              then Some (''input tokens '' @ itoa (or_zero (u_input used)) @ '' >= limit ''
                         @ itoa limit)
              else None
          | None \<Rightarrow> None);
          output = (case bs_max_output (b_spec budget) of
            Some limit \<Rightarrow>
              if limit \<le> or_zero (u_output used)
              then Some (''output tokens '' @ itoa (or_zero (u_output used)) @ '' >= limit ''
                         @ itoa limit)
              else None
          | None \<Rightarrow> None)
      in if cost \<noteq> None then cost else if input \<noteq> None then input else output)"

section \<open>Status of the task\<close>

definition set_status :: "(task_status \<Rightarrow> task_status) \<Rightarrow> task \<Rightarrow> task" where
  "set_status f t = t\<lparr>t_status := f (t_status t)\<rparr>"

definition budgetBlockUnchanged :: "env \<Rightarrow> task \<Rightarrow> string \<Rightarrow> string \<Rightarrow> bool" where
  "budgetBlockUnchanged E t wantMessage wantCondMessage =
     (if t_phase t \<noteq> PhaseWaiting \<or> st_message (t_status t) \<noteq> wantMessage then False
      else (case l_find_condition E (st_conditions (t_status t)) ''BudgetBlocked'' of
              None \<Rightarrow> False
            | Some cond \<Rightarrow>
                c_status cond = CondTrue \<and> c_reason cond = ''BudgetExceeded''
                \<and> c_message cond = wantCondMessage
                \<and> c_generation cond = m_generation (t_meta t)))"

definition setBudgetBlockedPhase :: "env \<Rightarrow> task \<Rightarrow> string \<Rightarrow> string \<Rightarrow> task io" where
  "setBudgetBlockedPhase E t budgetName reason =
     (let wantMessage = ''Budget '' @ quote budgetName @ '' exceeded: '' @ reason;
          wantCondMessage = ''Blocked by TaskBudget '' @ quote budgetName @ '': '' @ reason
      in do {
        (e, t') \<leftarrow> modify_task_status E t (\<lambda>now fresh.
          if budgetBlockUnchanged E fresh wantMessage wantCondMessage then None
          else Some (set_status (\<lambda>s. s\<lparr>st_phase := PhaseWaiting, st_message := wantMessage,
                 st_conditions := l_set_condition E (st_conditions s)
                   \<lparr>c_type = ''BudgetBlocked'', c_status = CondTrue, c_reason = ''BudgetExceeded'',
                    c_message = wantCondMessage, c_generation = m_generation (t_meta fresh),
                    c_transition = now\<rparr>\<rparr>) fresh));
        ret t'
      })"

definition has_true_condition :: "condition list \<Rightarrow> string \<Rightarrow> bool" where
  "has_true_condition cs ty = list_ex (\<lambda>c. c_type c = ty \<and> c_status c = CondTrue) cs"

definition clearBudgetBlockedCondition :: "env \<Rightarrow> task \<Rightarrow> task io" where
  "clearBudgetBlockedCondition E t =
     (if \<not> has_true_condition (st_conditions (t_status t)) ''BudgetBlocked'' then ret t
      else do {
        (e, t') \<leftarrow> modify_task_status E t (\<lambda>now fresh.
          Some (set_status (\<lambda>s. s\<lparr>st_conditions :=
                  l_remove_condition E (st_conditions s) ''BudgetBlocked''\<rparr>) fresh));
        ret t'
      })"

section \<open>The label snapshot\<close>

text \<open>An empty map is nil, so \<^verbatim>\<open>copyStringMap\<close> is the identity on this representation.\<close>

definition copyStringMap :: "strmap \<Rightarrow> strmap" where
  "copyStringMap src = (if src = [] then [] else src)"

definition encodeTaskBudgetLabelSnapshot :: "env \<Rightarrow> strmap \<Rightarrow> go_err + string" where
  "encodeTaskBudgetLabelSnapshot E taskLabels =
     (case l_encode_labels E (copyStringMap taskLabels) of
        Inl e \<Rightarrow> Inl (wrap_err ''encoding budget label snapshot'' e)
      | Inr d \<Rightarrow> Inr d)"

definition decodeTaskBudgetLabelSnapshot :: "env \<Rightarrow> string \<Rightarrow> go_err + strmap" where
  "decodeTaskBudgetLabelSnapshot E snapshot =
     (case l_decode_labels E snapshot of
        Inl e \<Rightarrow> Inl (wrap_err ''decoding budget label snapshot'' e)
      | Inr m \<Rightarrow> Inr m)"

definition snapshot_of :: "object_meta \<Rightarrow> string option" where
  "snapshot_of m = map_of (m_annotations m) taskBudgetLabelSnapshotAnnotation"

definition left_err :: "go_err + 'a \<Rightarrow> go_err option" where
  "left_err r = (case r of Inl e \<Rightarrow> Some e | Inr _ \<Rightarrow> None)"

definition set_annotations :: "strmap \<Rightarrow> task \<Rightarrow> task" where
  "set_annotations a t = t\<lparr>t_meta := (t_meta t)\<lparr>m_annotations := a\<rparr>\<rparr>"

text \<open>As in \<open>modify_task_status\<close>, the last attempt of the retry loop is the one modelled.\<close>

definition ensureBudgetLabelSnapshot :: "env \<Rightarrow> task \<Rightarrow> (go_err option \<times> task) io" where
  "ensureBudgetLabelSnapshot E t =
     (case snapshot_of (t_meta t) of
        Some snapshot \<Rightarrow> ret (left_err (decodeTaskBudgetLabelSnapshot E snapshot), t)
      | None \<Rightarrow>
          (case encodeTaskBudgetLabelSnapshot E (m_labels (t_meta t)) of
             Inl e \<Rightarrow> ret (Some e, t)
           | Inr snapshot \<Rightarrow> do {
               r \<leftarrow> read_obj (q_task E) ''Task'' (t_namespace t) (t_name t);
               (case r of
                  Inl e \<Rightarrow> ret (Some e, t)
                | Inr latest \<Rightarrow>
                    (case snapshot_of (t_meta latest) of
                       Some stored \<Rightarrow>
                         (case decodeTaskBudgetLabelSnapshot E stored of
                            Inl e \<Rightarrow> ret (Some e, t)
                          | Inr _ \<Rightarrow> ret (None, set_annotations (m_annotations (t_meta latest)) t))
                     | None \<Rightarrow>
                         (let latest' = set_annotations
                                (map_put taskBudgetLabelSnapshotAnnotation snapshot
                                   (m_annotations (t_meta latest))) latest
                          in do {
                            e \<leftarrow> write_call E (PatchTask latest');
                            (case e of
                               Some e \<Rightarrow> ret (Some e, t)
                             | None \<Rightarrow>
                                 ret (None, set_annotations (m_annotations (t_meta latest')) t))
                          })))
             }))"

definition taskRecordLabels :: "env \<Rightarrow> task \<Rightarrow> go_err + strmap" where
  "taskRecordLabels E t =
     (case snapshot_of (t_meta t) of
        Some snapshot \<Rightarrow>
          (case decodeTaskBudgetLabelSnapshot E snapshot of
             Inl e \<Rightarrow> Inl e
           | Inr taskLabels \<Rightarrow> Inr (copyStringMap taskLabels))
      | None \<Rightarrow> Inr (copyStringMap (m_labels (t_meta t))))"

section \<open>Status of the budget\<close>

definition metav1TimeEqual :: "int option \<Rightarrow> int \<Rightarrow> bool" where
  "metav1TimeEqual a b \<longleftrightarrow> a = Some b"

definition int64PtrEqual :: "int option \<Rightarrow> int option \<Rightarrow> bool" where
  "int64PtrEqual a b =
     (case (a, b) of
        (Some x, Some y) \<Rightarrow> x = y
      | _ \<Rightarrow> a = None \<and> b = None)"

definition usageEqual :: "task_usage option \<Rightarrow> task_usage option \<Rightarrow> bool" where
  "usageEqual a b =
     (case (a, b) of
        (Some x, Some y) \<Rightarrow>
          (if (u_cost x = None) \<noteq> (u_cost y = None) then False
           else if u_cost x \<noteq> None \<and> or_zero (u_cost x) \<noteq> or_zero (u_cost y) then False
           else int64PtrEqual (u_input x) (u_input y) \<and> int64PtrEqual (u_output x) (u_output y))
      | _ \<Rightarrow> a = None \<and> b = None)"

definition budgetStatusCurrent :: "task_budget \<Rightarrow> int \<Rightarrow> int \<Rightarrow> task_usage \<Rightarrow> bool" where
  "budgetStatusCurrent budget periodStart periodEnd used \<longleftrightarrow>
     bst_generation (b_status budget) = m_generation (b_meta budget)
     \<and> metav1TimeEqual (bst_start (b_status budget)) periodStart
     \<and> metav1TimeEqual (bst_end (b_status budget)) periodEnd
     \<and> usageEqual (bst_used (b_status budget)) (Some used)"

definition updateBudgetStatus ::
  "env \<Rightarrow> task_budget \<Rightarrow> int \<Rightarrow> int \<Rightarrow> task_usage \<Rightarrow> task_budget io" where
  "updateBudgetStatus E budget periodStart periodEnd used = do {
     (e, b') \<leftarrow> modify_budget_status E budget (\<lambda>now fresh.
       if budgetStatusCurrent fresh periodStart periodEnd used then None
       else Some (fresh\<lparr>b_status := (b_status fresh)\<lparr>bst_generation := m_generation (b_meta fresh),
              bst_start := Some periodStart, bst_end := Some periodEnd,
              bst_used := Some used\<rparr>\<rparr>));
     ret b'
   }"

definition setBudgetDegradedCondition ::
  "env \<Rightarrow> task_budget \<Rightarrow> string \<Rightarrow> string \<Rightarrow> task_budget io" where
  "setBudgetDegradedCondition E budget reason message = do {
     (e, b') \<leftarrow> modify_budget_status E budget (\<lambda>now fresh.
       Some (fresh\<lparr>b_status := (b_status fresh)\<lparr>bst_conditions :=
         l_set_condition E (bst_conditions (b_status fresh))
           \<lparr>c_type = ''Degraded'', c_status = CondTrue, c_reason = reason, c_message = message,
            c_generation = m_generation (b_meta fresh), c_transition = now\<rparr>\<rparr>\<rparr>));
     ret b'
   }"

definition without_condition :: "env \<Rightarrow> task_budget \<Rightarrow> task_budget" where
  "without_condition E b =
     b\<lparr>b_status := (b_status b)\<lparr>bst_conditions :=
         l_remove_condition E (bst_conditions (b_status b)) ''Degraded''\<rparr>\<rparr>"

definition clearBudgetDegradedCondition :: "env \<Rightarrow> task_budget \<Rightarrow> task_budget io" where
  "clearBudgetDegradedCondition E budget =
     (if \<not> has_true_condition (bst_conditions (b_status budget)) ''Degraded'' then ret budget
      else do {
        (e, b') \<leftarrow> modify_budget_status E budget (\<lambda>now fresh. Some (without_condition E fresh));
        ret b'
      })"

section \<open>Admission\<close>

type_synonym admission = "bool \<times> outcome \<times> task"

fun admission_loop :: "env \<Rightarrow> task \<Rightarrow> bool \<Rightarrow> task_budget list \<Rightarrow> admission io" where
  "admission_loop E t matchedBudget [] =
     (if matchedBudget
      then do {
        (e, t1) \<leftarrow> ensureBudgetLabelSnapshot E t;
        (case e of
           Some e \<Rightarrow>
             ret (False, (no_requeue,
               Some (wrap_err (''saving budget label snapshot for task '' @ t_name t1) e)), t1)
         | None \<Rightarrow> do {
             t2 \<leftarrow> clearBudgetBlockedCondition E t1;
             ret (True, (no_requeue, None), t2)
           })
      }
      else do {
        t2 \<leftarrow> clearBudgetBlockedCondition E t;
        ret (True, (no_requeue, None), t2)
      })"
| "admission_loop E t matchedBudget (budget # rest) =
     (case l_selector E (bs_selector (b_spec budget)) of
        Inl e \<Rightarrow> do {
          budget' \<leftarrow> setBudgetDegradedCondition E budget ''InvalidSelector'' (err_text e);
          ret (False, (no_requeue,
            Some (wrap_err (''compiling selector for budget '' @ b_name budget') e)), t)
        }
      | Inr matches \<Rightarrow>
          if \<not> matches (m_labels (t_meta t)) then admission_loop E t matchedBudget rest
          else do {
            now \<leftarrow> clock E;
            (case computePeriodBoundaries E (bs_period (b_spec budget)) now of
               Inl e \<Rightarrow> do {
                 budget' \<leftarrow> setBudgetDegradedCondition E budget ''InvalidPeriod'' (err_text e);
                 ret (False, (no_requeue,
                   Some (wrap_err (''computing period for budget '' @ b_name budget') e)), t)
               }
             | Inr (periodStart, periodEnd) \<Rightarrow> do {
                 r \<leftarrow> sumPeriodUsage E (t_namespace t) (bs_selector (b_spec budget))
                        periodStart periodEnd;
                 (case r of
                    Inl e \<Rightarrow> do {
                      budget' \<leftarrow> setBudgetDegradedCondition E budget ''ListError'' (err_text e);
                      ret (False, (no_requeue,
                        Some (wrap_err (''summing period usage for budget '' @ b_name budget') e)), t)
                    }
                  | Inr used \<Rightarrow> do {
                      b1 \<leftarrow> clearBudgetDegradedCondition E budget;
                      (case checkLimitsExceeded E b1 used of
                         Some reason \<Rightarrow> do {
                           t1 \<leftarrow> setBudgetBlockedPhase E t (b_name b1) reason;
                           b2 \<leftarrow> updateBudgetStatus E b1 periodStart periodEnd used;
                           now2 \<leftarrow> clock E;
                           (let d = periodEnd - now2;
                                d = (if d > budgetBlockedMaxRequeue then budgetBlockedMaxRequeue else d);
                                d = (if d \<le> 0 then seconds 1 else d)
                            in ret (False, (after d, None), t1))
                         }
                       | None \<Rightarrow> do {
                           b2 \<leftarrow> updateBudgetStatus E b1 periodStart periodEnd used;
                           admission_loop E t True rest
                         })
                    })
               })
          })"

definition checkBudgetAdmission :: "env \<Rightarrow> task \<Rightarrow> admission io" where
  "checkBudgetAdmission E t = do {
     r \<leftarrow> read_obj (q_budgets E) ''TaskBudgetList'' (t_namespace t) [];
     (case r of
        Inl e \<Rightarrow> ret (False, (no_requeue, Some e), t)
      | Inr budgets \<Rightarrow>
          if budgets = []
          then do {
            t' \<leftarrow> clearBudgetBlockedCondition E t;
            ret (True, (no_requeue, None), t')
          }
          else admission_loop E t False budgets)
   }"

section \<open>Records\<close>

definition taskRecordWorkerMetadata :: "env \<Rightarrow> task \<Rightarrow> (go_err + (string \<times> string)) io" where
  "taskRecordWorkerMetadata E t =
     (case ts_pool (t_spec t) of
        None \<Rightarrow> ret (Inr (resolveTaskType t, resolveTaskModel t))
      | Some pool \<Rightarrow> do {
          r \<leftarrow> read_obj (q_pool E) ''WorkerPool'' (t_namespace t) pool;
          ret (case r of
                 Inl e \<Rightarrow> Inl (wrap_err (''getting WorkerPool '' @ pool @ '' for task '' @ t_name t) e)
               | Inr p \<Rightarrow> Inr (wk_type (wp_worker p), wk_model (wp_worker p)))
        })"

definition task_record_of :: "task \<Rightarrow> strmap \<Rightarrow> string \<Rightarrow> string \<Rightarrow> task_record" where
  "task_record_of t recordLabels workerType workerModel =
     \<lparr>r_meta = blank_meta\<lparr>m_name := m_uid (t_meta t), m_namespace := t_namespace t,
                          m_labels := recordLabels\<rparr>,
      r_spec = \<lparr>rs_task_name = t_name t, rs_task_uid = m_uid (t_meta t), rs_type = workerType,
                rs_model = workerModel, rs_phase = t_phase t, rs_start = st_start (t_status t),
                rs_completion = st_completion (t_status t), rs_usage = st_usage (t_status t),
                rs_ttl = Some defaultTaskRecordTTL\<rparr>\<rparr>"

definition createTaskRecord :: "env \<Rightarrow> task \<Rightarrow> go_err option io" where
  "createTaskRecord E t =
     (if st_usage (t_status t) = None then ret None
      else if st_completion (t_status t) = None
      then ret (Some (new_err (''task '' @ t_name t @ '' has usage but no completionTime'')))
      else (case taskRecordLabels E t of
              Inl e \<Rightarrow> ret (Some e)
            | Inr recordLabels \<Rightarrow> do {
                r \<leftarrow> taskRecordWorkerMetadata E t;
                (case r of
                   Inl e \<Rightarrow> ret (Some e)
                 | Inr (workerType, workerModel) \<Rightarrow> do {
                     e \<leftarrow> write_call E (CreateRecord (task_record_of t recordLabels workerType workerModel));
                     (case e of
                        None \<Rightarrow> ret None
                      | Some e \<Rightarrow> if is_already_exists e then ret None else ret (Some e))
                   })
              }))"

section \<open>The budget and record reconcilers\<close>

definition budget_reconcile :: "env \<Rightarrow> string \<Rightarrow> string \<Rightarrow> outcome io" where
  "budget_reconcile E ns name = do {
     r \<leftarrow> read_obj (q_budget E) ''TaskBudget'' ns name;
     (case r of
        Inl e \<Rightarrow> ret (no_requeue, if is_not_found e then None else Some e)
      | Inr budget \<Rightarrow>
          (case l_selector E (bs_selector (b_spec budget)) of
             Inl e \<Rightarrow> do {
               b' \<leftarrow> setBudgetDegradedCondition E budget ''InvalidSelector'' (err_text e);
               ret (no_requeue, Some (wrap_err (''compiling selector for budget '' @ b_name b') e))
             }
           | Inr matches \<Rightarrow> do {
               now \<leftarrow> clock E;
               (case computePeriodBoundaries E (bs_period (b_spec budget)) now of
                  Inl e \<Rightarrow> ret (no_requeue, None)
                | Inr (periodStart, periodEnd) \<Rightarrow> do {
                    u \<leftarrow> sumPeriodUsage E (m_namespace (b_meta budget)) (bs_selector (b_spec budget))
                           periodStart periodEnd;
                    (case u of
                       Inl e \<Rightarrow> ret (no_requeue, Some e)
                     | Inr used \<Rightarrow> do {
                         b1 \<leftarrow> clearBudgetDegradedCondition E budget;
                         b2 \<leftarrow> updateBudgetStatus E b1 periodStart periodEnd used;
                         now2 \<leftarrow> clock E;
                         ret (after (if periodEnd - now2 \<le> 0 then seconds 1 else periodEnd - now2), None)
                       })
                  })
             }))
   }"

definition enqueueBudgetsForRecord :: "env \<Rightarrow> task_record \<Rightarrow> (string \<times> string) list io" where
  "enqueueBudgetsForRecord E rec = do {
     r \<leftarrow> read_obj (q_budgets E) ''TaskBudgetList'' (m_namespace (r_meta rec)) [];
     ret (case r of
            Inl e \<Rightarrow> []
          | Inr budgets \<Rightarrow>
              map (\<lambda>b. (m_namespace (b_meta b), b_name b))
                (filter (\<lambda>b. case l_selector E (bs_selector (b_spec b)) of
                               Inl e \<Rightarrow> False
                             | Inr matches \<Rightarrow> matches (m_labels (r_meta rec))) budgets))
   }"

definition record_reconcile :: "env \<Rightarrow> string \<Rightarrow> string \<Rightarrow> outcome io" where
  "record_reconcile E ns name = do {
     r \<leftarrow> read_obj (q_record E) ''TaskRecord'' ns name;
     (case r of
        Inl e \<Rightarrow> ret (no_requeue, if is_not_found e then None else Some e)
      | Inr rec \<Rightarrow>
          (case rs_ttl (r_spec rec) of
             None \<Rightarrow> ret (no_requeue, None)
           | Some ttl \<Rightarrow>
               (case rs_completion (r_spec rec) of
                  None \<Rightarrow> ret (no_requeue, None)
                | Some ct \<Rightarrow> do {
                    now \<leftarrow> clock E;
                    (let remaining = ct + seconds ttl - now
                     in if remaining > 0 then ret (after remaining, None)
                        else do {
                          e \<leftarrow> write_call E (DeleteRecord (m_namespace (r_meta rec)) (m_name (r_meta rec)));
                          (case e of
                             None \<Rightarrow> ret (no_requeue, None)
                           | Some e \<Rightarrow> if is_not_found e then ret (no_requeue, None)
                                      else ret (no_requeue, Some e))
                        })
                  })))
   }"

end
