(* ===== verification/WorkerPods.thy ===== *)
theory WorkerPods
  imports Effects
begin

text \<open>
  The worker pod as the shared state of a pool: its annotations say which task is
  assigned, what its runner reports and whether cancellation is asked for. The helpers of
  \<^verbatim>\<open>workerpool_controller.go\<close> that write them are used by the task and the worker-pool
  reconcilers.
\<close>

definition AnnotationWorkerAssignedTask :: string where
  "AnnotationWorkerAssignedTask = ''kelos.dev/assigned-task''"

definition AnnotationWorkerTaskStatus :: string where
  "AnnotationWorkerTaskStatus = ''kelos.dev/task-status''"

definition AnnotationWorkerTasksCompleted :: string where
  "AnnotationWorkerTasksCompleted = ''kelos.dev/tasks-completed''"

definition AnnotationWorkerTaskFailReason :: string where
  "AnnotationWorkerTaskFailReason = ''kelos.dev/task-failure-reason''"

definition AnnotationWorkerCancelTask :: string where
  "AnnotationWorkerCancelTask = ''kelos.dev/cancel-task''"

lemmas annotation_defs =
  AnnotationWorkerAssignedTask_def AnnotationWorkerTaskStatus_def
  AnnotationWorkerTasksCompleted_def AnnotationWorkerTaskFailReason_def
  AnnotationWorkerCancelTask_def

abbreviation annotation :: "pod \<Rightarrow> string \<Rightarrow> string" where
  "annotation p key \<equiv> map_str (m_annotations (pod_meta p)) key"

definition with_annotations :: "(strmap \<Rightarrow> strmap) \<Rightarrow> pod \<Rightarrow> pod" where
  "with_annotations f p = p\<lparr>pod_meta := (pod_meta p)\<lparr>m_annotations := f (m_annotations (pod_meta p))\<rparr>\<rparr>"

definition isPodAvailable :: "pod \<Rightarrow> bool" where
  "isPodAvailable p \<longleftrightarrow>
     (if m_deletion (pod_meta p) \<noteq> None then False
      else if pod_phase p \<noteq> ''Running'' then False
      else if annotation p AnnotationWorkerAssignedTask \<noteq> [] then False
      else True)"

definition tasks_completed :: "strmap \<Rightarrow> int" where
  "tasks_completed a =
     (case map_of a AnnotationWorkerTasksCompleted of None \<Rightarrow> 0 | Some v \<Rightarrow> atoi_value v)"

definition cleared_annotations :: "strmap \<Rightarrow> strmap" where
  "cleared_annotations a =
     map_put AnnotationWorkerTasksCompleted (itoa (wrap64 (tasks_completed a + 1)))
       (map_del AnnotationWorkerCancelTask
         (map_del AnnotationWorkerTaskFailReason
           (map_del AnnotationWorkerTaskStatus
             (map_del AnnotationWorkerAssignedTask a))))"

definition clearWorkerPodTaskAnnotations :: "env \<Rightarrow> pod \<Rightarrow> go_err option io" where
  "clearWorkerPodTaskAnnotations E p =
     write_call E (PatchPod (with_annotations cleared_annotations p))"

definition requestWorkerPodTaskCancellation ::
  "env \<Rightarrow> pod \<Rightarrow> string \<Rightarrow> (bool \<times> go_err option) io" where
  "requestWorkerPodTaskCancellation E p taskName =
     (if annotation p AnnotationWorkerAssignedTask \<noteq> taskName then ret (True, None)
      else if annotation p AnnotationWorkerTaskStatus = ''succeeded''
              \<or> annotation p AnnotationWorkerTaskStatus = ''failed''
      then do {
        e \<leftarrow> clearWorkerPodTaskAnnotations E p;
        ret (True, e)
      }
      else do {
        e \<leftarrow> write_call E (PatchPod
               (with_annotations (map_put AnnotationWorkerCancelTask taskName) p));
        ret (False, e)
      })"

definition taskStartMarker :: string where "taskStartMarker = ''---KELOS_TASK_START---''"

definition taskEndMarker :: string where "taskEndMarker = ''---KELOS_TASK_END---''"

definition workerTaskLogSegment :: "string \<Rightarrow> string \<Rightarrow> string" where
  "workerTaskLogSegment logData taskName =
     (let startMarker = taskStartMarker @ '' '' @ taskName;
          endMarker = taskEndMarker @ '' '' @ taskName
      in case str_last_index startMarker logData of
           None \<Rightarrow> []
         | Some startIdx \<Rightarrow>
             (let segment = drop (startIdx + length startMarker) logData
              in case str_index endMarker segment of
                   None \<Rightarrow> segment
                 | Some endIdx \<Rightarrow> take endIdx segment))"

end
