(* ===== verification/Metrics.thy ===== *)
theory Metrics
  imports Effects
begin

text \<open>
  The counters of \<^verbatim>\<open>internal/controller/metrics.go\<close> and \<^verbatim>\<open>RecordCostTokenMetrics\<close> of
  \<^verbatim>\<open>task_controller.go\<close>. A sample is a call with the label tuple of its series.
\<close>

definition recordTaskCompleted :: "task \<Rightarrow> task_phase \<Rightarrow> unit io" where
  "recordTaskCompleted t phase =
     log_call (CountCompleted (t_namespace t) (resolveTaskType t) (resolveTaskSpawner t) phase)"

definition observeTaskDuration :: "task \<Rightarrow> task_phase \<Rightarrow> int \<Rightarrow> unit io" where
  "observeTaskDuration t phase duration =
     log_call (ObserveDuration (t_namespace t) (resolveTaskType t) (resolveTaskSpawner t) phase duration)"

definition usage_labels :: "task \<Rightarrow> string list" where
  "usage_labels t = [t_namespace t, resolveTaskType t, resolveTaskSpawner t, resolveTaskModel t]"

definition count_usage :: "env \<Rightarrow> string \<Rightarrow> task \<Rightarrow> strmap \<Rightarrow> string \<Rightarrow> unit io" where
  "count_usage E metric t results key =
     (case map_of results key of
        None \<Rightarrow> skip_io
      | Some s \<Rightarrow>
          (case l_parse_float E s of
             Some (True, v) \<Rightarrow> log_call (CountUsage metric (usage_labels t) v)
           | _ \<Rightarrow> skip_io))"

definition RecordCostTokenMetrics :: "env \<Rightarrow> task \<Rightarrow> strmap \<Rightarrow> unit io" where
  "RecordCostTokenMetrics E t results = do {
     count_usage E ''kelos_task_cost_usd_total'' t results ''cost-usd'';
     count_usage E ''kelos_task_input_tokens_total'' t results ''input-tokens'';
     count_usage E ''kelos_task_output_tokens_total'' t results ''output-tokens''
   }"

end
