(* ===== verification/TaskController.thy ===== *)
theory TaskController
  imports OutputParser TaskBudget JobBuilder WorkerPods Metrics
begin

text \<open>
  \<^verbatim>\<open>internal/controller/task_controller.go\<close>: the reconciler of tasks that run as Jobs.
  Handlers return the \<^verbatim>\<open>ctrl.Result\<close> and error of the Go method; where the method
  changes the task it was given, by re-reading it before a status update, the changed task
  is returned as well. Only logging is left out.

  Walking the dependency graph is the one unbounded recursion. It carries fuel, and a
  handler that ran out of fuel returns \<open>None\<close>.
\<close>

definition taskFinalizer :: string where "taskFinalizer = ''kelos.dev/finalizer''"

definition outputRetryWindow :: int where "outputRetryWindow = seconds 30"

definition outputRetryInterval :: int where "outputRetryInterval = seconds 5"

definition recordEvent :: "string \<Rightarrow> string \<Rightarrow> string \<Rightarrow> unit io" where
  "recordEvent eventType reason message = log_call (RecordEvent eventType reason message)"

text \<open>\<^verbatim>\<open>if result.RequeueAfter == 0 || d < result.RequeueAfter { result.RequeueAfter = d }\<close>\<close>

definition sooner :: "int \<Rightarrow> ctrl_result \<Rightarrow> ctrl_result" where
  "sooner d res = (if requeue_after res = 0 \<or> d < requeue_after res then res\<lparr>requeue_after := d\<rparr> else res)"

section \<open>Branch locking\<close>

definition branchLockKey :: "task \<Rightarrow> string" where
  "branchLockKey t =
     (case resolveTaskWorkspaceRef t of None \<Rightarrow> [] | Some ws \<Rightarrow> ws) @ '':'' @ ts_branch (t_spec t)"

definition usesBranchLock :: "task \<Rightarrow> bool" where
  "usesBranchLock t \<longleftrightarrow> ts_branch (t_spec t) \<noteq> [] \<and> ts_branch_lock (t_spec t) \<noteq> LockNone"

definition releaseBranchLock :: "task \<Rightarrow> unit io" where
  "releaseBranchLock t =
     when_io (usesBranchLock t) (lock_release_io (branchLockKey t) (t_name t))"

section \<open>Status updates\<close>

definition setWaitingPhase :: "env \<Rightarrow> task \<Rightarrow> string \<Rightarrow> task io" where
  "setWaitingPhase E t message = do {
     (e, t') \<leftarrow> modify_task_status E t (\<lambda>now fresh.
       if t_phase fresh = PhaseWaiting \<and> st_message (t_status fresh) = message then None
       else Some (set_status (\<lambda>s. s\<lparr>st_phase := PhaseWaiting, st_message := message\<rparr>) fresh));
     ret t'
   }"

definition failTaskBeforeJob :: "env \<Rightarrow> task \<Rightarrow> string \<Rightarrow> (go_err option \<times> task) io" where
  "failTaskBeforeJob E t message = do {
     (e, t') \<leftarrow> modify_task_status E t (\<lambda>now fresh.
       Some (set_status (\<lambda>s. s\<lparr>st_phase := PhaseFailed, st_message := message,
         st_completion := (case st_completion s of None \<Rightarrow> Some now | Some c \<Rightarrow> Some c)\<rparr>) fresh));
     (case e of
        Some e \<Rightarrow> ret (Some e, t')
      | None \<Rightarrow> do { releaseBranchLock t'; ret (None, t') })
   }"

text \<open>The update that fails a task because of its dependencies.\<close>

definition fail_on_dependency :: "env \<Rightarrow> task \<Rightarrow> string \<Rightarrow> task io" where
  "fail_on_dependency E t message = do {
     (e, t') \<leftarrow> modify_task_status E t (\<lambda>now fresh.
       Some (set_status (\<lambda>s. s\<lparr>st_phase := PhaseFailed, st_message := message,
                               st_completion := Some now\<rparr>) fresh));
     ret t'
   }"

section \<open>Dependencies\<close>

text \<open>
  \<open>None\<close>: out of fuel. \<open>Some (e, visited)\<close>: the walk returned \<open>e\<close> and left the set of names
  marked true in \<^verbatim>\<open>visited\<close>.
\<close>

type_synonym walk = "(go_err option \<times> string set) option"

fun walk_each :: "(string \<Rightarrow> string set \<Rightarrow> walk io) \<Rightarrow> string list \<Rightarrow> string set \<Rightarrow> walk io" where
  "walk_each step [] visited = ret (Some (None, visited))"
| "walk_each step (dep # deps) visited = do {
     r \<leftarrow> step dep visited;
     (case r of
        Some (None, visited') \<Rightarrow> walk_each step deps visited'
      | _ \<Rightarrow> ret r)
   }"

fun walkDeps :: "nat \<Rightarrow> env \<Rightarrow> string \<Rightarrow> string \<Rightarrow> string set \<Rightarrow> walk io" where
  "walkDeps 0 E ns name visited = ret None"
| "walkDeps (Suc n) E ns name visited =
     (if name \<in> visited then ret (Some (Some (new_err (''cycle involves '' @ quote name)), visited))
      else do {
        r \<leftarrow> read_obj (q_task E) ''Task'' ns name;
        (case r of
           Inl e \<Rightarrow> ret (Some (None, insert name visited))
         | Inr t \<Rightarrow> do {
             out \<leftarrow> walk_each (walkDeps n E ns) (ts_depends_on (t_spec t)) (insert name visited);
             ret (case out of
                    Some (None, visited') \<Rightarrow> Some (None, visited' - {name})
                  | _ \<Rightarrow> out)
           })
      })"

definition detectCycle :: "nat \<Rightarrow> env \<Rightarrow> task \<Rightarrow> go_err option option io" where
  "detectCycle n E t = do {
     r \<leftarrow> walkDeps n E (t_namespace t) (t_name t) {};
     ret (map_option fst r)
   }"

text \<open>The loop over \<^verbatim>\<open>DependsOn\<close>: ready, the outcome otherwise, and the task.\<close>

type_synonym gate = "bool \<times> outcome \<times> task"

fun await_dependencies :: "env \<Rightarrow> task \<Rightarrow> string list \<Rightarrow> gate io" where
  "await_dependencies E t [] = ret (True, (no_requeue, None), t)"
| "await_dependencies E t (depName # rest) = do {
     r \<leftarrow> read_obj (q_task E) ''Task'' (t_namespace t) depName;
     (case r of
        Inl e \<Rightarrow>
          if is_not_found e then do {
            t' \<leftarrow> setWaitingPhase E t (''Waiting for dependency '' @ quote depName @ '' to be created'');
            ret (False, (after (seconds 5), None), t')
          }
          else ret (False, (no_requeue, Some e), t)
      | Inr depTask \<Rightarrow>
          if t_phase depTask = PhaseFailed then do {
            t' \<leftarrow> fail_on_dependency E t (''Dependency '' @ quote depName @ '' failed'');
            recordEvent ''Warning'' ''DependencyFailed'' (''Dependency '' @ quote depName @ '' failed'');
            recordTaskCompleted t' PhaseFailed;
            ret (False, (no_requeue, None), t')
          }
          else if t_phase depTask \<noteq> PhaseSucceeded then do {
            t' \<leftarrow> setWaitingPhase E t (''Waiting for dependency '' @ quote depName);
            ret (False, (after (seconds 10), None), t')
          }
          else await_dependencies E t rest)
   }"

definition checkDependencies :: "nat \<Rightarrow> env \<Rightarrow> task \<Rightarrow> gate option io" where
  "checkDependencies n E t = do {
     c \<leftarrow> (if t_phase t \<noteq> PhaseWaiting then detectCycle n E t else ret (Some None));
     (case c of
        None \<Rightarrow> ret None
      | Some (Some e) \<Rightarrow> do {
          t' \<leftarrow> fail_on_dependency E t (''Circular dependency detected: '' @ err_text e);
          recordEvent ''Warning'' ''DependencyFailed'' ''Circular dependency detected'';
          ret (Some (False, (no_requeue, None), t'))
        }
      | Some None \<Rightarrow> do {
          g \<leftarrow> await_dependencies E t (ts_depends_on (t_spec t));
          ret (Some g)
        })
   }"

section \<open>The branch queue\<close>

text \<open>The loop over the tasks of the namespace: locked, the outcome, and the task.\<close>

fun scan_branch_queue :: "env \<Rightarrow> task \<Rightarrow> task list \<Rightarrow> gate io" where
  "scan_branch_queue E t [] = ret (False, (no_requeue, None), t)"
| "scan_branch_queue E t (u # rest) =
     (if t_name u = t_name t then scan_branch_queue E t rest
      else if \<not> usesBranchLock u \<or> branchLockKey u \<noteq> branchLockKey t
      then scan_branch_queue E t rest
      else if t_phase u = PhaseRunning \<or> t_phase u = PhasePending then do {
        t' \<leftarrow> setWaitingPhase E t (''Waiting for branch '' @ quote (ts_branch (t_spec t))
                @ '' (locked by '' @ t_name u @ '')'');
        ret (True, (after (seconds 10), None), t')
      }
      else if t_phase u = PhaseWaiting \<and> m_creation (t_meta u) < m_creation (t_meta t) then do {
        t' \<leftarrow> setWaitingPhase E t (''Waiting for branch '' @ quote (ts_branch (t_spec t))
                @ '' (queued behind '' @ t_name u @ '')'');
        ret (True, (after (seconds 10), None), t')
      }
      else scan_branch_queue E t rest)"

definition checkBranchLock :: "env \<Rightarrow> task \<Rightarrow> gate io" where
  "checkBranchLock E t = do {
     r \<leftarrow> read_obj (q_tasks E) ''TaskList'' (t_namespace t) [];
     (case r of
        Inl e \<Rightarrow> ret (False, (no_requeue, Some e), t)
      | Inr tasks \<Rightarrow> scan_branch_queue E t tasks)
   }"

text \<open>
  The guard of the branch in \<^verbatim>\<open>Reconcile\<close>: take the in-memory lock, then look at the
  queue. \<open>True\<close> lets the task go on.
\<close>

definition enterBranch :: "env \<Rightarrow> task \<Rightarrow> gate io" where
  "enterBranch E t =
     (if \<not> usesBranchLock t then ret (True, (no_requeue, None), t)
      else do {
        (acquired, holder) \<leftarrow> lock_acquire_io (branchLockKey t) (t_name t);
        (if \<not> acquired then do {
           t' \<leftarrow> setWaitingPhase E t (''Waiting for branch '' @ quote (ts_branch (t_spec t))
                   @ '' (locked by '' @ holder @ '')'');
           ret (False, (after (seconds 10), None), t')
         }
         else do {
           (locked, out, t') \<leftarrow> checkBranchLock E t;
           (if snd out \<noteq> None \<or> locked then do {
              lock_release_io (branchLockKey t) (t_name t');
              ret (False, out, t')
            }
            else ret (True, (no_requeue, None), t'))
         })
      })"

section \<open>Creating the Job\<close>

text \<open>The common end of the deterministic failures in \<^verbatim>\<open>createJob\<close>.\<close>

definition fail_before_job :: "env \<Rightarrow> task \<Rightarrow> string \<Rightarrow> string \<Rightarrow> unit io" where
  "fail_before_job E t reason message = do {
     recordEvent ''Warning'' reason message;
     (e, t') \<leftarrow> failTaskBeforeJob E t message;
     ret ()
   }"

text \<open>\<open>Inl\<close> is an early return of \<^verbatim>\<open>createJob\<close>.\<close>

definition resolve_workspace :: "env \<Rightarrow> task \<Rightarrow> (outcome + workspace_spec option) io" where
  "resolve_workspace E t =
     (case resolveTaskWorkspaceRef t of
        None \<Rightarrow> ret (Inr None)
      | Some ref \<Rightarrow> do {
          r \<leftarrow> read_obj (q_workspace E) ''Workspace'' (t_namespace t) ref;
          (case r of
             Inl e \<Rightarrow> ret (Inl (if is_not_found e then (after (seconds 2), None) else (no_requeue, Some e)))
           | Inr workspace \<Rightarrow>
               (case ws_secret workspace of
                  None \<Rightarrow> ret (Inr (Some workspace))
                | Some secretRef \<Rightarrow> do {
                    g \<leftarrow> resolveGitHubAppToken E t workspace secretRef;
                    (case g of
                       Inl e \<Rightarrow> do {
                         fail_before_job E t ''GitHubTokenFailed''
                           (''Failed to resolve GitHub token: '' @ err_text e);
                         ret (Inl (no_requeue, None))
                       }
                     | Inr resolved \<Rightarrow> ret (Inr (Some resolved)))
                  }))
        })"

fun fetch_agent_configs ::
  "env \<Rightarrow> string \<Rightarrow> string list \<Rightarrow> (outcome + agent_config_spec list) io" where
  "fetch_agent_configs E ns [] = ret (Inr [])"
| "fetch_agent_configs E ns (ref # refs) = do {
     r \<leftarrow> read_obj (q_agent_config E) ''AgentConfig'' ns ref;
     (case r of
        Inl e \<Rightarrow> ret (Inl (if is_not_found e then (after (seconds 2), None) else (no_requeue, Some e)))
      | Inr ac \<Rightarrow> do {
          rest \<leftarrow> fetch_agent_configs E ns refs;
          ret (case rest of Inl out \<Rightarrow> Inl out | Inr acs \<Rightarrow> Inr (ac # acs))
        })
   }"

definition resolve_mcp_servers :: "env \<Rightarrow> task \<Rightarrow> agent_config_spec \<Rightarrow>
    (outcome + agent_config_spec option) io" where
  "resolve_mcp_servers E t agentConfig =
     (if ac_mcp_servers agentConfig = [] then ret (Inr (Some agentConfig))
      else do {
        r \<leftarrow> resolveMCPServerSecrets E (t_namespace t) (ac_mcp_servers agentConfig);
        (case r of
           Inl e \<Rightarrow> do {
             fail_before_job E t ''MCPSecretFailed''
               (''Failed to resolve MCP server secret: '' @ err_text e);
             ret (Inl (no_requeue, None))
           }
         | Inr servers \<Rightarrow> ret (Inr (Some (agentConfig\<lparr>ac_mcp_servers := servers\<rparr>))))
      })"

definition resolve_agent_config :: "env \<Rightarrow> task \<Rightarrow> (outcome + agent_config_spec option) io" where
  "resolve_agent_config E t =
     (if ResolveAgentConfigRefs (t_spec t) = [] then ret (Inr None)
      else do {
        r \<leftarrow> fetch_agent_configs E (t_namespace t) (ResolveAgentConfigRefs (t_spec t));
        (case r of
           Inl out \<Rightarrow> ret (Inl out)
         | Inr specs \<Rightarrow>
             (case MergeAgentConfigs specs of
                None \<Rightarrow> ret (Inr None)
              | Some agentConfig \<Rightarrow> do {
                  v \<leftarrow> (if ac_skills agentConfig = [] then ret None
                       else validateSkillsAuthSecrets E (t_namespace t) (ac_skills agentConfig));
                  (case v of
                     Some e \<Rightarrow> do {
                       fail_before_job E t ''SkillsAuthSecretFailed''
                         (''Failed to validate skills auth secret: '' @ err_text e);
                       ret (Inl (no_requeue, None))
                     }
                   | None \<Rightarrow> resolve_mcp_servers E t agentConfig)
                }))
      })"

definition dep_template_data :: "task \<Rightarrow> string \<Rightarrow> tmpl_value" where
  "dep_template_data depTask depName =
     TMap [(''Outputs'', TList (map TStr (st_outputs (t_status depTask)))),
           (''Results'', TMap (map (\<lambda>(k, v). (k, TStr v)) (st_results (t_status depTask)))),
           (''Name'', TStr depName)]"

fun fetch_dep_data ::
  "env \<Rightarrow> string \<Rightarrow> string list \<Rightarrow> (string \<times> tmpl_value) list \<Rightarrow> (string \<times> tmpl_value) list option io"
where
  "fetch_dep_data E ns [] deps = ret (Some deps)"
| "fetch_dep_data E ns (depName # rest) deps = do {
     r \<leftarrow> read_obj (q_task E) ''Task'' ns depName;
     (case r of
        Inl e \<Rightarrow> ret None
      | Inr depTask \<Rightarrow>
          fetch_dep_data E ns rest (map_put depName (dep_template_data depTask depName) deps))
   }"

definition resolvePromptTemplate :: "env \<Rightarrow> task \<Rightarrow> string io" where
  "resolvePromptTemplate E t =
     (if ts_depends_on (t_spec t) = [] then ret (ts_prompt (t_spec t))
      else do {
        d \<leftarrow> fetch_dep_data E (t_namespace t) (ts_depends_on (t_spec t)) [];
        ret (case d of
               None \<Rightarrow> ts_prompt (t_spec t)
             | Some deps \<Rightarrow>
                 (case l_prompt_template E (ts_prompt (t_spec t)) of
                    Inl e \<Rightarrow> ts_prompt (t_spec t)
                  | Inr execute \<Rightarrow>
                      (case execute (TMap [(''Deps'', TMap deps)]) of
                         Inl e \<Rightarrow> ts_prompt (t_spec t)
                       | Inr text \<Rightarrow> text)))
      })"

text \<open>The ConfigMap with the plugins, which must exist before the Job.\<close>

definition provide_plugins :: "env \<Rightarrow> task \<Rightarrow> agent_config_spec option \<Rightarrow> outcome option io" where
  "provide_plugins E t agentConfig =
     (case agentConfig of
        None \<Rightarrow> ret None
      | Some ac \<Rightarrow>
          if ac_plugins ac = [] then ret None
          else (case buildPluginConfigMap t (ac_plugins ac) of
             Inl e \<Rightarrow> do {
               recordEvent ''Warning'' ''PluginConfigMapFailed''
                 (''Failed to build plugin ConfigMap: '' @ err_text e);
               (u, t') \<leftarrow> modify_task_status E t (\<lambda>now fresh.
                 Some (set_status (\<lambda>s. s\<lparr>st_phase := PhaseFailed,
                   st_message := ''Failed to build plugin ConfigMap: '' @ err_text e\<rparr>) fresh));
               ret (Some (no_requeue, Some e))
             }
           | Inr configMap \<Rightarrow> do {
               x \<leftarrow> ensurePluginConfigMap E t configMap;
               (case x of
                  Some e \<Rightarrow> do {
                    recordEvent ''Warning'' ''PluginConfigMapFailed''
                      (''Failed to ensure plugin ConfigMap: '' @ err_text e);
                    ret (Some (no_requeue, Some e))
                  }
                | None \<Rightarrow> ret None)
             }))"

definition submit_job :: "env \<Rightarrow> task \<Rightarrow> job \<Rightarrow> outcome io" where
  "submit_job E t j =
     (case l_set_controller E (t_meta t) (job_meta j) of
        Inl e \<Rightarrow> ret (no_requeue, Some e)
      | Inr meta \<Rightarrow> do {
          c \<leftarrow> write_call E (CreateJob (j\<lparr>job_meta := meta\<rparr>));
          (case c of
             Some e \<Rightarrow> ret (if is_already_exists e then (requeue_now, None) else (no_requeue, Some e))
           | None \<Rightarrow> do {
               recordEvent ''Normal'' ''TaskCreated'' (''Created Job '' @ m_name meta @ '' for task'');
               log_call (CountCreated (t_namespace t) (resolveTaskType t) (resolveTaskSpawner t));
               (u, t') \<leftarrow> modify_task_status E t (\<lambda>now fresh.
                 Some (set_status (\<lambda>s. s\<lparr>st_phase := PhasePending, st_job_name := m_name meta,
                                         st_message := []\<rparr>) fresh));
               ret (case u of Some e \<Rightarrow> (no_requeue, Some e) | None \<Rightarrow> (requeue_now, None))
             })
        })"

definition createJob :: "env \<Rightarrow> task \<Rightarrow> outcome io" where
  "createJob E t = do {
     w \<leftarrow> resolve_workspace E t;
     (case w of
        Inl out \<Rightarrow> ret out
      | Inr workspace \<Rightarrow> do {
          a \<leftarrow> resolve_agent_config E t;
          (case a of
             Inl out \<Rightarrow> ret out
           | Inr agentConfig \<Rightarrow> do {
               prompt \<leftarrow> resolvePromptTemplate E t;
               (case Build (cfg_job_images E) t workspace agentConfig prompt of
                  Inl e \<Rightarrow> do {
                    fail_before_job E t ''JobBuildFailed'' (''Failed to build Job: '' @ err_text e);
                    ret (no_requeue, Some e)
                  }
                | Inr j \<Rightarrow> do {
                    p \<leftarrow> provide_plugins E t agentConfig;
                    (case p of
                       Some out \<Rightarrow> ret out
                     | None \<Rightarrow> submit_job E t j)
                  })
             })
        })
   }"

section \<open>Following the Job\<close>

text \<open>
  The last pod after sorting by creation time and then name. Names of pods in a namespace
  are distinct, so the order of the sorted pods is determined.
\<close>

definition latestTaskPodName :: "pod list \<Rightarrow> string" where
  "latestTaskPodName pods =
     (if pods = [] then []
      else m_name (pod_meta (last (sort_key
             (\<lambda>p. (m_creation (pod_meta p), m_name (pod_meta p))) pods))))"

definition isJobFailed :: "job \<Rightarrow> bool" where
  "isJobFailed j = list_ex (\<lambda>(ty, status). ty = ''Failed'' \<and> status = CondTrue) (job_conditions j)"

definition readOutputs :: "env \<Rightarrow> string \<Rightarrow> string \<Rightarrow> (string list \<times> strmap) io" where
  "readOutputs E ns podName =
     (if \<not> has_clientset E \<or> podName = [] then ret ([], [])
      else do {
        d \<leftarrow> read_logs E ns podName;
        ret (case d of
               None \<Rightarrow> ([], [])
             | Some data \<Rightarrow> (ParseOutputs data, ResultsFromOutputs (ParseOutputs data)))
      })"

text \<open>The phase the Job asks for, with its message, when it differs from the task's.\<close>

definition next_phase :: "task \<Rightarrow> job \<Rightarrow> (task_phase \<times> string) option" where
  "next_phase t j =
     (if 0 < job_active j
      then (if t_phase t \<noteq> PhaseRunning then Some (PhaseRunning, []) else None)
      else if 0 < job_succeeded j
      then (if t_phase t \<noteq> PhaseSucceeded
            then Some (PhaseSucceeded, ''Task completed successfully'') else None)
      else if isJobFailed j
      then (if t_phase t \<noteq> PhaseFailed then Some (PhaseFailed, ''Task failed'') else None)
      else None)"

definition announce_phase :: "task \<Rightarrow> (task_phase \<times> string) option \<Rightarrow> unit io" where
  "announce_phase t change =
     (case change of
        Some (PhaseRunning, _) \<Rightarrow> recordEvent ''Normal'' ''TaskRunning'' ''Task started running''
      | Some (PhaseSucceeded, _) \<Rightarrow> do {
          recordEvent ''Normal'' ''TaskSucceeded'' ''Task completed successfully'';
          recordTaskCompleted t PhaseSucceeded
        }
      | Some (PhaseFailed, _) \<Rightarrow> do {
          recordEvent ''Warning'' ''TaskFailed'' ''Task failed'';
          recordTaskCompleted t PhaseFailed
        }
      | _ \<Rightarrow> skip_io)"

record job_view =
  jv_change :: "(task_phase \<times> string) option"
  jv_pod :: "string option"
  jv_retry :: bool

text \<open>
  What \<^verbatim>\<open>updateStatus\<close> has found: the phase change, the pod name if it changed, and whether
  the capture of outputs is retried. The change to the status follows from it.
\<close>

definition jv_completes :: "job_view \<Rightarrow> bool" where
  "jv_completes v \<longleftrightarrow>
     (case jv_change v of Some (ph, _) \<Rightarrow> ph = PhaseSucceeded \<or> ph = PhaseFailed | None \<Rightarrow> False)"

definition with_outputs :: "env \<Rightarrow> string list \<Rightarrow> strmap \<Rightarrow> task_status \<Rightarrow> task_status" where
  "with_outputs E outputs results s =
     s\<lparr>st_outputs := outputs, st_results := results,
       st_usage := usageFromResults (l_parse_quantity E) results\<rparr>"

definition apply_job_view ::
  "env \<Rightarrow> job_view \<Rightarrow> string list \<Rightarrow> strmap \<Rightarrow> int \<Rightarrow> task_status \<Rightarrow> task_status" where
  "apply_job_view E v outputs results now s0 =
     (let s1 = (case jv_pod v of None \<Rightarrow> s0 | Some p \<Rightarrow> s0\<lparr>st_pod_name := p\<rparr>);
          s2 = (case jv_change v of
                  None \<Rightarrow> s1
                | Some (phase, message) \<Rightarrow>
                    (let s = s1\<lparr>st_phase := phase, st_message := message\<rparr>;
                         s = (if phase = PhaseRunning then s\<lparr>st_start := Some now\<rparr> else s)
                     in if jv_completes v
                        then with_outputs E outputs results (s\<lparr>st_completion := Some now\<rparr>)
                        else s))
      in if jv_retry v \<and> (outputs \<noteq> [] \<or> results \<noteq> []) then with_outputs E outputs results s2
         else s2)"

text \<open>\<^verbatim>\<open>if isTerminalTaskPhase(phase) && usage != nil { createTaskRecord }\<close>\<close>

definition record_if_terminal :: "env \<Rightarrow> task \<Rightarrow> go_err option io" where
  "record_if_terminal E t =
     (if isTerminalTaskPhase (t_phase t) \<and> st_usage (t_status t) \<noteq> None then createTaskRecord E t
      else ret None)"

definition observe_completion :: "job_view \<Rightarrow> task \<Rightarrow> unit io" where
  "observe_completion v t =
     (case (jv_change v, st_start (t_status t), st_completion (t_status t)) of
        (Some (phase, _), Some start, Some completion) \<Rightarrow>
          when_io (jv_completes v) (observeTaskDuration t phase (completion - start))
      | _ \<Rightarrow> skip_io)"

definition count_completion :: "env \<Rightarrow> job_view \<Rightarrow> strmap \<Rightarrow> task \<Rightarrow> unit io" where
  "count_completion E v results t = do {
     observe_completion v t;
     when_io ((jv_completes v \<or> jv_retry v) \<and> results \<noteq> []) (RecordCostTokenMetrics E t results)
   }"

definition finish_update :: "job_view \<Rightarrow> string list \<Rightarrow> strmap \<Rightarrow> go_err option \<Rightarrow> outcome io" where
  "finish_update v outputs results recordErr =
     (case recordErr of
        Some e \<Rightarrow> ret (no_requeue, Some e)
      | None \<Rightarrow> do {
          when_io (jv_completes v \<and> (outputs \<noteq> [] \<or> results \<noteq> []))
            (recordEvent ''Normal'' ''OutputsCaptured''
              (''Captured '' @ itoa (int (length outputs)) @ '' outputs and ''
               @ itoa (int (length results)) @ '' results from agent''));
          ret (if jv_completes v \<and> outputs = [] \<and> results = []
               then (after outputRetryInterval, None) else (no_requeue, None))
        })"

text \<open>The steps after the status was written.\<close>

definition after_update ::
  "env \<Rightarrow> job_view \<Rightarrow> string list \<Rightarrow> strmap \<Rightarrow> task \<Rightarrow> outcome io" where
  "after_update E v outputs results t = do {
     when_io (jv_completes v) (releaseBranchLock t);
     count_completion E v results t;
     x \<leftarrow> record_if_terminal E t;
     finish_update v outputs results x
   }"

definition write_job_view ::
  "env \<Rightarrow> task \<Rightarrow> job_view \<Rightarrow> string list \<Rightarrow> strmap \<Rightarrow> (outcome \<times> task) io" where
  "write_job_view E t v outputs results = do {
     (u, t') \<leftarrow> modify_task_status E t (\<lambda>now fresh.
       Some (set_status (apply_job_view E v outputs results now) fresh));
     (case u of
        Some e \<Rightarrow> do {
          log_call (CountReconcileError ''task'');
          ret ((no_requeue, Some e), t')
        }
      | None \<Rightarrow> do {
          out \<leftarrow> after_update E v outputs results t';
          ret (out, t')
        })
   }"

definition needs_output_retry :: "int \<Rightarrow> task_status \<Rightarrow> bool" where
  "needs_output_retry now s \<longleftrightarrow>
     st_outputs s = [] \<and> st_results s = []
     \<and> (case st_completion s of None \<Rightarrow> False | Some c \<Rightarrow> now - c < outputRetryWindow)"

definition updateStatus :: "env \<Rightarrow> task \<Rightarrow> job \<Rightarrow> (outcome \<times> task) io" where
  "updateStatus E t j = do {
     r \<leftarrow> read_obj (q_pods E) ''PodList'' (t_namespace t) (t_name t);
     (let podName = (case r of Inl _ \<Rightarrow> [] | Inr pods \<Rightarrow> latestTaskPodName pods);
          podChanged = (case r of Inl _ \<Rightarrow> False | Inr _ \<Rightarrow> st_pod_name (t_status t) \<noteq> podName);
          change = next_phase t j
      in do {
        announce_phase t change;
        now \<leftarrow> clock E;
        (let retry = change = None \<and> needs_output_retry now (t_status t);
             v = \<lparr>jv_change = change, jv_pod = (if podChanged then Some podName else None),
                  jv_retry = retry\<rparr>
         in if change = None \<and> \<not> podChanged \<and> \<not> retry
            then do {
              x \<leftarrow> record_if_terminal E t;
              ret ((no_requeue, x), t)
            }
            else do {
              (outputs, results) \<leftarrow>
                (if jv_completes v \<or> retry
                 then readOutputs E (t_namespace t)
                        (if podName = [] then st_pod_name (t_status t) else podName)
                 else ret ([], []));
              (if retry \<and> outputs = [] \<and> results = []
               then ret ((after outputRetryInterval, None), t)
               else write_job_view E t v outputs results)
            })
      })
   }"

section \<open>Time to live\<close>

definition ttlExpired :: "env \<Rightarrow> task \<Rightarrow> (bool \<times> int) io" where
  "ttlExpired E t =
     (case ts_ttl (t_spec t) of
        None \<Rightarrow> ret (False, 0)
      | Some ttl \<Rightarrow>
          if \<not> isTerminalTaskPhase (t_phase t) then ret (False, 0)
          else (case st_completion (t_status t) of
                  None \<Rightarrow> ret (False, seconds 5)
                | Some completion \<Rightarrow> do {
                    now \<leftarrow> clock E;
                    (let remaining = completion + seconds ttl - now
                     in ret (if remaining \<le> 0 then (True, 0) else (False, remaining)))
                  }))"

definition applyTaskTTL :: "env \<Rightarrow> task \<Rightarrow> ctrl_result \<Rightarrow> outcome io" where
  "applyTaskTTL E t res = do {
     (expired, d) \<leftarrow> ttlExpired E t;
     (if expired then do {
        recordEvent ''Normal'' ''TaskExpired'' ''Deleting Task due to TTL expiration'';
        e \<leftarrow> write_call E (DeleteTask (t_namespace t) (t_name t));
        ret (no_requeue, case e of None \<Rightarrow> None | Some e \<Rightarrow> if is_not_found e then None else Some e)
      }
      else ret (if 0 < d then sooner d res else res, None))
   }"

section \<open>Deletion\<close>

text \<open>\<open>Some\<close> is an early return of \<^verbatim>\<open>handleDeletion\<close>.\<close>

definition cancel_on_pod :: "env \<Rightarrow> task \<Rightarrow> outcome option io" where
  "cancel_on_pod E t =
     (if st_pod_name (t_status t) = [] then ret None
      else do {
        r \<leftarrow> read_obj (q_pod E) ''Pod'' (t_namespace t) (st_pod_name (t_status t));
        (case r of
           Inl e \<Rightarrow> ret None
         | Inr p \<Rightarrow> do {
             (released, e) \<leftarrow> requestWorkerPodTaskCancellation E p (t_name t);
             ret (case e of
                    Some e \<Rightarrow> Some (no_requeue, Some e)
                  | None \<Rightarrow> if \<not> released then Some (after (seconds 2), None) else None)
           })
      })"

definition delete_job :: "env \<Rightarrow> task \<Rightarrow> outcome option io" where
  "delete_job E t = do {
     r \<leftarrow> read_obj (q_job E) ''Job'' (t_namespace t) (t_name t);
     (case r of
        Inl e \<Rightarrow> ret None
      | Inr j \<Rightarrow> do {
          d \<leftarrow> write_call E (DeleteJob (m_namespace (job_meta j)) (m_name (job_meta j)));
          ret (case d of
                 None \<Rightarrow> None
               | Some e \<Rightarrow> if is_not_found e then None else Some (no_requeue, Some e))
        })
   }"

definition with_finalizers :: "(string list \<Rightarrow> string list) \<Rightarrow> task \<Rightarrow> task" where
  "with_finalizers f t = t\<lparr>t_meta := (t_meta t)\<lparr>m_finalizers := f (m_finalizers (t_meta t))\<rparr>\<rparr>"

definition handleDeletion :: "env \<Rightarrow> task \<Rightarrow> outcome io" where
  "handleDeletion E t =
     (if taskFinalizer \<in> set (m_finalizers (t_meta t)) then do {
        releaseBranchLock t;
        stop \<leftarrow> (if ts_pool (t_spec t) \<noteq> None then cancel_on_pod E t else delete_job E t);
        (case stop of
           Some out \<Rightarrow> ret out
         | None \<Rightarrow> do {
             e \<leftarrow> write_call E (UpdateTask (with_finalizers (removeAll taskFinalizer) t));
             ret (no_requeue, e)
           })
      }
      else ret (no_requeue, None))"

section \<open>Reconcile\<close>

text \<open>The branch of \<^verbatim>\<open>Reconcile\<close> for a task that has no Job yet.\<close>

definition start_task :: "nat \<Rightarrow> env \<Rightarrow> task \<Rightarrow> outcome option io" where
  "start_task n E t = do {
     d \<leftarrow> (if ts_depends_on (t_spec t) \<noteq> [] then checkDependencies n E t
          else ret (Some (True, (no_requeue, None), t)));
     (case d of
        None \<Rightarrow> ret None
      | Some (ready, out, t1) \<Rightarrow>
          if snd out \<noteq> None \<or> \<not> ready then ret (Some out)
          else do {
            when_io (ts_branch (t_spec t1) \<noteq> [] \<and> resolveTaskWorkspaceRef t1 = None)
              (recordEvent ''Warning'' ''BranchWithoutWorkspace''
                (''Branch '' @ quote (ts_branch (t_spec t1))
                 @ '' is set but workspaceRef is not configured, branch checkout will be skipped''));
            (entered, out, t2) \<leftarrow> enterBranch E t1;
            (if \<not> entered then ret (Some out)
             else do {
               (admitted, out, t3) \<leftarrow> checkBudgetAdmission E t2;
               (if snd out \<noteq> None \<or> \<not> admitted then do {
                  releaseBranchLock t3;
                  ret (Some out)
                }
                else do {
                  out \<leftarrow> createJob E t3;
                  ret (Some out)
                })
             })
          })
   }"

text \<open>The branch for a task whose Job exists.\<close>

definition follow_job :: "env \<Rightarrow> task \<Rightarrow> job \<Rightarrow> outcome io" where
  "follow_job E t j = do {
     (out, t') \<leftarrow> updateStatus E t j;
     (case snd out of
        Some e \<Rightarrow> ret out
      | None \<Rightarrow> do {
          res \<leftarrow> (if 0 < job_active j then do {
               (next, x) \<leftarrow> refreshGitHubAppTokenIfNeeded E t';
               (case x of
                  Some e \<Rightarrow> do {
                    recordEvent ''Warning'' ''GitHubTokenRefreshFailed''
                      (''Failed to refresh GitHub App installation token: '' @ err_text e);
                    ret (sooner (if next = 0 then tokenRefreshRetryInterval else next) (fst out))
                  }
                | None \<Rightarrow> ret (if 0 < next then sooner next (fst out) else fst out))
             }
             else ret (fst out));
          applyTaskTTL E t' res
        })
   }"

definition task_reconcile :: "nat \<Rightarrow> env \<Rightarrow> string \<Rightarrow> string \<Rightarrow> outcome option io" where
  "task_reconcile n E ns name = do {
     r \<leftarrow> read_obj (q_task E) ''Task'' ns name;
     (case r of
        Inl e \<Rightarrow>
          if is_not_found e then ret (Some (no_requeue, None))
          else do { log_call (CountReconcileError ''task''); ret (Some (no_requeue, Some e)) }
      | Inr t \<Rightarrow>
          if m_deletion (t_meta t) \<noteq> None then do {
            out \<leftarrow> handleDeletion E t;
            ret (Some out)
          }
          else if taskFinalizer \<notin> set (m_finalizers (t_meta t)) then do {
            e \<leftarrow> write_call E (UpdateTask (with_finalizers (\<lambda>fs. fs @ [taskFinalizer]) t));
            ret (Some (case e of Some e \<Rightarrow> (no_requeue, Some e) | None \<Rightarrow> (requeue_now, None)))
          }
          else if ts_pool (t_spec t) \<noteq> None then ret (Some (no_requeue, None))
          else do {
            b \<leftarrow> read_obj (q_job E) ''Job'' ns name;
            (case b of
               Inr j \<Rightarrow> do {
                 out \<leftarrow> follow_job E t j;
                 ret (Some out)
               }
             | Inl e \<Rightarrow>
                 if \<not> is_not_found e then ret (Some (no_requeue, Some e))
                 else if isTerminalTaskPhase (t_phase t) then do {
                   x \<leftarrow> (if st_usage (t_status t) \<noteq> None then createTaskRecord E t else ret None);
                   (case x of
                      Some e \<Rightarrow> ret (Some (no_requeue, Some e))
                    | None \<Rightarrow> do {
                        out \<leftarrow> applyTaskTTL E t no_requeue;
                        ret (Some out)
                      })
                 }
                 else start_task n E t)
          })
   }"

section \<open>Whom to reconcile next\<close>

definition request_for :: "task \<Rightarrow> string \<times> string" where
  "request_for t = (t_namespace t, t_name t)"

definition tasks_matching :: "env \<Rightarrow> string \<Rightarrow> (task \<Rightarrow> bool) \<Rightarrow> (string \<times> string) list io" where
  "tasks_matching E ns P = do {
     r \<leftarrow> read_obj (q_tasks E) ''TaskList'' ns [];
     ret (case r of Inl e \<Rightarrow> [] | Inr tasks \<Rightarrow> map request_for (filter P tasks))
   }"

definition enqueueTasksBlockedByBudget :: "env \<Rightarrow> task_budget \<Rightarrow> (string \<times> string) list io" where
  "enqueueTasksBlockedByBudget E budget =
     tasks_matching E (m_namespace (b_meta budget))
       (\<lambda>t. t_phase t = PhaseWaiting \<and> has_true_condition (st_conditions (t_status t)) ''BudgetBlocked'')"

definition enqueueTasksForWorkspace :: "env \<Rightarrow> string \<Rightarrow> string \<Rightarrow> (string \<times> string) list io" where
  "enqueueTasksForWorkspace E ns workspace =
     tasks_matching E ns (\<lambda>t. ts_workspace (t_spec t) = Some workspace)"

fun dependents :: "task \<Rightarrow> string list \<Rightarrow> task list \<Rightarrow> (string \<times> string) list" where
  "dependents done_task seen [] = []"
| "dependents done_task seen (t # rest) =
     (if t_name t = t_name done_task \<or> t_name t \<in> set seen then dependents done_task seen rest
      else if t_name done_task \<in> set (ts_depends_on (t_spec t))
              \<or> (usesBranchLock done_task \<and> usesBranchLock t
                 \<and> branchLockKey t = branchLockKey done_task \<and> t_phase t = PhaseWaiting)
      then request_for t # dependents done_task (t_name t # seen) rest
      else dependents done_task seen rest)"

definition enqueueDependentTasks :: "env \<Rightarrow> task \<Rightarrow> (string \<times> string) list io" where
  "enqueueDependentTasks E t =
     (if t_phase t \<noteq> PhaseSucceeded \<and> t_phase t \<noteq> PhaseFailed then ret []
      else do {
        r \<leftarrow> read_obj (q_tasks E) ''TaskList'' (t_namespace t) [];
        ret (case r of Inl e \<Rightarrow> [] | Inr tasks \<Rightarrow> dependents t [] tasks)
      })"

end
