(* ===== verification/Cluster.thy ===== *)
theory Cluster
  imports Effects
begin

text \<open>
  A small cluster to run the model on: nothing exists, every write is accepted and time
  stands still. The examples of the other theories replace single answers.
\<close>

definition not_found :: "go_err + 'a" where
  "not_found = Inl (GoErr NotFound ''not found'')"

definition plain_images :: agent_images where
  "plain_images =
     \<lparr>ai_claude = ''claude'', ai_claude_pull = [], ai_codex = ''codex'', ai_codex_pull = [],
      ai_gemini = ''gemini'', ai_gemini_pull = [], ai_opencode = ''opencode'', ai_opencode_pull = [],
      ai_cursor = ''cursor'', ai_cursor_pull = []\<rparr>"

definition idle_cluster :: env where
  "idle_cluster =
     \<lparr>q_task = (\<lambda>h ns name. not_found), q_job = (\<lambda>h ns name. not_found),
      q_workspace = (\<lambda>h ns name. not_found), q_agent_config = (\<lambda>h ns name. not_found),
      q_secret = (\<lambda>h ns name. not_found), q_config_map = (\<lambda>h ns name. not_found),
      q_pod = (\<lambda>h ns name. not_found), q_budget = (\<lambda>h ns name. not_found),
      q_record = (\<lambda>h ns name. not_found), q_pool = (\<lambda>h ns name. not_found),
      q_pipeline = (\<lambda>h ns name. not_found), q_tasks = (\<lambda>h ns name. Inr []),
      q_pods = (\<lambda>h ns name. Inr []), q_pool_pods = (\<lambda>h ns name. Inr []),
      q_pools = (\<lambda>h ns name. Inr []), q_workspaces = (\<lambda>h ns name. Inr []),
      q_service = (\<lambda>h ns name. not_found), q_stateful_set = (\<lambda>h ns name. not_found),
      q_service_account = (\<lambda>h ns name. Inr ()), q_role_binding = (\<lambda>h ns name. Inr ()),
      q_pipeline_tasks = (\<lambda>h ns name. Inr []), q_budgets = (\<lambda>h ns name. Inr []),
      q_records = (\<lambda>h ns sel. Inr []), q_logs = (\<lambda>h ns pod. None),
      q_token = (\<lambda>h url creds. not_found), q_write = (\<lambda>h c. None), q_clock = (\<lambda>h. 0),
      q_stop = (\<lambda>h. False), q_watch_ticks = (\<lambda>h. 1), q_agent = (\<lambda>h killed. None),
      l_selector = (\<lambda>sel. Inr (\<lambda>labels. True)), l_location = (\<lambda>tz. not_found),
      l_encode_labels = (\<lambda>m. Inr []), l_decode_labels = (\<lambda>s. Inr []),
      l_quantity_string = itoa, l_parse_quantity = parse_int,
      l_parse_time = parse_int, l_format_time = itoa,
      l_set_condition = (\<lambda>cs c. filter (\<lambda>d. c_type d \<noteq> c_type c) cs @ [c]),
      l_find_condition = (\<lambda>cs ty. List.find (\<lambda>c. c_type c = ty) cs),
      l_remove_condition = (\<lambda>cs ty. filter (\<lambda>c. c_type c \<noteq> ty) cs),
      l_controlled_by = (\<lambda>m owner. list_ex (\<lambda>r. or_uid r = m_uid owner) (m_owners m)),
      l_set_controller = (\<lambda>owner m. Inr (m\<lparr>m_owners := m_owners m
         @ [\<lparr>or_api_version = [], or_kind = [], or_name = m_name owner, or_uid = m_uid owner,
              or_controller = Some True\<rparr>]\<rparr>)),
      l_hash8 = (\<lambda>s. ''00000000''), l_parse_float = (\<lambda>s. None),
      l_private_key = (\<lambda>s. Inr (Opaque s)), l_dns_label_errors = (\<lambda>s. []),
      l_prompt_template = (\<lambda>s. not_found), l_pipeline_template = (\<lambda>n s. Inr (\<lambda>d. Inr s)),
      l_semantic_equal = (\<lambda>a b. a = b), cfg_job_images = plain_images, cfg_pool_images = plain_images,
      cfg_runner_image = ([], []),
      token_base_url = [], has_token_client = True, has_clientset = True\<rparr>"

definition plain_spec :: task_spec where
  "plain_spec =
     \<lparr>ts_worker = None, ts_pool = None, ts_type = ''claude-code'', ts_prompt = ''fix it'',
      ts_credentials = None, ts_model = [], ts_effort = [], ts_image = [], ts_workspace = None,
      ts_agent_configs = [], ts_depends_on = [], ts_branch = [], ts_branch_lock = LockUnset,
      ts_upstream_repo = [], ts_ttl = None, ts_pod_failure_policy = None, ts_pod_overrides = None\<rparr>"

definition new_status :: task_status where
  "new_status =
     \<lparr>st_phase = PhaseUnset, st_job_name = [], st_pod_name = [], st_start = None,
      st_completion = None, st_message = [], st_outputs = [], st_results = [], st_usage = None,
      st_conditions = []\<rparr>"

definition plain_task :: "string \<Rightarrow> task" where
  "plain_task name =
     \<lparr>t_meta = blank_meta\<lparr>m_name := name, m_namespace := ''default'', m_uid := name @ ''-uid'',
                          m_finalizers := [''kelos.dev/finalizer'']\<rparr>,
      t_spec = plain_spec, t_status = new_status\<rparr>"

definition start :: world where
  "start = \<lparr>w_calls = [], w_locks = []\<rparr>"

text \<open>Putting the result of a run together from its parts.\<close>

lemma run_parts:
  "fst (fst r) = b \<Longrightarrow> snd (fst (snd (fst r))) = e \<Longrightarrow>
     r = ((b, (fst (fst (snd (fst r))), e), snd (snd (fst r))), snd r)"
  "fst (fst r2) = b \<Longrightarrow> r2 = ((b, snd (fst r2)), snd r2)"
  "fst r1 = x \<Longrightarrow> r1 = (x, snd r1)"
  by (auto simp: prod_eq_iff)

lemmas cluster_defs = not_found_def idle_cluster_def plain_images_def plain_spec_def new_status_def plain_task_def
  start_def blank_meta_def

end
