(* ===== verification/BudgetFacts.thy ===== *)
theory BudgetFacts
  imports TaskBudget Cluster
begin

text \<open>
  What budget admission guarantees: the meaning of the limits, the exact sums they are
  compared with, contiguous periods, admission only when every matching budget has room,
  bounded requeues of blocked tasks, and records that are written before usage counts as
  recorded and deleted only after their lifetime.
\<close>

section \<open>Limits\<close>

definition below_limit :: "int option \<Rightarrow> int option \<Rightarrow> bool" where
  "below_limit limit used = (case limit of None \<Rightarrow> True | Some l \<Rightarrow> or_zero used < l)"

text \<open>
  A budget lets a task pass exactly when the usage of the period is strictly below
  every limit that is set; missing usage counts as zero, so a zero limit always blocks.
\<close>

theorem limits_iff:
  "checkLimitsExceeded E b used = None \<longleftrightarrow>
     below_limit (bs_max_cost (b_spec b)) (u_cost used)
     \<and> below_limit (bs_max_input (b_spec b)) (u_input used)
     \<and> below_limit (bs_max_output (b_spec b)) (u_output used)"
  by (simp add: checkLimitsExceeded_def below_limit_def Let_def not_le split: option.splits)

section \<open>Sums\<close>

definition in_window :: "int \<Rightarrow> int \<Rightarrow> task_record \<Rightarrow> bool" where
  "in_window ps pe rec =
     (case rs_completion (r_spec rec) of None \<Rightarrow> False | Some ct \<Rightarrow> ps \<le> ct \<and> ct < pe)"

definition recorded :: "(task_usage \<Rightarrow> int option) \<Rightarrow> task_record \<Rightarrow> int" where
  "recorded f rec = (case rs_usage (r_spec rec) of None \<Rightarrow> 0 | Some u \<Rightarrow> or_zero (f u))"

definition window_sum :: "(task_usage \<Rightarrow> int option) \<Rightarrow> int \<Rightarrow> int \<Rightarrow> task_record list \<Rightarrow> int" where
  "window_sum f ps pe recs = (\<Sum>rec \<leftarrow> filter (in_window ps pe) recs. recorded f rec)"

lemma wrap64_add [simp]: "wrap64 (wrap64 x + n) = wrap64 (x + n)"
proof -
  have "(wrap64 x + n + 2 ^ 63) mod 2 ^ 64 = ((x + 2 ^ 63) mod 2 ^ 64 + n) mod 2 ^ 64"
    by (simp add: wrap64_def algebra_simps)
  also have "\<dots> = (x + n + 2 ^ 63) mod 2 ^ 64"
    by (simp only: mod_add_left_eq) (simp add: algebra_simps)
  finally show ?thesis by (simp add: wrap64_def)
qed

lemma add_record_tot:
  "add_record ps pe tot rec =
     \<lparr>tot_cost = tot_cost tot + (if in_window ps pe rec then recorded u_cost rec else 0),
      tot_input = (if in_window ps pe rec \<and> rs_usage (r_spec rec) \<noteq> None
          \<and> u_input (the (rs_usage (r_spec rec))) \<noteq> None
        then wrap64 (tot_input tot + recorded u_input rec) else tot_input tot),
      tot_output = (if in_window ps pe rec \<and> rs_usage (r_spec rec) \<noteq> None
          \<and> u_output (the (rs_usage (r_spec rec))) \<noteq> None
        then wrap64 (tot_output tot + recorded u_output rec) else tot_output tot)\<rparr>"
  by (auto simp: add_record_def in_window_def recorded_def or_zero_def not_less
      split: option.splits)

lemma fold_cost:
  "tot_cost (foldl (add_record ps pe) tot recs) = tot_cost tot + window_sum u_cost ps pe recs"
  by (induction recs arbitrary: tot) (simp_all add: window_sum_def add_record_tot)

lemma recorded_absent:
  "rs_usage (r_spec rec) = None \<or> f (the (rs_usage (r_spec rec))) = None \<Longrightarrow> recorded f rec = 0"
  by (auto simp: recorded_def or_zero_def split: option.splits)

lemma fold_input:
  "tot_input tot = wrap64 x \<Longrightarrow>
   tot_input (foldl (add_record ps pe) tot recs) = wrap64 (x + window_sum u_input ps pe recs)"
proof (induction recs arbitrary: tot x)
  case (Cons rec recs)
  let ?n = "if in_window ps pe rec then recorded u_input rec else 0"
  have "tot_input (add_record ps pe tot rec) = wrap64 (x + ?n)"
    using Cons.prems recorded_absent [of rec u_input] by (auto simp: add_record_tot)
  from Cons.IH [OF this] show ?case by (simp add: window_sum_def add.assoc)
qed (simp add: window_sum_def)

lemma fold_output:
  "tot_output tot = wrap64 x \<Longrightarrow>
   tot_output (foldl (add_record ps pe) tot recs) = wrap64 (x + window_sum u_output ps pe recs)"
proof (induction recs arbitrary: tot x)
  case (Cons rec recs)
  let ?n = "if in_window ps pe rec then recorded u_output rec else 0"
  have "tot_output (add_record ps pe tot rec) = wrap64 (x + ?n)"
    using Cons.prems recorded_absent [of rec u_output] by (auto simp: add_record_tot)
  from Cons.IH [OF this] show ?case by (simp add: window_sum_def add.assoc)
qed (simp add: window_sum_def)

lemma wrap64_0: "wrap64 0 = 0"
  by (simp add: wrap64_def)

text \<open>
  C14. The usage of a period is the sum over exactly the records completed in its half-open
  window: exact for the cost, and up to the wrap-around of \<^verbatim>\<open>int64\<close> for the tokens, where
  a wrapped negative sum counts as no usage.
\<close>

theorem usage_sums:
  "or_zero (u_cost (usage_of_records recs ps pe)) = window_sum u_cost ps pe recs
   \<and> or_zero (u_input (usage_of_records recs ps pe)) = max 0 (wrap64 (window_sum u_input ps pe recs))
   \<and> or_zero (u_output (usage_of_records recs ps pe)) = max 0 (wrap64 (window_sum u_output ps pe recs))"
  by (simp add: usage_of_records_def Let_def fold_cost fold_input [where x = 0]
      fold_output [where x = 0] wrap64_0 or_zero_def)

section \<open>Periods\<close>

text \<open>
  What the time-zone library promises where every civil day has a midnight: an instant
  lies between the midnight of its civil day and the next one, and the midnight of a day
  belongs to that day.
\<close>

definition midnights :: "location \<Rightarrow> bool" where
  "midnights loc \<longleftrightarrow>
     (\<forall>d. civil loc (instant loc d 0) = (d, 0))
     \<and> (\<forall>t. instant loc (fst (civil loc t)) 0 \<le> t \<and> t < instant loc (fst (civil loc t) + 1) 0)"

text \<open>
  Daily periods tile the time line: the current period contains the current instant,
  and the period computed at its end starts there, so a record is counted in one period.
\<close>

theorem periods_tile:
  assumes "l_location E (if bp_timezone p = [] then ''UTC'' else bp_timezone p) = Inr loc"
    and "midnights loc" and "computePeriodBoundaries E p now = Inr (periodStart, periodEnd)"
  shows "periodStart \<le> now \<and> now < periodEnd
    \<and> (\<exists>nextEnd. computePeriodBoundaries E p periodEnd = Inr (periodEnd, nextEnd))"
  using assms by (auto simp: computePeriodBoundaries_def midnights_def Let_def split: if_splits)

definition utc :: location where
  "utc = \<lparr>civil = (\<lambda>t. (t div day_ns, t mod day_ns)), instant = (\<lambda>d c. d * day_ns + c)\<rparr>"

lemma utc_midnights: "midnights utc"
proof -
  have pos: "0 < day_ns" by (simp add: day_ns_def)
  have "t div day_ns * day_ns \<le> t \<and> t < (t div day_ns + 1) * day_ns" for t
  proof -
    have "0 \<le> t mod day_ns" "t mod day_ns < day_ns" using pos by simp_all
    moreover have "t div day_ns * day_ns + t mod day_ns = t" by simp
    ultimately show ?thesis unfolding distrib_right mult_1 by linarith
  qed
  with pos show ?thesis by (simp add: midnights_def utc_def)
qed

definition utc_cluster :: env where
  "utc_cluster = idle_cluster\<lparr>l_location := (\<lambda>tz. Inr utc)\<rparr>"

lemma periods_tile_witness:
  "\<exists>nextEnd. computePeriodBoundaries utc_cluster \<lparr>bp_type = ''Daily'', bp_timezone = []\<rparr> day_ns
     = Inr (day_ns, nextEnd)"
  using periods_tile [of utc_cluster "\<lparr>bp_type = ''Daily'', bp_timezone = []\<rparr>" utc 5 0 day_ns]
    utc_midnights
  by (simp add: utc_cluster_def computePeriodBoundaries_def utc_def day_ns_def)

section \<open>Admission\<close>

lemmas admission_defs =
  setBudgetDegradedCondition_def clearBudgetDegradedCondition_def updateBudgetStatus_def
  setBudgetBlockedPhase_def clearBudgetBlockedCondition_def ensureBudgetLabelSnapshot_def
  sumPeriodUsage_def

text \<open>The calls admission may issue.\<close>

fun admission_call :: "call \<Rightarrow> bool" where
  "admission_call (Read kind ns name) = True"
| "admission_call (UpdateTaskStatus t) = True"
| "admission_call (PatchTask t) = True"
| "admission_call (UpdateBudgetStatus b) = True"
| "admission_call _ = False"

lemma emits_setBudgetDegraded [emits_intro]: "emits admission_call (setBudgetDegradedCondition E b r m)"
  and emits_clearBudgetDegraded [emits_intro]: "emits admission_call (clearBudgetDegradedCondition E b)"
  and emits_updateBudgetStatus [emits_intro]: "emits admission_call (updateBudgetStatus E b ps pe u)"
  and emits_setBudgetBlocked [emits_intro]: "emits admission_call (setBudgetBlockedPhase E t n r)"
  and emits_clearBudgetBlocked [emits_intro]: "emits admission_call (clearBudgetBlockedCondition E t)"
  and emits_ensureSnapshot [emits_intro]: "emits admission_call (ensureBudgetLabelSnapshot E t)"
  and emits_sumPeriodUsage [emits_intro]: "emits admission_call (sumPeriodUsage E ns sel ps pe)"
  unfolding admission_defs by (intro emits_intro; simp)+

lemma emits_admission_loop [emits_intro]: "emits admission_call (admission_loop E t m bs)"
proof (induction E t m bs rule: admission_loop.induct)
  case (1 E t m)
  show ?case unfolding admission_loop.simps by (intro emits_intro; simp)
next
  case (2 E t m b bs)
  show ?case unfolding admission_loop.simps
    by (intro emits_intro) (use 2 in \<open>auto intro: emits_intro\<close>)
qed

lemma emits_checkBudgetAdmission [emits_intro]: "emits admission_call (checkBudgetAdmission E t)"
  unfolding checkBudgetAdmission_def by (intro emits_intro; simp)

lemma keeps_setBudgetDegraded [emits_intro]: "keeps_locks (setBudgetDegradedCondition E b r m)"
  and keeps_clearBudgetDegraded [emits_intro]: "keeps_locks (clearBudgetDegradedCondition E b)"
  and keeps_updateBudgetStatus [emits_intro]: "keeps_locks (updateBudgetStatus E b ps pe u)"
  and keeps_setBudgetBlocked [emits_intro]: "keeps_locks (setBudgetBlockedPhase E t n r)"
  and keeps_clearBudgetBlocked [emits_intro]: "keeps_locks (clearBudgetBlockedCondition E t)"
  and keeps_ensureSnapshot [emits_intro]: "keeps_locks (ensureBudgetLabelSnapshot E t)"
  and keeps_sumPeriodUsage [emits_intro]: "keeps_locks (sumPeriodUsage E ns sel ps pe)"
  unfolding admission_defs by (intro emits_intro)+

lemma keeps_admission_loop [emits_intro]: "keeps_locks (admission_loop E t m bs)"
proof (induction E t m bs rule: admission_loop.induct)
  case (1 E t m)
  show ?case unfolding admission_loop.simps by (intro emits_intro)
next
  case (2 E t m b bs)
  show ?case unfolding admission_loop.simps
    by (intro emits_intro) (use 2 in \<open>auto intro: emits_intro\<close>)
qed

lemma keeps_checkBudgetAdmission [emits_intro]: "keeps_locks (checkBudgetAdmission E t)"
  unfolding checkBudgetAdmission_def by (intro emits_intro)


text \<open>
  What admission has checked of one budget: its selector is valid, and if it selects the
  task then, for some reading of the records and for the budget as listed or as re-read,
  the usage of the current period is below the limits.
\<close>

definition room_for :: "env \<Rightarrow> task \<Rightarrow> task_budget \<Rightarrow> bool" where
  "room_for E t b \<longleftrightarrow>
     (\<exists>matches. l_selector E (bs_selector (b_spec b)) = Inr matches \<and>
        (\<not> matches (m_labels (t_meta t)) \<or>
         (\<exists>now ps pe h recs b'.
            computePeriodBoundaries E (bs_period (b_spec b)) now = Inr (ps, pe)
            \<and> q_records E h (t_namespace t) (bs_selector (b_spec b)) = Inr recs
            \<and> (b' = b \<or> (\<exists>h' b''. q_budget E h' (m_namespace (b_meta b)) (b_name b) = Inr b''
                          \<and> b_spec b' = b_spec b''))
            \<and> checkLimitsExceeded E b' (usage_of_records recs ps pe) = None)))"

lemma clearBudgetDegraded_result:
  assumes "run_state (clearBudgetDegradedCondition E b) w = (b', w')"
  shows "b' = b \<or> (\<exists>h b''. q_budget E h (m_namespace (b_meta b)) (b_name b) = Inr b''
                      \<and> b_spec b' = b_spec b'')"
proof (cases "has_true_condition (bst_conditions (b_status b)) ''Degraded''")
  case False
  with assms show ?thesis by (simp add: clearBudgetDegradedCondition_def)
next
  case True
  show ?thesis
  proof (cases "q_budget E (w_calls w) (m_namespace (b_meta b)) (b_name b)")
    case (Inl e)
    with True assms show ?thesis
      by (simp add: clearBudgetDegradedCondition_def modify_budget_status_def io_run)
  next
    case (Inr fresh)
    with True assms have "b_spec b' = b_spec fresh"
      by (auto simp: clearBudgetDegradedCondition_def modify_budget_status_def io_run
          without_condition_def)
    with Inr show ?thesis by blast
  qed
qed

lemma sumPeriodUsage_result:
  assumes "run_state (sumPeriodUsage E ns sel ps pe) w = (Inr used, w')"
  shows "\<exists>h recs. q_records E h ns sel = Inr recs \<and> used = usage_of_records recs ps pe"
  using assms by (auto simp: sumPeriodUsage_def io_run split: sum.splits)

text \<open>One budget of the loop: either it stops the task, or it has room and the rest follows.\<close>

lemma admission_loop_step:
  assumes "run_state (admission_loop E t m (b # bs)) w = ((True, out, t'), w')"
  obtains m' w1 where "room_for E t b"
    and "run_state (admission_loop E t m' bs) w1 = ((True, out, t'), w')"
proof (cases "l_selector E (bs_selector (b_spec b))")
  case (Inl e)
  with assms show ?thesis by (simp add: split_beta)
next
  case (Inr matches)
  show ?thesis
  proof (cases "matches (m_labels (t_meta t))")
    case False
    with assms Inr have "run_state (admission_loop E t m bs) w = ((True, out, t'), w')" by simp
    with Inr False show ?thesis by (intro that) (auto simp: room_for_def)
  next
    case True
    let ?now = "q_clock E (w_calls w)"
    obtain ps pe where pb: "computePeriodBoundaries E (bs_period (b_spec b)) ?now = Inr (ps, pe)"
      using assms Inr True by (auto simp: io_run split_beta split: sum.splits)
    obtain r w1 where r: "run_state (sumPeriodUsage E (t_namespace t) (bs_selector (b_spec b)) ps pe) w
        = (r, w1)" by fastforce
    then obtain used where used: "r = Inr used"
      using assms Inr True pb by (cases r) (auto simp: io_run split_beta)
    obtain b1 w2 where b1: "run_state (clearBudgetDegradedCondition E b) w1 = (b1, w2)" by fastforce
    have clear: "checkLimitsExceeded E b1 used = None"
      using assms Inr True pb r used b1
      by (cases "checkLimitsExceeded E b1 used") (auto simp: io_run split_beta Let_def)
    obtain b2 w3 where b2: "run_state (updateBudgetStatus E b1 ps pe used) w2 = (b2, w3)" by fastforce
    have "run_state (admission_loop E t True bs) w3 = ((True, out, t'), w')"
      using assms Inr True pb r used b1 clear b2 by (simp add: io_run)
    moreover have "room_for E t b"
      using Inr pb clear sumPeriodUsage_result [OF r [unfolded used]]
        clearBudgetDegraded_result [OF b1]
      unfolding room_for_def by blast
    ultimately show ?thesis by (intro that)
  qed
qed

lemma admission_loop_sound:
  assumes "run_state (admission_loop E t m bs) w = ((True, out, t'), w')"
  shows "out = (no_requeue, None) \<and> list_all (room_for E t) bs"
  using assms
proof (induction bs arbitrary: m w)
  case Nil
  then show ?case by (auto simp: split_beta split: if_splits option.splits)
next
  case (Cons b bs)
  from Cons.prems obtain m' w1 where "room_for E t b"
    and "run_state (admission_loop E t m' bs) w1 = ((True, out, t'), w')"
    by (rule admission_loop_step)
  with Cons.IH show ?case by auto
qed

lemma checkBudgetAdmission_room:
  assumes "run_state (checkBudgetAdmission E t) w = ((True, out, t'), w')"
  obtains budgets where "out = (no_requeue, None)"
    and "q_budgets E (w_calls w) (t_namespace t) [] = Inr budgets" and "list_all (room_for E t) budgets"
proof (cases "q_budgets E (w_calls w) (t_namespace t) []")
  case (Inl e)
  with assms show ?thesis by (simp add: checkBudgetAdmission_def io_run)
next
  case (Inr budgets)
  show ?thesis
  proof (cases "budgets = []")
    case True
    with assms Inr show ?thesis
      by (intro that [of budgets]) (simp_all add: checkBudgetAdmission_def io_run split_beta)
  next
    case False
    let ?w = "w\<lparr>w_calls := w_calls w @ [Read ''TaskBudgetList'' (t_namespace t) []]\<rparr>"
    have "run_state (admission_loop E t False budgets) ?w = ((True, out, t'), w')"
      using assms Inr False by (simp add: checkBudgetAdmission_def io_run)
    from admission_loop_sound [OF this] Inr show ?thesis by (intro that) auto
  qed
qed


text \<open>
  A cluster with one budget: a record of the current day has used three units of the cost,
  and the budget allows as many as the example says.
\<close>

definition used_record :: task_record where
  "used_record =
     \<lparr>r_meta = blank_meta,
      r_spec = \<lparr>rs_task_name = ''old'', rs_task_uid = ''old-uid'', rs_type = [], rs_model = [],
        rs_phase = PhaseSucceeded, rs_start = None, rs_completion = Some 7,
        rs_usage = Some \<lparr>u_cost = Some 3, u_input = None, u_output = None\<rparr>, rs_ttl = None\<rparr>\<rparr>"

definition cost_budget :: "int \<Rightarrow> task_budget" where
  "cost_budget limit =
     \<lparr>b_meta = blank_meta,
      b_spec = \<lparr>bs_selector = Opaque [], bs_period = \<lparr>bp_type = ''Daily'', bp_timezone = []\<rparr>,
        bs_max_cost = Some limit, bs_max_input = None, bs_max_output = None\<rparr>,
      b_status = \<lparr>bst_generation = 0, bst_start = None, bst_end = None, bst_used = None,
        bst_conditions = []\<rparr>\<rparr>"

definition budget_cluster :: "int \<Rightarrow> env" where
  "budget_cluster limit = utc_cluster
     \<lparr>q_task := (\<lambda>h ns name. Inr (plain_task name)),
      q_budgets := (\<lambda>h ns n. Inr [cost_budget limit]),
      q_budget := (\<lambda>h ns n. Inr (cost_budget limit)),
      q_records := (\<lambda>h ns sel. Inr [used_record]), l_quantity_string := (\<lambda>q. [])\<rparr>"


lemma admission_loop_blocked:
  assumes "run_state (admission_loop E t m bs) w = ((False, (res, None), t'), w')"
  shows "\<not> requeue res \<and> 0 < requeue_after res \<and> requeue_after res \<le> budgetBlockedMaxRequeue"
  using assms
proof (induction E t m bs arbitrary: w rule: admission_loop.induct)
  case (1 E t m)
  then show ?case by (auto simp: split_beta split: if_splits option.splits)
next
  case (2 E t m b bs)
  note prems = "2.prems"
  show ?case
  proof (cases "l_selector E (bs_selector (b_spec b))")
    case (Inl e)
    with prems show ?thesis by (simp add: split_beta)
  next
    case (Inr matches)
    note sel = Inr
    show ?thesis
    proof (cases "matches (m_labels (t_meta t))")
      case False
      then show ?thesis using prems sel "2.IH"(1) [OF sel] by simp
    next
      case True
      obtain ps pe where pb:
        "computePeriodBoundaries E (bs_period (b_spec b)) (q_clock E (w_calls w)) = Inr (ps, pe)"
        using prems sel True by (auto simp: io_run split_beta split: sum.splits)
      obtain r w1 where r: "run_state (sumPeriodUsage E (t_namespace t) (bs_selector (b_spec b)) ps pe) w
          = (r, w1)" by fastforce
      then obtain used where used: "r = Inr used"
        using prems sel True pb by (cases r) (auto simp: io_run split_beta)
      obtain b1 w2 where b1: "run_state (clearBudgetDegradedCondition E b) w1 = (b1, w2)" by fastforce
      show ?thesis
      proof (cases "checkLimitsExceeded E b1 used")
        case None
        obtain b2 w3 where "run_state (updateBudgetStatus E b1 ps pe used) w2 = (b2, w3)" by fastforce
        with prems sel True pb r used b1 None
        have "run_state (admission_loop E t True bs) w3 = ((False, (res, None), t'), w')"
          by (simp add: io_run)
        with "2.IH"(2) sel True pb used None show ?thesis by auto
      next
        case (Some reason)
        with prems sel True pb r used b1 show ?thesis
          by (auto simp: io_run split_beta Let_def after_def budgetBlockedMaxRequeue_def
              split: if_splits)
      qed
    qed
  qed
qed

text \<open>
  A task that is blocked without an error is looked at again soon: after a positive
  delay of at most five minutes.
\<close>

theorem blocked_requeue_bounds:
  assumes "run_state (checkBudgetAdmission E t) w = ((False, (res, None), t'), w')"
  shows "\<not> requeue res \<and> 0 < requeue_after res \<and> requeue_after res \<le> minutes 5"
proof -
  obtain budgets w1 where "run_state (admission_loop E t False budgets) w1
      = ((False, (res, None), t'), w')"
    using assms by (auto simp: checkBudgetAdmission_def io_run split_beta split: sum.splits if_splits)
  from admission_loop_blocked [OF this] show ?thesis by (simp add: budgetBlockedMaxRequeue_def)
qed

lemma blocked_requeue_bounds_witness:
  "0 < requeue_after (fst (fst (snd (fst (run_state
     (checkBudgetAdmission (budget_cluster 3) (plain_task ''t'')) start)))))"
proof -
  let ?r = "run_state (checkBudgetAdmission (budget_cluster 3) (plain_task ''t'')) start"
  have "fst (fst ?r) = False" by code_simp
  moreover have "snd (fst (snd (fst ?r))) = None" by code_simp
  ultimately have "?r = ((False, (fst (fst (snd (fst ?r))), None), snd (snd (fst ?r))), snd ?r)"
    by (rule run_parts(1))
  from blocked_requeue_bounds [OF this] show ?thesis by blast
qed

section \<open>Records\<close>

lemma taskRecordWorkerMetadata_calls:
  "emits (\<lambda>c. \<exists>k ns n. c = Read k ns n) (taskRecordWorkerMetadata E t)"
  unfolding taskRecordWorkerMetadata_def by (intro emits_intro; simp)

fun record_call :: "call \<Rightarrow> bool" where
  "record_call (Read kind ns name) = True"
| "record_call (CreateRecord r) = True"
| "record_call _ = False"

lemma emits_workerMetadata [emits_intro]: "emits record_call (taskRecordWorkerMetadata E t)"
  unfolding taskRecordWorkerMetadata_def by (intro emits_intro; simp)

lemma emits_createTaskRecord [emits_intro]: "emits record_call (createTaskRecord E t)"
  unfolding createTaskRecord_def by (intro emits_intro; simp)

lemma keeps_workerMetadata [emits_intro]: "keeps_locks (taskRecordWorkerMetadata E t)"
  unfolding taskRecordWorkerMetadata_def by (intro emits_intro)

lemma keeps_createTaskRecord [emits_intro]: "keeps_locks (createTaskRecord E t)"
  unfolding createTaskRecord_def by (intro emits_intro)

lemma createTaskRecord_calls:
  assumes "run_state (createTaskRecord E t) w = (None, w')" and "st_usage (t_status t) \<noteq> None"
  obtains labels ty model cs where "taskRecordLabels E t = Inr labels"
    and "st_completion (t_status t) \<noteq> None"
    and "w_calls w' = w_calls w @ cs @ [CreateRecord (task_record_of t labels ty model)]"
proof -
  obtain labels where l: "taskRecordLabels E t = Inr labels"
      and c: "st_completion (t_status t) \<noteq> None"
    using assms by (cases "taskRecordLabels E t") (auto simp: createTaskRecord_def split: if_splits)
  obtain r w1 where r: "run_state (taskRecordWorkerMetadata E t) w = (r, w1)" by fastforce
  obtain ty model where tm: "r = Inr (ty, model)"
    using assms l c r by (cases r) (auto simp: createTaskRecord_def)
  have "w_calls w' = w_calls w1 @ [CreateRecord (task_record_of t labels ty model)]"
    using assms l c r tm
    by (auto simp: createTaskRecord_def io_run split: option.splits if_splits)
  moreover obtain cs where "w_calls w1 = w_calls w @ cs"
    using emits_workerMetadata r by (rule emitsD)
  ultimately show ?thesis using l c by (intro that [of labels cs ty model]) simp_all
qed

text \<open>
  When recording a task with usage succeeds, a record was requested from the API: its
  name is the UID of the task, it carries the usage, phase and completion time of the task
  and the labels of the snapshot taken at admission, or the labels of the task if no
  snapshot exists.
\<close>

theorem record_created:
  assumes "run_state (createTaskRecord E t) w = (None, w')" and "st_usage (t_status t) \<noteq> None"
  shows "\<exists>labels rec. CreateRecord rec \<in> set (drop (length (w_calls w)) (w_calls w'))
     \<and> taskRecordLabels E t = Inr labels
     \<and> m_name (r_meta rec) = m_uid (t_meta t) \<and> m_labels (r_meta rec) = labels
     \<and> rs_usage (r_spec rec) = st_usage (t_status t) \<and> rs_phase (r_spec rec) = t_phase t
     \<and> rs_completion (r_spec rec) = st_completion (t_status t)
     \<and> st_completion (t_status t) \<noteq> None"
proof -
  obtain labels ty model cs where c: "taskRecordLabels E t = Inr labels"
    "st_completion (t_status t) \<noteq> None"
    "w_calls w' = w_calls w @ cs @ [CreateRecord (task_record_of t labels ty model)]"
    using assms by (rule createTaskRecord_calls)
  then show ?thesis
    by (intro exI [of _ labels] exI [of _ "task_record_of t labels ty model"])
      (simp add: task_record_of_def)
qed

definition finished_example :: task where
  "finished_example = (plain_task ''t'')\<lparr>t_status := new_status
     \<lparr>st_phase := PhaseSucceeded, st_completion := Some 5,
      st_usage := Some \<lparr>u_cost = Some 3, u_input = None, u_output = None\<rparr>\<rparr>\<rparr>"

lemma record_created_witness:
  "\<exists>rec. CreateRecord rec \<in> set (w_calls (snd (run_state (createTaskRecord idle_cluster finished_example) start)))
     \<and> m_name (r_meta rec) = ''t-uid''"
proof -
  let ?r = "run_state (createTaskRecord idle_cluster finished_example) start"
  have "fst ?r = None" by code_simp
  then have r: "?r = (None, snd ?r)" by (rule run_parts(3))
  have "st_usage (t_status finished_example) \<noteq> None" by (simp add: finished_example_def)
  from record_created [OF r this] obtain rec where
    "CreateRecord rec \<in> set (drop (length (w_calls start)) (w_calls (snd ?r)))"
    "m_name (r_meta rec) = m_uid (t_meta finished_example)" by blast
  then show ?thesis
    by (intro exI [of _ rec]) (simp add: start_def finished_example_def plain_task_def)
qed

text \<open>
  The record collector deletes a record exactly when its time to live has passed,
  and otherwise comes back when it will have passed; records without a time to live or
  without a completion time stay.
\<close>

theorem record_gc:
  assumes "q_record E (w_calls w) ns name = Inr rec"
  shows "(\<exists>rns rname. DeleteRecord rns rname \<in>
            set (drop (length (w_calls w)) (w_calls (snd (run_state (record_reconcile E ns name) w))))) \<longleftrightarrow>
         (\<exists>ttl ct. rs_ttl (r_spec rec) = Some ttl \<and> rs_completion (r_spec rec) = Some ct
            \<and> ct + seconds ttl \<le> q_clock E (w_calls w @ [Read ''TaskRecord'' ns name]))"
  using assms
  by (auto simp: record_reconcile_def io_run Let_def split: option.splits)

definition record_cluster :: env where
  "record_cluster = idle_cluster\<lparr>q_record := (\<lambda>h ns name. Inr (used_record
     \<lparr>r_spec := (r_spec used_record)\<lparr>rs_ttl := Some 60\<rparr>\<rparr>)), q_clock := (\<lambda>h. seconds 61)\<rparr>"

lemma record_gc_witness:
  "\<exists>rns rname. DeleteRecord rns rname \<in>
     set (drop (length (w_calls start)) (w_calls (snd (run_state (record_reconcile record_cluster [] []) start))))"
  by (subst record_gc [of _ _ _ _ "used_record\<lparr>r_spec := (r_spec used_record)\<lparr>rs_ttl := Some 60\<rparr>\<rparr>"])
    (simp_all add: record_cluster_def, simp add: used_record_def)

end
