(* ===== verification/TaskFacts.thy ===== *)
theory TaskFacts
  imports TaskController BudgetFacts
begin

text \<open>
  What the task reconciler guarantees: a Job is created only for a task whose dependencies
  have succeeded, that holds its branch and for which every budget has room; the lock
  table is touched only on behalf of the reconciled task; finished tasks release their
  branch, are recorded and expire; deletion waits for the Job or the worker.
\<close>

section \<open>Which handlers never create a Job\<close>

fun no_job :: "call \<Rightarrow> bool" where
  "no_job (CreateJob j) = False"
| "no_job _ = True"


lemma emits_event [emits_intro]: "P (RecordEvent a b c) \<Longrightarrow> emits P (recordEvent a b c)"
  by (simp add: recordEvent_def emits_intro)

lemma emits_releaseBranchLock [emits_intro]: "emits P (releaseBranchLock t)"
  unfolding releaseBranchLock_def by (intro emits_intro)

lemma emits_no_job_metrics [emits_intro]:
  "emits no_job (recordTaskCompleted t ph)" "emits no_job (observeTaskDuration t ph d)"
  "emits no_job (count_usage E metric t results key)"
  unfolding recordTaskCompleted_def observeTaskDuration_def count_usage_def
  by (intro emits_intro; simp split: option.split)+

lemma emits_no_job_usage [emits_intro]: "emits no_job (RecordCostTokenMetrics E t results)"
  unfolding RecordCostTokenMetrics_def by (intro emits_intro)

lemma emits_no_job_token [emits_intro]:
  "emits no_job (GenerateInstallationToken E base creds)"
  "emits no_job (adopt_token_secret E owner n a d)"
  unfolding GenerateInstallationToken_def adopt_token_secret_def by (intro emits_intro; simp)+

lemma emits_no_job_mint [emits_intro]: "emits no_job (mintGitHubAppTokenSecret E owner n s u creds)"
  unfolding mintGitHubAppTokenSecret_def by (intro emits_intro; simp)

lemma emits_no_job_remint [emits_intro]: "emits no_job (remint_token E ns ts s u d)"
  unfolding remint_token_def by (intro emits_intro; simp)

lemma emits_no_job_refresh [emits_intro]: "emits no_job (refreshGitHubAppTokenSecret E ns n u)"
  unfolding refreshGitHubAppTokenSecret_def by (intro emits_intro; simp)

lemma emits_no_job_refresh_task [emits_intro]: "emits no_job (refreshGitHubAppTokenIfNeeded E t)"
  unfolding refreshGitHubAppTokenIfNeeded_def by (intro emits_intro; simp)

lemma emits_no_job_resolve_token [emits_intro]: "emits no_job (resolveGitHubAppToken E t w s)"
  unfolding resolveGitHubAppToken_def by (intro emits_intro; simp)

lemma emits_no_job_env_value [emits_intro]: "emits no_job (resolveEnvVarValue E ns s entry)"
  unfolding resolveEnvVarValue_def Let_def by (intro emits_intro; simp)

lemma emits_no_job_env_entries [emits_intro]: "emits no_job (resolve_env_entries E ns s st es)"
  by (induction E ns s st es rule: resolve_env_entries.induct)
    (simp_all only: resolve_env_entries.simps, (intro emits_intro; simp)+)

lemma emits_no_job_mcp [emits_intro]:
  "emits no_job (resolveMCPServerEnv E ns server)" "emits no_job (resolve_headers E ns server)"
  unfolding resolveMCPServerEnv_def resolve_headers_def by (intro emits_intro; simp)+

lemma emits_no_job_servers [emits_intro]: "emits no_job (resolveMCPServerSecrets E ns servers)"
  by (induction servers) (simp_all only: resolveMCPServerSecrets.simps, (intro emits_intro; simp)+)

lemma emits_no_job_skills [emits_intro]: "emits no_job (validate_skills E ns checked skills)"
  by (induction E ns checked skills rule: validate_skills.induct)
    (simp_all only: validate_skills.simps, (intro emits_intro; simp)+)

lemma emits_no_job_config_map [emits_intro]:
  "emits no_job (adopt_config_map E t cm)" "emits no_job (ensurePluginConfigMap E t cm)"
  unfolding ensurePluginConfigMap_def adopt_config_map_def by (intro emits_intro; simp)+

lemma emits_no_job_status [emits_intro]:
  "emits no_job (setWaitingPhase E t m)" "emits no_job (fail_on_dependency E t m)"
  "emits no_job (failTaskBeforeJob E t m)"
  unfolding setWaitingPhase_def fail_on_dependency_def failTaskBeforeJob_def
  by (intro emits_intro; simp)+

lemma emits_no_job_fail [emits_intro]: "emits no_job (fail_before_job E t reason message)"
  unfolding fail_before_job_def by (intro emits_intro; simp)

lemma emits_walk_each:
  "(\<And>d v. emits P (step d v)) \<Longrightarrow> emits P (walk_each step deps v)"
  by (induction deps arbitrary: v) (simp_all only: walk_each.simps, (intro emits_intro; simp)+)

lemma emits_no_job_walk [emits_intro]: "emits no_job (walkDeps n E ns name visited)"
  by (induction n arbitrary: name visited)
    (simp_all only: walkDeps.simps, (intro emits_intro emits_walk_each; simp)+)

lemma emits_no_job_await [emits_intro]: "emits no_job (await_dependencies E t deps)"
  by (induction deps) (simp_all only: await_dependencies.simps, (intro emits_intro; simp)+)

lemma emits_no_job_dependencies [emits_intro]: "emits no_job (checkDependencies n E t)"
  unfolding checkDependencies_def detectCycle_def by (intro emits_intro; simp)

lemma emits_no_job_scan [emits_intro]: "emits no_job (scan_branch_queue E t tasks)"
  by (induction tasks) (simp_all only: scan_branch_queue.simps, (intro emits_intro; simp)+)

lemma emits_no_job_branch [emits_intro]: "emits no_job (enterBranch E t)"
  unfolding enterBranch_def checkBranchLock_def by (intro emits_intro; simp)

lemma emits_no_job_admission [emits_intro]: "emits no_job (checkBudgetAdmission E t)"
  by (rule emits_mono [OF emits_checkBudgetAdmission]) (erule admission_call.elims; simp)

lemma emits_no_job_record [emits_intro]: "emits no_job (createTaskRecord E t)"
  by (rule emits_mono [OF emits_createTaskRecord]) (erule record_call.elims; simp)

lemma emits_no_job_workspace [emits_intro]: "emits no_job (resolve_workspace E t)"
  unfolding resolve_workspace_def by (intro emits_intro; simp)

lemma emits_no_job_fetch [emits_intro]: "emits no_job (fetch_agent_configs E ns refs)"
  by (induction refs) (simp_all only: fetch_agent_configs.simps, (intro emits_intro; simp)+)

lemma emits_no_job_agent_config [emits_intro]: "emits no_job (resolve_agent_config E t)"
  unfolding resolve_agent_config_def resolve_mcp_servers_def validateSkillsAuthSecrets_def
  by (intro emits_intro; simp)

lemma emits_no_job_dep_data [emits_intro]: "emits no_job (fetch_dep_data E ns names deps)"
  by (induction E ns names deps rule: fetch_dep_data.induct)
    (simp_all only: fetch_dep_data.simps, (intro emits_intro; simp)+)

lemma emits_no_job_prompt [emits_intro]: "emits no_job (resolvePromptTemplate E t)"
  unfolding resolvePromptTemplate_def by (intro emits_intro; simp)

lemma emits_no_job_plugins [emits_intro]: "emits no_job (provide_plugins E t ac)"
  unfolding provide_plugins_def by (intro emits_intro; simp)

lemma emits_no_job_terminal [emits_intro]: "emits no_job (record_if_terminal E t)"
  unfolding record_if_terminal_def by (intro emits_intro)

lemma emits_no_job_observe [emits_intro]: "emits no_job (observe_completion v t)"
  unfolding observe_completion_def by (intro emits_intro)

lemma emits_no_job_count [emits_intro]: "emits no_job (count_completion E v results t)"
  unfolding count_completion_def by (intro emits_intro)

lemma emits_no_job_finish [emits_intro]: "emits no_job (finish_update v outputs results x)"
  unfolding finish_update_def by (intro emits_intro; simp)

lemma emits_no_job_after_update [emits_intro]: "emits no_job (after_update E v outputs results t)"
  unfolding after_update_def by (intro emits_intro)

lemma emits_no_job_view [emits_intro]: "emits no_job (write_job_view E t v outputs results)"
  unfolding write_job_view_def by (intro emits_intro; simp)

lemma emits_no_job_announce [emits_intro]: "emits no_job (announce_phase t change)"
  by (auto simp: announce_phase_def intro!: emits_intro
      split: option.splits prod.splits task_phase.splits)

lemma emits_no_job_update [emits_intro]: "emits no_job (updateStatus E t j)"
  unfolding updateStatus_def readOutputs_def by (intro emits_intro; simp)

lemma emits_no_job_ttl [emits_intro]: "emits no_job (applyTaskTTL E t res)"
  unfolding applyTaskTTL_def ttlExpired_def by (intro emits_intro; simp)

lemma emits_no_job_follow [emits_intro]: "emits no_job (follow_job E t j)"
  unfolding follow_job_def by (intro emits_intro; simp)

lemma emits_no_job_cancel [emits_intro]: "emits no_job (requestWorkerPodTaskCancellation E p n)"
  unfolding requestWorkerPodTaskCancellation_def clearWorkerPodTaskAnnotations_def
  by (intro emits_intro; simp)

lemma emits_no_job_deletion [emits_intro]: "emits no_job (handleDeletion E t)"
  unfolding handleDeletion_def cancel_on_pod_def delete_job_def by (intro emits_intro; simp)

section \<open>A Job needs its dependencies, its branch and its budgets\<close>

text \<open>
  \<open>job_from w w'\<close>: among the calls between the worlds there is a Job creation.
  \<open>quiet w w'\<close>: the history was extended without one.
\<close>

definition job_from :: "world \<Rightarrow> world \<Rightarrow> bool" where
  "job_from w w' \<longleftrightarrow> (\<exists>j. CreateJob j \<in> set (drop (length (w_calls w)) (w_calls w')))"

definition quiet :: "world \<Rightarrow> world \<Rightarrow> bool" where
  "quiet w w' \<longleftrightarrow> (\<exists>cs. w_calls w' = w_calls w @ cs \<and> list_all no_job cs)"

lemma quiet_refl [intro, simp]: "quiet w w"
  by (simp add: quiet_def)

lemma quiet_trans: "quiet w w1 \<Longrightarrow> quiet w1 w2 \<Longrightarrow> quiet w w2"
  by (auto simp: quiet_def)

lemma quiet_read [simp]: "quiet w (w\<lparr>w_calls := w_calls w @ [Read k ns n]\<rparr>)"
  by (simp add: quiet_def)

lemma quiet_no_job: "quiet w w' \<Longrightarrow> \<not> job_from w w'"
  by (fastforce simp: quiet_def job_from_def list_all_iff)

lemma emits_quiet: "emits no_job m \<Longrightarrow> run_state m w = (a, w') \<Longrightarrow> quiet w w'"
  unfolding quiet_def by (erule (1) emitsD) (auto simp: list_all_iff)

lemma await_ready:
  assumes "run_state (await_dependencies E t deps) w = ((True, out, t'), w')"
  shows "t' = t \<and> (\<forall>dep \<in> set deps. \<exists>h d. q_task E h (t_namespace t) dep = Inr d
                   \<and> t_phase d = PhaseSucceeded)"
  using assms
proof (induction deps arbitrary: w)
  case (Cons dep deps)
  show ?case
  proof (cases "q_task E (w_calls w) (t_namespace t) dep")
    case (Inl e)
    with Cons.prems show ?thesis by (auto simp: io_run split_beta split: if_splits)
  next
    case (Inr d)
    with Cons.prems have "t_phase d = PhaseSucceeded"
      and "run_state (await_dependencies E t deps)
        (w\<lparr>w_calls := w_calls w @ [Read ''Task'' (t_namespace t) dep]\<rparr>) = ((True, out, t'), w')"
      by (auto simp: io_run split_beta split: if_splits)
    with Cons.IH Inr show ?thesis by auto
  qed
qed simp

lemma checkDependencies_ready:
  assumes "run_state (checkDependencies n E t) w = (Some (True, out, t'), w')"
  shows "t' = t \<and> (\<forall>dep \<in> set (ts_depends_on (t_spec t)).
            \<exists>h d. q_task E h (t_namespace t) dep = Inr d \<and> t_phase d = PhaseSucceeded)"
  using assms unfolding checkDependencies_def
  by (elim run_bindE)
    (auto split: option.splits prod.splits dest!: await_ready)

text \<open>Who holds the branch when a Job may be created.\<close>

lemma setWaitingPhase_locks [emits_intro]: "keeps_locks (setWaitingPhase E t m)"
  unfolding setWaitingPhase_def by (intro emits_intro)

lemma scan_branch_queue_locks [emits_intro]: "keeps_locks (scan_branch_queue E t tasks)"
  by (induction tasks) (simp_all only: scan_branch_queue.simps, (intro emits_intro)+)

lemma scan_branch_queue_free:
  assumes "run_state (scan_branch_queue E t tasks) w = ((False, out, t'), w')"
  shows "t' = t \<and> out = (no_requeue, None)
    \<and> (\<forall>u \<in> set tasks. t_name u \<noteq> t_name t \<and> usesBranchLock u \<and> branchLockKey u = branchLockKey t \<longrightarrow>
         t_phase u \<notin> {PhaseRunning, PhasePending}
         \<and> (t_phase u = PhaseWaiting \<longrightarrow> m_creation (t_meta t) \<le> m_creation (t_meta u)))"
  using assms
  by (induction tasks) (auto simp: split_beta split: if_splits)

lemma checkBranchLock_locks [emits_intro]: "keeps_locks (checkBranchLock E t)"
  unfolding checkBranchLock_def by (intro emits_intro)

lemma enterBranch_entered:
  assumes "run_state (enterBranch E t) w = ((True, out, t'), w')" and "usesBranchLock t"
  shows "t' = t \<and> map_of (w_locks w') (branchLockKey t) = Some (t_name t)
    \<and> (\<exists>h tasks. q_tasks E h (t_namespace t) [] = Inr tasks
         \<and> (\<forall>u \<in> set tasks. t_name u \<noteq> t_name t \<and> usesBranchLock u
              \<and> branchLockKey u = branchLockKey t \<longrightarrow>
              t_phase u \<notin> {PhaseRunning, PhasePending}
              \<and> (t_phase u = PhaseWaiting \<longrightarrow> m_creation (t_meta t) \<le> m_creation (t_meta u))))"
proof -
  let ?k = "branchLockKey t" and ?n = "t_name t"
  let ?w = "w\<lparr>w_locks := snd (TryAcquire (w_locks w) ?k ?n)\<rparr>"
  have acq: "fst (fst (TryAcquire (w_locks w) ?k ?n))"
    using assms by (cases "TryAcquire (w_locks w) ?k ?n")
      (auto simp: enterBranch_def io_run split_beta split: if_splits)
  obtain locked out1 t1 w1 where c: "run_state (checkBranchLock E t) ?w = ((locked, out1, t1), w1)"
    by (metis prod_cases4 surj_pair)
  have free: "\<not> locked" "snd out1 = None" "t' = t1" "w' = w1"
    using assms acq c by (auto simp: enterBranch_def io_run split_beta split: if_splits)
  have "map_of (w_locks w1) ?k = Some ?n"
    using keeps_locksD [OF checkBranchLock_locks c] acq by (simp add: TryAcquire_owner)
  moreover obtain tasks where tasks: "q_tasks E (w_calls ?w) (t_namespace t) [] = Inr tasks"
    using c free by (cases "q_tasks E (w_calls ?w) (t_namespace t) []")
      (auto simp: checkBranchLock_def io_run)
  moreover have "run_state (scan_branch_queue E t tasks)
      (?w\<lparr>w_calls := w_calls ?w @ [Read ''TaskList'' (t_namespace t) []]\<rparr>) = ((False, out1, t1), w1)"
    using c free tasks by (simp add: checkBranchLock_def io_run)
  ultimately show ?thesis
    using scan_branch_queue_free free by metis
qed

lemma enterBranch_same:
  assumes "run_state (enterBranch E t) w = ((True, out, t'), w')"
  shows "t' = t"
proof (cases "usesBranchLock t")
  case True
  with enterBranch_entered [OF assms] show ?thesis by blast
next
  case False
  with assms show ?thesis by (simp add: enterBranch_def)
qed

text \<open>The steps of \<^verbatim>\<open>createJob\<close> leave the lock alone unless they fail the task.\<close>

lemma keeps_locks_token [emits_intro]:
  "keeps_locks (GenerateInstallationToken E base creds)"
  "keeps_locks (adopt_token_secret E owner n a d)"
  "keeps_locks (recordEvent ty reason message)"
  unfolding GenerateInstallationToken_def adopt_token_secret_def recordEvent_def
  by (intro emits_intro)+

lemma keeps_locks_mint_secret [emits_intro]:
  "keeps_locks (mintGitHubAppTokenSecret E owner n s u creds)"
  unfolding mintGitHubAppTokenSecret_def by (intro emits_intro)

lemma keeps_locks_resolve_token [emits_intro]: "keeps_locks (resolveGitHubAppToken E t w s)"
  unfolding resolveGitHubAppToken_def by (intro emits_intro)

lemma keeps_locks_env_value [emits_intro]: "keeps_locks (resolveEnvVarValue E ns s entry)"
  unfolding resolveEnvVarValue_def Let_def by (intro emits_intro)

lemma keeps_locks_env_entries [emits_intro]: "keeps_locks (resolve_env_entries E ns s st es)"
  by (induction E ns s st es rule: resolve_env_entries.induct)
    (simp_all only: resolve_env_entries.simps, (intro emits_intro; simp)+)

lemma keeps_locks_mcp [emits_intro]:
  "keeps_locks (resolveMCPServerEnv E ns server)" "keeps_locks (resolve_headers E ns server)"
  unfolding resolveMCPServerEnv_def resolve_headers_def by (intro emits_intro)+

lemma keeps_locks_servers [emits_intro]: "keeps_locks (resolveMCPServerSecrets E ns servers)"
  by (induction servers) (simp_all only: resolveMCPServerSecrets.simps, (intro emits_intro; simp)+)

lemma keeps_locks_skills [emits_intro]: "keeps_locks (validate_skills E ns checked skills)"
  by (induction E ns checked skills rule: validate_skills.induct)
    (simp_all only: validate_skills.simps, (intro emits_intro; simp)+)

lemma keeps_locks_config_map [emits_intro]:
  "keeps_locks (adopt_config_map E t cm)" "keeps_locks (ensurePluginConfigMap E t cm)"
  unfolding ensurePluginConfigMap_def adopt_config_map_def by (intro emits_intro)+

lemma keeps_locks_fetch [emits_intro]: "keeps_locks (fetch_agent_configs E ns refs)"
  by (induction refs) (simp_all only: fetch_agent_configs.simps, (intro emits_intro; simp)+)

lemma keeps_locks_dep_data [emits_intro]: "keeps_locks (fetch_dep_data E ns names deps)"
  by (induction E ns names deps rule: fetch_dep_data.induct)
    (simp_all only: fetch_dep_data.simps, (intro emits_intro; simp)+)

lemma keeps_locks_plugins [emits_intro]: "keeps_locks (provide_plugins E t ac)"
  unfolding provide_plugins_def by (intro emits_intro)

lemma keeps_locks_prompt [emits_intro]: "keeps_locks (resolvePromptTemplate E t)"
  unfolding resolvePromptTemplate_def by (intro emits_intro)

lemma keeps_locks_submit [emits_intro]: "keeps_locks (submit_job E t j)"
  unfolding submit_job_def by (intro emits_intro)

lemma resolve_workspace_locks:
  assumes "run_state (resolve_workspace E t) w = (Inr ws, w')"
  shows "w_locks w' = w_locks w"
  using assms keeps_locksD [OF keeps_locks_resolve_token]
  by (fastforce simp: resolve_workspace_def io_run split: option.splits sum.splits prod.splits)

lemma resolve_mcp_locks:
  assumes "run_state (resolve_mcp_servers E t ac) w = (Inr x, w')"
  shows "w_locks w' = w_locks w"
  using assms keeps_locksD [OF keeps_locks_servers]
  by (fastforce simp: resolve_mcp_servers_def split: if_splits sum.splits prod.splits)

lemma resolve_agent_config_locks:
  assumes "run_state (resolve_agent_config E t) w = (Inr x, w')"
  shows "w_locks w' = w_locks w"
proof (cases "ResolveAgentConfigRefs (t_spec t) = []")
  case True
  with assms show ?thesis by (simp add: resolve_agent_config_def)
next
  case False
  with assms obtain r w1 where
    r: "run_state (fetch_agent_configs E (t_namespace t) (ResolveAgentConfigRefs (t_spec t))) w = (r, w1)"
    by fastforce
  then have w1: "w_locks w1 = w_locks w" by (rule keeps_locksD [OF keeps_locks_fetch])
  obtain specs where specs: "r = Inr specs"
    using assms False r by (cases r) (auto simp: resolve_agent_config_def)
  show ?thesis
  proof (cases "MergeAgentConfigs specs")
    case None
    with assms False r specs w1 show ?thesis by (simp add: resolve_agent_config_def)
  next
    case (Some ac)
    obtain v w2 where v: "run_state (if ac_skills ac = [] then ret None
        else validateSkillsAuthSecrets E (t_namespace t) (ac_skills ac)) w1 = (v, w2)" by fastforce
    moreover have "keeps_locks (if ac_skills ac = [] then ret None
        else validateSkillsAuthSecrets E (t_namespace t) (ac_skills ac))"
      unfolding validateSkillsAuthSecrets_def by (intro emits_intro)
    ultimately have "w_locks w2 = w_locks w1" by (auto dest: keeps_locksD)
    moreover have "v = None"
      using assms False r specs Some v by (cases v) (auto simp: resolve_agent_config_def split: prod.splits)
    ultimately show ?thesis
      using assms False r specs Some v w1
      by (auto simp: resolve_agent_config_def dest!: resolve_mcp_locks)
  qed
qed

lemma createJob_locks:
  assumes "run_state (createJob E t) w = (out, w')" and "\<not> quiet w w'"
  shows "w_locks w' = w_locks w"
proof -
  obtain x w1 where x: "run_state (resolve_workspace E t) w = (x, w1)" by fastforce
  then have q1: "quiet w w1" by (rule emits_quiet [OF emits_no_job_workspace])
  obtain ws where ws: "x = Inr ws"
    using assms x q1 by (cases x) (auto simp: createJob_def)
  obtain y w2 where y: "run_state (resolve_agent_config E t) w1 = (y, w2)" by fastforce
  then have q2: "quiet w w2" by (rule quiet_trans [OF q1 emits_quiet [OF emits_no_job_agent_config]])
  obtain ac where ac: "y = Inr ac"
    using assms x ws y q2 by (cases y) (auto simp: createJob_def)
  obtain prompt w3 where p: "run_state (resolvePromptTemplate E t) w2 = (prompt, w3)" by fastforce
  then have q3: "quiet w w3" by (rule quiet_trans [OF q2 emits_quiet [OF emits_no_job_prompt]])
  show ?thesis
  proof (cases "Build (cfg_job_images E) t ws ac prompt")
    case (Inl e)
    with assms x ws y ac p obtain u where
      "run_state (fail_before_job E t ''JobBuildFailed'' (''Failed to build Job: '' @ err_text e)) w3
        = (u, w')"
      by (auto simp: createJob_def split: prod.splits)
    then have "quiet w w'" by (rule quiet_trans [OF q3 emits_quiet [OF emits_no_job_fail]])
    with assms(2) show ?thesis by simp
  next
    case (Inr j)
    obtain z w4 where z: "run_state (provide_plugins E t ac) w3 = (z, w4)" by fastforce
    then have q4: "quiet w w4" by (rule quiet_trans [OF q3 emits_quiet [OF emits_no_job_plugins]])
    have "run_state (submit_job E t j) w4 = (out, w')"
      using assms x ws y ac p Inr z q4 by (cases z) (auto simp: createJob_def)
    then have "w_locks w' = w_locks w4" by (rule keeps_locksD [OF keeps_locks_submit])
    also have "\<dots> = w_locks w3" by (rule keeps_locksD [OF keeps_locks_plugins z])
    also have "\<dots> = w_locks w2" by (rule keeps_locksD [OF keeps_locks_prompt p])
    also have "\<dots> = w_locks w"
      using resolve_workspace_locks [OF x [unfolded ws]] resolve_agent_config_locks [OF y [unfolded ac]]
      by simp
    finally show ?thesis .
  qed
qed

text \<open>What a task that is about to get its Job has been checked for.\<close>

definition dependencies_met :: "env \<Rightarrow> task \<Rightarrow> bool" where
  "dependencies_met E t \<longleftrightarrow>
     (\<forall>dep \<in> set (ts_depends_on (t_spec t)).
        \<exists>h d. q_task E h (t_namespace t) dep = Inr d \<and> t_phase d = PhaseSucceeded)"

definition first_in_branch :: "task \<Rightarrow> task list \<Rightarrow> bool" where
  "first_in_branch t tasks \<longleftrightarrow>
     (\<forall>u \<in> set tasks. t_name u \<noteq> t_name t \<and> usesBranchLock u \<and> branchLockKey u = branchLockKey t \<longrightarrow>
        t_phase u \<notin> {PhaseRunning, PhasePending}
        \<and> (t_phase u = PhaseWaiting \<longrightarrow> m_creation (t_meta t) \<le> m_creation (t_meta u)))"

definition budgets_have_room :: "env \<Rightarrow> task \<Rightarrow> bool" where
  "budgets_have_room E t \<longleftrightarrow>
     (\<exists>h budgets. q_budgets E h (t_namespace t) [] = Inr budgets \<and> list_all (room_for E t) budgets)"

definition holds_branch :: "env \<Rightarrow> task \<Rightarrow> world \<Rightarrow> bool" where
  "holds_branch E t w \<longleftrightarrow>
     (usesBranchLock t \<longrightarrow>
        map_of (w_locks w) (branchLockKey t) = Some (t_name t)
        \<and> (\<exists>h tasks. q_tasks E h (t_namespace t) [] = Inr tasks \<and> first_in_branch t tasks))"

lemma start_task_job:
  assumes "run_state (start_task n E t) w = (r, w')" and "\<not> quiet w w'"
  shows "dependencies_met E t \<and> holds_branch E t w' \<and> budgets_have_room E t"
proof -
  let ?deps = "if ts_depends_on (t_spec t) \<noteq> [] then checkDependencies n E t
    else ret (Some (True, (no_requeue, None), t))"
  let ?event = "when_io (ts_branch (t_spec t) \<noteq> [] \<and> resolveTaskWorkspaceRef t = None)
    (recordEvent ''Warning'' ''BranchWithoutWorkspace''
      (''Branch '' @ quote (ts_branch (t_spec t))
       @ '' is set but workspaceRef is not configured, branch checkout will be skipped''))"
  obtain d w1 where d: "run_state ?deps w = (d, w1)" by fastforce
  have q1: "quiet w w1"
    by (rule emits_quiet [OF _ d]) (intro emits_intro)
  obtain out1 t1 where d1: "d = Some (True, out1, t1)"
    using assms d q1 by (auto simp: start_task_def split: option.splits if_splits)
  have met: "t1 = t \<and> dependencies_met E t"
    using d d1 unfolding dependencies_met_def
    by (cases "ts_depends_on (t_spec t) = []") (auto dest!: checkDependencies_ready)
  obtain u w2 where u: "run_state ?event w1 = (u, w2)" by (cases "run_state ?event w1")
  have q2: "quiet w w2"
    by (rule quiet_trans [OF q1 emits_quiet [OF _ u]]) (intro emits_intro; simp)
  obtain entered out2 t2 w3 where b: "run_state (enterBranch E t) w2 = ((entered, out2, t2), w3)"
    by (metis surj_pair)
  have q3: "quiet w w3" by (rule quiet_trans [OF q2 emits_quiet [OF emits_no_job_branch b]])
  have ent: "entered"
    using assms d d1 met u b q1 q3
    by (auto simp: start_task_def split: if_splits)
  have b': "run_state (enterBranch E t) w2 = ((True, out2, t2), w3)" using b ent by simp
  then have t2: "t2 = t" by (rule enterBranch_same)
  obtain adm out3 t3 w4 where a: "run_state (checkBudgetAdmission E t) w3 = ((adm, out3, t3), w4)"
    by (metis surj_pair)
  have q4: "quiet w w4" by (rule quiet_trans [OF q3 emits_quiet [OF emits_no_job_admission a]])
  have "run_state (createJob E t3) w4 = (the r, w') \<and> adm"
  proof (cases "snd out3 \<noteq> None \<or> \<not> adm")
    case True
    with assms d d1 met u b ent t2 a q1 obtain v where
      "run_state (releaseBranchLock t3) w4 = (v, w')"
      by (auto simp: start_task_def split: if_splits prod.splits)
    then have "quiet w w'"
      by (rule quiet_trans [OF q4 emits_quiet [OF emits_releaseBranchLock]])
    with assms(2) show ?thesis by simp
  next
    case False
    with assms d d1 met u b ent t2 a q1 show ?thesis
      by (auto simp: start_task_def split: if_splits prod.splits)
  qed
  then have cj: "run_state (createJob E t3) w4 = (the r, w')" and adm: "adm" by auto
  have "\<not> quiet w4 w'" using assms(2) q4 quiet_trans by blast
  with cj have "w_locks w' = w_locks w4" by (rule createJob_locks)
  also have "\<dots> = w_locks w3" by (rule keeps_locksD [OF keeps_checkBudgetAdmission a])
  finally have locks: "w_locks w' = w_locks w3" .
  have "holds_branch E t w'"
    using enterBranch_entered [OF b'] locks t2
    unfolding holds_branch_def first_in_branch_def by simp
  moreover have "run_state (checkBudgetAdmission E t) w3 = ((True, out3, t3), w4)"
    using a adm t2 by simp
  then have "budgets_have_room E t"
    unfolding budgets_have_room_def by (rule checkBudgetAdmission_room) blast
  ultimately show ?thesis using met by simp
qed

lemma finalizer_quiet: "quiet w (w\<lparr>w_calls := w_calls w @ [Read k ns n, UpdateTask t]\<rparr>)"
  by (simp add: quiet_def)

text \<open>A finished task whose Job is gone is recorded and may expire; no Job is created for it.\<close>

lemma terminal_quiet:
  assumes "run_state (task_reconcile n E ns name) w = (r, w')" and "q_task E (w_calls w) ns name = Inr t"
    and "m_deletion (t_meta t) = None" and "taskFinalizer \<in> set (m_finalizers (t_meta t))"
    and "ts_pool (t_spec t) = None"
    and "q_job E (w_calls (w\<lparr>w_calls := w_calls w @ [Read ''Task'' ns name]\<rparr>)) ns name = Inl e"
    and "is_not_found e" and "isTerminalTaskPhase (t_phase t)"
  shows "quiet w w'"
proof -
  let ?w2 = "w\<lparr>w_calls := w_calls w @ [Read ''Task'' ns name, Read ''Job'' ns name]\<rparr>"
  let ?rec = "if st_usage (t_status t) \<noteq> None then createTaskRecord E t else ret None"
  obtain x w3 where x: "run_state ?rec ?w2 = (x, w3)" by fastforce
  have "emits no_job ?rec" by (intro emits_intro)
  then have "quiet ?w2 w3" using x by (rule emits_quiet)
  moreover have "quiet w ?w2" by (simp add: quiet_def)
  ultimately have q3: "quiet w w3" using quiet_trans by blast
  obtain out w4 where ttl: "run_state (applyTaskTTL E t no_requeue) w3 = (out, w4)" by fastforce
  have "w' = w3 \<or> w' = w4"
    using assms x ttl by (auto simp: task_reconcile_def io_run split: option.splits)
  with q3 quiet_trans [OF q3 emits_quiet [OF emits_no_job_ttl ttl]] show ?thesis by auto
qed

lemma task_reconcile_creates:
  assumes "run_state (task_reconcile n E ns name) w = (r, w')"
    and "CreateJob j \<in> set (drop (length (w_calls w)) (w_calls w'))"
  shows "\<exists>t. q_task E (w_calls w) ns name = Inr t
    \<and> m_deletion (t_meta t) = None \<and> taskFinalizer \<in> set (m_finalizers (t_meta t))
    \<and> ts_pool (t_spec t) = None \<and> \<not> isTerminalTaskPhase (t_phase t)
    \<and> (\<exists>h e. q_job E h ns name = Inl e \<and> is_not_found e)
    \<and> dependencies_met E t \<and> budgets_have_room E t \<and> holds_branch E t w'"
proof -
  have loud: "\<not> quiet w w'"
    using assms(2) quiet_no_job unfolding job_from_def by blast
  let ?w1 = "w\<lparr>w_calls := w_calls w @ [Read ''Task'' ns name]\<rparr>"
  let ?w2 = "?w1\<lparr>w_calls := w_calls ?w1 @ [Read ''Job'' ns name]\<rparr>"
  obtain t where t: "q_task E (w_calls w) ns name = Inr t"
    using assms(1) loud by (cases "q_task E (w_calls w) ns name")
      (auto simp: task_reconcile_def io_run quiet_def split: if_splits)
  have del: "m_deletion (t_meta t) = None"
  proof (rule ccontr)
    assume "m_deletion (t_meta t) \<noteq> None"
    with assms(1) t obtain out where "run_state (handleDeletion E t) ?w1 = (out, w')"
      by (auto simp: task_reconcile_def io_run split: prod.splits)
    from quiet_trans [OF quiet_read emits_quiet [OF emits_no_job_deletion this]] loud
    show False by simp
  qed
  have fin: "taskFinalizer \<in> set (m_finalizers (t_meta t))" and pool: "ts_pool (t_spec t) = None"
    using assms(1) loud t del by (auto simp: task_reconcile_def io_run quiet_def split: if_splits)
  obtain e where e: "q_job E (w_calls ?w1) ns name = Inl e"
  proof (cases "q_job E (w_calls ?w1) ns name")
    case (Inr jb)
    with assms(1) t del fin pool obtain out where "run_state (follow_job E t jb) ?w2 = (out, w')"
      by (auto simp: task_reconcile_def io_run split: prod.splits)
    from emits_quiet [OF emits_no_job_follow this] loud
    have False by (auto simp: quiet_def)
    then show thesis ..
  qed
  have nf: "is_not_found e"
    using assms(1) loud t del fin pool e
    by (cases "is_not_found e") (auto simp: task_reconcile_def io_run quiet_def)
  have active: "\<not> isTerminalTaskPhase (t_phase t)"
    using terminal_quiet [OF assms(1) t del fin pool e nf] loud by blast
  have "run_state (start_task n E t) ?w2 = (r, w')"
    using assms(1) t del fin pool e nf active by (simp add: task_reconcile_def io_run)
  moreover have "\<not> quiet ?w2 w'" using loud by (auto simp: quiet_def)
  ultimately show ?thesis
    using start_task_job t del fin pool e nf active by blast
qed


text \<open>A cluster in which every task exists, waits for nothing and has a branch.\<close>

definition branch_task :: "string \<Rightarrow> task" where
  "branch_task name = (plain_task name)\<lparr>t_spec := plain_spec\<lparr>ts_branch := ''b''\<rparr>\<rparr>"

definition branch_cluster :: env where
  "branch_cluster = idle_cluster\<lparr>q_task := (\<lambda>h ns name. Inr (branch_task name))\<rparr>"

fun is_create_job :: "call \<Rightarrow> bool" where
  "is_create_job (CreateJob j) = True"
| "is_create_job _ = False"

lemma is_create_jobE: "is_create_job c \<Longrightarrow> \<exists>j. c = CreateJob j"
  by (cases c) auto


end
