(* ===== verification/JobFacts.thy ===== *)
theory JobFacts
  imports TextFacts PoolBuilder TaskFacts
begin

text \<open>
  What can be relied on in the pods that run agents: names do not clash, mounts find their volumes,
  built-in variables keep their values, and secrets reach only the containers that are to have them.
\<close>

section \<open>Names that users choose\<close>

lemma check_volumes_names:
  assumes "check_volumes seen vs = None"
  shows "distinct (map vol_name vs) \<and> vol_name ` set vs \<inter> set seen = {}
    \<and> (\<forall>v \<in> set vs. \<not> prefix ReservedNamePrefix (vol_name v) \<and> vol_name v \<noteq> WorkspaceVolumeName)"
  using assms by (induction seen vs rule: check_volumes.induct) (auto split: if_splits)

lemma check_containers_names:
  assumes "check_containers seen cs = None"
  shows "distinct (map ct_name cs) \<and> ct_name ` set cs \<inter> set seen = {}
    \<and> (\<forall>c \<in> set cs. \<not> prefix ReservedNamePrefix (ct_name c) \<and> ct_name c \<notin> set reservedContainerNames)"
  using assms by (induction seen cs rule: check_containers.induct) (auto split: if_splits)

lemma first_error_None: "first_error checks = None \<longleftrightarrow> (\<forall>e \<in> set checks. e = None)"
  by (induction checks) (auto simp: first_error_def)

lemma collision_None:
  "validateNoContainerNameCollision extra init = None \<longleftrightarrow> ct_name ` set extra \<inter> ct_name ` set init = {}"
  by (auto simp: validateNoContainerNameCollision_def find_None_iff) (metis imageI)

text \<open>Extra containers that pass the checks, in either order, have names of their own.\<close>

definition extra_ok :: "pod_overrides \<Rightarrow> bool" where
  "extra_ok po \<longleftrightarrow>
     distinct (map ct_name (po_extra_init po @ po_extra po))
     \<and> (\<forall>c \<in> set (po_extra_init po @ po_extra po).
          \<not> prefix ReservedNamePrefix (ct_name c) \<and> ct_name c \<notin> set reservedContainerNames)"

lemma check_extra_ok: "check_extra po = None \<Longrightarrow> extra_ok po"
  and check_pool_extra_ok: "check_pool_extra po = None \<Longrightarrow> extra_ok po"
  using check_containers_names [of "[]" "po_extra po"] check_containers_names [of "[]" "po_extra_init po"]
  by (auto simp: check_extra_def check_pool_extra_def first_error_None collision_None extra_ok_def
      validateExtraContainers_def)

lemma extra_ok_names:
  assumes "extra_ok po"
  shows "distinct (map ct_name (po_extra_init po @ po_extra po))"
    and "ct_name ` set (po_extra po @ po_extra_init po) \<inter> set reservedContainerNames = {}"
    and "''kelos-agent'' \<notin> ct_name ` set (po_extra po @ po_extra_init po)"
proof -
  have "prefix ReservedNamePrefix ''kelos-agent''" by (simp add: ReservedNamePrefix_def)
  then show "''kelos-agent'' \<notin> ct_name ` set (po_extra po @ po_extra_init po)"
    using assms by (auto simp: extra_ok_def)
qed (use assms in \<open>auto simp: extra_ok_def\<close>)

section \<open>The parts of a pod\<close>

text \<open>
  What a builder has put together, before the overrides: the init containers that it names, the
  volumes, and mounts only of these.
\<close>

definition names_ok :: "string list \<Rightarrow> string list \<Rightarrow> pod_parts \<Rightarrow> bool" where
  "names_ok inits vols p \<longleftrightarrow>
     subseq (map ct_name (pp_init p)) inits \<and> subseq (map vol_name (pp_volumes p)) vols
     \<and> ct_name (pp_main p) = AgentContainerName"

definition parts_ok :: "string list \<Rightarrow> string list \<Rightarrow> pod_parts \<Rightarrow> bool" where
  "parts_ok inits vols p \<longleftrightarrow>
     names_ok inits vols p
     \<and> (\<forall>c \<in> set (pp_main p # pp_init p). \<forall>m \<in> set (ct_mounts c). vm_name m \<in> vol_name ` set (pp_volumes p))"

lemma workspace_files_names:
  "workspace_files ws = Inr cs \<Longrightarrow> subseq (map ct_name cs) [''workspace-files'']
     \<and> (\<forall>c \<in> set cs. ct_mounts c = [workspace_mount] \<and> ct_env c = [])"
  by (auto simp: workspace_files_def shell_container_def split: if_splits sum.splits)

lemma container_names [simp]:
  "ct_name (shell_container n s e m) = n" "ct_env (shell_container n s e m) = e"
  "ct_mounts (shell_container n s e m) = m"
  "ct_name (git_clone_container ws) = ''git-clone''" "ct_mounts (git_clone_container ws) = workspace_mounts ws"
  "ct_env (git_clone_container ws) = init_workspace_env ws"
  "ct_name (pool_clone_container ws) = ''git-clone''" "ct_mounts (pool_clone_container ws) = workspace_mounts ws"
  "ct_env (pool_clone_container ws) = gh_host_env ws @ token_envs ws"
  by (simp_all add: shell_container_def git_clone_container_def pool_clone_container_def Let_def)

lemma mount_names [simp]:
  "vm_name (mount n p) = n" "vm_name (read_only m) = vm_name m" "vm_name workspace_mount = WorkspaceVolumeName"
  "vm_name token_mount = GitHubTokenVolumeName"
  by (simp_all add: mount_def read_only_def workspace_mount_def token_mount_def)

lemma token_volume_names:
  "map vol_name (token_volumes ws) = (if ws_secret ws = None then [] else [GitHubTokenVolumeName])"
  by (simp add: token_volumes_def split: option.splits)

text \<open>The names after each step, for a Job.\<close>

abbreviation workspace_inits :: "string list" where
  "workspace_inits \<equiv> [''git-clone'', ''remote-setup'', ''branch-setup'', ''workspace-files'']"

lemma subseq_prepend: "subseq xs ys \<Longrightarrow> subseq xs (y # ys)"
  by (rule list_emb_Cons)

lemma add_workspace_parts:
  assumes "add_workspace t ws p = Inr p'"
  obtains files where "workspace_files ws = Inr files"
    and "pp_init p' = git_clone_container ws # remote_setup (ws_remotes ws) @ branch_setup (ts_branch (t_spec t)) ws @ files"
    and "pp_volumes p' = \<lparr>vol_name = WorkspaceVolumeName, vol_source = EmptyDir\<rparr> # token_volumes ws"
    and "ct_mounts (pp_main p') = (if workspaceAgentGetsGitHubToken ws then workspace_mounts ws else [workspace_mount])"
    and "ct_env (pp_main p') = ct_env (pp_main p) @ setup_env ws" and "ct_name (pp_main p') = ct_name (pp_main p)"
  using assms by (auto simp: add_workspace_def split: sum.splits)

lemma setup_container_parts:
  "subseq (map ct_name (remote_setup rs)) [''remote-setup'']" "subseq (map ct_name (branch_setup b ws)) [''branch-setup'']"
  "c \<in> set (remote_setup rs) \<Longrightarrow> ct_mounts c = [workspace_mount]"
  "c \<in> set (branch_setup b ws) \<Longrightarrow> ct_mounts c = workspace_mounts ws"
  by (auto simp: remote_setup_def branch_setup_def split: if_splits)

lemma workspace_mounts_found:
  "m \<in> set (workspace_mounts ws) \<Longrightarrow>
     vm_name m \<in> vol_name ` set (\<lparr>vol_name = WorkspaceVolumeName, vol_source = src\<rparr> # token_volumes ws)"
  by (auto simp: workspace_mounts_def token_volumes_def split: option.splits if_splits)

lemma add_workspace_ok:
  assumes "add_workspace t ws p = Inr p'" and "ct_name (pp_main p) = AgentContainerName"
  shows "parts_ok workspace_inits [WorkspaceVolumeName, GitHubTokenVolumeName] p'"
proof -
  obtain files where files: "workspace_files ws = Inr files"
    and parts: "pp_init p' = git_clone_container ws # remote_setup (ws_remotes ws) @ branch_setup (ts_branch (t_spec t)) ws @ files"
      "pp_volumes p' = \<lparr>vol_name = WorkspaceVolumeName, vol_source = EmptyDir\<rparr> # token_volumes ws"
      "ct_mounts (pp_main p') = (if workspaceAgentGetsGitHubToken ws then workspace_mounts ws else [workspace_mount])"
      "ct_name (pp_main p') = ct_name (pp_main p)"
    using assms(1) by (rule add_workspace_parts)
  note names = workspace_files_names [OF files]
  have "subseq (map ct_name (branch_setup (ts_branch (t_spec t)) ws) @ map ct_name files)
      ([''branch-setup''] @ [''workspace-files''])"
    using setup_container_parts(2) names by (intro list_emb_append_mono) simp_all
  then have "subseq (map ct_name (remote_setup (ws_remotes ws)) @ map ct_name (branch_setup (ts_branch (t_spec t)) ws)
      @ map ct_name files) ([''remote-setup''] @ [''branch-setup'', ''workspace-files''])"
    using setup_container_parts(1) by (intro list_emb_append_mono) simp_all
  then have "subseq (map ct_name (pp_init p')) workspace_inits"
    by (simp add: parts)
  moreover have "subseq (map vol_name (pp_volumes p')) [WorkspaceVolumeName, GitHubTokenVolumeName]"
    by (simp add: parts token_volume_names)
  moreover have "vm_name m \<in> vol_name ` set (pp_volumes p')"
    if "c \<in> set (pp_main p' # pp_init p')" "m \<in> set (ct_mounts c)" for c m
  proof -
    have "m \<in> set (workspace_mounts ws)"
      using that names setup_container_parts(3,4) [of c]
      by (auto simp: parts workspace_mounts_def split: if_splits)
    then show ?thesis unfolding parts by (rule workspace_mounts_found)
  qed
  ultimately show ?thesis using assms(2) parts by (simp add: parts_ok_def names_ok_def)
qed

lemma add_config_parts:
  assumes "add_config reserve cm ac p = Inr p'"
  obtains pinit pvols sinit mcp where "plugin_parts cm (ac_plugins ac) = Inr (pinit, pvols)"
    and "skills_container (ac_skills ac) = Inr sinit" and "mcp_servers_env (ac_mcp_servers ac) = Inr mcp"
    and "pp_init p' = pp_init p @ pinit @ sinit"
    and "pp_volumes p' = pp_volumes p @ (if ac_plugins ac \<noteq> [] \<or> ac_skills ac \<noteq> []
           then [\<lparr>vol_name = PluginVolumeName, vol_source = EmptyDir\<rparr>] else []) @ pvols"
    and "ct_name (pp_main p') = ct_name (pp_main p)"
    and "ct_mounts (pp_main p') = ct_mounts (pp_main p)
           @ (if ac_plugins ac \<noteq> [] \<or> ac_skills ac \<noteq> [] then [mount PluginVolumeName PluginMountPath] else [])"
    and "ct_env (pp_main p') = ct_env (pp_main p) @ opt_env ''KELOS_AGENTS_MD'' (ac_agents_md ac)
           @ (if ac_plugins ac \<noteq> [] \<or> ac_skills ac \<noteq> []
              then [plain_env ''KELOS_PLUGIN_DIR'' PluginMountPath] else []) @ mcp"
  using assms by (auto simp: add_config_def Let_def split: sum.splits if_splits)

lemma plugin_parts_names:
  assumes "plugin_parts cm plugins = Inr (pinit, pvols)"
  shows "plugins = [] \<and> pinit = [] \<and> pvols = []
    \<or> plugins \<noteq> [] \<and> pinit = [plugin_container] \<and> map vol_name pvols = [PluginStagingVolumeName]"
  using assms by (auto simp: plugin_parts_def split: if_splits sum.splits)

lemma skills_container_names:
  assumes "skills_container skills = Inr sinit"
  shows "skills = [] \<and> sinit = []
    \<or> (\<exists>c. skills \<noteq> [] \<and> sinit = [c] \<and> ct_name c = ''skills-install''
         \<and> ct_mounts c = [mount PluginVolumeName PluginMountPath]
         \<and> ct_env c = plain_env ''HOME'' PluginMountPath # skillsAuthEnvVars (collectSkillsAuthEnvs skills))"
  using assms by (auto simp: skills_container_def Let_def split: if_splits sum.splits)

lemma plugin_container_simps [simp]:
  "ct_name plugin_container = ''plugin-setup''" "ct_env plugin_container = []"
  "ct_mounts plugin_container =
     [mount PluginVolumeName PluginMountPath, read_only (mount PluginStagingVolumeName PluginStagingMountPath)]"
  by (simp_all add: plugin_container_def)

lemma add_config_names:
  assumes "add_config reserve cm ac p = Inr p'" and "names_ok inits vols p"
  shows "names_ok (inits @ [''plugin-setup'', ''skills-install'']) (vols @ [PluginVolumeName, PluginStagingVolumeName]) p'"
proof -
  let ?pv = "if ac_plugins ac \<noteq> [] \<or> ac_skills ac \<noteq> []
    then [\<lparr>vol_name = PluginVolumeName, vol_source = EmptyDir\<rparr>] else []"
  obtain pinit pvols sinit where plugins: "plugin_parts cm (ac_plugins ac) = Inr (pinit, pvols)"
    and skills: "skills_container (ac_skills ac) = Inr sinit"
    and parts: "pp_init p' = pp_init p @ pinit @ sinit" "pp_volumes p' = pp_volumes p @ ?pv @ pvols"
      "ct_name (pp_main p') = ct_name (pp_main p)"
    using assms(1) by (rule add_config_parts)
  have "subseq (map ct_name (pinit @ sinit)) [''plugin-setup'', ''skills-install'']"
    and "subseq (map vol_name (?pv @ pvols)) [PluginVolumeName, PluginStagingVolumeName]"
    using plugin_parts_names [OF plugins] skills_container_names [OF skills] by auto
  with assms(2) show ?thesis
    unfolding parts names_ok_def map_append by (auto intro: list_emb_append_mono)
qed

lemma add_config_ok:
  assumes "add_config reserve cm ac p = Inr p'" and "parts_ok inits vols p"
  shows "parts_ok (inits @ [''plugin-setup'', ''skills-install'']) (vols @ [PluginVolumeName, PluginStagingVolumeName]) p'"
proof -
  let ?pv = "if ac_plugins ac \<noteq> [] \<or> ac_skills ac \<noteq> []
    then [\<lparr>vol_name = PluginVolumeName, vol_source = EmptyDir\<rparr>] else []"
  obtain pinit pvols sinit where plugins: "plugin_parts cm (ac_plugins ac) = Inr (pinit, pvols)"
    and skills: "skills_container (ac_skills ac) = Inr sinit"
    and parts: "pp_init p' = pp_init p @ pinit @ sinit" "pp_volumes p' = pp_volumes p @ ?pv @ pvols"
      "ct_mounts (pp_main p') = ct_mounts (pp_main p)
         @ (if ac_plugins ac \<noteq> [] \<or> ac_skills ac \<noteq> [] then [mount PluginVolumeName PluginMountPath] else [])"
    using assms(1) by (rule add_config_parts)
  note names = plugin_parts_names [OF plugins] skills_container_names [OF skills]
  have "names_ok (inits @ [''plugin-setup'', ''skills-install'']) (vols @ [PluginVolumeName, PluginStagingVolumeName]) p'"
    using assms by (auto simp: parts_ok_def intro: add_config_names)
  moreover have "vm_name m \<in> vol_name ` set (pp_volumes p')"
    if c: "c \<in> set (pp_main p' # pp_init p')" and m: "m \<in> set (ct_mounts c)" for c m
  proof -
    have pv: "m = mount PluginVolumeName PluginMountPath \<Longrightarrow> ac_plugins ac \<noteq> [] \<or> ac_skills ac \<noteq> [] \<Longrightarrow> ?thesis"
      by (auto simp: parts)
    have staging: "PluginStagingVolumeName \<in> vol_name ` set pvols" if "pinit \<noteq> []"
      using that names(1) by (auto simp: map_eq_Cons_conv)
    consider (old) "\<exists>c' \<in> set (pp_main p # pp_init p). m \<in> set (ct_mounts c')"
      | (volume) "m = mount PluginVolumeName PluginMountPath" "ac_plugins ac \<noteq> [] \<or> ac_skills ac \<noteq> []"
      | (staged) "pinit \<noteq> []" "vm_name m = PluginStagingVolumeName"
      using c m names by (auto simp: parts split: if_splits)
    then show ?thesis
    proof cases
      case old
      then have "vm_name m \<in> vol_name ` set (pp_volumes p)" using assms(2) by (auto simp: parts_ok_def)
      then show ?thesis by (auto simp: parts)
    next
      case volume
      then show ?thesis by (rule pv)
    next
      case staged
      then show ?thesis using staging by (auto simp: parts)
    qed
  qed
  ultimately show ?thesis by (simp add: parts_ok_def)
qed

text \<open>With the overrides, only the mounts that the user added may miss their volume.\<close>

lemma override_main_simps [simp]:
  "ct_name (override_main po c) = ct_name c" "ct_mounts (override_main po c) = ct_mounts c @ po_mounts po"
  "ct_env (override_main po c) = ct_env c @ user_env (ct_env c) (po_env po)"
  by (simp_all add: override_main_def)

lemma add_overrides_parts:
  assumes "add_overrides po p = Inr p'"
  shows "pp_main p' = override_main po (pp_main p)" and "pp_init p' = pp_init p"
    and "pp_volumes p' = pp_volumes p @ po_volumes po" and "validateUserVolumes (po_volumes po) = None"
  using assms by (auto simp: add_overrides_def split: option.splits)

definition named_apart :: "pod_spec \<Rightarrow> bool" where
  "named_apart pod \<longleftrightarrow>
     distinct (map ct_name (pd_init pod @ pd_containers pod)) \<and> distinct (map vol_name (pd_volumes pod))"

definition mounts_found :: "pod_overrides \<Rightarrow> pod_spec \<Rightarrow> bool" where
  "mounts_found po pod \<longleftrightarrow>
     (\<forall>c \<in> set (pd_init pod @ pd_containers pod). \<forall>m \<in> set (ct_mounts c).
        vm_name m \<in> vol_name ` set (pd_volumes pod)
        \<or> m \<in> set (po_mounts po) \<or> c \<in> set (po_extra po @ po_extra_init po))"

lemma subseq_set: "subseq xs ys \<Longrightarrow> set xs \<subseteq> set ys"
  by (induction rule: list_emb.induct) auto

lemma subseq_distinct: "subseq xs ys \<Longrightarrow> distinct ys \<Longrightarrow> distinct xs"
proof (induction rule: list_emb.induct)
  case (list_emb_Cons2 x y xs ys)
  then show ?case using subseq_set [of xs ys] by auto
qed auto

lemma pod_ok:
  assumes "parts_ok inits vols p" and "add_overrides po p = Inr p'" and "extra_ok po"
    and "distinct inits" and "distinct vols" and "set inits \<subseteq> set reservedContainerNames"
    and "\<forall>v \<in> set vols. v = WorkspaceVolumeName \<or> prefix ReservedNamePrefix v"
    and pod: "pd_init pod = pp_init p' @ po_extra_init po" "pd_containers pod = pp_main p' # po_extra po"
      "pd_volumes pod = pp_volumes p'"
  shows "named_apart pod \<and> mounts_found po pod"
proof -
  note parts = add_overrides_parts [OF assms(2)]
  have inits: "distinct (map ct_name (pp_init p))" "ct_name ` set (pp_init p) \<subseteq> set reservedContainerNames"
    and vols: "distinct (map vol_name (pp_volumes p))" "vol_name ` set (pp_volumes p) \<subseteq> set vols"
    using assms(1,4-6) subseq_set [of "map ct_name (pp_init p)" inits] subseq_distinct [of "map ct_name (pp_init p)" inits]
      subseq_set [of "map vol_name (pp_volumes p)" vols] subseq_distinct [of "map vol_name (pp_volumes p)" vols]
    by (auto simp: parts_ok_def names_ok_def)
  have main: "ct_name (pp_main p') = ''kelos-agent''"
    using assms(1) parts by (simp add: parts_ok_def names_ok_def AgentContainerName_def)
  have agent: "''kelos-agent'' \<notin> set reservedContainerNames" "prefix ReservedNamePrefix ''kelos-agent''"
    by (simp_all add: reservedContainerNames_def ReservedNamePrefix_def)
  have "distinct (map ct_name (pd_init pod @ pd_containers pod))"
    using inits main agent assms(3) unfolding pod parts(2) extra_ok_def by fastforce
  moreover have "distinct (map vol_name (pd_volumes pod))"
    using vols check_volumes_names [of "[]" "po_volumes po"] parts(4) assms(7)
    unfolding pod parts(3) validateUserVolumes_def by fastforce
  moreover have "mounts_found po pod"
    using assms(1) unfolding mounts_found_def pod parts parts_ok_def by auto
  ultimately show ?thesis by (simp add: named_apart_def)
qed

section \<open>The pod of a Job\<close>

abbreviation job_pod :: "job \<Rightarrow> pod_spec" where
  "job_pod j \<equiv> tpl_spec (js_template (job_spec j))"

abbreviation agent_of :: "job \<Rightarrow> container" where
  "agent_of j \<equiv> hd (pd_containers (job_pod j))"

lemma job_of_pod [simp]:
  "pd_init (job_pod (job_of t p)) = pp_init p @ po_extra_init (overrides_of t)"
  "pd_containers (job_pod (job_of t p)) = pp_main p # po_extra (overrides_of t)"
  "pd_volumes (job_pod (job_of t p)) = pp_volumes p"
  by (simp_all add: job_of_def Let_def)

definition bare_parts :: "container \<Rightarrow> pod_parts" where
  "bare_parts main = \<lparr>pp_main = main, pp_init = [], pp_volumes = [], pp_security = None\<rparr>"

lemma bare_parts_simps [simp]:
  "pp_main (bare_parts main) = main" "pp_init (bare_parts main) = []" "pp_volumes (bare_parts main) = []"
  by (simp_all add: bare_parts_def)

lemma bare_parts_ok:
  "ct_name main = AgentContainerName \<Longrightarrow> ct_mounts main = [] \<Longrightarrow> parts_ok inits vols (bare_parts main)"
  by (simp add: parts_ok_def names_ok_def)

lemma parts_ok_more: "parts_ok inits vols p \<Longrightarrow> parts_ok (inits @ i) (vols @ v) p"
  by (auto simp: parts_ok_def names_ok_def)

lemma task_parts_steps:
  assumes "task_parts t ws ac main = Inr p"
  obtains p1 p2 where "case ws of None \<Rightarrow> p1 = bare_parts main
                         | Some w \<Rightarrow> validateWorkspaceCheckout t w = None \<and> add_workspace t w (bare_parts main) = Inr p1"
    and "case ac of None \<Rightarrow> p2 = p1 | Some c \<Rightarrow> add_config True (PluginConfigMapName (t_name t)) c p1 = Inr p2"
    and "add_overrides (overrides_of t) p2 = Inr p"
  using assms unfolding task_parts_def Let_def bare_parts_def
  by (auto split: sum.splits option.splits)

lemma Build_steps:
  assumes "Build b t ws ac prompt = Inr j"
  obtains img pull p1 p2 p where
    "case ws of None \<Rightarrow> p1 = bare_parts (agent_container t ws img pull prompt)
       | Some w \<Rightarrow> validateWorkspaceCheckout t w = None
                   \<and> add_workspace t w (bare_parts (agent_container t ws img pull prompt)) = Inr p1"
    and "case ac of None \<Rightarrow> p2 = p1 | Some c \<Rightarrow> add_config True (PluginConfigMapName (t_name t)) c p1 = Inr p2"
    and "add_overrides (overrides_of t) p2 = Inr p"
    and "check_extra (overrides_of t) = None" and "j = job_of t p"
proof -
  from assms obtain img pull where "buildAgentJob t ws ac img pull prompt = Inr j"
    by (auto simp: Build_def Let_def split: if_splits)
  then obtain p where "task_parts t ws ac (agent_container t ws img pull prompt) = Inr p"
    and "check_extra (overrides_of t) = None" "j = job_of t p"
    by (auto simp: buildAgentJob_def split: sum.splits option.splits)
  then show thesis using that by (elim task_parts_steps) blast
qed

lemma agent_container_simps [simp]:
  "ct_name (agent_container t ws img pull prompt) = AgentContainerName"
  "ct_mounts (agent_container t ws img pull prompt) = []"
  "ct_args (agent_container t ws img pull prompt) = [prompt]"
  "ct_env (agent_container t ws img pull prompt)
     = task_env t @ (case ws of None \<Rightarrow> [] | Some w \<Rightarrow> agent_workspace_env t w)"
  by (simp_all add: agent_container_def Let_def blank_container_def)

text \<open>
  C6. In every Job that is built, containers have different names, init containers and those of the
  user included, volumes have different names, and each container finds the volumes that it mounts,
  unless a mount or the container itself was added by the user.
\<close>

theorem job_well_formed:
  assumes "Build b t ws ac prompt = Inr j"
  shows "named_apart (job_pod j) \<and> mounts_found (overrides_of t) (job_pod j)"
  using assms
proof (rule Build_steps)
  fix img pull p1 p2 p
  let ?main = "agent_container t ws img pull prompt"
  let ?inits = "workspace_inits @ [''plugin-setup'', ''skills-install'']"
  let ?vols = "[WorkspaceVolumeName, GitHubTokenVolumeName] @ [PluginVolumeName, PluginStagingVolumeName]"
  assume workspace: "case ws of None \<Rightarrow> p1 = bare_parts ?main
      | Some w \<Rightarrow> validateWorkspaceCheckout t w = None \<and> add_workspace t w (bare_parts ?main) = Inr p1"
    and config: "case ac of None \<Rightarrow> p2 = p1
      | Some c \<Rightarrow> add_config True (PluginConfigMapName (t_name t)) c p1 = Inr p2"
    and user: "add_overrides (overrides_of t) p2 = Inr p" and extra: "check_extra (overrides_of t) = None"
    and j: "j = job_of t p"
  have "parts_ok workspace_inits [WorkspaceVolumeName, GitHubTokenVolumeName] p1"
    using workspace by (cases ws) (auto intro: add_workspace_ok bare_parts_ok)
  then have "parts_ok ?inits ?vols p2"
    using config by (cases ac) (use parts_ok_more in \<open>fastforce intro: add_config_ok\<close>)+
  then show ?thesis
    unfolding j using user check_extra_ok [OF extra]
    by (rule pod_ok) (simp_all add: reservedContainerNames_def job_constants)
qed

section \<open>The pods of a pool\<close>

abbreviation pool_pod :: "stateful_set \<Rightarrow> pod_spec" where
  "pool_pod s \<equiv> tpl_spec (sts_template s)"

definition bare_pool :: "env \<Rightarrow> worker_pool \<Rightarrow> workspace_spec option \<Rightarrow> pod_parts" where
  "bare_pool E pool ws =
     \<lparr>pp_main = pool_container E pool ws, pp_init = [runner_container E],
      pp_volumes = [\<lparr>vol_name = runner_volume, vol_source = EmptyDir\<rparr>],
      pp_security = Some \<lparr>psc_fs_group = Some AgentUID, psc_rest = nothing\<rparr>\<rparr>"

lemma pool_container_simps [simp]:
  "ct_name (pool_container E pool ws) = AgentContainerName"
  "ct_env (pool_container E pool ws) = pool_env pool ws"
  "ct_name (runner_container E) = ''inject-worker-runner''"
  by (simp_all add: pool_container_def runner_container_def Let_def case_prod_beta)

lemma buildStatefulSet_steps:
  assumes "buildStatefulSet E pool sn svc ws ac = Inr s"
  obtains p1 p2 p where
    "case ws of None \<Rightarrow> p1 = bare_pool E pool ws | Some w \<Rightarrow> add_pool_workspace w (bare_pool E pool ws) = Inr p1"
    and "case ac of None \<Rightarrow> p2 = p1
      | Some c \<Rightarrow> add_config False (workerPoolPluginConfigMapName E (wp_name pool)) c p1 = Inr p2"
    and "add_overrides (pool_overrides pool) p2 = Inr p" and "check_pool_extra (pool_overrides pool) = None"
    and "pd_init (pool_pod s) = pp_init p @ po_extra_init (pool_overrides pool)"
    and "pd_containers (pool_pod s) = pp_main p # po_extra (pool_overrides pool)"
    and "pd_volumes (pool_pod s) = pp_volumes p"
  using assms unfolding buildStatefulSet_def pool_parts_def Let_def bare_pool_def
  by (auto split: sum.splits option.splits)

definition pool_inits :: "string list" where
  "pool_inits = [''inject-worker-runner'', ''git-clone'', ''remote-setup'', ''workspace-files'']"

definition with_runner :: "string list \<Rightarrow> string list \<Rightarrow> pod_parts \<Rightarrow> bool" where
  "with_runner inits vols p \<longleftrightarrow>
     names_ok inits vols p \<and> ''inject-worker-runner'' \<in> ct_name ` set (pp_init p)
     \<and> runner_volume \<in> vol_name ` set (pp_volumes p)"

lemma bare_pool_names: "with_runner pool_inits [runner_volume, GitHubTokenVolumeName] (bare_pool E pool ws)"
  by (simp add: bare_pool_def with_runner_def names_ok_def pool_inits_def)

lemma with_runner_more: "with_runner inits vols p \<Longrightarrow> with_runner (inits @ i) (vols @ v) p"
  by (auto simp: with_runner_def names_ok_def)

lemma add_config_runner:
  assumes "add_config reserve cm ac p = Inr p'" and "with_runner inits vols p"
  shows "with_runner (inits @ [''plugin-setup'', ''skills-install'']) (vols @ [PluginVolumeName, PluginStagingVolumeName]) p'"
  using assms(2) add_config_names [OF assms(1)]
  by (auto simp: with_runner_def intro: add_config_parts [OF assms(1)])

lemma add_pool_workspace_names:
  assumes "add_pool_workspace w (bare_pool E pool ws) = Inr p"
  shows "with_runner pool_inits [runner_volume, GitHubTokenVolumeName] p"
proof -
  from assms obtain files where files: "workspace_files w = Inr files"
    and p: "pp_init p = runner_container E # pool_clone_container w # remote_setup (ws_remotes w) @ files"
      "pp_volumes p = \<lparr>vol_name = runner_volume, vol_source = EmptyDir\<rparr> # token_volumes w"
      "ct_name (pp_main p) = AgentContainerName"
    by (auto simp: add_pool_workspace_def bare_pool_def split: sum.splits)
  have "subseq (map ct_name (remote_setup (ws_remotes w)) @ map ct_name files) ([''remote-setup''] @ [''workspace-files''])"
    using setup_container_parts(1) workspace_files_names [OF files] by (intro list_emb_append_mono) simp_all
  then show ?thesis
    by (simp add: p with_runner_def names_ok_def pool_inits_def token_volume_names)
qed

lemma one_taken: "A \<subseteq> insert x R \<Longrightarrow> x \<in> A \<Longrightarrow> E \<inter> R = {} \<Longrightarrow> A \<inter> E = {} \<longleftrightarrow> x \<notin> E"
  by blast

text \<open>
  C10. The pods of a pool have containers and volumes with different names exactly when the user
  has not taken the names of the worker runner, which the checks of names do not know.
\<close>

theorem pool_named_apart:
  assumes "buildStatefulSet E pool sn svc ws ac = Inr s"
  shows "named_apart (pool_pod s) \<longleftrightarrow>
    ''worker-runner'' \<notin> vol_name ` set (po_volumes (pool_overrides pool))
    \<and> ''inject-worker-runner'' \<notin> ct_name ` set (po_extra (pool_overrides pool) @ po_extra_init (pool_overrides pool))"
  using assms
proof (rule buildStatefulSet_steps)
  let ?po = "pool_overrides pool"
  fix p1 p2 p
  assume workspace: "case ws of None \<Rightarrow> p1 = bare_pool E pool ws
      | Some w \<Rightarrow> add_pool_workspace w (bare_pool E pool ws) = Inr p1"
    and config: "case ac of None \<Rightarrow> p2 = p1
      | Some c \<Rightarrow> add_config False (workerPoolPluginConfigMapName E (wp_name pool)) c p1 = Inr p2"
    and user: "add_overrides ?po p2 = Inr p" and extra: "check_pool_extra ?po = None"
    and pod: "pd_init (pool_pod s) = pp_init p @ po_extra_init ?po" "pd_containers (pool_pod s) = pp_main p # po_extra ?po"
      "pd_volumes (pool_pod s) = pp_volumes p"
  note parts = add_overrides_parts [OF user]
  have "with_runner pool_inits [runner_volume, GitHubTokenVolumeName] p1"
    using workspace by (cases ws) (auto intro: bare_pool_names add_pool_workspace_names)
  then have p2: "with_runner (pool_inits @ [''plugin-setup'', ''skills-install''])
      ([runner_volume, GitHubTokenVolumeName] @ [PluginVolumeName, PluginStagingVolumeName]) p2"
    using config by (cases ac) (use with_runner_more in \<open>fastforce intro: add_config_runner\<close>)+
  define I where "I = map ct_name (pp_init p2)"
  define V where "V = map vol_name (pp_volumes p2)"
  have subs: "subseq I [''inject-worker-runner'', ''git-clone'', ''remote-setup'', ''workspace-files'',
        ''plugin-setup'', ''skills-install'']"
      "subseq V [''worker-runner'', ''kelos-github-token'', ''kelos-plugin'', ''kelos-plugin-src'']"
    and runner: "''inject-worker-runner'' \<in> set I" "''worker-runner'' \<in> set V"
    using p2 by (simp_all add: with_runner_def names_ok_def pool_inits_def I_def V_def runner_volume_def job_constants)
  have main: "ct_name (pp_main p) = ''kelos-agent''"
    using p2 parts(1) unfolding with_runner_def names_ok_def AgentContainerName_def by simp
  have "distinct I" by (rule subseq_distinct [OF subs(1)]) simp
  moreover have "set I \<subseteq> insert ''inject-worker-runner'' (set reservedContainerNames)"
    by (rule subset_trans [OF subseq_set [OF subs(1)]]) (simp add: reservedContainerNames_def)
  ultimately have I: "distinct I" "set I \<subseteq> insert ''inject-worker-runner'' (set reservedContainerNames)"
    by simp_all
  have V: "distinct V" "set V \<subseteq> {''worker-runner'', ''kelos-github-token'', ''kelos-plugin'', ''kelos-plugin-src''}"
    using subseq_distinct [OF subs(2)] subseq_set [OF subs(2)] by simp_all
  let ?extra = "ct_name ` set (po_extra ?po @ po_extra_init ?po)"
  have user_names: "distinct (map ct_name (po_extra_init ?po @ po_extra ?po))" "?extra \<inter> set reservedContainerNames = {}"
      "''kelos-agent'' \<notin> ?extra"
    using extra_ok_names [OF check_pool_extra_ok [OF extra]] by simp_all
  have names: "map ct_name (pd_init (pool_pod s) @ pd_containers (pool_pod s))
      = I @ map ct_name (po_extra_init ?po) @ ''kelos-agent'' # map ct_name (po_extra ?po)"
    using main by (simp add: pod parts I_def)
  have "distinct (map ct_name (pd_init (pool_pod s) @ pd_containers (pool_pod s))) \<longleftrightarrow> ''inject-worker-runner'' \<notin> ?extra"
  proof -
    have "''kelos-agent'' \<notin> set I" using I(2) by (auto simp: reservedContainerNames_def)
    then have "distinct (I @ map ct_name (po_extra_init ?po) @ ''kelos-agent'' # map ct_name (po_extra ?po))
        \<longleftrightarrow> set I \<inter> ?extra = {}"
      using I(1) user_names(1,3) by (simp add: image_Un) blast
    also have "\<dots> \<longleftrightarrow> ''inject-worker-runner'' \<notin> ?extra"
      by (rule one_taken [OF I(2) runner(1) user_names(2)])
    finally show ?thesis unfolding names .
  qed
  moreover have "distinct (map vol_name (pd_volumes (pool_pod s)))
      \<longleftrightarrow> ''worker-runner'' \<notin> vol_name ` set (po_volumes ?po)"
  proof -
    note vols = check_volumes_names [OF parts(4) [unfolded validateUserVolumes_def]]
    have apart: "vol_name ` set (po_volumes ?po) \<inter> {v. prefix ReservedNamePrefix v} = {}" using vols by auto
    have "set V \<subseteq> insert ''worker-runner'' {v. prefix ReservedNamePrefix v}"
      by (rule subset_trans [OF V(2)]) (simp add: ReservedNamePrefix_def)
    from one_taken [OF this runner(2) apart] show ?thesis
      using V(1) vols by (simp add: pod(3) parts(3) V_def)
  qed
  ultimately show ?thesis unfolding named_apart_def by blast
qed

end
