(* ===== verification/AgentEnv.thy ===== *)
theory AgentEnv
  imports JobFacts
begin

text \<open>The environment of the agent container that \<^theory_text>\<open>JobBuilder.Build\<close> constructs: which variables it has,
  that the user's additions never change what the builder set, and where the workspace's GitHub token
  goes.\<close>

section \<open>The environment of the agent\<close>

text \<open>Of several variables with one name a container sees the last.\<close>

definition effective :: "env_var list \<Rightarrow> string \<Rightarrow> env_var option" where
  "effective env name = List.find (\<lambda>e. ev_name e = name) (rev env)"

lemma effective_absent: "name \<notin> ev_name ` set env \<Longrightarrow> effective env name = None"
  by (auto simp: effective_def find_None_iff)

lemma find_append:
  "List.find P (xs @ ys) = (case List.find P xs of None \<Rightarrow> List.find P ys | Some x \<Rightarrow> Some x)"
  by (induction xs) auto

lemma find_name_None: "x \<notin> f ` set xs \<Longrightarrow> List.find (\<lambda>e. f e = x) xs = None"
  by (induction xs) auto

lemma effective_built_in:
  assumes "distinct (map ev_name built)" and "e \<in> set built"
    and "ev_name e \<notin> ev_name ` set user"
  shows "effective (built @ user) (ev_name e) = Some e"
proof -
  obtain a b where built: "built = a @ e # b" using assms(2) by (auto simp: in_set_conv_decomp)
  then have "ev_name e \<notin> ev_name ` set b" using assms(1) by auto
  then show ?thesis
    using assms(3) by (simp add: effective_def built find_append find_name_None)
qed

lemma env_names [simp]:
  "ev_name (plain_env n v) = n" "ev_name (secret_env n s k) = n" "ev_name (field_env n p) = n"
  "map ev_name (opt_env n v) = (if v = [] then [] else [n])"
  by (simp_all add: plain_env_def secret_env_def field_env_def opt_env_def)

definition credential_names :: "string list" where
  "credential_names = [''ANTHROPIC_API_KEY'', ''CODEX_API_KEY'', ''GEMINI_API_KEY'', ''OPENCODE_API_KEY'',
     ''CURSOR_API_KEY'', ''CODEX_AUTH_JSON'', ''CLAUDE_CODE_OAUTH_TOKEN'']"

lemma credential_env_names:
  "\<exists>n \<in> set credential_names. subseq (map ev_name (credentialEnvVars c ty)) [n]"
  by (auto simp: credentialEnvVars_def apiKeyEnvVar_def oauthEnvVar_def credential_names_def Let_def)

lemma task_env_names:
  "\<exists>n \<in> set credential_names. subseq (map ev_name (task_env t))
     ([''KELOS_MODEL''] @ [''KELOS_EFFORT''] @ [''KELOS_BRANCH''] @ [''KELOS_AGENT_TYPE''] @ [''KELOS_TASKSPAWNER''] @ [n])"
proof -
  obtain n where n: "n \<in> set credential_names"
    "subseq (map ev_name (case resolveTaskCredentials t of None \<Rightarrow> []
        | Some c \<Rightarrow> credentialEnvVars c (resolveTaskType t))) [n]"
    using credential_env_names by (cases "resolveTaskCredentials t") (auto simp: credential_names_def)
  show ?thesis
    by (rule bexI [OF _ n(1)]) (unfold task_env_def map_append, intro list_emb_append_mono, simp_all add: n(2))
qed

lemma token_env_names:
  "\<exists>g \<in> {''GH_TOKEN'', ''GH_ENTERPRISE_TOKEN''}. subseq (map ev_name (token_envs ws)) [''GITHUB_TOKEN'', g]"
  by (auto simp: token_envs_def split: option.splits)

lemma agent_workspace_env_names:
  "\<exists>g \<in> {''GH_TOKEN'', ''GH_ENTERPRISE_TOKEN''}. subseq (map ev_name (agent_workspace_env t ws))
     ([''GH_HOST''] @ [''KELOS_BASE_BRANCH''] @ [''KELOS_UPSTREAM_REPO''] @ [''GITHUB_TOKEN'', g]
      @ [''GH_CONFIG_DIR'', ''KELOS_GITHUB_TOKEN_FILE''])"
proof -
  obtain g where g: "g \<in> {''GH_TOKEN'', ''GH_ENTERPRISE_TOKEN''}"
    "subseq (map ev_name (token_envs ws)) [''GITHUB_TOKEN'', g]"
    using token_env_names by blast
  have "subseq (map ev_name (token_envs ws @ [plain_env ''GH_CONFIG_DIR'' GHConfigDir, token_file_env]))
      ([''GITHUB_TOKEN'', g] @ [''GH_CONFIG_DIR'', ''KELOS_GITHUB_TOKEN_FILE''])"
    using g(2) unfolding map_append by (intro list_emb_append_mono) (simp_all add: token_file_env_def)
  then show ?thesis
    by (intro bexI [OF _ g(1)]) (unfold agent_workspace_env_def map_append, intro list_emb_append_mono,
      auto simp: gh_host_env_def upstream_env_def)
qed

lemma config_env_names:
  assumes "mcp_servers_env servers = Inr mcp"
  shows "subseq (map ev_name (opt_env ''KELOS_AGENTS_MD'' md
      @ (if plug then [plain_env ''KELOS_PLUGIN_DIR'' PluginMountPath] else []) @ mcp))
    ([''KELOS_AGENTS_MD''] @ [''KELOS_PLUGIN_DIR''] @ [''KELOS_MCP_SERVERS''])"
  using assms unfolding map_append
  by (intro list_emb_append_mono) (auto simp: mcp_servers_env_def split: if_splits sum.splits)

definition agent_names :: "string \<Rightarrow> string \<Rightarrow> string list" where
  "agent_names n g =
     ([''KELOS_MODEL''] @ [''KELOS_EFFORT''] @ [''KELOS_BRANCH''] @ [''KELOS_AGENT_TYPE''] @ [''KELOS_TASKSPAWNER''] @ [n])
     @ ([''GH_HOST''] @ [''KELOS_BASE_BRANCH''] @ [''KELOS_UPSTREAM_REPO''] @ [''GITHUB_TOKEN'', g]
        @ [''GH_CONFIG_DIR'', ''KELOS_GITHUB_TOKEN_FILE''])
     @ [''KELOS_SETUP_COMMAND''] @ ([''KELOS_AGENTS_MD''] @ [''KELOS_PLUGIN_DIR''] @ [''KELOS_MCP_SERVERS''])"

lemma agent_names_distinct:
  assumes "n \<in> set credential_names" and "g \<in> {''GH_TOKEN'', ''GH_ENTERPRISE_TOKEN''}"
  shows "distinct (agent_names n g) \<and> ''KELOS_SESSION_SETUP_ONLY'' \<notin> set (agent_names n g)"
  using assms by (auto simp: agent_names_def credential_names_def)

text \<open>What the builder puts into the environment before the user's variables.\<close>

definition workspace_part :: "task \<Rightarrow> workspace_spec option \<Rightarrow> env_var list" where
  "workspace_part t ws = (case ws of None \<Rightarrow> [] | Some w \<Rightarrow> agent_workspace_env t w)"

definition setup_part :: "workspace_spec option \<Rightarrow> env_var list" where
  "setup_part ws = (case ws of None \<Rightarrow> [] | Some w \<Rightarrow> setup_env w)"

lemma built_in_env:
  assumes "Build b t ws ac prompt = Inr j"
  obtains config n g where
    "ct_env (agent_of j) = (let built = task_env t @ workspace_part t ws @ setup_part ws @ config
       in built @ user_env built (po_env (overrides_of t)))"
    and "n \<in> set credential_names" and "g \<in> {''GH_TOKEN'', ''GH_ENTERPRISE_TOKEN''}"
    and "subseq (map ev_name (task_env t @ workspace_part t ws @ setup_part ws @ config)) (agent_names n g)"
    and "subseq (map ev_name config) ([''KELOS_AGENTS_MD''] @ [''KELOS_PLUGIN_DIR''] @ [''KELOS_MCP_SERVERS''])"
    and "\<forall>e \<in> set config. ev_from e = None"
    and "''KELOS_SETUP_COMMAND'' \<notin> ev_name ` set (task_env t @ workspace_part t ws @ config)"
  using assms
proof (rule Build_steps)
  fix img pull p1 p2 p
  let ?main = "agent_container t ws img pull prompt"
  assume workspace: "case ws of None \<Rightarrow> p1 = bare_parts ?main
      | Some w \<Rightarrow> validateWorkspaceCheckout t w = None \<and> add_workspace t w (bare_parts ?main) = Inr p1"
    and config: "case ac of None \<Rightarrow> p2 = p1
      | Some c \<Rightarrow> add_config True (PluginConfigMapName (t_name t)) c p1 = Inr p2"
    and user: "add_overrides (overrides_of t) p2 = Inr p" and j: "j = job_of t p"
  have p1: "ct_env (pp_main p1) = task_env t @ workspace_part t ws @ setup_part ws"
    using workspace by (cases ws) (auto simp: workspace_part_def setup_part_def elim: add_workspace_parts)
  obtain cfg where p2: "ct_env (pp_main p2) = ct_env (pp_main p1) @ cfg"
    and cfg: "subseq (map ev_name cfg) ([''KELOS_AGENTS_MD''] @ [''KELOS_PLUGIN_DIR''] @ [''KELOS_MCP_SERVERS''])"
      "\<forall>e \<in> set cfg. ev_from e = None"
  proof (cases ac)
    case None
    then show thesis using that [of "[]"] config by simp
  next
    case (Some c)
    then obtain mcp where mcp: "mcp_servers_env (ac_mcp_servers c) = Inr mcp"
      and env: "ct_env (pp_main p2) = ct_env (pp_main p1) @ opt_env ''KELOS_AGENTS_MD'' (ac_agents_md c)
        @ (if ac_plugins c \<noteq> [] \<or> ac_skills c \<noteq> [] then [plain_env ''KELOS_PLUGIN_DIR'' PluginMountPath] else []) @ mcp"
      using config by (auto elim: add_config_parts)
    have "\<forall>e \<in> set mcp. ev_from e = None"
      using mcp by (auto simp: mcp_servers_env_def plain_env_def split: if_splits sum.splits)
    then show thesis
      by (intro that [OF env config_env_names [OF mcp]]) (auto simp: opt_env_def plain_env_def)
  qed
  obtain n where n: "n \<in> set credential_names" "subseq (map ev_name (task_env t))
      ([''KELOS_MODEL''] @ [''KELOS_EFFORT''] @ [''KELOS_BRANCH''] @ [''KELOS_AGENT_TYPE''] @ [''KELOS_TASKSPAWNER''] @ [n])"
    using task_env_names by blast
  obtain g where g: "g \<in> {''GH_TOKEN'', ''GH_ENTERPRISE_TOKEN''}" "subseq (map ev_name (workspace_part t ws))
      ([''GH_HOST''] @ [''KELOS_BASE_BRANCH''] @ [''KELOS_UPSTREAM_REPO''] @ [''GITHUB_TOKEN'', g]
       @ [''GH_CONFIG_DIR'', ''KELOS_GITHUB_TOKEN_FILE''])"
    using agent_workspace_env_names by (cases ws) (auto simp: workspace_part_def)
  have "subseq (map ev_name (setup_part ws)) [''KELOS_SETUP_COMMAND'']"
    by (auto simp: setup_part_def setup_env_def split: option.splits)
  then have names: "subseq (map ev_name (task_env t @ workspace_part t ws @ setup_part ws @ cfg)) (agent_names n g)"
    unfolding map_append agent_names_def using n(2) g(2) cfg(1) by (intro list_emb_append_mono)
  have env: "ct_env (agent_of j) = (let built = task_env t @ workspace_part t ws @ setup_part ws @ cfg
      in built @ user_env built (po_env (overrides_of t)))"
    using add_overrides_parts(1) [OF user] by (simp add: j p1 p2)
  have own: "''KELOS_SETUP_COMMAND'' \<notin> ev_name ` set (task_env t @ workspace_part t ws @ cfg)"
  proof -
    have "''KELOS_SETUP_COMMAND'' \<notin> set (map ev_name (task_env t))"
      using n(1) subsetD [OF subseq_set [OF n(2)]] by (auto simp: credential_names_def)
    moreover have "''KELOS_SETUP_COMMAND'' \<notin> set (map ev_name (workspace_part t ws))"
      using g(1) subsetD [OF subseq_set [OF g(2)]] by auto
    moreover have "''KELOS_SETUP_COMMAND'' \<notin> set (map ev_name cfg)"
      using subsetD [OF subseq_set [OF cfg(1)]] by auto
    ultimately show ?thesis by (simp add: image_Un)
  qed
  show thesis by (rule that [OF env n(1) g(1) names cfg own])
qed

text \<open>
  C7. A built-in variable keeps its value: whatever variables the user's pod overrides set, the agent's
  container sees every variable that the task and its workspace determine exactly as the builder made
  it. The command that prepares a workspace is the workspace's or none at all, and the variable that
  would end the agent after it is never set.
\<close>
theorem built_in_env_wins:
  assumes "Build b t ws ac prompt = Inr j"
  shows "(\<forall>e \<in> set (task_env t @ workspace_part t ws @ setup_part ws).
            effective (ct_env (agent_of j)) (ev_name e) = Some e)
         \<and> effective (ct_env (agent_of j)) ''KELOS_SETUP_COMMAND''
             = (case setup_part ws of [] \<Rightarrow> None | e # _ \<Rightarrow> Some e)
         \<and> effective (ct_env (agent_of j)) ''KELOS_SESSION_SETUP_ONLY'' = None"
  using assms
proof (rule built_in_env)
  fix config n g
  let ?fixed = "task_env t @ workspace_part t ws @ setup_part ws"
  let ?built = "task_env t @ workspace_part t ws @ setup_part ws @ config"
  let ?user = "user_env ?built (po_env (overrides_of t))"
  assume env: "ct_env (agent_of j) = (let built = ?built in built @ user_env built (po_env (overrides_of t)))"
    and n: "n \<in> set credential_names" "g \<in> {''GH_TOKEN'', ''GH_ENTERPRISE_TOKEN''}"
    and names: "subseq (map ev_name ?built) (agent_names n g)"
    and own: "''KELOS_SETUP_COMMAND'' \<notin> ev_name ` set (task_env t @ workspace_part t ws @ config)"
  have env: "ct_env (agent_of j) = ?built @ ?user" using env by (simp add: Let_def)
  note distinct = agent_names_distinct [OF n]
  have built: "distinct (map ev_name ?built)" using subseq_distinct [OF names] distinct by blast
  have user: "ev_name ` set ?user \<inter> ev_name ` set ?built = {}" "ev_name ` set ?user \<inter> set reservedEnvNames = {}"
    by (auto simp: user_env_def)
  have wins: "effective (ct_env (agent_of j)) (ev_name e) = Some e" if "e \<in> set ?built" for e
    unfolding env using that user by (intro effective_built_in [OF built that]) blast
  have absent: "effective (ct_env (agent_of j)) x = None"
    if "x \<in> set reservedEnvNames" and "x \<notin> ev_name ` set ?built" for x
    using that user unfolding env by (intro effective_absent) auto
  have "\<forall>e \<in> set ?fixed. effective (ct_env (agent_of j)) (ev_name e) = Some e"
    by (intro ballI wins) auto
  moreover have "effective (ct_env (agent_of j)) ''KELOS_SETUP_COMMAND''
      = (case setup_part ws of [] \<Rightarrow> None | e # _ \<Rightarrow> Some e)"
  proof (cases "setup_part ws")
    case Nil
    then have "''KELOS_SETUP_COMMAND'' \<notin> ev_name ` set ?built" using own by simp
    then show ?thesis using Nil absent by (simp add: reservedEnvNames_def)
  next
    case (Cons e rest)
    then have "ev_name e = ''KELOS_SETUP_COMMAND''"
      by (auto simp: setup_part_def setup_env_def split: option.splits if_splits)
    then show ?thesis using Cons wins [of e] by simp
  qed
  moreover have "''KELOS_SESSION_SETUP_ONLY'' \<notin> ev_name ` set ?built"
    using subseq_set [OF names] distinct by auto
  then have "effective (ct_env (agent_of j)) ''KELOS_SESSION_SETUP_ONLY'' = None"
    by (rule absent [rotated]) (simp add: reservedEnvNames_def)
  ultimately show ?thesis by blast
qed

section \<open>Where the GitHub token of a workspace goes\<close>

text \<open>
  A container reads a secret through a variable or a mounted volume. What a user adds in \<open>envFrom\<close>
  or in other kinds of volume is passed along and is the user's own doing.
\<close>

definition env_reads :: "string \<Rightarrow> env_var \<Rightarrow> bool" where
  "env_reads s e =
     (case ev_from e of
        None \<Rightarrow> False
      | Some src \<Rightarrow> (case es_secret src of None \<Rightarrow> False | Some k \<Rightarrow> ks_name k = s))"

definition volume_holds :: "string \<Rightarrow> volume \<Rightarrow> bool" where
  "volume_holds s v = (case vol_source v of SecretVolume n _ _ \<Rightarrow> n = s | _ \<Rightarrow> False)"

definition reads :: "pod_spec \<Rightarrow> string \<Rightarrow> container \<Rightarrow> bool" where
  "reads pod s c \<longleftrightarrow>
     list_ex (env_reads s) (ct_env c)
     \<or> list_ex (\<lambda>m. list_ex (\<lambda>v. vol_name v = vm_name m \<and> volume_holds s v) (pd_volumes pod)) (ct_mounts c)"

definition takes :: "string \<Rightarrow> container \<Rightarrow> bool" where
  "takes s c \<longleftrightarrow>
     list_ex (env_reads s) (ct_env c) \<or> list_ex (\<lambda>m. vm_name m = GitHubTokenVolumeName) (ct_mounts c)"

definition asks_for :: "string \<Rightarrow> task \<Rightarrow> agent_config_spec option \<Rightarrow> bool" where
  "asks_for s t ac \<longleftrightarrow>
     (let po = overrides_of t
      in list_ex (env_reads s) (task_env t)
         \<or> list_ex (env_reads s) (po_env po) \<or> list_ex (volume_holds s) (po_volumes po)
         \<or> list_ex (\<lambda>m. vm_name m = GitHubTokenVolumeName) (po_mounts po)
         \<or> list_ex (takes s) (po_extra po @ po_extra_init po)
         \<or> (case ac of None \<Rightarrow> False | Some c \<Rightarrow> list_ex (\<lambda>sk. sk_secret sk = Some s) (ac_skills c)))"

lemma env_reads_simps [simp]:
  "\<not> env_reads s (plain_env n v)" "env_reads s (secret_env n x k) \<longleftrightarrow> x = s" "\<not> env_reads s (field_env n p)"
  "\<not> list_ex (env_reads s) (opt_env n v)"
  by (simp_all add: env_reads_def plain_env_def secret_env_def field_env_def opt_env_def no_source_def)

lemma takes_volumes:
  assumes "filter (volume_holds s) (pd_volumes pod) = [v]" and "vol_name v = GitHubTokenVolumeName"
  shows "reads pod s c = takes s c"
proof -
  have "volume_holds s u \<and> u \<in> set (pd_volumes pod) \<longleftrightarrow> u = v" for u
    using arg_cong [where f = set, OF assms(1)] by auto
  then have "list_ex (\<lambda>u. vol_name u = x \<and> volume_holds s u) (pd_volumes pod) \<longleftrightarrow> x = GitHubTokenVolumeName" for x
    using assms(2) unfolding list_ex_iff by metis
  then show ?thesis by (simp add: reads_def takes_def)
qed

lemma collect_auth_secrets:
  "fst ` set (collect_auth out skills) \<subseteq> fst ` set out \<union> {x. \<exists>sk \<in> set skills. sk_secret sk = Some x}"
proof (induction out skills rule: collect_auth.induct)
  case (2 out skill rest)
  then show ?case by (cases "sk_secret skill") (auto split: if_splits)
qed simp

lemma skills_takes:
  assumes "skills_container skills = Inr cs" and "\<not> list_ex (\<lambda>sk. sk_secret sk = Some s) skills"
  shows "\<not> list_ex (takes s) cs"
proof -
  have "s \<notin> fst ` set (collectSkillsAuthEnvs skills)"
    using collect_auth_secrets [of "[]" skills] assms(2) by (auto simp: collectSkillsAuthEnvs_def list_ex_iff)
  then have "\<not> list_ex (env_reads s) (skillsAuthEnvVars (collectSkillsAuthEnvs skills))"
    by (force simp: skillsAuthEnvVars_def list_ex_iff)
  then show ?thesis
    using assms(1) by (auto simp: skills_container_def Let_def takes_def PluginVolumeName_def GitHubTokenVolumeName_def
        split: if_splits sum.splits)
qed

definition placed :: "workspace_spec \<Rightarrow> container \<Rightarrow> bool" where
  "placed ws c \<longleftrightarrow>
     ct_name c \<in> {''git-clone'', ''branch-setup''}
     \<or> ct_name c = ''kelos-agent'' \<and> workspaceAgentGetsGitHubToken ws"

definition as_placed :: "workspace_spec \<Rightarrow> string \<Rightarrow> container list \<Rightarrow> bool" where
  "as_placed ws s cs \<longleftrightarrow> list_all (\<lambda>c. takes s c = placed ws c) cs"

lemma as_placed_simps [simp]:
  "as_placed ws s []" "as_placed ws s (c # b) \<longleftrightarrow> takes s c = placed ws c \<and> as_placed ws s b"
  "as_placed ws s (a @ b) \<longleftrightarrow> as_placed ws s a \<and> as_placed ws s b"
  by (auto simp: as_placed_def)

lemma init_env_takes: "ws_secret ws = Some s \<Longrightarrow> list_ex (env_reads s) (init_workspace_env ws)"
  by (simp add: init_workspace_env_def token_envs_def)

lemma workspace_files_cases:
  assumes "workspace_files ws = Inr files"
  obtains "files = []" | script where "files = [shell_container ''workspace-files'' script [] [workspace_mount]]"
  using assms by (auto simp only: workspace_files_def split: if_split_asm sum.split_asm)

lemma plugin_parts_cases:
  assumes "plugin_parts cm plugins = Inr (pinit, pvols)"
  obtains "pinit = []" "pvols = []" | items where "pinit = [plugin_container]"
    "pvols = [\<lparr>vol_name = PluginStagingVolumeName, vol_source = ConfigMapVolume cm items\<rparr>]"
  using assms by (auto simp only: plugin_parts_def split: if_split_asm sum.split_asm prod.split_asm)

lemma workspace_placed:
  assumes "ws_secret ws = Some s" and "workspace_files ws = Inr files"
  shows "as_placed ws s (git_clone_container ws # remote_setup remotes @ branch_setup branch ws @ files)"
proof -
  have "as_placed ws s [git_clone_container ws]"
    using init_env_takes [OF assms(1)] by (simp add: takes_def placed_def)
  moreover have "as_placed ws s (remote_setup remotes)"
    by (simp add: remote_setup_def takes_def placed_def WorkspaceVolumeName_def GitHubTokenVolumeName_def)
  moreover have "as_placed ws s (branch_setup branch ws)"
    using init_env_takes [OF assms(1)]
    by (simp add: branch_setup_def takes_def placed_def)
  moreover have "as_placed ws s files"
    by (rule workspace_files_cases [OF assms(2)])
      (simp_all add: takes_def placed_def WorkspaceVolumeName_def GitHubTokenVolumeName_def)
  ultimately show ?thesis by simp
qed

lemma config_placed:
  assumes "plugin_parts cm plugins = Inr (pinit, pvols)" and "skills_container skills = Inr sinit"
    and "\<not> list_ex (\<lambda>sk. sk_secret sk = Some s) skills"
  shows "as_placed ws s (pinit @ sinit)"
proof -
  have "as_placed ws s pinit"
    by (rule plugin_parts_cases [OF assms(1)])
      (simp_all add: takes_def placed_def PluginVolumeName_def PluginStagingVolumeName_def
        GitHubTokenVolumeName_def)
  moreover have "ct_name ` set sinit \<subseteq> {''skills-install''}"
    using skills_container_names [OF assms(2)] by auto
  then have "\<not> placed ws c" if "c \<in> set sinit" for c using that by (auto simp: placed_def)
  then have "as_placed ws s sinit"
    using skills_takes [OF assms(2,3)] by (auto simp: as_placed_def list_all_iff list_ex_iff)
  ultimately show ?thesis by simp
qed

lemma extra_placed:
  assumes "extra_ok po" and "\<not> list_ex (takes s) cs" and "set cs \<subseteq> set (po_extra po @ po_extra_init po)"
  shows "as_placed ws s cs"
proof -
  have "\<not> placed ws c" if "c \<in> set cs" for c
  proof -
    have "ct_name c \<in> ct_name ` set (po_extra po @ po_extra_init po)" using that assms(3) by blast
    then have "ct_name c \<notin> set reservedContainerNames" "ct_name c \<noteq> ''kelos-agent''"
      using extra_ok_names [OF assms(1)] by fastforce+
    then show ?thesis by (auto simp: placed_def reservedContainerNames_def)
  qed
  then show ?thesis using assms(2) by (auto simp: as_placed_def list_all_iff list_ex_iff)
qed

text \<open>The state of the parts while a pod is put together.\<close>

definition token_parts :: "workspace_spec \<Rightarrow> string \<Rightarrow> pod_parts \<Rightarrow> bool" where
  "token_parts ws s p \<longleftrightarrow>
     as_placed ws s (pp_main p # pp_init p) \<and> ct_name (pp_main p) = ''kelos-agent''
     \<and> filter (volume_holds s) (pp_volumes p) = token_volumes ws"

lemma agent_workspace_takes:
  assumes "ws_secret ws = Some s"
  shows "list_ex (env_reads s) (agent_workspace_env t ws) \<longleftrightarrow> workspaceAgentGetsGitHubToken ws"
proof -
  have "\<not> list_ex (env_reads s) (gh_host_env ws @ opt_env ''KELOS_BASE_BRANCH'' (ws_ref ws)
      @ upstream_env (ts_upstream_repo (t_spec t)) ws)"
    by (simp add: gh_host_env_def upstream_env_def)
  then show ?thesis using assms by (simp add: agent_workspace_env_def token_envs_def)
qed

lemma workspace_token:
  assumes "add_workspace t ws (bare_parts (agent_container t (Some ws) img pull prompt)) = Inr p"
    and secret: "ws_secret ws = Some s" and "\<not> list_ex (env_reads s) (task_env t)"
  shows "token_parts ws s p"
  using assms(1)
proof (rule add_workspace_parts)
  fix files
  assume files: "workspace_files ws = Inr files"
    and init: "pp_init p = git_clone_container ws # remote_setup (ws_remotes ws) @ branch_setup (ts_branch (t_spec t)) ws @ files"
    and vols: "pp_volumes p = \<lparr>vol_name = WorkspaceVolumeName, vol_source = EmptyDir\<rparr> # token_volumes ws"
    and mounts: "ct_mounts (pp_main p) = (if workspaceAgentGetsGitHubToken ws then workspace_mounts ws else [workspace_mount])"
    and env: "ct_env (pp_main p) = ct_env (pp_main (bare_parts (agent_container t (Some ws) img pull prompt))) @ setup_env ws"
    and name: "ct_name (pp_main p) = ct_name (pp_main (bare_parts (agent_container t (Some ws) img pull prompt)))"
  have name: "ct_name (pp_main p) = ''kelos-agent''" using name by (simp add: AgentContainerName_def)
  have "\<not> list_ex (env_reads s) (setup_env ws)" by (simp add: setup_env_def)
  then have "list_ex (env_reads s) (ct_env (pp_main p)) \<longleftrightarrow> workspaceAgentGetsGitHubToken ws"
    using assms(3) agent_workspace_takes [OF secret] by (simp add: env)
  moreover have "list_ex (\<lambda>m. vm_name m = GitHubTokenVolumeName) (ct_mounts (pp_main p)) \<longleftrightarrow> workspaceAgentGetsGitHubToken ws"
    using secret by (simp add: mounts workspace_mounts_def WorkspaceVolumeName_def GitHubTokenVolumeName_def)
  ultimately have "takes s (pp_main p) = placed ws (pp_main p)" by (simp add: takes_def placed_def name)
  moreover have "as_placed ws s (pp_init p)" unfolding init by (rule workspace_placed [OF secret files])
  moreover have "filter (volume_holds s) (pp_volumes p) = token_volumes ws"
    using secret by (simp add: vols volume_holds_def token_volumes_def)
  ultimately show ?thesis using name by (simp add: token_parts_def)
qed

lemma config_token:
  assumes "add_config reserve cm c p = Inr p'" and "token_parts ws s p"
    and skills: "\<not> list_ex (\<lambda>sk. sk_secret sk = Some s) (ac_skills c)"
  shows "token_parts ws s p'"
  using assms(1)
proof (rule add_config_parts)
  fix pinit pvols sinit mcp
  let ?plugins = "ac_plugins c \<noteq> [] \<or> ac_skills c \<noteq> []"
  assume plugins: "plugin_parts cm (ac_plugins c) = Inr (pinit, pvols)"
    and sinit: "skills_container (ac_skills c) = Inr sinit" and mcp: "mcp_servers_env (ac_mcp_servers c) = Inr mcp"
    and init: "pp_init p' = pp_init p @ pinit @ sinit"
    and vols: "pp_volumes p' = pp_volumes p @ (if ?plugins then [\<lparr>vol_name = PluginVolumeName, vol_source = EmptyDir\<rparr>] else []) @ pvols"
    and name: "ct_name (pp_main p') = ct_name (pp_main p)"
    and mounts: "ct_mounts (pp_main p') = ct_mounts (pp_main p)
      @ (if ?plugins then [mount PluginVolumeName PluginMountPath] else [])"
    and env: "ct_env (pp_main p') = ct_env (pp_main p) @ opt_env ''KELOS_AGENTS_MD'' (ac_agents_md c)
      @ (if ?plugins then [plain_env ''KELOS_PLUGIN_DIR'' PluginMountPath] else []) @ mcp"
  have "\<not> list_ex (env_reads s) mcp"
    using mcp by (auto simp: mcp_servers_env_def split: if_split_asm sum.split_asm)
  then have "takes s (pp_main p') = takes s (pp_main p)"
    unfolding takes_def env mounts by (simp add: PluginVolumeName_def GitHubTokenVolumeName_def)
  then have "takes s (pp_main p') = placed ws (pp_main p')"
    using assms(2) by (simp add: token_parts_def placed_def name)
  moreover have "as_placed ws s (pp_init p')"
    using assms(2) config_placed [OF plugins sinit skills] by (simp add: init token_parts_def)
  moreover have "filter (volume_holds s) pvols = []"
    by (rule plugin_parts_cases [OF plugins]) (simp_all add: volume_holds_def)
  then have "filter (volume_holds s) (pp_volumes p') = token_volumes ws"
    using assms(2) by (simp add: vols token_parts_def volume_holds_def)
  ultimately show ?thesis using assms(2) by (simp add: token_parts_def name)
qed

lemma overrides_token:
  assumes "add_overrides po p = Inr p'" and "token_parts ws s p"
    and "\<not> list_ex (env_reads s) (po_env po)" and "\<not> list_ex (volume_holds s) (po_volumes po)"
    and "\<not> list_ex (\<lambda>m. vm_name m = GitHubTokenVolumeName) (po_mounts po)"
  shows "token_parts ws s p'"
proof -
  note parts = add_overrides_parts [OF assms(1)]
  have "\<not> list_ex (env_reads s) (user_env built (po_env po))" for built
    using assms(3) by (auto simp: user_env_def list_ex_iff)
  then have "takes s (pp_main p') = takes s (pp_main p)"
    using assms(5) by (simp add: parts takes_def override_main_def)
  moreover have "filter (volume_holds s) (po_volumes po) = []"
    using assms(4) by (simp add: filter_empty_conv list_ex_iff)
  ultimately show ?thesis using assms(2) parts by (simp add: token_parts_def placed_def)
qed

text \<open>
  C8. Where the GitHub token of a workspace goes: as long as the user's own additions do not ask for it,
  the containers of the pod that can read the secret of the workspace are exactly the two that clone
  and that set up the branch and, unless the workspace withholds its credentials from agents, the agent.
\<close>
theorem token_isolated:
  assumes "Build b t (Some ws) ac prompt = Inr j" and "ws_secret ws = Some s" and "\<not> asks_for s t ac"
  shows "\<forall>c \<in> set (pd_init (job_pod j) @ pd_containers (job_pod j)).
           reads (job_pod j) s c
           \<longleftrightarrow> ct_name c \<in> {''git-clone'', ''branch-setup''}
               \<or> ct_name c = ''kelos-agent'' \<and> ws_agent_credentials ws \<noteq> ''None''"
  using assms(1)
proof (rule Build_steps)
  fix img pull p1 p2 p
  let ?main = "agent_container t (Some ws) img pull prompt" and ?po = "overrides_of t"
  assume workspace: "case Some ws of None \<Rightarrow> p1 = bare_parts ?main
      | Some w \<Rightarrow> validateWorkspaceCheckout t w = None \<and> add_workspace t w (bare_parts ?main) = Inr p1"
    and config: "case ac of None \<Rightarrow> p2 = p1
      | Some c \<Rightarrow> add_config True (PluginConfigMapName (t_name t)) c p1 = Inr p2"
    and user: "add_overrides ?po p2 = Inr p" and extra: "check_extra ?po = None" and j: "j = job_of t p"
  note silent = assms(3) [unfolded asks_for_def Let_def]
  have "token_parts ws s p1" using workspace silent by (intro workspace_token [OF _ assms(2)]) auto
  then have "token_parts ws s p2"
    using config silent by (cases ac) (auto elim: config_token)
  then have parts: "token_parts ws s p" using silent by (intro overrides_token [OF user]) auto
  have "as_placed ws s (po_extra ?po)" "as_placed ws s (po_extra_init ?po)"
    using silent by (auto intro!: extra_placed [OF check_extra_ok [OF extra]])
  then have "as_placed ws s (pd_init (job_pod j) @ pd_containers (job_pod j))"
    using parts by (simp add: token_parts_def j)
  moreover obtain v where "token_volumes ws = [v]" and v: "vol_name v = GitHubTokenVolumeName"
    using assms(2) by (simp add: token_volumes_def)
  then have "filter (volume_holds s) (pd_volumes (job_pod j)) = [v]"
    using parts by (simp add: token_parts_def j)
  then have "reads (job_pod j) s c = takes s c" for c using v by (rule takes_volumes)
  ultimately show ?thesis
    using assms(2) by (simp add: as_placed_def list_all_iff placed_def workspaceAgentGetsGitHubToken_def)
qed

section \<open>The Jobs that the reconciler creates\<close>

text \<open>The Job as it was built: adopting it for its task only changes the metadata.\<close>

definition as_built :: "env \<Rightarrow> job \<Rightarrow> bool" where
  "as_built E j \<longleftrightarrow>
     (\<exists>t ws ac prompt j0. Build (cfg_job_images E) t ws ac prompt = Inr j0 \<and> job_spec j = job_spec j0)"

fun builds_only :: "env \<Rightarrow> call \<Rightarrow> bool" where
  "builds_only E (CreateJob j) = as_built E j"
| "builds_only E _ = True"

lemma builds_only_no_job: "emits no_job m \<Longrightarrow> emits (builds_only E) m"
  by (erule emits_mono) (erule no_job.elims, simp_all)

lemmas builds_only_steps =
  emits_no_job_workspace [THEN builds_only_no_job] emits_no_job_agent_config [THEN builds_only_no_job]
  emits_no_job_prompt [THEN builds_only_no_job] emits_no_job_fail [THEN builds_only_no_job]
  emits_no_job_plugins [THEN builds_only_no_job] emits_no_job_dependencies [THEN builds_only_no_job]
  emits_no_job_branch [THEN builds_only_no_job] emits_no_job_admission [THEN builds_only_no_job]
  emits_no_job_follow [THEN builds_only_no_job] emits_no_job_record [THEN builds_only_no_job]
  emits_no_job_ttl [THEN builds_only_no_job] emits_no_job_deletion [THEN builds_only_no_job]

lemma submit_job_builds:
  assumes "as_built E j"
  shows "emits (builds_only E) (submit_job E t j)"
proof -
  have "builds_only E (CreateJob (j\<lparr>job_meta := meta\<rparr>))" for meta
    using assms by (simp add: as_built_def)
  then show ?thesis unfolding submit_job_def by (intro emits_intro) simp_all
qed

lemma createJob_builds: "emits (builds_only E) (createJob E t)"
  unfolding createJob_def
  by (intro emits_intro builds_only_steps submit_job_builds) (simp only: as_built_def, blast)

lemma start_task_builds: "emits (builds_only E) (start_task n E t)"
  unfolding start_task_def
  by (intro emits_intro builds_only_steps createJob_builds; simp only: builds_only.simps)


section \<open>Examples\<close>

definition plain_workspace :: workspace_spec where
  "plain_workspace =
     \<lparr>ws_repo = ''https://github.com/acme/shop.git'', ws_ref = ''main'', ws_clone = None, ws_secret = Some ''hub'',
      ws_agent_credentials = [], ws_ghproxy = False, ws_remotes = [], ws_files = [], ws_setup = [''make'']\<rparr>"

lemma built_example:
  obtains j where "Build plain_images (plain_task ''t'') (Some plain_workspace) None ''fix it'' = Inr j"
proof -
  have "\<not> isl (Build plain_images (plain_task ''t'') (Some plain_workspace) None ''fix it'')" by code_simp
  then show thesis using that by (cases "Build plain_images (plain_task ''t'') (Some plain_workspace) None ''fix it''") auto
qed

lemma job_well_formed_witness:
  "\<exists>j. Build plain_images (plain_task ''t'') (Some plain_workspace) None ''fix it'' = Inr j \<and> named_apart (job_pod j)"
proof -
  obtain j where j: "Build plain_images (plain_task ''t'') (Some plain_workspace) None ''fix it'' = Inr j"
    by (rule built_example)
  from job_well_formed [OF j] j show ?thesis by blast
qed

lemma built_in_env_wins_witness:
  "\<exists>j e. Build plain_images (plain_task ''t'') (Some plain_workspace) None ''fix it'' = Inr j
     \<and> effective (ct_env (agent_of j)) ''KELOS_SETUP_COMMAND'' = Some e"
proof -
  obtain j where j: "Build plain_images (plain_task ''t'') (Some plain_workspace) None ''fix it'' = Inr j"
    by (rule built_example)
  have "setup_part (Some plain_workspace) \<noteq> []" by code_simp
  then show ?thesis using built_in_env_wins [OF j] j by (cases "setup_part (Some plain_workspace)") auto
qed

lemma token_isolated_witness:
  "\<exists>j. Build plain_images (plain_task ''t'') (Some plain_workspace) None ''fix it'' = Inr j
     \<and> (\<forall>c \<in> set (pd_init (job_pod j)). reads (job_pod j) ''hub'' c \<longrightarrow> ct_name c \<noteq> ''plugin-setup'')"
proof -
  obtain j where j: "Build plain_images (plain_task ''t'') (Some plain_workspace) None ''fix it'' = Inr j"
    by (rule built_example)
  have "\<not> asks_for ''hub'' (plain_task ''t'') None" by code_simp
  moreover have "ws_secret plain_workspace = Some ''hub''" by code_simp
  ultimately show ?thesis using token_isolated [OF j] j by fastforce
qed


definition plain_pool :: worker_pool where
  "plain_pool =
     \<lparr>wp_meta = blank_meta\<lparr>m_name := ''pool'', m_namespace := ''default''\<rparr>,
      wp_worker = \<lparr>wk_type = ''codex'', wk_credentials = None, wk_model = [], wk_effort = [], wk_image = [],
        wk_workspace = None, wk_agent_configs = [], wk_pod_overrides = None\<rparr>,
      wp_replicas = Some 1, wp_claim_template = Opaque [], wp_status =
        \<lparr>wps_generation = 0, wps_phase = PoolUnset, wps_stateful_set = [], wps_service = [], wps_replicas = 0,
         wps_ready = 0, wps_message = []\<rparr>\<rparr>"

lemma pool_named_apart_witness:
  "\<exists>s. buildStatefulSet idle_cluster plain_pool ''s'' ''v'' (Some plain_workspace) None = Inr s \<and> named_apart (pool_pod s)"
proof -
  let ?s = "buildStatefulSet idle_cluster plain_pool ''s'' ''v'' (Some plain_workspace) None"
  have "\<not> isl ?s" by code_simp
  then obtain s where s: "?s = Inr s" by (cases ?s) auto
  have "''worker-runner'' \<notin> vol_name ` set (po_volumes (pool_overrides plain_pool))
    \<and> ''inject-worker-runner'' \<notin> ct_name ` set (po_extra (pool_overrides plain_pool) @ po_extra_init (pool_overrides plain_pool))"
    by (simp add: pool_overrides_def plain_pool_def no_overrides_def)
  then show ?thesis using pool_named_apart [OF s] s by simp
qed

end
