(* ===== verification/TaskLocks.thy ===== *)
theory TaskLocks
  imports TaskFacts
begin

text \<open>
  The task reconciler and the branch locks: a reconcile changes the lock table only on
  behalf of its own task, a task that finishes lets go of its branch, and a task that may
  not start yet does not keep it.
\<close>

section \<open>Acting for one task only\<close>

text \<open>
  \<open>only_locks n Q m\<close>: \<open>m\<close> returns values in \<open>Q\<close> and changes no entry of the lock table
  that belongs to another name than \<open>n\<close>, nor does it create one.
\<close>

definition only_locks :: "string \<Rightarrow> ('a \<Rightarrow> bool) \<Rightarrow> 'a io \<Rightarrow> bool" where
  "only_locks n Q m \<longleftrightarrow>
     (\<forall>w a w'. run_state m w = (a, w') \<longrightarrow>
        Q a \<and> (\<forall>k u. u \<noteq> n \<longrightarrow>
          (map_of (w_locks w') k = Some u \<longleftrightarrow> map_of (w_locks w) k = Some u)))"

abbreviation any :: "'a \<Rightarrow> bool" where "any \<equiv> \<lambda>_. True"

lemma only_locksD:
  "only_locks n Q m \<Longrightarrow> run_state m w = (a, w') \<Longrightarrow> u \<noteq> n \<Longrightarrow>
   map_of (w_locks w') k = Some u \<longleftrightarrow> map_of (w_locks w) k = Some u"
  by (simp add: only_locks_def)

lemma only_locks_value: "only_locks n Q m \<Longrightarrow> run_state m w = (a, w') \<Longrightarrow> Q a"
  by (simp add: only_locks_def)

lemma only_locks_keeps: "keeps_locks m \<Longrightarrow> only_locks n any m"
  by (auto simp: only_locks_def dest: keeps_locksD)

lemma only_locks_keeps_value:
  "keeps_locks m \<Longrightarrow> (\<And>w a w'. run_state m w = (a, w') \<Longrightarrow> Q a) \<Longrightarrow> only_locks n Q m"
  by (auto simp: only_locks_def dest: keeps_locksD)

lemma only_locks_return: "Q x \<Longrightarrow> only_locks n Q (ret x)"
  by (simp add: only_locks_def)

lemma only_locks_bind:
  assumes "only_locks n P m" and "\<And>a. P a \<Longrightarrow> only_locks n Q (f a)"
  shows "only_locks n Q (State_Monad.bind m f)"
  unfolding only_locks_def
proof (intro allI impI)
  fix w a w'
  assume "run_state (State_Monad.bind m f) w = (a, w')"
  then obtain b w1 where b: "run_state m w = (b, w1)" and f: "run_state (f b) w1 = (a, w')"
    by (rule run_bindE)
  have "P b" using assms(1) b by (rule only_locks_value)
  from only_locksD [OF assms(1) b] only_locksD [OF assms(2) [OF this] f]
    only_locks_value [OF assms(2) [OF this] f]
  show "Q a \<and> (\<forall>k u. u \<noteq> n \<longrightarrow>
      (map_of (w_locks w') k = Some u \<longleftrightarrow> map_of (w_locks w) k = Some u))"
    by simp
qed

lemma only_locks_acquire: "only_locks n any (lock_acquire_io k n)"
  by (auto simp: only_locks_def io_run TryAcquire_owner lock_acquire_iff)

lemma only_locks_release: "only_locks n any (lock_release_io k n)"
  by (auto simp: only_locks_def io_run Release_owner)

lemma only_locks_releaseBranchLock: "t_name t = n \<Longrightarrow> only_locks n any (releaseBranchLock t)"
  using only_locks_release [of n "branchLockKey t"]
  by (simp add: releaseBranchLock_def when_io_def only_locks_keeps emits_intro)


lemma only_locks_when: "only_locks n any m \<Longrightarrow> only_locks n any (when_io b m)"
  by (simp add: when_io_def only_locks_keeps emits_intro)

text \<open>The API server answers a read with an object of the name that was asked for.\<close>

definition reads_by_name :: "env \<Rightarrow> bool" where
  "reads_by_name E \<longleftrightarrow> (\<forall>h ns name t. q_task E h ns name = Inr t \<longrightarrow> t_name t = name)"

lemma only_locks_modify:
  assumes "reads_by_name E" and "t_name t = n"
    and "\<And>now fresh t'. f now fresh = Some t' \<Longrightarrow> t_name t' = t_name fresh"
  shows "only_locks n (\<lambda>(e, t'). t_name t' = n) (modify_task_status E t f)"
proof (rule only_locks_keeps_value)
  show "keeps_locks (modify_task_status E t f)" by (rule emits_intro)
  show "case a of (e, t') \<Rightarrow> t_name t' = n" if "run_state (modify_task_status E t f) w = (a, w')" for w a w'
    using that assms
    by (auto simp: modify_task_status_def io_run reads_by_name_def
        split: sum.splits option.splits prod.splits)
qed

lemma set_status_name [simp]: "t_meta (set_status f t) = t_meta t"
  by (simp add: set_status_def)

lemma only_locks_waiting:
  assumes "reads_by_name E" and "t_name t = n"
  shows "only_locks n (\<lambda>t'. t_name t' = n) (setWaitingPhase E t m)"
  unfolding setWaitingPhase_def
  by (rule only_locks_bind [OF only_locks_modify [OF assms]])
    (auto intro!: only_locks_return split: if_splits)

text \<open>
  The rules that find the footprint of a handler along its text: the parts that leave the
  table alone, the parts that act for the task, and the ways to combine them.
\<close>

named_theorems locks_intro "rules for only_locks"

lemmas keeps_heads [locks_intro] =
  keeps_locks_read [THEN only_locks_keeps] keeps_locks_write [THEN only_locks_keeps]
  keeps_locks_log [THEN only_locks_keeps] keeps_locks_clock [THEN only_locks_keeps]
  keeps_locks_skip [THEN only_locks_keeps] keeps_locks_logs [THEN only_locks_keeps]
  keeps_locks_token(3) [THEN only_locks_keeps]
  keeps_locks_resolve_token [THEN only_locks_keeps] keeps_locks_fetch [THEN only_locks_keeps]
  keeps_locks_skills [THEN only_locks_keeps] keeps_locks_servers [THEN only_locks_keeps]
  keeps_locks_prompt [THEN only_locks_keeps] keeps_locks_plugins [THEN only_locks_keeps]
  keeps_locks_submit [THEN only_locks_keeps]
  keeps_createTaskRecord [THEN only_locks_keeps]

lemma only_locks_if [locks_intro]:
  "(b \<Longrightarrow> only_locks n Q m) \<Longrightarrow> (\<not> b \<Longrightarrow> only_locks n Q m') \<Longrightarrow>
   only_locks n Q (if b then m else m')"
  by simp

lemma only_locks_option [locks_intro]:
  "(x = None \<Longrightarrow> only_locks n Q m) \<Longrightarrow> (\<And>a. x = Some a \<Longrightarrow> only_locks n Q (f a)) \<Longrightarrow>
   only_locks n Q (case x of None \<Rightarrow> m | Some a \<Rightarrow> f a)"
  by (cases x) auto

lemma only_locks_sum [locks_intro]:
  "(\<And>e. x = Inl e \<Longrightarrow> only_locks n Q (f e)) \<Longrightarrow> (\<And>a. x = Inr a \<Longrightarrow> only_locks n Q (g a)) \<Longrightarrow>
   only_locks n Q (case x of Inl e \<Rightarrow> f e | Inr a \<Rightarrow> g a)"
  by (cases x) auto

lemma only_locks_prod [locks_intro]:
  "(\<And>a b. x = (a, b) \<Longrightarrow> only_locks n Q (f a b)) \<Longrightarrow> only_locks n Q (case x of (a, b) \<Rightarrow> f a b)"
  by (cases x) auto

lemma only_locks_let [locks_intro]: "only_locks n Q (f x) \<Longrightarrow> only_locks n Q (let y = x in f y)"
  by simp

lemma only_locks_bind_any [locks_intro]:
  "only_locks n any m \<Longrightarrow> (\<And>a. only_locks n Q (f a)) \<Longrightarrow> only_locks n Q (State_Monad.bind m f)"
  by (rule only_locks_bind)

lemmas [locks_intro] = only_locks_return only_locks_releaseBranchLock only_locks_when

lemma only_locks_failTask:
  assumes "reads_by_name E" and "t_name t = n"
  shows "only_locks n (\<lambda>(e, t'). t_name t' = n) (failTaskBeforeJob E t message)"
  unfolding failTaskBeforeJob_def
  by (rule only_locks_bind [OF only_locks_modify [OF assms]]) (auto intro!: locks_intro)

lemma only_locks_fail [locks_intro]:
  assumes "reads_by_name E" and "t_name t = n"
  shows "only_locks n any (fail_before_job E t reason message)"
  unfolding fail_before_job_def
  by (intro only_locks_bind_any locks_intro only_locks_bind [OF only_locks_failTask [OF assms]]; simp)

lemma only_locks_workspace [locks_intro]:
  assumes "reads_by_name E" and "t_name t = n"
  shows "only_locks n any (resolve_workspace E t)"
  unfolding resolve_workspace_def by (intro locks_intro assms; simp)

lemma only_locks_mcp [locks_intro]:
  assumes "reads_by_name E" and "t_name t = n"
  shows "only_locks n any (resolve_mcp_servers E t ac)"
  unfolding resolve_mcp_servers_def by (intro locks_intro assms; simp)

lemma only_locks_agent_config [locks_intro]:
  assumes "reads_by_name E" and "t_name t = n"
  shows "only_locks n any (resolve_agent_config E t)"
  unfolding resolve_agent_config_def validateSkillsAuthSecrets_def
  by (intro locks_intro assms; simp)

lemma only_locks_createJob [locks_intro]:
  assumes "reads_by_name E" and "t_name t = n"
  shows "only_locks n any (createJob E t)"
  unfolding createJob_def by (intro locks_intro assms; simp)

section \<open>The handlers that carry the task along\<close>

abbreviation gate_for :: "string \<Rightarrow> gate \<Rightarrow> bool" where
  "gate_for n \<equiv> \<lambda>(ready, out, t'). t_name t' = n"

lemma keeps_locks_metrics [emits_intro]:
  "keeps_locks (recordTaskCompleted t ph)" "keeps_locks (observeTaskDuration t ph d)"
  "keeps_locks (count_usage E metric t results key)" "keeps_locks (recordEvent ty reason message)"
  unfolding recordTaskCompleted_def observeTaskDuration_def count_usage_def recordEvent_def
  by (intro emits_intro)+

lemma keeps_locks_usage [emits_intro]: "keeps_locks (RecordCostTokenMetrics E t results)"
  unfolding RecordCostTokenMetrics_def by (intro emits_intro)

lemma keeps_locks_walk_each:
  "(\<And>d v. keeps_locks (step d v)) \<Longrightarrow> keeps_locks (walk_each step deps v)"
  by (induction deps arbitrary: v) (simp_all only: walk_each.simps, (intro emits_intro; simp)+)

lemma keeps_locks_walk [emits_intro]: "keeps_locks (walkDeps n E ns name visited)"
  by (induction n arbitrary: name visited)
    (simp_all only: walkDeps.simps, (intro emits_intro keeps_locks_walk_each; simp)+)

lemma keeps_locks_detect [emits_intro]: "keeps_locks (detectCycle n E t)"
  unfolding detectCycle_def by (intro emits_intro)

lemma only_locks_fail_on_dependency:
  assumes "reads_by_name E" and "t_name t = n"
  shows "only_locks n (\<lambda>t'. t_name t' = n) (fail_on_dependency E t m)"
  unfolding fail_on_dependency_def
  by (rule only_locks_bind [OF only_locks_modify [OF assms]]) (auto intro!: locks_intro)

lemmas metrics_heads [locks_intro] = keeps_locks_metrics [THEN only_locks_keeps]
  keeps_locks_usage [THEN only_locks_keeps] keeps_locks_detect [THEN only_locks_keeps]

lemma only_locks_await [locks_intro]:
  assumes "reads_by_name E" and "t_name t = n"
  shows "only_locks n (gate_for n) (await_dependencies E t deps)"
proof (induction deps)
  case Nil
  then show ?case by (simp add: only_locks_return assms)
next
  case (Cons dep deps)
  show ?case
    unfolding await_dependencies.simps
    by (intro locks_intro only_locks_bind [OF only_locks_waiting [OF assms]]
        only_locks_bind [OF only_locks_fail_on_dependency [OF assms]])
      (simp_all add: Cons assms locks_intro only_locks_bind_any)
qed

lemma only_locks_dependencies:
  assumes "reads_by_name E" and "t_name t = n"
  shows "only_locks n (\<lambda>r. case r of None \<Rightarrow> True | Some g \<Rightarrow> gate_for n g) (checkDependencies k E t)"
proof -
  have g: "only_locks n Q (do { g \<leftarrow> await_dependencies E t (ts_depends_on (t_spec t)); ret (Some g) })"
    if "\<And>g. gate_for n g \<Longrightarrow> Q (Some g)" for Q
    by (rule only_locks_bind [OF only_locks_await [OF assms]]) (simp add: that only_locks_return)
  show ?thesis
    unfolding checkDependencies_def
    by (intro locks_intro only_locks_bind [OF only_locks_fail_on_dependency [OF assms]] g; simp)
qed

lemma only_locks_scan:
  assumes "reads_by_name E" and "t_name t = n"
  shows "only_locks n (gate_for n) (scan_branch_queue E t tasks)"
proof (induction tasks)
  case Nil
  then show ?case by (simp add: only_locks_return assms)
next
  case (Cons u tasks)
  show ?case
    unfolding scan_branch_queue.simps
    by (intro locks_intro only_locks_bind [OF only_locks_waiting [OF assms]] Cons; simp)
qed

lemma only_locks_checkBranch:
  assumes "reads_by_name E" and "t_name t = n"
  shows "only_locks n (gate_for n) (checkBranchLock E t)"
  unfolding checkBranchLock_def
  by (intro locks_intro only_locks_scan assms) (simp add: assms)

lemma only_locks_enterBranch:
  assumes "reads_by_name E" and "t_name t = n"
  shows "only_locks n (gate_for n) (enterBranch E t)"
proof -
  have rel: "only_locks n any (lock_release_io k (t_name u))" if "t_name u = n" for u :: task and k
    using only_locks_release [of n k] that by simp
  have acq: "only_locks n any (lock_acquire_io k (t_name t))" for k
    using only_locks_acquire [of n k] assms(2) by simp
  show ?thesis
    unfolding enterBranch_def
    by (intro only_locks_if only_locks_bind_any [OF acq] only_locks_prod only_locks_return
        only_locks_bind [OF only_locks_waiting [OF assms]]
        only_locks_bind [OF only_locks_checkBranch [OF assms]] only_locks_bind_any [OF rel])
      (use assms in auto)
qed

section \<open>The task that admission hands on\<close>

lemma only_locks_blocked:
  assumes "reads_by_name E" and "t_name t = n"
  shows "only_locks n (\<lambda>t'. t_name t' = n) (setBudgetBlockedPhase E t b reason)"
    and "only_locks n (\<lambda>t'. t_name t' = n) (clearBudgetBlockedCondition E t)"
  unfolding setBudgetBlockedPhase_def clearBudgetBlockedCondition_def Let_def
  by (intro locks_intro only_locks_bind [OF only_locks_modify [OF assms]];
      simp add: assms split: if_splits; fastforce)+

lemma set_annotations_name [simp]: "t_name (set_annotations a t) = t_name t"
  by (simp add: set_annotations_def)

lemma only_locks_snapshot:
  assumes "t_name t = n"
  shows "only_locks n (\<lambda>(e, t'). t_name t' = n) (ensureBudgetLabelSnapshot E t)"
  unfolding ensureBudgetLabelSnapshot_def
  by (intro locks_intro; simp add: assms)

lemmas budget_heads [locks_intro] =
  keeps_setBudgetDegraded [THEN only_locks_keeps] keeps_clearBudgetDegraded [THEN only_locks_keeps]
  keeps_updateBudgetStatus [THEN only_locks_keeps] keeps_sumPeriodUsage [THEN only_locks_keeps]

lemma only_locks_admission_loop:
  assumes "reads_by_name E" and "t_name t = n"
  shows "only_locks n (gate_for n) (admission_loop E t m bs)"
  using assms
proof (induction E t m bs rule: admission_loop.induct)
  case (1 E t m)
  then show ?case
    unfolding admission_loop.simps
    by (intro locks_intro only_locks_bind [OF only_locks_snapshot]
        only_locks_bind [OF only_locks_blocked(2)]; simp)
next
  case (2 E t m b bs)
  note IH = "2.IH" and prems = "2.prems"
  show ?case
    unfolding admission_loop.simps
    by (intro locks_intro only_locks_bind [OF only_locks_blocked(1) [OF prems]])
      (use IH prems in \<open>auto simp: Let_def\<close>)
qed

lemma only_locks_admission:
  assumes "reads_by_name E" and "t_name t = n"
  shows "only_locks n (gate_for n) (checkBudgetAdmission E t)"
  unfolding checkBudgetAdmission_def
  by (rule only_locks_bind_any [OF keeps_locks_read [THEN only_locks_keeps]])
    (auto intro!: only_locks_bind [OF only_locks_blocked(2) [OF assms]] only_locks_return
      only_locks_admission_loop assms split: sum.split)

section \<open>The whole reconcile\<close>

lemma keeps_locks_retry_token [emits_intro]: "keeps_locks (remint_token E ns ts s u d)"
  unfolding remint_token_def by (intro emits_intro)

lemma keeps_locks_refresh [emits_intro]: "keeps_locks (refreshGitHubAppTokenSecret E ns nm u)"
  unfolding refreshGitHubAppTokenSecret_def by (intro emits_intro)

lemma keeps_locks_follow [emits_intro]:
  "keeps_locks (refreshGitHubAppTokenIfNeeded E t)" "keeps_locks (applyTaskTTL E t res)"
  "keeps_locks (record_if_terminal E t)" "keeps_locks (readOutputs E ns p)"
  "keeps_locks (observe_completion v t)" "keeps_locks (cancel_on_pod E t)"
  "keeps_locks (delete_job E t)"
  unfolding refreshGitHubAppTokenIfNeeded_def applyTaskTTL_def ttlExpired_def
    record_if_terminal_def readOutputs_def observe_completion_def cancel_on_pod_def delete_job_def
    requestWorkerPodTaskCancellation_def clearWorkerPodTaskAnnotations_def
  by (intro emits_intro)+

lemma keeps_locks_announce [emits_intro]: "keeps_locks (announce_phase t change)"
  by (auto simp: announce_phase_def intro!: emits_intro
      split: option.splits prod.splits task_phase.splits)

lemma keeps_locks_finish [emits_intro]:
  "keeps_locks (count_completion E v results t)" "keeps_locks (finish_update v outputs results x)"
  unfolding count_completion_def finish_update_def by (intro emits_intro)+

lemmas finish_heads [locks_intro] = keeps_locks_finish [THEN only_locks_keeps]

lemmas follow_heads [locks_intro] = keeps_locks_follow [THEN only_locks_keeps]
  keeps_locks_announce [THEN only_locks_keeps]

lemma only_locks_after_update:
  assumes "t_name t = n"
  shows "only_locks n any (after_update E v outputs results t)"
  unfolding after_update_def by (intro locks_intro assms; simp)

lemma only_locks_view:
  assumes "reads_by_name E" and "t_name t = n"
  shows "only_locks n any (write_job_view E t v outputs results)"
  unfolding write_job_view_def
  by (rule only_locks_bind [OF only_locks_modify [OF assms]])
    (auto intro!: locks_intro only_locks_bind_any [OF only_locks_after_update] split: option.split)

lemma only_locks_updateStatus:
  assumes "reads_by_name E" and "t_name t = n"
  shows "only_locks n any (updateStatus E t j)"
  unfolding updateStatus_def by (intro locks_intro only_locks_view assms; simp)

lemma only_locks_follow_job:
  assumes "reads_by_name E" and "t_name t = n"
  shows "only_locks n any (follow_job E t j)"
  unfolding follow_job_def
  by (intro locks_intro only_locks_bind_any [OF only_locks_updateStatus [OF assms]]; simp)

lemma only_locks_deletion:
  assumes "t_name t = n"
  shows "only_locks n any (handleDeletion E t)"
  unfolding handleDeletion_def by (intro locks_intro assms; simp)

lemma only_locks_start_task:
  assumes "reads_by_name E" and "t_name t = n"
  shows "only_locks n any (start_task k E t)"
proof -
  have d: "only_locks n (\<lambda>r. case r of None \<Rightarrow> True | Some g \<Rightarrow> gate_for n g)
      (if ts_depends_on (t_spec t) \<noteq> [] then checkDependencies k E t
       else ret (Some (True, (no_requeue, None), t)))"
    using only_locks_dependencies [OF assms] by (auto intro: only_locks_return simp: assms)
  show ?thesis
    unfolding start_task_def
    by (rule only_locks_bind [OF d])
      (auto intro!: locks_intro only_locks_bind [OF only_locks_enterBranch [OF assms(1)]]
        only_locks_bind [OF only_locks_admission [OF assms(1)]] assms(1)
        split: option.split)
qed

lemma only_locks_reconcile:
  assumes "reads_by_name E"
  shows "only_locks name any (task_reconcile n E ns name)"
proof -
  have start: "only_locks name any (start_task n E t)" "only_locks name any (follow_job E t j)"
    "only_locks name any (handleDeletion E t)" if "t_name t = name" for t j
    using only_locks_start_task only_locks_follow_job only_locks_deletion assms that by blast+
  have named: "only_locks name (\<lambda>r. case r of Inl e \<Rightarrow> True | Inr t \<Rightarrow> t_name t = name)
      (read_obj (q_task E) ''Task'' ns name)"
    using assms by (auto simp: only_locks_def io_run reads_by_name_def split: sum.split)
  show ?thesis
    unfolding task_reconcile_def
    by (rule only_locks_bind [OF named])
      (auto intro!: locks_intro start split: sum.split)
qed

text \<open>
  C3. Reconciling a task changes no lock of another task, whatever happens on the way:
  every key held under another name before is held under it afterwards, and none is newly
  held under another name.
\<close>

theorem other_locks_kept:
  assumes "reads_by_name E" and "run_state (task_reconcile n E ns name) w = (r, w')"
    and "owner \<noteq> name"
  shows "map_of (w_locks w') k = Some owner \<longleftrightarrow> map_of (w_locks w) k = Some owner"
  by (rule only_locksD [OF only_locks_reconcile [OF assms(1)] assms(2,3)])

lemma other_locks_kept_witness:
  "map_of (w_locks (snd (run_state (task_reconcile 3 branch_cluster ''default'' ''t'')
     (start\<lparr>w_locks := [('':other'', ''u'')]\<rparr>)))) '':other'' = Some ''u''"
proof -
  have "reads_by_name branch_cluster"
    by (auto simp: reads_by_name_def branch_cluster_def branch_task_def cluster_defs)
  from other_locks_kept [OF this prod.collapse [symmetric], of "''u''" "''t''"] show ?thesis
    by simp
qed

end
