(* ===== verification/TaskOutcome.thy ===== *)
theory TaskOutcome
  imports TaskLocks
begin

text \<open>
  How a task ends: what is written when its Job finishes, when it is deleted because its
  time is up, what deletion waits for, and who is told about it.
\<close>

section \<open>A finished Job\<close>

lemma apply_job_view_completed:
  assumes "jv_change v = Some (phase, message)" and "phase = PhaseSucceeded \<or> phase = PhaseFailed"
  shows "st_phase (apply_job_view E v outputs results now s) = phase
    \<and> st_completion (apply_job_view E v outputs results now s) = Some now
    \<and> st_outputs (apply_job_view E v outputs results now s) = outputs
    \<and> st_results (apply_job_view E v outputs results now s) = results
    \<and> st_usage (apply_job_view E v outputs results now s)
      = usageFromResults (l_parse_quantity E) results"
  using assms
  by (auto simp: apply_job_view_def with_outputs_def jv_completes_def Let_def split: option.split)

lemma Release_own: "map_of (Release s k t) k \<noteq> Some t"
  by (simp add: Release_owner)

lemma releaseBranchLock_free:
  assumes "run_state (releaseBranchLock t) w = (u, w')" and "usesBranchLock t"
  shows "map_of (w_locks w') (branchLockKey t) \<noteq> Some (t_name t)"
  using assms Release_own by (auto simp: releaseBranchLock_def when_io_def io_run)

lemma keeps_locks_not:
  "keeps_locks m \<Longrightarrow> run_state m w = (a, w') \<Longrightarrow> map_of (w_locks w) k \<noteq> x \<Longrightarrow> map_of (w_locks w') k \<noteq> x"
  by (simp add: keeps_locksD)

lemma after_update_steps:
  assumes "run_state (after_update E v outputs results t) w = (out, w')"
  obtains u w1 w2 x w3 where "run_state (when_io (jv_completes v) (releaseBranchLock t)) w = (u, w1)"
    and "run_state (count_completion E v results t) w1 = (u, w2)"
    and "run_state (record_if_terminal E t) w2 = (x, w3)"
    and "run_state (finish_update v outputs results x) w3 = (out, w')"
  using assms unfolding after_update_def by (elim run_bindE) (rule that; simp)

lemma after_update_free:
  assumes "run_state (after_update E v outputs results t) w = (out, w')"
    and "jv_completes v" and "usesBranchLock t"
  shows "map_of (w_locks w') (branchLockKey t) \<noteq> Some (t_name t)"
  using assms(1)
proof (rule after_update_steps)
  fix u w1 w2 x w3
  assume r: "run_state (when_io (jv_completes v) (releaseBranchLock t)) w = (u, w1)"
    and m: "run_state (count_completion E v results t) w1 = (u, w2)"
    and x: "run_state (record_if_terminal E t) w2 = (x, w3)"
    and f: "run_state (finish_update v outputs results x) w3 = (out, w')"
  have "map_of (w_locks w1) (branchLockKey t) \<noteq> Some (t_name t)"
    using r assms by (intro releaseBranchLock_free) (simp add: when_io_def)
  moreover have "w_locks w2 = w_locks w1"
    by (rule keeps_locksD [OF _ m]) (intro emits_intro)
  ultimately show ?thesis
    using keeps_locksD [OF _ x] keeps_locksD [OF _ f] by (simp add: emits_intro)
qed

lemma after_update_records:
  assumes "run_state (after_update E v outputs results t) w = ((res, None), w')"
    and "isTerminalTaskPhase (t_phase t)" and "st_usage (t_status t) \<noteq> None"
  shows "\<exists>labels ty model. taskRecordLabels E t = Inr labels
    \<and> CreateRecord (task_record_of t labels ty model) \<in> set (new_calls w w')"
  using assms(1)
proof (rule after_update_steps)
  fix u w1 w2 x w3
  assume r: "run_state (when_io (jv_completes v) (releaseBranchLock t)) w = (u, w1)"
    and m: "run_state (count_completion E v results t) w1 = (u, w2)"
    and x: "run_state (record_if_terminal E t) w2 = (x, w3)"
    and f: "run_state (finish_update v outputs results x) w3 = ((res, None), w')"
  have none: "x = None" using f by (cases x) (auto simp: finish_update_def)
  have "run_state (createTaskRecord E t) w2 = (None, w3)"
    using x none assms(2,3) by (simp add: record_if_terminal_def)
  then obtain labels ty model cs where c: "taskRecordLabels E t = Inr labels"
    "w_calls w3 = w_calls w2 @ cs @ [CreateRecord (task_record_of t labels ty model)]"
    using assms(3) by (rule createTaskRecord_calls)
  have "emits no_job (when_io (jv_completes v) (releaseBranchLock t))" by (intro emits_intro)
  then have "grows w w1" using r by (rule emits_grows)
  moreover have "grows w1 w2" by (rule emits_grows [OF emits_no_job_count m])
  moreover have "grows w3 w'" by (rule emits_grows [OF emits_no_job_finish f])
  moreover have "grows w2 w3" using c(2) by (simp add: grows_def)
  ultimately have "CreateRecord (task_record_of t labels ty model) \<in> set (new_calls w w')"
    using c(2) by (intro new_calls_mono [of w w2 w3 w']) (auto intro: grows_trans)
  with c(1) show ?thesis by blast
qed

lemma write_job_view_completed:
  assumes "run_state (write_job_view E t v outputs results) w = (((res, None), t'), w')"
    and "jv_change v = Some (phase, message)" and "isTerminalTaskPhase phase"
  shows "t_phase t' = phase \<and> st_completion (t_status t') \<noteq> None
    \<and> st_usage (t_status t') = usageFromResults (l_parse_quantity E) (st_results (t_status t'))
    \<and> UpdateTaskStatus t' \<in> set (new_calls w w')
    \<and> (usesBranchLock t' \<longrightarrow> map_of (w_locks w') (branchLockKey t') \<noteq> Some (t_name t'))
    \<and> (st_usage (t_status t') \<noteq> None \<longrightarrow>
        (\<exists>labels ty model. taskRecordLabels E t' = Inr labels
           \<and> CreateRecord (task_record_of t' labels ty model) \<in> set (new_calls w w')))"
proof -
  let ?upd = "\<lambda>now fresh. Some (set_status (apply_job_view E v outputs results now) fresh)"
  obtain u t1 w1 where m: "run_state (modify_task_status E t ?upd) w = ((u, t1), w1)"
    by (metis surj_pair)
  have u: "u = None" and t1: "t1 = t'"
    and a: "run_state (after_update E v outputs results t') w1 = ((res, None), w')"
    using assms(1) m
    by (cases u; auto simp: write_job_view_def split: prod.splits)+
  obtain fresh now where t': "t' = set_status (apply_job_view E v outputs results now) fresh"
    and calls: "w_calls w1 = w_calls w @ [Read ''Task'' (t_namespace t) (t_name t), UpdateTaskStatus t']"
    using m u t1 by (auto simp: modify_task_status_def io_run split: sum.splits prod.splits)
  have ph: "phase = PhaseSucceeded \<or> phase = PhaseFailed"
    using assms(3) by (simp add: isTerminalTaskPhase_def)
  then have completes: "jv_completes v" using assms(2) by (auto simp: jv_completes_def)
  note final = apply_job_view_completed [OF assms(2) ph, of E outputs results now "t_status fresh"]
  have status: "t_phase t' = phase" "st_completion (t_status t') \<noteq> None"
    "st_usage (t_status t') = usageFromResults (l_parse_quantity E) (st_results (t_status t'))"
    using final by (simp_all add: t' set_status_def)
  have grow: "grows w w1" "grows w1 w'"
    using calls emits_grows [OF emits_no_job_after_update a] by (simp_all add: grows_def)
  have "UpdateTaskStatus t' \<in> set (new_calls w w1)" using calls by simp
  then have upd: "UpdateTaskStatus t' \<in> set (new_calls w w')"
    using grow by (intro new_calls_mono [of w w w1 w']) (simp_all add: grows_def)
  have rec: "\<exists>labels ty model. taskRecordLabels E t' = Inr labels
      \<and> CreateRecord (task_record_of t' labels ty model) \<in> set (new_calls w w')"
    if "st_usage (t_status t') \<noteq> None"
  proof -
    have "isTerminalTaskPhase (t_phase t')" using assms(3) status(1) by simp
    from after_update_records [OF a this that] obtain labels ty model where
      "taskRecordLabels E t' = Inr labels"
      "CreateRecord (task_record_of t' labels ty model) \<in> set (new_calls w1 w')" by blast
    moreover from this(2) have "CreateRecord (task_record_of t' labels ty model) \<in> set (new_calls w w')"
      using grow by (intro new_calls_mono [of w w1 w' w']) (simp_all add: grows_def)
    ultimately show ?thesis by blast
  qed
  show ?thesis
    using status upd rec after_update_free [OF a completes] by simp
qed

text \<open>
  C13. When a Job has finished and the status update goes through, the task is written with
  the final phase, its completion time and the usage parsed from its results; it no longer
  holds its branch; and if it has usage, a record of it is requested.
\<close>

theorem finished_task:
  assumes "run_state (updateStatus E t j) w = (((res, None), t'), w')"
    and "next_phase t j = Some (phase, message)" and "isTerminalTaskPhase phase"
  shows "t_phase t' = phase \<and> st_completion (t_status t') \<noteq> None
    \<and> st_usage (t_status t') = usageFromResults (l_parse_quantity E) (st_results (t_status t'))
    \<and> UpdateTaskStatus t' \<in> set (new_calls w w')
    \<and> (usesBranchLock t' \<longrightarrow> map_of (w_locks w') (branchLockKey t') \<noteq> Some (t_name t'))
    \<and> (st_usage (t_status t') \<noteq> None \<longrightarrow>
        (\<exists>labels ty model. taskRecordLabels E t' = Inr labels
           \<and> CreateRecord (task_record_of t' labels ty model) \<in> set (new_calls w w')))"
proof -
  obtain v outputs results w1 where v: "jv_change v = Some (phase, message)"
    and wr: "run_state (write_job_view E t v outputs results) w1 = (((res, None), t'), w')"
    and g: "grows w w1"
  proof -
    let ?w1 = "w\<lparr>w_calls := w_calls w @ [Read ''PodList'' (t_namespace t) (t_name t)]\<rparr>"
    let ?r = "q_pods E (w_calls w) (t_namespace t) (t_name t)"
    let ?pod = "case ?r of Inl _ \<Rightarrow> [] | Inr pods \<Rightarrow> latestTaskPodName pods"
    let ?v = "\<lparr>jv_change = Some (phase, message),
      jv_pod = (if (case ?r of Inl _ \<Rightarrow> False | Inr _ \<Rightarrow> st_pod_name (t_status t) \<noteq> ?pod)
        then Some ?pod else None), jv_retry = False\<rparr>"
    obtain u w2 where u: "run_state (announce_phase t (Some (phase, message))) ?w1 = (u, w2)"
      by (cases "run_state (announce_phase t (Some (phase, message))) ?w1")
    obtain outputs results w3 where o: "run_state (readOutputs E (t_namespace t)
        (if ?pod = [] then st_pod_name (t_status t) else ?pod)) w2 = ((outputs, results), w3)"
      by (metis surj_pair)
    have "jv_completes ?v" using assms(3) by (auto simp: jv_completes_def isTerminalTaskPhase_def)
    then have "run_state (write_job_view E t ?v outputs results) w3 = (((res, None), t'), w')"
      using assms(1,2) u o by (simp add: updateStatus_def io_run Let_def)
    moreover have "emits no_job (readOutputs E ns p)" for ns p
      unfolding readOutputs_def by (intro emits_intro; simp)
    from emits_grows [OF this o] emits_grows [OF emits_no_job_announce u] have "grows w w3"
      by (auto simp: grows_def prefix_def)
    ultimately show thesis by (intro that [of ?v outputs results w3]) simp_all
  qed
  have "grows w1 w'" by (rule emits_grows [OF emits_no_job_view wr])
  with g have mono: "c \<in> set (new_calls w1 w') \<Longrightarrow> c \<in> set (new_calls w w')" for c
    by (intro new_calls_mono [of w w1 w' w']) (simp_all add: grows_def)
  from write_job_view_completed [OF wr v assms(3)] mono show ?thesis by blast
qed

text \<open>A Job that has succeeded, for a task whose pod has left results in its log.\<close>

definition done_job :: job where
  "done_job = \<lparr>job_meta = blank_meta, job_active = 0, job_succeeded = 1, job_conditions = [],
     job_spec = blank_job_spec\<rparr>"

definition running_task :: "string \<Rightarrow> task" where
  "running_task name = (branch_task name)
     \<lparr>t_status := new_status\<lparr>st_phase := PhaseRunning, st_pod_name := ''p''\<rparr>\<rparr>"

definition done_cluster :: env where
  "done_cluster = branch_cluster\<lparr>q_task := (\<lambda>h ns name. Inr (running_task name)),
     q_logs := (\<lambda>h ns pod. Some (outputStartMarker @ [CHR 0x0A] @ ''input-tokens: 5'' @ [CHR 0x0A]
                               @ outputEndMarker))\<rparr>"

lemma finished_task_witness:
  "\<exists>t' labels ty model.
     st_usage (t_status t') = usageFromResults (l_parse_quantity done_cluster) (st_results (t_status t'))
     \<and> CreateRecord (task_record_of t' labels ty model)
       \<in> set (w_calls (snd (run_state (updateStatus done_cluster (running_task ''t'') done_job) start)))"
proof -
  let ?r = "run_state (updateStatus done_cluster (running_task ''t'') done_job) start"
  have "snd (fst (fst ?r)) = None" by code_simp
  then have r: "?r = (((fst (fst (fst ?r)), None), snd (fst ?r)), snd ?r)"
    by (simp add: prod_eq_iff)
  have n: "next_phase (running_task ''t'') done_job = Some (PhaseSucceeded, ''Task completed successfully'')"
    by (simp add: next_phase_def running_task_def new_status_def done_job_def)
  have "st_usage (t_status (snd (fst ?r))) \<noteq> None" by code_simp
  with finished_task [OF r n] show ?thesis
    by (auto simp: isTerminalTaskPhase_def start_def)
qed

section \<open>Tasks that may not start\<close>

lemma scan_branch_queue_waits:
  assumes "run_state (scan_branch_queue E t tasks) w = ((locked, out, t'), w')" and "locked"
  shows "out = (after (seconds 10), None)"
  using assms by (induction tasks) (auto split: if_splits prod.splits)

lemma checkBranchLock_waits:
  assumes "run_state (checkBranchLock E t) w = ((locked, out, t'), w')" and "locked"
  shows "out = (after (seconds 10), None)"
proof (cases "q_tasks E (w_calls w) (t_namespace t) []")
  case (Inl e)
  with assms show ?thesis by (simp add: checkBranchLock_def io_run)
next
  case (Inr tasks)
  with assms(1) have "run_state (scan_branch_queue E t tasks)
      (w\<lparr>w_calls := w_calls w @ [Read ''TaskList'' (t_namespace t) []]\<rparr>) = ((locked, out, t'), w')"
    by (simp add: checkBranchLock_def io_run)
  then show ?thesis using assms(2) by (rule scan_branch_queue_waits)
qed

text \<open>
  A task that is turned away from its branch does not hold it: either another task
  holds the lock, or the lock it had taken is given back. Unless there was an error it is
  looked at again after ten seconds.
\<close>

theorem turned_away:
  assumes "reads_by_name E" and "usesBranchLock t"
    and "run_state (enterBranch E t) w = ((False, (res, err), t'), w')"
  shows "map_of (w_locks w') (branchLockKey t) \<noteq> Some (t_name t)
    \<and> (err = None \<longrightarrow> res = after (seconds 10))"
proof -
  let ?k = "branchLockKey t" and ?n = "t_name t"
  let ?w = "w\<lparr>w_locks := snd (TryAcquire (w_locks w) ?k ?n)\<rparr>"
  show ?thesis
  proof (cases "fst (fst (TryAcquire (w_locks w) ?k ?n))")
    case False
    obtain holder where h: "fst (TryAcquire (w_locks w) ?k ?n) = (False, holder)"
      using False by (cases "fst (TryAcquire (w_locks w) ?k ?n)") simp
    obtain t1 w1 where s: "run_state (setWaitingPhase E t (''Waiting for branch ''
        @ quote (ts_branch (t_spec t)) @ '' (locked by '' @ holder @ '')'')) ?w = (t1, w1)" by fastforce
    have "w' = w1 \<and> res = after (seconds 10)"
      using assms(2,3) h s by (simp add: enterBranch_def io_run)
    moreover have "map_of (w_locks ?w) ?k \<noteq> Some ?n"
      using TryAcquire_refused_holder [OF False] by simp
    ultimately show ?thesis using keeps_locksD [OF setWaitingPhase_locks s] by simp
  next
    case True
    obtain holder where h: "fst (TryAcquire (w_locks w) ?k ?n) = (True, holder)"
      using True by (cases "fst (TryAcquire (w_locks w) ?k ?n)") simp
    obtain locked out1 t1 w1 where c: "run_state (checkBranchLock E t) ?w = ((locked, out1, t1), w1)"
      by (metis surj_pair)
    have name: "t_name t1 = ?n"
      using only_locks_value [OF only_locks_checkBranch [OF assms(1) refl] c] by simp
    have stop: "(snd out1 \<noteq> None \<or> locked) \<and> (res, err) = out1
        \<and> w' = w1\<lparr>w_locks := Release (w_locks w1) ?k (t_name t1)\<rparr>"
      using assms(2,3) h c by (auto simp: enterBranch_def io_run split: if_splits)
    have "out1 = (after (seconds 10), None)" if "locked" using c that by (rule checkBranchLock_waits)
    with stop name show ?thesis by (auto simp: Release_own)
  qed
qed

lemma turned_away_witness:
  "map_of (w_locks (snd (run_state (enterBranch branch_cluster (branch_task ''t''))
     (start\<lparr>w_locks := [('':b'', ''u'')]\<rparr>)))) '':b'' \<noteq> Some ''t''"
proof -
  let ?t = "branch_task ''t''" and ?w = "start\<lparr>w_locks := [('':b'', ''u'')]\<rparr>"
  let ?r = "run_state (enterBranch branch_cluster ?t) ?w"
  have "fst (fst ?r) = False" by code_simp
  moreover have "snd (fst (snd (fst ?r))) = None" by code_simp
  ultimately have r: "?r = ((False, (fst (fst (snd (fst ?r))), None), snd (snd (fst ?r))), snd ?r)"
    by (rule run_parts(1))
  have "reads_by_name branch_cluster"
    by (auto simp: reads_by_name_def branch_cluster_def branch_task_def cluster_defs)
  moreover have "usesBranchLock ?t" "branchLockKey ?t = '':b''" "t_name ?t = ''t''"
    by (simp_all add: usesBranchLock_def branchLockKey_def resolveTaskWorkspaceRef_def
        branch_task_def plain_task_def plain_spec_def)
  ultimately show ?thesis using turned_away [OF _ _ r] by simp
qed

section \<open>Time to live\<close>

definition expired_at :: "int \<Rightarrow> task \<Rightarrow> bool" where
  "expired_at now t \<longleftrightarrow>
     isTerminalTaskPhase (t_phase t)
     \<and> (case (ts_ttl (t_spec t), st_completion (t_status t)) of
          (Some ttl, Some c) \<Rightarrow> c + seconds ttl \<le> now
        | _ \<Rightarrow> False)"

text \<open>
  A task is deleted exactly when it is finished and its time to live has passed since
  its completion; before that it comes back no later than the moment it expires.
\<close>

theorem ttl_exact:
  assumes "run_state (applyTaskTTL E t res) w = ((res', err), w')" and "0 \<le> requeue_after res"
  shows "(DeleteTask (t_namespace t) (t_name t) \<in> set (new_calls w w')
      \<longleftrightarrow> expired_at (q_clock E (w_calls w)) t)
    \<and> (\<forall>ttl c. \<not> expired_at (q_clock E (w_calls w)) t \<and> isTerminalTaskPhase (t_phase t)
        \<and> ts_ttl (t_spec t) = Some ttl \<and> st_completion (t_status t) = Some c \<longrightarrow>
        err = None \<and> 0 < requeue_after res'
        \<and> q_clock E (w_calls w) + requeue_after res' \<le> c + seconds ttl)"
proof (cases "ts_ttl (t_spec t) \<noteq> None \<and> isTerminalTaskPhase (t_phase t) \<and> st_completion (t_status t) \<noteq> None")
  case False
  then show ?thesis
    using assms by (auto simp: applyTaskTTL_def ttlExpired_def expired_at_def
        split: option.splits if_splits)
next
  case True
  then obtain ttl c where tc: "ts_ttl (t_spec t) = Some ttl" "st_completion (t_status t) = Some c"
    and fin: "isTerminalTaskPhase (t_phase t)" by auto
  let ?now = "q_clock E (w_calls w)"
  show ?thesis
  proof (cases "c + seconds ttl \<le> ?now")
    case late: True
    with assms tc fin show ?thesis
      by (auto simp: applyTaskTTL_def ttlExpired_def expired_at_def io_run recordEvent_def)
  next
    case False
    then have "0 < c + seconds ttl - ?now" by simp
    with False assms tc fin show ?thesis
      by (auto simp: applyTaskTTL_def ttlExpired_def expired_at_def io_run sooner_def)
  qed
qed

definition expired_task :: task where
  "expired_task = (plain_task ''t'')\<lparr>t_spec := plain_spec\<lparr>ts_ttl := Some 60\<rparr>,
     t_status := new_status\<lparr>st_phase := PhaseFailed, st_completion := Some 5\<rparr>\<rparr>"

lemma ttl_exact_witness:
  "DeleteTask ''default'' ''t'' \<in> set (w_calls (snd (run_state
     (applyTaskTTL (idle_cluster\<lparr>q_clock := (\<lambda>h. seconds 61)\<rparr>) expired_task no_requeue) start)))"
proof -
  let ?E = "idle_cluster\<lparr>q_clock := (\<lambda>h. seconds 61)\<rparr>"
  have "run_state (applyTaskTTL ?E expired_task no_requeue) start
      = ((fst (fst (run_state (applyTaskTTL ?E expired_task no_requeue) start)),
          snd (fst (run_state (applyTaskTTL ?E expired_task no_requeue) start))),
         snd (run_state (applyTaskTTL ?E expired_task no_requeue) start))" by simp
  from ttl_exact [OF this] show ?thesis
    by (simp add: no_requeue_def expired_at_def expired_task_def isTerminalTaskPhase_def cluster_defs)
qed

section \<open>Deletion\<close>

text \<open>What deletion has seen before it lets go of the task.\<close>

definition job_gone :: "env \<Rightarrow> call list \<Rightarrow> task \<Rightarrow> bool" where
  "job_gone E h t \<longleftrightarrow>
     (case q_job E h (t_namespace t) (t_name t) of
        Inl e \<Rightarrow> True
      | Inr j \<Rightarrow>
          (case q_write E (h @ [Read ''Job'' (t_namespace t) (t_name t)])
                  (DeleteJob (m_namespace (job_meta j)) (m_name (job_meta j))) of
             None \<Rightarrow> True
           | Some e \<Rightarrow> is_not_found e))"

definition worker_released :: "env \<Rightarrow> call list \<Rightarrow> task \<Rightarrow> bool" where
  "worker_released E h t \<longleftrightarrow>
     st_pod_name (t_status t) = []
     \<or> (case q_pod E h (t_namespace t) (st_pod_name (t_status t)) of
          Inl e \<Rightarrow> True
        | Inr p \<Rightarrow> annotation p AnnotationWorkerAssignedTask \<noteq> t_name t
                 \<or> annotation p AnnotationWorkerTaskStatus \<in> {''succeeded'', ''failed''})"

lemma delete_job_done:
  assumes "run_state (delete_job E t) w = (None, w')"
  shows "job_gone E (w_calls w) t"
  using assms by (auto simp: delete_job_def job_gone_def io_run split: sum.splits option.splits if_splits)

lemma cancel_on_pod_done:
  assumes "run_state (cancel_on_pod E t) w = (None, w')"
  shows "worker_released E (w_calls w) t"
  using assms
  by (auto simp: cancel_on_pod_def worker_released_def requestWorkerPodTaskCancellation_def io_run
      split: sum.splits option.splits if_splits prod.splits)

fun keeps_task :: "call \<Rightarrow> bool" where
  "keeps_task (UpdateTask t) = False"
| "keeps_task _ = True"

lemma keeps_taskE: "\<not> keeps_task c \<Longrightarrow> \<exists>u. c = UpdateTask u"
  by (cases c) auto

lemma emits_keeps_task [emits_intro]:
  "emits keeps_task (delete_job E t)" "emits keeps_task (cancel_on_pod E t)"
  unfolding delete_job_def cancel_on_pod_def requestWorkerPodTaskCancellation_def
    clearWorkerPodTaskAnnotations_def
  by (intro emits_intro; simp)+



section \<open>Plugins that cannot be built\<close>

text \<open>
  When the plugin ConfigMap cannot be built, the task is written as failed without a
  completion time and keeps its branch. Such a task never expires: with a time to live it
  is looked at every five seconds.
\<close>

theorem plugin_failure_dangles:
  assumes "buildPluginConfigMap t (ac_plugins ac) = Inl e" and "ac_plugins ac \<noteq> []"
    and "run_state (provide_plugins E t (Some ac)) w = (out, w')"
    and "q_task E (w_calls w @ [RecordEvent ''Warning'' ''PluginConfigMapFailed''
           (''Failed to build plugin ConfigMap: '' @ err_text e)]) (t_namespace t) (t_name t) = Inr fresh"
    and "st_completion (t_status fresh) = None"
  shows "w_locks w' = w_locks w
    \<and> (\<exists>t'. UpdateTaskStatus t' \<in> set (new_calls w w') \<and> t_phase t' = PhaseFailed
        \<and> st_completion (t_status t') = None
        \<and> (\<forall>v. ts_ttl (t_spec fresh) \<noteq> None \<longrightarrow>
              fst (run_state (ttlExpired E t') v) = (False, seconds 5)))"
  using assms keeps_locksD [OF keeps_locks_plugins assms(3)]
  by (auto simp: provide_plugins_def modify_task_status_def io_run recordEvent_def set_status_def
      ttlExpired_def isTerminalTaskPhase_def split: option.split)

definition bad_plugins :: agent_config_spec where
  "bad_plugins = \<lparr>ac_agents_md = [], ac_plugins = [\<lparr>pl_name = [], pl_skills = [], pl_agents = []\<rparr>],
     ac_skills = [], ac_mcp_servers = []\<rparr>"

lemma plugin_failure_dangles_witness:
  "\<exists>t'. UpdateTaskStatus t' \<in> set (w_calls (snd (run_state
        (provide_plugins branch_cluster (branch_task ''t'') (Some bad_plugins)) start)))
     \<and> t_phase t' = PhaseFailed \<and> st_completion (t_status t') = None"
proof -
  obtain e where e: "buildPluginConfigMap (branch_task ''t'') (ac_plugins bad_plugins) = Inl e"
    by (simp add: buildPluginConfigMap_def buildPluginConfigMapData_def bad_plugins_def
        sanitizeComponentName_def)
  show ?thesis
    using plugin_failure_dangles [OF e _ prod.collapse [symmetric], of branch_cluster start
        "branch_task ''t''"]
    by (auto simp: bad_plugins_def branch_cluster_def branch_task_def cluster_defs)
qed

section \<open>Whom a finished task wakes\<close>

definition waits_for :: "task \<Rightarrow> task \<Rightarrow> bool" where
  "waits_for t u \<longleftrightarrow>
     t_name u \<noteq> t_name t
     \<and> (t_name t \<in> set (ts_depends_on (t_spec u))
        \<or> (usesBranchLock t \<and> usesBranchLock u \<and> branchLockKey u = branchLockKey t
           \<and> t_phase u = PhaseWaiting))"

lemma dependents_filter:
  assumes "distinct (map t_name tasks)" and "set seen \<inter> set (map t_name tasks) = {}"
  shows "dependents t seen tasks = map request_for (filter (waits_for t) tasks)"
  using assms
proof (induction tasks arbitrary: seen)
  case (Cons u tasks)
  have "set (t_name u # seen) \<inter> set (map t_name tasks) = {}" using Cons.prems by auto
  with Cons show ?case by (auto simp: waits_for_def)
qed simp

text \<open>
  A finished task wakes exactly the tasks that depend on it or wait for its branch,
  each once, in the order of the list.
\<close>

theorem dependents_notified:
  assumes "isTerminalTaskPhase (t_phase t)"
    and "q_tasks E (w_calls w) (t_namespace t) [] = Inr tasks" and "distinct (map t_name tasks)"
  shows "fst (run_state (enqueueDependentTasks E t) w) = map request_for (filter (waits_for t) tasks)"
  using assms dependents_filter [of tasks "[]"]
  by (auto simp: enqueueDependentTasks_def isTerminalTaskPhase_def io_run)

lemma dependents_notified_witness:
  "fst (run_state (enqueueDependentTasks (idle_cluster\<lparr>q_tasks := (\<lambda>h ns n. Inr
       [(plain_task ''u'')\<lparr>t_spec := plain_spec\<lparr>ts_depends_on := [''t'']\<rparr>\<rparr>, plain_task ''v''])\<rparr>)
     expired_task) start) \<noteq> []
   \<and> isTerminalTaskPhase (t_phase expired_task)"
  using dependents_notified [of expired_task "idle_cluster\<lparr>q_tasks := (\<lambda>h ns n. Inr
       [(plain_task ''u'')\<lparr>t_spec := plain_spec\<lparr>ts_depends_on := [''t'']\<rparr>\<rparr>, plain_task ''v''])\<rparr>" start
     "[(plain_task ''u'')\<lparr>t_spec := plain_spec\<lparr>ts_depends_on := [''t'']\<rparr>\<rparr>, plain_task ''v'']"]
  by (simp add: expired_task_def isTerminalTaskPhase_def waits_for_def plain_task_def plain_spec_def
      new_status_def)

end
