(* ===== verification/Cycles.thy ===== *)
theory Cycles
  imports TaskController Cluster
begin

text \<open>
  The walk over the dependency graph, compared with reachability in the graph that the API
  server shows: it ends, it reports every cycle, and it reports only cycles when every
  dependency exists. A name that does not exist stays marked, so reaching it twice is
  reported as a cycle.
\<close>

type_synonym graph = "string \<Rightarrow> string list option"

definition depends :: "graph \<Rightarrow> string \<Rightarrow> string \<Rightarrow> bool" where
  "depends g a b \<longleftrightarrow> (\<exists>ds. g a = Some ds \<and> b \<in> set ds)"

abbreviation reaches :: "graph \<Rightarrow> string \<Rightarrow> string \<Rightarrow> bool" where
  "reaches g \<equiv> (depends g)\<^sup>*\<^sup>*"

definition cyclic_from :: "graph \<Rightarrow> string \<Rightarrow> bool" where
  "cyclic_from g a \<longleftrightarrow> (\<exists>x. reaches g a x \<and> (depends g)\<^sup>+\<^sup>+ x x)"

text \<open>The API server shows the graph \<open>g\<close> of the tasks of a namespace while the walk lasts.\<close>

definition shows_graph :: "env \<Rightarrow> string \<Rightarrow> graph \<Rightarrow> bool" where
  "shows_graph E ns g \<longleftrightarrow>
     (\<forall>h name. case g name of
        None \<Rightarrow> (\<exists>e. q_task E h ns name = Inl e)
      | Some ds \<Rightarrow> (\<exists>t. q_task E h ns name = Inr t \<and> ts_depends_on (t_spec t) = ds))"

lemma shows_graphD:
  assumes "shows_graph E ns g"
  shows "g name = None \<Longrightarrow> \<exists>e. q_task E h ns name = Inl e"
    and "g name = Some ds \<Longrightarrow> \<exists>t. q_task E h ns name = Inr t \<and> ts_depends_on (t_spec t) = ds"
proof -
  have "case g name of None \<Rightarrow> (\<exists>e. q_task E h ns name = Inl e)
      | Some ds \<Rightarrow> (\<exists>t. q_task E h ns name = Inr t \<and> ts_depends_on (t_spec t) = ds)"
    using assms by (simp add: shows_graph_def)
  then show "g name = None \<Longrightarrow> \<exists>e. q_task E h ns name = Inl e"
    and "g name = Some ds \<Longrightarrow> \<exists>t. q_task E h ns name = Inr t \<and> ts_depends_on (t_spec t) = ds"
    by simp_all
qed

section \<open>The walk on a graph\<close>

fun pure_each :: "(string \<Rightarrow> string set \<Rightarrow> walk) \<Rightarrow> string list \<Rightarrow> string set \<Rightarrow> walk" where
  "pure_each step [] visited = Some (None, visited)"
| "pure_each step (dep # deps) visited =
     (case step dep visited of
        Some (None, visited') \<Rightarrow> pure_each step deps visited'
      | r \<Rightarrow> r)"

fun pure_walk :: "nat \<Rightarrow> graph \<Rightarrow> string \<Rightarrow> string set \<Rightarrow> walk" where
  "pure_walk 0 g name visited = None"
| "pure_walk (Suc n) g name visited =
     (if name \<in> visited then Some (Some (new_err (''cycle involves '' @ quote name)), visited)
      else (case g name of
              None \<Rightarrow> Some (None, insert name visited)
            | Some ds \<Rightarrow>
                (case pure_each (pure_walk n g) ds (insert name visited) of
                   Some (None, visited') \<Rightarrow> Some (None, visited' - {name})
                 | r \<Rightarrow> r)))"

lemma walk_each_pure:
  assumes "\<And>d v w. fst (run_state (step d v) w) = step' d v"
  shows "fst (run_state (walk_each step deps v) w) = pure_each step' deps v"
proof (induction deps arbitrary: v w)
  case (Cons d deps)
  obtain r w1 where r: "run_state (step d v) w = (r, w1)" by fastforce
  then have step: "step' d v = r" using assms [of d v w] by simp
  show ?case
  proof (cases r)
    case None
    with r step show ?thesis by simp
  next
    case (Some x)
    obtain e v' where x: "x = (e, v')" by fastforce
    show ?thesis
    proof (cases e)
      case None
      have "run_state (walk_each step (d # deps) v) w = run_state (walk_each step deps v') w1"
        using r Some x None by simp
      moreover have "pure_each step' (d # deps) v = pure_each step' deps v'"
        using step Some x None by simp
      ultimately show ?thesis using Cons.IH by simp
    next
      case (Some a)
      then show ?thesis using r \<open>r = Some x\<close> x step by simp
    qed
  qed
qed simp

lemma walk_pure:
  assumes "shows_graph E ns g"
  shows "fst (run_state (walkDeps n E ns name v) w) = pure_walk n g name v"
proof (induction n arbitrary: name v w)
  case (Suc n)
  show ?case
  proof (cases "name \<in> v")
    case False
    show ?thesis
    proof (cases "g name")
      case None
      then obtain e where "q_task E (w_calls w) ns name = Inl e"
        using shows_graphD(1) [OF assms] by blast
      with False None show ?thesis by (simp add: io_run)
    next
      case (Some ds)
      then obtain t where t: "q_task E (w_calls w) ns name = Inr t" "ts_depends_on (t_spec t) = ds"
        using shows_graphD(2) [OF assms] by blast
      let ?w = "w\<lparr>w_calls := w_calls w @ [Read ''Task'' ns name]\<rparr>"
      obtain out w1 where out: "run_state (walk_each (walkDeps n E ns) ds (insert name v)) ?w = (out, w1)"
        by fastforce
      have "fst (run_state (walk_each (walkDeps n E ns) ds (insert name v)) ?w) =
          pure_each (pure_walk n g) ds (insert name v)"
        by (rule walk_each_pure) (rule Suc)
      with False Some t out show ?thesis
        by (auto simp: io_run split: option.split prod.split)
    qed
  qed simp
qed simp

section \<open>It ends\<close>

text \<open>A walk that finds nothing adds only names that do not exist.\<close>

lemma pure_each_marks:
  assumes "\<And>d v v'. step d v = Some (None, v') \<Longrightarrow> v \<subseteq> v' \<and> v' \<inter> D = v \<inter> D"
    and "pure_each step deps v = Some (None, v')"
  shows "v \<subseteq> v' \<and> v' \<inter> D = v \<inter> D"
  using assms(2)
proof (induction deps arbitrary: v)
  case (Cons d deps)
  then obtain v1 where "step d v = Some (None, v1)" "pure_each step deps v1 = Some (None, v')"
    by (auto split: option.splits prod.splits)
  with assms(1) Cons.IH show ?case by fast
qed simp

lemma pure_walk_marks:
  "pure_walk n g name v = Some (None, v') \<Longrightarrow> v \<subseteq> v' \<and> v' \<inter> dom g = v \<inter> dom g"
proof (induction n arbitrary: name v v')
  case (Suc n)
  show ?case
  proof (cases "g name")
    case None
    with Suc.prems show ?thesis by (auto split: if_splits)
  next
    case (Some ds)
    with Suc.prems obtain v1 where v1: "name \<notin> v" "v' = v1 - {name}"
      "pure_each (pure_walk n g) ds (insert name v) = Some (None, v1)"
      by (auto split: if_splits option.splits prod.splits)
    have "insert name v \<subseteq> v1 \<and> v1 \<inter> dom g = insert name v \<inter> dom g"
      by (rule pure_each_marks [OF _ v1(3)]) (rule Suc.IH)
    with v1 show ?thesis by auto
  qed
qed simp

lemma pure_each_ends:
  assumes "\<And>d v'. v' \<inter> D = v \<inter> D \<Longrightarrow> step d v' \<noteq> None"
    and "\<And>d v' v''. step d v' = Some (None, v'') \<Longrightarrow> v'' \<inter> D = v' \<inter> D"
    and "u \<inter> D = v \<inter> D"
  shows "pure_each step deps u \<noteq> None"
  using assms(3)
proof (induction deps arbitrary: u)
  case (Cons d deps)
  obtain e u1 where "step d u = Some (e, u1)" using assms(1) [OF Cons.prems, of d] by auto
  with assms(2) Cons show ?case by (cases e) auto
qed simp

lemma pure_walk_ends:
  "finite (dom g) \<Longrightarrow> card (dom g - v) < n \<Longrightarrow> pure_walk n g name v \<noteq> None"
proof (induction n arbitrary: name v)
  case (Suc n)
  show ?case
  proof (cases "name \<in> v \<or> g name = None")
    case True
    then show ?thesis by auto
  next
    case False
    then obtain ds where ds: "g name = Some ds" "name \<notin> v" by auto
    have less: "card (dom g - u) < n" if "u \<inter> dom g = insert name v \<inter> dom g" for u
    proof -
      have "dom g - u = dom g - v - {name}" using that by blast
      moreover have "name \<in> dom g - v" using ds by auto
      ultimately have "card (dom g - u) < card (dom g - v)"
        using Suc.prems(1) by (metis card_Diff1_less finite_Diff)
      with Suc.prems(2) show ?thesis by simp
    qed
    have "pure_each (pure_walk n g) ds (insert name v) \<noteq> None"
    proof (rule pure_each_ends [where D = "dom g" and v = "insert name v"])
      show "pure_walk n g d u \<noteq> None" if "u \<inter> dom g = insert name v \<inter> dom g" for d u
        by (rule Suc.IH [OF Suc.prems(1) less [OF that]])
      show "u' \<inter> dom g = u \<inter> dom g" if "pure_walk n g d u = Some (None, u')" for d u u'
        using pure_walk_marks [OF that] by simp
    qed simp
    with ds show ?thesis by (auto split: option.split prod.split)
  qed
qed simp

section \<open>It finds the cycles\<close>

lemma pure_each_all:
  assumes "pure_each (pure_walk n g) deps v = Some (None, v')" and "d \<in> set deps"
  shows "\<exists>u u'. v \<subseteq> u \<and> pure_walk n g d u = Some (None, u')"
  using assms
proof (induction deps arbitrary: v)
  case (Cons d' deps)
  then obtain v1 where v1: "pure_walk n g d' v = Some (None, v1)"
    "pure_each (pure_walk n g) deps v1 = Some (None, v')"
    by (auto split: option.splits prod.splits)
  show ?case
  proof (cases "d = d'")
    case True
    with v1 show ?thesis by blast
  next
    case False
    with Cons.prems(2) have "d \<in> set deps" by simp
    from Cons.IH [OF v1(2) this] obtain u u' where
      "v1 \<subseteq> u" "pure_walk n g d u = Some (None, u')" by blast
    moreover have "v \<subseteq> v1" using pure_walk_marks [OF v1(1)] by blast
    ultimately show ?thesis by blast
  qed
qed simp

lemma pure_walk_clean:
  "pure_walk n g name v = Some (None, v') \<Longrightarrow> reaches g name x \<Longrightarrow>
   x \<notin> v \<and> \<not> (depends g)\<^sup>+\<^sup>+ x x"
proof (induction n arbitrary: name v v' x)
  case (Suc n)
  have out: "name \<notin> v" using Suc.prems(1) by (auto split: if_splits)
  have child: "y \<notin> insert name v \<and> \<not> (depends g)\<^sup>+\<^sup>+ y y"
    if d: "depends g name d" and y: "reaches g d y" for d y
  proof -
    from d obtain ds where ds: "g name = Some ds" "d \<in> set ds" by (auto simp: depends_def)
    with Suc.prems(1) out obtain v1 where
      "pure_each (pure_walk n g) ds (insert name v) = Some (None, v1)"
      by (auto split: option.splits prod.splits)
    from pure_each_all [OF this ds(2)] obtain u u' where
      "insert name v \<subseteq> u" "pure_walk n g d u = Some (None, u')" by blast
    with Suc.IH [OF _ y] show ?thesis by blast
  qed
  have self: "\<not> (depends g)\<^sup>+\<^sup>+ name name"
    using child by (metis insertI1 tranclpD)
  from Suc.prems(2) show ?case
    by (cases rule: converse_rtranclpE) (use out self child in auto)
qed simp

lemma pure_each_sound:
  assumes "pure_each step deps v = Some (Some e, v')"
    and "\<And>d u. d \<in> set deps \<Longrightarrow> step d v = Some (None, u) \<Longrightarrow> u = v"
  shows "\<exists>d \<in> set deps. step d v = Some (Some e, v')"
  using assms
proof (induction deps)
  case (Cons d deps)
  show ?case
  proof (cases "step d v = Some (Some e, v')")
    case False
    with Cons.prems obtain u where u: "step d v = Some (None, u)" "pure_each step deps u = Some (Some e, v')"
      by (auto split: option.splits prod.splits)
    with Cons.prems(2) [of d u] have "u = v" by simp
    with u Cons show ?thesis by auto
  qed auto
qed simp

lemma pure_each_same:
  assumes "\<And>d u. d \<in> set deps \<Longrightarrow> step d v = Some (None, u) \<Longrightarrow> u = v"
    and "pure_each step deps v = Some (None, v')"
  shows "v' = v"
  using assms
proof (induction deps)
  case (Cons d deps)
  then obtain u where u: "step d v = Some (None, u)" "pure_each step deps u = Some (None, v')"
    by (auto split: option.splits prod.splits)
  with Cons.prems(1) [of d u] have "u = v" by simp
  with u Cons show ?case by auto
qed simp

lemma pure_walk_same:
  assumes "\<And>x. reaches g name x \<Longrightarrow> x \<in> dom g" and "pure_walk n g name v = Some (None, v')"
  shows "v' = v"
  using assms
proof (induction n arbitrary: name v v')
  case (Suc n)
  have "name \<in> dom g" by (rule Suc.prems(1)) simp
  then obtain ds where ds: "g name = Some ds" by auto
  with Suc.prems(2) obtain v1 where v1: "name \<notin> v" "v' = v1 - {name}"
    "pure_each (pure_walk n g) ds (insert name v) = Some (None, v1)"
    by (auto split: if_splits option.splits prod.splits)
  have "u = insert name v" if "d \<in> set ds" "pure_walk n g d (insert name v) = Some (None, u)" for d u
  proof (rule Suc.IH [OF _ that(2)])
    have "depends g name d" using ds that(1) by (auto simp: depends_def)
    then show "x \<in> dom g" if "reaches g d x" for x
      using Suc.prems(1) that by (meson converse_rtranclp_into_rtranclp)
  qed
  from pure_each_same [OF this v1(3)] v1(1,2) show ?case by auto
qed simp

lemma pure_walk_sound:
  assumes "\<And>x. reaches g name x \<Longrightarrow> x \<in> dom g"
    and "\<And>u. u \<in> v \<Longrightarrow> (depends g)\<^sup>+\<^sup>+ u name"
    and "pure_walk n g name v = Some (Some e, v')"
  shows "cyclic_from g name"
  using assms
proof (induction n arbitrary: name v)
  case (Suc n)
  show ?case
  proof (cases "name \<in> v")
    case True
    with Suc.prems(2) show ?thesis unfolding cyclic_from_def by blast
  next
    case False
    have "name \<in> dom g" by (rule Suc.prems(1)) simp
    then obtain ds where ds: "g name = Some ds" by auto
    have err: "pure_each (pure_walk n g) ds (insert name v) = Some (Some e, v')"
      using Suc.prems(3) False ds by (auto split: option.splits prod.splits)
    have dep: "depends g name d" if "d \<in> set ds" for d
      using that ds by (auto simp: depends_def)
    have dom: "x \<in> dom g" if "d \<in> set ds" "reaches g d x" for d x
      using Suc.prems(1) dep that by (meson converse_rtranclp_into_rtranclp)
    have same: "u = insert name v"
      if d: "d \<in> set ds" and u: "pure_walk n g d (insert name v) = Some (None, u)" for d u
      using pure_walk_same [OF dom [OF d] u] .
    have "\<exists>d \<in> set ds. pure_walk n g d (insert name v) = Some (Some e, v')"
      by (rule pure_each_sound [OF err]) (rule same)
    then obtain d where d: "d \<in> set ds" "pure_walk n g d (insert name v) = Some (Some e, v')"
      by blast
    have "cyclic_from g d"
    proof (rule Suc.IH [OF _ _ d(2)])
      show "x \<in> dom g" if "reaches g d x" for x using dom [OF d(1) that] .
      show "(depends g)\<^sup>+\<^sup>+ u d" if "u \<in> insert name v" for u
      proof (cases "u = name")
        case True
        with dep [OF d(1)] show ?thesis by (simp add: tranclp.r_into_trancl)
      next
        case False
        with that have "(depends g)\<^sup>+\<^sup>+ u name" using Suc.prems(2) by blast
        from this dep [OF d(1)] show ?thesis by (rule tranclp.trancl_into_trancl)
      qed
    qed
    then obtain x where x: "reaches g d x" "(depends g)\<^sup>+\<^sup>+ x x"
      unfolding cyclic_from_def by blast
    have "reaches g name x" using dep [OF d(1)] x(1) by (rule converse_rtranclp_into_rtranclp)
    with x(2) show ?thesis unfolding cyclic_from_def by blast
  qed
qed simp

section \<open>Cycle detection\<close>

lemma detectCycle_pure:
  assumes "shows_graph E (t_namespace t) g"
  shows "fst (run_state (detectCycle n E t) w) = map_option fst (pure_walk n g (t_name t) {})"
  using walk_pure [OF assms, of n "t_name t" "{}" w]
  by (cases "run_state (walkDeps n E (t_namespace t) (t_name t) {}) w") (simp add: detectCycle_def)

text \<open>
  C12. Cycle detection on a graph that stands still: with fuel beyond the number of
  tasks it ends; a cycle that the task can reach is always reported; and if every
  dependency that it can reach exists, nothing but a cycle is reported.
\<close>

theorem cycle_detection:
  assumes "shows_graph E (t_namespace t) g" and "finite (dom g)" and "card (dom g) < n"
  shows "\<exists>res. fst (run_state (detectCycle n E t) w) = Some res
    \<and> (cyclic_from g (t_name t) \<longrightarrow> res \<noteq> None)
    \<and> ((\<forall>x. reaches g (t_name t) x \<longrightarrow> x \<in> dom g) \<longrightarrow> res \<noteq> None \<longrightarrow> cyclic_from g (t_name t))"
proof -
  obtain res v where r: "pure_walk n g (t_name t) {} = Some (res, v)"
    using pure_walk_ends [of g "{}" n "t_name t"] assms by auto
  have "res \<noteq> None" if cyc: "cyclic_from g (t_name t)"
  proof
    assume "res = None"
    with pure_walk_clean r cyc show False unfolding cyclic_from_def by blast
  qed
  moreover have "cyclic_from g (t_name t)"
    if "\<forall>x. reaches g (t_name t) x \<longrightarrow> x \<in> dom g" "res \<noteq> None"
    using pure_walk_sound [of g "t_name t" "{}" n "the res" v] r that by auto
  ultimately show ?thesis using r detectCycle_pure [OF assms(1)] by auto
qed

text \<open>
  C17. A dependency that does not exist and is reached twice is reported as a cycle, although
  the graph has none: the mark of a name whose read failed is never taken back.
\<close>

theorem missing_dependency_cycle:
  assumes "shows_graph E (t_namespace t) [t_name t \<mapsto> [b, c], b \<mapsto> [x], c \<mapsto> [x]]"
    and "distinct [t_name t, b, c, x]" and "4 \<le> n"
  shows "fst (run_state (detectCycle n E t) w) = Some (Some (new_err (''cycle involves '' @ quote x)))
    \<and> \<not> cyclic_from [t_name t \<mapsto> [b, c], b \<mapsto> [x], c \<mapsto> [x]] (t_name t)"
proof -
  let ?g = "[t_name t \<mapsto> [b, c], b \<mapsto> [x], c \<mapsto> [x]]"
  obtain m where n: "n = Suc (Suc (Suc (Suc m)))"
    using assms(3) by (auto simp: le_iff_add)
  have "pure_walk n ?g (t_name t) {} = Some (Some (new_err (''cycle involves '' @ quote x)), {b, c, t_name t, x} - {b})"
    using assms(2) unfolding n by auto
  moreover have "\<not> cyclic_from ?g (t_name t)"
  proof -
    let ?rank = "\<lambda>y. if y = t_name t then 2 else if y = b \<or> y = c then 1 else (0::nat)"
    have step: "?rank z < ?rank y" if "depends ?g y z" for y z
      using that assms(2) by (auto simp: depends_def split: if_splits)
    have "?rank z < ?rank y" if "(depends ?g)\<^sup>+\<^sup>+ y z" for y z
      using that by (induction rule: tranclp_induct) (rule step, assumption, rule less_trans [OF step])
    then show ?thesis unfolding cyclic_from_def by blast
  qed
  ultimately show ?thesis using detectCycle_pure [OF assms(1)] by simp
qed

text \<open>A cluster whose tasks are those of a graph.\<close>

definition graph_cluster :: "graph \<Rightarrow> env" where
  "graph_cluster g = idle_cluster\<lparr>q_task := (\<lambda>h ns name. case g name of
      None \<Rightarrow> not_found
    | Some ds \<Rightarrow> Inr ((plain_task name)\<lparr>t_spec := plain_spec\<lparr>ts_depends_on := ds\<rparr>\<rparr>))\<rparr>"

lemma graph_cluster_shows: "shows_graph (graph_cluster g) ns g"
  by (simp add: shows_graph_def graph_cluster_def not_found_def split: option.split)

lemma cycle_detection_witness:
  "\<exists>e. fst (run_state (detectCycle 3 (graph_cluster [''a'' \<mapsto> [''b''], ''b'' \<mapsto> [''a'']]) (plain_task ''a''))
     start) = Some (Some e)"
proof -
  let ?g = "[''a'' \<mapsto> [''b''], ''b'' \<mapsto> [''a'']]"
  have "depends ?g ''a'' ''b''" "depends ?g ''b'' ''a''" by (simp_all add: depends_def)
  then have "(depends ?g)\<^sup>+\<^sup>+ ''a'' ''a''" by (meson tranclp.r_into_trancl tranclp.trancl_into_trancl)
  then have "cyclic_from ?g (t_name (plain_task ''a''))"
    unfolding cyclic_from_def plain_task_def by auto
  then show ?thesis
    using cycle_detection [of "graph_cluster ?g" "plain_task ''a''" ?g 3 start] graph_cluster_shows
    by auto
qed

lemma missing_dependency_cycle_witness:
  "fst (run_state (detectCycle 4 (graph_cluster [''a'' \<mapsto> [''b'', ''c''], ''b'' \<mapsto> [''x''], ''c'' \<mapsto> [''x'']])
     (plain_task ''a'')) start) = Some (Some (new_err (''cycle involves '' @ quote ''x'')))"
  using missing_dependency_cycle [of _ "plain_task ''a''" "''b''" "''c''" "''x''" 4 start]
    graph_cluster_shows [of "[''a'' \<mapsto> [''b'', ''c''], ''b'' \<mapsto> [''x''], ''c'' \<mapsto> [''x'']]"]
  by (simp add: plain_task_def)

end
