(* ===== verification/OutputFacts.thy ===== *)
theory OutputFacts
  imports OutputParser BranchLocker
begin

text \<open>
  What is read from an agent's log, and the exclusion that the lock table gives to any
  sequence of clients.
\<close>

section \<open>Outputs\<close>

text \<open>A marker followed by a text in which it does not begin again.\<close>

definition marker_once :: "string \<Rightarrow> string \<Rightarrow> bool" where
  "marker_once m s \<longleftrightarrow> str_last_index m (m @ s) = Some 0"

definition result_lines :: "strmap \<Rightarrow> string list" where
  "result_lines kvs = map (\<lambda>(k, v). k @ '': '' @ v) kvs"

definition output_block :: "string list \<Rightarrow> string" where
  "output_block ls = CHR 0x0A # str_join ls [CHR 0x0A] @ [CHR 0x0A]"

text \<open>
  C16. Whatever comes before and after it, the last block of a log is read back as it was
  written: its lines become the outputs and its key-value lines the results.
\<close>

theorem outputs_roundtrip:
  assumes "kvs \<noteq> []" and "distinct (map fst kvs)"
    and "\<forall>(k, v) \<in> set kvs. k \<noteq> [] \<and> \<not> str_contains k '': '' \<and> clean_line (k @ '': '' @ v)"
    and "marker_once outputStartMarker (output_block (result_lines kvs))"
    and "marker_once outputEndMarker post"
  shows "ParseOutputs (pre @ outputStartMarker @ output_block (result_lines kvs) @ outputEndMarker @ post)
      = result_lines kvs
    \<and> ResultsFromOutputs (result_lines kvs) = kvs"
proof
  have "list_all clean_line (result_lines kvs)" and "result_lines kvs \<noteq> []"
    using assms(1,3) by (auto simp: result_lines_def list_all_iff)
  then have "block_lines (output_block (result_lines kvs)) = result_lines kvs"
    unfolding output_block_def by (rule block_lines_join)
  with assms(4,5) ParseOutputs_block
  show "ParseOutputs (pre @ outputStartMarker @ output_block (result_lines kvs) @ outputEndMarker @ post)
      = result_lines kvs"
    by (simp add: marker_once_def)
  show "ResultsFromOutputs (result_lines kvs) = kvs"
    unfolding result_lines_def using assms(2,3) by (intro ResultsFromOutputs_pairs) auto
qed

lemma outputs_roundtrip_witness:
  "ResultsFromOutputs (ParseOutputs (''log'' @ outputStartMarker @ output_block (result_lines [(''k'', ''v'')])
     @ outputEndMarker @ [])) = [(''k'', ''v'')]"
proof -
  have "clean_line ''k: v''"
    by (simp add: clean_line_def space_runes_def leading_rune_def)
  moreover have "marker_once outputStartMarker (output_block (result_lines [(''k'', ''v'')]))"
    by code_simp
  moreover have "marker_once outputEndMarker []" by code_simp
  ultimately show ?thesis
    using outputs_roundtrip [of "[(''k'', ''v'')]" "[]" "''log''"]
    by (simp add: str_contains_def)
qed

text \<open>
  The last line with a key decides its value: the results map each key to the value
  of the last output line that starts with the key and a colon.
\<close>

theorem results_last_wins:
  "map_of (ResultsFromOutputs ls) k =
     map_option snd (List.find (\<lambda>e. fst e = k) (rev (List.map_filter result_entry ls)))"
  by (rule ResultsFromOutputs_lookup)

text \<open>
  Usage is never negative or zero: each number that is present is positive and is the
  one its result line gives, and usage is present only if one of them is.
\<close>

theorem usage_positive:
  assumes "usageFromResults pq results = Some u"
  shows "(\<forall>q. u_cost u = Some q \<longrightarrow> 0 < q \<and> pq (map_str results ''cost-usd'') = Some q)
    \<and> (\<forall>n. u_input u = Some n \<longleftrightarrow> 0 < n \<and> parse_int (map_str results ''input-tokens'') = Some n)
    \<and> (\<forall>n. u_output u = Some n \<longleftrightarrow> 0 < n \<and> parse_int (map_str results ''output-tokens'') = Some n)
    \<and> (u_cost u \<noteq> None \<or> u_input u \<noteq> None \<or> u_output u \<noteq> None)"
  using assms
  by (auto simp: usageFromResults_Some usage_tokens_iff dest: usage_cost_positive usage_cost_value)

lemma usage_positive_witness:
  "parse_int (map_str [(''input-tokens'', ''5'')] ''input-tokens'') = Some 5"
proof -
  have u: "usageFromResults (\<lambda>s. None) [(''input-tokens'', ''5'')]
      = Some \<lparr>u_cost = None, u_input = Some 5, u_output = None\<rparr>" by code_simp
  from usage_positive [OF u] show ?thesis by auto
qed

section \<open>Branch locks\<close>

text \<open>
  C4. Whatever sequence of acquisitions and releases the clients of a fresh locker make, two
  clients that each believe to hold the same branch are the same client.
\<close>

theorem branch_exclusive:
  assumes "lock_run NewBranchLocker ops = (log, s)"
    and "(key, t) \<in> claims_of log" and "(key, u) \<in> claims_of log"
  shows "t = u"
  by (rule branch_history.claims_exclusive [OF _ assms]) (simp add: NewBranchLocker_def)

lemma branch_exclusive_witness:
  "(''b'', ''u'') \<notin> claims_of (fst (lock_run NewBranchLocker
     [AcquireOp ''b'' ''t'', AcquireOp ''b'' ''u'', ReleaseOp ''b'' ''u'']))"
proof
  let ?ops = "[AcquireOp ''b'' ''t'', AcquireOp ''b'' ''u'', ReleaseOp ''b'' ''u'']"
  let ?log = "fst (lock_run NewBranchLocker ?ops)"
  assume u: "(''b'', ''u'') \<in> claims_of ?log"
  have "(''b'', ''t'') \<in> claims_of ?log"
    by (simp add: NewBranchLocker_def claims_of_def lock_acquire_def TryAcquire_def Release_def)
  from branch_exclusive [OF prod.collapse [symmetric] this u] show False by simp
qed

end
