(* ===== verification/TokenFacts.thy ===== *)
theory TokenFacts
  imports GitHubToken Cluster
begin

text \<open>
  What the handling of GitHub credentials guarantees: a token that is handed out has not
  expired, a Secret that belongs to somebody else is never overwritten, and a token in use
  is minted anew before it expires, with bounded delays when that fails.
\<close>

lemma trim_space_nil [simp]: "trim_space [] = []"
  by code_simp

lemma map_str_single [simp]: "map_str [(k, v)] k = v"
  by (simp add: map_str_def)

section \<open>The caching provider\<close>

definition token_url :: "token_provider \<Rightarrow> string" where
  "token_url tp = token_client_base (tp_base tp) @ ''/app/installations/''
     @ app_installation (tp_creds tp) @ ''/access_tokens''"

text \<open>
  C18. The token provider hands out either its cached token, which has not expired at that
  moment, or a token that GitHub has just issued, which it then caches; it gives up only if
  GitHub refuses and no unexpired token is cached. A cached token that is still good for more
  than five minutes is used without asking GitHub.
\<close>

theorem token_live:
  assumes "run_state (Token E tp) w = ((res, tp'), w')" and "now = q_clock E (w_calls w)"
  shows "(\<forall>token. res = Inr token \<longrightarrow>
      (tp' = tp \<and> token = tp_token tp \<and> token \<noteq> [] \<and> now < tp_expires tp)
      \<or> (\<exists>expiresAt. q_token E (w_calls w) (token_url tp) (tp_creds tp) = Inr (token, expiresAt)
           \<and> tp' = tp\<lparr>tp_token := token, tp_expires := expiresAt\<rparr>))
    \<and> (\<forall>e. res = Inl e \<longrightarrow> tp' = tp \<and> (tp_token tp = [] \<or> tp_expires tp \<le> now)
         \<and> (\<exists>e'. q_token E (w_calls w) (token_url tp) (tp_creds tp) = Inl e'))
    \<and> (tp_token tp \<noteq> [] \<and> now + minutes 5 < tp_expires tp \<longrightarrow> w' = w)"
  using assms
  by (auto simp: Token_def GenerateInstallationToken_def token_url_def tokenExpiryMargin_def io_run
      split: if_splits sum.splits)

definition app_creds :: app_credentials where
  "app_creds = \<lparr>app_id = ''1'', app_installation = ''2'', app_key = Opaque []\<rparr>"

definition cached :: "int \<Rightarrow> token_provider" where
  "cached expiresAt = \<lparr>tp_base = [], tp_creds = app_creds, tp_token = ''t'', tp_expires = expiresAt\<rparr>"

lemma token_live_witness:
  "\<exists>tp'. run_state (Token idle_cluster (cached 7)) start = ((Inr ''t'', tp'), start\<lparr>w_calls :=
       [MintToken ''https://api.github.com/app/installations/2/access_tokens'']\<rparr>)
     \<and> tp' = cached 7 \<and> q_clock idle_cluster [] < 7"
proof -
  have run: "run_state (Token idle_cluster (cached 7)) start = ((Inr ''t'', cached 7), start\<lparr>w_calls :=
       [MintToken ''https://api.github.com/app/installations/2/access_tokens'']\<rparr>)"
    by (simp add: Token_def GenerateInstallationToken_def io_run cached_def app_creds_def cluster_defs
        tokenExpiryMargin_def token_client_base_def defaultGitHubAPIURL_def)
  from token_live [OF run refl] run show ?thesis
    by (auto simp: cached_def cluster_defs)
qed

text \<open>
  Which resolver a Secret gives: a personal token wins; without one, no credentials give
  no resolver, complete GitHub App credentials give a provider that starts without a cached
  token, and incomplete ones or an unreadable key are an error.
\<close>

theorem resolver_choice:
  "(NewSecretTokenResolver E data url = Inr (FixedToken token) \<longleftrightarrow>
      token = trim_space (map_str data ''GITHUB_TOKEN'') \<and> token \<noteq> [])
   \<and> (NewSecretTokenResolver E data url = Inr NoResolver \<longleftrightarrow>
      trim_space (map_str data ''GITHUB_TOKEN'') = []
      \<and> list_all (\<lambda>k. trim_space (map_str data k) = []) [''appID'', ''installationID'', ''privateKey''])
   \<and> (NewSecretTokenResolver E data url = Inr (ProviderToken tp) \<longleftrightarrow>
      trim_space (map_str data ''GITHUB_TOKEN'') = []
      \<and> list_all (\<lambda>k. trim_space (map_str data k) \<noteq> []) [''appID'', ''installationID'', ''privateKey'']
      \<and> (\<exists>key. l_private_key E (map_str data ''privateKey'') = Inr key
           \<and> tp = \<lparr>tp_base = token_client_base url,
                   tp_creds = \<lparr>app_id = trim_space (map_str data ''appID''),
                               app_installation = trim_space (map_str data ''installationID''),
                               app_key = key\<rparr>,
                   tp_token = [], tp_expires = 0\<rparr>))"
  by (auto simp: NewSecretTokenResolver_def app_keys_present_def ParseCredentials_def Let_def
      NewTokenProvider_def token_client_base_def trim_space_nil split: if_splits sum.splits)

section \<open>The derived Secret\<close>

text \<open>The token that GitHub issues for an installation.\<close>

definition issued :: "env \<Rightarrow> world \<Rightarrow> string \<Rightarrow> app_credentials \<Rightarrow> string \<times> int \<Rightarrow> bool" where
  "issued E w repo creds tok \<longleftrightarrow>
     q_token E (w_calls w) (token_client_base (tokenClientForRepo E repo)
       @ ''/app/installations/'' @ app_installation creds @ ''/access_tokens'') creds = Inr tok"

definition token_of :: "secret \<Rightarrow> string" where
  "token_of s = map_str (sec_string_data s) GitHubTokenSecretKey"

lemma generate_run:
  assumes "run_state (GenerateInstallationToken E (tokenClientForRepo E repo) creds) w = (r, w')"
  shows "(\<forall>tok. r = Inr tok \<longleftrightarrow> issued E w repo creds tok) \<and> grows w w' \<and> w_locks w' = w_locks w
    \<and> (\<forall>c. c \<in> set (new_calls w w') \<longrightarrow> (\<exists>url. c = MintToken url))"
  using assms by (auto simp: GenerateInstallationToken_def issued_def io_run)

lemma adopt_run:
  assumes "run_state (adopt_token_secret E owner name annotations [(GitHubTokenSecretKey, token)]) w = (r, w')"
  shows "(\<forall>s. UpdateSecret s \<in> set (new_calls w w') \<longrightarrow>
        (\<exists>existing. q_secret E (w_calls w) (m_namespace owner) name = Inr existing
           \<and> l_controlled_by E (sec_meta existing) owner \<and> sec_data s = sec_data existing))
    \<and> (r = None \<longrightarrow> (\<exists>s. granted E w w' (UpdateSecret s) \<and> token_of s = token)) \<and> grows w w'"
proof -
  have gr: "granted E w (w\<lparr>w_calls := w_calls w @ [c, d]\<rparr>) d"
    if "q_write E (w_calls w @ [c]) d = None" for c d
    unfolding granted_def using that by (intro exI [where x = "[c]"] exI [where x = "[]"]) simp
  show ?thesis using assms
    by (auto simp: adopt_token_secret_def io_run Let_def token_of_def map_str_def intro!: exI gr
        split: sum.splits option.splits if_splits)
qed

text \<open>The part of \<^verbatim>\<open>mintGitHubAppTokenSecret\<close> after the token was issued.\<close>

definition store_token ::
  "env \<Rightarrow> object_meta \<Rightarrow> string \<Rightarrow> string \<Rightarrow> string \<Rightarrow> int \<Rightarrow> (go_err + int) io" where
  "store_token E owner name app token expiresAt =
     (case l_set_controller E owner (blank_meta\<lparr>m_name := name, m_namespace := m_namespace owner,
               m_annotations := token_annotations E app expiresAt\<rparr>) of
        Inl e \<Rightarrow> ret (Inl (wrap_err ''setting owner reference on token secret'' e))
      | Inr meta \<Rightarrow> do {
          c \<leftarrow> write_call E (CreateSecret
                 \<lparr>sec_meta = meta, sec_data = [], sec_string_data = [(GitHubTokenSecretKey, token)]\<rparr>);
          (case c of
             None \<Rightarrow> ret (Inr expiresAt)
           | Some e \<Rightarrow>
               if \<not> is_already_exists e then ret (Inl (wrap_err ''creating token secret'' e))
               else do {
                 u \<leftarrow> adopt_token_secret E owner name (token_annotations E app expiresAt)
                        [(GitHubTokenSecretKey, token)];
                 (case u of
                    Some e \<Rightarrow> ret (Inl (wrap_err ''updating token secret'' e))
                  | None \<Rightarrow> ret (Inr expiresAt))
               })
        })"

lemma mint_store:
  "mintGitHubAppTokenSecret E owner name app repo creds = do {
     r \<leftarrow> GenerateInstallationToken E (tokenClientForRepo E repo) creds;
     (case r of
        Inl e \<Rightarrow> ret (Inl (wrap_err ''generating installation token'' e))
      | Inr (token, expiresAt) \<Rightarrow> store_token E owner name app token expiresAt)
   }"
  unfolding mintGitHubAppTokenSecret_def store_token_def Let_def by (rule refl)

lemma store_run:
  assumes "run_state (store_token E owner name app token expiresAt) w = (r, w')"
  shows "(\<forall>s. UpdateSecret s \<in> set (new_calls w w') \<longrightarrow>
        (\<exists>h existing. q_secret E h (m_namespace owner) name = Inr existing
           \<and> l_controlled_by E (sec_meta existing) owner \<and> sec_data s = sec_data existing))
    \<and> (\<forall>x. r = Inr x \<longrightarrow> x = expiresAt
        \<and> (\<exists>s. (granted E w w' (CreateSecret s) \<or> granted E w w' (UpdateSecret s)) \<and> token_of s = token))
    \<and> grows w w'"
proof (cases "l_set_controller E owner (blank_meta\<lparr>m_name := name, m_namespace := m_namespace owner,
               m_annotations := token_annotations E app expiresAt\<rparr>)")
  case (Inl e)
  with assms show ?thesis by (auto simp: store_token_def)
next
  case (Inr meta)
  let ?s = "\<lparr>sec_meta = meta, sec_data = [], sec_string_data = [(GitHubTokenSecretKey, token)]\<rparr>"
  from assms Inr obtain c w1 where c: "run_state (write_call E (CreateSecret ?s)) w = (c, w1)"
    and tail: "run_state (case c of None \<Rightarrow> ret (Inr expiresAt)
       | Some e \<Rightarrow> if \<not> is_already_exists e then ret (Inl (wrap_err ''creating token secret'' e))
           else do {
             u \<leftarrow> adopt_token_secret E owner name (token_annotations E app expiresAt)
                    [(GitHubTokenSecretKey, token)];
             (case u of Some e \<Rightarrow> ret (Inl (wrap_err ''updating token secret'' e))
              | None \<Rightarrow> ret (Inr expiresAt))
           }) w1 = (r, w')"
    unfolding store_token_def by (simp only: sum.case) (elim run_bindE)
  have w1: "w1 = w\<lparr>w_calls := w_calls w @ [CreateSecret ?s]\<rparr>" using c by (simp add: io_run)
  show ?thesis
  proof (cases "\<exists>e. c = Some e \<and> is_already_exists e")
    case True
    with tail obtain u where
      "run_state (adopt_token_secret E owner name (token_annotations E app expiresAt)
         [(GitHubTokenSecretKey, token)]) w1 = (u, w')" and r: "\<forall>x. r = Inr x \<longrightarrow> u = None \<and> x = expiresAt"
      by (auto split: option.splits prod.splits)
    note ad = adopt_run [OF this(1)]
    have g: "grows w w1" using w1 by simp
    then have new: "new_calls w w' = CreateSecret ?s # new_calls w1 w'"
      using new_calls_append [OF g] ad w1 by auto
    have "granted E w w' (UpdateSecret s)" if "granted E w1 w' (UpdateSecret s)" for s
      using g that by (rule granted_mono) simp
    with ad r g new show ?thesis
      by (simp only: new set_simps insert_iff call.simps simp_thms) (blast intro: grows_trans)
  next
    case False
    with tail c w1 show ?thesis
      by (auto split: option.splits if_splits intro!: exI [of _ ?s] granted_write simp: token_of_def map_str_def)
  qed
qed

text \<open>
  Minting a token Secret never overwrites a Secret that its owner does not control, and
  when it succeeds the API server has accepted a Secret with the token that GitHub issued.
\<close>

theorem foreign_secret_kept:
  assumes "run_state (mintGitHubAppTokenSecret E owner name app repo creds) w = (r, w')"
  shows "(\<forall>s. UpdateSecret s \<in> set (new_calls w w') \<longrightarrow>
      (\<exists>h existing. q_secret E h (m_namespace owner) name = Inr existing
         \<and> l_controlled_by E (sec_meta existing) owner \<and> sec_data s = sec_data existing))
    \<and> (\<forall>expiresAt. r = Inr expiresAt \<longrightarrow>
      (\<exists>s. (granted E w w' (CreateSecret s) \<or> granted E w w' (UpdateSecret s))
         \<and> issued E w repo creds (token_of s, expiresAt)))"
  using assms unfolding mint_store
proof (elim run_bindE)
  fix g w1
  assume g: "run_state (GenerateInstallationToken E (tokenClientForRepo E repo) creds) w = (g, w1)"
    and tail: "run_state (case g of Inl e \<Rightarrow> ret (Inl (wrap_err ''generating installation token'' e))
      | Inr (token, expiresAt) \<Rightarrow> store_token E owner name app token expiresAt) w1 = (r, w')"
  note gen = generate_run [OF g]
  show ?thesis
  proof (cases g)
    case (Inl e)
    with gen tail show ?thesis by auto
  next
    case (Inr tok)
    obtain token expiresAt where tok: "tok = (token, expiresAt)" by (cases tok)
    with tail Inr have "run_state (store_token E owner name app token expiresAt) w1 = (r, w')" by simp
    note st = store_run [OF this]
    have "UpdateSecret s \<in> set (new_calls w w') \<Longrightarrow> UpdateSecret s \<in> set (new_calls w1 w')" for s
      using gen st by (auto simp: grows_def prefix_def dest!: spec [of _ "UpdateSecret s"])
    moreover have "issued E w repo creds (token, expiresAt)" using gen Inr tok by blast
    moreover have "granted E w1 w' c \<Longrightarrow> granted E w w' c" for c
      using gen by (auto intro: granted_mono)
    ultimately show ?thesis using st by blast
  qed
qed

definition minting_cluster :: env where
  "minting_cluster = idle_cluster\<lparr>q_token := (\<lambda>h url creds. Inr (''ghs'', minutes 60))\<rparr>"

lemma foreign_secret_kept_witness:
  "\<exists>s. token_of s = ''ghs'' \<and> CreateSecret s \<in> set (w_calls (snd (run_state
     (mintGitHubAppTokenSecret minting_cluster (t_meta (plain_task ''t'')) ''t-github-token'' ''app''
        [] app_creds) start)))"
proof -
  let ?run = "run_state (mintGitHubAppTokenSecret minting_cluster (t_meta (plain_task ''t''))
     ''t-github-token'' ''app'' [] app_creds) start"
  have ok: "fst ?run = Inr (minutes 60)"
    by (simp add: mintGitHubAppTokenSecret_def GenerateInstallationToken_def io_run minting_cluster_def
        cluster_defs Let_def)
  have none: "\<not> (\<exists>s. UpdateSecret s \<in> set (w_calls (snd ?run)))"
    by (simp add: mintGitHubAppTokenSecret_def GenerateInstallationToken_def io_run minting_cluster_def
        cluster_defs Let_def)
  from foreign_secret_kept [of minting_cluster "t_meta (plain_task ''t'')" "''t-github-token''" "''app''"
      "[]" app_creds start "fst ?run" "snd ?run"] ok none
  show ?thesis
    by (auto simp: issued_def minting_cluster_def start_def dest!: granted_new)
qed

section \<open>Refreshing a token in use\<close>

lemma tokenRefreshFailureRetryAfter_bounds [simplified, simp]:
  "0 \<le> tokenRefreshFailureRetryAfter now expiresAt"
  "tokenRefreshFailureRetryAfter now expiresAt \<le> seconds 30"
  by (auto simp: tokenRefreshFailureRetryAfter_def tokenRefreshRetryInterval_def Let_def)

text \<open>\<open>reminted\<close>: the accepted update of the Secret with a token just issued.\<close>

definition reminted :: "env \<Rightarrow> world \<Rightarrow> world \<Rightarrow> int \<Rightarrow> bool" where
  "reminted E w w' expiresAt \<longleftrightarrow>
     (\<exists>s h url creds. granted E w w' (UpdateSecret s)
        \<and> q_token E h url creds = Inr (token_of s, expiresAt)
        \<and> map_str (m_annotations (sec_meta s)) tokenExpiresAtAnnotation = l_format_time E expiresAt)"

lemma remint_run:
  assumes "run_state (remint_token E ns stored app repo retryAfter) w = (r, w')" and "0 \<le> retryAfter"
  shows "0 \<le> rf_next r \<and> grows w w'
    \<and> (rf_error r \<noteq> None \<longrightarrow> \<not> rf_refreshed r \<and> rf_next r = retryAfter)
    \<and> (rf_refreshed r \<longrightarrow> reminted E w w' (rf_expires r)
         \<and> rf_next r = max 0 (rf_expires r - tokenRefreshMargin - q_clock E (w_calls w')))
    \<and> (\<not> rf_refreshed r \<and> rf_error r = None \<longrightarrow> rf_next r = 0)"
proof -
  have gr: "granted E w (w\<lparr>w_calls := w_calls w @ [a, b, c]\<rparr>) c"
    if "q_write E (w_calls w @ [a, b]) c = None" for a b c
    unfolding granted_def using that by (intro exI [where x = "[a, b]"] exI [where x = "[]"]) simp
  show ?thesis using assms
    by (auto simp: remint_token_def io_run Let_def GenerateInstallationToken_def refresh_failed_def
        no_refresh_def reminted_def token_of_def intro!: exI gr
        split: sum.splits option.splits if_splits)
qed

text \<open>
  Refreshing looks at a token again when it is five minutes from its expiry, replaces it
  only then or when its expiry is unknown, and retries a failure within thirty seconds. After
  a replacement the API server has accepted the new token with its expiry, and the next look
  is due five minutes before that.
\<close>

theorem refresh_schedule:
  assumes "run_state (refreshGitHubAppTokenSecret E ns name repo) w = (r, w')"
  shows "0 \<le> rf_next r \<and> (rf_error r \<noteq> None \<longrightarrow> rf_next r \<le> seconds 30)
    \<and> (rf_refreshed r \<longrightarrow> reminted E w w' (rf_expires r)
         \<and> rf_next r = max 0 (rf_expires r - minutes 5 - q_clock E (w_calls w')))
    \<and> (\<forall>stored expiresAt. q_secret E (w_calls w) ns name = Inr stored
         \<and> map_str (m_annotations (sec_meta stored)) tokenExpiresAtAnnotation \<noteq> []
         \<and> l_parse_time E (map_str (m_annotations (sec_meta stored)) tokenExpiresAtAnnotation) = Some expiresAt
         \<and> map_str (m_annotations (sec_meta stored)) githubAppSecretAnnotation \<noteq> []
         \<and> q_clock E (w_calls w @ [Read ''Secret'' ns name]) + minutes 5 < expiresAt
         \<longrightarrow> w' = w\<lparr>w_calls := w_calls w @ [Read ''Secret'' ns name]\<rparr> \<and> rf_error r = None
             \<and> q_clock E (w_calls w') + rf_next r = expiresAt - minutes 5)"
proof -
  let ?w1 = "w\<lparr>w_calls := w_calls w @ [Read ''Secret'' ns name]\<rparr>"
  have lift: "reminted E w v x" if "reminted E ?w1 v x" for v x
    using that unfolding reminted_def by (blast intro: granted_mono [OF grows_calls _ grows_refl])
  show ?thesis
  proof (cases "\<exists>stored app ra. run_state (remint_token E ns stored app repo ra) ?w1 = (r, w')
      \<and> 0 \<le> ra \<and> ra \<le> seconds 30 \<and> q_secret E (w_calls w) ns name = Inr stored
      \<and> (\<forall>expiresAt. map_str (m_annotations (sec_meta stored)) tokenExpiresAtAnnotation \<noteq> []
           \<longrightarrow> l_parse_time E (map_str (m_annotations (sec_meta stored)) tokenExpiresAtAnnotation) = Some expiresAt
           \<longrightarrow> expiresAt \<le> q_clock E (w_calls w @ [Read ''Secret'' ns name]) + minutes 5)")
    case True
    then obtain stored app ra where
      re: "run_state (remint_token E ns stored app repo ra) ?w1 = (r, w')" "0 \<le> ra" "ra \<le> seconds 30"
      and st: "q_secret E (w_calls w) ns name = Inr stored"
      and due: "\<And>expiresAt. map_str (m_annotations (sec_meta stored)) tokenExpiresAtAnnotation \<noteq> []
           \<Longrightarrow> l_parse_time E (map_str (m_annotations (sec_meta stored)) tokenExpiresAtAnnotation) = Some expiresAt
           \<Longrightarrow> expiresAt \<le> q_clock E (w_calls w @ [Read ''Secret'' ns name]) + minutes 5" by blast
    from remint_run [OF re(1,2)] re(3) lift show ?thesis
      by (auto simp: st tokenRefreshMargin_def dest: due)
  next
    case False
    then have no: "run_state (remint_token E ns stored app repo ra) ?w1 \<noteq> (r, w')"
      if "0 \<le> ra" "ra \<le> seconds 30" "q_secret E (w_calls w) ns name = Inr stored"
        "\<forall>expiresAt. map_str (m_annotations (sec_meta stored)) tokenExpiresAtAnnotation \<noteq> []
           \<longrightarrow> l_parse_time E (map_str (m_annotations (sec_meta stored)) tokenExpiresAtAnnotation) = Some expiresAt
           \<longrightarrow> expiresAt \<le> q_clock E (w_calls w @ [Read ''Secret'' ns name]) + minutes 5"
      for stored app ra
      using that by blast
    with assms show ?thesis
      by (auto simp: refreshGitHubAppTokenSecret_def io_run Let_def no_refresh_def refresh_failed_def
          tokenRefreshMargin_def tokenRefreshRetryInterval_def split: sum.splits option.splits if_splits)
  qed
qed

definition token_secret :: "int \<Rightarrow> secret" where
  "token_secret expiresAt =
     \<lparr>sec_meta = blank_meta\<lparr>m_annotations := [(githubAppSecretAnnotation, ''app''),
        (tokenExpiresAtAnnotation, itoa expiresAt)]\<rparr>, sec_data = [], sec_string_data = []\<rparr>"

lemma refresh_schedule_witness:
  "run_state (refreshGitHubAppTokenSecret
       (idle_cluster\<lparr>q_secret := (\<lambda>h ns name. Inr (token_secret (minutes 60)))\<rparr>) ''default'' ''s'' [])
     start = (\<lparr>rf_next = minutes 55, rf_expires = 0, rf_refreshed = False, rf_error = None\<rparr>,
       start\<lparr>w_calls := [Read ''Secret'' ''default'' ''s'']\<rparr>)"
proof -
  let ?E = "idle_cluster\<lparr>q_secret := (\<lambda>h ns name. Inr (token_secret (minutes 60)))\<rparr>"
  let ?run = "run_state (refreshGitHubAppTokenSecret ?E ''default'' ''s'' []) start"
  have time: "parse_int (itoa (minutes 60)) = Some (minutes 60)" "itoa (minutes 60) \<noteq> []"
    using parse_int_itoa [of "minutes 60"] by (simp_all only: itoa_def) (simp_all add: max_int64_def)
  have ann: "map_str (m_annotations (sec_meta (token_secret (minutes 60)))) tokenExpiresAtAnnotation
       = itoa (minutes 60)"
    "map_str (m_annotations (sec_meta (token_secret (minutes 60)))) githubAppSecretAnnotation = ''app''"
    by (simp_all add: token_secret_def map_str_def tokenExpiresAtAnnotation_def githubAppSecretAnnotation_def)
  have other: "\<not> rf_refreshed (fst ?run)" "rf_expires (fst ?run) = 0"
    using time ann
    by (simp_all add: refreshGitHubAppTokenSecret_def io_run Let_def cluster_defs tokenRefreshMargin_def)
  from refresh_schedule [of ?E "''default''" "''s''" "[]" start "fst ?run" "snd ?run"] time ann other
  have "snd ?run = start\<lparr>w_calls := [Read ''Secret'' ''default'' ''s'']\<rparr>" "rf_error (fst ?run) = None"
    "rf_next (fst ?run) = minutes 55"
    by (simp_all add: cluster_defs)
  with other show ?thesis by (simp add: prod_eq_iff)
qed

end
