(* ===== verification/ConfigFacts.thy ===== *)
theory ConfigFacts
  imports AgentConfig WorkerPods Cluster
begin

text \<open>
  What the preparation of an agent guarantees: merging configurations loses no server and
  keeps the last of each name, environments have no duplicate names, and the plugin ConfigMap
  holds every component within its size. At the end the shared worker pod: cancellation and
  the log segment of a task.
\<close>

section \<open>Merging\<close>

text \<open>\<open>latest\<close>: the last server of its name in a list of servers.\<close>

definition latest :: "mcp_server_spec list \<Rightarrow> mcp_server_spec \<Rightarrow> bool" where
  "latest all s \<longleftrightarrow> List.find (\<lambda>x. mcp_name x = mcp_name s) (rev all) = Some s"

text \<open>The state of the loop over the servers: the index and the list agree.\<close>

definition merged :: "mcp_server_spec list \<Rightarrow> (string \<times> nat) list \<times> mcp_server_spec list \<Rightarrow> bool" where
  "merged all st \<longleftrightarrow>
     (\<forall>name i. map_of (fst st) name = Some i \<longleftrightarrow>
         i < length (snd st) \<and> mcp_name (snd st ! i) = name)
     \<and> map mcp_name (snd st) = rev (remdups (rev (map mcp_name all)))
     \<and> (\<forall>s \<in> set (snd st). latest all s)"

lemma map_of_put: "map_of (map_put k v m) j = (if j = k then Some v else map_of m j)"
  by (simp add: update_conv')

lemma merged_step:
  assumes "merged all st"
  shows "merged (all @ [server]) (merge_server st server)"
proof -
  obtain seen servers where st: "st = (seen, servers)" by (cases st)
  have idx: "\<And>name i. map_of seen name = Some i \<longleftrightarrow> i < length servers \<and> mcp_name (servers ! i) = name"
    and names: "map mcp_name servers = rev (remdups (rev (map mcp_name all)))"
    and last: "\<And>s. s \<in> set servers \<Longrightarrow> latest all s"
    using assms by (auto simp: merged_def st)
  have dist: "distinct (map mcp_name servers)" and set: "mcp_name ` set servers = mcp_name ` set all"
    using names by (simp, metis list.set_map set_remdups set_rev)
  show ?thesis
  proof (cases "map_of seen (mcp_name server)")
    case None
    then have new: "mcp_name server \<notin> mcp_name ` set servers"
    proof -
      have "mcp_name (servers ! k) \<noteq> mcp_name server" if "k < length servers" for k
        using None idx [of "mcp_name (servers ! k)" k] that by auto
      then show ?thesis by (metis imageE in_set_conv_nth)
    qed
    then have "i < length servers \<Longrightarrow> mcp_name (servers ! i) \<noteq> mcp_name server" for i
      by (metis image_eqI nth_mem)
    with new set names None last show ?thesis
      by (auto simp: merged_def merge_server_def st map_of_put idx nth_append latest_def less_Suc_eq)
  next
    case (Some i)
    then have i: "i < length servers" "mcp_name (servers ! i) = mcp_name server" using idx by auto
    have others: "latest (all @ [server]) s" if "s \<in> set (servers[i := server])" for s
    proof (cases "s = server")
      case False
      with that i dist obtain j where "j < length servers" "j \<noteq> i" "s = servers ! j"
        by (auto simp: in_set_conv_nth nth_list_update split: if_splits)
      moreover from this have "mcp_name s \<noteq> mcp_name server"
        using i dist nth_eq_iff_index_eq [of "map mcp_name servers" i j] by auto
      ultimately show ?thesis using last [of s] by (auto simp: latest_def)
    qed (simp add: latest_def)
    have "map mcp_name (servers[i := server]) = map mcp_name servers"
      using i by (simp add: map_update list_update_same_conv)
    moreover have "mcp_name server \<in> mcp_name ` set all"
      using i set by (metis image_eqI nth_mem)
    ultimately have "map mcp_name (servers[i := server]) = rev (remdups (rev (map mcp_name (all @ [server]))))"
      using names by simp
    moreover have "map_of seen name = Some k \<longleftrightarrow>
        k < length servers \<and> mcp_name (servers[i := server] ! k) = name" for name k
      using idx [of name k] i by (auto simp: nth_list_update)
    moreover have "merge_server st server = (seen, servers[i := server])"
      using Some by (simp add: merge_server_def st)
    ultimately show ?thesis using others by (simp add: merged_def)
  qed
qed

lemma merged_servers: "merged all st \<Longrightarrow> merged (all @ servers) (foldl merge_server st servers)"
proof (induction servers arbitrary: all st)
  case (Cons s servers)
  from Cons.IH [OF merged_step [OF Cons.prems]] show ?case by simp
qed simp

lemma merged_configs:
  "merged all st \<Longrightarrow> merged (all @ concat (map ac_mcp_servers cs))
     (foldl (\<lambda>st c. foldl merge_server st (ac_mcp_servers c)) st cs)"
proof (induction cs arbitrary: all st)
  case (Cons c cs)
  from Cons.IH [OF merged_servers [OF Cons.prems]] show ?case by simp
qed simp

text \<open>
  Merging several agent configurations keeps all plugins and skills in order, and of the
  MCP servers exactly the last of each name, in the order in which the names first appear.
\<close>

theorem merge_keeps_last:
  assumes "MergeAgentConfigs (c # d # cs) = Some m"
  shows "ac_plugins m = concat (map ac_plugins (c # d # cs))
    \<and> ac_skills m = concat (map ac_skills (c # d # cs))
    \<and> map mcp_name (ac_mcp_servers m)
      = rev (remdups (rev (map mcp_name (concat (map ac_mcp_servers (c # d # cs))))))
    \<and> (\<forall>s \<in> set (ac_mcp_servers m). latest (concat (map ac_mcp_servers (c # d # cs))) s)"
proof -
  have "merged [] ([], [])" by (simp add: merged_def)
  from merged_configs [OF this, of "c # d # cs"] assms show ?thesis
    by (auto simp: MergeAgentConfigs_def merged_def)
qed

definition named_server :: "string \<Rightarrow> string \<Rightarrow> mcp_server_spec" where
  "named_server name url =
     \<lparr>mcp_name = name, mcp_type = ''http'', mcp_command = [], mcp_args = [], mcp_url = url,
      mcp_headers = [], mcp_headers_from = None, mcp_env = [], mcp_env_from = None,
      mcp_always_load = False\<rparr>"

definition server_config :: "mcp_server_spec list \<Rightarrow> agent_config_spec" where
  "server_config servers =
     \<lparr>ac_agents_md = [], ac_plugins = [], ac_skills = [], ac_mcp_servers = servers\<rparr>"

lemma merge_keeps_last_witness:
  "\<exists>m. MergeAgentConfigs [server_config [named_server ''a'' ''1'', named_server ''b'' ''2''],
        server_config [named_server ''a'' ''3'']] = Some m
     \<and> map mcp_name (ac_mcp_servers m) = [''a'', ''b'']"
proof -
  obtain m where m: "MergeAgentConfigs [server_config [named_server ''a'' ''1'', named_server ''b'' ''2''],
        server_config [named_server ''a'' ''3'']] = Some m"
    by (simp add: MergeAgentConfigs_def)
  from merge_keeps_last [OF m] m show ?thesis
    by (auto simp: server_config_def named_server_def)
qed

section \<open>The environment of a server\<close>

text \<open>The names in the order list are the keys of the map, each once.\<close>

definition ordered :: "ordered_env \<Rightarrow> bool" where
  "ordered st \<longleftrightarrow> distinct (snd st) \<and> set (snd st) = dom (map_of (fst st))"

lemma ordered_set: "ordered st \<Longrightarrow> ordered (env_set name v st)"
  by (cases st) (auto simp: ordered_def env_set_def map_of_put domIff split: if_splits)

lemma env_set_lookup:
  "map_of (fst (env_set name v st)) k = (if k = name then Some v else map_of (fst st) k)"
  by (cases st) (simp add: env_set_def map_of_put)

lemma resolve_env_entries_ordered:
  assumes "run_state (resolve_env_entries E ns server st entries) w = (Inr st', w')" and "ordered st"
  shows "ordered st' \<and> dom (map_of (fst st')) \<subseteq> dom (map_of (fst st)) \<union> ev_name ` set entries"
  using assms
proof (induction entries arbitrary: st w)
  case (Cons entry rest)
  from Cons.prems obtain r w1 where ne: "ev_name entry \<noteq> []"
    and tail: "run_state (case r of Inl e \<Rightarrow> ret (Inl e)
       | Inr None \<Rightarrow> resolve_env_entries E ns server st rest
       | Inr (Some value) \<Rightarrow> resolve_env_entries E ns server (env_set (ev_name entry) value st) rest) w1
       = (Inr st', w')"
    by (auto split: if_splits prod.splits)
  show ?case
  proof (cases r)
    case (Inr x)
    show ?thesis
    proof (cases x)
      case None
      with Inr tail Cons.IH [of st w1] Cons.prems(2) show ?thesis by auto
    next
      case (Some v)
      with Inr tail Cons.IH [of "env_set (ev_name entry) v st" w1] ordered_set [OF Cons.prems(2)]
      show ?thesis by (auto simp: env_set_lookup split: if_splits)
    qed
  qed (use tail in simp)
qed simp

lemma env_from_secret_lookup:
  "map_of (fst (env_from_secret data st)) k =
     (case map_of data k of None \<Rightarrow> map_of (fst st) k | Some v \<Rightarrow> Some v)"
proof -
  have "map_of (fst (foldl (\<lambda>st key. env_set key (map_str data key) st) st keys)) k
      = (if k \<in> set keys then Some (map_str data k) else map_of (fst st) k)" for keys
    by (induction keys arbitrary: st) (auto simp: env_set_lookup)
  moreover have "k \<in> fst ` set data \<longleftrightarrow> map_of data k \<noteq> None"
    by (simp add: map_of_eq_None_iff)
  ultimately show ?thesis
    by (auto simp: env_from_secret_def map_str_def split: option.splits)
qed

lemma env_from_secret_ordered: "ordered st \<Longrightarrow> ordered (env_from_secret data st)"
proof -
  have "ordered st \<Longrightarrow> ordered (foldl (\<lambda>st key. env_set key (map_str data key) st) st keys)" for keys
    by (induction keys arbitrary: st) (simp_all add: ordered_set del: split_paired_All)
  then show "ordered st \<Longrightarrow> ordered (env_from_secret data st)" by (simp add: env_from_secret_def)
qed

lemma env_list_names: "map ev_name (env_list st) = snd st"
  by (cases st) (simp add: env_list_def comp_def)

text \<open>
  The environment of an MCP server has every name once and only plain values; it has
  every entry of the Secret named by \<^verbatim>\<open>envFrom\<close>, which wins over an entry of \<^verbatim>\<open>env\<close> with
  the same name; and it has no other names than these.
\<close>

theorem env_resolved:
  assumes "run_state (resolveMCPServerEnv E ns server) w = (Inr vars, w')"
  shows "distinct (map ev_name vars) \<and> list_all (\<lambda>v. ev_from v = None) vars
    \<and> (\<exists>data. (case mcp_env_from server of None \<Rightarrow> data = []
                | Some ref \<Rightarrow> \<exists>h s. q_secret E h ns ref = Inr s \<and> data = sec_data s)
        \<and> (\<forall>k v. map_of data k = Some v \<longrightarrow> \<lparr>ev_name = k, ev_value = v, ev_from = None\<rparr> \<in> set vars)
        \<and> set (map ev_name vars) \<subseteq> ev_name ` set (mcp_env server) \<union> dom (map_of data))"
proof -
  from assms obtain st w1 where
    st: "run_state (resolve_env_entries E ns (mcp_name server) ([], []) (mcp_env server)) w = (Inr st, w1)"
    and vars: "case mcp_env_from server of None \<Rightarrow> vars = env_list st
      | Some ref \<Rightarrow> \<exists>s. q_secret E (w_calls w1) ns ref = Inr s
          \<and> vars = env_list (env_from_secret (sec_data s) st)"
    by (auto simp: resolveMCPServerEnv_def io_run split: prod.splits sum.splits option.splits)
  have ord: "ordered st" and dom: "dom (map_of (fst st)) \<subseteq> ev_name ` set (mcp_env server)"
    using resolve_env_entries_ordered [OF st] by (auto simp: ordered_def)
  have plain: "list_all (\<lambda>v. ev_from v = None) (env_list x)" for x
    by (cases x) (simp add: env_list_def list_all_iff)
  show ?thesis
  proof (cases "mcp_env_from server")
    case None
    with vars ord dom plain show ?thesis
      by (auto simp: ordered_def env_list_names simp flip: set_map)
  next
    case (Some ref)
    with vars obtain s where s: "q_secret E (w_calls w1) ns ref = Inr s"
      and v: "vars = env_list (env_from_secret (sec_data s) st)" by auto
    note ord' = env_from_secret_ordered [OF ord, of "sec_data s"]
    have "\<lparr>ev_name = k, ev_value = x, ev_from = None\<rparr> \<in> set vars" if "map_of (sec_data s) k = Some x" for k x
    proof -
      have look: "map_of (fst (env_from_secret (sec_data s) st)) k = Some x"
        using that by (simp add: env_from_secret_lookup)
      then have "k \<in> set (snd (env_from_secret (sec_data s) st))" using ord' by (auto simp: ordered_def)
      with look show ?thesis
        unfolding v by (cases "env_from_secret (sec_data s) st") (auto simp: env_list_def map_str_def)
    qed
    moreover have "set (map ev_name vars) \<subseteq> ev_name ` set (mcp_env server) \<union> dom (map_of (sec_data s))"
      using ord' dom unfolding v set_map [symmetric] env_list_names
      by (auto simp: ordered_def env_from_secret_lookup split: option.splits dest: subsetD [OF dom domI])
    ultimately show ?thesis
      using Some s v ord' plain by (auto simp: ordered_def env_list_names)
  qed
qed

lemma env_resolved_witness:
  "\<exists>vars w'. run_state (resolveMCPServerEnv
       (idle_cluster\<lparr>q_secret := (\<lambda>h ns name. Inr \<lparr>sec_meta = blank_meta,
          sec_data = [(''A'', ''secret'')], sec_string_data = []\<rparr>)\<rparr>) ''default''
       ((named_server ''s'' [])\<lparr>mcp_env := [\<lparr>ev_name = ''A'', ev_value = ''plain'', ev_from = None\<rparr>],
          mcp_env_from := Some ''ref''\<rparr>)) start = (Inr vars, w')
     \<and> \<lparr>ev_name = ''A'', ev_value = ''secret'', ev_from = None\<rparr> \<in> set vars \<and> distinct (map ev_name vars)"
proof -
  let ?E = "idle_cluster\<lparr>q_secret := (\<lambda>h ns name. Inr \<lparr>sec_meta = blank_meta,
          sec_data = [(''A'', ''secret'')], sec_string_data = []\<rparr>)\<rparr>"
  let ?s = "(named_server ''s'' [])\<lparr>mcp_env := [\<lparr>ev_name = ''A'', ev_value = ''plain'', ev_from = None\<rparr>],
          mcp_env_from := Some ''ref''\<rparr>"
  obtain vars w' where r: "run_state (resolveMCPServerEnv ?E ''default'' ?s) start = (Inr vars, w')"
    by (simp add: resolveMCPServerEnv_def resolveEnvVarValue_def io_run cluster_defs)
  from env_resolved [OF r] r show ?thesis by auto
qed

section \<open>Plugins\<close>

text \<open>The files of a plugin, as path and content.\<close>

definition plugin_files :: "plugin_spec \<Rightarrow> (string \<times> string) list" where
  "plugin_files p =
     map (\<lambda>(name, content). (skill_path (pl_name p) name, content)) (pl_skills p)
     @ map (\<lambda>(name, content). (agent_path (pl_name p) name, content)) (pl_agents p)"

definition safe_name :: "string \<Rightarrow> bool" where
  "safe_name name \<longleftrightarrow> name \<noteq> [] \<and> name \<noteq> ''.'' \<and> name \<noteq> ''..''
     \<and> CHR ''/'' \<notin> set name \<and> CHR 0x5C \<notin> set name"

definition safe_plugin :: "plugin_spec \<Rightarrow> bool" where
  "safe_plugin p \<longleftrightarrow> safe_name (pl_name p) \<and> list_all (safe_name \<circ> fst) (pl_skills p)
     \<and> list_all (safe_name \<circ> fst) (pl_agents p)"

lemma sanitize_None: "sanitizeComponentName name kind = None \<longleftrightarrow> safe_name name"
  by (auto simp: sanitizeComponentName_def safe_name_def)

text \<open>The components with their keys, and what the loops make of them.\<close>

definition keyed :: "int \<Rightarrow> string \<Rightarrow> (string \<Rightarrow> string) \<Rightarrow> int \<Rightarrow> (string \<times> string) list \<Rightarrow>
    (string \<times> string \<times> string) list" where
  "keyed i letter path j cs =
     map (\<lambda>(n, name, content). (component_key i letter (j + int n), path name, content)) (enumerate 0 cs)"

definition plugin_components :: "int \<Rightarrow> plugin_spec \<Rightarrow> (string \<times> string \<times> string) list" where
  "plugin_components i p =
     keyed i ''s'' (skill_path (pl_name p)) 0 (pl_skills p)
     @ keyed i ''a'' (agent_path (pl_name p)) 0 (pl_agents p)"

fun all_components :: "int \<Rightarrow> plugin_spec list \<Rightarrow> (string \<times> string \<times> string) list" where
  "all_components i [] = []"
| "all_components i (p # ps) = plugin_components i p @ all_components (i + 1) ps"

definition add_all :: "(string \<times> string \<times> string) list \<Rightarrow> plugin_payload \<Rightarrow> plugin_payload" where
  "add_all cs p = foldl (\<lambda>p (key, path, content). add_component key path content p) p cs"

lemma keyed_Cons:
  "keyed i letter path j ((name, content) # cs) =
     (component_key i letter j, path name, content) # keyed i letter path (j + 1) cs"
proof -
  have "enumerate (Suc 0) cs = map (\<lambda>(n, x). (Suc n, x)) (enumerate 0 cs)"
    by (simp add: enumerate_Suc_eq apfst_def map_prod_def split_beta)
  then show ?thesis by (simp add: keyed_def comp_def split_beta algebra_simps)
qed

lemma add_all_append: "add_all (cs @ ds) p = add_all ds (add_all cs p)"
  by (simp add: add_all_def)

lemma add_skills_all:
  "add_skills plugin i j cs p = Inr p' \<longleftrightarrow>
     list_all (safe_name \<circ> fst) cs \<and> p' = add_all (keyed i ''s'' (skill_path plugin) j cs) p"
proof (induction cs arbitrary: j p)
  case (Cons c cs)
  then show ?case
    by (cases c) (auto simp: keyed_Cons add_all_def simp flip: sanitize_None [of _ "''skill''"]
        split: option.splits)
qed (auto simp: add_all_def keyed_def)

lemma add_agents_all:
  "add_agents plugin i j cs p = Inr p' \<longleftrightarrow>
     list_all (safe_name \<circ> fst) cs \<and> p' = add_all (keyed i ''a'' (agent_path plugin) j cs) p"
proof (induction cs arbitrary: j p)
  case (Cons c cs)
  then show ?case
    by (cases c) (auto simp: keyed_Cons add_all_def simp flip: sanitize_None [of _ "''agent''"]
        split: option.splits)
qed (auto simp: add_all_def keyed_def)

lemma add_plugins_all:
  "add_plugins i ps p = Inr p' \<longleftrightarrow> list_all safe_plugin ps \<and> p' = add_all (all_components i ps) p"
proof (induction ps arbitrary: i p)
  case (Cons plugin ps)
  show ?case
  proof (cases "safe_plugin plugin")
    case True
    let ?p1 = "add_all (keyed i ''s'' (skill_path (pl_name plugin)) 0 (pl_skills plugin)) p"
    have "add_skills (pl_name plugin) i 0 (pl_skills plugin) p = Inr ?p1"
      using True by (simp add: add_skills_all safe_plugin_def)
    moreover have "add_agents (pl_name plugin) i 0 (pl_agents plugin) ?p1
        = Inr (add_all (plugin_components i plugin) p)"
      using True by (simp add: add_agents_all safe_plugin_def plugin_components_def add_all_append)
    ultimately show ?thesis
      using True sanitize_None [of "pl_name plugin" "''plugin''"]
      by (simp add: Cons.IH add_all_append safe_plugin_def)
  next
    case False
    then show ?thesis
      using add_skills_all [of "pl_name plugin" i 0 "pl_skills plugin" p]
        add_agents_all [of "pl_name plugin" i 0 "pl_agents plugin"] sanitize_None [of "pl_name plugin" "''plugin''"]
      by (auto simp: safe_plugin_def split: option.splits sum.splits)
  qed
qed (auto simp: add_all_def)

subsection \<open>Keys\<close>

lemma digits_no_dash: "CHR ''-'' \<notin> set (show_nat n)"
proof (induction n rule: show_nat.induct)
  case (1 n)
  have "CHR ''-'' \<noteq> digit_char (n mod 10)" using digit_char_not_sign [of "n mod 10"] by auto
  moreover have "n < 10 \<Longrightarrow> CHR ''-'' \<noteq> digit_char n" by (metis digit_char_not_sign)
  ultimately show ?case using 1 by (subst show_nat.simps) auto
qed

lemma split_at_first: "c \<notin> set xs \<Longrightarrow> c \<notin> set ys \<Longrightarrow> xs @ c # zs = ys @ c # ws \<Longrightarrow> xs = ys \<and> zs = ws"
proof (induction xs arbitrary: ys)
  case Nil
  then show ?case by (cases ys) simp_all
next
  case (Cons x xs)
  then obtain y ys' where ys: "ys = y # ys'" by (cases ys) simp_all
  have "xs = ys' \<and> zs = ws" by (rule Cons.IH) (use Cons.prems ys in simp_all)
  with Cons.prems ys show ?case by simp
qed

lemma component_key_inj:
  assumes "component_key i [l] j = component_key i' [l'] j'" and "0 \<le> i" "0 \<le> j" "0 \<le> i'" "0 \<le> j'"
  shows "i = i' \<and> l = l' \<and> j = j'"
proof -
  have "CHR ''-'' \<notin> set (itoa k)" if "0 \<le> k" for k
    using that digits_no_dash by (simp add: itoa_def)
  then have "itoa i = itoa i' \<and> [l] @ itoa j = [l'] @ itoa j'"
    using assms by (intro split_at_first [of "CHR ''-''"]) (simp_all add: component_key_def)
  with assms show ?thesis by (auto dest: itoa_inj)
qed

lemma keyed_keys:
  "key \<in> fst ` set (keyed i l path j cs) \<Longrightarrow> \<exists>n. key = component_key i l (j + int n)"
  by (auto simp: keyed_def)

lemma keyed_distinct: "0 \<le> i \<Longrightarrow> 0 \<le> j \<Longrightarrow> distinct (map fst (keyed i [l] path j cs))"
proof (induction cs arbitrary: j)
  case (Cons c cs)
  obtain name content where c: "c = (name, content)" by (cases c)
  have "component_key i [l] j \<notin> fst ` set (keyed i [l] path (j + 1) cs)"
  proof
    assume "component_key i [l] j \<in> fst ` set (keyed i [l] path (j + 1) cs)"
    then obtain n where "component_key i [l] j = component_key i [l] (j + 1 + int n)"
      using keyed_keys by meson
    with Cons.prems show False by (auto dest!: component_key_inj)
  qed
  with Cons.IH [of "j + 1"] Cons.prems show ?case by (simp add: c keyed_Cons)
qed (simp add: keyed_def)

lemma components_keys:
  "0 \<le> i \<Longrightarrow> key \<in> fst ` set (plugin_components i p) \<Longrightarrow>
     \<exists>l j. key = component_key i [l] j \<and> 0 \<le> j"
proof -
  assume "0 \<le> i" and "key \<in> fst ` set (plugin_components i p)"
  then have "key \<in> fst ` set (keyed i ''s'' (skill_path (pl_name p)) 0 (pl_skills p))
      \<or> key \<in> fst ` set (keyed i ''a'' (agent_path (pl_name p)) 0 (pl_agents p))"
    by (simp add: plugin_components_def image_Un)
  then obtain l n where "key = component_key i [l] (0 + int n)"
    by (meson keyed_keys)
  then show ?thesis by (intro exI [where x = l] exI [where x = "int n"]) simp
qed

lemma components_distinct: "0 \<le> i \<Longrightarrow> distinct (map fst (plugin_components i p))"
proof -
  assume i: "0 \<le> i"
  have "fst ` set (keyed i ''s'' path 0 cs) \<inter> fst ` set (keyed i ''a'' path' 0 ds) = {}" for path path' cs ds
  proof (rule equals0I)
    fix key
    assume "key \<in> fst ` set (keyed i ''s'' path 0 cs) \<inter> fst ` set (keyed i ''a'' path' 0 ds)"
    then obtain n m where "key = component_key i ''s'' (0 + int n)" "key = component_key i ''a'' (0 + int m)"
      using keyed_keys [of key i "''s''" path 0 cs] keyed_keys [of key i "''a''" path' 0 ds]
      by (meson IntD1 IntD2)
    then have "component_key i ''s'' (int n) = component_key i ''a'' (int m)" by simp
    from component_key_inj [OF this] i show False by simp
  qed
  with i show ?thesis by (simp add: plugin_components_def keyed_distinct)
qed

lemma all_keys:
  "0 \<le> i \<Longrightarrow> key \<in> fst ` set (all_components i ps) \<Longrightarrow>
     \<exists>k l j. key = component_key k [l] j \<and> i \<le> k \<and> 0 \<le> j"
proof (induction ps arbitrary: i)
  case (Cons p ps)
  show ?case
  proof (cases "key \<in> fst ` set (plugin_components i p)")
    case True
    with components_keys [OF Cons.prems(1) True] show ?thesis by blast
  next
    case False
    with Cons.prems Cons.IH [of "i + 1"] show ?thesis by (auto) force+
  qed
qed simp

lemma all_distinct: "0 \<le> i \<Longrightarrow> distinct (map fst (all_components i ps))"
proof (induction ps arbitrary: i)
  case (Cons p ps)
  have "fst ` set (plugin_components i p) \<inter> fst ` set (all_components (i + 1) ps) = {}"
  proof (rule ccontr)
    assume "fst ` set (plugin_components i p) \<inter> fst ` set (all_components (i + 1) ps) \<noteq> {}"
    then obtain key where "key \<in> fst ` set (plugin_components i p)"
      "key \<in> fst ` set (all_components (i + 1) ps)" by blast
    with components_keys [of i key p] all_keys [of "i + 1" key ps] Cons.prems show False
      by (auto dest!: component_key_inj)
  qed
  with Cons.IH [of "i + 1"] Cons.prems components_distinct [of i p] show ?case by simp
qed simp

subsection \<open>The ConfigMap\<close>

lemma add_all_items: "pp_items (add_all cs p) = pp_items p @ map (\<lambda>(key, path, c). (key, path)) cs"
  by (induction cs arbitrary: p) (auto simp: add_all_def add_component_def)

lemma add_all_bytes:
  "pp_bytes (add_all cs p) = pp_bytes p + (\<Sum>(key, path, c)\<leftarrow>cs. int (length c))"
  by (induction cs arbitrary: p) (auto simp: add_all_def add_component_def)

lemma add_all_data_other:
  "key \<notin> fst ` set cs \<Longrightarrow> map_of (pp_data (add_all cs p)) key = map_of (pp_data p) key"
  by (induction cs arbitrary: p) (auto simp: add_all_def add_component_def map_of_put)

lemma add_all_data:
  assumes "distinct (map fst cs)" and "(key, path, c) \<in> set cs"
  shows "map_of (pp_data (add_all cs p)) key = Some c"
  using assms
proof (induction cs arbitrary: p)
  case (Cons d cs)
  show ?case
  proof (cases "d = (key, path, c)")
    case True
    then have "add_all (d # cs) p = add_all cs (add_component key path c p)" by (simp add: add_all_def)
    with Cons.prems True add_all_data_other [of key cs] show ?thesis
      by (simp add: add_component_def map_of_put)
  next
    case False
    then have "add_all (d # cs) p = add_all cs (add_component (fst d) (fst (snd d)) (snd (snd d)) p)"
      by (simp add: add_all_def split_beta)
    with Cons.prems False Cons.IH show ?thesis by simp
  qed
qed simp

lemma component_files:
  "map snd (plugin_components i p) = plugin_files p"
proof -
  have snd: "map snd (keyed i l path j cs) = map (\<lambda>(name, c). (path name, c)) cs" for l path j cs
    by (induction cs arbitrary: j) (auto simp: keyed_Cons, simp add: keyed_def)
  show ?thesis by (simp add: plugin_components_def plugin_files_def snd)
qed

lemma all_component_files: "map snd (all_components i ps) = concat (map plugin_files ps)"
  by (induction ps arbitrary: i) (simp_all add: component_files)

text \<open>
  The plugin ConfigMap loses nothing: it can be built exactly when every name is a plain
  path component and the contents fit into 900 KiB, and then its items list every skill and
  agent of every plugin at its path, each under a key of its own that holds its content.
\<close>

theorem plugin_data_complete:
  "(\<exists>data items. buildPluginConfigMapData plugins = Inr (data, items)) =
     (list_all safe_plugin plugins
      \<and> (\<Sum>(path, c)\<leftarrow>concat (map plugin_files plugins). int (length c)) \<le> 900 * 1024)
   \<and> (\<forall>data items. buildPluginConfigMapData plugins = Inr (data, items) \<longrightarrow>
        distinct (map fst items)
        \<and> map (\<lambda>(key, path). (path, map_of data key)) items
          = map (\<lambda>(path, c). (path, Some c)) (concat (map plugin_files plugins)))"
proof -
  let ?p = "\<lparr>pp_data = [], pp_items = [], pp_bytes = 0\<rparr>"
  let ?cs = "all_components 0 plugins"
  have files: "concat (map plugin_files plugins) = map snd ?cs"
    by (simp add: all_component_files)
  have size: "(\<Sum>(path, c)\<leftarrow>concat (map plugin_files plugins). int (length c)) = pp_bytes (add_all ?cs ?p)"
    unfolding files by (auto simp: add_all_bytes intro!: arg_cong [where f = sum_list])
  have build: "buildPluginConfigMapData plugins = Inr (data, items) \<longleftrightarrow>
      list_all safe_plugin plugins \<and> pp_bytes (add_all ?cs ?p) \<le> 900 * 1024
      \<and> data = pp_data (add_all ?cs ?p) \<and> items = pp_items (add_all ?cs ?p)" for data items
  proof (cases "list_all safe_plugin plugins")
    case True
    then have "add_plugins 0 plugins ?p = Inr (add_all ?cs ?p)" by (simp add: add_plugins_all)
    with True show ?thesis
      by (auto simp: buildPluginConfigMapData_def pluginConfigMapMaxBytes_def)
  next
    case False
    then have "add_plugins 0 plugins ?p \<noteq> Inr p'" for p' by (simp add: add_plugins_all)
    with False show ?thesis
      by (auto simp: buildPluginConfigMapData_def split: sum.splits)
  qed
  have dist: "distinct (map fst ?cs)" by (rule all_distinct) simp
  have "map (\<lambda>(key, path). (path, map_of (pp_data (add_all ?cs ?p)) key)) (pp_items (add_all ?cs ?p))
      = map (\<lambda>(path, c). (path, Some c)) (map snd ?cs)"
    using add_all_data [OF dist] by (auto simp: add_all_items)
  moreover have "distinct (map fst (pp_items (add_all ?cs ?p)))"
    using dist by (simp add: add_all_items comp_def split_beta)
  ultimately show ?thesis unfolding size unfolding files build by auto
qed

lemma plugin_data_complete_witness:
  "\<exists>data items. buildPluginConfigMapData
       [\<lparr>pl_name = ''p'', pl_skills = [(''s'', ''text'')], pl_agents = [(''a'', ''more'')]\<rparr>] = Inr (data, items)
     \<and> map (\<lambda>(key, path). (path, map_of data key)) items
       = [(''p/skills/s/SKILL.md'', Some ''text''), (''p/agents/a.md'', Some ''more'')]"
  using plugin_data_complete
    [of "[\<lparr>pl_name = ''p'', pl_skills = [(''s'', ''text'')], pl_agents = [(''a'', ''more'')]\<rparr>]"]
  by (auto simp: safe_plugin_def safe_name_def plugin_files_def skill_path_def agent_path_def)

end
