(* ===== verification/WorkerPool.thy ===== *)
theory WorkerPool
  imports TaskController PoolBuilder
begin

text \<open>
  \<^verbatim>\<open>internal/controller/workerpool_controller.go\<close>: the reconciler that keeps the objects of
  a worker pool (ServiceAccount, RoleBinding, Service, plugin ConfigMap, StatefulSet, token
  Secret) and assigns tasks to the pool's pods. It shares budgets, records, tokens, agent
  configurations and metrics with the task reconciler, and builds the StatefulSet as \<open>PoolBuilder\<close>
  says. Two requests with the same name are one reconcile, as in the code.
\<close>

section \<open>Results\<close>

definition mergeReconcileResults :: "ctrl_result \<Rightarrow> ctrl_result \<Rightarrow> ctrl_result" where
  "mergeReconcileResults a b =
     \<lparr>requeue = requeue a \<or> requeue b,
      requeue_after =
        (if requeue_after b \<noteq> 0 \<and> (requeue_after a = 0 \<or> requeue_after b < requeue_after a)
         then requeue_after b else requeue_after a)\<rparr>"

section \<open>Workspaces of pools\<close>

definition validateWorkerPoolWorkspace :: "workspace_spec \<Rightarrow> go_err option" where
  "validateWorkerPoolWorkspace workspace =
     (if (case ws_clone workspace of None \<Rightarrow> False | Some c \<Rightarrow> wc_paths c \<noteq> [])
      then Some (new_err ''workspace clone.paths is not supported by WorkerPools'')
      else if workspaceRemovesGitDir workspace
      then Some (new_err ''workspace clone.removeGitDir is not supported by WorkerPools'')
      else if ws_agent_credentials workspace = ''None''
      then Some (new_err ''workspace agentCredentials None is not supported by WorkerPools'')
      else None)"

text \<open>The reason and whether the workspace is missing.\<close>

definition unsupportedPoolWorkspace :: "env \<Rightarrow> string \<Rightarrow> string \<Rightarrow> (go_err + (string \<times> bool)) io" where
  "unsupportedPoolWorkspace E ns poolName = do {
     p \<leftarrow> read_obj (q_pool E) ''WorkerPool'' ns poolName;
     (case p of
        Inl e \<Rightarrow>
          ret (if is_not_found e then Inr ([], False)
               else Inl (wrap_err (''workerpool '' @ poolName @ '': fetching WorkerPool'') e))
      | Inr pool \<Rightarrow>
          (case wk_workspace (wp_worker pool) of
             None \<Rightarrow> ret (Inr ([], False))
           | Some ref \<Rightarrow> do {
               w \<leftarrow> read_obj (q_workspace E) ''Workspace'' ns ref;
               ret (case w of
                      Inl e \<Rightarrow>
                        if is_not_found e then Inr ([], True)
                        else Inl (wrap_err (''workerpool '' @ poolName @ '': fetching Workspace ''
                                            @ quote ref) e)
                    | Inr ws \<Rightarrow>
                        (case validateWorkerPoolWorkspace ws of
                           Some e \<Rightarrow> Inr (''WorkerPool '' @ poolName @ '' cannot run Tasks: Workspace ''
                                          @ ref @ '': '' @ err_text e, False)
                         | None \<Rightarrow> Inr ([], False)))
             }))
   }"

section \<open>Completion\<close>

definition readPodOutputs :: "env \<Rightarrow> string \<Rightarrow> string \<Rightarrow> string \<Rightarrow> (string list \<times> strmap) io" where
  "readPodOutputs E ns podName taskName =
     (if \<not> has_clientset E \<or> podName = [] then ret ([], [])
      else do {
        d \<leftarrow> read_logs E ns podName;
        ret (case d of
               None \<Rightarrow> ([], [])
             | Some data \<Rightarrow>
                 (let segment = workerTaskLogSegment data taskName
                  in if segment = [] then ([], [])
                     else (ParseOutputs segment, ResultsFromOutputs (ParseOutputs segment))))
      })"

text \<open>The change that the completion writes; nil outputs and results leave the old ones.\<close>

definition apply_completion ::
  "env \<Rightarrow> task_phase \<Rightarrow> string \<Rightarrow> string list \<Rightarrow> strmap \<Rightarrow> int \<Rightarrow> task_status \<Rightarrow> task_status" where
  "apply_completion E phase message outputs results now s =
     (let s1 = s\<lparr>st_phase := phase, st_message := message, st_completion := Some now\<rparr>;
          s2 = (if outputs \<noteq> [] then s1\<lparr>st_outputs := outputs\<rparr> else s1)
      in if results \<noteq> []
         then s2\<lparr>st_results := results, st_usage := usageFromResults (l_parse_quantity E) results\<rparr>
         else s2)"

text \<open>The counters after the update; a phase that was terminal before is not counted again.\<close>

definition count_worker_completion :: "env \<Rightarrow> bool \<Rightarrow> task_phase \<Rightarrow> strmap \<Rightarrow> task \<Rightarrow> unit io" where
  "count_worker_completion E alreadyTerminal phase results t = do {
     (if alreadyTerminal then skip_io
      else do {
        recordTaskCompleted t phase;
        (case (st_start (t_status t), st_completion (t_status t)) of
           (Some start, Some completion) \<Rightarrow> observeTaskDuration t phase (completion - start)
         | _ \<Rightarrow> skip_io)
      });
     when_io (results \<noteq> []) (RecordCostTokenMetrics E t results)
   }"

text \<open>
  The last attempt of the retry loop, written out because the phase it found decides what is
  counted.
\<close>

definition completeTask :: "env \<Rightarrow> task \<Rightarrow> task_phase \<Rightarrow> string \<Rightarrow> (go_err option \<times> task) io" where
  "completeTask E t phase message = do {
     (outputs, results) \<leftarrow> readPodOutputs E (t_namespace t) (st_pod_name (t_status t)) (t_name t);
     r \<leftarrow> read_obj (q_task E) ''Task'' (t_namespace t) (t_name t);
     (case r of
        Inl e \<Rightarrow> ret (Some e, t)
      | Inr fresh \<Rightarrow> do {
          now \<leftarrow> clock E;
          (let t' = set_status (apply_completion E phase message outputs results now) fresh
           in do {
             e \<leftarrow> write_call E (UpdateTaskStatus t');
             (case e of
                Some e \<Rightarrow> ret (Some e, t')
              | None \<Rightarrow> do {
                  count_worker_completion E (isTerminalTaskPhase (t_phase fresh)) phase results t';
                  ret (None, t')
                })
           })
        })
   }"

definition workerTaskOutputRetryAfter :: "task \<Rightarrow> int \<Rightarrow> int" where
  "workerTaskOutputRetryAfter t now =
     (if t_phase t \<noteq> PhaseSucceeded \<or> st_outputs (t_status t) \<noteq> [] \<or> st_results (t_status t) \<noteq> []
      then 0
      else (case st_completion (t_status t) of
              None \<Rightarrow> 0
            | Some c \<Rightarrow>
                (let remaining = c + outputRetryWindow - now
                 in if remaining \<le> 0 then 0
                    else if remaining < outputRetryInterval then remaining
                    else outputRetryInterval)))"

text \<open>The write of late outputs: only into a succeeded task that has none.\<close>

definition late_outputs :: "env \<Rightarrow> string list \<Rightarrow> strmap \<Rightarrow> task \<Rightarrow> task option" where
  "late_outputs E outputs results fresh =
     (if t_phase fresh \<noteq> PhaseSucceeded \<or> st_outputs (t_status fresh) \<noteq> []
         \<or> st_results (t_status fresh) \<noteq> []
      then None
      else Some (set_status (with_outputs E outputs results) fresh))"

definition retryWorkerTaskOutputs :: "env \<Rightarrow> task \<Rightarrow> (outcome \<times> task) io" where
  "retryWorkerTaskOutputs E t = do {
     now \<leftarrow> clock E;
     (let retryAfter = workerTaskOutputRetryAfter t now
      in if retryAfter \<le> 0 then ret ((no_requeue, None), t)
         else do {
           (outputs, results) \<leftarrow> readPodOutputs E (t_namespace t) (st_pod_name (t_status t)) (t_name t);
           (if outputs = [] \<and> results = [] then ret ((after retryAfter, None), t)
            else do {
              r \<leftarrow> read_obj (q_task E) ''Task'' (t_namespace t) (t_name t);
              (case r of
                 Inl e \<Rightarrow> ret ((no_requeue, Some e), t)
               | Inr fresh \<Rightarrow>
                   (case late_outputs E outputs results fresh of
                      None \<Rightarrow> ret ((no_requeue, None), fresh)
                    | Some t' \<Rightarrow> do {
                        e \<leftarrow> write_call E (UpdateTaskStatus t');
                        (case e of
                           Some e \<Rightarrow> ret ((no_requeue, Some e), t')
                         | None \<Rightarrow> do {
                             when_io (results \<noteq> []) (RecordCostTokenMetrics E t' results);
                             ret ((no_requeue, None), t')
                           })
                      }))
            })
         })
   }"

definition createWorkerTaskRecord :: "env \<Rightarrow> task \<Rightarrow> go_err option io" where
  "createWorkerTaskRecord E t =
     (if st_usage (t_status t) \<noteq> None then createTaskRecord E t else ret None)"

definition clearTaskPodAssignmentIfStillAssigned :: "env \<Rightarrow> task \<Rightarrow> go_err option io" where
  "clearTaskPodAssignmentIfStillAssigned E t =
     (if st_pod_name (t_status t) = [] then ret None
      else do {
        r \<leftarrow> read_obj (q_pod E) ''Pod'' (t_namespace t) (st_pod_name (t_status t));
        (case r of
           Inl e \<Rightarrow>
             ret (if is_not_found e then None
                  else Some (wrap_err (''workerpool: fetching worker pod '' @ st_pod_name (t_status t)
                         @ '' for terminal task '' @ t_name t) e))
         | Inr p \<Rightarrow>
             if annotation p AnnotationWorkerAssignedTask \<noteq> t_name t then ret None
             else clearWorkerPodTaskAnnotations E p)
      })"

section \<open>Monitoring\<close>

text \<open>The branches for a pod whose runner reported the end of the task.\<close>

definition finish_on_pod ::
  "env \<Rightarrow> task \<Rightarrow> pod \<Rightarrow> task_phase \<Rightarrow> string \<Rightarrow> (task \<Rightarrow> int \<Rightarrow> ctrl_result) \<Rightarrow> outcome io" where
  "finish_on_pod E t p phase message next = do {
     (e, t') \<leftarrow> completeTask E t phase message;
     (case e of
        Some e \<Rightarrow> ret (no_requeue, Some e)
      | None \<Rightarrow> do {
          recordErr \<leftarrow> createWorkerTaskRecord E t';
          c \<leftarrow> clearWorkerPodTaskAnnotations E p;
          now \<leftarrow> clock E;
          ret (next t' now, recordErr)
        })
   }"

definition mark_running :: "env \<Rightarrow> task \<Rightarrow> outcome io" where
  "mark_running E t =
     (if t_phase t = PhaseRunning then ret (after (seconds 10), None)
      else do {
        (e, t') \<leftarrow> modify_task_status E t (\<lambda>now fresh.
          Some (set_status (\<lambda>s. s\<lparr>st_phase := PhaseRunning\<rparr>) fresh));
        ret (case e of Some e \<Rightarrow> (no_requeue, Some e) | None \<Rightarrow> (after (seconds 10), None))
      })"

definition monitorTaskCompletion :: "env \<Rightarrow> task \<Rightarrow> outcome io" where
  "monitorTaskCompletion E t = do {
     r \<leftarrow> read_obj (q_pod E) ''Pod'' (t_namespace t) (st_pod_name (t_status t));
     (case r of
        Inl e \<Rightarrow>
          if is_not_found e then do {
            (c, t') \<leftarrow> completeTask E t PhaseFailed ''Worker pod was deleted'';
            (case c of
               Some e \<Rightarrow> ret (no_requeue, Some e)
             | None \<Rightarrow> do {
                 recordErr \<leftarrow> createWorkerTaskRecord E t';
                 ret (no_requeue, recordErr)
               })
          }
          else ret (no_requeue, Some (wrap_err (''workerpool: fetching worker pod ''
                 @ st_pod_name (t_status t) @ '' for task '' @ t_name t) e))
      | Inr p \<Rightarrow>
          (let taskStatus = annotation p AnnotationWorkerTaskStatus
           in if taskStatus = ''succeeded''
              then finish_on_pod E t p PhaseSucceeded []
                     (\<lambda>t' now. after (workerTaskOutputRetryAfter t' now))
              else if taskStatus = ''failed''
              then finish_on_pod E t p PhaseFailed (annotation p AnnotationWorkerTaskFailReason)
                     (\<lambda>t' now. no_requeue)
              else if taskStatus = ''running'' \<or> taskStatus = [] then mark_running E t
              else ret (after (seconds 10), None)))
   }"

section \<open>Assignment\<close>

definition assigned_annotations :: "string \<Rightarrow> strmap \<Rightarrow> strmap" where
  "assigned_annotations taskName a =
     map_del AnnotationWorkerCancelTask
       (map_del AnnotationWorkerTaskFailReason
         (map_del AnnotationWorkerTaskStatus (map_put AnnotationWorkerAssignedTask taskName a)))"

text \<open>
  Claiming the pod by a patch under the optimistic lock of the copy just read, then the task.
  A task that cannot be updated gives the pod back.
\<close>

definition claim_pod :: "env \<Rightarrow> task \<Rightarrow> string \<Rightarrow> pod \<Rightarrow> outcome io" where
  "claim_pod E t poolName listed = do {
     r \<leftarrow> read_obj (q_pod E) ''Pod'' (m_namespace (pod_meta listed)) (m_name (pod_meta listed));
     (case r of
        Inl e \<Rightarrow> ret (no_requeue, Some (wrap_err (''workerpool '' @ poolName @ '': re-fetching pod ''
               @ m_name (pod_meta listed) @ '' before annotation'') e))
      | Inr current \<Rightarrow>
          (let claimed = with_annotations (assigned_annotations (t_name t)) current
           in do {
             e \<leftarrow> write_call E (PatchPodLocked current claimed);
             (case e of
                Some e \<Rightarrow> ret (after (seconds 2), None)
              | None \<Rightarrow> do {
                  (u, t') \<leftarrow> modify_task_status E t (\<lambda>now fresh.
                    Some (set_status (\<lambda>s. s\<lparr>st_phase := PhasePending,
                            st_pod_name := m_name (pod_meta claimed), st_start := Some now\<rparr>) fresh));
                  (case u of
                     Some e \<Rightarrow> do {
                       c \<leftarrow> clearWorkerPodTaskAnnotations E claimed;
                       ret (after (seconds 2), None)
                     }
                   | None \<Rightarrow> do {
                       recordEvent ''Normal'' ''TaskAssigned''
                         (''Assigned to worker pod '' @ m_name (pod_meta claimed));
                       ret (after (seconds 10), None)
                     })
                })
           }))
   }"

definition assignTask :: "env \<Rightarrow> task \<Rightarrow> string \<Rightarrow> outcome io" where
  "assignTask E t poolName = do {
     u \<leftarrow> unsupportedPoolWorkspace E (t_namespace t) poolName;
     (case u of
        Inl e \<Rightarrow> ret (no_requeue, Some e)
      | Inr (reason, workspaceMissing) \<Rightarrow>
          if workspaceMissing then ret (after (seconds 5), None)
          else if reason \<noteq> [] then do {
            recordEvent ''Warning'' ''UnsupportedWorkspace'' reason;
            (e, t') \<leftarrow> completeTask E t PhaseFailed reason;
            ret (no_requeue, e)
          }
          else do {
            (admitted, out, t1) \<leftarrow> checkBudgetAdmission E t;
            (if snd out \<noteq> None \<or> \<not> admitted then ret out
             else do {
               r \<leftarrow> read_obj (q_pool_pods E) ''PodList'' (t_namespace t1) (workerPoolLabelValue E poolName);
               (case r of
                  Inl e \<Rightarrow> ret (no_requeue, Some (wrap_err (''workerpool '' @ poolName
                             @ '': listing worker pods'') e))
                | Inr pods \<Rightarrow>
                    (case List.find isPodAvailable pods of
                       None \<Rightarrow> ret (after (seconds 5), None)
                     | Some p \<Rightarrow> claim_pod E t1 poolName p))
             })
          })
   }"

section \<open>Tasks of a pool\<close>

definition finish_terminal :: "env \<Rightarrow> task \<Rightarrow> outcome io" where
  "finish_terminal E t = do {
     (out, t') \<leftarrow> retryWorkerTaskOutputs E t;
     (case snd out of
        Some e \<Rightarrow> ret (no_requeue, Some e)
      | None \<Rightarrow> do {
          recordErr \<leftarrow> createWorkerTaskRecord E t';
          c \<leftarrow> clearTaskPodAssignmentIfStillAssigned E t';
          (case c of
             Some e \<Rightarrow> ret (no_requeue, Some e)
           | None \<Rightarrow> ret (fst out, recordErr))
        })
   }"

definition reconcileTask :: "env \<Rightarrow> task \<Rightarrow> string \<Rightarrow> outcome io" where
  "reconcileTask E t poolName =
     (if m_deletion (t_meta t) \<noteq> None then do {
        stop \<leftarrow> cancel_on_pod E t;
        ret (case stop of Some out \<Rightarrow> out | None \<Rightarrow> (no_requeue, None))
      }
      else if isTerminalTaskPhase (t_phase t) then finish_terminal E t
      else if (t_phase t = PhaseRunning \<or> t_phase t = PhasePending) \<and> st_pod_name (t_status t) \<noteq> []
      then monitorTaskCompletion E t
      else assignTask E t poolName)"

section \<open>The objects of a pool\<close>

definition worker_runner_account :: string where
  "worker_runner_account = ''kelos-worker-runner''"

definition ensureWorkerRBAC :: "env \<Rightarrow> string \<Rightarrow> go_err option io" where
  "ensureWorkerRBAC E ns = do {
     a \<leftarrow> ensure_exists E (read_obj (q_service_account E) ''ServiceAccount'' ns worker_runner_account)
            (CreateServiceAccount ns worker_runner_account);
     (case a of
        Some e \<Rightarrow> ret (Some e)
      | None \<Rightarrow> ensure_exists E (read_obj (q_role_binding E) ''RoleBinding'' ns worker_runner_account)
            (CreateRoleBinding ns worker_runner_account))
   }"

definition reconcileService :: "env \<Rightarrow> worker_pool \<Rightarrow> string \<Rightarrow> go_err option io" where
  "reconcileService E pool svcName = do {
     r \<leftarrow> read_obj (q_service E) ''Service'' (wp_namespace pool) svcName;
     (case r of
        Inr svc \<Rightarrow> ret None
      | Inl e \<Rightarrow>
          if \<not> is_not_found e then ret (Some e)
          else (case l_set_controller E (wp_meta pool)
                       (blank_meta\<lparr>m_name := svcName, m_namespace := wp_namespace pool,
                                   m_labels := workerPoolLabels E (wp_name pool)\<rparr>) of
             Inl e \<Rightarrow> ret (Some (wrap_err (''workerpool '' @ wp_name pool
                              @ '': setting Service owner reference'') e))
           | Inr meta \<Rightarrow> do {
               c \<leftarrow> write_call E (CreateService
                      \<lparr>svc_meta = meta, svc_selector = workerPoolLabels E (wp_name pool),
                       svc_cluster_ip = ''None'', svc_ports = []\<rparr>);
               (case c of
                  Some e \<Rightarrow>
                    ret (if is_already_exists e then None
                         else Some (wrap_err (''workerpool '' @ wp_name pool @ '': creating Service'') e))
                | None \<Rightarrow> do {
                    recordEvent ''Normal'' ''ServiceCreated'' (''Created headless Service '' @ svcName);
                    ret None
                  })
             }))
   }"

definition reconcilePluginConfigMap ::
  "env \<Rightarrow> worker_pool \<Rightarrow> plugin_spec list \<Rightarrow> go_err option io" where
  "reconcilePluginConfigMap E pool plugins =
     (let cmName = workerPoolPluginConfigMapName E (wp_name pool);
          fail = (\<lambda>what e. Some (wrap_err (''workerpool '' @ wp_name pool @ '': '' @ what) e))
      in case buildPluginConfigMapData plugins of
           Inl e \<Rightarrow> ret (fail ''building plugin ConfigMap data'' e)
         | Inr (data, items) \<Rightarrow> do {
             r \<leftarrow> read_obj (q_config_map E) ''ConfigMap'' (wp_namespace pool) cmName;
             (case r of
                Inl e \<Rightarrow>
                  if \<not> is_not_found e then ret (Some e)
                  else (case l_set_controller E (wp_meta pool)
                               (blank_meta\<lparr>m_name := cmName, m_namespace := wp_namespace pool,
                                           m_labels := workerPoolLabels E (wp_name pool)\<rparr>) of
                     Inl e \<Rightarrow> ret (fail ''setting ConfigMap owner reference'' e)
                   | Inr meta \<Rightarrow> do {
                       c \<leftarrow> write_call E (CreateConfigMap
                              \<lparr>cm_meta = meta, cm_data = data, cm_binary = []\<rparr>);
                       ret (case c of
                              None \<Rightarrow> None
                            | Some e \<Rightarrow> if is_already_exists e then None
                                        else fail ''creating plugin ConfigMap'' e)
                     })
              | Inr cm \<Rightarrow>
                  if strmap_equal (cm_data cm) data then ret None
                  else do {
                    u \<leftarrow> write_call E (UpdateConfigMap (cm\<lparr>cm_data := data\<rparr>));
                    ret (case u of None \<Rightarrow> None | Some e \<Rightarrow> fail ''updating plugin ConfigMap'' e)
                  })
           })"

definition pool_replicas :: "worker_pool \<Rightarrow> int" where
  "pool_replicas pool = (case wp_replicas pool of None \<Rightarrow> 1 | Some n \<Rightarrow> n)"

definition pool_status_of ::
  "worker_pool \<Rightarrow> string \<Rightarrow> string \<Rightarrow> int \<Rightarrow> int \<Rightarrow> pool_status" where
  "pool_status_of pool stsName svcName replicas readyReplicas =
     (let (phase, message) =
        (if readyReplicas = pool_replicas pool \<and> 0 < readyReplicas then (PoolReady, [])
         else if replicas = 0 \<and> readyReplicas = 0 then (PoolPending, ''Waiting for pods to start'')
         else (PoolScaling, itoa readyReplicas @ ''/'' @ itoa (pool_replicas pool) @ '' workers ready''))
      in \<lparr>wps_generation = m_generation (wp_meta pool), wps_phase = phase,
          wps_stateful_set = stsName, wps_service = svcName, wps_replicas = replicas,
          wps_ready = readyReplicas, wps_message = message\<rparr>)"

definition updatePoolStatus ::
  "env \<Rightarrow> worker_pool \<Rightarrow> string \<Rightarrow> string \<Rightarrow> int \<Rightarrow> int \<Rightarrow> go_err option io" where
  "updatePoolStatus E pool stsName svcName replicas readyReplicas = do {
     r \<leftarrow> read_obj (q_pool E) ''WorkerPool'' (wp_namespace pool) (wp_name pool);
     (case r of
        Inl e \<Rightarrow> ret (Some e)
      | Inr fresh \<Rightarrow> write_call E (UpdatePoolStatus
          (fresh\<lparr>wp_status := pool_status_of fresh stsName svcName replicas readyReplicas\<rparr>)))
   }"

definition podTemplateSpecEqual :: "env \<Rightarrow> pod_spec \<Rightarrow> pod_spec \<Rightarrow> bool" where
  "podTemplateSpecEqual E a b \<longleftrightarrow>
     l_semantic_equal E (PartName (pd_service_account a)) (PartName (pd_service_account b))
     \<and> l_semantic_equal E (PartSecurity (pd_security a)) (PartSecurity (pd_security b))
     \<and> l_semantic_equal E (PartContainers (pd_init a)) (PartContainers (pd_init b))
     \<and> l_semantic_equal E (PartContainers (pd_containers a)) (PartContainers (pd_containers b))
     \<and> l_semantic_equal E (PartVolumes (pd_volumes a)) (PartVolumes (pd_volumes b))
     \<and> l_semantic_equal E (PartLabels (pd_node_selector a)) (PartLabels (pd_node_selector b))
     \<and> l_semantic_equal E (PartTolerations (pd_tolerations a)) (PartTolerations (pd_tolerations b))
     \<and> l_semantic_equal E (PartAffinity (pd_affinity a)) (PartAffinity (pd_affinity b))
     \<and> l_semantic_equal E (PartPullSecrets (pd_pull_secrets a)) (PartPullSecrets (pd_pull_secrets b))"

text \<open>The StatefulSet with the pool's replicas and template, and whether that changes it.\<close>

definition synced_stateful_set ::
  "env \<Rightarrow> worker_pool \<Rightarrow> stateful_set \<Rightarrow> stateful_set \<Rightarrow> bool \<times> stateful_set" where
  "synced_stateful_set E pool desired sts =
     (let scale = sts_replicas sts \<noteq> Some (pool_replicas pool);
          sts1 = (if scale then sts\<lparr>sts_replicas := wp_replicas pool\<rparr> else sts);
          retemplate = \<not> podTemplateSpecEqual E (tpl_spec (sts_template sts1)) (tpl_spec (sts_template desired));
          sts2 = (if retemplate then sts1\<lparr>sts_template := sts_template desired\<rparr> else sts1)
      in (scale \<or> retemplate, sts2))"

definition create_stateful_set ::
  "env \<Rightarrow> worker_pool \<Rightarrow> string \<Rightarrow> string \<Rightarrow> stateful_set \<Rightarrow> outcome io" where
  "create_stateful_set E pool stsName svcName desired =
     (case l_set_controller E (wp_meta pool) (sts_meta desired) of
        Inl e \<Rightarrow> ret (no_requeue, Some (wrap_err (''workerpool '' @ wp_name pool
                   @ '': setting StatefulSet owner reference'') e))
      | Inr meta \<Rightarrow> do {
          c \<leftarrow> write_call E (CreateStatefulSet (desired\<lparr>sts_meta := meta\<rparr>));
          (case c of
             Some e \<Rightarrow>
               ret (if is_already_exists e then (requeue_now, None)
                    else (no_requeue, Some (wrap_err (''workerpool '' @ wp_name pool
                            @ '': creating StatefulSet'') e)))
           | None \<Rightarrow> do {
               recordEvent ''Normal'' ''StatefulSetCreated'' (''Created StatefulSet '' @ stsName
                 @ '' with '' @ itoa (pool_replicas pool) @ '' replicas'');
               u \<leftarrow> updatePoolStatus E pool stsName svcName 0 0;
               ret (case u of Some e \<Rightarrow> (no_requeue, Some e) | None \<Rightarrow> (after (seconds 5), None))
             })
        })"

definition reconcileStatefulSet ::
  "env \<Rightarrow> worker_pool \<Rightarrow> string \<Rightarrow> string \<Rightarrow> workspace_spec option \<Rightarrow> agent_config_spec option \<Rightarrow>
   outcome io" where
  "reconcileStatefulSet E pool stsName svcName workspace agentConfig = do {
     r \<leftarrow> read_obj (q_stateful_set E) ''StatefulSet'' (wp_namespace pool) stsName;
     (case r of
        Inl e \<Rightarrow>
          if \<not> is_not_found e then ret (no_requeue, Some e)
          else (case buildStatefulSet E pool stsName svcName workspace agentConfig of
                  Inl e \<Rightarrow> ret (no_requeue, Some (wrap_err (''workerpool '' @ wp_name pool
                             @ '': building StatefulSet'') e))
                | Inr desired \<Rightarrow> create_stateful_set E pool stsName svcName desired)
      | Inr sts \<Rightarrow>
          (case buildStatefulSet E pool stsName svcName workspace agentConfig of
             Inl e \<Rightarrow> ret (no_requeue, Some (wrap_err (''workerpool '' @ wp_name pool
                        @ '': building StatefulSet'') e))
           | Inr desired \<Rightarrow>
               (let (needsUpdate, sts') = synced_stateful_set E pool desired sts
                in do {
                  u \<leftarrow> (if needsUpdate then write_call E (UpdateStatefulSet sts') else ret None);
                  (case u of
                     Some e \<Rightarrow> ret (no_requeue, Some (wrap_err (''workerpool '' @ wp_name pool
                                @ '': updating StatefulSet'') e))
                   | None \<Rightarrow> do {
                       when_io needsUpdate (recordEvent ''Normal'' ''StatefulSetUpdated''
                         (''Updated StatefulSet '' @ stsName @ '' to '' @ itoa (pool_replicas pool)
                          @ '' replicas''));
                       s \<leftarrow> updatePoolStatus E pool stsName svcName (sts_current sts') (sts_ready sts');
                       ret (case s of Some e \<Rightarrow> (no_requeue, Some e) | None \<Rightarrow> (no_requeue, None))
                     })
                })))
   }"

section \<open>The token of a pool\<close>

text \<open>Minting from the current App Secret, with the error texts of the pool.\<close>

definition mint_for_pool ::
  "env \<Rightarrow> worker_pool \<Rightarrow> secret \<Rightarrow> string \<Rightarrow> string \<Rightarrow> go_err option io" where
  "mint_for_pool E pool appSecret secretRef repo =
     (let fail = (\<lambda>e. wrap_err (''workerpool '' @ wp_name pool) e)
      in case ParseCredentials E (sec_data appSecret) of
           Inl e \<Rightarrow> ret (Some (fail (wrap_err ''parsing GitHub App credentials'' e)))
         | Inr creds \<Rightarrow> do {
             m \<leftarrow> mintGitHubAppTokenSecret E (wp_meta pool) (githubTokenSecretName (wp_name pool))
                    secretRef repo creds;
             ret (case m of Inl e \<Rightarrow> Some (fail e) | Inr x \<Rightarrow> None)
           })"

text \<open>The switch over the derived Secret: mint it, refuse it, mint it again, or keep it.\<close>

definition ensure_derived_secret ::
  "env \<Rightarrow> worker_pool \<Rightarrow> secret \<Rightarrow> string \<Rightarrow> string \<Rightarrow> go_err option io" where
  "ensure_derived_secret E pool appSecret secretRef repo =
     (let name = githubTokenSecretName (wp_name pool)
      in do {
        d \<leftarrow> read_obj (q_secret E) ''Secret'' (wp_namespace pool) name;
        (case d of
           Inl e \<Rightarrow>
             if \<not> is_not_found e
             then ret (Some (wrap_err (''workerpool '' @ wp_name pool @ '': fetching token secret ''
                        @ quote name) e))
             else mint_for_pool E pool appSecret secretRef repo
         | Inr derived \<Rightarrow>
             if \<not> l_controlled_by E (sec_meta derived) (wp_meta pool)
             then ret (Some (new_err (''workerpool '' @ wp_name pool @ '': token secret '' @ quote name
                    @ '' already exists and is not controlled by this WorkerPool'')))
             else if map_str (m_annotations (sec_meta derived)) githubAppSecretAnnotation \<noteq> secretRef
             then mint_for_pool E pool appSecret secretRef repo
             else ret None)
      })"

definition refresh_for_pool :: "env \<Rightarrow> worker_pool \<Rightarrow> string \<Rightarrow> int io" where
  "refresh_for_pool E pool repo = do {
     r \<leftarrow> refreshGitHubAppTokenSecret E (wp_namespace pool) (githubTokenSecretName (wp_name pool)) repo;
     (case rf_error r of
        Some e \<Rightarrow> do {
          recordEvent ''Warning'' ''GitHubTokenRefreshFailed''
            (''Failed to refresh GitHub App installation token: '' @ err_text e);
          ret (if rf_next r = 0 then tokenRefreshRetryInterval else rf_next r)
        }
      | None \<Rightarrow> do {
          when_io (rf_refreshed r) (recordEvent ''Normal'' ''GitHubTokenRefreshed''
            (''Refreshed GitHub App installation token (expires at ''
             @ l_format_time E (rf_expires r) @ '')''));
          ret (rf_next r)
        })
   }"

definition ensureGitHubAppToken ::
  "env \<Rightarrow> worker_pool \<Rightarrow> workspace_spec \<Rightarrow> string \<Rightarrow> (go_err + (workspace_spec \<times> int)) io" where
  "ensureGitHubAppToken E pool workspace secretRef = do {
     a \<leftarrow> read_obj (q_secret E) ''Secret'' (wp_namespace pool) secretRef;
     (case a of
        Inl e \<Rightarrow>
          ret (if is_not_found e then Inr (workspace, 0)
               else Inl (wrap_err (''workerpool '' @ wp_name pool @ '': fetching workspace secret ''
                          @ quote secretRef) e))
      | Inr appSecret \<Rightarrow>
          if \<not> IsGitHubApp (sec_data appSecret) then ret (Inr (workspace, 0))
          else if \<not> has_token_client E
          then ret (Inl (new_err (''workerpool '' @ wp_name pool @ '': workspace '' @ quote secretRef
                 @ '' uses a GitHub App secret but TokenClient is not configured'')))
          else do {
            d \<leftarrow> ensure_derived_secret E pool appSecret secretRef (ws_repo workspace);
            (case d of
               Some e \<Rightarrow> ret (Inl e)
             | None \<Rightarrow> do {
                 next \<leftarrow> refresh_for_pool E pool (ws_repo workspace);
                 ret (Inr (workspace\<lparr>ws_secret := Some (githubTokenSecretName (wp_name pool))\<rparr>, next))
               })
          })
   }"

section \<open>Reconcile\<close>

definition resolveWorkerPoolAgentConfigRefs :: "worker_pool \<Rightarrow> string list" where
  "resolveWorkerPoolAgentConfigRefs pool = wk_agent_configs (wp_worker pool)"

text \<open>The workspace with its token and the delay of the next refresh; \<open>Inl\<close> is an early return.\<close>

definition pool_workspace :: "env \<Rightarrow> worker_pool \<Rightarrow> string \<Rightarrow> (outcome + (workspace_spec \<times> int)) io" where
  "pool_workspace E pool ref = do {
     w \<leftarrow> read_obj (q_workspace E) ''Workspace'' (wp_namespace pool) ref;
     (case w of
        Inl e \<Rightarrow> ret (Inl (if is_not_found e then (after (seconds 2), None) else (no_requeue, Some e)))
      | Inr workspace \<Rightarrow>
          (case validateWorkerPoolWorkspace workspace of
             Some e \<Rightarrow> do {
               recordEvent ''Warning'' ''UnsupportedWorkspace'' (''Workspace '' @ ref @ '': '' @ err_text e);
               ret (Inl (no_requeue, None))
             }
           | None \<Rightarrow>
               (case ws_secret workspace of
                  None \<Rightarrow> ret (Inr (workspace, 0))
                | Some secretRef \<Rightarrow> do {
                    g \<leftarrow> ensureGitHubAppToken E pool workspace secretRef;
                    (case g of
                       Inl e \<Rightarrow> do {
                         recordEvent ''Warning'' ''GitHubTokenFailed''
                           (''Failed to ensure GitHub App installation token: '' @ err_text e);
                         ret (Inl (no_requeue, Some e))
                       }
                     | Inr x \<Rightarrow> ret (Inr x))
                  })))
   }"

definition pool_agent_config :: "env \<Rightarrow> worker_pool \<Rightarrow> (outcome + agent_config_spec option) io" where
  "pool_agent_config E pool = do {
     r \<leftarrow> (if resolveWorkerPoolAgentConfigRefs pool = [] then ret (Inr [])
          else fetch_agent_configs E (wp_namespace pool) (resolveWorkerPoolAgentConfigRefs pool));
     (case r of
        Inl out \<Rightarrow> ret (Inl out)
      | Inr specs \<Rightarrow>
          (case MergeAgentConfigs specs of
             None \<Rightarrow> ret (Inr None)
           | Some ac \<Rightarrow>
               if ac_mcp_servers ac = [] then ret (Inr (Some ac))
               else do {
                 m \<leftarrow> resolveMCPServerSecrets E (wp_namespace pool) (ac_mcp_servers ac);
                 ret (case m of
                        Inl e \<Rightarrow> Inl (no_requeue, Some e)
                      | Inr servers \<Rightarrow> Inr (Some (ac\<lparr>ac_mcp_servers := servers\<rparr>)))
               }))
   }"

text \<open>The part after workspace and agent configuration are resolved.\<close>

definition pool_objects ::
  "env \<Rightarrow> worker_pool \<Rightarrow> workspace_spec \<Rightarrow> agent_config_spec option \<Rightarrow> int \<Rightarrow> outcome io" where
  "pool_objects E pool workspace agentConfig refreshAfter =
     (let stsName = workerPoolStatefulSetName E (wp_name pool)
      in do {
        p \<leftarrow> (case agentConfig of
               None \<Rightarrow> ret None
             | Some ac \<Rightarrow> if ac_plugins ac = [] then ret None
                          else reconcilePluginConfigMap E pool (ac_plugins ac));
        (case p of
           Some e \<Rightarrow> ret (no_requeue, Some e)
         | None \<Rightarrow> do {
             s \<leftarrow> reconcileService E pool stsName;
             (case s of
                Some e \<Rightarrow> ret (no_requeue, Some e)
              | None \<Rightarrow> do {
                  (res, e) \<leftarrow> reconcileStatefulSet E pool stsName stsName (Some workspace) agentConfig;
                  ret (case e of
                         Some e \<Rightarrow> (no_requeue, Some e)
                       | None \<Rightarrow> (if 0 < refreshAfter then mergeReconcileResults res (after refreshAfter)
                                  else res, None))
                })
           })
      })"

definition reconcilePool :: "env \<Rightarrow> worker_pool \<Rightarrow> outcome io" where
  "reconcilePool E pool = do {
     a \<leftarrow> ensureWorkerRBAC E (wp_namespace pool);
     (case a of
        Some e \<Rightarrow> ret (no_requeue, Some e)
      | None \<Rightarrow>
          (case wk_workspace (wp_worker pool) of
             None \<Rightarrow> ret (no_requeue, Some (new_err (''workerpool '' @ wp_name pool
                        @ '' has nil worker.workspaceRef'')))
           | Some ref \<Rightarrow> do {
               w \<leftarrow> pool_workspace E pool ref;
               (case w of
                  Inl out \<Rightarrow> ret out
                | Inr (workspace, refreshAfter) \<Rightarrow> do {
                    c \<leftarrow> pool_agent_config E pool;
                    (case c of
                       Inl out \<Rightarrow> ret out
                     | Inr agentConfig \<Rightarrow> pool_objects E pool workspace agentConfig refreshAfter)
                  })
             }))
   }"

definition pool_reconcile :: "env \<Rightarrow> string \<Rightarrow> string \<Rightarrow> outcome io" where
  "pool_reconcile E ns name = do {
     p \<leftarrow> read_obj (q_pool E) ''WorkerPool'' ns name;
     (case p of
        Inl e \<Rightarrow>
          if \<not> is_not_found e then ret (no_requeue, Some e)
          else do {
            t \<leftarrow> read_obj (q_task E) ''Task'' ns name;
            (case t of
               Inl e \<Rightarrow> ret (no_requeue, if is_not_found e then None else Some e)
             | Inr task \<Rightarrow>
                 (case ts_pool (t_spec task) of
                    None \<Rightarrow> ret (no_requeue, None)
                  | Some poolName \<Rightarrow> do {
                      (res, x) \<leftarrow> reconcileTask E task poolName;
                      ret (case x of Some e \<Rightarrow> (res, Some e)
                           | None \<Rightarrow> (mergeReconcileResults no_requeue res, None))
                    }))
          }
      | Inr pool \<Rightarrow> do {
          t \<leftarrow> read_obj (q_task E) ''Task'' ns name;
          (case t of
             Inl e \<Rightarrow>
               if \<not> is_not_found e then ret (no_requeue, Some e)
               else do {
                 (res, x) \<leftarrow> reconcilePool E pool;
                 ret (case x of Some e \<Rightarrow> (res, Some e)
                      | None \<Rightarrow> (mergeReconcileResults no_requeue res, None))
               }
           | Inr task \<Rightarrow> do {
               (res, x) \<leftarrow> reconcilePool E pool;
               (case x of
                  Some e \<Rightarrow> ret (res, Some e)
                | None \<Rightarrow>
                    (case ts_pool (t_spec task) of
                       None \<Rightarrow> ret (mergeReconcileResults no_requeue res, None)
                     | Some poolName \<Rightarrow> do {
                         (res2, y) \<leftarrow> reconcileTask E task poolName;
                         ret (case y of Some e \<Rightarrow> (res2, Some e)
                              | None \<Rightarrow> (mergeReconcileResults (mergeReconcileResults no_requeue res) res2,
                                         None))
                       }))
             })
        })
   }"

section \<open>Whom to reconcile next\<close>



definition findTasksForWorkerPool :: "task \<Rightarrow> request list" where
  "findTasksForWorkerPool t =
     (case ts_pool (t_spec t) of
        None \<Rightarrow> []
      | Some pool \<Rightarrow> [(t_namespace t, t_name t), (t_namespace t, pool)])"

definition findWorkerPoolTasksForBudget :: "env \<Rightarrow> task_budget \<Rightarrow> request list io" where
  "findWorkerPoolTasksForBudget E budget =
     tasks_matching E (m_namespace (b_meta budget))
       (\<lambda>t. ts_pool (t_spec t) \<noteq> None \<and> t_phase t = PhaseWaiting
          \<and> has_true_condition (st_conditions (t_status t)) ''BudgetBlocked'')"

definition pool_request :: "worker_pool \<Rightarrow> request" where
  "pool_request pool = (wp_namespace pool, wp_name pool)"

definition appendWorkerPoolRequest :: "request list \<Rightarrow> string \<Rightarrow> string \<Rightarrow> request list" where
  "appendWorkerPoolRequest requests ns name = requests @ [(ns, name)]"

definition appendWorkerPoolRequestOnce ::
  "request list \<Rightarrow> request list \<Rightarrow> string \<Rightarrow> string \<Rightarrow> request list \<times> request list" where
  "appendWorkerPoolRequestOnce requests seen ns name =
     (if (ns, name) \<in> set seen then (requests, seen)
      else (requests @ [(ns, name)], (ns, name) # seen))"

text \<open>The loops over the listed pools; a failing list gives no request.\<close>

definition pools_matching :: "env \<Rightarrow> string \<Rightarrow> (worker_pool \<Rightarrow> bool) \<Rightarrow> request list io" where
  "pools_matching E ns P = do {
     r \<leftarrow> read_obj (q_pools E) ''WorkerPoolList'' ns [];
     ret (case r of
            Inl e \<Rightarrow> []
          | Inr pools \<Rightarrow>
              foldl (\<lambda>rs pool. if P pool then appendWorkerPoolRequest rs (wp_namespace pool) (wp_name pool)
                              else rs) [] pools)
   }"

definition findPoolsForWorkspace :: "env \<Rightarrow> string \<Rightarrow> string \<Rightarrow> request list io" where
  "findPoolsForWorkspace E ns workspace =
     pools_matching E ns (\<lambda>pool. wk_workspace (wp_worker pool) = Some workspace)"

definition findPoolsForAgentConfig :: "env \<Rightarrow> string \<Rightarrow> string \<Rightarrow> request list io" where
  "findPoolsForAgentConfig E ns agentConfig =
     pools_matching E ns (\<lambda>pool. list_ex (\<lambda>ref. ref = agentConfig) (wk_agent_configs (wp_worker pool)))"

definition poolWorkerCredentialsSecretName :: "worker_pool \<Rightarrow> string" where
  "poolWorkerCredentialsSecretName pool =
     (case wk_credentials (wp_worker pool) of
        None \<Rightarrow> []
      | Some c \<Rightarrow> (case cr_secret c of None \<Rightarrow> [] | Some s \<Rightarrow> s))"

fun pools_for_secret ::
  "string \<Rightarrow> string list \<Rightarrow> request list \<times> request list \<Rightarrow> worker_pool list \<Rightarrow> request list" where
  "pools_for_secret secretName workspaceNames (requests, seen) [] = requests"
| "pools_for_secret secretName workspaceNames (requests, seen) (pool # pools) =
     (if poolWorkerCredentialsSecretName pool = secretName
         \<or> (case wk_workspace (wp_worker pool) of None \<Rightarrow> False | Some ws \<Rightarrow> ws \<in> set workspaceNames)
      then pools_for_secret secretName workspaceNames
             (appendWorkerPoolRequestOnce requests seen (wp_namespace pool) (wp_name pool)) pools
      else pools_for_secret secretName workspaceNames (requests, seen) pools)"

definition findPoolsForSecret :: "env \<Rightarrow> string \<Rightarrow> string \<Rightarrow> request list io" where
  "findPoolsForSecret E ns secretName = do {
     p \<leftarrow> read_obj (q_pools E) ''WorkerPoolList'' ns [];
     (case p of
        Inl e \<Rightarrow> ret []
      | Inr pools \<Rightarrow> do {
          w \<leftarrow> read_obj (q_workspaces E) ''WorkspaceList'' ns [];
          ret (case w of
                 Inl e \<Rightarrow> []
               | Inr workspaces \<Rightarrow>
                   pools_for_secret secretName
                     (map fst (filter (\<lambda>(name, ws). ws_secret ws = Some secretName) workspaces))
                     ([], []) pools)
        })
   }"

definition findPoolForPod :: "pod \<Rightarrow> request list" where
  "findPoolForPod p =
     (let named = annotation p ''kelos.dev/workerpool-name'';
          poolName = (if named = [] then map_str (m_labels (pod_meta p)) ''kelos.dev/workerpool'' else named);
          taskName = annotation p AnnotationWorkerAssignedTask;
          ns = m_namespace (pod_meta p)
      in if poolName = [] then []
         else (ns, poolName) # (if taskName \<noteq> [] then [(ns, taskName)] else []))"

end
