(* ===== verification/PoolFacts.thy ===== *)
theory PoolFacts
  imports WorkerPool Cluster TaskFacts
begin

text \<open>
  What the worker-pool reconciler guarantees when it hands tasks to pods, follows them and
  completes them, and three behaviours that its checks do not rule out.
\<close>

section \<open>Cancellation\<close>

lemma map_of_del: "map_of (map_del k m) j = (if j = k then None else map_of m j)"
  by (simp add: delete_conv')

lemma map_str_del [simp]: "map_str (map_del k m) j = (if j = k then [] else map_str m j)"
  by (simp add: map_str_def map_of_del)

lemma annotation_with [simp]: "annotation (with_annotations f p) k = map_str (f (m_annotations (pod_meta p))) k"
  by (simp add: with_annotations_def)

lemma cleared_free: "annotation (with_annotations cleared_annotations p) AnnotationWorkerAssignedTask = []"
  by (simp add: cleared_annotations_def annotation_defs)

text \<open>
  The cancellation handshake: a worker pod is released for a deleted task only if it does
  not work on that task or its runner has reported the end, in which case the pod is cleared;
  otherwise the pod is asked to cancel, keeps its assignment, and is not released.
\<close>

theorem cancel_handshake:
  assumes "run_state (requestWorkerPodTaskCancellation E p name) w = ((released, e), w')"
  shows "(released \<longrightarrow> annotation p AnnotationWorkerAssignedTask \<noteq> name
            \<or> annotation p AnnotationWorkerTaskStatus \<in> {''succeeded'', ''failed''})
    \<and> (\<not> released \<longrightarrow> (\<exists>q. new_calls w w' = [PatchPod q] \<and> annotation q AnnotationWorkerCancelTask = name
           \<and> annotation q AnnotationWorkerAssignedTask = name))
    \<and> (released \<and> annotation p AnnotationWorkerAssignedTask = name \<longrightarrow>
         (\<exists>q. new_calls w w' = [PatchPod q] \<and> annotation q AnnotationWorkerAssignedTask = []
            \<and> annotation q AnnotationWorkerTaskStatus = []
            \<and> annotation q AnnotationWorkerCancelTask = []))"
  using assms
  by (auto simp: requestWorkerPodTaskCancellation_def clearWorkerPodTaskAnnotations_def io_run
      cleared_annotations_def annotation_defs split: if_splits)

definition worker_pod :: "strmap \<Rightarrow> pod" where
  "worker_pod a =
     \<lparr>pod_meta = blank_meta\<lparr>m_name := ''w-0'', m_namespace := ''default'', m_annotations := a\<rparr>,
      pod_phase = ''Running''\<rparr>"

lemma cancel_handshake_witness:
  "\<exists>q. snd (run_state (requestWorkerPodTaskCancellation idle_cluster
          (worker_pod [(AnnotationWorkerAssignedTask, ''t'')]) ''t'') start)
        = start\<lparr>w_calls := [PatchPod q]\<rparr>
     \<and> annotation q AnnotationWorkerCancelTask = ''t''"
proof -
  let ?run = "run_state (requestWorkerPodTaskCancellation idle_cluster
     (worker_pod [(AnnotationWorkerAssignedTask, ''t'')]) ''t'') start"
  have no: "\<not> fst (fst ?run)" and calls: "\<exists>q. snd ?run = start\<lparr>w_calls := [PatchPod q]\<rparr>"
    by (simp_all add: requestWorkerPodTaskCancellation_def io_run worker_pod_def map_str_def
        annotation_defs start_def)
  from cancel_handshake [of idle_cluster "worker_pod [(AnnotationWorkerAssignedTask, ''t'')]" "''t''" start
      "fst (fst ?run)" "snd (fst ?run)" "snd ?run"] no calls
  show ?thesis by (auto simp: start_def)
qed

section \<open>Completion\<close>

definition completions :: "call list \<Rightarrow> nat" where
  "completions cs = length (filter (\<lambda>c. case c of CountCompleted ns ty sp ph \<Rightarrow> True | _ \<Rightarrow> False) cs)"

definition not_completion :: "call \<Rightarrow> bool" where
  "not_completion c \<longleftrightarrow> (\<forall>ns ty sp ph. c \<noteq> CountCompleted ns ty sp ph)"

lemma completions_simps [simp]:
  "completions [] = 0"
  "completions (c # cs) = (case c of CountCompleted ns ty sp ph \<Rightarrow> 1 | _ \<Rightarrow> 0) + completions cs"
  "completions (cs @ ds) = completions cs + completions ds"
  by (auto simp: completions_def split: call.split)

lemma completions_none: "list_all not_completion cs \<Longrightarrow> completions cs = 0"
  by (induction cs) (auto simp: not_completion_def split: call.split)

lemma emits_usage: "emits not_completion (RecordCostTokenMetrics E t results)"
  unfolding RecordCostTokenMetrics_def count_usage_def
  by (intro emits_intro) (auto simp: not_completion_def)

lemma emits_pod_outputs: "emits not_completion (readPodOutputs E ns p name)"
  unfolding readPodOutputs_def by (intro emits_intro) (auto simp: not_completion_def)

lemma emits_completions:
  assumes "emits not_completion m" and "run_state m w = (a, w')"
  shows "grows w w' \<and> completions (new_calls w w') = 0"
  using assms(1) [unfolded emits_def, rule_format, of w] assms(2)
  by (auto simp: grows_def completions_none)

lemma count_worker_completion_once:
  assumes "run_state (count_worker_completion E done_before phase results t) w = (u, w')"
  shows "grows w w' \<and> completions (new_calls w w') = (if done_before then 0 else 1)"
proof -
  have use: "grows v v' \<and> completions (new_calls v v') = 0"
    if "run_state (when_io (results \<noteq> []) (RecordCostTokenMetrics E t results)) v = (a, v')" for v v' a
    using that by (intro emits_completions [where m = "when_io (results \<noteq> []) (RecordCostTokenMetrics E t results)"])
      (auto simp: when_io_def intro: emits_usage emits_intro)
  show ?thesis
  proof (cases done_before)
    case True
    with assms use show ?thesis by (auto simp: count_worker_completion_def io_run)
  next
    case False
    let ?cs = "CountCompleted (t_namespace t) (resolveTaskType t) (resolveTaskSpawner t) phase
      # (case (st_start (t_status t), st_completion (t_status t)) of
           (Some begun, Some ended) \<Rightarrow> [ObserveDuration (t_namespace t) (resolveTaskType t)
              (resolveTaskSpawner t) phase (ended - begun)] | _ \<Rightarrow> [])"
    let ?v = "w\<lparr>w_calls := w_calls w @ ?cs\<rparr>"
    have rest: "run_state (when_io (results \<noteq> []) (RecordCostTokenMetrics E t results)) ?v = (u, w')"
      using assms False
      by (auto simp: count_worker_completion_def recordTaskCompleted_def observeTaskDuration_def io_run
          split: option.splits)
    have g: "grows w ?v" by simp
    have "completions (new_calls w ?v) = 1" by (simp split: option.split)
    moreover have "grows w w'" using g use [OF rest] by (blast intro: grows_trans)
    ultimately show ?thesis
      using use [OF rest] False new_calls_append [OF g, of w'] by simp
  qed
qed

text \<open>
  Completing a task of a pool writes its phase and a completion time, and counts the
  completion exactly once: when the task read just before the write was not finished yet.
  Outputs and results that could not be read do not erase earlier ones.
\<close>

theorem completed_once:
  assumes "run_state (completeTask E t phase message) w = ((None, t'), w')"
  shows "\<exists>fresh h. q_task E h (t_namespace t) (t_name t) = Inr fresh
    \<and> granted E w w' (UpdateTaskStatus t')
    \<and> t_phase t' = phase \<and> st_message (t_status t') = message \<and> st_completion (t_status t') \<noteq> None
    \<and> (st_outputs (t_status t') = [] \<longrightarrow> st_outputs (t_status fresh) = [])
    \<and> (st_results (t_status t') = [] \<longrightarrow> st_results (t_status fresh) = [])
    \<and> completions (new_calls w w') = (if isTerminalTaskPhase (t_phase fresh) then 0 else 1)"
proof -
  from assms obtain outputs results w1 where
    r: "run_state (readPodOutputs E (t_namespace t) (st_pod_name (t_status t)) (t_name t)) w
        = ((outputs, results), w1)"
    and rest: "run_state (do {
        r \<leftarrow> read_obj (q_task E) ''Task'' (t_namespace t) (t_name t);
        (case r of Inl e \<Rightarrow> ret (Some e, t)
         | Inr fresh \<Rightarrow> do {
             now \<leftarrow> clock E;
             (let t' = set_status (apply_completion E phase message outputs results now) fresh
              in do {
                e \<leftarrow> write_call E (UpdateTaskStatus t');
                (case e of Some e \<Rightarrow> ret (Some e, t')
                 | None \<Rightarrow> do {
                     count_worker_completion E (isTerminalTaskPhase (t_phase fresh)) phase results t';
                     ret (None, t')
                   })
              })
           })}) w1 = ((None, t'), w')"
    unfolding completeTask_def by (elim run_bindE) (auto split: prod.splits)
  let ?r = "Read ''Task'' (t_namespace t) (t_name t)"
  let ?w2 = "w1\<lparr>w_calls := w_calls w1 @ [?r]\<rparr>"
  let ?w3 = "w1\<lparr>w_calls := w_calls w1 @ [?r, UpdateTaskStatus t']\<rparr>"
  from rest obtain fresh now where f: "q_task E (w_calls w1) (t_namespace t) (t_name t) = Inr fresh"
    and t': "t' = set_status (apply_completion E phase message outputs results now) fresh"
    and ok: "q_write E (w_calls ?w2) (UpdateTaskStatus t') = None"
    and c: "run_state (count_worker_completion E (isTerminalTaskPhase (t_phase fresh)) phase results t') ?w3
        = ((), w')"
    by (auto simp: io_run Let_def split: sum.splits option.splits prod.splits)
  have g1: "grows w w1 \<and> completions (new_calls w w1) = 0"
    by (rule emits_completions [OF emits_pod_outputs r])
  have c3: "grows ?w3 w' \<and> completions (new_calls ?w3 w') = (if isTerminalTaskPhase (t_phase fresh) then 0 else 1)"
    by (rule count_worker_completion_once [OF c])
  have g3: "grows w ?w3" using g1 by (rule grows_trans [OF conjunct1]) simp
  have "completions (new_calls w ?w3) = 0"
    using new_calls_append [OF conjunct1 [OF g1], of ?w3] g1 by simp
  with c3 new_calls_append [OF g3, of w'] have
    "completions (new_calls w w') = (if isTerminalTaskPhase (t_phase fresh) then 0 else 1)" by simp
  moreover have "granted E ?w2 ?w3 (UpdateTaskStatus t')"
    unfolding granted_def using ok by (intro exI [where x = "[]"]) simp
  then have "granted E w w' (UpdateTaskStatus t')"
    using g1 c3 by (intro granted_mono [of w ?w2 E ?w3 _ w']) (auto intro: grows_trans)
  ultimately show ?thesis using f t'
    by (intro exI [where x = fresh] exI [where x = "w_calls w1"])
      (auto simp: set_status_def apply_completion_def Let_def)
qed

lemma completed_once_witness:
  "\<exists>t' w'. run_state (completeTask (idle_cluster\<lparr>q_task := (\<lambda>h ns name. Inr (plain_task ''t''))\<rparr>)
        (plain_task ''t'') PhaseFailed ''gone'') start = ((None, t'), w')
     \<and> t_phase t' = PhaseFailed \<and> completions (w_calls w') = 1"
proof -
  let ?E = "idle_cluster\<lparr>q_task := (\<lambda>h ns name. Inr (plain_task ''t''))\<rparr>"
  obtain t' w' where r: "run_state (completeTask ?E (plain_task ''t'') PhaseFailed ''gone'') start
      = ((None, t'), w')"
    by (cases "run_state (completeTask ?E (plain_task ''t'') PhaseFailed ''gone'') start")
      (auto simp: completeTask_def readPodOutputs_def io_run cluster_defs Let_def split: prod.splits)
  from completed_once [OF r] r show ?thesis
    by (auto simp: start_def isTerminalTaskPhase_def plain_task_def new_status_def idle_cluster_def)
qed

section \<open>Assignment\<close>

lemma assigned_annotation [simp]:
  "annotation (with_annotations (assigned_annotations name) p) AnnotationWorkerAssignedTask = name"
  "annotation (with_annotations (assigned_annotations name) p) AnnotationWorkerTaskStatus = []"
  by (simp_all add: assigned_annotations_def annotation_defs)

text \<open>The API server's answer to a read of a task is the task of that name.\<close>

definition reads_named :: "env \<Rightarrow> bool" where
  "reads_named E \<longleftrightarrow> (\<forall>h ns name t. q_task E h ns name = Inr t \<longrightarrow> t_namespace t = ns \<and> t_name t = name)"

definition same_task :: "task \<Rightarrow> task \<Rightarrow> bool" where
  "same_task t t' \<longleftrightarrow> t_namespace t' = t_namespace t \<and> t_name t' = t_name t"

lemma same_task_simps [simp]:
  "same_task t t"
  "same_task t u \<Longrightarrow> same_task u v \<Longrightarrow> same_task t v"
  "same_task t (set_status f u) \<longleftrightarrow> same_task t u"
  by (simp_all add: same_task_def set_status_def)

lemma modify_same_task:
  assumes "reads_named E" and "run_state (modify_task_status E t f) w = ((e, t'), w')"
    and "\<And>now fresh u. f now fresh = Some u \<Longrightarrow> same_task fresh u"
  shows "same_task t t'"
proof (cases "q_task E (w_calls w) (t_namespace t) (t_name t)")
  case (Inl e)
  with assms(2) show ?thesis by (auto simp: modify_task_status_def io_run)
next
  case (Inr fresh)
  with assms(1) have "same_task t fresh" by (simp add: reads_named_def same_task_def)
  with Inr assms(2,3) show ?thesis
    by (auto simp: modify_task_status_def io_run split: option.splits intro: same_task_simps(2))
qed

lemma clear_blocked_same:
  assumes "reads_named E" and "run_state (clearBudgetBlockedCondition E t) w = (t', w')"
  shows "same_task t t'"
proof (cases "has_true_condition (st_conditions (t_status t)) ''BudgetBlocked''")
  case True
  with assms(2) obtain e where "run_state (modify_task_status E t (\<lambda>now fresh.
          Some (set_status (\<lambda>s. s\<lparr>st_conditions :=
                  l_remove_condition E (st_conditions s) ''BudgetBlocked''\<rparr>) fresh))) w = ((e, t'), w')"
    by (auto simp: clearBudgetBlockedCondition_def split: prod.splits)
  then show ?thesis by (rule modify_same_task [OF assms(1)]) auto
qed (use assms(2) in \<open>simp add: clearBudgetBlockedCondition_def\<close>)

lemma ensure_snapshot_same:
  assumes "reads_named E" and "run_state (ensureBudgetLabelSnapshot E t) w = ((None, t'), w')"
  shows "same_task t t'"
  using assms
  by (auto simp: ensureBudgetLabelSnapshot_def io_run same_task_def set_annotations_def reads_named_def Let_def
      split: option.splits sum.splits)

lemma admission_loop_same:
  assumes "reads_named E" and "run_state (admission_loop E t m bs) w = ((True, out, t'), w')"
  shows "same_task t t'"
  using assms(2)
proof (induction bs arbitrary: m w)
  case Nil
  show ?case
  proof (cases m)
    case False
    with Nil obtain w1 where "run_state (clearBudgetBlockedCondition E t) w = (t', w1)"
      by (auto split: prod.splits)
    then show ?thesis by (rule clear_blocked_same [OF assms(1)])
  next
    case True
    with Nil obtain t1 w1 w2 where "run_state (ensureBudgetLabelSnapshot E t) w = ((None, t1), w1)"
      and "run_state (clearBudgetBlockedCondition E t1) w1 = (t', w2)"
      by (auto split: prod.splits option.splits)
    then show ?thesis
      using ensure_snapshot_same clear_blocked_same assms(1) same_task_simps(2) by blast
  qed
next
  case (Cons b bs)
  from Cons.prems show ?case by (rule admission_loop_step) (rule Cons.IH)
qed

lemma checkBudgetAdmission_same:
  assumes "reads_named E" and "run_state (checkBudgetAdmission E t) w = ((True, out, t'), w')"
  shows "same_task t t'"
proof (cases "q_budgets E (w_calls w) (t_namespace t) []")
  case (Inl e)
  with assms show ?thesis by (simp add: checkBudgetAdmission_def io_run)
next
  case (Inr budgets)
  show ?thesis
  proof (cases "budgets = []")
    case True
    with assms(2) Inr obtain w1 w2 where "run_state (clearBudgetBlockedCondition E t) w1 = (t', w2)"
      by (auto simp: checkBudgetAdmission_def io_run split: prod.splits)
    then show ?thesis by (rule clear_blocked_same [OF assms(1)])
  next
    case False
    with assms(2) Inr obtain w1 where "run_state (admission_loop E t False budgets) w1 = ((True, out, t'), w')"
      by (auto simp: checkBudgetAdmission_def io_run)
    then show ?thesis by (rule admission_loop_same [OF assms(1)])
  qed
qed

text \<open>A workspace that a pool can run tasks in; a pool without one has nothing to check.\<close>

definition pool_usable :: "env \<Rightarrow> string \<Rightarrow> string \<Rightarrow> bool" where
  "pool_usable E ns poolName \<longleftrightarrow>
     (\<exists>h. (\<exists>e. q_pool E h ns poolName = Inl e \<and> is_not_found e)
        \<or> (\<exists>pool. q_pool E h ns poolName = Inr pool
             \<and> (\<forall>ref. wk_workspace (wp_worker pool) = Some ref \<longrightarrow>
                  (\<exists>h' ws. q_workspace E h' ns ref = Inr ws \<and> validateWorkerPoolWorkspace ws = None))))"

lemma unsupportedPoolWorkspace_usable:
  assumes "run_state (unsupportedPoolWorkspace E ns poolName) w = (Inr ([], False), w')"
  shows "pool_usable E ns poolName"
  using assms unfolding pool_usable_def
  by (intro exI [where x = "w_calls w"])
    (auto simp: unsupportedPoolWorkspace_def io_run split: sum.splits option.splits if_splits)

text \<open>A call that does not claim a pod; what comes before the claim consists of such calls.\<close>

definition no_claim :: "call \<Rightarrow> bool" where
  "no_claim c \<longleftrightarrow> (\<forall>p q. c \<noteq> PatchPodLocked p q)"

lemma no_claim_simps [simp]:
  "no_claim (Read k ns n)" "no_claim (UpdateTaskStatus t)" "no_claim (RecordEvent a b c)"
  "no_claim (PatchTask t)" "no_claim (UpdateBudgetStatus budget)"
  "\<not> no_claim (PatchPodLocked p q)"
  by (simp_all add: no_claim_def)

lemma emits_claimless:
  "emits no_claim (unsupportedPoolWorkspace E ns poolName)"
  "emits no_claim (recordEvent a b c)"
  "emits no_claim (completeTask E t phase message)"
  "emits no_claim (checkBudgetAdmission E t)"
proof -
  show "emits no_claim (unsupportedPoolWorkspace E ns poolName)"
    unfolding unsupportedPoolWorkspace_def by (intro emits_intro; simp)
  show "emits no_claim (recordEvent a b c)"
    unfolding recordEvent_def by (intro emits_intro; simp)
  show "emits no_claim (completeTask E t phase message)"
    unfolding completeTask_def readPodOutputs_def count_worker_completion_def recordTaskCompleted_def
      observeTaskDuration_def when_io_def RecordCostTokenMetrics_def count_usage_def
    by (intro emits_intro; simp add: no_claim_def)
  show "emits no_claim (checkBudgetAdmission E t)"
    by (rule emits_mono [OF emits_checkBudgetAdmission]) (erule admission_call.elims; simp)
qed

lemma no_claim_run:
  assumes "emits no_claim m" and "run_state m w = (a, w')"
  shows "grows w w' \<and> PatchPodLocked p q \<notin> set (new_calls w w')"
  using assms by (auto elim!: emitsD simp: grows_def no_claim_def)

lemma absent_trans:
  "grows w w1 \<and> c \<notin> set (new_calls w w1) \<Longrightarrow> grows w1 w2 \<and> c \<notin> set (new_calls w1 w2) \<Longrightarrow>
     grows w w2 \<and> c \<notin> set (new_calls w w2)"
  by (auto simp: grows_def prefix_def)

text \<open>The claim itself.\<close>

lemma claim_pod_trace:
  assumes "run_state (claim_pod E t pool p) w = (out, w')"
    and "PatchPodLocked cur q \<in> set (new_calls w w')"
  shows "\<exists>cs ds. new_calls w w' = cs @ PatchPodLocked cur q # ds
    \<and> q_pod E (w_calls w) (m_namespace (pod_meta p)) (m_name (pod_meta p)) = Inr cur
    \<and> q = with_annotations (assigned_annotations (t_name t)) cur
    \<and> (\<forall>u. UpdateTaskStatus u \<in> set ds \<longrightarrow> t_phase u = PhasePending
          \<and> st_pod_name (t_status u) = m_name (pod_meta cur)
          \<and> q_write E (w_calls w @ cs) (PatchPodLocked cur q) = None)"
proof (intro exI conjI)
  let ?r = "Read ''Pod'' (m_namespace (pod_meta p)) (m_name (pod_meta p))"
  let ?ds = "drop (length (w_calls w) + 2) (w_calls w')"
  show p: "q_pod E (w_calls w) (m_namespace (pod_meta p)) (m_name (pod_meta p)) = Inr cur"
    and q: "q = with_annotations (assigned_annotations (t_name t)) cur"
    using assms
    by (auto simp: claim_pod_def io_run Let_def modify_task_status_def recordEvent_def
        clearWorkerPodTaskAnnotations_def split: sum.splits option.splits prod.splits if_splits)
  show "new_calls w w' = [?r] @ PatchPodLocked cur q # ?ds"
    using assms(1) p q
    by (auto simp: claim_pod_def io_run Let_def modify_task_status_def recordEvent_def
        clearWorkerPodTaskAnnotations_def split: sum.splits option.splits prod.splits if_splits)
  show "\<forall>u. UpdateTaskStatus u \<in> set ?ds \<longrightarrow> t_phase u = PhasePending
      \<and> st_pod_name (t_status u) = m_name (pod_meta cur)
      \<and> q_write E (w_calls w @ [?r]) (PatchPodLocked cur q) = None"
    using assms(1) p q
    by (auto simp: claim_pod_def io_run Let_def modify_task_status_def recordEvent_def set_status_def
        clearWorkerPodTaskAnnotations_def with_annotations_def split: sum.splits option.splits prod.splits if_splits)
qed

lemma assignTask_claim:
  assumes "run_state (assignTask E t poolName) w = (out, w')"
    and "PatchPodLocked cur q \<in> set (new_calls w w')"
  obtains w2 w3 w4 out2 t1 pods p where "pool_usable E (t_namespace t) poolName"
    and "run_state (checkBudgetAdmission E t) w2 = ((True, out2, t1), w3)"
    and "q_pool_pods E (w_calls w3) (t_namespace t1) (workerPoolLabelValue E poolName) = Inr pods"
    and "List.find isPodAvailable pods = Some p"
    and "run_state (claim_pod E t1 poolName p) w4 = (out, w')"
    and "grows w w4" and "PatchPodLocked cur q \<notin> set (new_calls w w4)"
proof -
  obtain u w1 where u: "run_state (unsupportedPoolWorkspace E (t_namespace t) poolName) w = (u, w1)"
    by fastforce
  note g1 = no_claim_run [OF emits_claimless(1) u, of cur q]
  have "u = Inr ([], False)"
  proof (rule ccontr)
    assume not: "u \<noteq> Inr ([], False)"
    have "emits no_claim (case u of
        Inl e \<Rightarrow> ret (no_requeue, Some e)
      | Inr (reason, workspaceMissing) \<Rightarrow>
          if workspaceMissing then ret (after (seconds 5), None)
          else if reason \<noteq> [] then do {
            recordEvent ''Warning'' ''UnsupportedWorkspace'' reason;
            (e, t') \<leftarrow> completeTask E t PhaseFailed reason;
            ret (no_requeue, e)
          } else ret (no_requeue, None))"
      by (intro emits_intro emits_claimless)
    moreover have "run_state (case u of
        Inl e \<Rightarrow> ret (no_requeue, Some e)
      | Inr (reason, workspaceMissing) \<Rightarrow>
          if workspaceMissing then ret (after (seconds 5), None)
          else if reason \<noteq> [] then do {
            recordEvent ''Warning'' ''UnsupportedWorkspace'' reason;
            (e, t') \<leftarrow> completeTask E t PhaseFailed reason;
            ret (no_requeue, e)
          } else ret (no_requeue, None)) w1 = (out, w')"
      using assms(1) u not by (auto simp: assignTask_def split: sum.splits if_splits)
    ultimately have "PatchPodLocked cur q \<notin> set (new_calls w1 w') \<and> grows w1 w'"
      by (blast dest: no_claim_run)
    with assms(2) absent_trans [OF g1, of w'] show False by blast
  qed
  with u have us: "pool_usable E (t_namespace t) poolName"
    by (intro unsupportedPoolWorkspace_usable) simp
  obtain adm out2 t1 w2 where a: "run_state (checkBudgetAdmission E t) w1 = ((adm, out2, t1), w2)"
    by (metis surj_pair)
  note g2 = no_claim_run [OF emits_claimless(4) a, of cur q]
  let ?w3 = "w2\<lparr>w_calls := w_calls w2 @ [Read ''PodList'' (t_namespace t1) (workerPoolLabelValue E poolName)]\<rparr>"
  note n2 = absent_trans [OF g1 g2]
  have n3: "grows w ?w3 \<and> PatchPodLocked cur q \<notin> set (new_calls w ?w3)"
    by (rule absent_trans [OF n2]) simp
  have rest: "run_state (if snd out2 \<noteq> None \<or> \<not> adm then ret out2
             else do {
               r \<leftarrow> read_obj (q_pool_pods E) ''PodList'' (t_namespace t1) (workerPoolLabelValue E poolName);
               (case r of
                  Inl e \<Rightarrow> ret (no_requeue, Some (wrap_err (''workerpool '' @ poolName
                             @ '': listing worker pods'') e))
                | Inr pods \<Rightarrow>
                    (case List.find isPodAvailable pods of
                       None \<Rightarrow> ret (after (seconds 5), None)
                     | Some p \<Rightarrow> claim_pod E t1 poolName p))
             }) w2 = (out, w')"
    using assms(1) u a \<open>u = Inr ([], False)\<close> by (simp add: assignTask_def)
  have new: "w' \<noteq> w2" "w' \<noteq> ?w3" using assms(2) n2 n3 by blast+
  have adm: "adm" and ok: "\<not> (snd out2 \<noteq> None \<or> \<not> adm)"
    using rest new by (auto split: if_splits)
  from rest ok obtain pods where
    pods: "q_pool_pods E (w_calls w2) (t_namespace t1) (workerPoolLabelValue E poolName) = Inr pods"
    and find: "run_state (case List.find isPodAvailable pods of
        None \<Rightarrow> ret (after (seconds 5), None) | Some p \<Rightarrow> claim_pod E t1 poolName p) ?w3 = (out, w')"
    using new by (cases "q_pool_pods E (w_calls w2) (t_namespace t1) (workerPoolLabelValue E poolName)")
      (auto simp: io_run)
  then obtain p where "List.find isPodAvailable pods = Some p"
    "run_state (claim_pod E t1 poolName p) ?w3 = (out, w')"
    using new by (auto split: option.splits)
  with us a adm pods n3 show ?thesis by (intro that [of w1 out2 t1 w2 pods p ?w3]) auto
qed


text \<open>A pool with one free pod, and two tasks.\<close>

definition pool_cluster :: env where
  "pool_cluster = idle_cluster
     \<lparr>q_task := (\<lambda>h ns name. Inr ((plain_task name)\<lparr>t_meta := (t_meta (plain_task name))\<lparr>m_namespace := ns\<rparr>\<rparr>)),
      q_pool_pods := (\<lambda>h ns l. Inr [worker_pod []]), q_pod := (\<lambda>h ns n. Inr (worker_pod []))\<rparr>"


section \<open>What the checks miss\<close>

text \<open>
  A pod that was free when it was listed and that works on another task when it is read again
  for the claim.
\<close>

definition busy_pod :: pod where
  "busy_pod = worker_pod [(AnnotationWorkerAssignedTask, ''u''), (AnnotationWorkerTaskStatus, ''running'')]"

definition raced_cluster :: env where
  "raced_cluster = pool_cluster\<lparr>q_pod := (\<lambda>h ns n. Inr busy_pod)\<rparr>"

text \<open>
  The claim does not check again that the pod is free: when another task was assigned to
  it between the list and the second read, the claim is accepted (its lock is the second
  copy), the other task loses the pod that is working on it, and the new one is made pending
  there.
\<close>

theorem claim_overwrites:
  "\<exists>E t out w' cur q u. run_state (assignTask E t ''pool'') start = (out, w')
    \<and> \<not> isPodAvailable cur \<and> annotation cur AnnotationWorkerAssignedTask = ''u'' \<and> t_name t \<noteq> ''u''
    \<and> granted E start w' (PatchPodLocked cur q)
    \<and> annotation q AnnotationWorkerAssignedTask = t_name t
    \<and> granted E start w' (UpdateTaskStatus u) \<and> t_phase u = PhasePending
    \<and> st_pod_name (t_status u) = m_name (pod_meta q)"
proof -
  let ?t = "plain_task ''t''"
  let ?q = "with_annotations (assigned_annotations ''t'') busy_pod"
  let ?u = "set_status (\<lambda>s. s\<lparr>st_phase := PhasePending, st_pod_name := ''w-0'', st_start := Some 0\<rparr>) ?t"
  let ?r = "run_state (assignTask raced_cluster ?t ''pool'') start"
  have calls: "w_calls (snd ?r) = [Read ''WorkerPool'' ''default'' ''pool'', Read ''TaskBudgetList'' ''default'' [],
      Read ''PodList'' ''default'' ''pool'', Read ''Pod'' ''default'' ''w-0'', PatchPodLocked busy_pod ?q,
      Read ''Task'' ''default'' ''t'', UpdateTaskStatus ?u,
      RecordEvent ''Normal'' ''TaskAssigned'' ''Assigned to worker pod w-0'']"
    by (simp add: assignTask_def unsupportedPoolWorkspace_def checkBudgetAdmission_def
        clearBudgetBlockedCondition_def has_true_condition_def claim_pod_def modify_task_status_def
        recordEvent_def io_run raced_cluster_def pool_cluster_def cluster_defs worker_pod_def busy_pod_def
        isPodAvailable_def map_str_def Let_def is_not_found_def set_status_def with_annotations_def
        workerPoolLabelValue_def split: prod.splits)
  have g: "granted raced_cluster start (snd ?r) c" if "c \<in> set (w_calls (snd ?r))" for c
    unfolding granted_def using split_list [OF that]
    by (auto simp: start_def raced_cluster_def pool_cluster_def idle_cluster_def)
  have q: "annotation ?q AnnotationWorkerAssignedTask = t_name ?t"
    by (simp only: assigned_annotation(1)) (simp add: plain_task_def)
  have name: "m_name (pod_meta ?q) = ''w-0''"
    by (simp add: busy_pod_def worker_pod_def with_annotations_def)
  have u: "t_phase ?u = PhasePending" "st_pod_name (t_status ?u) = ''w-0''"
    by (simp_all add: set_status_def)
  have cur: "\<not> isPodAvailable busy_pod" "annotation busy_pod AnnotationWorkerAssignedTask = ''u''"
    by (simp_all add: busy_pod_def worker_pod_def isPodAvailable_def map_str_def annotation_defs)
  have "granted raced_cluster start (snd ?r) (PatchPodLocked busy_pod ?q)"
    "granted raced_cluster start (snd ?r) (UpdateTaskStatus ?u)"
    by (rule g, simp add: calls)+
  moreover have "?r = (fst ?r, snd ?r)" "t_name ?t \<noteq> ''u''" by (simp_all add: plain_task_def)
  ultimately show ?thesis using q name u cur by metis
qed

text \<open>
  The monitor trusts the report on a pod without checking whom the pod works for, and
  marks a task running without checking that it is still unfinished: a task can be completed
  from the report of another one, and a finished task can be written back to running.
\<close>

theorem monitor_unchecked:
  "(\<exists>E t out w' p u. run_state (monitorTaskCompletion E t) start = (out, w')
      \<and> q_pod E [] (t_namespace t) (st_pod_name (t_status t)) = Inr p
      \<and> annotation p AnnotationWorkerAssignedTask = ''u'' \<and> t_name t = ''t''
      \<and> UpdateTaskStatus u \<in> set (w_calls w') \<and> t_name u = ''t'' \<and> t_phase u = PhaseFailed)
   \<and> (\<exists>E t out w' h fresh u. run_state (monitorTaskCompletion E t) start = (out, w')
      \<and> q_task E h (t_namespace t) (t_name t) = Inr fresh \<and> isTerminalTaskPhase (t_phase fresh)
      \<and> granted E start w' (UpdateTaskStatus u) \<and> t_name u = t_name fresh
      \<and> \<not> isTerminalTaskPhase (t_phase u))"
  (is "?foreign \<and> ?revived")
proof
  let ?status = "\<lambda>ph. set_status (\<lambda>s. s\<lparr>st_phase := ph, st_pod_name := ''w-0''\<rparr>) (plain_task ''t'')"
  let ?p = "worker_pod [(AnnotationWorkerAssignedTask, ''u''), (AnnotationWorkerTaskStatus, ''failed'')]"
  let ?E = "pool_cluster\<lparr>q_pod := (\<lambda>h ns n. Inr ?p)\<rparr>"
  let ?r = "run_state (monitorTaskCompletion ?E (?status PhaseRunning)) start"
  let ?done = "\<lambda>E. set_status (apply_completion E PhaseFailed [] [] [] 0) (plain_task ''t'')"
  have "UpdateTaskStatus (?done ?E)
      \<in> set (w_calls (snd ?r))"
    by (simp add: monitorTaskCompletion_def finish_on_pod_def completeTask_def readPodOutputs_def
        read_logs_def io_run pool_cluster_def cluster_defs worker_pod_def annotation_defs map_str_def Let_def
        set_status_def count_worker_completion_def isTerminalTaskPhase_def createWorkerTaskRecord_def
        recordTaskCompleted_def apply_completion_def clearWorkerPodTaskAnnotations_def when_io_def
        split: prod.splits)
  moreover have "annotation ?p AnnotationWorkerAssignedTask = ''u''" by (simp add: worker_pod_def map_str_def)
  moreover have "q_pod ?E [] (t_namespace (?status PhaseRunning)) (st_pod_name (t_status (?status PhaseRunning))) = Inr ?p"
    "t_name (?status PhaseRunning) = ''t''" by (simp_all add: set_status_def plain_task_def)
  moreover have "t_name (?done ?E) = ''t''" "t_phase (?done ?E) = PhaseFailed"
    by (simp_all add: set_status_def plain_task_def apply_completion_def)
  ultimately show ?foreign by (metis prod.collapse)
next
  let ?status = "\<lambda>ph. set_status (\<lambda>s. s\<lparr>st_phase := ph, st_pod_name := ''w-0''\<rparr>) (plain_task ''t'')"
  let ?fresh = "set_status (\<lambda>s. s\<lparr>st_phase := PhaseSucceeded\<rparr>) (plain_task ''t'')"
  let ?u = "set_status (\<lambda>s. s\<lparr>st_phase := PhaseRunning\<rparr>) ?fresh"
  let ?E = "pool_cluster\<lparr>q_task := (\<lambda>h ns name. Inr ?fresh)\<rparr>"
  let ?r = "run_state (monitorTaskCompletion ?E (?status PhasePending)) start"
  have calls: "w_calls (snd ?r) = [Read ''Pod'' ''default'' ''w-0'', Read ''Task'' ''default'' ''t'', UpdateTaskStatus ?u]"
    by (simp add: monitorTaskCompletion_def mark_running_def modify_task_status_def io_run pool_cluster_def
        cluster_defs worker_pod_def map_str_def Let_def set_status_def split: prod.splits)
  then have "granted ?E start (snd ?r) (UpdateTaskStatus ?u)"
    unfolding granted_def start_def
    by (intro exI [where x = "[Read ''Pod'' ''default'' ''w-0'', Read ''Task'' ''default'' ''t'']"] exI [where x = "[]"])
      (simp add: pool_cluster_def idle_cluster_def)
  moreover have "q_task ?E [] (t_namespace (?status PhasePending)) (t_name (?status PhasePending)) = Inr ?fresh"
    "isTerminalTaskPhase (t_phase ?fresh)" "\<not> isTerminalTaskPhase (t_phase ?u)" "t_name ?u = t_name ?fresh"
    by (simp_all add: set_status_def isTerminalTaskPhase_def)
  ultimately show ?revived by (metis prod.collapse)
qed

end
