(* ===== verification/WorkerRunner.thy ===== *)
theory WorkerRunner
  imports WorkerPods
begin

text \<open>
  \<^verbatim>\<open>internal/workerrunner/runner.go\<close>: the process in a worker pod that polls the pod's
  annotations for a task, runs the agent on it and reports the end. The clients, the agent
  process and the environment variables are parameters; sleeping is not an effect of the
  model, and the sweep of surviving processes is left out.
\<close>

section \<open>Configuration\<close>

record runner_config =
  rc_pod :: string
  rc_namespace :: string
  rc_agent_type :: string
  rc_idle_timeout :: int
  rc_max_tasks :: int

definition defaultIdleTimeout :: int where
  "defaultIdleTimeout = minutes 30"

text \<open>\<^verbatim>\<open>ParseInt\<close> with a bit size of 32.\<close>

definition parse_int32 :: "string \<Rightarrow> int option" where
  "parse_int32 s =
     (case parse_int s of
        None \<Rightarrow> None
      | Some n \<Rightarrow> if - (2 ^ 31) \<le> n \<and> n < 2 ^ 31 then Some n else None)"

definition ConfigFromEnv ::
  "(string \<Rightarrow> string) \<Rightarrow> (string \<Rightarrow> go_err + int) \<Rightarrow> go_err + runner_config" where
  "ConfigFromEnv getenv parse_duration =
     (let cfg = \<lparr>rc_pod = getenv ''KELOS_POD_NAME'', rc_namespace = getenv ''KELOS_POD_NAMESPACE'',
                 rc_agent_type = getenv ''KELOS_AGENT_TYPE'', rc_idle_timeout = defaultIdleTimeout,
                 rc_max_tasks = 0\<rparr>;
          timeout = getenv ''KELOS_IDLE_TIMEOUT'';
          maxTasks = getenv ''KELOS_MAX_TASKS_PER_WORKER'';
          with_timeout =
            (if timeout \<noteq> []
             then (case parse_duration timeout of
                     Inl e \<Rightarrow> Inl (wrap_err (''parsing KELOS_IDLE_TIMEOUT '' @ quote timeout) e)
                   | Inr d \<Rightarrow> Inr (cfg\<lparr>rc_idle_timeout := d\<rparr>))
             else Inr cfg)
      in case with_timeout of
           Inl e \<Rightarrow> Inl e
         | Inr cfg1 \<Rightarrow>
             if maxTasks = [] then Inr cfg1
             else (case parse_int32 maxTasks of
                     None \<Rightarrow> Inl (new_err (''parsing KELOS_MAX_TASKS_PER_WORKER '' @ quote maxTasks))
                   | Some n \<Rightarrow> Inr (cfg1\<lparr>rc_max_tasks := n\<rparr>)))"

section \<open>The pod's annotations\<close>

definition read_own_pod :: "env \<Rightarrow> runner_config \<Rightarrow> (go_err + pod) io" where
  "read_own_pod E cfg = read_obj (q_pod E) ''Pod'' (rc_namespace cfg) (rc_pod cfg)"

definition getAssignedTask :: "env \<Rightarrow> runner_config \<Rightarrow> (go_err + string) io" where
  "getAssignedTask E cfg = do {
     r \<leftarrow> read_own_pod E cfg;
     ret (case r of
            Inl e \<Rightarrow> Inl (wrap_err (''getting pod '' @ rc_namespace cfg @ ''/'' @ rc_pod cfg) e)
          | Inr p \<Rightarrow> Inr (annotation p AnnotationWorkerAssignedTask))
   }"

definition taskCancellationRequested :: "env \<Rightarrow> runner_config \<Rightarrow> string \<Rightarrow> (go_err + bool) io" where
  "taskCancellationRequested E cfg taskName = do {
     r \<leftarrow> read_own_pod E cfg;
     ret (case r of
            Inl e \<Rightarrow> Inl (wrap_err ''getting pod for cancellation check'' e)
          | Inr p \<Rightarrow>
              if annotation p AnnotationWorkerAssignedTask \<noteq> taskName then Inr True
              else Inr (annotation p AnnotationWorkerCancelTask = taskName))
   }"

text \<open>The watcher: it polls until a tick finds the cancellation or the agent has ended.\<close>

fun cancelTaskWhenRequested :: "env \<Rightarrow> runner_config \<Rightarrow> string \<Rightarrow> nat \<Rightarrow> bool io" where
  "cancelTaskWhenRequested E cfg taskName 0 = ret False"
| "cancelTaskWhenRequested E cfg taskName (Suc ticks) = do {
     r \<leftarrow> taskCancellationRequested E cfg taskName;
     (case r of
        Inl e \<Rightarrow> cancelTaskWhenRequested E cfg taskName ticks
      | Inr requested \<Rightarrow>
          if requested then ret True else cancelTaskWhenRequested E cfg taskName ticks)
   }"

definition report_annotations :: "string \<Rightarrow> string \<Rightarrow> strmap \<Rightarrow> strmap" where
  "report_annotations status failureReason a =
     (let b = map_put AnnotationWorkerTaskStatus status a
      in if failureReason \<noteq> [] then map_put AnnotationWorkerTaskFailReason failureReason b
         else map_del AnnotationWorkerTaskFailReason b)"

datatype report_result = Reported | AssignmentChanged | ReportFailed go_err

text \<open>The last attempt of the retry loop; an attempt that conflicts has changed nothing.\<close>

definition setTaskStatus ::
  "env \<Rightarrow> runner_config \<Rightarrow> string \<Rightarrow> string \<Rightarrow> string \<Rightarrow> report_result io" where
  "setTaskStatus E cfg taskName status failureReason = do {
     r \<leftarrow> read_own_pod E cfg;
     (case r of
        Inl e \<Rightarrow> ret (ReportFailed (wrap_err ''getting pod for status update'' e))
      | Inr p \<Rightarrow>
          if annotation p AnnotationWorkerAssignedTask \<noteq> taskName then ret AssignmentChanged
          else do {
            e \<leftarrow> write_call E (UpdatePod (with_annotations (report_annotations status failureReason) p));
            ret (case e of None \<Rightarrow> Reported | Some e \<Rightarrow> ReportFailed e)
          })
   }"

section \<open>The agent\<close>

fun overrideEnvIfPresent :: "string list \<Rightarrow> string \<Rightarrow> string \<Rightarrow> string list" where
  "overrideEnvIfPresent [] key value = []"
| "overrideEnvIfPresent (kv # env) key value =
     (if prefix (key @ ''='') kv then (key @ ''='' @ value) # env
      else kv # overrideEnvIfPresent env key value)"

definition currentGitHubToken :: "(string \<Rightarrow> string) \<Rightarrow> (string \<Rightarrow> string option) \<Rightarrow> string" where
  "currentGitHubToken getenv read_file =
     (let tokenFile = getenv ''KELOS_GITHUB_TOKEN_FILE''
      in if tokenFile = [] then []
         else (case read_file tokenFile of None \<Rightarrow> [] | Some data \<Rightarrow> trim_space data))"

definition taskAgentEnv :: "string list \<Rightarrow> string \<Rightarrow> task \<Rightarrow> string list" where
  "taskAgentEnv base token t =
     (let env = (if token \<noteq> []
                 then overrideEnvIfPresent (overrideEnvIfPresent (overrideEnvIfPresent base
                        ''GITHUB_TOKEN'' token) ''GH_TOKEN'' token) ''GH_ENTERPRISE_TOKEN'' token
                 else base)
      in env @ [''KELOS_TASK_NAME='' @ t_name t, ''KELOS_PROMPT='' @ ts_prompt (t_spec t)]
         @ (if ts_model (t_spec t) \<noteq> [] then [''KELOS_MODEL='' @ ts_model (t_spec t)] else [])
         @ (if ts_effort (t_spec t) \<noteq> [] then [''KELOS_EFFORT='' @ ts_effort (t_spec t)] else [])
         @ (if ts_upstream_repo (t_spec t) \<noteq> []
            then [''KELOS_UPSTREAM_REPO='' @ ts_upstream_repo (t_spec t)] else []))"

text \<open>
  Running the agent under the watcher, between its two markers; the result says whether the
  watcher cancelled it. \<open>agentEnv\<close> is the environment computed for the task.
\<close>

definition run_watched ::
  "env \<Rightarrow> runner_config \<Rightarrow> (task \<Rightarrow> string list) \<Rightarrow> task \<Rightarrow> string \<Rightarrow> (bool \<times> go_err option) io" where
  "run_watched E cfg agentEnv t taskName = do {
     log_call (Print (taskStartMarker @ '' '' @ taskName @ [CHR 0x0A]));
     log_call (RunAgent t (agentEnv t));
     w \<leftarrow> State_Monad.get;
     cancelled \<leftarrow> cancelTaskWhenRequested E cfg taskName (q_watch_ticks E (w_calls w));
     w' \<leftarrow> State_Monad.get;
     log_call (Print (taskEndMarker @ '' '' @ taskName @ [CHR 0x0A]));
     ret (cancelled, q_agent E (w_calls w') cancelled)
   }"

text \<open>The part of \<^verbatim>\<open>executeTask\<close> after the running status is reported.\<close>

definition perform_task ::
  "env \<Rightarrow> runner_config \<Rightarrow> (task \<Rightarrow> string list) \<Rightarrow> string \<Rightarrow> go_err option io" where
  "perform_task E cfg agentEnv taskName = do {
     r \<leftarrow> read_obj (q_task E) ''Task'' (rc_namespace cfg) taskName;
     (case r of
        Inl e \<Rightarrow> do {
          _ \<leftarrow> setTaskStatus E cfg taskName ''failed'' (''failed to get task: '' @ err_text e);
          ret (Some (wrap_err (''getting task '' @ taskName) e))
        }
      | Inr t \<Rightarrow> do {
          c \<leftarrow> taskCancellationRequested E cfg taskName;
          (if c = Inr True then do {
             _ \<leftarrow> setTaskStatus E cfg taskName ''failed'' ''task was cancelled'';
             ret (Some (new_err ''task was cancelled''))
           }
           else do {
             (cancelled, e) \<leftarrow> run_watched E cfg agentEnv t taskName;
             (case e of
                Some e \<Rightarrow> do {
                  _ \<leftarrow> setTaskStatus E cfg taskName ''failed''
                         (if cancelled then ''task was cancelled''
                          else ''agent execution failed: '' @ err_text e);
                  ret (Some e)
                }
              | None \<Rightarrow> do {
                  f \<leftarrow> setTaskStatus E cfg taskName ''succeeded'' [];
                  ret (case f of
                         Reported \<Rightarrow> None
                       | AssignmentChanged \<Rightarrow> None
                       | ReportFailed e \<Rightarrow> Some (wrap_err ''setting succeeded status'' e))
                })
           })
        })
   }"

definition executeTask ::
  "env \<Rightarrow> runner_config \<Rightarrow> (task \<Rightarrow> string list) \<Rightarrow> string \<Rightarrow> go_err option io" where
  "executeTask E cfg agentEnv taskName = do {
     s \<leftarrow> setTaskStatus E cfg taskName ''running'' [];
     (case s of
        AssignmentChanged \<Rightarrow> ret None
      | ReportFailed e \<Rightarrow> ret (Some (wrap_err ''setting running status'' e))
      | Reported \<Rightarrow> perform_task E cfg agentEnv taskName)
   }"

section \<open>The loop\<close>

text \<open>How waiting ends: the context is done, the pod no longer names the task, or never.\<close>

datatype wait_end = Stopped | Released | Waiting

fun waitForAssignmentRelease :: "nat \<Rightarrow> env \<Rightarrow> runner_config \<Rightarrow> string \<Rightarrow> wait_end io" where
  "waitForAssignmentRelease 0 E cfg taskName = ret Waiting"
| "waitForAssignmentRelease (Suc fuel) E cfg taskName = do {
     w \<leftarrow> State_Monad.get;
     (if q_stop E (w_calls w) then ret Stopped
      else do {
        r \<leftarrow> read_own_pod E cfg;
        (case r of
           Inl e \<Rightarrow> waitForAssignmentRelease fuel E cfg taskName
         | Inr p \<Rightarrow>
             if annotation p AnnotationWorkerAssignedTask \<noteq> taskName then ret Released
             else waitForAssignmentRelease fuel E cfg taskName)
      })
   }"

datatype runner_end = ExitStopped | ExitIdle | ExitMaxTasks | ExitWaitStopped | OutOfFuel

text \<open>
  The main loop. The idle timer is the time at which it fires; it is checked at the top of
  each round and set again after a task.
\<close>

fun run_loop ::
  "nat \<Rightarrow> env \<Rightarrow> runner_config \<Rightarrow> (task \<Rightarrow> string list) \<Rightarrow> int \<Rightarrow> int \<Rightarrow> runner_end io" where
  "run_loop 0 E cfg agentEnv idleAt tasksCompleted = ret OutOfFuel"
| "run_loop (Suc fuel) E cfg agentEnv idleAt tasksCompleted = do {
     w \<leftarrow> State_Monad.get;
     now \<leftarrow> clock E;
     (if q_stop E (w_calls w) then ret ExitStopped
      else if idleAt \<le> now then ret ExitIdle
      else do {
        r \<leftarrow> getAssignedTask E cfg;
        (case r of
           Inl e \<Rightarrow> run_loop fuel E cfg agentEnv idleAt tasksCompleted
         | Inr taskName \<Rightarrow>
             if taskName = [] then run_loop fuel E cfg agentEnv idleAt tasksCompleted
             else do {
               _ \<leftarrow> executeTask E cfg agentEnv taskName;
               let completed = wrap32 (tasksCompleted + 1);
               e \<leftarrow> waitForAssignmentRelease fuel E cfg taskName;
               (case e of
                  Waiting \<Rightarrow> ret OutOfFuel
                | Stopped \<Rightarrow> ret ExitWaitStopped
                | Released \<Rightarrow>
                    if 0 < rc_max_tasks cfg \<and> rc_max_tasks cfg \<le> completed then ret ExitMaxTasks
                    else do {
                      again \<leftarrow> clock E;
                      run_loop fuel E cfg agentEnv (again + rc_idle_timeout cfg) completed
                    })
             })
      })
   }"

definition runner_run ::
  "nat \<Rightarrow> env \<Rightarrow> runner_config \<Rightarrow> (task \<Rightarrow> string list) \<Rightarrow> runner_end io" where
  "runner_run fuel E cfg agentEnv = do {
     now \<leftarrow> clock E;
     run_loop fuel E cfg agentEnv (now + rc_idle_timeout cfg) 0
   }"

end
