(* ===== verification/Handshake.thy ===== *)
theory Handshake
  imports WorkerRunner PoolFacts
begin

text \<open>
  The protocol between the worker-pool reconciler and the runner of a pod. They share nothing
  but the annotations of the pod; each write is one step, made of the function that the code
  applies to the annotations, and the steps of the two sides interleave freely. The lemmas at
  the end say that the modelled operations make only these steps.
\<close>

section \<open>The step relations\<close>

datatype runner_state = Idle | Busy string | Awaits string

record handshake =
  hs_annotations :: strmap
  hs_runner :: runner_state

abbreviation assigned :: "handshake \<Rightarrow> string" where
  "assigned s \<equiv> map_str (hs_annotations s) AnnotationWorkerAssignedTask"

abbreviation reported :: "handshake \<Rightarrow> string" where
  "reported s \<equiv> map_str (hs_annotations s) AnnotationWorkerTaskStatus"

definition final_report :: "string \<Rightarrow> bool" where
  "final_report status \<longleftrightarrow> status = ''succeeded'' \<or> status = ''failed''"

text \<open>
  The reconciler claims the pod, whatever its annotations say (the copy under the lock is not
  checked), asks for the cancellation of a task whose end is not reported, or clears the pod:
  after a final report, for a terminal task, or to take a claim back.
\<close>

inductive controller_step :: "handshake \<Rightarrow> handshake \<Rightarrow> bool" where
  claim: "controller_step s (s\<lparr>hs_annotations := assigned_annotations name (hs_annotations s)\<rparr>)"
| cancel: "assigned s = name \<Longrightarrow> \<not> final_report (reported s) \<Longrightarrow>
    controller_step s (s\<lparr>hs_annotations := map_put AnnotationWorkerCancelTask name (hs_annotations s)\<rparr>)"
| clear: "controller_step s (s\<lparr>hs_annotations := cleared_annotations (hs_annotations s)\<rparr>)"

text \<open>
  The runner begins the task it finds assigned, ends it with a final report that is written
  only while the pod is still assigned to it, and then waits until the pod is assigned to
  another task or none. Each report can be lost: the write fails, or the assignment changed.
\<close>

inductive runner_step :: "handshake \<Rightarrow> handshake \<Rightarrow> bool" where
  begin_task: "hs_runner s = Idle \<Longrightarrow> assigned s = name \<Longrightarrow> name \<noteq> [] \<Longrightarrow>
    runner_step s (s\<lparr>hs_annotations := report_annotations ''running'' [] (hs_annotations s),
                    hs_runner := Busy name\<rparr>)"
| begin_lost: "hs_runner s = Idle \<Longrightarrow> assigned s = name \<Longrightarrow> name \<noteq> [] \<Longrightarrow>
    runner_step s (s\<lparr>hs_runner := Awaits name\<rparr>)"
| end_task: "hs_runner s = Busy name \<Longrightarrow> assigned s = name \<Longrightarrow> final_report status \<Longrightarrow>
    runner_step s (s\<lparr>hs_annotations := report_annotations status reason (hs_annotations s),
                    hs_runner := Awaits name\<rparr>)"
| end_lost: "hs_runner s = Busy name \<Longrightarrow> runner_step s (s\<lparr>hs_runner := Awaits name\<rparr>)"
| release: "hs_runner s = Awaits name \<Longrightarrow> assigned s \<noteq> name \<Longrightarrow>
    runner_step s (s\<lparr>hs_runner := Idle\<rparr>)"

inductive_cases controller_stepE: "controller_step s s'"
inductive_cases runner_stepE: "runner_step s s'"

inductive reachable :: "handshake \<Rightarrow> bool" where
  new_pod: "reported s = [] \<Longrightarrow> hs_runner s = Idle \<Longrightarrow> reachable s"
| controller: "reachable s \<Longrightarrow> controller_step s s' \<Longrightarrow> reachable s'"
| runner: "reachable s \<Longrightarrow> runner_step s s' \<Longrightarrow> reachable s'"

section \<open>What the annotations say after each step\<close>

lemma report_annotations_simps [simp]:
  "map_str (report_annotations st r a) AnnotationWorkerTaskStatus = st"
  "map_str (report_annotations st r a) AnnotationWorkerAssignedTask = map_str a AnnotationWorkerAssignedTask"
  by (simp_all add: report_annotations_def Let_def annotation_defs)

lemma cleared_annotations_simps [simp]:
  "map_str (cleared_annotations a) AnnotationWorkerTaskStatus = []"
  "map_str (cleared_annotations a) AnnotationWorkerAssignedTask = []"
  by (simp_all add: cleared_annotations_def annotation_defs)

lemma assigned_annotations_simps [simp]:
  "map_str (assigned_annotations n a) AnnotationWorkerTaskStatus = []"
  "map_str (assigned_annotations n a) AnnotationWorkerAssignedTask = n"
  by (simp_all add: assigned_annotations_def annotation_defs)

lemma cancel_annotation_names [simp]:
  "AnnotationWorkerCancelTask \<noteq> AnnotationWorkerTaskStatus"
  "AnnotationWorkerCancelTask \<noteq> AnnotationWorkerAssignedTask"
  by (simp_all add: annotation_defs)

lemma final_report_simps [simp]:
  "\<not> final_report []" "\<not> final_report ''running''" "final_report ''succeeded''" "final_report ''failed''"
  by (simp_all add: final_report_def)

section \<open>Reports are genuine\<close>

definition genuine :: "handshake \<Rightarrow> bool" where
  "genuine s \<longleftrightarrow> (final_report (reported s) \<longrightarrow> hs_runner s = Awaits (assigned s))"

lemma genuine_controller: "controller_step s s' \<Longrightarrow> genuine s \<Longrightarrow> genuine s'"
  by (erule controller_stepE) (simp_all add: genuine_def)

lemma genuine_runner: "runner_step s s' \<Longrightarrow> genuine s \<Longrightarrow> genuine s'"
  by (erule runner_stepE) (auto simp: genuine_def)

lemma reachable_genuine: "reachable s \<Longrightarrow> genuine s"
proof (induction rule: reachable.induct)
  case (new_pod s)
  then show ?case by (simp add: genuine_def)
qed (blast intro: genuine_controller genuine_runner)+



section \<open>Progress\<close>

text \<open>
  A task is stranded on a pod when the runner waits for the release of a task of that name
  and no end of it is reported.
\<close>

definition stranded :: "handshake \<Rightarrow> bool" where
  "stranded s \<longleftrightarrow> hs_runner s = Awaits (assigned s) \<and> assigned s \<noteq> [] \<and> \<not> final_report (reported s)"

lemma stranded_stuck: "stranded s \<Longrightarrow> \<not> runner_step s s'"
  by (auto simp: stranded_def elim: runner_stepE)

text \<open>The runs of the runner that end in a report, from each state of the runner.\<close>

lemma run_from_busy:
  assumes "hs_runner s = Busy (assigned s)"
  shows "\<exists>s'. runner_step\<^sup>*\<^sup>* s s' \<and> assigned s' = assigned s \<and> final_report (reported s')"
  using end_task [OF assms refl, of "''failed''" "[]"]
  by (intro exI conjI, rule r_into_rtranclp) auto

lemma run_from_idle:
  assumes "hs_runner s = Idle" and "assigned s \<noteq> []"
  shows "\<exists>s'. runner_step\<^sup>*\<^sup>* s s' \<and> assigned s' = assigned s \<and> final_report (reported s')"
proof -
  let ?s = "s\<lparr>hs_annotations := report_annotations ''running'' [] (hs_annotations s),
              hs_runner := Busy (assigned s)\<rparr>"
  have "runner_step s ?s" by (rule begin_task [OF assms(1) refl assms(2)])
  moreover obtain s' where "runner_step\<^sup>*\<^sup>* ?s s'" "assigned s' = assigned ?s" "final_report (reported s')"
    using run_from_busy [of ?s] by auto
  ultimately show ?thesis by (intro exI [where x = s']) (auto intro: converse_rtranclp_into_rtranclp)
qed

lemma run_from_awaits:
  assumes "hs_runner s = Awaits name" and "name \<noteq> assigned s" and "assigned s \<noteq> []"
  shows "\<exists>s'. runner_step\<^sup>*\<^sup>* s s' \<and> assigned s' = assigned s \<and> final_report (reported s')"
proof -
  have "runner_step s (s\<lparr>hs_runner := Idle\<rparr>)" using release [of s name] assms by auto
  moreover obtain s' where "runner_step\<^sup>*\<^sup>* (s\<lparr>hs_runner := Idle\<rparr>) s'" "assigned s' = assigned s"
    "final_report (reported s')"
    using run_from_idle [of "s\<lparr>hs_runner := Idle\<rparr>"] assms by auto
  ultimately show ?thesis by (intro exI [where x = s']) (auto intro: converse_rtranclp_into_rtranclp)
qed

lemma run_from_other:
  assumes "hs_runner s = Busy name" and "name \<noteq> assigned s" and "assigned s \<noteq> []"
  shows "\<exists>s'. runner_step\<^sup>*\<^sup>* s s' \<and> assigned s' = assigned s \<and> final_report (reported s')"
proof -
  have "runner_step s (s\<lparr>hs_runner := Awaits name\<rparr>)" using assms by (intro end_lost)
  moreover obtain s' where "runner_step\<^sup>*\<^sup>* (s\<lparr>hs_runner := Awaits name\<rparr>) s'" "assigned s' = assigned s"
    "final_report (reported s')"
    using run_from_awaits [of "s\<lparr>hs_runner := Awaits name\<rparr>" name] assms by auto
  ultimately show ?thesis by (intro exI [where x = s']) (auto intro: converse_rtranclp_into_rtranclp)
qed



section \<open>The operations make these steps\<close>

subsection \<open>The runner\<close>

definition pod_updates :: "call list \<Rightarrow> pod list" where
  "pod_updates = List.map_filter (\<lambda>c. case c of UpdatePod q \<Rightarrow> Some q | _ \<Rightarrow> None)"

lemma pod_updates_simps [simp]:
  "pod_updates [] = []"
  "pod_updates (c # cs) = (case c of UpdatePod q \<Rightarrow> [q] | _ \<Rightarrow> []) @ pod_updates cs"
  "pod_updates (cs @ ds) = pod_updates cs @ pod_updates ds"
  by (auto simp: pod_updates_def List.map_filter_def split: call.splits)

definition no_update :: "call \<Rightarrow> bool" where
  "no_update c \<longleftrightarrow> (\<forall>q. c \<noteq> UpdatePod q)"

lemma no_update_simps [simp]:
  "no_update (Read k ns n)" "no_update (Print m)" "no_update (RunAgent t env)"
  by (simp_all add: no_update_def)

lemma pod_updates_none: "list_all no_update cs \<Longrightarrow> pod_updates cs = []"
  by (induction cs) (auto simp: no_update_def split: call.split)

text \<open>A run whose updates of the pod are \<open>ups\<close>.\<close>

definition updates :: "world \<Rightarrow> world \<Rightarrow> pod list \<Rightarrow> bool" where
  "updates w w' ups \<longleftrightarrow> grows w w' \<and> pod_updates (new_calls w w') = ups"

lemma updates_trans:
  assumes "updates w w1 us" and "updates w1 w2 vs"
  shows "updates w w2 (us @ vs)"
proof -
  from assms have g: "grows w w1" "grows w1 w2" by (simp_all add: updates_def)
  from new_calls_append [OF g] assms grows_trans [OF g] show ?thesis
    unfolding updates_def by (metis pod_updates_simps(3))
qed

lemma updates_none:
  assumes "emits no_update m" and "run_state m w = (a, w')"
  shows "updates w w' []"
  using assms unfolding emits_def
  by (auto simp: updates_def grows_def pod_updates_none dest!: spec [of _ w])

definition begins_on :: "env \<Rightarrow> runner_config \<Rightarrow> string \<Rightarrow> pod \<Rightarrow> bool" where
  "begins_on E cfg name q \<longleftrightarrow> (\<exists>h p. q_pod E h (rc_namespace cfg) (rc_pod cfg) = Inr p
     \<and> runner_step \<lparr>hs_annotations = m_annotations (pod_meta p), hs_runner = Idle\<rparr>
                   \<lparr>hs_annotations = m_annotations (pod_meta q), hs_runner = Busy name\<rparr>)"

definition ends_on :: "env \<Rightarrow> runner_config \<Rightarrow> string \<Rightarrow> pod \<Rightarrow> bool" where
  "ends_on E cfg name q \<longleftrightarrow> (\<exists>h p. q_pod E h (rc_namespace cfg) (rc_pod cfg) = Inr p
     \<and> runner_step \<lparr>hs_annotations = m_annotations (pod_meta p), hs_runner = Busy name\<rparr>
                   \<lparr>hs_annotations = m_annotations (pod_meta q), hs_runner = Awaits name\<rparr>)"

lemma setTaskStatus_updates:
  assumes "run_state (setTaskStatus E cfg name status reason) w = (res, w')"
  shows "updates w w' [] \<and> res \<noteq> Reported
    \<or> (\<exists>h p. q_pod E h (rc_namespace cfg) (rc_pod cfg) = Inr p \<and> annotation p AnnotationWorkerAssignedTask = name
         \<and> updates w w' [with_annotations (report_annotations status reason) p])"
proof (cases "q_pod E (w_calls w) (rc_namespace cfg) (rc_pod cfg)")
  case (Inl e)
  with assms show ?thesis by (auto simp: setTaskStatus_def read_own_pod_def io_run updates_def)
next
  case (Inr p)
  show ?thesis
  proof (cases "annotation p AnnotationWorkerAssignedTask = name")
    case False
    with assms Inr show ?thesis by (auto simp: setTaskStatus_def read_own_pod_def io_run updates_def)
  next
    case True
    with assms Inr have "updates w w' [with_annotations (report_annotations status reason) p]"
      by (auto simp: setTaskStatus_def read_own_pod_def io_run updates_def)
    with True Inr show ?thesis by blast
  qed
qed

lemma begin_updates:
  assumes "run_state (setTaskStatus E cfg name ''running'' []) w = (res, w')" and "name \<noteq> []"
  shows "updates w w' [] \<and> res \<noteq> Reported \<or> (\<exists>q. begins_on E cfg name q \<and> updates w w' [q])"
  using setTaskStatus_updates [OF assms(1)]
proof (elim disjE exE conjE)
  fix h p assume *: "q_pod E h (rc_namespace cfg) (rc_pod cfg) = Inr p"
    "annotation p AnnotationWorkerAssignedTask = name"
    "updates w w' [with_annotations (report_annotations ''running'' []) p]"
  then have "begins_on E cfg name (with_annotations (report_annotations ''running'' []) p)"
    unfolding begins_on_def
    using begin_task [of "\<lparr>hs_annotations = m_annotations (pod_meta p), hs_runner = Idle\<rparr>" name] assms(2)
    by (intro exI [where x = h] exI [where x = p]) (simp add: with_annotations_def)
  with * show ?thesis by blast
qed auto

lemma end_updates:
  assumes "run_state (setTaskStatus E cfg name status reason) w = (res, w')" and "final_report status"
  shows "updates w w' [] \<or> (\<exists>q. ends_on E cfg name q \<and> updates w w' [q])"
  using setTaskStatus_updates [OF assms(1)]
proof (elim disjE exE conjE)
  fix h p assume *: "q_pod E h (rc_namespace cfg) (rc_pod cfg) = Inr p"
    "annotation p AnnotationWorkerAssignedTask = name"
    "updates w w' [with_annotations (report_annotations status reason) p]"
  then have "ends_on E cfg name (with_annotations (report_annotations status reason) p)"
    unfolding ends_on_def
    using end_task [of "\<lparr>hs_annotations = m_annotations (pod_meta p), hs_runner = Busy name\<rparr>" name status reason] assms(2)
    by (intro exI [where x = h] exI [where x = p]) (simp add: with_annotations_def)
  with * show ?thesis by blast
qed auto

lemma emits_watch: "emits no_update (cancelTaskWhenRequested E cfg name n)"
  by (induction n) (simp_all, auto simp: taskCancellationRequested_def read_own_pod_def intro!: emits_intro)

lemma emits_requested: "emits no_update (taskCancellationRequested E cfg name)"
  unfolding taskCancellationRequested_def read_own_pod_def by (intro emits_intro; simp)

lemma emits_get [emits_intro]: "emits P State_Monad.get"
  by (simp add: emits_def State_Monad.get_def)

lemma emits_run_watched: "emits no_update (run_watched E cfg agentEnv t name)"
  unfolding run_watched_def by (intro emits_intro emits_watch; simp)

text \<open>At most one final report follows a step, whatever comes before it.\<close>

abbreviation ends_by :: "env \<Rightarrow> runner_config \<Rightarrow> string \<Rightarrow> world \<Rightarrow> world \<Rightarrow> bool" where
  "ends_by E cfg name w w' \<equiv> updates w w' [] \<or> (\<exists>q. ends_on E cfg name q \<and> updates w w' [q])"

lemma ends_by_trans: "updates w w1 [] \<Longrightarrow> ends_by E cfg name w1 w' \<Longrightarrow> ends_by E cfg name w w'"
  by (auto dest: updates_trans)

lemma perform_ends:
  assumes "run_state (perform_task E cfg agentEnv name) w = (r, w')"
  shows "ends_by E cfg name w w'"
proof -
  let ?w1 = "w\<lparr>w_calls := w_calls w @ [Read ''Task'' (rc_namespace cfg) name]\<rparr>"
  have u1: "updates w ?w1 []" by (simp add: updates_def)
  show ?thesis
  proof (cases "q_task E (w_calls w) (rc_namespace cfg) name")
    case (Inl e)
    with assms obtain s where
      "run_state (setTaskStatus E cfg name ''failed'' (''failed to get task: '' @ err_text e)) ?w1 = (s, w')"
      by (auto simp: perform_task_def io_run split: prod.splits)
    then show ?thesis by (intro ends_by_trans [OF u1] end_updates [of E cfg name]) auto
  next
    case (Inr t)
    obtain c w2 where c: "run_state (taskCancellationRequested E cfg name) ?w1 = (c, w2)" by fastforce
    have u2: "updates w w2 []"
      using updates_trans [OF u1 updates_none [OF emits_requested c]] by simp
    show ?thesis
    proof (cases "c = Inr True")
      case True
      with assms Inr c obtain s where
        "run_state (setTaskStatus E cfg name ''failed'' ''task was cancelled'') w2 = (s, w')"
        by (auto simp: perform_task_def io_run split: prod.splits)
      then show ?thesis by (intro ends_by_trans [OF u2] end_updates [of E cfg name]) auto
    next
      case False
      obtain cancelled e w3 where a: "run_state (run_watched E cfg agentEnv t name) w2 = ((cancelled, e), w3)"
        by (metis surj_pair)
      have u3: "updates w w3 []"
        using updates_trans [OF u2 updates_none [OF emits_run_watched a]] by simp
      obtain status reason s where "final_report status"
        and "run_state (setTaskStatus E cfg name status reason) w3 = (s, w')"
        using assms Inr c False a
        by (cases e) (auto simp: perform_task_def io_run split: prod.splits intro: that [of "''failed''"] that [of "''succeeded''"])
      then show ?thesis by (intro ends_by_trans [OF u3] end_updates [of E cfg name]) auto
    qed
  qed
qed

text \<open>
  C22. The runner refines the protocol: working on a task updates the pod at most twice, first
  by a step that begins the task and then by one that ends it, each from the annotations that
  it read just before.
\<close>

theorem runner_refines:
  assumes "run_state (executeTask E cfg agentEnv name) w = (r, w')" and "name \<noteq> []"
  shows "pod_updates (new_calls w w') = []
    \<or> (\<exists>q1. begins_on E cfg name q1
         \<and> (pod_updates (new_calls w w') = [q1]
            \<or> (\<exists>q2. ends_on E cfg name q2 \<and> pod_updates (new_calls w w') = [q1, q2])))"
proof -
  obtain s w1 where s: "run_state (setTaskStatus E cfg name ''running'' []) w = (s, w1)" by fastforce
  note b = begin_updates [OF s assms(2)]
  show ?thesis
  proof (cases "s = Reported")
    case False
    with assms(1) s have "w' = w1" by (cases s) (auto simp: executeTask_def)
    with b show ?thesis by (auto simp: updates_def)
  next
    case True
    with b obtain q1 where q1: "begins_on E cfg name q1" "updates w w1 [q1]" by blast
    have "ends_by E cfg name w1 w'"
      using assms(1) s True by (intro perform_ends [of E cfg agentEnv]) (simp add: executeTask_def)
    then have "updates w w' [q1] \<or> (\<exists>q2. ends_on E cfg name q2 \<and> updates w w' [q1, q2])"
      using updates_trans [OF q1(2)] by fastforce
    with q1(1) show ?thesis unfolding updates_def by blast
  qed
qed

text \<open>A pod that is asked to work on a task, and whose runner does.\<close>

definition assigned_cluster :: env where
  "assigned_cluster = pool_cluster
     \<lparr>q_pod := (\<lambda>h ns n. Inr (worker_pod [(AnnotationWorkerAssignedTask, ''t'')]))\<rparr>"

definition worker_config :: runner_config where
  "worker_config = \<lparr>rc_pod = ''w-0'', rc_namespace = ''default'', rc_agent_type = [],
     rc_idle_timeout = defaultIdleTimeout, rc_max_tasks = 0\<rparr>"

lemma runner_refines_witness:
  "\<exists>q1 q2. pod_updates (w_calls (snd (run_state (executeTask assigned_cluster worker_config
        (taskAgentEnv [] []) ''t'') start))) = [q1, q2]
      \<and> ends_on assigned_cluster worker_config ''t'' q2"
proof -
  let ?r = "run_state (executeTask assigned_cluster worker_config (taskAgentEnv [] []) ''t'') start"
  have "length (pod_updates (new_calls start (snd ?r))) = 2" by code_simp
  with runner_refines [of assigned_cluster worker_config "taskAgentEnv [] []" "''t''" start "fst ?r" "snd ?r"]
  show ?thesis by (auto simp: start_def)
qed

subsection \<open>The reconciler\<close>

text \<open>A patch of a pod by the reconciler, from the annotations of the copy that it patches.\<close>

definition patches_from :: "pod \<Rightarrow> pod \<Rightarrow> bool" where
  "patches_from p q \<longleftrightarrow> (\<forall>r. controller_step
     \<lparr>hs_annotations = m_annotations (pod_meta p), hs_runner = r\<rparr>
     \<lparr>hs_annotations = m_annotations (pod_meta q), hs_runner = r\<rparr>)"

lemma patches_claim: "patches_from p (with_annotations (assigned_annotations name) p)"
  unfolding patches_from_def with_annotations_def
  using claim [of "\<lparr>hs_annotations = m_annotations (pod_meta p), hs_runner = r\<rparr>" name for r] by simp

lemma patches_clear: "patches_from p (with_annotations cleared_annotations p)"
  unfolding patches_from_def with_annotations_def
  using clear [of "\<lparr>hs_annotations = m_annotations (pod_meta p), hs_runner = r\<rparr>" for r] by simp

lemma patches_cancel:
  "annotation p AnnotationWorkerAssignedTask = name \<Longrightarrow>
   \<not> final_report (annotation p AnnotationWorkerTaskStatus) \<Longrightarrow>
   patches_from p (with_annotations (map_put AnnotationWorkerCancelTask name) p)"
  unfolding patches_from_def with_annotations_def
  using cancel [of "\<lparr>hs_annotations = m_annotations (pod_meta p), hs_runner = r\<rparr>" name for r] by simp

fun protocol_call :: "call \<Rightarrow> bool" where
  "protocol_call (PatchPod q) = (\<exists>p. patches_from p q)"
| "protocol_call (PatchPodLocked p q) = patches_from p q"
| "protocol_call (UpdatePod q) = False"
| "protocol_call c = True"

lemma emits_protocol_cancel: "emits protocol_call (cancel_on_pod E t)"
  unfolding cancel_on_pod_def requestWorkerPodTaskCancellation_def clearWorkerPodTaskAnnotations_def
  by (intro emits_intro)
    (auto intro!: exI patches_clear patches_cancel simp: final_report_def)

lemma emits_protocol_clear: "emits protocol_call (clearWorkerPodTaskAnnotations E p)"
  unfolding clearWorkerPodTaskAnnotations_def by (intro emits_intro) (auto intro!: exI patches_clear)

lemma emits_protocol_record: "emits protocol_call (createWorkerTaskRecord E t)"
proof -
  have "emits protocol_call (createTaskRecord E t)"
    by (rule emits_mono [OF emits_createTaskRecord]) (erule record_call.elims; simp)
  then show ?thesis unfolding createWorkerTaskRecord_def by (intro emits_intro)
qed

lemma emits_protocol_usage: "emits protocol_call (RecordCostTokenMetrics E t results)"
  unfolding RecordCostTokenMetrics_def count_usage_def by (intro emits_intro; simp)

lemma emits_protocol_outputs: "emits protocol_call (readPodOutputs E ns p name)"
  unfolding readPodOutputs_def by (intro emits_intro; simp)

lemma emits_protocol_complete: "emits protocol_call (completeTask E t phase message)"
  unfolding completeTask_def count_worker_completion_def recordTaskCompleted_def
    observeTaskDuration_def when_io_def
  by (intro emits_intro emits_protocol_usage emits_protocol_outputs; simp)

lemma emits_protocol_terminal: "emits protocol_call (finish_terminal E t)"
  unfolding finish_terminal_def retryWorkerTaskOutputs_def clearTaskPodAssignmentIfStillAssigned_def
    Let_def when_io_def
  by (intro emits_intro emits_protocol_usage emits_protocol_outputs emits_protocol_record
      emits_protocol_clear; simp)

lemma emits_protocol_monitor: "emits protocol_call (monitorTaskCompletion E t)"
  unfolding monitorTaskCompletion_def finish_on_pod_def mark_running_def Let_def
  by (intro emits_intro emits_protocol_complete emits_protocol_record emits_protocol_clear; simp)

lemma emits_protocol_assign: "emits protocol_call (assignTask E t poolName)"
proof -
  have "emits protocol_call (checkBudgetAdmission E t)"
    by (rule emits_mono [OF emits_checkBudgetAdmission]) (erule admission_call.elims; simp)
  then show ?thesis
    unfolding assignTask_def claim_pod_def unsupportedPoolWorkspace_def recordEvent_def Let_def
    by (intro emits_intro emits_protocol_complete emits_protocol_clear)
      (simp_all add: patches_claim)
qed



section \<open>Tasks that are stranded\<close>

text \<open>The runner waits as long as the pod names the task, and nothing else is read meanwhile.\<close>

lemma waits_while_assigned:
  assumes "\<And>h. \<not> q_stop E h"
    and "\<And>h p. q_pod E h (rc_namespace cfg) (rc_pod cfg) = Inr p \<Longrightarrow> annotation p AnnotationWorkerAssignedTask = name"
  shows "fst (run_state (waitForAssignmentRelease n E cfg name) w) = Waiting"
proof (induction n arbitrary: w)
  case (Suc n)
  show ?case
    using assms(1) assms(2) [of "w_calls w"] Suc
    by (cases "q_pod E (w_calls w) (rc_namespace cfg) (rc_pod cfg)")
      (auto simp: read_own_pod_def io_run State_Monad.get_def)
qed simp

definition flaky_cluster :: env where
  "flaky_cluster = assigned_cluster
     \<lparr>q_write := (\<lambda>h c. if h = [Read ''Pod'' ''default'' ''w-0''] then Some (new_err ''timeout'') else None)\<rparr>"

definition pooled_task :: task where
  "pooled_task = set_status (\<lambda>s. s\<lparr>st_phase := PhaseRunning, st_pod_name := ''w-0''\<rparr>) (plain_task ''t'')"

text \<open>
  A report that is lost strands the task: when the single write of the running status
  fails, the runner drops the task without starting its agent and waits, for as many polls as
  one likes, until the pod is released; the reconciler, which sees no report, requeues the
  task again and again and changes nothing.
\<close>

theorem lost_report_strands:
  "\<exists>E cfg t. (\<forall>h c. h = [Read ''Pod'' (rc_namespace cfg) (rc_pod cfg)] \<or> q_write E h c = None)
    \<and> st_pod_name (t_status t) = rc_pod cfg
    \<and> (\<exists>e w'. run_state (executeTask E cfg (taskAgentEnv [] []) (t_name t)) start = (Some e, w')
         \<and> (\<forall>t' env. RunAgent t' env \<notin> set (w_calls w')))
    \<and> (\<forall>n w. fst (run_state (waitForAssignmentRelease n E cfg (t_name t)) w) = Waiting)
    \<and> (\<forall>w. run_state (monitorTaskCompletion E t) w
            = ((after (seconds 10), None), w\<lparr>w_calls := w_calls w @ [Read ''Pod'' (t_namespace t) (rc_pod cfg)]\<rparr>))"
proof (rule exI [where x = flaky_cluster], rule exI [where x = worker_config],
    rule exI [where x = pooled_task], intro conjI allI impI)
  let ?a = "with_annotations (report_annotations ''running'' [])
    (worker_pod [(AnnotationWorkerAssignedTask, ''t'')])"
  have pod: "q_pod flaky_cluster h ns n = Inr (worker_pod [(AnnotationWorkerAssignedTask, ''t'')])" for h ns n
    by (simp add: flaky_cluster_def assigned_cluster_def)
  have a: "annotation (worker_pod [(AnnotationWorkerAssignedTask, ''t'')]) AnnotationWorkerAssignedTask = ''t''"
    "annotation (worker_pod [(AnnotationWorkerAssignedTask, ''t'')]) AnnotationWorkerTaskStatus = []"
    by (simp_all add: worker_pod_def map_str_def annotation_defs)
  have t: "t_name pooled_task = ''t''" "t_namespace pooled_task = ''default''" "t_phase pooled_task = PhaseRunning"
    "st_pod_name (t_status pooled_task) = ''w-0''"
    by (simp_all add: pooled_task_def set_status_def plain_task_def)
  have stop: "\<not> q_stop flaky_cluster h" for h
    by (simp add: flaky_cluster_def assigned_cluster_def pool_cluster_def idle_cluster_def)
  show "h = [Read ''Pod'' (rc_namespace worker_config) (rc_pod worker_config)] \<or> q_write flaky_cluster h c = None"
    for h c by (simp add: flaky_cluster_def worker_config_def)
  show "st_pod_name (t_status pooled_task) = rc_pod worker_config"
    by (simp add: t worker_config_def)
  show "\<exists>e w'. run_state (executeTask flaky_cluster worker_config (taskAgentEnv [] []) (t_name pooled_task)) start
      = (Some e, w') \<and> (\<forall>t' env. RunAgent t' env \<notin> set (w_calls w'))"
    by (simp add: t executeTask_def setTaskStatus_def read_own_pod_def io_run pod a start_def
        worker_config_def) (simp add: flaky_cluster_def)
  show "fst (run_state (waitForAssignmentRelease n flaky_cluster worker_config (t_name pooled_task)) w) = Waiting"
    for n w
    by (rule waits_while_assigned) (use a t pod stop in auto)
  show "run_state (monitorTaskCompletion flaky_cluster pooled_task) w
      = ((after (seconds 10), None),
         w\<lparr>w_calls := w_calls w @ [Read ''Pod'' (t_namespace pooled_task) (rc_pod worker_config)]\<rparr>)" for w
    by (simp add: monitorTaskCompletion_def io_run pod a t mark_running_def worker_config_def)
qed

section \<open>The log of a pod\<close>

text \<open>What \<^verbatim>\<open>executeTask\<close> prints for a task whose agent writes \<open>body\<close>.\<close>

definition task_log :: "string \<Rightarrow> string \<Rightarrow> string" where
  "task_log name body = taskStartMarker @ '' '' @ name @ [CHR 0x0A] @ body
     @ taskEndMarker @ '' '' @ name @ [CHR 0x0A]"

lemma segment_of_last:
  assumes "str_last_index (taskStartMarker @ '' '' @ name) rest = Some i"
  shows "workerTaskLogSegment (earlier @ rest) name = workerTaskLogSegment rest name"
  using str_last_index_append [OF assms, of earlier] assms
  by (simp add: workerTaskLogSegment_def Let_def add.assoc)

text \<open>
  The part of a pod's log that belongs to a task is found by the task's name, but names
  are compared as prefixes: on a pod that ran task \<open>a\<close> and later a task \<open>a-b\<close>, the log read
  for \<open>a\<close>, from which its outputs, results and costs are taken, is the log of \<open>a-b\<close>.
\<close>

theorem log_of_another_task:
  "workerTaskLogSegment (task_log ''a'' body @ task_log ''a-b'' (''x'' @ [CHR 0x0A])) ''a''
     = ''-b'' @ [CHR 0x0A] @ ''x'' @ [CHR 0x0A]"
proof -
  have "str_last_index (taskStartMarker @ '' '' @ ''a'') (task_log ''a-b'' (''x'' @ [CHR 0x0A])) = Some 0"
    by code_simp
  note segment_of_last [OF this, of "task_log ''a'' body"]
  also have "workerTaskLogSegment (task_log ''a-b'' (''x'' @ [CHR 0x0A])) ''a''
      = ''-b'' @ [CHR 0x0A] @ ''x'' @ [CHR 0x0A]" by code_simp
  finally show ?thesis .
qed

end
