(* ===== verification/TaskPipeline.thy ===== *)
theory TaskPipeline
  imports TaskController
begin

text \<open>
  \<^verbatim>\<open>internal/controller/taskpipeline_controller.go\<close>: the reconciler that expands the stages of
  a \<^verbatim>\<open>TaskPipeline\<close> into tasks, stage by stage, and rolls the states of the tasks up into the
  state of the pipeline. The tasks of the stages are an association list from stage names,
  as the Go map is. \<^verbatim>\<open>sort.Slice\<close> is modelled by a stable sort, which is one of the orders it
  may leave when two tasks carry the same index. The condition that is set has no transition
  time; the library stamps it.
\<close>

definition taskPipelineLabel :: string where "taskPipelineLabel = ''kelos.dev/taskpipeline''"
definition taskPipelineStageLabel :: string where "taskPipelineStageLabel = ''kelos.dev/taskpipeline-stage''"
definition taskPipelineIndexLabel :: string where "taskPipelineIndexLabel = ''kelos.dev/taskpipeline-index''"
definition maxPipelineStageTasks :: nat where "maxPipelineStageTasks = 256"
definition pipelineCollisionWait :: int where "pipelineCollisionWait = seconds 2"

type_synonym stage_tasks = "(string \<times> task list) list"

definition tasks_of :: "stage_tasks \<Rightarrow> string \<Rightarrow> task list" where
  "tasks_of tasksByStage stage = (case map_of tasksByStage stage of None \<Rightarrow> [] | Some ts \<Rightarrow> ts)"

section \<open>Validation\<close>

text \<open>The number of keys of a Go map.\<close>

definition map_len :: "strmap \<Rightarrow> nat" where
  "map_len m = length (remdups (map fst m))"

fun check_matrix_items :: "strmap \<Rightarrow> nat \<Rightarrow> strmap list \<Rightarrow> go_err option" where
  "check_matrix_items keys index [] = None"
| "check_matrix_items keys index (item # items) =
     (let differs = Some (new_err (''matrix item '' @ show_nat index @ '' must define the same keys as item 0''))
      in if map_len item = 0
         then Some (new_err (''matrix item '' @ show_nat index @ '' must not be empty''))
         else if map_len item \<noteq> map_len keys then differs
         else if \<not> list_all (\<lambda>(key, v). map_of item key \<noteq> None) keys then differs
         else check_matrix_items keys (Suc index) items)"

definition pipelineMatrixItems :: "strmap list option \<Rightarrow> go_err + strmap list" where
  "pipelineMatrixItems matrix =
     (case matrix of
        None \<Rightarrow> Inr [[]]
      | Some items \<Rightarrow>
          if items = [] then Inl (new_err ''matrix must contain at least one item'')
          else if maxPipelineStageTasks < length items
          then Inl (new_err (''matrix contains more than the maximum of ''
                             @ show_nat maxPipelineStageTasks @ '' items''))
          else (case check_matrix_items (hd items) 0 items of
                  Some e \<Rightarrow> Inl e
                | None \<Rightarrow> Inr items))"

text \<open>\<^verbatim>\<open>matrixItems, _ := pipelineMatrixItems(...)\<close>: nil when there is an error.\<close>

definition matrix_items :: "strmap list option \<Rightarrow> strmap list" where
  "matrix_items matrix = (case pipelineMatrixItems matrix of Inl e \<Rightarrow> [] | Inr items \<Rightarrow> items)"

definition parsePipelineTemplate :: "env \<Rightarrow> string \<Rightarrow> string \<Rightarrow> go_err option" where
  "parsePipelineTemplate E name source = left_err (l_pipeline_template E name source)"

definition renderPipelineTemplate :: "env \<Rightarrow> string \<Rightarrow> string \<Rightarrow> tmpl_value \<Rightarrow> go_err + string" where
  "renderPipelineTemplate E name source data =
     (case l_pipeline_template E name source of Inl e \<Rightarrow> Inl e | Inr execute \<Rightarrow> execute data)"

definition validate_stage :: "env \<Rightarrow> string list \<Rightarrow> pipeline_stage \<Rightarrow> go_err option" where
  "validate_stage E seen stage =
     (if l_dns_label_errors E (sg_name stage) \<noteq> []
      then Some (new_err (''stage name '' @ quote (sg_name stage) @ '' is invalid: ''
                          @ str_join (l_dns_label_errors E (sg_name stage)) ''; ''))
      else if sg_name stage \<in> set seen
      then Some (new_err (''stage name '' @ quote (sg_name stage) @ '' is duplicated''))
      else (case pipelineMatrixItems (sg_matrix stage) of
              Inl e \<Rightarrow> Some (wrap_err (''stage '' @ quote (sg_name stage)) e)
            | Inr items \<Rightarrow>
                (case parsePipelineTemplate E (sg_name stage @ '' prompt'') (pt_prompt (sg_template stage)) of
                   Some e \<Rightarrow> Some (wrap_err (''stage '' @ quote (sg_name stage) @ '' prompt'') e)
                 | None \<Rightarrow>
                     if pt_branch (sg_template stage) = [] then None
                     else (case parsePipelineTemplate E (sg_name stage @ '' branch'')
                                  (pt_branch (sg_template stage)) of
                             Some e \<Rightarrow> Some (wrap_err (''stage '' @ quote (sg_name stage) @ '' branch'') e)
                           | None \<Rightarrow> None))))"

fun validate_stages :: "env \<Rightarrow> string list \<Rightarrow> pipeline_stage list \<Rightarrow> go_err option" where
  "validate_stages E seen [] = None"
| "validate_stages E seen (stage # stages) =
     (case validate_stage E seen stage of
        Some e \<Rightarrow> Some e
      | None \<Rightarrow> validate_stages E (sg_name stage # seen) stages)"

definition validateTaskPipeline :: "env \<Rightarrow> task_pipeline \<Rightarrow> go_err option" where
  "validateTaskPipeline E pipeline =
     (if p_stages pipeline = [] then Some (new_err ''pipeline must contain at least one stage'')
      else validate_stages E [] (p_stages pipeline))"

section \<open>The index function of the templates\<close>

datatype tmpl_index = IndexInt int | IndexStr string

text \<open>A value, or a byte of a string, which cannot be indexed any further.\<close>

datatype tmpl_item = Item tmpl_value | Byte char

definition strict_index_step :: "tmpl_item \<Rightarrow> tmpl_index \<Rightarrow> go_err + tmpl_item" where
  "strict_index_step value i =
     (case value of
        Byte c \<Rightarrow> Inl (new_err ''value of type uint8 cannot be indexed'')
      | Item (TMap m) \<Rightarrow>
          (case i of
             IndexInt n \<Rightarrow> Inl (new_err ''index of the wrong type'')
           | IndexStr k \<Rightarrow>
               (case map_of m k of
                  None \<Rightarrow> Inl (new_err (''key '' @ quote k @ '' is not present''))
                | Some v \<Rightarrow> Inr (Item v)))
      | Item (TList vs) \<Rightarrow>
          (case i of
             IndexStr k \<Rightarrow> Inl (new_err (''index '' @ k @ '' is not an integer''))
           | IndexInt n \<Rightarrow>
               if n < 0 \<or> int (length vs) \<le> n
               then Inl (new_err (''index '' @ itoa n @ '' is out of range''))
               else Inr (Item (vs ! nat n)))
      | Item (TStr s) \<Rightarrow>
          (case i of
             IndexStr k \<Rightarrow> Inl (new_err (''index '' @ k @ '' is not an integer''))
           | IndexInt n \<Rightarrow>
               if n < 0 \<or> int (length s) \<le> n
               then Inl (new_err (''index '' @ itoa n @ '' is out of range''))
               else Inr (Byte (s ! nat n))))"

fun strictTemplateIndex :: "tmpl_item \<Rightarrow> tmpl_index list \<Rightarrow> go_err + tmpl_item" where
  "strictTemplateIndex value [] = Inr value"
| "strictTemplateIndex value (i # indices) =
     (case strict_index_step value i of
        Inl e \<Rightarrow> Inl e
      | Inr v \<Rightarrow> strictTemplateIndex v indices)"

section \<open>Tasks of a pipeline\<close>

definition pipelineTaskIndex :: "task \<Rightarrow> int" where
  "pipelineTaskIndex t =
     (case parse_int (map_str (m_labels (t_meta t)) taskPipelineIndexLabel) of
        None \<Rightarrow> -1
      | Some index \<Rightarrow> index)"

definition pipelineChildTaskName :: "env \<Rightarrow> string \<Rightarrow> string \<Rightarrow> nat \<Rightarrow> nat \<Rightarrow> string" where
  "pipelineChildTaskName E pipelineName stageName index count =
     (let name = pipelineName @ ''-'' @ stageName @ (if 1 < count then ''-'' @ show_nat index else [])
      in if length name \<le> 63 then name
         else (let hash = l_hash8 E name
               in trim_right_set ''-.'' (take (63 - length hash - 1) name) @ ''-'' @ hash))"

definition pipelineLabelValue :: "env \<Rightarrow> string \<Rightarrow> string" where
  "pipelineLabelValue E pipelineName =
     (if length pipelineName \<le> 63 then pipelineName
      else (let hash = l_hash8 E pipelineName
            in trim_right_set ''-._'' (take (63 - length hash - 1) pipelineName) @ ''-'' @ hash))"

definition taskOwnedByEarlierPipeline :: "task \<Rightarrow> task_pipeline \<Rightarrow> bool" where
  "taskOwnedByEarlierPipeline t pipeline \<longleftrightarrow>
     list_ex (\<lambda>owner. or_kind owner = ''TaskPipeline'' \<and> or_name owner = p_name pipeline
                    \<and> or_uid owner \<noteq> m_uid (p_meta pipeline)) (m_owners (t_meta t))"

definition pipelineTasksByIndex :: "task list \<Rightarrow> int list" where
  "pipelineTasksByIndex tasks = map pipelineTaskIndex tasks"

definition add_stage_task :: "string \<Rightarrow> task \<Rightarrow> stage_tasks \<Rightarrow> stage_tasks" where
  "add_stage_task stage t tasksByStage = map_put stage (tasks_of tasksByStage stage @ [t]) tasksByStage"

fun group_tasks :: "env \<Rightarrow> task_pipeline \<Rightarrow> stage_tasks \<Rightarrow> task list \<Rightarrow> go_err + stage_tasks" where
  "group_tasks E pipeline acc [] = Inr acc"
| "group_tasks E pipeline acc (t # ts) =
     (if \<not> l_controlled_by E (t_meta t) (p_meta pipeline) then group_tasks E pipeline acc ts
      else (let stageName = map_str (m_labels (t_meta t)) taskPipelineStageLabel
            in if stageName = []
               then Inl (new_err (''Task '' @ quote (t_name t) @ '' owned by TaskPipeline ''
                           @ quote (p_name pipeline) @ '' has no '' @ taskPipelineStageLabel @ '' label''))
               else group_tasks E pipeline (add_stage_task stageName t acc) ts))"

definition listPipelineTasks :: "env \<Rightarrow> task_pipeline \<Rightarrow> (go_err + stage_tasks) io" where
  "listPipelineTasks E pipeline = do {
     r \<leftarrow> read_obj (q_pipeline_tasks E) ''TaskList'' (m_namespace (p_meta pipeline))
            (pipelineLabelValue E (p_name pipeline));
     ret (case r of
            Inl e \<Rightarrow> Inl (wrap_err (''listing Tasks for TaskPipeline '' @ quote (p_name pipeline)) e)
          | Inr tasks \<Rightarrow>
              (case group_tasks E pipeline [] tasks of
                 Inl e \<Rightarrow> Inl e
               | Inr g \<Rightarrow> Inr (map (\<lambda>(s, ts). (s, sort_key pipelineTaskIndex ts)) g)))
   }"

section \<open>Building a task\<close>

definition task_result_data :: "strmap list \<Rightarrow> task \<Rightarrow> tmpl_value" where
  "task_result_data items t =
     (let index = pipelineTaskIndex t;
          matrix = (if 0 \<le> index \<and> index < int (length items) then items ! nat index else [])
      in TMap [(''Name'', TStr (t_name t)),
               (''Matrix'', TMap (map (\<lambda>(k, v). (k, TStr v)) matrix)),
               (''Outputs'', TList (map TStr (st_outputs (t_status t)))),
               (''Results'', TMap (map (\<lambda>(k, v). (k, TStr v)) (st_results (t_status t))))])"

definition pipelineStageTemplateData ::
  "task_pipeline \<Rightarrow> pipeline_stage \<Rightarrow> stage_tasks \<Rightarrow> (string \<times> tmpl_value) list" where
  "pipelineStageTemplateData pipeline stage tasksByStage =
     map (\<lambda>done_stage. (sg_name done_stage,
            TList (map (task_result_data (matrix_items (sg_matrix done_stage)))
                     (sort_key pipelineTaskIndex (tasks_of tasksByStage (sg_name done_stage))))))
       (takeWhile (\<lambda>s. sg_name s \<noteq> sg_name stage) (p_stages pipeline))"

definition zero_task_spec :: task_spec where
  "zero_task_spec =
     \<lparr>ts_worker = None, ts_pool = None, ts_type = [], ts_prompt = [], ts_credentials = None,
      ts_model = [], ts_effort = [], ts_image = [], ts_workspace = None, ts_agent_configs = [],
      ts_depends_on = [], ts_branch = [], ts_branch_lock = LockUnset, ts_upstream_repo = [],
      ts_ttl = None, ts_pod_failure_policy = None, ts_pod_overrides = None\<rparr>"

definition pipeline_task :: "env \<Rightarrow> task_pipeline \<Rightarrow> pipeline_stage \<Rightarrow> nat \<Rightarrow> nat \<Rightarrow> string \<Rightarrow> string \<Rightarrow> task" where
  "pipeline_task E pipeline stage index count prompt branch =
     \<lparr>t_meta = blank_meta
        \<lparr>m_name := pipelineChildTaskName E (p_name pipeline) (sg_name stage) index count,
         m_namespace := m_namespace (p_meta pipeline),
         m_labels := [(taskPipelineLabel, pipelineLabelValue E (p_name pipeline)),
                      (taskPipelineStageLabel, sg_name stage),
                      (taskPipelineIndexLabel, show_nat index)]\<rparr>,
      t_spec = zero_task_spec
        \<lparr>ts_prompt := prompt, ts_branch := branch,
         ts_branch_lock := pt_branch_lock (sg_template stage),
         ts_worker := pt_worker (sg_template stage), ts_pool := pt_pool (sg_template stage)\<rparr>,
      t_status = zero_task_status\<rparr>"

definition buildPipelineTask ::
  "env \<Rightarrow> task_pipeline \<Rightarrow> pipeline_stage \<Rightarrow> nat \<Rightarrow> nat \<Rightarrow> strmap \<Rightarrow> stage_tasks \<Rightarrow> go_err + task" where
  "buildPipelineTask E pipeline stage index count matrix tasksByStage =
     (let templateData = TMap
            [(''Matrix'', TMap (map (\<lambda>(k, v). (k, TStr v)) matrix)),
             (''Stages'', TMap (pipelineStageTemplateData pipeline stage tasksByStage))]
      in case renderPipelineTemplate E (sg_name stage @ '' prompt'') (pt_prompt (sg_template stage))
                templateData of
           Inl e \<Rightarrow> Inl (wrap_err ''rendering prompt'' e)
         | Inr prompt \<Rightarrow>
             (case (if pt_branch (sg_template stage) = [] then Inr []
                    else renderPipelineTemplate E (sg_name stage @ '' branch'')
                           (pt_branch (sg_template stage)) templateData) of
                Inl e \<Rightarrow> Inl (wrap_err ''rendering branch'' e)
              | Inr branch \<Rightarrow> Inr (pipeline_task E pipeline stage index count prompt branch)))"

definition minimumPositiveDuration :: "int \<Rightarrow> int \<Rightarrow> int" where
  "minimumPositiveDuration current candidate =
     (if current \<le> 0 \<or> candidate < current then candidate else current)"

text \<open>The time a task without outputs may still deliver them.\<close>

definition result_remaining :: "int \<Rightarrow> task \<Rightarrow> int" where
  "result_remaining now t =
     (if t_phase t \<noteq> PhaseSucceeded then 0
      else (case st_completion (t_status t) of
              None \<Rightarrow> 0
            | Some c \<Rightarrow>
                if st_outputs (t_status t) \<noteq> [] \<or> st_results (t_status t) \<noteq> [] then 0
                else c + outputRetryWindow - now))"

definition pipelineResultRetryAfter :: "task_pipeline \<Rightarrow> nat \<Rightarrow> stage_tasks \<Rightarrow> int \<Rightarrow> int" where
  "pipelineResultRetryAfter pipeline stageIndex tasksByStage now =
     foldl (\<lambda>retryAfter t. if retryAfter < result_remaining now t then result_remaining now t else retryAfter) 0
       (concat (map (\<lambda>s. tasks_of tasksByStage (sg_name s)) (take stageIndex (p_stages pipeline))))"

section \<open>Status\<close>

definition count_phases :: "(task_phase \<Rightarrow> bool) \<Rightarrow> task list \<Rightarrow> int" where
  "count_phases P tasks = wrap32 (int (length (filter (\<lambda>t. P (t_phase t)) tasks)))"

definition stage_summary ::
  "pipeline_stage \<Rightarrow> task list \<Rightarrow> string \<Rightarrow> stage_status option \<Rightarrow> stage_status" where
  "stage_summary stage tasks stageError previous =
     (let count = wrap32 (int (length (matrix_items (sg_matrix stage))));
          succeeded = count_phases (\<lambda>p. p = PhaseSucceeded) tasks;
          failed = count_phases (\<lambda>p. p = PhaseFailed) tasks;
          active = count_phases (\<lambda>p. p \<noteq> PhaseSucceeded \<and> p \<noteq> PhaseFailed) tasks;
          phase = (if stageError \<noteq> [] then PhaseFailed
                   else if 0 < failed then PhaseFailed
                   else if succeeded = count \<and> wrap32 (int (length tasks)) = count then PhaseSucceeded
                   else if tasks \<noteq> [] then PhaseRunning
                   else (case previous of
                           None \<Rightarrow> PhasePending
                         | Some s \<Rightarrow> if ss_phase s \<noteq> PhaseSucceeded then PhaseWaiting else PhasePending))
      in \<lparr>ss_name = sg_name stage, ss_phase = phase, ss_total = count, ss_succeeded = succeeded,
          ss_failed = failed, ss_active = active\<rparr>)"

fun summarize_from ::
  "stage_status option \<Rightarrow> stage_tasks \<Rightarrow> strmap \<Rightarrow> pipeline_stage list \<Rightarrow> stage_status list" where
  "summarize_from previous tasksByStage stageErrors [] = []"
| "summarize_from previous tasksByStage stageErrors (stage # stages) =
     (let s = stage_summary stage (tasks_of tasksByStage (sg_name stage))
                (map_str stageErrors (sg_name stage)) previous
      in s # summarize_from (Some s) tasksByStage stageErrors stages)"

definition summarizePipelineStages :: "task_pipeline \<Rightarrow> stage_tasks \<Rightarrow> strmap \<Rightarrow> stage_status list" where
  "summarizePipelineStages pipeline tasksByStage stageErrors =
     summarize_from None tasksByStage stageErrors (p_stages pipeline)"

definition failure_text :: "stage_status \<Rightarrow> task list \<Rightarrow> string \<Rightarrow> string" where
  "failure_text status tasks stageError =
     (if stageError \<noteq> [] then ''Stage '' @ quote (ss_name status) @ '' failed: '' @ stageError
      else (case List.find (\<lambda>t. t_phase t = PhaseFailed) tasks of
              None \<Rightarrow> ''Stage '' @ quote (ss_name status) @ '' failed''
            | Some t \<Rightarrow>
                ''Stage '' @ quote (ss_name status) @ '' failed because Task '' @ quote (t_name t) @ '' failed''
                @ (if st_message (t_status t) \<noteq> [] then '': '' @ st_message (t_status t) else [])))"

definition firstPipelineFailure :: "stage_status list \<Rightarrow> stage_tasks \<Rightarrow> strmap \<Rightarrow> string" where
  "firstPipelineFailure statuses tasksByStage stageErrors =
     (case List.find (\<lambda>s. ss_phase s = PhaseFailed) statuses of
        None \<Rightarrow> []
      | Some s \<Rightarrow> failure_text s (tasks_of tasksByStage (ss_name s)) (map_str stageErrors (ss_name s)))"

definition isTerminalTaskPipelinePhase :: "pipeline_phase \<Rightarrow> bool" where
  "isTerminalTaskPipelinePhase phase \<longleftrightarrow> phase = PipeSucceeded \<or> phase = PipeFailed"

definition setTaskPipelineSucceededCondition ::
  "env \<Rightarrow> task_pipeline \<Rightarrow> cond_status \<Rightarrow> string \<Rightarrow> string \<Rightarrow> pipeline_status \<Rightarrow> pipeline_status" where
  "setTaskPipelineSucceededCondition E pipeline status reason message s =
     s\<lparr>ps_conditions := l_set_condition E (ps_conditions s)
         \<lparr>c_type = ''Succeeded'', c_status = status, c_reason = reason, c_message = message,
          c_generation = m_generation (p_meta pipeline), c_transition = 0\<rparr>\<rparr>"

text \<open>The phase, condition status, reason and message that the stages amount to.\<close>

definition pipeline_verdict ::
  "stage_status list \<Rightarrow> string \<Rightarrow> pipeline_phase \<times> cond_status \<times> string \<times> string" where
  "pipeline_verdict stageStatuses failure =
     (let active = foldl (\<lambda>n s. wrap32 (n + ss_active s)) 0 stageStatuses;
          observed = foldl (\<lambda>n s. wrap32 (n + wrap32 (wrap32 (ss_active s + ss_succeeded s) + ss_failed s)))
                       0 stageStatuses;
          allSucceeded = stageStatuses \<noteq> [] \<and> list_all (\<lambda>s. ss_phase s = PhaseSucceeded) stageStatuses
      in if allSucceeded then (PipeSucceeded, CondTrue, ''Succeeded'', ''All pipeline stages succeeded'')
         else if failure \<noteq> [] \<and> active = 0 then (PipeFailed, CondFalse, ''Failed'', failure)
         else if 0 < observed
         then (PipeRunning, CondUnknown, ''Running'', if failure \<noteq> [] then failure else ''Pipeline is running'')
         else (PipePending, CondUnknown, ''Pending'', ''Pipeline has not started''))"

definition write_pipeline_status ::
  "env \<Rightarrow> task_pipeline \<Rightarrow> string \<Rightarrow> pipeline_status \<Rightarrow> go_err option io" where
  "write_pipeline_status E pipeline what status =
     (if p_status pipeline = status then ret None
      else do {
        e \<leftarrow> write_call E (PatchPipelineStatus (pipeline\<lparr>p_status := status\<rparr>));
        ret (map_option (wrap_err (''updating '' @ what @ '' '' @ quote (p_name pipeline) @ '' status'')) e)
      })"

definition updateTaskPipelineStatus ::
  "env \<Rightarrow> task_pipeline \<Rightarrow> stage_status list \<Rightarrow> string \<Rightarrow> go_err option io" where
  "updateTaskPipelineStatus E pipeline stageStatuses failure =
     (let (phase, status, reason, message) = pipeline_verdict stageStatuses failure
      in write_pipeline_status E pipeline ''TaskPipeline''
           (setTaskPipelineSucceededCondition E pipeline status reason message
              ((p_status pipeline)\<lparr>ps_generation := m_generation (p_meta pipeline),
                                  ps_stages := stageStatuses, ps_phase := phase\<rparr>)))"

definition failInvalidPipeline :: "env \<Rightarrow> task_pipeline \<Rightarrow> go_err \<Rightarrow> go_err option io" where
  "failInvalidPipeline E pipeline validationErr =
     write_pipeline_status E pipeline ''invalid TaskPipeline''
       (setTaskPipelineSucceededCondition E pipeline CondFalse ''InvalidPipeline'' (err_text validationErr)
          ((p_status pipeline)\<lparr>ps_generation := m_generation (p_meta pipeline), ps_phase := PipeFailed\<rparr>))"

section \<open>Creating the tasks of a stage\<close>

text \<open>What the loops carry: the tasks known, the error of a stage, and the delay.\<close>

record create_state =
  cs_tasks :: stage_tasks
  cs_errors :: strmap
  cs_requeue :: int

definition wait_for :: "int \<Rightarrow> create_state \<Rightarrow> create_state" where
  "wait_for d cs = cs\<lparr>cs_requeue := minimumPositiveDuration (cs_requeue cs) d\<rparr>"

definition fail_stage :: "string \<Rightarrow> string \<Rightarrow> create_state \<Rightarrow> create_state" where
  "fail_stage stage message cs = cs\<lparr>cs_errors := map_put stage message (cs_errors cs)\<rparr>"

definition know_task :: "string \<Rightarrow> task \<Rightarrow> create_state \<Rightarrow> create_state" where
  "know_task stage t cs = cs\<lparr>cs_tasks := add_stage_task stage t (cs_tasks cs)\<rparr>"

text \<open>
  A name that is taken. The result is an error of the reconcile, or whether the loop goes on
  (the task is adopted) with the new state.
\<close>

definition adopt_task ::
  "env \<Rightarrow> task_pipeline \<Rightarrow> pipeline_stage \<Rightarrow> nat \<Rightarrow> task \<Rightarrow> create_state \<Rightarrow>
   (go_err + bool \<times> create_state) io" where
  "adopt_task E pipeline stage index t cs = do {
     r \<leftarrow> read_obj (q_task E) ''Task'' (t_namespace t) (t_name t);
     ret (case r of
            Inl e \<Rightarrow>
              if is_not_found e then Inr (False, wait_for pipelineCollisionWait cs)
              else Inl (wrap_err (''getting existing Task '' @ quote (t_name t) @ '' for TaskPipeline ''
                          @ quote (p_name pipeline)) e)
          | Inr found \<Rightarrow>
              if l_controlled_by E (t_meta found) (p_meta pipeline)
                 \<and> map_str (m_labels (t_meta found)) taskPipelineStageLabel = sg_name stage
                 \<and> map_str (m_labels (t_meta found)) taskPipelineIndexLabel = show_nat index
              then Inr (True, know_task (sg_name stage) found cs)
              else if taskOwnedByEarlierPipeline found pipeline
              then Inr (False, wait_for pipelineCollisionWait cs)
              else Inr (False, fail_stage (sg_name stage)
                     (''Task name '' @ quote (t_name t) @ '' is already in use'') cs))
   }"

fun create_stage_tasks ::
  "env \<Rightarrow> task_pipeline \<Rightarrow> nat \<Rightarrow> pipeline_stage \<Rightarrow> nat \<Rightarrow> int list \<Rightarrow> (nat \<times> strmap) list \<Rightarrow>
   create_state \<Rightarrow> (go_err + create_state) io" where
  "create_stage_tasks E pipeline i stage count existing [] cs = ret (Inr cs)"
| "create_stage_tasks E pipeline i stage count existing ((index, matrix) # items) cs =
     (if int index \<in> set existing then create_stage_tasks E pipeline i stage count existing items cs
      else (case buildPipelineTask E pipeline stage index count matrix (cs_tasks cs) of
              Inl buildErr \<Rightarrow> do {
                now \<leftarrow> clock E;
                (let wait = pipelineResultRetryAfter pipeline i (cs_tasks cs) now
                 in ret (Inr (if 0 < wait then wait_for wait cs
                              else fail_stage (sg_name stage) (err_text buildErr) cs)))
              }
            | Inr t0 \<Rightarrow>
                (case l_set_controller E (p_meta pipeline) (t_meta t0) of
                   Inl e \<Rightarrow> ret (Inl (wrap_err (''setting TaskPipeline '' @ quote (p_name pipeline)
                              @ '' owner on Task '' @ quote (t_name t0)) e))
                 | Inr meta \<Rightarrow> do {
                     c \<leftarrow> write_call E (CreateTask (t0\<lparr>t_meta := meta\<rparr>));
                     (case c of
                        None \<Rightarrow> create_stage_tasks E pipeline i stage count existing items
                                  (know_task (sg_name stage) (t0\<lparr>t_meta := meta\<rparr>) cs)
                      | Some e \<Rightarrow>
                          if is_already_exists e then do {
                            a \<leftarrow> adopt_task E pipeline stage index (t0\<lparr>t_meta := meta\<rparr>) cs;
                            (case a of
                               Inl e \<Rightarrow> ret (Inl e)
                             | Inr (adopted, cs') \<Rightarrow>
                                 if adopted
                                 then create_stage_tasks E pipeline i stage count existing items cs'
                                 else ret (Inr cs'))
                          }
                          else ret (Inl (wrap_err (''creating Task '' @ quote (m_name meta)
                                 @ '' for TaskPipeline '' @ quote (p_name pipeline)) e)))
                   })))"

fun create_stages ::
  "env \<Rightarrow> task_pipeline \<Rightarrow> nat \<Rightarrow> stage_status option \<Rightarrow> (pipeline_stage \<times> stage_status) list \<Rightarrow>
   create_state \<Rightarrow> (go_err + create_state) io" where
  "create_stages E pipeline i previous [] cs = ret (Inr cs)"
| "create_stages E pipeline i previous ((stage, status) # stages) cs =
     (if (case previous of None \<Rightarrow> False | Some s \<Rightarrow> ss_phase s \<noteq> PhaseSucceeded) then ret (Inr cs)
      else do {
        r \<leftarrow> (let items = matrix_items (sg_matrix stage)
              in create_stage_tasks E pipeline i stage (length items)
                   (pipelineTasksByIndex (tasks_of (cs_tasks cs) (sg_name stage)))
                   (enumerate 0 items) cs);
        (case r of
           Inl e \<Rightarrow> ret (Inl e)
         | Inr cs' \<Rightarrow>
             if cs_errors cs' \<noteq> [] then ret (Inr cs')
             else create_stages E pipeline (Suc i) (Some status) stages cs')
      })"

section \<open>Reconcile\<close>

definition advance_pipeline :: "env \<Rightarrow> task_pipeline \<Rightarrow> stage_tasks \<Rightarrow> outcome io" where
  "advance_pipeline E pipeline tasksByStage =
     (let initial = summarizePipelineStages pipeline tasksByStage [];
          cs0 = \<lparr>cs_tasks = tasksByStage, cs_errors = [], cs_requeue = 0\<rparr>
      in do {
        r \<leftarrow> (if firstPipelineFailure initial tasksByStage [] \<noteq> [] then ret (Inr cs0)
              else create_stages E pipeline 0 None (zip (p_stages pipeline) initial) cs0);
        (case r of
           Inl e \<Rightarrow> ret (no_requeue, Some e)
         | Inr cs \<Rightarrow>
             (let statuses = summarizePipelineStages pipeline (cs_tasks cs) (cs_errors cs)
              in do {
                e \<leftarrow> updateTaskPipelineStatus E pipeline statuses
                       (firstPipelineFailure statuses (cs_tasks cs) (cs_errors cs));
                ret (case e of Some e \<Rightarrow> (no_requeue, Some e) | None \<Rightarrow> (after (cs_requeue cs), None))
              }))
      })"

definition pipeline_reconcile :: "env \<Rightarrow> string \<Rightarrow> string \<Rightarrow> outcome io" where
  "pipeline_reconcile E ns name = do {
     r \<leftarrow> read_obj (q_pipeline E) ''TaskPipeline'' ns name;
     (case r of
        Inl e \<Rightarrow> ret (no_requeue, if is_not_found e then None else Some e)
      | Inr pipeline \<Rightarrow>
          (case validateTaskPipeline E pipeline of
             Some invalid \<Rightarrow> do {
               e \<leftarrow> failInvalidPipeline E pipeline invalid;
               ret (no_requeue, e)
             }
           | None \<Rightarrow> do {
               l \<leftarrow> listPipelineTasks E pipeline;
               (case l of
                  Inl e \<Rightarrow> ret (no_requeue, Some e)
                | Inr tasksByStage \<Rightarrow>
                    if isTerminalTaskPipelinePhase (ps_phase (p_status pipeline)) then ret (no_requeue, None)
                    else advance_pipeline E pipeline tasksByStage)
             }))
   }"

end
