(* ===== verification/PipelineFacts.thy ===== *)
theory PipelineFacts
  imports TaskPipeline Cluster
begin

text \<open>
  What the pipeline reconciler guarantees: the roll-up of the tasks' phases into the phases of
  the stages and of the pipeline, against a specification on the tasks, the order in which it
  creates tasks, and a clash of the names that it gives them.
\<close>

section \<open>The roll-up\<close>

definition stage_done :: "pipeline_stage \<Rightarrow> task list \<Rightarrow> string \<Rightarrow> bool" where
  "stage_done stage tasks stageError \<longleftrightarrow> stageError = []
     \<and> length tasks = length (matrix_items (sg_matrix stage)) \<and> (\<forall>t \<in> set tasks. t_phase t = PhaseSucceeded)"

definition stage_failed :: "task list \<Rightarrow> string \<Rightarrow> bool" where
  "stage_failed tasks stageError \<longleftrightarrow> stageError \<noteq> [] \<or> (\<exists>t \<in> set tasks. t_phase t = PhaseFailed)"

definition small :: "task list \<Rightarrow> bool" where
  "small tasks \<longleftrightarrow> length tasks < 2 ^ 31"

lemma wrap32_nat: "n < 2 ^ 31 \<Longrightarrow> wrap32 (int n) = int n"
  by (rule wrap32_id) auto

lemma count_phases_small:
  assumes "small tasks"
  shows "count_phases P tasks = int (length (filter (\<lambda>t. P (t_phase t)) tasks))"
proof -
  have "length (filter (\<lambda>t. P (t_phase t)) tasks) < 2 ^ 31"
    using assms unfolding small_def by (rule le_less_trans [OF length_filter_le])
  then show ?thesis by (simp add: count_phases_def wrap32_nat)
qed

lemma matrix_items_bound: "length (matrix_items m) \<le> 256"
  by (auto simp: matrix_items_def pipelineMatrixItems_def maxPipelineStageTasks_def split: sum.splits option.splits if_splits)

lemma filter_all_length: "length (filter P xs) = length xs \<longleftrightarrow> (\<forall>x \<in> set xs. P x)"
  by (metis filter_True filter_id_conv length_filter_less nat_neq_iff)

lemma filter_some_length: "0 < length (filter P xs) \<longleftrightarrow> (\<exists>x \<in> set xs. P x)"
  by (induction xs) auto

lemma phase_partition:
  "length (filter (\<lambda>t. t_phase t = PhaseSucceeded) ts) + length (filter (\<lambda>t. t_phase t = PhaseFailed) ts)
     + length (filter (\<lambda>t. t_phase t \<noteq> PhaseSucceeded \<and> t_phase t \<noteq> PhaseFailed) ts) = length ts"
  by (induction ts) auto

lemma stage_summary_small:
  assumes "small tasks"
  shows "ss_total (stage_summary stage tasks err prev) = int (length (matrix_items (sg_matrix stage)))"
    and "ss_succeeded (stage_summary stage tasks err prev)
           = int (length (filter (\<lambda>t. t_phase t = PhaseSucceeded) tasks))"
    and "ss_failed (stage_summary stage tasks err prev)
           = int (length (filter (\<lambda>t. t_phase t = PhaseFailed) tasks))"
    and "ss_active (stage_summary stage tasks err prev)
           = int (length (filter (\<lambda>t. t_phase t \<noteq> PhaseSucceeded \<and> t_phase t \<noteq> PhaseFailed) tasks))"
    and "ss_phase (stage_summary stage tasks err prev) = PhaseSucceeded \<longleftrightarrow> stage_done stage tasks err"
    and "ss_phase (stage_summary stage tasks err prev) = PhaseFailed \<longleftrightarrow> stage_failed tasks err"
proof -
  have count: "wrap32 (int (length (matrix_items (sg_matrix stage)))) = int (length (matrix_items (sg_matrix stage)))"
    using matrix_items_bound [of "sg_matrix stage"] by (intro wrap32_nat) simp
  have len: "wrap32 (int (length tasks)) = int (length tasks)"
    using assms by (intro wrap32_nat) (simp add: small_def)
  show "ss_total (stage_summary stage tasks err prev) = int (length (matrix_items (sg_matrix stage)))"
    "ss_succeeded (stage_summary stage tasks err prev)
       = int (length (filter (\<lambda>t. t_phase t = PhaseSucceeded) tasks))"
    "ss_failed (stage_summary stage tasks err prev) = int (length (filter (\<lambda>t. t_phase t = PhaseFailed) tasks))"
    "ss_active (stage_summary stage tasks err prev)
       = int (length (filter (\<lambda>t. t_phase t \<noteq> PhaseSucceeded \<and> t_phase t \<noteq> PhaseFailed) tasks))"
    by (simp_all add: stage_summary_def Let_def count count_phases_small [OF assms])
  have fail: "0 < length (filter (\<lambda>t. t_phase t = PhaseFailed) tasks) \<longleftrightarrow> (\<exists>t \<in> set tasks. t_phase t = PhaseFailed)"
    by (rule filter_some_length)
  show "ss_phase (stage_summary stage tasks err prev) = PhaseFailed \<longleftrightarrow> stage_failed tasks err"
    using fail by (auto simp: stage_summary_def Let_def count len count_phases_small [OF assms]
        stage_failed_def split: option.splits)
  have "length (filter (\<lambda>t. t_phase t = PhaseSucceeded) tasks) = length (matrix_items (sg_matrix stage))
      \<and> length tasks = length (matrix_items (sg_matrix stage))
      \<longleftrightarrow> length tasks = length (matrix_items (sg_matrix stage)) \<and> (\<forall>t \<in> set tasks. t_phase t = PhaseSucceeded)"
    using filter_all_length [of "\<lambda>t. t_phase t = PhaseSucceeded" tasks] by auto
  then show "ss_phase (stage_summary stage tasks err prev) = PhaseSucceeded \<longleftrightarrow> stage_done stage tasks err"
    using fail by (auto simp: stage_summary_def Let_def count len count_phases_small [OF assms]
        stage_done_def split: option.splits)
qed

text \<open>
  A stage's counters: succeeded, failed and active tasks add up to the tasks of the stage;
  the stage has succeeded exactly when it has all its tasks and all succeeded, and has failed
  exactly when one failed or could not be created.
\<close>

theorem stage_rollup:
  assumes "length tasks < 2 ^ 31" and "s = stage_summary stage tasks stageError previous"
  shows "ss_succeeded s + ss_failed s + ss_active s = int (length tasks)
    \<and> (ss_phase s = PhaseSucceeded \<longleftrightarrow> stage_done stage tasks stageError)
    \<and> (ss_phase s = PhaseFailed \<longleftrightarrow> stage_failed tasks stageError)"
  using stage_summary_small [of tasks stage stageError previous] phase_partition [of tasks] assms
  by (simp add: small_def flip: of_nat_add)

definition phased :: "task_phase \<Rightarrow> string \<Rightarrow> task" where
  "phased ph name = (plain_task name)\<lparr>t_status := new_status\<lparr>st_phase := ph\<rparr>\<rparr>"

definition plain_stage :: "string \<Rightarrow> strmap list option \<Rightarrow> pipeline_stage" where
  "plain_stage name matrix =
     \<lparr>sg_name = name,
      sg_template = \<lparr>pt_worker = None, pt_pool = None, pt_prompt = ''go'', pt_branch = [],
                     pt_branch_lock = LockUnset\<rparr>,
      sg_matrix = matrix\<rparr>"

lemma stage_rollup_witness:
  "ss_phase (stage_summary (plain_stage ''a'' None) [phased PhaseSucceeded ''t''] [] None) = PhaseSucceeded"
  using stage_rollup [of "[phased PhaseSucceeded ''t'']" _ "plain_stage ''a'' None" "[]" None, OF _ refl]
  by (simp add: stage_done_def plain_stage_def matrix_items_def pipelineMatrixItems_def phased_def)

section \<open>The verdict on a pipeline\<close>

text \<open>The specification: the verdict in terms of the tasks of the stages and of stage errors.\<close>

definition specified_phase :: "task_pipeline \<Rightarrow> stage_tasks \<Rightarrow> strmap \<Rightarrow> pipeline_phase" where
  "specified_phase pipeline tbs errs =
     (let tasks = (\<lambda>s. tasks_of tbs (sg_name s)); err = (\<lambda>s. map_str errs (sg_name s))
      in if p_stages pipeline \<noteq> [] \<and> (\<forall>s \<in> set (p_stages pipeline). stage_done s (tasks s) (err s))
         then PipeSucceeded
         else if (\<exists>s \<in> set (p_stages pipeline). stage_failed (tasks s) (err s))
              \<and> (\<forall>s \<in> set (p_stages pipeline). \<forall>t \<in> set (tasks s). isTerminalTaskPhase (t_phase t))
         then PipeFailed
         else if \<exists>s \<in> set (p_stages pipeline). tasks s \<noteq> []
         then PipeRunning
         else PipePending)"

lemma summarize_shape:
  "list_all2 (\<lambda>stage s. \<exists>prev. s = stage_summary stage (tasks_of tbs (sg_name stage)) (map_str errs (sg_name stage)) prev)
     stages (summarize_from prev tbs errs stages)"
  by (induction stages arbitrary: prev) (auto simp: Let_def)

lemma summary_name [simp]: "ss_name (stage_summary stage tasks err prev) = sg_name stage"
  by (simp add: stage_summary_def Let_def)

lemma failure_text_nonempty [simp]: "failure_text s tasks err \<noteq> []"
  by (simp add: failure_text_def split: option.split)

lemma first_failure_iff:
  "firstPipelineFailure statuses tbs errs \<noteq> [] \<longleftrightarrow> (\<exists>s \<in> set statuses. ss_phase s = PhaseFailed)"
  by (auto simp: firstPipelineFailure_def find_None_iff find_Some_iff split: option.split)

text \<open>The folds over the stage summaries, as sums over the stages.\<close>

lemma fold_summaries:
  assumes "list_all2 (\<lambda>stage s. f s = int (g stage)) stages ss" and "a + (\<Sum>stage \<leftarrow> stages. g stage) < 2 ^ 31"
  shows "foldl (\<lambda>n s. wrap32 (n + f s)) (int a) ss = int (a + (\<Sum>stage \<leftarrow> stages. g stage))"
  using assms
proof (induction stages ss arbitrary: a rule: list_all2_induct)
  case (Cons stage stages s ss)
  from Cons.prems have "a + g stage < 2 ^ 31" by simp
  with Cons.hyps(1) have "wrap32 (int a + f s) = int (a + g stage)"
    using wrap32_nat [of "a + g stage"] by simp
  with Cons.IH [of "a + g stage"] Cons.prems show ?case by (simp add: add.assoc)
qed simp

lemma summary_observed:
  assumes "small tasks"
  shows "wrap32 (wrap32 (ss_active (stage_summary stage tasks err prev) + ss_succeeded (stage_summary stage tasks err prev))
      + ss_failed (stage_summary stage tasks err prev)) = int (length tasks)"
proof -
  let ?a = "length (filter (\<lambda>t. t_phase t \<noteq> PhaseSucceeded \<and> t_phase t \<noteq> PhaseFailed) tasks)"
  let ?s = "length (filter (\<lambda>t. t_phase t = PhaseSucceeded) tasks)"
  let ?f = "length (filter (\<lambda>t. t_phase t = PhaseFailed) tasks)"
  have p: "?s + ?f + ?a = length tasks" by (rule phase_partition)
  with assms have "?a + ?s < 2 ^ 31" by (simp add: small_def)
  with wrap32_nat [of "?a + ?s"] have 1: "wrap32 (int ?a + int ?s) = int ?a + int ?s" by simp
  have "int ?a + int ?s + int ?f = int (length tasks)" using p by (simp flip: of_nat_add)
  with 1 wrap32_nat [of "length tasks"] assms show ?thesis
    by (simp add: stage_summary_small [OF assms] small_def)
qed

definition active_count :: "task list \<Rightarrow> nat" where
  "active_count tasks = length (filter (\<lambda>t. t_phase t \<noteq> PhaseSucceeded \<and> t_phase t \<noteq> PhaseFailed) tasks)"

lemma active_count_zero: "active_count tasks = 0 \<longleftrightarrow> (\<forall>t \<in> set tasks. isTerminalTaskPhase (t_phase t))"
  by (auto simp: active_count_def filter_empty_conv isTerminalTaskPhase_def)

lemma summary_parts:
  assumes "small tasks"
  shows "ss_active (stage_summary stage tasks err prev) = int (active_count tasks)
    \<and> wrap32 (wrap32 (ss_active (stage_summary stage tasks err prev) + ss_succeeded (stage_summary stage tasks err prev))
        + ss_failed (stage_summary stage tasks err prev)) = int (length tasks)
    \<and> (ss_phase (stage_summary stage tasks err prev) = PhaseSucceeded \<longleftrightarrow> stage_done stage tasks err)
    \<and> (ss_phase (stage_summary stage tasks err prev) = PhaseFailed \<longleftrightarrow> stage_failed tasks err)"
  using summary_observed [OF assms] stage_summary_small [OF assms] by (simp add: active_count_def)

lemma rel_ex: "list_all2 (\<lambda>x y. Q y = R x) xs ys \<Longrightarrow> (\<exists>y \<in> set ys. Q y) \<longleftrightarrow> (\<exists>x \<in> set xs. R x)"
  and rel_all: "list_all2 (\<lambda>x y. Q y = R x) xs ys \<Longrightarrow> list_all Q ys \<longleftrightarrow> (\<forall>x \<in> set xs. R x)"
  by (induction rule: list_all2_induct) auto

lemma sum_length_pos: "0 < (\<Sum>x \<leftarrow> xs. length (f x)) \<longleftrightarrow> (\<exists>x \<in> set xs. f x \<noteq> [])"
  by (induction xs) auto

lemma summaries_of:
  fixes pipeline :: task_pipeline
  defines "tasks \<equiv> \<lambda>tbs s. tasks_of tbs (sg_name s)"
  assumes bound: "(\<Sum>s \<leftarrow> p_stages pipeline. length (tasks tbs s)) < 2 ^ 31"
  shows "list_all2 (\<lambda>stage s. ss_active s = int (active_count (tasks tbs stage))
          \<and> wrap32 (wrap32 (ss_active s + ss_succeeded s) + ss_failed s) = int (length (tasks tbs stage))
          \<and> (ss_phase s = PhaseSucceeded \<longleftrightarrow> stage_done stage (tasks tbs stage) (map_str errs (sg_name stage)))
          \<and> (ss_phase s = PhaseFailed \<longleftrightarrow> stage_failed (tasks tbs stage) (map_str errs (sg_name stage))))
       (p_stages pipeline) (summarizePipelineStages pipeline tbs errs)"
proof -
  have "small (tasks tbs stage)" if "stage \<in> set (p_stages pipeline)" for stage
    using bound member_le_sum_list [of "length (tasks tbs stage)" "map (\<lambda>s. length (tasks tbs s)) (p_stages pipeline)"] that
    by (simp add: small_def)
  then show ?thesis
    unfolding summarizePipelineStages_def tasks_def
    using summary_parts by (intro list.rel_mono_strong [OF summarize_shape]) blast
qed

text \<open>
  C25. The verdict on a pipeline is the specified one: succeeded exactly when every stage has all
  its tasks and all succeeded; failed when a stage has failed and no task of any stage is still
  active; running as soon as a task exists; pending otherwise.
\<close>

theorem verdict_specified:
  fixes pipeline :: task_pipeline
  assumes "(\<Sum>s \<leftarrow> p_stages pipeline. length (tasks_of tbs (sg_name s))) < 2 ^ 31"
    and "statuses = summarizePipelineStages pipeline tbs errs"
  shows "fst (pipeline_verdict statuses (firstPipelineFailure statuses tbs errs)) = specified_phase pipeline tbs errs"
proof -
  let ?tasks = "\<lambda>s. tasks_of tbs (sg_name s)"
  let ?ss = "summarizePipelineStages pipeline tbs errs"
  note rel = summaries_of [OF assms(1), of errs]
  have active: "foldl (\<lambda>n s. wrap32 (n + ss_active s)) 0 ?ss = int (\<Sum>s \<leftarrow> p_stages pipeline. active_count (?tasks s))"
  proof -
    have "(\<Sum>s \<leftarrow> p_stages pipeline. active_count (?tasks s)) \<le> (\<Sum>s \<leftarrow> p_stages pipeline. length (?tasks s))"
      by (intro sum_list_mono) (simp add: active_count_def)
    with assms(1) have "0 + (\<Sum>s \<leftarrow> p_stages pipeline. active_count (?tasks s)) < 2 ^ 31" by linarith
    from fold_summaries [OF list.rel_mono_strong [OF rel] this] show ?thesis by simp
  qed
  have observed: "foldl (\<lambda>n s. wrap32 (n + wrap32 (wrap32 (ss_active s + ss_succeeded s) + ss_failed s))) 0 ?ss
      = int (\<Sum>s \<leftarrow> p_stages pipeline. length (?tasks s))"
  proof -
    have "0 + (\<Sum>s \<leftarrow> p_stages pipeline. length (?tasks s)) < 2 ^ 31" using assms(1) by simp
    moreover have "list_all2 (\<lambda>stage s. wrap32 (wrap32 (ss_active s + ss_succeeded s) + ss_failed s)
        = int (length (?tasks stage))) (p_stages pipeline) ?ss"
      using rel by (rule list.rel_mono_strong) blast
    ultimately show ?thesis using fold_summaries [where a = 0 and g = "\<lambda>s. length (?tasks s)"] by simp
  qed
  have empty: "?ss = [] \<longleftrightarrow> p_stages pipeline = []" using list_all2_lengthD [OF rel] by auto
  have done_all: "list_all (\<lambda>s. ss_phase s = PhaseSucceeded) ?ss
      \<longleftrightarrow> (\<forall>s \<in> set (p_stages pipeline). stage_done s (?tasks s) (map_str errs (sg_name s)))"
    using rel by (intro rel_all, elim list.rel_mono_strong) blast
  have failed: "(\<exists>s \<in> set ?ss. ss_phase s = PhaseFailed)
      \<longleftrightarrow> (\<exists>s \<in> set (p_stages pipeline). stage_failed (?tasks s) (map_str errs (sg_name s)))"
    using rel by (intro rel_ex, elim list.rel_mono_strong) blast
  have none: "(\<Sum>s \<leftarrow> p_stages pipeline. active_count (?tasks s)) = 0
      \<longleftrightarrow> (\<forall>s \<in> set (p_stages pipeline). \<forall>t \<in> set (?tasks s). isTerminalTaskPhase (t_phase t))"
    by (simp add: sum_list_eq_0_iff active_count_zero)
  have some: "0 < (\<Sum>s \<leftarrow> p_stages pipeline. length (?tasks s)) \<longleftrightarrow> (\<exists>s \<in> set (p_stages pipeline). ?tasks s \<noteq> [])"
    by (rule sum_length_pos)
  show ?thesis
    unfolding assms(2) pipeline_verdict_def Let_def specified_phase_def active observed first_failure_iff
      empty done_all failed
    by (simp only: of_nat_eq_0_iff of_nat_0_less_iff none some if_split_eq1 fst_conv prod.case_distrib [of fst])
      (auto split: if_splits)
qed

definition pipeline_of :: "pipeline_stage list \<Rightarrow> task_pipeline" where
  "pipeline_of stages =
     \<lparr>p_meta = blank_meta\<lparr>m_name := ''p'', m_namespace := ''default'', m_uid := ''p-uid''\<rparr>,
      p_stages = stages,
      p_status = \<lparr>ps_generation = 0, ps_phase = PipeUnset, ps_stages = [], ps_conditions = []\<rparr>\<rparr>"

definition two_items :: "strmap list" where
  "two_items = [[(''k'', ''1'')], [(''k'', ''2'')]]"

lemma verdict_specified_witness:
  "let p = pipeline_of [plain_stage ''a'' (Some two_items)];
       tbs = [(''a'', [phased PhaseFailed ''t'', phased PhaseRunning ''u''])];
       statuses = summarizePipelineStages p tbs []
   in fst (pipeline_verdict statuses (firstPipelineFailure statuses tbs [])) = PipeRunning"
proof -
  let ?p = "pipeline_of [plain_stage ''a'' (Some two_items)]"
  let ?tbs = "[(''a'', [phased PhaseFailed ''t'', phased PhaseRunning ''u''])]"
  have "(\<Sum>s \<leftarrow> p_stages ?p. length (tasks_of ?tbs (sg_name s))) < 2 ^ 31"
    by (simp add: pipeline_of_def plain_stage_def tasks_of_def)
  from verdict_specified [OF this refl, of "[]"]
  have "fst (pipeline_verdict (summarizePipelineStages ?p ?tbs [])
      (firstPipelineFailure (summarizePipelineStages ?p ?tbs []) ?tbs [])) = specified_phase ?p ?tbs []" .
  also have "\<dots> = PipeRunning" by code_simp
  finally show ?thesis by (simp add: Let_def)
qed

section \<open>The order of creation\<close>

text \<open>A run all of whose calls satisfy a predicate.\<close>

definition makes :: "(call \<Rightarrow> bool) \<Rightarrow> world \<Rightarrow> world \<Rightarrow> bool" where
  "makes P w w' \<longleftrightarrow> grows w w' \<and> list_all P (new_calls w w')"

lemma makes_refl [simp]: "makes P w w"
  by (simp add: makes_def)

lemma makes_calls: "list_all P cs \<Longrightarrow> makes P w (w\<lparr>w_calls := w_calls w @ cs\<rparr>)"
  by (simp add: makes_def)

lemma makes_trans:
  assumes "makes P w w1" and "makes P w1 w2"
  shows "makes P w w2"
proof -
  from assms have g: "grows w w1" "grows w1 w2" by (simp_all add: makes_def)
  from new_calls_append [OF g] grows_trans [OF g] assms show ?thesis
    unfolding makes_def by (metis list_all_append)
qed

lemma makes_mono: "makes P w w' \<Longrightarrow> (\<And>c. P c \<Longrightarrow> Q c) \<Longrightarrow> makes Q w w'"
  by (auto simp: makes_def list_all_iff)

text \<open>The \<open>k\<close>-th task of a stage, and the calls that may be made while creating a stage.\<close>

definition is_child :: "env \<Rightarrow> task_pipeline \<Rightarrow> pipeline_stage \<Rightarrow> nat \<Rightarrow> task \<Rightarrow> bool" where
  "is_child E pipeline stage k t \<longleftrightarrow> (\<exists>prompt branch. l_set_controller E (p_meta pipeline)
     (t_meta (pipeline_task E pipeline stage k (length (matrix_items (sg_matrix stage))) prompt branch)) = Inr (t_meta t))"

definition missing_child :: "env \<Rightarrow> task_pipeline \<Rightarrow> pipeline_stage \<Rightarrow> int list \<Rightarrow> nat set \<Rightarrow> call \<Rightarrow> bool" where
  "missing_child E pipeline stage existing ks c \<longleftrightarrow>
     (\<forall>t. c = CreateTask t \<longrightarrow> (\<exists>k \<in> ks. int k \<notin> set existing \<and> is_child E pipeline stage k t))
     \<and> (\<forall>q. c \<noteq> PatchPipelineStatus q)"

lemma missing_child_read [simp]: "missing_child E pipeline stage existing ks (Read kind ns name)"
  by (simp add: missing_child_def)

lemma missing_child_mono:
  "missing_child E pipeline stage existing ks c \<Longrightarrow> ks \<subseteq> ks' \<Longrightarrow> missing_child E pipeline stage existing ks' c"
  unfolding missing_child_def by blast

lemma buildPipelineTask_meta:
  assumes "buildPipelineTask E pipeline stage index n matrix tbs = Inr t"
  obtains prompt branch where "t = pipeline_task E pipeline stage index n prompt branch"
  using assms by (auto simp: buildPipelineTask_def Let_def split: sum.splits)

text \<open>What a stage's loop leaves alone: the tasks of the other stages.\<close>

definition other_stages_kept :: "string \<Rightarrow> create_state \<Rightarrow> create_state \<Rightarrow> bool" where
  "other_stages_kept stage cs cs' \<longleftrightarrow> (\<forall>n. n \<noteq> stage \<longrightarrow> tasks_of (cs_tasks cs') n = tasks_of (cs_tasks cs) n)"

lemma other_stages_kept_simps [simp]:
  "other_stages_kept stage cs cs"
  "other_stages_kept stage cs (wait_for d cs)"
  "other_stages_kept stage cs (fail_stage s m cs)"
  "other_stages_kept stage cs (know_task stage t cs)"
  by (simp_all add: other_stages_kept_def wait_for_def fail_stage_def know_task_def add_stage_task_def
      tasks_of_def update_conv')

lemma other_stages_kept_trans:
  "other_stages_kept stage cs cs1 \<Longrightarrow> other_stages_kept stage cs1 cs2 \<Longrightarrow> other_stages_kept stage cs cs2"
  by (simp add: other_stages_kept_def)

lemma adopt_task_run:
  assumes "run_state (adopt_task E pipeline stage index t cs) w = (r, w')"
  shows "w' = w\<lparr>w_calls := w_calls w @ [Read ''Task'' (t_namespace t) (t_name t)]\<rparr>
    \<and> (\<forall>b cs'. r = Inr (b, cs') \<longrightarrow> other_stages_kept (sg_name stage) cs cs')"
  using assms by (auto simp: adopt_task_def io_run split: sum.splits if_splits)

lemma create_stage_tasks_run:
  assumes "run_state (create_stage_tasks E pipeline i stage (length (matrix_items (sg_matrix stage))) existing items cs) w
      = (r, w')"
  shows "makes (missing_child E pipeline stage existing (fst ` set items)) w w'
    \<and> (\<forall>cs'. r = Inr cs' \<longrightarrow> other_stages_kept (sg_name stage) cs cs')"
  using assms
proof (induction items arbitrary: cs w)
  case Nil
  then show ?case by auto
next
  case (Cons item items)
  obtain index matrix where item: "item = (index, matrix)" by (cases item)
  let ?n = "length (matrix_items (sg_matrix stage))"
  have rest: "makes (missing_child E pipeline stage existing (fst ` set (item # items))) v w'
      \<and> (\<forall>cs'. r = Inr cs' \<longrightarrow> other_stages_kept (sg_name stage) ds cs')"
    if "run_state (create_stage_tasks E pipeline i stage ?n existing items ds) v = (r, w')" for ds v
    using Cons.IH [OF that] by (auto elim!: makes_mono missing_child_mono)
  show ?case
  proof (cases "int index \<in> set existing")
    case True
    with Cons.prems item show ?thesis by (intro rest) simp
  next
    case False
    show ?thesis
    proof (cases "buildPipelineTask E pipeline stage index ?n matrix (cs_tasks cs)")
      case (Inl e)
      with Cons.prems item False show ?thesis by (auto simp: io_run Let_def)
    next
      case (Inr t0)
      then obtain prompt branch where t0: "t0 = pipeline_task E pipeline stage index ?n prompt branch"
        by (rule buildPipelineTask_meta)
      show ?thesis
      proof (cases "l_set_controller E (p_meta pipeline) (t_meta t0)")
        case (Inl e)
        with Cons.prems item False Inr show ?thesis by auto
      next
        fix meta assume meta: "l_set_controller E (p_meta pipeline) (t_meta t0) = Inr meta"
        let ?t = "t0\<lparr>t_meta := meta\<rparr>"
        let ?w = "w\<lparr>w_calls := w_calls w @ [CreateTask ?t]\<rparr>"
        have child: "is_child E pipeline stage index ?t"
          using meta t0 by (auto simp: is_child_def)
        then have m: "makes (missing_child E pipeline stage existing (fst ` set (item # items))) w ?w"
          using False item by (intro makes_calls) (auto simp: missing_child_def)
        show ?thesis
        proof (cases "q_write E (w_calls w) (CreateTask ?t)")
          case None
          with Cons.prems item False Inr meta
          have "run_state (create_stage_tasks E pipeline i stage ?n existing items (know_task (sg_name stage) ?t cs)) ?w = (r, w')"
            by (simp add: io_run)
          from rest [OF this] m show ?thesis
            by (blast intro: makes_trans other_stages_kept_trans other_stages_kept_simps)
        next
          case (Some e)
          show ?thesis
          proof (cases "is_already_exists e")
            case False
            with Some Cons.prems item \<open>int index \<notin> set existing\<close> Inr meta m show ?thesis by (auto simp: io_run)
          next
            case True
            obtain a w1 where a: "run_state (adopt_task E pipeline stage index ?t cs) ?w = (a, w1)" by fastforce
            note ar = adopt_task_run [OF a]
            have m1: "makes (missing_child E pipeline stage existing (fst ` set (item # items))) w w1"
              unfolding conjunct1 [OF ar] by (rule makes_trans [OF m makes_calls]) simp
            have st: "run_state (case a of Inl e \<Rightarrow> ret (Inl e) | Inr (adopted, cs') \<Rightarrow>
                if adopted then create_stage_tasks E pipeline i stage ?n existing items cs' else ret (Inr cs')) w1 = (r, w')"
              using Some Cons.prems item \<open>int index \<notin> set existing\<close> Inr meta True a by (simp add: io_run)
            show ?thesis
            proof (cases a)
              case (Inl e)
              with st m1 show ?thesis by auto
            next
              case (Inr x)
              obtain adopted cs1 where x: "x = (adopted, cs1)" by (cases x)
              with ar Inr have k: "other_stages_kept (sg_name stage) cs cs1" by simp
              show ?thesis
              proof (cases adopted)
                case True
                with st Inr x have "run_state (create_stage_tasks E pipeline i stage ?n existing items cs1) w1 = (r, w')"
                  by simp
                from rest [OF this] m1 k show ?thesis by (blast intro: makes_trans other_stages_kept_trans)
              next
                case False
                with st Inr x m1 k show ?thesis by auto
              qed
            qed
          qed
        qed
      qed
    qed
  qed
qed

text \<open>
  The stages before one that is created: each has succeeded, by the summary made from the
  tasks that were listed.
\<close>

definition create_call :: "env \<Rightarrow> task_pipeline \<Rightarrow> stage_tasks \<Rightarrow> call \<Rightarrow> bool" where
  "create_call E pipeline tbs c \<longleftrightarrow>
     (\<forall>t. c = CreateTask t \<longrightarrow> (\<exists>i < length (p_stages pipeline). \<exists>k.
        let stage = p_stages pipeline ! i; statuses = summarizePipelineStages pipeline tbs []
        in k < length (matrix_items (sg_matrix stage))
           \<and> int k \<notin> pipelineTaskIndex ` set (tasks_of tbs (sg_name stage))
           \<and> is_child E pipeline stage k t
           \<and> (\<forall>j < i. ss_phase (statuses ! j) = PhaseSucceeded)))
     \<and> (\<forall>q. c \<noteq> PatchPipelineStatus q)"

lemma summarize_length: "length (summarize_from prev tbs errs stages) = length stages"
  by (induction stages arbitrary: prev) (simp_all add: Let_def)

lemma missing_child_allowed:
  fixes pipeline :: task_pipeline
  defines "statuses \<equiv> \<lambda>tbs. summarizePipelineStages pipeline tbs []"
  assumes "i < length (p_stages pipeline)" and "\<forall>j < i. ss_phase (statuses tbs ! j) = PhaseSucceeded"
    and "stage = p_stages pipeline ! i"
    and c: "missing_child E pipeline stage (pipelineTasksByIndex (tasks_of tbs (sg_name stage)))
          (fst ` set (enumerate 0 (matrix_items (sg_matrix stage)))) c"
  shows "create_call E pipeline tbs c"
proof -
  have "\<exists>i < length (p_stages pipeline). \<exists>k.
      let stage = p_stages pipeline ! i; statuses = summarizePipelineStages pipeline tbs []
      in k < length (matrix_items (sg_matrix stage))
         \<and> int k \<notin> pipelineTaskIndex ` set (tasks_of tbs (sg_name stage))
         \<and> is_child E pipeline stage k t
         \<and> (\<forall>j < i. ss_phase (statuses ! j) = PhaseSucceeded)"
    if "c = CreateTask t" for t
  proof -
    from c that obtain k where "k < length (matrix_items (sg_matrix stage))"
      "int k \<notin> pipelineTaskIndex ` set (tasks_of tbs (sg_name stage))" "is_child E pipeline stage k t"
      by (auto simp: missing_child_def pipelineTasksByIndex_def in_set_enumerate_eq)
    with assms(2-4) show ?thesis
      unfolding Let_def statuses_def by (intro exI [where x = i] conjI exI [where x = k]) auto
  qed
  with c show ?thesis unfolding create_call_def by (simp add: missing_child_def)
qed

text \<open>The later stages know the tasks that were listed for them.\<close>

lemma later_stages_known:
  assumes "distinct (map sg_name stages)" and "i < length stages"
    and "other_stages_kept (sg_name (stages ! i)) cs cs'"
    and "\<forall>s \<in> set (drop i stages). tasks_of (cs_tasks cs) (sg_name s) = tasks_of tbs (sg_name s)"
  shows "\<forall>s \<in> set (drop (Suc i) stages). tasks_of (cs_tasks cs') (sg_name s) = tasks_of tbs (sg_name s)"
proof
  fix s assume s: "s \<in> set (drop (Suc i) stages)"
  have d: "drop i stages = stages ! i # drop (Suc i) stages"
    using assms(2) by (simp add: Cons_nth_drop_Suc)
  have "distinct (map sg_name (drop i stages))" using assms(1) by (simp add: distinct_drop flip: drop_map)
  with s have "sg_name s \<noteq> sg_name (stages ! i)" unfolding d by (auto simp: image_iff)
  with s assms(3,4) show "tasks_of (cs_tasks cs') (sg_name s) = tasks_of tbs (sg_name s)"
    unfolding d by (simp add: other_stages_kept_def)
qed

lemma create_stages_run:
  fixes pipeline :: task_pipeline and tbs :: stage_tasks
  defines "statuses \<equiv> summarizePipelineStages pipeline tbs []"
  assumes "run_state (create_stages E pipeline i previous (zip (drop i (p_stages pipeline)) (drop i statuses)) cs) w
      = (r, w')"
    and "distinct (map sg_name (p_stages pipeline))"
    and "previous = (if i = 0 then None else Some (statuses ! (i - 1)))"
    and "\<forall>j < i - 1. ss_phase (statuses ! j) = PhaseSucceeded" and "i \<le> length (p_stages pipeline)"
    and "\<forall>s \<in> set (drop i (p_stages pipeline)). tasks_of (cs_tasks cs) (sg_name s) = tasks_of tbs (sg_name s)"
  shows "makes (create_call E pipeline tbs) w w'"
  using assms(2,4-7)
proof (induction "length (p_stages pipeline) - i" arbitrary: i previous cs w)
  case 0
  then show ?case by simp
next
  case (Suc d)
  let ?stage = "p_stages pipeline ! i"
  let ?items = "matrix_items (sg_matrix ?stage)"
  have i: "i < length (p_stages pipeline)" using Suc.hyps(2) by simp
  then have zip: "zip (drop i (p_stages pipeline)) (drop i statuses)
      = (?stage, statuses ! i) # zip (drop (Suc i) (p_stages pipeline)) (drop (Suc i) statuses)"
    by (simp add: Cons_nth_drop_Suc statuses_def summarizePipelineStages_def summarize_length flip: zip_Cons_Cons)
  show ?case
  proof (cases "i = 0 \<or> ss_phase (statuses ! (i - 1)) = PhaseSucceeded")
    case False
    with Suc.prems(1,2) show ?thesis by (simp add: zip)
  next
    case True
    have before: "\<forall>j < i. ss_phase (statuses ! j) = PhaseSucceeded"
    proof (intro allI impI)
      fix j assume "j < i"
      then have "j < i - 1 \<or> j = i - 1" by linarith
      with Suc.prems(3) True \<open>j < i\<close> show "ss_phase (statuses ! j) = PhaseSucceeded" by auto
    qed
    have ex: "tasks_of (cs_tasks cs) (sg_name ?stage) = tasks_of tbs (sg_name ?stage)"
      using Suc.prems(5) i by (metis Cons_nth_drop_Suc list.set_intros(1))
    obtain r1 w1 where c: "run_state (create_stage_tasks E pipeline i ?stage (length ?items)
        (pipelineTasksByIndex (tasks_of tbs (sg_name ?stage))) (enumerate 0 ?items) cs) w = (r1, w1)"
      by fastforce
    note cr = create_stage_tasks_run [OF c]
    have m1: "makes (create_call E pipeline tbs) w w1"
      by (rule makes_mono [OF conjunct1 [OF cr]], rule missing_child_allowed [OF i before [unfolded statuses_def] refl])
    have pass: "\<not> (case previous of None \<Rightarrow> False | Some s \<Rightarrow> ss_phase s \<noteq> PhaseSucceeded)"
      using Suc.prems(2) True by auto
    have go: "run_state (case r1 of Inl e \<Rightarrow> ret (Inl e)
        | Inr cs' \<Rightarrow> if cs_errors cs' \<noteq> [] then ret (Inr cs')
            else create_stages E pipeline (Suc i) (Some (statuses ! i))
                   (zip (drop (Suc i) (p_stages pipeline)) (drop (Suc i) statuses)) cs') w1 = (r, w')"
      using Suc.prems(1) pass c ex by (simp add: zip Let_def)
    show ?thesis
    proof (cases "\<exists>cs'. r1 = Inr cs' \<and> cs_errors cs' = []")
      case False
      with go m1 show ?thesis by (cases r1) auto
    next
      case True
      then obtain cs' where cs': "r1 = Inr cs'" "cs_errors cs' = []" by blast
      with cr have "other_stages_kept (sg_name ?stage) cs cs'" by simp
      from later_stages_known [OF assms(3) i this Suc.prems(5)] go cs' i before Suc.hyps(2)
      have "makes (create_call E pipeline tbs) w1 w'"
        by (intro Suc.hyps(1) [of "Suc i" "Some (statuses ! i)" cs']) auto
      with m1 show ?thesis by (rule makes_trans)
    qed
  qed
qed

text \<open>Validation rejects a stage name that occurs twice.\<close>

lemma validate_distinct:
  assumes "validate_stages E seen stages = None"
  shows "distinct (map sg_name stages) \<and> set (map sg_name stages) \<inter> set seen = {}"
  using assms
proof (induction stages arbitrary: seen)
  case (Cons stage stages)
  then have "sg_name stage \<notin> set seen" and "validate_stages E (sg_name stage # seen) stages = None"
    by (auto simp: validate_stage_def split: option.splits if_splits)
  with Cons.IH [of "sg_name stage # seen"] show ?case by auto
qed simp

lemma write_status_run:
  assumes "run_state (write_pipeline_status E pipeline what status) w = (e, w')"
  shows "makes (\<lambda>c. c = PatchPipelineStatus (pipeline\<lparr>p_status := status\<rparr>)) w w'"
  using assms by (auto simp: write_pipeline_status_def io_run makes_def split: if_splits)

lemma updateTaskPipelineStatus_run:
  assumes "run_state (updateTaskPipelineStatus E pipeline statuses failure) w = (e, w')"
  shows "makes (\<lambda>c. \<forall>t. c \<noteq> CreateTask t) w w'"
  using assms write_status_run by (fastforce simp: updateTaskPipelineStatus_def Let_def split: prod.splits
      elim: makes_mono)

lemma advance_run:
  assumes "run_state (advance_pipeline E pipeline tbs) w = (out, w')"
    and "distinct (map sg_name (p_stages pipeline))"
  shows "makes (\<lambda>c. \<forall>t. c = CreateTask t \<longrightarrow>
      (\<forall>s \<in> set (summarizePipelineStages pipeline tbs []). ss_phase s \<noteq> PhaseFailed)
      \<and> create_call E pipeline tbs c) w w'"
proof -
  let ?before = "summarizePipelineStages pipeline tbs []"
  let ?cs = "\<lparr>cs_tasks = tbs, cs_errors = [], cs_requeue = 0\<rparr>"
  let ?good = "\<lambda>c. \<forall>t. c = CreateTask t \<longrightarrow> (\<forall>s \<in> set ?before. ss_phase s \<noteq> PhaseFailed) \<and> create_call E pipeline tbs c"
  obtain r w1 where r: "run_state (if firstPipelineFailure ?before tbs [] \<noteq> [] then ret (Inr ?cs)
      else create_stages E pipeline 0 None (zip (p_stages pipeline) ?before) ?cs) w = (r, w1)" by fastforce
  have m1: "makes ?good w w1"
  proof (cases "firstPipelineFailure ?before tbs [] \<noteq> []")
    case True
    with r show ?thesis by simp
  next
    case False
    then have ok: "\<forall>s \<in> set ?before. ss_phase s \<noteq> PhaseFailed" by (simp add: first_failure_iff)
    from False r have "run_state (create_stages E pipeline 0 None (zip (drop 0 (p_stages pipeline)) (drop 0 ?before)) ?cs) w = (r, w1)"
      by simp
    from create_stages_run [OF this assms(2)] have "makes (create_call E pipeline tbs) w w1" by simp
    then show ?thesis by (rule makes_mono) (use ok in blast)
  qed
  show ?thesis
  proof (cases r)
    case (Inl e)
    with assms(1) r m1 show ?thesis by (simp add: advance_pipeline_def Let_def)
  next
    case (Inr cs)
    with assms(1) r obtain e where
      "run_state (updateTaskPipelineStatus E pipeline (summarizePipelineStages pipeline (cs_tasks cs) (cs_errors cs))
         (firstPipelineFailure (summarizePipelineStages pipeline (cs_tasks cs) (cs_errors cs)) (cs_tasks cs)
           (cs_errors cs))) w1 = (e, w')"
      by (auto simp: advance_pipeline_def Let_def split: prod.splits)
    then have "makes ?good w1 w'"
      by (rule makes_mono [OF updateTaskPipelineStatus_run]) simp
    with m1 show ?thesis by (rule makes_trans)
  qed
qed

text \<open>A reconcile that creates a task gets past validation, listing and the terminal check.\<close>

abbreviation no_create :: "call \<Rightarrow> bool" where
  "no_create c \<equiv> \<forall>u. c \<noteq> CreateTask u"

lemma no_create_absent: "makes no_create w w' \<Longrightarrow> CreateTask t \<notin> set (new_calls w w')"
  by (auto simp: makes_def list_all_iff)

lemma makes_read: "makes no_create v (v\<lparr>w_calls := w_calls v @ [Read k n m]\<rparr>)"
  by (rule makes_calls) simp

lemma pipeline_reconcile_valid:
  assumes "run_state (pipeline_reconcile E ns name) w = (out, w')" and "CreateTask t \<in> set (new_calls w w')"
  obtains pipeline where "q_pipeline E (w_calls w) ns name = Inr pipeline"
    and "validateTaskPipeline E pipeline = None"
proof (cases "q_pipeline E (w_calls w) ns name")
  case (Inl e)
  with assms(1) have "w' = w\<lparr>w_calls := w_calls w @ [Read ''TaskPipeline'' ns name]\<rparr>"
    by (auto simp: pipeline_reconcile_def io_run)
  with assms(2) no_create_absent [OF makes_read] show thesis by blast
next
  case (Inr pipeline)
  have "validateTaskPipeline E pipeline = None"
  proof (rule ccontr)
    assume "validateTaskPipeline E pipeline \<noteq> None"
    with assms(1) Inr obtain invalid e where "run_state (failInvalidPipeline E pipeline invalid)
        (w\<lparr>w_calls := w_calls w @ [Read ''TaskPipeline'' ns name]\<rparr>) = (e, w')"
      by (auto simp: pipeline_reconcile_def io_run split: option.splits prod.splits)
    then have "makes no_create (w\<lparr>w_calls := w_calls w @ [Read ''TaskPipeline'' ns name]\<rparr>) w'"
      unfolding failInvalidPipeline_def by (intro makes_mono [OF write_status_run]) auto
    with makes_read have "makes no_create w w'" by (rule makes_trans)
    with assms(2) no_create_absent show False by blast
  qed
  with Inr show thesis by (rule that)
qed

lemma pipeline_reconcile_advances:
  assumes "run_state (pipeline_reconcile E ns name) w = (out, w')" and "CreateTask t \<in> set (new_calls w w')"
    and "q_pipeline E (w_calls w) ns name = Inr pipeline" and "validateTaskPipeline E pipeline = None"
  obtains h tasks g tbs w2 where "\<not> isTerminalTaskPipelinePhase (ps_phase (p_status pipeline))"
    and "q_pipeline_tasks E h (m_namespace (p_meta pipeline)) (pipelineLabelValue E (p_name pipeline)) = Inr tasks"
    and "group_tasks E pipeline [] tasks = Inr g" and "tbs = map (\<lambda>(s, ts). (s, sort_key pipelineTaskIndex ts)) g"
    and "makes no_create w w2" and "run_state (advance_pipeline E pipeline tbs) w2 = (out, w')"
proof -
  let ?w1 = "w\<lparr>w_calls := w_calls w @ [Read ''TaskPipeline'' ns name]\<rparr>"
  let ?w2 = "?w1\<lparr>w_calls := w_calls ?w1 @ [Read ''TaskList'' (m_namespace (p_meta pipeline))
      (pipelineLabelValue E (p_name pipeline))]\<rparr>"
  have m2: "makes no_create w ?w2" by (rule makes_trans [OF makes_read makes_read])
  obtain l where l: "run_state (listPipelineTasks E pipeline) ?w1 = (l, ?w2)"
    by (auto simp: listPipelineTasks_def io_run)
  have "\<exists>tbs. l = Inr tbs \<and> \<not> isTerminalTaskPipelinePhase (ps_phase (p_status pipeline))"
  proof (rule ccontr)
    assume "\<not> ?thesis"
    with assms(1,3,4) l have "w' = ?w2" by (cases l) (auto simp: pipeline_reconcile_def io_run)
    with assms(2) no_create_absent [OF m2] show False by blast
  qed
  then obtain tbs where tbs: "l = Inr tbs" "\<not> isTerminalTaskPipelinePhase (ps_phase (p_status pipeline))" by blast
  from l tbs(1) obtain tasks g where
    "q_pipeline_tasks E (w_calls ?w1) (m_namespace (p_meta pipeline)) (pipelineLabelValue E (p_name pipeline)) = Inr tasks"
    "group_tasks E pipeline [] tasks = Inr g" "tbs = map (\<lambda>(s, ts). (s, sort_key pipelineTaskIndex ts)) g"
    by (auto simp: listPipelineTasks_def io_run split: sum.splits)
  moreover have "run_state (advance_pipeline E pipeline tbs) ?w2 = (out, w')"
    using assms(1,3,4) l tbs by (auto simp: pipeline_reconcile_def io_run)
  ultimately show thesis using that [OF tbs(2) _ _ _ m2] by blast
qed

text \<open>
  C24. A pipeline creates a task only when it is valid and not finished, no listed task of it has
  failed, the task is one of a stage's matrix that was not listed yet, with the labels of that
  stage and index, and every earlier stage has succeeded.
\<close>

theorem stages_in_order:
  assumes "run_state (pipeline_reconcile E ns name) w = (out, w')" and "CreateTask t \<in> set (new_calls w w')"
  shows "\<exists>pipeline h tasks g tbs. q_pipeline E (w_calls w) ns name = Inr pipeline
    \<and> validateTaskPipeline E pipeline = None \<and> \<not> isTerminalTaskPipelinePhase (ps_phase (p_status pipeline))
    \<and> q_pipeline_tasks E h (m_namespace (p_meta pipeline)) (pipelineLabelValue E (p_name pipeline)) = Inr tasks
    \<and> group_tasks E pipeline [] tasks = Inr g
    \<and> tbs = map (\<lambda>(s, ts). (s, sort_key pipelineTaskIndex ts)) g
    \<and> (\<forall>s \<in> set (summarizePipelineStages pipeline tbs []). ss_phase s \<noteq> PhaseFailed)
    \<and> create_call E pipeline tbs (CreateTask t)"
proof -
  obtain pipeline where p: "q_pipeline E (w_calls w) ns name = Inr pipeline"
    and valid: "validateTaskPipeline E pipeline = None"
    by (rule pipeline_reconcile_valid [OF assms])
  obtain h tasks g tbs w2 where l: "\<not> isTerminalTaskPipelinePhase (ps_phase (p_status pipeline))"
    "q_pipeline_tasks E h (m_namespace (p_meta pipeline)) (pipelineLabelValue E (p_name pipeline)) = Inr tasks"
    "group_tasks E pipeline [] tasks = Inr g" "tbs = map (\<lambda>(s, ts). (s, sort_key pipelineTaskIndex ts)) g"
    and m2: "makes no_create w w2" and run: "run_state (advance_pipeline E pipeline tbs) w2 = (out, w')"
    by (rule pipeline_reconcile_advances [OF assms p valid])
  have "distinct (map sg_name (p_stages pipeline))"
    using valid validate_distinct [of E "[]" "p_stages pipeline"]
    by (auto simp: validateTaskPipeline_def split: if_splits)
  note m = advance_run [OF run this]
  have "makes (\<lambda>c. \<forall>t. c = CreateTask t \<longrightarrow>
      (\<forall>s \<in> set (summarizePipelineStages pipeline tbs []). ss_phase s \<noteq> PhaseFailed)
      \<and> create_call E pipeline tbs c) w w'"
    by (rule makes_trans [OF makes_mono [OF m2] m]) simp
  with assms(2) have "(\<forall>s \<in> set (summarizePipelineStages pipeline tbs []). ss_phase s \<noteq> PhaseFailed)
      \<and> create_call E pipeline tbs (CreateTask t)"
    by (auto simp: makes_def list_all_iff)
  with p valid l show ?thesis by blast
qed

text \<open>A cluster with the pipeline, the tasks that were listed for it, and names that are taken.\<close>

definition pipeline_cluster :: "task_pipeline \<Rightarrow> task list \<Rightarrow> env" where
  "pipeline_cluster p tasks = idle_cluster
     \<lparr>q_pipeline := (\<lambda>h ns name. Inr p), q_pipeline_tasks := (\<lambda>h ns l. Inr tasks),
      q_task := (\<lambda>h ns name. case List.find (\<lambda>t. t_name t = name) tasks of None \<Rightarrow> not_found | Some t \<Rightarrow> Inr t),
      q_write := (\<lambda>h c. case c of
         CreateTask t \<Rightarrow> if list_ex (\<lambda>u. t_name u = t_name t) tasks
                         then Some (GoErr AlreadyExists ''exists'') else None
       | _ \<Rightarrow> None)\<rparr>"

definition child_task :: "task_pipeline \<Rightarrow> pipeline_stage \<Rightarrow> nat \<Rightarrow> task" where
  "child_task p stage k =
     (let t = pipeline_task idle_cluster p stage k (length (matrix_items (sg_matrix stage))) ''go'' []
      in t\<lparr>t_meta := (t_meta t)\<lparr>m_owners := [\<lparr>or_api_version = [], or_kind = [], or_name = p_name p, or_uid = m_uid (p_meta p),
             or_controller = Some True\<rparr>]\<rparr>,
           t_status := new_status\<lparr>st_phase := PhaseSucceeded\<rparr>\<rparr>)"

definition chain :: task_pipeline where
  "chain = pipeline_of [plain_stage ''a'' None, plain_stage ''b'' None]"

definition chain_cluster :: env where
  "chain_cluster = pipeline_cluster chain [child_task chain (plain_stage ''a'' None) 0]"

lemma is_create: "(case c of CreateTask t \<Rightarrow> True | _ \<Rightarrow> False) \<longleftrightarrow> (\<exists>t. c = CreateTask t)"
  by (cases c) auto

lemma stages_in_order_witness:
  "\<exists>t tbs. CreateTask t \<in> set (w_calls (snd (run_state (pipeline_reconcile chain_cluster ''default'' ''p'') start)))
     \<and> create_call chain_cluster chain tbs (CreateTask t)"
proof -
  let ?r = "run_state (pipeline_reconcile chain_cluster ''default'' ''p'') start"
  have "list_ex (\<lambda>c. case c of CreateTask t \<Rightarrow> True | _ \<Rightarrow> False) (w_calls (snd ?r))" by code_simp
  then obtain t where t: "CreateTask t \<in> set (w_calls (snd ?r))"
    by (auto simp: list_ex_iff is_create)
  then have "CreateTask t \<in> set (new_calls start (snd ?r))" by (simp add: start_def)
  from stages_in_order [OF prod.collapse [symmetric] this] obtain tbs pipeline where
    "q_pipeline chain_cluster (w_calls start) ''default'' ''p'' = Inr pipeline"
    "create_call chain_cluster pipeline tbs (CreateTask t)" by blast
  moreover have "q_pipeline chain_cluster h ns n = Inr chain" for h ns n
    by (simp add: chain_cluster_def pipeline_cluster_def)
  ultimately show ?thesis using t by auto
qed

section \<open>Names\<close>

definition clash :: task_pipeline where
  "clash = pipeline_of [plain_stage ''a'' (Some two_items), plain_stage ''a-1'' None]"

definition clash_cluster :: env where
  "clash_cluster = pipeline_cluster clash
     (map (child_task clash (plain_stage ''a'' (Some two_items))) [0, 1])"

text \<open>
  The names of a pipeline's tasks can clash: the second task of a stage \<open>a\<close> with a matrix
  and the only task of a stage \<open>a-1\<close> have the same name. Such a pipeline is valid, but when the
  tasks of its first stage have succeeded, the reconcile fails it because the name is in use.
\<close>

theorem pipeline_names_clash:
  "validateTaskPipeline clash_cluster clash = None
   \<and> q_pipeline_tasks clash_cluster [] ''default'' ''p''
       = Inr (map (child_task clash (plain_stage ''a'' (Some two_items))) [0, 1])
   \<and> list_all (\<lambda>k. t_phase (child_task clash (plain_stage ''a'' (Some two_items)) k) = PhaseSucceeded) [0, 1]
   \<and> pipelineChildTaskName clash_cluster ''p'' ''a'' 1 2 = pipelineChildTaskName clash_cluster ''p'' ''a-1'' 0 1
   \<and> list_ex (\<lambda>c. case c of PatchPipelineStatus q \<Rightarrow> ps_phase (p_status q) = PipeFailed | _ \<Rightarrow> False)
       (w_calls (snd (run_state (pipeline_reconcile clash_cluster ''default'' ''p'') start)))"
proof (intro conjI)
  show "validateTaskPipeline clash_cluster clash = None" by code_simp
  show "q_pipeline_tasks clash_cluster [] ''default'' ''p''
       = Inr (map (child_task clash (plain_stage ''a'' (Some two_items))) [0, 1])"
    by (simp add: clash_cluster_def pipeline_cluster_def)
  show "list_all (\<lambda>k. t_phase (child_task clash (plain_stage ''a'' (Some two_items)) k) = PhaseSucceeded) [0, 1]"
    by (simp add: child_task_def Let_def)
  show "pipelineChildTaskName clash_cluster ''p'' ''a'' 1 2 = pipelineChildTaskName clash_cluster ''p'' ''a-1'' 0 1"
    by code_simp
  show "list_ex (\<lambda>c. case c of PatchPipelineStatus q \<Rightarrow> ps_phase (p_status q) = PipeFailed | _ \<Rightarrow> False)
       (w_calls (snd (run_state (pipeline_reconcile clash_cluster ''default'' ''p'') start)))"
    by code_simp
qed

end
