(* ===== verification/System.thy ===== *)
theory System
  imports TaskLocks PoolFacts PipelineFacts
begin

text \<open>
  The controller as a whole: an event is one run of one of the reconcilers on one object, and
  the manager runs events one after another on one world, the memory of the process and the
  history of its calls. Anything may happen in the cluster between two events, since the
  answers of the environment are functions of the history. The reconcilers share the lock table; the
  contract \<open>lock_discipline\<close> says who may touch it.
\<close>

section \<open>The contract of the lock table\<close>

text \<open>
  A step of an owner keeps every lock of everybody else, and a step without an owner keeps
  all of them; \<open>ok\<close> is what the steps need from the environment.
\<close>

locale lock_discipline =
  fixes ok :: "'env \<Rightarrow> bool"
    and step :: "'env \<Rightarrow> 'event \<Rightarrow> world \<Rightarrow> world"
    and owner :: "'event \<Rightarrow> string option"
  assumes keeps: "ok E \<Longrightarrow> owner e \<noteq> Some u \<Longrightarrow>
    map_of (w_locks (step E e w)) k = Some u \<longleftrightarrow> map_of (w_locks w) k = Some u"
begin

definition run_events :: "'env \<Rightarrow> 'event list \<Rightarrow> world \<Rightarrow> world" where
  "run_events E es w = fold (step E) es w"

lemma run_events_simps [simp]:
  "run_events E [] w = w"
  "run_events E (e # es) w = run_events E es (step E e w)"
  "run_events E (es @ fs) w = run_events E fs (run_events E es w)"
  by (simp_all add: run_events_def)

lemma given_back:
  assumes "ok E" and "map_of (w_locks w) k = Some t" and "map_of (w_locks (run_events E es w)) k \<noteq> Some t"
  shows "\<exists>es1 e es2. es = es1 @ e # es2 \<and> owner e = Some t
    \<and> map_of (w_locks (run_events E es1 w)) k = Some t
    \<and> map_of (w_locks (step E e (run_events E es1 w))) k \<noteq> Some t"
  using assms(2,3)
proof (induction es arbitrary: w)
  case (Cons e es)
  show ?case
  proof (cases "map_of (w_locks (step E e w)) k = Some t")
    case True
    from Cons.IH [OF this] Cons.prems(2) obtain es1 f es2 where "es = es1 @ f # es2" "owner f = Some t"
      "map_of (w_locks (run_events E es1 (step E e w))) k = Some t"
      "map_of (w_locks (step E f (run_events E es1 (step E e w)))) k \<noteq> Some t" by auto
    then show ?thesis by (intro exI [where x = "e # es1"] exI [where x = f] exI [where x = es2]) simp
  next
    case False
    with Cons.prems(1) keeps [OF assms(1), of e t w k] have "owner e = Some t" by auto
    with False Cons.prems(1) show ?thesis
      by (intro exI [where x = "[]"] exI [where x = e] exI [where x = es]) simp
  qed
qed simp

end

section \<open>The events of the controller\<close>

datatype reconciler =
    TaskReconciler nat
  | WorkerPoolReconciler
  | TaskPipelineReconciler
  | TaskBudgetReconciler
  | TaskRecordReconciler

type_synonym event = "reconciler \<times> string \<times> string"

fun reconcile_event :: "env \<Rightarrow> event \<Rightarrow> world \<Rightarrow> world" where
  "reconcile_event E (TaskReconciler n, ns, name) w = snd (run_state (task_reconcile n E ns name) w)"
| "reconcile_event E (WorkerPoolReconciler, ns, name) w = snd (run_state (pool_reconcile E ns name) w)"
| "reconcile_event E (TaskPipelineReconciler, ns, name) w = snd (run_state (pipeline_reconcile E ns name) w)"
| "reconcile_event E (TaskBudgetReconciler, ns, name) w = snd (run_state (budget_reconcile E ns name) w)"
| "reconcile_event E (TaskRecordReconciler, ns, name) w = snd (run_state (record_reconcile E ns name) w)"

fun lock_owner :: "event \<Rightarrow> string option" where
  "lock_owner (TaskReconciler n, ns, name) = Some name"
| "lock_owner _ = None"

subsection \<open>The other reconcilers leave the lock table alone\<close>

lemma keeps_locks_budget: "keeps_locks (budget_reconcile E ns name)"
  unfolding budget_reconcile_def by (intro emits_intro)

lemma keeps_locks_record: "keeps_locks (record_reconcile E ns name)"
  unfolding record_reconcile_def by (intro emits_intro)

lemma keeps_locks_stage_tasks [emits_intro]:
  "keeps_locks (create_stage_tasks E pipeline i stage n existing items cs)"
proof (induction items arbitrary: cs)
  case (Cons item items)
  then show ?case
    by (cases item) (auto simp: adopt_task_def intro!: emits_intro)
qed (simp add: emits_intro)

lemma keeps_locks_stages [emits_intro]: "keeps_locks (create_stages E pipeline i previous stages cs)"
proof (induction stages arbitrary: i previous cs)
  case (Cons s stages)
  then show ?case by (cases s) (auto intro!: emits_intro)
qed (simp add: emits_intro)

lemma keeps_locks_pipeline: "keeps_locks (pipeline_reconcile E ns name)"
  unfolding pipeline_reconcile_def failInvalidPipeline_def write_pipeline_status_def listPipelineTasks_def
    advance_pipeline_def updateTaskPipelineStatus_def
  by (intro emits_intro)

lemma keeps_locks_pod_ops [emits_intro]:
  "keeps_locks (clearWorkerPodTaskAnnotations E p)"
  "keeps_locks (readPodOutputs E ns pn name)"
  "keeps_locks (createWorkerTaskRecord E t)"
  "keeps_locks (clearTaskPodAssignmentIfStillAssigned E t)"
  unfolding clearWorkerPodTaskAnnotations_def readPodOutputs_def createWorkerTaskRecord_def
    clearTaskPodAssignmentIfStillAssigned_def
  by (intro emits_intro)+

lemma keeps_locks_complete [emits_intro]: "keeps_locks (completeTask E t phase message)"
  unfolding completeTask_def count_worker_completion_def by (intro emits_intro)

lemma keeps_locks_pool_task [emits_intro]: "keeps_locks (reconcileTask E t poolName)"
proof -
  have "keeps_locks (finish_terminal E t)"
    unfolding finish_terminal_def retryWorkerTaskOutputs_def by (intro emits_intro)
  moreover have "keeps_locks (monitorTaskCompletion E t)"
    unfolding monitorTaskCompletion_def finish_on_pod_def mark_running_def by (intro emits_intro)
  moreover have "keeps_locks (assignTask E t poolName)"
    unfolding assignTask_def claim_pod_def unsupportedPoolWorkspace_def by (intro emits_intro)
  ultimately show ?thesis unfolding reconcileTask_def by (intro emits_intro)
qed

lemma keeps_locks_pool [emits_intro]: "keeps_locks (reconcilePool E pool)"
proof -
  have "keeps_locks (ensureWorkerRBAC E ns)" for ns
    unfolding ensureWorkerRBAC_def ensure_exists_def by (intro emits_intro)
  moreover have "keeps_locks (pool_workspace E pool ref)" for ref
    unfolding pool_workspace_def ensureGitHubAppToken_def ensure_derived_secret_def mint_for_pool_def
      refresh_for_pool_def by (intro emits_intro)
  moreover have "keeps_locks (pool_agent_config E pool)"
    unfolding pool_agent_config_def by (intro emits_intro)
  moreover have "keeps_locks (pool_objects E pool ws ac d)" for ws ac d
    unfolding pool_objects_def reconcilePluginConfigMap_def reconcileService_def reconcileStatefulSet_def
      create_stateful_set_def updatePoolStatus_def by (intro emits_intro)
  ultimately show ?thesis unfolding reconcilePool_def by (intro emits_intro)
qed

lemma keeps_locks_pool_reconcile: "keeps_locks (pool_reconcile E ns name)"
  unfolding pool_reconcile_def by (intro emits_intro)

interpretation controller: lock_discipline reads_by_name reconcile_event lock_owner
proof
  fix E e u w k
  assume ok: "reads_by_name E" and other: "lock_owner e \<noteq> Some u"
  obtain r ns name where e: "e = (r, ns, name)" by (cases e)
  show "map_of (w_locks (reconcile_event E e w)) k = Some u \<longleftrightarrow> map_of (w_locks w) k = Some u"
  proof (cases r)
    case (TaskReconciler n)
    with e other have "u \<noteq> name" by simp
    from only_locksD [OF only_locks_reconcile [OF ok] prod.collapse [symmetric] this]
    show ?thesis using e TaskReconciler by simp
  qed (use e keeps_locks_pool_reconcile keeps_locks_pipeline keeps_locks_budget keeps_locks_record
      in \<open>simp_all add: keeps_locks_def\<close>)
qed

section \<open>How a branch changes hands\<close>

text \<open>
  C5. Between the creation of Jobs for two tasks that use the same branch, however many events
  lie in between, the controller has reconciled the first task again and has taken the branch
  from it in that reconcile.
\<close>

theorem branch_handover:
  assumes "reads_by_name E" and "t \<noteq> u" and "branchLockKey T = branchLockKey U"
    and "q_task E (w_calls w0) ns t = Inr T" and "usesBranchLock T"
    and "w1 = reconcile_event E (TaskReconciler n, ns, t) w0" and "CreateJob i \<in> set (new_calls w0 w1)"
    and "w2 = fold (reconcile_event E) es w1"
    and "q_task E (w_calls w2) ns' u = Inr U" and "usesBranchLock U"
    and "w3 = reconcile_event E (TaskReconciler m, ns', u) w2" and "CreateJob j \<in> set (new_calls w2 w3)"
  shows "\<exists>es1 k ns'' es2. es = es1 @ (TaskReconciler k, ns'', t) # es2
    \<and> map_of (w_locks (fold (reconcile_event E) es1 w1)) (branchLockKey T) = Some t
    \<and> map_of (w_locks (fold (reconcile_event E) (es1 @ [(TaskReconciler k, ns'', t)]) w1)) (branchLockKey T) \<noteq> Some t"
proof -
  have run1: "run_state (task_reconcile n E ns t) w0 = (fst (run_state (task_reconcile n E ns t) w0), w1)"
    and run3: "run_state (task_reconcile m E ns' u) w2 = (fst (run_state (task_reconcile m E ns' u) w2), w3)"
    using assms(6,11) by simp_all
  have T: "t_name T = t" and U: "t_name U = u" using assms(1,4,9) by (auto simp: reads_by_name_def)
  have held1: "map_of (w_locks w1) (branchLockKey T) = Some t"
    using task_reconcile_creates [OF run1 assms(7)] assms(4,5) T by (auto simp: holds_branch_def)
  have "map_of (w_locks w3) (branchLockKey T) = Some u"
    using task_reconcile_creates [OF run3 assms(12)] assms(3,9,10) U by (auto simp: holds_branch_def)
  then have "map_of (w_locks w2) (branchLockKey T) \<noteq> Some t"
    using controller.keeps [OF assms(1), of "(TaskReconciler m, ns', u)" t w2 "branchLockKey T"] assms(2,11) by auto
  then have "map_of (w_locks (controller.run_events E es w1)) (branchLockKey T) \<noteq> Some t"
    by (simp add: assms(8) controller.run_events_def)
  from controller.given_back [OF assms(1) held1 this] obtain es1 e es2 where
    es: "es = es1 @ e # es2" "lock_owner e = Some t"
    "map_of (w_locks (fold (reconcile_event E) es1 w1)) (branchLockKey T) = Some t"
    "map_of (w_locks (reconcile_event E e (fold (reconcile_event E) es1 w1))) (branchLockKey T) \<noteq> Some t"
    by (auto simp: controller.run_events_def)
  obtain k ns'' where "e = (TaskReconciler k, ns'', t)"
    using es(2) by (cases e rule: lock_owner.cases) auto
  with es show ?thesis by auto
qed

text \<open>A cluster where a Job that was created is found finished from then on.\<close>

definition created_job :: "call list \<Rightarrow> string \<Rightarrow> bool" where
  "created_job h name \<longleftrightarrow> list_ex (\<lambda>c. case c of CreateJob j \<Rightarrow> m_name (job_meta j) = name | _ \<Rightarrow> False) h"

definition handover_cluster :: env where
  "handover_cluster = branch_cluster
     \<lparr>q_job := (\<lambda>h ns name. if created_job h name
        then Inr \<lparr>job_meta = blank_meta, job_active = 0, job_succeeded = 1, job_conditions = [],
                  job_spec = blank_job_spec\<rparr>
        else not_found)\<rparr>"

lemma branch_handover_witness:
  "let e = (\<lambda>name. (TaskReconciler 3, ''default'', name)); run = (\<lambda>es. fold (reconcile_event handover_cluster) es start)
   in map_of (w_locks (run [e ''t''])) (branchLockKey (branch_task ''t'')) = Some ''t''
      \<and> map_of (w_locks (run [e ''t'', e ''t''])) (branchLockKey (branch_task ''t'')) \<noteq> Some ''t''"
proof -
  let ?e = "\<lambda>name. (TaskReconciler 3, ''default'', name)"
  let ?w1 = "reconcile_event handover_cluster (?e ''t'') start"
  let ?w2 = "reconcile_event handover_cluster (?e ''t'') ?w1"
  let ?w3 = "reconcile_event handover_cluster (?e ''u'') ?w2"
  have named: "reads_by_name handover_cluster"
    by (auto simp: reads_by_name_def handover_cluster_def branch_cluster_def branch_task_def cluster_defs)
  have task: "q_task handover_cluster h ns name = Inr (branch_task name)" for h ns name
    by (simp add: handover_cluster_def branch_cluster_def)
  have locks: "usesBranchLock (branch_task ''t'')" "usesBranchLock (branch_task ''u'')"
    "branchLockKey (branch_task ''t'') = branchLockKey (branch_task ''u'')" by code_simp+
  have "list_ex is_create_job (drop (length (w_calls start)) (w_calls ?w1))" by code_simp
  then obtain i where i: "CreateJob i \<in> set (new_calls start ?w1)"
    by (auto simp: list_ex_iff dest: is_create_jobE)
  have "list_ex is_create_job (drop (length (w_calls ?w2)) (w_calls ?w3))" by code_simp
  then obtain j where j: "CreateJob j \<in> set (new_calls ?w2 ?w3)"
    by (auto simp: list_ex_iff dest: is_create_jobE)
  from branch_handover [OF named _ locks(3) task locks(1) refl i _ task locks(2) refl j, of "[?e ''t'']"]
  show ?thesis by (auto simp: Let_def append_eq_Cons_conv Cons_eq_append_conv)
qed

end
