(* ===== verification/SpawnerEnv.thy ===== *)
theory SpawnerEnv
  imports Effects
begin

text \<open>
  What the spawner process (\<^verbatim>\<open>cmd/kelos-spawner\<close>, \<^verbatim>\<open>internal/source\<close>, \<^verbatim>\<open>internal/taskbuilder\<close>)
  sees besides the API server: the HTTP APIs it polls, with the JSON types it decodes, Go's
  template engine with its parse trees, cron schedules and random choices. They are fields of
  a second parameter \<open>S\<close>, beside the \<open>env\<close> of the API server.
\<close>

section \<open>JSON types of the polled APIs\<close>

record github_issue =
  is_number :: int
  is_title :: string
  is_body :: string
  is_url :: string
  is_labels :: "string list"
  is_user :: string
  is_pull_request :: bool

record github_comment =
  gc_body :: string
  gc_created_at :: string
  gc_user :: string

record github_pull_request =
  pr_number :: int
  pr_title :: string
  pr_body :: string
  pr_url :: string
  pr_labels :: "string list"
  pr_user :: string
  pr_draft :: bool
  pr_ref :: string
  pr_sha :: string

record github_review =
  rv_body :: string
  rv_state :: string
  rv_submitted_at :: string
  rv_commit :: string
  rv_user :: string

record github_review_comment =
  rc_body :: string
  rc_path :: string
  rc_line :: int
  rc_created_at :: string
  rc_commit :: string
  rc_user :: string

record github_permission =
  gp_permission :: string
  gp_role_name :: string

text \<open>A decoded JSON value, \<^verbatim>\<open>interface{}\<close>; a \<^verbatim>\<open>float64\<close> is not looked into.\<close>

datatype json =
  JStr string | JNum opaque | JBool bool | JNull | JArr "json list" | JObj "(string \<times> json) list"

record jira_issue =
  ji_key :: string
  ji_summary :: string
  ji_labels :: "string list"
  ji_type :: "string option"
  ji_comments :: "json list option"

record jira_page =
  jp_issues :: "jira_issue list"
  jp_next :: string
  jp_last :: bool
  jp_total :: int

record http_response =
  hr_status :: int
  hr_link :: string
  hr_body :: string

section \<open>Parse trees of templates\<close>

text \<open>
  The nodes of \<^verbatim>\<open>text/template/parse\<close> that \<^verbatim>\<open>treeReferencesContext\<close> tells apart, with the
  fields that it visits; every other node is \<open>OtherNode\<close>. Pointers that may be nil are options.
\<close>

datatype tmpl_node =
    ListNode "tmpl_node list"
  | ActionNode tmpl_node
  | PipeNode "tmpl_node list"
  | CommandNode "tmpl_node list"
  | IfNode tmpl_node tmpl_node "tmpl_node option"
  | RangeNode tmpl_node tmpl_node "tmpl_node option"
  | WithNode tmpl_node tmpl_node "tmpl_node option"
  | TemplateNode "tmpl_node option"
  | FieldNode "string list"
  | ChainNode tmpl_node "string list"
  | VariableNode "string list"
  | StringNode string
  | OtherNode

section \<open>The parameter\<close>

text \<open>
  \<open>l_template\<close> parses a template with the option \<^verbatim>\<open>missingkey=error\<close> under a name, and gives
  its execution; \<open>l_template_tree\<close> gives the tree of its root, or \<open>None\<close> for the nil tree.
  \<open>l_cron\<close> is the cron parser, a schedule being its \<^verbatim>\<open>Next\<close>; \<open>l_glob\<close> is \<^verbatim>\<open>doublestar.Match\<close>,
  \<open>l_dns_subdomain_errors\<close> is \<^verbatim>\<open>validation.IsDNS1123Subdomain\<close>, \<open>l_format_tick\<close> formats with the
  layout \<^verbatim>\<open>20060102-1504\<close>, \<open>l_parse_duration\<close> is \<^verbatim>\<open>time.ParseDuration\<close> and \<open>l_query\<close> is the encoding
  of \<^verbatim>\<open>url.Values\<close>. \<open>q_random\<close> is \<^verbatim>\<open>rand.IntN\<close> and \<open>q_resolve_token\<close> is the token resolver of the
  process, if there is one. The second string of \<open>q_http\<close> is the credential of the request.
\<close>

record work_item =
  wi_id :: string
  wi_number :: int
  wi_title :: string
  wi_body :: string
  wi_url :: string
  wi_labels :: "string list"
  wi_comments :: string
  wi_kind :: string
  wi_branch :: string
  wi_review_state :: string
  wi_review_comments :: string
  wi_head_sha :: string
  wi_time :: string
  wi_schedule :: string
  wi_trigger :: int

type_synonym template_vars = "(string \<times> tmpl_value) list"

record spawner_env =
  q_spawner :: "task_spawner answer"
  q_spawner_tasks :: "task list answer"
  q_http :: "call list \<Rightarrow> string \<Rightarrow> string \<Rightarrow> go_err + http_response"
  q_context :: "call list \<Rightarrow> opaque list \<Rightarrow> template_vars \<Rightarrow> go_err + tmpl_value"
  q_random :: "call list \<Rightarrow> nat \<Rightarrow> nat"
  q_resolve_token :: "(call list \<Rightarrow> go_err + string) option"
  l_template :: "string \<Rightarrow> string \<Rightarrow> go_err + template_fun"
  l_template_tree :: "string \<Rightarrow> go_err + tmpl_node option"
  l_dns_subdomain_errors :: "string \<Rightarrow> string list"
  l_glob :: "string \<Rightarrow> string \<Rightarrow> bool"
  l_cron :: "string \<Rightarrow> go_err + (int \<Rightarrow> int)"
  l_format_tick :: "int \<Rightarrow> string"
  l_parse_duration :: "string \<Rightarrow> int option"
  l_query :: "strmap \<Rightarrow> string"
  l_issues :: "string \<Rightarrow> go_err + github_issue list"
  l_comments :: "string \<Rightarrow> go_err + github_comment list"
  l_pulls :: "string \<Rightarrow> go_err + github_pull_request list"
  l_reviews :: "string \<Rightarrow> go_err + github_review list"
  l_review_comments :: "string \<Rightarrow> go_err + github_review_comment list"
  l_files :: "string \<Rightarrow> go_err + string list"
  l_permission :: "string \<Rightarrow> go_err + github_permission"
  l_membership :: "string \<Rightarrow> go_err + string"
  l_jira_page :: "string \<Rightarrow> go_err + jira_page"

section \<open>Primitive actions\<close>

definition http_get :: "spawner_env \<Rightarrow> string \<Rightarrow> string \<Rightarrow> (go_err + http_response) io" where
  "http_get S url token =
     State (\<lambda>w. (q_http S (w_calls w) url token, w\<lparr>w_calls := w_calls w @ [HttpGet url token]\<rparr>))"

definition fetch_context ::
  "spawner_env \<Rightarrow> opaque list \<Rightarrow> template_vars \<Rightarrow> (go_err + tmpl_value) io" where
  "fetch_context S sources vars =
     State (\<lambda>w. (q_context S (w_calls w) sources vars,
                 w\<lparr>w_calls := w_calls w @ [FetchContext sources]\<rparr>))"

definition peek :: "(call list \<Rightarrow> 'a) \<Rightarrow> 'a io" where
  "peek f = State (\<lambda>w. (f (w_calls w), w))"

lemma run_spawner_primitives [io_run]:
  "run_state (http_get S url token) w =
     (q_http S (w_calls w) url token, w\<lparr>w_calls := w_calls w @ [HttpGet url token]\<rparr>)"
  "run_state (fetch_context S sources vars) w =
     (q_context S (w_calls w) sources vars, w\<lparr>w_calls := w_calls w @ [FetchContext sources]\<rparr>)"
  "run_state (peek f) w = (f (w_calls w), w)"
  by (simp_all add: http_get_def fetch_context_def peek_def)

lemma emits_http [emits_intro]: "P (HttpGet url token) \<Longrightarrow> emits P (http_get S url token)"
  and emits_context [emits_intro]: "P (FetchContext sources) \<Longrightarrow> emits P (fetch_context S sources vars)"
  and emits_peek [emits_intro]: "emits P (peek f)"
  by (simp_all add: emits_def io_run)

lemma keeps_locks_http [emits_intro]: "keeps_locks (http_get S url token)"
  and keeps_locks_context [emits_intro]: "keeps_locks (fetch_context S sources vars)"
  and keeps_locks_peek [emits_intro]: "keeps_locks (peek f)"
  by (simp_all add: keeps_locks_def io_run)

end
