(* ===== verification/TaskBuilder.thy ===== *)
theory TaskBuilder
  imports SpawnerEnv
begin

text \<open>
  \<^verbatim>\<open>internal/taskbuilder/builder.go\<close> and \<^verbatim>\<open>internal/spawnercredentials\<close>: how a task template and
  the variables of a work item become a \<^verbatim>\<open>Task\<close>. The template variables are a Go map, here an
  association list; \<^verbatim>\<open>range\<close> over the label and annotation templates goes in the order of the
  list, which decides only which of several rendering errors is reported.
\<close>

section \<open>Names\<close>

text \<open>
  \<^verbatim>\<open>strings.ToLower\<close> followed by the loop of \<^verbatim>\<open>sanitizeName\<close>. Two runes beyond ASCII have a lower
  case in ASCII: U+212A, the Kelvin sign, and U+0130, the capital I with a dot.
\<close>

definition name_char :: "char \<Rightarrow> bool" where
  "name_char c \<longleftrightarrow> byte_in 97 122 c \<or> byte_in 48 57 c \<or> c = CHR ''-'' \<or> c = CHR ''.''"

definition sanitize_rune :: "string \<Rightarrow> char" where
  "sanitize_rune r =
     (case r of
        [c] \<Rightarrow> if name_char (lower_char c) then lower_char c else CHR ''-''
      | _ \<Rightarrow> if r = [CHR 0xE2, CHR 0x84, CHR 0xAA] then CHR ''k''
             else if r = [CHR 0xC4, CHR 0xB0] then CHR ''i'' else CHR ''-'')"

definition trim_dashes :: "string \<Rightarrow> string" where
  "trim_dashes l = trim_right_set [CHR ''-''] (dropWhile (\<lambda>c. c = CHR ''-'') l)"

definition sanitizeName :: "string \<Rightarrow> string" where
  "sanitizeName s =
     (let name = take 63 (map sanitize_rune (go_runes s));
          cleaned = filter (\<lambda>l. l \<noteq> []) (map trim_dashes (split_char (CHR ''.'') name))
      in str_join cleaned ''.'')"

section \<open>Templates\<close>

definition renderTemplate ::
  "spawner_env \<Rightarrow> string \<Rightarrow> string \<Rightarrow> template_vars \<Rightarrow> go_err + string" where
  "renderTemplate S name templateStr vars =
     (case l_template S name templateStr of
        Inl e \<Rightarrow> Inl (wrap_err ''failed to parse template'' e)
      | Inr execute \<Rightarrow>
          (case execute (TMap vars) of
             Inl e \<Rightarrow> Inl (wrap_err ''failed to execute template'' e)
           | Inr s \<Rightarrow> Inr s))"

definition nameTemplateForbiddenKey :: string where
  "nameTemplateForbiddenKey = ''Context''"

fun treeReferencesContext :: "tmpl_node \<Rightarrow> bool" where
  "treeReferencesContext (ListNode nodes) \<longleftrightarrow> list_ex treeReferencesContext nodes"
| "treeReferencesContext (ActionNode pipe) \<longleftrightarrow> treeReferencesContext pipe"
| "treeReferencesContext (PipeNode cmds) \<longleftrightarrow> list_ex treeReferencesContext cmds"
| "treeReferencesContext (CommandNode args) \<longleftrightarrow> list_ex treeReferencesContext args"
| "treeReferencesContext (IfNode pipe body other) \<longleftrightarrow>
     treeReferencesContext pipe \<or> treeReferencesContext body
     \<or> (case other of None \<Rightarrow> False | Some n \<Rightarrow> treeReferencesContext n)"
| "treeReferencesContext (RangeNode pipe body other) \<longleftrightarrow>
     treeReferencesContext pipe \<or> treeReferencesContext body
     \<or> (case other of None \<Rightarrow> False | Some n \<Rightarrow> treeReferencesContext n)"
| "treeReferencesContext (WithNode pipe body other) \<longleftrightarrow>
     treeReferencesContext pipe \<or> treeReferencesContext body
     \<or> (case other of None \<Rightarrow> False | Some n \<Rightarrow> treeReferencesContext n)"
| "treeReferencesContext (TemplateNode pipe) \<longleftrightarrow>
     (case pipe of None \<Rightarrow> False | Some n \<Rightarrow> treeReferencesContext n)"
| "treeReferencesContext (FieldNode ident) \<longleftrightarrow>
     ident \<noteq> [] \<and> hd ident = nameTemplateForbiddenKey"
| "treeReferencesContext (ChainNode node idents) \<longleftrightarrow>
     treeReferencesContext node \<or> nameTemplateForbiddenKey \<in> set idents"
| "treeReferencesContext (VariableNode ident) \<longleftrightarrow> nameTemplateForbiddenKey \<in> set ident"
| "treeReferencesContext (StringNode text) \<longleftrightarrow> text = nameTemplateForbiddenKey"
| "treeReferencesContext OtherNode \<longleftrightarrow> False"

definition checkNoContextReference :: "spawner_env \<Rightarrow> string \<Rightarrow> go_err option" where
  "checkNoContextReference S tmplStr =
     (case l_template_tree S tmplStr of
        Inl e \<Rightarrow> Some (wrap_err ''failed to parse name template'' e)
      | Inr None \<Rightarrow> None
      | Inr (Some root) \<Rightarrow>
          if treeReferencesContext root
          then Some (new_err (''nameTemplate must not reference context sources (.Context or index ''
                 @ quote nameTemplateForbiddenKey @ '')''))
          else None)"

definition nameTemplateVars :: "template_vars \<Rightarrow> template_vars" where
  "nameTemplateVars templateVars =
     (if map_of templateVars nameTemplateForbiddenKey = None then templateVars
      else filter (\<lambda>kv. fst kv \<noteq> nameTemplateForbiddenKey) templateVars)"

definition ResolveTaskName ::
  "spawner_env \<Rightarrow> string \<Rightarrow> task_template \<Rightarrow> template_vars \<Rightarrow> go_err + string" where
  "ResolveTaskName S defaultName template templateVars =
     (if tt_name template = [] then Inr defaultName
      else (case checkNoContextReference S (tt_name template) of
         Some e \<Rightarrow> Inl e
       | None \<Rightarrow>
           (case renderTemplate S ''name'' (tt_name template) (nameTemplateVars templateVars) of
              Inl e \<Rightarrow> Inl (wrap_err ''failed to render name template'' e)
            | Inr rendered \<Rightarrow>
                if str_contains rendered ''<no value>''
                then Inl (new_err (''nameTemplate references a missing or unavailable value: '' @ quote rendered))
                else (let name = sanitizeName rendered
                      in if name = []
                         then Inl (new_err (''nameTemplate rendered to an empty name after sanitization: ''
                                @ quote rendered))
                         else if l_dns_subdomain_errors S name \<noteq> []
                         then Inl (new_err (''nameTemplate produced an invalid Task name '' @ quote name @ '': ''
                                @ str_join (l_dns_subdomain_errors S name) ''; ''))
                         else Inr name))))"

section \<open>Tasks\<close>

record spawner_ref =
  sr_name :: string
  sr_uid :: string
  sr_api_version :: string
  sr_kind :: string

text \<open>The loop over a map of templates, filling the labels or the annotations.\<close>

fun render_entries ::
  "spawner_env \<Rightarrow> string \<Rightarrow> template_vars \<Rightarrow> strmap \<Rightarrow> strmap \<Rightarrow> go_err + strmap" where
  "render_entries S what vars [] m = Inr m"
| "render_entries S what vars ((key, valueTemplate) # rest) m =
     (case renderTemplate S (what @ ''['' @ key @ '']'') valueTemplate vars of
        Inl e \<Rightarrow> Inl (wrap_err (''failed to render '' @ what @ '' '' @ key) e)
      | Inr v \<Rightarrow> render_entries S what vars rest (map_put key v m))"

text \<open>The task before its metadata is filled in.\<close>

definition template_task ::
  "string \<Rightarrow> string \<Rightarrow> task_template \<Rightarrow> string \<Rightarrow> string \<Rightarrow> strmap \<Rightarrow> strmap \<Rightarrow> owner_reference list \<Rightarrow> task" where
  "template_task name namespace template prompt branch labels annotations owners =
     \<lparr>t_meta = blank_meta\<lparr>m_name := name, m_namespace := namespace, m_labels := labels,
        m_annotations := annotations, m_owners := owners\<rparr>,
      t_spec = \<lparr>ts_worker = tt_worker template, ts_pool = tt_pool template, ts_type = tt_type template,
        ts_prompt = prompt, ts_credentials = tt_credentials template, ts_model = tt_model template,
        ts_effort = tt_effort template, ts_image = tt_image template, ts_workspace = tt_workspace template,
        ts_agent_configs = tt_agent_configs template, ts_depends_on = tt_depends_on template,
        ts_branch = branch, ts_branch_lock = tt_branch_lock template,
        ts_upstream_repo = tt_upstream_repo template, ts_ttl = tt_ttl template,
        ts_pod_failure_policy = tt_pod_failure_policy template,
        ts_pod_overrides = tt_pod_overrides template\<rparr>,
      t_status = zero_task_status\<rparr>"

definition spawner_owner :: "spawner_ref \<Rightarrow> owner_reference" where
  "spawner_owner r =
     \<lparr>or_api_version = sr_api_version r, or_kind = sr_kind r, or_name = sr_name r, or_uid = sr_uid r,
      or_controller = Some True\<rparr>"

definition template_metadata :: "task_template \<Rightarrow> strmap \<times> strmap" where
  "template_metadata template = (case tt_metadata template of None \<Rightarrow> ([], []) | Some m \<Rightarrow> m)"

definition BuildTask ::
  "spawner_env \<Rightarrow> string \<Rightarrow> string \<Rightarrow> task_template \<Rightarrow> template_vars \<Rightarrow> spawner_ref option \<Rightarrow>
   go_err + task" where
  "BuildTask S defaultName namespace template vars spawnerRef =
     (case ResolveTaskName S defaultName template vars of
        Inl e \<Rightarrow> Inl e
      | Inr name \<Rightarrow>
          (case renderTemplate S ''prompt''
                  (if tt_prompt template = [] then ''{{.Title}}'' else tt_prompt template) vars of
             Inl e \<Rightarrow> Inl (wrap_err ''failed to render prompt template'' e)
           | Inr prompt \<Rightarrow>
               (case (if tt_branch template = [] then Inr []
                      else renderTemplate S ''branch'' (tt_branch template) vars) of
                  Inl e \<Rightarrow> Inl (wrap_err ''failed to render branch template'' e)
                | Inr branch \<Rightarrow>
                    (let (labelTemplates, annotationTemplates) = template_metadata template
                     in case render_entries S ''label'' vars labelTemplates [] of
                          Inl e \<Rightarrow> Inl e
                        | Inr labels \<Rightarrow>
                            (case render_entries S ''annotation'' vars annotationTemplates [] of
                               Inl e \<Rightarrow> Inl e
                             | Inr annotations \<Rightarrow>
                                 Inr (case spawnerRef of
                                        None \<Rightarrow> template_task name namespace template prompt branch
                                                  labels annotations []
                                      | Some r \<Rightarrow> template_task name namespace template prompt branch
                                                  (map_put spawner_label (sr_name r) labels) annotations
                                                  [spawner_owner r]))))))"

fun belongs_by_owner :: "owner_reference list \<Rightarrow> string \<Rightarrow> bool \<Rightarrow> bool option" where
  "belongs_by_owner [] uid hasController = (if hasController then Some False else None)"
| "belongs_by_owner (ref # refs) uid hasController =
     (if or_controller ref = Some True
      then if or_uid ref = uid then Some True else belongs_by_owner refs uid True
      else belongs_by_owner refs uid hasController)"

definition TaskBelongsToSpawner :: "task \<Rightarrow> string \<Rightarrow> string \<Rightarrow> bool" where
  "TaskBelongsToSpawner t spawnerName spawnerUID =
     (case belongs_by_owner (m_owners (t_meta t)) spawnerUID False of
        Some b \<Rightarrow> b
      | None \<Rightarrow> map_str (m_labels (t_meta t)) spawner_label = spawnerName)"

section \<open>Credentials\<close>

definition AssignmentLabel :: string where
  "AssignmentLabel = ''kelos.dev/spawner-credential''"

definition Select :: "spawner_env \<Rightarrow> spawner_credential list \<Rightarrow> spawner_credential io" where
  "Select S credentials = do { i \<leftarrow> peek (\<lambda>h. q_random S h (length credentials)); ret (credentials ! i) }"

definition Materialize :: "spawner_credential \<Rightarrow> credentials" where
  "Materialize c = \<lparr>cr_type = sc_type c, cr_secret = Some (sc_secret c)\<rparr>"

text \<open>The refusals, in the order of the code, and the task with the selected credential.\<close>

definition credential_conflict :: "task \<Rightarrow> go_err option" where
  "credential_conflict t =
     (if ts_pool (t_spec t) \<noteq> None
      then Some (new_err ''TaskSpawner credentials cannot be used with workerPoolRef'')
      else if (case ts_worker (t_spec t) of None \<Rightarrow> False | Some w \<Rightarrow> wk_credentials w \<noteq> None)
      then Some (new_err ''TaskSpawner credentials cannot be combined with taskTemplate.worker.credentials'')
      else if ts_credentials (t_spec t) \<noteq> None
      then Some (new_err ''TaskSpawner credentials cannot be combined with taskTemplate.credentials'')
      else None)"

definition with_credential :: "spawner_credential \<Rightarrow> task \<Rightarrow> task" where
  "with_credential c t =
     t\<lparr>t_spec := (case ts_worker (t_spec t) of
                    Some w \<Rightarrow> (t_spec t)\<lparr>ts_worker := Some (w\<lparr>wk_credentials := Some (Materialize c)\<rparr>)\<rparr>
                  | None \<Rightarrow> (t_spec t)\<lparr>ts_credentials := Some (Materialize c)\<rparr>),
       t_meta := (t_meta t)\<lparr>m_labels := map_put AssignmentLabel (sc_name c) (m_labels (t_meta t))\<rparr>\<rparr>"

definition AssignSpawnerCredential ::
  "spawner_env \<Rightarrow> task_spawner \<Rightarrow> task \<Rightarrow> (go_err + task) io" where
  "AssignSpawnerCredential S spawner t =
     (if s_credentials spawner = [] then ret (Inr t)
      else (case credential_conflict t of
         Some e \<Rightarrow> ret (Inl e)
       | None \<Rightarrow> do {
           selected \<leftarrow> Select S (s_credentials spawner);
           ret (Inr (with_credential selected t))
         }))"

end
