(* ===== verification/Sources.thy ===== *)
theory Sources
  imports TaskBuilder
begin

text \<open>
  The sources of work items, \<^verbatim>\<open>internal/source\<close>: the comment policy with its authorizer
  (\<^verbatim>\<open>github_comment_policy.go\<close>), GitHub issues (\<^verbatim>\<open>github.go\<close>) and pull requests
  (\<^verbatim>\<open>github_pr.go\<close>), cron (\<^verbatim>\<open>cron.go\<close>), the order of items (\<^verbatim>\<open>source.go\<close>) and the template
  variables of an item (\<^verbatim>\<open>prompt.go\<close>). Instants are \<^typ>\<open>int\<close>; \<open>zero_time\<close> is Go's zero
  \<^verbatim>\<open>time.Time\<close>, the start of the year 1, which \<^verbatim>\<open>IsZero\<close> tests for.
\<close>

definition zero_time :: int where
  "zero_time = - 62135596800000000000"

section \<open>Work items\<close>

definition blank_item :: work_item where
  "blank_item = \<lparr>wi_id = [], wi_number = 0, wi_title = [], wi_body = [], wi_url = [], wi_labels = [],
     wi_comments = [], wi_kind = [], wi_branch = [], wi_review_state = [], wi_review_comments = [],
     wi_head_sha = [], wi_time = [], wi_schedule = [], wi_trigger = zero_time\<rparr>"

definition WorkItemToTemplateVars :: "work_item \<Rightarrow> template_vars" where
  "WorkItemToTemplateVars item =
     [(''ID'', TStr (wi_id item)), (''Number'', TInt (wi_number item)), (''Title'', TStr (wi_title item)),
      (''Body'', TStr (wi_body item)), (''URL'', TStr (wi_url item)),
      (''Labels'', TStr (str_join (wi_labels item) '', '')), (''Comments'', TStr (wi_comments item)),
      (''Kind'', TStr (if wi_kind item = [] then ''Issue'' else wi_kind item)),
      (''Branch'', TStr (wi_branch item)), (''ReviewState'', TStr (wi_review_state item)),
      (''ReviewComments'', TStr (wi_review_comments item)), (''Time'', TStr (wi_time item)),
      (''Schedule'', TStr (wi_schedule item))]"

text \<open>The inner loop of \<^verbatim>\<open>labelPriorityIndex\<close>, from index \<open>i\<close> on, and the outer one.\<close>

fun improve_index :: "string \<Rightarrow> string list \<Rightarrow> nat \<Rightarrow> nat \<Rightarrow> nat" where
  "improve_index il [] i best = best"
| "improve_index il (pl # pls) i best =
     (if il = pl \<and> i < best then i else improve_index il pls (Suc i) best)"

fun priority_from :: "string list \<Rightarrow> string list \<Rightarrow> nat \<Rightarrow> nat" where
  "priority_from [] priorityLabels best = best"
| "priority_from (il # ils) priorityLabels best =
     (let best' = improve_index il priorityLabels 0 best
      in if best' = 0 then 0 else priority_from ils priorityLabels best')"

definition labelPriorityIndex :: "string list \<Rightarrow> string list \<Rightarrow> nat" where
  "labelPriorityIndex itemLabels priorityLabels =
     priority_from itemLabels priorityLabels (length priorityLabels)"

text \<open>\<^verbatim>\<open>sort.SliceStable\<close> is the stable sort by the index.\<close>

definition SortByLabelPriority :: "work_item list \<Rightarrow> string list \<Rightarrow> work_item list" where
  "SortByLabelPriority items priorityLabels =
     (if priorityLabels = [] then items
      else sort_key (\<lambda>item. labelPriorityIndex (wi_labels item) priorityLabels) items)"

section \<open>Cron\<close>

definition maxCronTicks :: int where "maxCronTicks = 1000"

text \<open>The loop of \<^verbatim>\<open>CronSource.Discover\<close>, with the number of items that were found before.\<close>

function cron_ticks :: "int \<Rightarrow> (int \<Rightarrow> int) \<Rightarrow> int \<Rightarrow> int \<Rightarrow> int list" where
  "cron_ticks found sched now cursor =
     (let t = sched cursor
      in if now < t then []
         else if maxCronTicks \<le> found + 1 then [t] else t # cron_ticks (found + 1) sched now t)"
  by pat_completeness auto
termination
  by (relation "measure (\<lambda>(found, sched, now, cursor). nat (maxCronTicks - found))") auto

declare cron_ticks.simps [simp del]

definition tick_item :: "env \<Rightarrow> spawner_env \<Rightarrow> string \<Rightarrow> int \<Rightarrow> work_item" where
  "tick_item E S schedule t =
     blank_item\<lparr>wi_id := l_format_tick S t, wi_title := l_format_time E t,
                wi_time := l_format_time E t, wi_schedule := schedule\<rparr>"

definition cron_discover :: "env \<Rightarrow> spawner_env \<Rightarrow> string \<Rightarrow> int \<Rightarrow> (go_err + work_item list) io" where
  "cron_discover E S schedule lastDiscovery =
     (if lastDiscovery = zero_time then ret (Inl (new_err ''LastDiscoveryTime must not be zero''))
      else (case l_cron S schedule of
         Inl e \<Rightarrow> ret (Inl (wrap_err (''parsing cron schedule '' @ quote schedule) e))
       | Inr sched \<Rightarrow> do {
           now \<leftarrow> clock E;
           ret (Inr (map (tick_item E S schedule) (cron_ticks 0 sched now lastDiscovery)))
         }))"

section \<open>Authorization of commenters\<close>

definition permission_rank :: "string \<Rightarrow> nat" where
  "permission_rank p =
     (if p = ''read'' then 1 else if p = ''triage'' then 2 else if p = ''write'' then 3
      else if p = ''maintain'' then 4 else if p = ''admin'' then 5 else 0)"

definition normalizeGitHubPermission :: "string \<Rightarrow> string" where
  "normalizeGitHubPermission p =
     (let p' = to_lower (trim_space p) in if permission_rank p' = 0 then [] else p')"

definition normalizeGitHubLogin :: "string \<Rightarrow> string" where
  "normalizeGitHubLogin login = to_lower (trim_space login)"

definition parseGitHubTeamRef :: "string \<Rightarrow> go_err + (string \<times> string)" where
  "parseGitHubTeamRef team =
     (let invalid = Inl (new_err (''invalid team '' @ quote team @ '': expected org/team-slug''))
      in case str_cut (trim_space team) ''/'' of
           None \<Rightarrow> invalid
         | Some (org, slug) \<Rightarrow>
             if trim_space org = [] \<or> trim_space slug = [] then invalid
             else Inr (trim_space org, trim_space slug))"

record authorizer =
  az_owner :: string
  az_repo :: string
  az_base_url :: string
  az_token :: string
  az_users :: "string list"
  az_teams :: "(string \<times> string) list"
  az_permission :: string

fun parse_teams :: "string list \<Rightarrow> go_err + (string \<times> string) list" where
  "parse_teams [] = Inr []"
| "parse_teams (t # ts) =
     (case parseGitHubTeamRef t of
        Inl e \<Rightarrow> Inl e
      | Inr r \<Rightarrow> (case parse_teams ts of Inl e \<Rightarrow> Inl e | Inr rs \<Rightarrow> Inr (r # rs)))"

definition defaultBaseURL :: string where "defaultBaseURL = ''https://api.github.com''"

definition newGitHubCommentAuthorizer ::
  "string \<Rightarrow> string \<Rightarrow> string \<Rightarrow> string \<Rightarrow> comment_policy_spec \<Rightarrow> go_err + authorizer" where
  "newGitHubCommentAuthorizer owner repo baseURL token policy =
     (case parse_teams (cp_teams policy) of
        Inl e \<Rightarrow> Inl e
      | Inr teams \<Rightarrow>
          if cp_permission policy \<noteq> [] \<and> normalizeGitHubPermission (cp_permission policy) = []
          then Inl (new_err (''invalid minimum permission '' @ quote (cp_permission policy)))
          else Inr \<lparr>az_owner = owner, az_repo = repo,
                    az_base_url = trim_right_set ''/'' (if baseURL = [] then defaultBaseURL else baseURL),
                    az_token = token,
                    az_users = filter (\<lambda>l. l \<noteq> []) (map normalizeGitHubLogin (cp_users policy)),
                    az_teams = teams, az_permission = normalizeGitHubPermission (cp_permission policy)\<rparr>)"

text \<open>\<^verbatim>\<open>url.PathEscape\<close>.\<close>

definition path_safe :: "char \<Rightarrow> bool" where
  "path_safe c \<longleftrightarrow> byte_in 97 122 c \<or> byte_in 65 90 c \<or> byte_in 48 57 c \<or> c \<in> set ''-_.~$&+=:@''"

definition path_escape :: "string \<Rightarrow> string" where
  "path_escape s = concat (map (\<lambda>c. if path_safe c then [c]
     else [CHR 0x25, upper_hex (of_char c div 16), upper_hex (of_char c mod 16)]) s)"

text \<open>
  \<^verbatim>\<open>getJSON\<close>: \<open>None\<close> is the answer that the resource does not exist. A request that cannot be
  made is one of the errors of \<open>q_http\<close>.
\<close>

definition api_status_error :: "http_response \<Rightarrow> go_err" where
  "api_status_error resp =
     new_err (''GitHub API returned status '' @ itoa (hr_status resp) @ '': '' @ take 1024 (hr_body resp))"

definition getJSON ::
  "spawner_env \<Rightarrow> authorizer \<Rightarrow> string \<Rightarrow> (string \<Rightarrow> go_err + 'a) \<Rightarrow> (go_err + 'a option) io" where
  "getJSON S a path decode = do {
     r \<leftarrow> http_get S (az_base_url a @ path) (az_token a);
     ret (case r of
        Inl e \<Rightarrow> Inl e
      | Inr resp \<Rightarrow>
          if hr_status resp = 404 then Inr None
          else if hr_status resp \<noteq> 200 then Inl (api_status_error resp)
          else (case decode (hr_body resp) of
             Inl e \<Rightarrow> Inl (wrap_err ''decoding response'' e)
           | Inr v \<Rightarrow> Inr (Some v)))
   }"

definition hasMinimumPermission :: "spawner_env \<Rightarrow> authorizer \<Rightarrow> string \<Rightarrow> (go_err + bool) io" where
  "hasMinimumPermission S a login = do {
     r \<leftarrow> getJSON S a (''/repos/'' @ path_escape (az_owner a) @ ''/'' @ path_escape (az_repo a)
             @ ''/collaborators/'' @ path_escape login @ ''/permission'') (l_permission S);
     ret (case r of
        Inl e \<Rightarrow> Inl (wrap_err (''checking repository permission for '' @ quote login) e)
      | Inr None \<Rightarrow> Inr False
      | Inr (Some p) \<Rightarrow>
          (let role = normalizeGitHubPermission (gp_role_name p);
               actual = (if role = [] then normalizeGitHubPermission (gp_permission p) else role)
           in Inr (permission_rank (az_permission a) \<le> permission_rank actual)))
   }"

definition isTeamMember ::
  "spawner_env \<Rightarrow> authorizer \<Rightarrow> string \<times> string \<Rightarrow> string \<Rightarrow> (go_err + bool) io" where
  "isTeamMember S a team login = do {
     r \<leftarrow> getJSON S a (''/orgs/'' @ path_escape (fst team) @ ''/teams/'' @ path_escape (snd team)
             @ ''/memberships/'' @ path_escape login) (l_membership S);
     ret (case r of
        Inl e \<Rightarrow> Inl (wrap_err (''checking team membership for '' @ quote login @ '' in '' @ fst team
               @ ''/'' @ snd team) e)
      | Inr None \<Rightarrow> Inr False
      | Inr (Some state) \<Rightarrow> Inr (to_lower (trim_space state) = ''active''))
   }"

text \<open>\<open>firstErr\<close> is the first error so far; a rule that grants access overrides it.\<close>

definition no_grant :: "go_err option \<Rightarrow> go_err + bool" where
  "no_grant firstErr = (case firstErr of None \<Rightarrow> Inr False | Some e \<Rightarrow> Inl e)"

fun any_team ::
  "spawner_env \<Rightarrow> authorizer \<Rightarrow> string \<Rightarrow> (string \<times> string) list \<Rightarrow> go_err option \<Rightarrow> (go_err + bool) io" where
  "any_team S a login [] firstErr = ret (no_grant firstErr)"
| "any_team S a login (team # teams) firstErr = do {
     r \<leftarrow> isTeamMember S a team login;
     (case r of
        Inl e \<Rightarrow> any_team S a login teams (case firstErr of None \<Rightarrow> Some e | Some e' \<Rightarrow> Some e')
      | Inr ok \<Rightarrow> if ok then ret (Inr True) else any_team S a login teams firstErr)
   }"

definition authorizeLogin :: "spawner_env \<Rightarrow> authorizer \<Rightarrow> string \<Rightarrow> (go_err + bool) io" where
  "authorizeLogin S a login =
     (if az_permission a = [] then any_team S a login (az_teams a) None
      else do {
        r \<leftarrow> hasMinimumPermission S a login;
        (case r of
           Inl e \<Rightarrow> any_team S a login (az_teams a) (Some e)
         | Inr ok \<Rightarrow> if ok then ret (Inr True) else any_team S a login (az_teams a) None)
      })"

definition authorizationConfigured :: "authorizer \<Rightarrow> bool" where
  "authorizationConfigured a \<longleftrightarrow> az_users a \<noteq> [] \<or> az_teams a \<noteq> [] \<or> az_permission a \<noteq> []"

type_synonym auth_cache = "(string \<times> bool) list"

definition isAuthorizedLogin ::
  "spawner_env \<Rightarrow> authorizer \<Rightarrow> auth_cache \<Rightarrow> string \<Rightarrow> ((go_err + bool) \<times> auth_cache) io" where
  "isAuthorizedLogin S a cache user =
     (if \<not> authorizationConfigured a then ret (Inr True, cache)
      else (let login = normalizeGitHubLogin user
            in if login = [] then ret (Inr False, cache)
               else if login \<in> set (az_users a) then ret (Inr True, cache)
               else (case map_of cache login of
                  Some ok \<Rightarrow> ret (Inr ok, cache)
                | None \<Rightarrow> do {
                    r \<leftarrow> authorizeLogin S a login;
                    ret (r, case r of Inl e \<Rightarrow> cache | Inr ok \<Rightarrow> map_put login ok cache)
                  })))"

section \<open>The comment policy\<close>

definition containsCommand :: "string \<Rightarrow> string \<Rightarrow> bool" where
  "containsCommand body cmd \<longleftrightarrow> list_ex (\<lambda>line. trim_space line = cmd) (split_lines body)"

definition containsAnyCommand :: "string \<Rightarrow> string list \<Rightarrow> bool" where
  "containsAnyCommand body cmds \<longleftrightarrow> list_ex (containsCommand body) cmds"

record comment_match =
  mt_found :: bool
  mt_has_time :: bool
  mt_time :: int
  mt_index :: int

definition zero_match :: comment_match where
  "zero_match = \<lparr>mt_found = False, mt_has_time = False, mt_time = zero_time, mt_index = 0\<rparr>"

definition add_match :: "env \<Rightarrow> comment_match \<Rightarrow> int \<Rightarrow> github_comment \<Rightarrow> comment_match" where
  "add_match E m i comment =
     (case l_parse_time E (gc_created_at comment) of
        None \<Rightarrow> if mt_has_time m then m\<lparr>mt_found := True\<rparr> else m\<lparr>mt_found := True, mt_index := i\<rparr>
      | Some t \<Rightarrow>
          if \<not> mt_has_time m \<or> mt_time m < t \<or> (t = mt_time m \<and> mt_index m < i)
          then m\<lparr>mt_found := True, mt_has_time := True, mt_time := t, mt_index := i\<rparr>
          else m\<lparr>mt_found := True\<rparr>)"

fun scan_comments ::
  "env \<Rightarrow> spawner_env \<Rightarrow> authorizer \<Rightarrow> auth_cache \<Rightarrow> string list \<Rightarrow> comment_match \<Rightarrow> int \<Rightarrow>
   github_comment list \<Rightarrow> ((go_err + comment_match) \<times> auth_cache) io" where
  "scan_comments E S a cache commands m i [] = ret (Inr m, cache)"
| "scan_comments E S a cache commands m i (comment # rest) =
     (if \<not> containsAnyCommand (gc_body comment) commands
      then scan_comments E S a cache commands m (i + 1) rest
      else do {
        (r, cache') \<leftarrow> isAuthorizedLogin S a cache (gc_user comment);
        (case r of
           Inl e \<Rightarrow> ret (Inl e, cache')
         | Inr ok \<Rightarrow>
             scan_comments E S a cache' commands (if ok then add_match E m i comment else m) (i + 1) rest)
      })"

definition latestAuthorizedCommentMatch ::
  "env \<Rightarrow> spawner_env \<Rightarrow> authorizer \<Rightarrow> auth_cache \<Rightarrow> github_comment list \<Rightarrow> string list \<Rightarrow>
   ((go_err + comment_match) \<times> auth_cache) io" where
  "latestAuthorizedCommentMatch E S a cache comments commands =
     scan_comments E S a cache commands (zero_match\<lparr>mt_index := - 1\<rparr>) 0 comments"

definition compareGitHubCommentMatches :: "comment_match \<Rightarrow> comment_match \<Rightarrow> int" where
  "compareGitHubCommentMatches left right =
     (if mt_found left \<and> mt_found right
      then if mt_has_time left \<and> mt_has_time right \<and> mt_time right < mt_time left then 1
           else if mt_has_time left \<and> mt_has_time right \<and> mt_time left < mt_time right then -1
           else if mt_index right < mt_index left then 1
           else if mt_index left < mt_index right then -1 else 0
      else if mt_found left then 1 else if mt_found right then -1 else 0)"

text \<open>The decision, once the body and the comments have been looked at.\<close>

definition policy_decision ::
  "comment_policy_spec \<Rightarrow> bool \<Rightarrow> bool \<Rightarrow> comment_match \<Rightarrow> comment_match \<Rightarrow> bool \<times> int" where
  "policy_decision policy bodyMatchesTrigger bodyMatchesExclude triggerMatch excludeMatch =
     (if cp_trigger policy \<noteq> [] \<and> cp_exclude policy = []
      then if mt_found triggerMatch then (True, mt_time triggerMatch) else (bodyMatchesTrigger, zero_time)
      else if cp_exclude policy \<noteq> [] \<and> cp_trigger policy = []
      then (\<not> (mt_found excludeMatch \<or> bodyMatchesExclude), zero_time)
      else (let c = compareGitHubCommentMatches triggerMatch excludeMatch
            in if c = 1 then (True, mt_time triggerMatch)
               else if c = -1 then (False, zero_time)
               else if bodyMatchesExclude then (False, zero_time)
               else (bodyMatchesTrigger, zero_time)))"

definition evaluateGitHubCommentPolicy ::
  "env \<Rightarrow> spawner_env \<Rightarrow> string \<Rightarrow> string \<Rightarrow> github_comment list \<Rightarrow> comment_policy_spec \<Rightarrow> authorizer \<Rightarrow>
   auth_cache \<Rightarrow> ((go_err + (bool \<times> int)) \<times> auth_cache) io" where
  "evaluateGitHubCommentPolicy E S body bodyActor comments policy a cache =
     (if cp_trigger policy = [] \<and> cp_exclude policy = [] then ret (Inr (True, zero_time), cache)
      else (let bodyHasTrigger = (cp_trigger policy \<noteq> [] \<and> containsCommand body (cp_trigger policy));
                bodyHasExclude = containsAnyCommand body (cp_exclude policy)
            in do {
              (r, cache1) \<leftarrow> (if bodyHasTrigger \<or> bodyHasExclude then isAuthorizedLogin S a cache bodyActor
                              else ret (Inr False, cache));
              (case r of
                 Inl e \<Rightarrow> ret (Inl e, cache1)
               | Inr ok \<Rightarrow> do {
                   (t, cache2) \<leftarrow> (if cp_trigger policy = [] then ret (Inr zero_match, cache1)
                                   else latestAuthorizedCommentMatch E S a cache1 comments [cp_trigger policy]);
                   (case t of
                      Inl e \<Rightarrow> ret (Inl e, cache2)
                    | Inr triggerMatch \<Rightarrow> do {
                        (x, cache3) \<leftarrow> (if cp_exclude policy = [] then ret (Inr zero_match, cache2)
                                        else latestAuthorizedCommentMatch E S a cache2 comments (cp_exclude policy));
                        (case x of
                           Inl e \<Rightarrow> ret (Inl e, cache3)
                         | Inr excludeMatch \<Rightarrow>
                             ret (Inr (policy_decision policy (ok \<and> bodyHasTrigger) (ok \<and> bodyHasExclude)
                                         triggerMatch excludeMatch), cache3))
                      })
                 })
            }))"

end
