(* ===== verification/GitHubSource.thy ===== *)
theory GitHubSource
  imports Sources
begin

text \<open>
  Discovery of GitHub issues (\<^verbatim>\<open>internal/source/github.go\<close>) and pull requests
  (\<^verbatim>\<open>internal/source/github_pr.go\<close>): the pages that are fetched, the filters and the items that
  are made of what is left. A loop \<^verbatim>\<open>for page := 0; pageURL != "" && page < maxPages; page++\<close> is a
  recursion over the pages that may still be fetched.
\<close>

section \<open>Pages\<close>

definition maxPages :: nat where "maxPages = 10"

text \<open>
  \<^verbatim>\<open>parseNextLink\<close>: the first place where \<^verbatim>\<open><([^>]+)>;\s*rel="next"\<close> matches. The group cannot
  pass a \<^verbatim>\<open>>\<close>, so it ends at the first one.
\<close>

definition regex_space :: "char \<Rightarrow> bool" where
  "regex_space c \<longleftrightarrow> c \<in> {CHR 0x09, CHR 0x0A, CHR 0x0C, CHR 0x0D, CHR 0x20}"

definition rel_next :: string where
  "rel_next = ''rel='' @ [CHR 0x22] @ ''next'' @ [CHR 0x22]"

definition next_link_here :: "string \<Rightarrow> string option" where
  "next_link_here s =
     (let target = takeWhile (\<lambda>c. c \<noteq> CHR ''>'') s; rest = drop (length target) s
      in if target \<noteq> [] \<and> prefix ''>;'' rest \<and> prefix rel_next (dropWhile regex_space (drop 2 rest))
         then Some target else None)"

fun parseNextLink :: "string \<Rightarrow> string" where
  "parseNextLink [] = []"
| "parseNextLink (c # s) =
     (if c = CHR ''<'' then (case next_link_here s of Some u \<Rightarrow> u | None \<Rightarrow> parseNextLink s)
      else parseNextLink s)"

definition fetch_page ::
  "spawner_env \<Rightarrow> string \<Rightarrow> (go_err \<Rightarrow> go_err) \<Rightarrow> string \<Rightarrow> (string \<Rightarrow> go_err + 'a list) \<Rightarrow> string \<Rightarrow>
   (go_err + ('a list \<times> string)) io" where
  "fetch_page S token transport decoding decode url = do {
     r \<leftarrow> http_get S url token;
     ret (case r of
        Inl e \<Rightarrow> Inl (transport e)
      | Inr resp \<Rightarrow>
          if hr_status resp \<noteq> 200 then Inl (api_status_error resp)
          else (case decode (hr_body resp) of
             Inl e \<Rightarrow> Inl (wrap_err decoding e)
           | Inr xs \<Rightarrow> Inr (xs, parseNextLink (hr_link resp))))
   }"

text \<open>\<^verbatim>\<open>fetchGitHubPage\<close>, which all but the issues and their comments use.\<close>

definition fetchGitHubPage ::
  "spawner_env \<Rightarrow> string \<Rightarrow> (string \<Rightarrow> go_err + 'a list) \<Rightarrow> string \<Rightarrow> (go_err + ('a list \<times> string)) io" where
  "fetchGitHubPage S token decode url = fetch_page S token id ''decoding response'' decode url"

text \<open>The loop also returns the URL it stopped at, which \<^verbatim>\<open>fetchPRFiles\<close> looks at.\<close>

fun fetch_pages ::
  "(string \<Rightarrow> (go_err + ('a list \<times> string)) io) \<Rightarrow> nat \<Rightarrow> string \<Rightarrow> (go_err + ('a list \<times> string)) io" where
  "fetch_pages fetch 0 url = ret (Inr ([], url))"
| "fetch_pages fetch (Suc n) url =
     (if url = [] then ret (Inr ([], url))
      else do {
        r \<leftarrow> fetch url;
        (case r of
           Inl e \<Rightarrow> ret (Inl e)
         | Inr (xs, next_url) \<Rightarrow> do {
             r' \<leftarrow> fetch_pages fetch n next_url;
             ret (case r' of Inl e \<Rightarrow> Inl e | Inr (ys, last_url) \<Rightarrow> Inr (xs @ ys, last_url))
           })
      })"

definition fetch_all ::
  "(string \<Rightarrow> (go_err + ('a list \<times> string)) io) \<Rightarrow> (go_err \<Rightarrow> go_err) \<Rightarrow> string \<Rightarrow> (go_err + 'a list) io" where
  "fetch_all fetch context url = do {
     r \<leftarrow> fetch_pages fetch maxPages url;
     ret (case r of Inl e \<Rightarrow> Inl (context e) | Inr (xs, u) \<Rightarrow> Inr xs)
   }"

section \<open>Comments in a prompt\<close>

definition maxCommentBytes :: int where "maxCommentBytes = 65536"

text \<open>The bodies from the last one back, as long as they fit.\<close>

fun keep_recent :: "int \<Rightarrow> string list \<Rightarrow> string list" where
  "keep_recent remaining [] = []"
| "keep_recent remaining (p # ps) =
     (if remaining - int (length p) < 0 then [] else p # keep_recent (remaining - int (length p)) ps)"

definition comment_separator :: string where
  "comment_separator = [CHR 0x0A] @ ''---'' @ [CHR 0x0A]"

definition concatBodies :: "string list \<Rightarrow> string" where
  "concatBodies parts =
     (if int (sum_list (map length parts)) \<le> maxCommentBytes then str_join parts comment_separator
      else str_join (rev (keep_recent maxCommentBytes (rev parts))) comment_separator)"

definition concatCommentBodies :: "github_comment list \<Rightarrow> string" where
  "concatCommentBodies comments = concatBodies (map gc_body comments)"

section \<open>Issues\<close>

record github_source =
  gs_owner :: string
  gs_repo :: string
  gs_types :: "string list"
  gs_labels :: "string list"
  gs_exclude_labels :: "string list"
  gs_state :: string
  gs_assignee :: string
  gs_author :: string
  gs_exclude_authors :: "string list"
  gs_token :: string
  gs_base_url :: string
  gs_policy :: comment_policy_spec

definition base_url :: "string \<Rightarrow> string" where
  "base_url u = (if u = [] then defaultBaseURL else u)"

definition buildIssuesURL :: "spawner_env \<Rightarrow> github_source \<Rightarrow> string" where
  "buildIssuesURL S s =
     base_url (gs_base_url s) @ ''/repos/'' @ gs_owner s @ ''/'' @ gs_repo s @ ''/issues?'' @ l_query S
       ([(''per_page'', ''100''), (''state'', if gs_state s = [] then ''open'' else gs_state s)]
        @ (if gs_labels s = [] then [] else [(''labels'', str_join (gs_labels s) '','')])
        @ (if gs_assignee s = [] then [] else [(''assignee'', gs_assignee s)])
        @ (if gs_author s = [] then [] else [(''creator'', gs_author s)]))"

definition filterItems :: "github_source \<Rightarrow> github_issue list \<Rightarrow> github_issue list" where
  "filterItems s issues =
     (let types = (if gs_types s = [] then [''issues''] else gs_types s)
      in filter (\<lambda>issue. (if is_pull_request issue then ''pulls'' else ''issues'') \<in> set types
                   \<and> is_user issue \<notin> set (gs_exclude_authors s)
                   \<and> \<not> list_ex (\<lambda>l. l \<in> set (gs_exclude_labels s)) (is_labels issue)) issues)"

definition fetchComments ::
  "spawner_env \<Rightarrow> string \<Rightarrow> string \<Rightarrow> string \<Rightarrow> string \<Rightarrow> int \<Rightarrow> (go_err + github_comment list) io" where
  "fetchComments S base owner repo token number =
     fetch_all (fetch_page S token (wrap_err ''fetching comments'') ''decoding comments'' (l_comments S)) id
       (base_url base @ ''/repos/'' @ owner @ ''/'' @ repo @ ''/issues/'' @ itoa number @ ''/comments?per_page=100'')"

definition needs_comment_filter :: "comment_policy_spec \<Rightarrow> bool" where
  "needs_comment_filter p \<longleftrightarrow> cp_trigger p \<noteq> [] \<or> cp_exclude p \<noteq> []"

text \<open>
  The policy applied to one item: whether it is kept and its trigger time. There is an
  authorizer exactly when the policy is needed.
\<close>

definition apply_policy ::
  "env \<Rightarrow> spawner_env \<Rightarrow> string \<Rightarrow> string \<Rightarrow> string \<Rightarrow> github_comment list \<Rightarrow> comment_policy_spec \<Rightarrow>
   authorizer option \<Rightarrow> auth_cache \<Rightarrow> ((go_err + (bool \<times> int)) \<times> auth_cache) io" where
  "apply_policy E S what body user comments policy a cache =
     (case a of
        None \<Rightarrow> ret (Inr (True, zero_time), cache)
      | Some a \<Rightarrow> do {
          (r, cache') \<leftarrow> evaluateGitHubCommentPolicy E S body user comments policy a cache;
          ret (case r of Inl e \<Rightarrow> Inl (wrap_err (''evaluating comment policy for '' @ what) e) | Inr d \<Rightarrow> Inr d,
               cache')
        })"

definition issue_item :: "github_source \<Rightarrow> github_issue \<Rightarrow> github_comment list \<Rightarrow> int \<Rightarrow> work_item" where
  "issue_item s issue comments triggerTime =
     blank_item\<lparr>wi_id := itoa (is_number issue), wi_number := is_number issue, wi_title := is_title issue,
       wi_body := is_body issue, wi_url := is_url issue, wi_labels := is_labels issue,
       wi_comments := concatCommentBodies comments,
       wi_kind := (if is_pull_request issue then ''PR'' else ''Issue''),
       wi_trigger := (if cp_trigger (gs_policy s) = [] then zero_time else triggerTime)\<rparr>"

fun issue_items ::
  "env \<Rightarrow> spawner_env \<Rightarrow> github_source \<Rightarrow> authorizer option \<Rightarrow> auth_cache \<Rightarrow> github_issue list \<Rightarrow>
   (go_err + work_item list) io" where
  "issue_items E S s a cache [] = ret (Inr [])"
| "issue_items E S s a cache (issue # rest) = do {
     r \<leftarrow> fetchComments S (gs_base_url s) (gs_owner s) (gs_repo s) (gs_token s) (is_number issue);
     (case r of
        Inl e \<Rightarrow> ret (Inl (wrap_err (''fetching comments for issue #'' @ itoa (is_number issue)) e))
      | Inr comments \<Rightarrow> do {
          (d, cache') \<leftarrow> apply_policy E S (''issue #'' @ itoa (is_number issue)) (is_body issue) (is_user issue)
                            comments (gs_policy s) a cache;
          (case d of
             Inl e \<Rightarrow> ret (Inl e)
           | Inr (allowed, triggerTime) \<Rightarrow> do {
               r' \<leftarrow> issue_items E S s a cache' rest;
               ret (case r' of
                  Inl e \<Rightarrow> Inl e
                | Inr items \<Rightarrow> Inr (if allowed then issue_item s issue comments triggerTime # items else items))
             })
        })
   }"

definition make_authorizer :: "string \<Rightarrow> string \<Rightarrow> string \<Rightarrow> string \<Rightarrow> comment_policy_spec \<Rightarrow> go_err + authorizer option" where
  "make_authorizer owner repo base token policy =
     (if needs_comment_filter policy
      then (case newGitHubCommentAuthorizer owner repo (base_url base) token policy of
              Inl e \<Rightarrow> Inl e | Inr a \<Rightarrow> Inr (Some a))
      else Inr None)"

definition discover_issues :: "env \<Rightarrow> spawner_env \<Rightarrow> github_source \<Rightarrow> (go_err + work_item list) io" where
  "discover_issues E S s = do {
     r \<leftarrow> fetch_all (fetch_page S (gs_token s) (wrap_err ''fetching issues'') ''decoding issues'' (l_issues S)) id
            (buildIssuesURL S s);
     (case r of
        Inl e \<Rightarrow> ret (Inl e)
      | Inr issues \<Rightarrow>
          (case make_authorizer (gs_owner s) (gs_repo s) (gs_base_url s) (gs_token s) (gs_policy s) of
             Inl e \<Rightarrow> ret (Inl e)
           | Inr a \<Rightarrow> issue_items E S s a [] (filterItems s issues)))
   }"

section \<open>Pull requests\<close>

subsection \<open>Changed files\<close>

definition MatchesFilePaths :: "spawner_env \<Rightarrow> string list \<Rightarrow> string list \<Rightarrow> string list \<Rightarrow> bool" where
  "MatchesFilePaths S files included excluded =
     (if included = [] \<and> excluded = [] then True
      else if files = [] then False
      else (let remaining = filter (\<lambda>f. \<not> list_ex (\<lambda>p. l_glob S p f) excluded) files
            in if remaining = [] then False
               else if included = [] then True
               else list_ex (\<lambda>f. list_ex (\<lambda>p. l_glob S p f) included) remaining))"

subsection \<open>Reviews\<close>

definition normalizePullRequestReviewState :: "string \<Rightarrow> string" where
  "normalizePullRequestReviewState state =
     (let s = to_lower (trim_space state)
      in if s = ''approved'' then ''approved''
         else if s = ''changes_requested'' then ''changes_requested'' else [])"

definition add_review ::
  "env \<Rightarrow> string \<Rightarrow> (string \<times> string \<times> int) list \<Rightarrow> github_review \<Rightarrow> (string \<times> string \<times> int) list" where
  "add_review E headSHA latest review =
     (let state = normalizePullRequestReviewState (rv_state review); reviewer = normalizeGitHubLogin (rv_user review)
      in if state = [] \<or> rv_commit review \<noteq> headSHA \<or> reviewer = [] then latest
         else (case l_parse_time E (rv_submitted_at review) of
            None \<Rightarrow> latest
          | Some t \<Rightarrow>
              (case map_of latest reviewer of
                 None \<Rightarrow> map_put reviewer (state, t) latest
               | Some (state', t') \<Rightarrow> if t' < t then map_put reviewer (state, t) latest else latest)))"

definition latest_in_state :: "string \<Rightarrow> (string \<times> string \<times> int) list \<Rightarrow> int" where
  "latest_in_state state latest =
     fold (\<lambda>(reviewer, s, t) acc. if s = state \<and> acc < t then t else acc) latest zero_time"

definition aggregatePullRequestReviewState :: "env \<Rightarrow> github_review list \<Rightarrow> string \<Rightarrow> string \<times> int" where
  "aggregatePullRequestReviewState E reviews headSHA =
     (let latest = foldl (add_review E headSHA) [] reviews;
          changes = latest_in_state ''changes_requested'' latest;
          approved = latest_in_state ''approved'' latest
      in if changes \<noteq> zero_time then (''changes_requested'', changes)
         else if approved \<noteq> zero_time then (''approved'', approved)
         else ([], zero_time))"

definition matchesDesiredReviewState :: "string \<Rightarrow> string \<Rightarrow> bool" where
  "matchesDesiredReviewState desired actual \<longleftrightarrow> desired = ''any'' \<or> actual = desired"

subsection \<open>Comments\<close>

definition mergeComments :: "github_comment list \<Rightarrow> github_review_comment list \<Rightarrow> github_comment list" where
  "mergeComments conversation review =
     conversation @ map (\<lambda>rc. \<lparr>gc_body = rc_body rc, gc_created_at = rc_created_at rc, gc_user = rc_user rc\<rparr>) review"

definition appendReviewBodies :: "github_comment list \<Rightarrow> github_review list \<Rightarrow> github_comment list" where
  "appendReviewBodies comments reviews =
     comments @ map (\<lambda>r. \<lparr>gc_body = trim_space (rv_body r), gc_created_at = rv_submitted_at r, gc_user = rv_user r\<rparr>)
                  (filter (\<lambda>r. trim_space (rv_body r) \<noteq> []) reviews)"

definition filterPullRequestCommentsForCommit ::
  "github_review_comment list \<Rightarrow> string \<Rightarrow> github_review_comment list" where
  "filterPullRequestCommentsForCommit comments commitID = filter (\<lambda>c. rc_commit c = commitID) comments"

definition review_comment_part :: "github_review_comment \<Rightarrow> string" where
  "review_comment_part c =
     (let body = trim_space (rc_body c); path = trim_space (rc_path c);
          location = (if 0 < rc_line c then path @ '':'' @ itoa (rc_line c) else path)
      in if location = [] then body else location @ [CHR 0x0A] @ body)"

definition concatPullRequestReviewComments :: "github_review_comment list \<Rightarrow> string" where
  "concatPullRequestReviewComments comments =
     concatBodies (map review_comment_part (filter (\<lambda>c. trim_space (rc_body c) \<noteq> []) comments))"

subsection \<open>Discovery\<close>

record pull_source =
  pq_owner :: string
  pq_repo :: string
  pq_labels :: "string list"
  pq_exclude_labels :: "string list"
  pq_state :: string
  pq_author :: string
  pq_exclude_authors :: "string list"
  pq_token :: string
  pq_base_url :: string
  pq_review_state :: string
  pq_policy :: comment_policy_spec
  pq_draft :: "bool option"
  pq_include :: "string list"
  pq_exclude :: "string list"

definition resolvedReviewState :: "pull_source \<Rightarrow> string" where
  "resolvedReviewState s = (if pq_review_state s = [] then ''any'' else to_lower (pq_review_state s))"

definition resolveTriggerTime :: "pull_source \<Rightarrow> int \<Rightarrow> int \<Rightarrow> int" where
  "resolveTriggerTime s reviewTriggerTime commentTriggerTime =
     (if resolvedReviewState s \<noteq> ''any'' \<and> commentTriggerTime < reviewTriggerTime
      then reviewTriggerTime else commentTriggerTime)"

definition filterPullRequests :: "pull_source \<Rightarrow> github_pull_request list \<Rightarrow> github_pull_request list" where
  "filterPullRequests s prs =
     filter (\<lambda>pr. (pq_author s = [] \<or> pr_user pr = pq_author s)
               \<and> pr_user pr \<notin> set (pq_exclude_authors s)
               \<and> (case pq_draft s of None \<Rightarrow> True | Some d \<Rightarrow> pr_draft pr = d)
               \<and> \<not> list_ex (\<lambda>l. l \<in> set (pq_exclude_labels s)) (pr_labels pr)
               \<and> list_all (\<lambda>l. l \<in> set (pr_labels pr)) (pq_labels s)) prs"

definition pulls_url :: "pull_source \<Rightarrow> string" where
  "pulls_url s = base_url (pq_base_url s) @ ''/repos/'' @ pq_owner s @ ''/'' @ pq_repo s @ ''/pulls''"

definition buildPullRequestsURL :: "spawner_env \<Rightarrow> pull_source \<Rightarrow> string" where
  "buildPullRequestsURL S s =
     pulls_url s @ ''?'' @ l_query S
       [(''per_page'', ''100''), (''state'', if pq_state s = [] then ''open'' else pq_state s),
        (''sort'', ''updated''), (''direction'', ''desc'')]"

definition pull_part_url :: "pull_source \<Rightarrow> int \<Rightarrow> string \<Rightarrow> string" where
  "pull_part_url s number part = pulls_url s @ ''/'' @ itoa number @ ''/'' @ part @ ''?per_page=100''"

definition fetchPRFiles :: "spawner_env \<Rightarrow> pull_source \<Rightarrow> int \<Rightarrow> (go_err + string list) io" where
  "fetchPRFiles S s number = do {
     r \<leftarrow> fetch_pages (fetchGitHubPage S (pq_token s) (l_files S)) maxPages (pull_part_url s number ''files'');
     ret (case r of
        Inl e \<Rightarrow> Inl (wrap_err ''fetching PR files'' e)
      | Inr (files, u) \<Rightarrow>
          if u \<noteq> []
          then Inl (new_err (''PR #'' @ itoa number @ '' has more than '' @ itoa (int maxPages)
                 @ '' pages of changed files; file list truncated, refusing to evaluate filters on incomplete data''))
          else Inr files)
   }"

fun filter_by_files ::
  "spawner_env \<Rightarrow> pull_source \<Rightarrow> github_pull_request list \<Rightarrow> (go_err + github_pull_request list) io" where
  "filter_by_files S s [] = ret (Inr [])"
| "filter_by_files S s (pr # prs) = do {
     r \<leftarrow> fetchPRFiles S s (pr_number pr);
     (case r of
        Inl e \<Rightarrow> ret (Inl (wrap_err (''fetching files for PR #'' @ itoa (pr_number pr)) e))
      | Inr files \<Rightarrow> do {
          r' \<leftarrow> filter_by_files S s prs;
          ret (case r' of
             Inl e \<Rightarrow> Inl e
           | Inr kept \<Rightarrow>
               Inr (if MatchesFilePaths S files (pq_include s) (pq_exclude s) then pr # kept else kept))
        })
   }"

definition pull_item ::
  "pull_source \<Rightarrow> github_pull_request \<Rightarrow> string \<Rightarrow> github_comment list \<Rightarrow> github_review_comment list \<Rightarrow>
   int \<Rightarrow> int \<Rightarrow> work_item" where
  "pull_item s pr reviewState conversation reviewComments reviewTime commentTime =
     blank_item\<lparr>wi_id := itoa (pr_number pr), wi_number := pr_number pr, wi_title := pr_title pr,
       wi_body := pr_body pr, wi_url := pr_url pr, wi_labels := pr_labels pr,
       wi_comments := concatCommentBodies conversation, wi_kind := ''PR'', wi_branch := pr_ref pr,
       wi_head_sha := pr_sha pr, wi_review_state := reviewState,
       wi_review_comments := concatPullRequestReviewComments
         (filterPullRequestCommentsForCommit reviewComments (pr_sha pr)),
       wi_trigger := resolveTriggerTime s reviewTime commentTime\<rparr>"

fun pull_items ::
  "env \<Rightarrow> spawner_env \<Rightarrow> pull_source \<Rightarrow> authorizer option \<Rightarrow> auth_cache \<Rightarrow> github_pull_request list \<Rightarrow>
   (go_err + work_item list) io" where
  "pull_items E S s a cache [] = ret (Inr [])"
| "pull_items E S s a cache (pr # rest) =
     (let number = itoa (pr_number pr)
      in do {
        rv \<leftarrow> fetch_all (fetchGitHubPage S (pq_token s) (l_reviews S)) (wrap_err ''fetching reviews'')
                (pull_part_url s (pr_number pr) ''reviews'');
        (case rv of
           Inl e \<Rightarrow> ret (Inl (wrap_err (''fetching reviews for pull request #'' @ number) e))
         | Inr reviews \<Rightarrow>
             (let (reviewState, reviewTime) = aggregatePullRequestReviewState E reviews (pr_sha pr)
              in if \<not> matchesDesiredReviewState (resolvedReviewState s) reviewState
                 then pull_items E S s a cache rest
                 else do {
                   cc \<leftarrow> fetchComments S (pq_base_url s) (pq_owner s) (pq_repo s) (pq_token s) (pr_number pr);
                   (case cc of
                      Inl e \<Rightarrow> ret (Inl (wrap_err (''fetching comments for pull request #'' @ number) e))
                    | Inr conversation \<Rightarrow> do {
                        rc \<leftarrow> fetch_all (fetchGitHubPage S (pq_token s) (l_review_comments S))
                                (wrap_err ''fetching review comments'')
                                (pull_part_url s (pr_number pr) ''comments'');
                        (case rc of
                           Inl e \<Rightarrow> ret (Inl (wrap_err (''fetching review comments for pull request #'' @ number) e))
                         | Inr reviewComments \<Rightarrow> do {
                             (d, cache') \<leftarrow> apply_policy E S (''pull request #'' @ number) (pr_body pr) (pr_user pr)
                                (appendReviewBodies (mergeComments conversation reviewComments) reviews)
                                (pq_policy s) a cache;
                             (case d of
                                Inl e \<Rightarrow> ret (Inl e)
                              | Inr (allowed, commentTime) \<Rightarrow> do {
                                  r' \<leftarrow> pull_items E S s a cache' rest;
                                  ret (case r' of
                                     Inl e \<Rightarrow> Inl e
                                   | Inr items \<Rightarrow>
                                       Inr (if allowed
                                            then pull_item s pr reviewState conversation reviewComments
                                                   reviewTime commentTime # items
                                            else items))
                                })
                           })
                      })
                 }))
      })"

definition discover_pulls :: "env \<Rightarrow> spawner_env \<Rightarrow> pull_source \<Rightarrow> (go_err + work_item list) io" where
  "discover_pulls E S s = do {
     r \<leftarrow> fetch_all (fetchGitHubPage S (pq_token s) (l_pulls S)) (wrap_err ''fetching pull requests'')
            (buildPullRequestsURL S s);
     (case r of
        Inl e \<Rightarrow> ret (Inl e)
      | Inr prs \<Rightarrow> do {
          f \<leftarrow> (if pq_include s \<noteq> [] \<or> pq_exclude s \<noteq> [] then filter_by_files S s (filterPullRequests s prs)
                else ret (Inr (filterPullRequests s prs)));
          (case f of
             Inl e \<Rightarrow> ret (Inl e)
           | Inr kept \<Rightarrow>
               (case make_authorizer (pq_owner s) (pq_repo s) (pq_base_url s) (pq_token s) (pq_policy s) of
                  Inl e \<Rightarrow> ret (Inl e)
                | Inr a \<Rightarrow> pull_items E S s a [] kept))
        })
   }"

end
