(* ===== verification/JiraSource.thy ===== *)
theory JiraSource
  imports Sources
begin

text \<open>
  Discovery of Jira issues, \<^verbatim>\<open>internal/source/jira.go\<close>: the query, the two kinds of pagination
  with the fallback from the one to the other, and the text of comments, which Jira Cloud sends
  as a tree (the Atlassian Document Format).
\<close>

definition maxJiraResults :: int where "maxJiraResults = 100"
definition maxJiraPages :: nat where "maxJiraPages = 10"
definition maxJiraCommentBytes :: int where "maxJiraCommentBytes = 65536"

record jira_source =
  js_base_url :: string
  js_project :: string
  js_jql :: string
  js_user :: string
  js_token :: string

section \<open>Comments\<close>

text \<open>
  \<^verbatim>\<open>extractADFText\<close>, on values: a child that is no object gives no text. The texts of the
  children are joined by newlines, empty texts left out.
\<close>

lemma json_member_size:
  assumes "map_of node k = Some (JArr content)" and "x \<in> set content"
  shows "size x < size (JObj node)"
proof -
  have "size x \<le> size_list size content" using assms(2) by (simp add: size_list_estimation')
  moreover have "size (JArr content) \<le> size_list (size_prod (\<lambda>_. 0) size) node"
    using map_of_SomeD [OF assms(1)] by (force intro: size_list_estimation')
  ultimately show ?thesis by simp
qed

function extractADFText :: "json \<Rightarrow> string" where
  "extractADFText (JObj node) =
     (case map_of node ''text'' of
        Some (JStr text) \<Rightarrow> text
      | _ \<Rightarrow>
          (case map_of node ''content'' of
             Some (JArr content) \<Rightarrow>
               str_join (filter (\<lambda>t. t \<noteq> []) (map extractADFText content)) [CHR 0x0A]
           | _ \<Rightarrow> []))"
| "extractADFText (JStr s) = []"
| "extractADFText (JArr xs) = []"
| "extractADFText (JNum n) = []"
| "extractADFText (JBool b) = []"
| "extractADFText JNull = []"
  by pat_completeness auto
termination
  by (relation "measure size") (auto dest: json_member_size)

definition commentBodyToString :: "json \<Rightarrow> string" where
  "commentBodyToString body = (case body of JStr s \<Rightarrow> s | JObj node \<Rightarrow> extractADFText (JObj node) | _ \<Rightarrow> [])"

text \<open>The first bodies, as long as they fit together; the first that does not fit ends the loop.\<close>

fun keep_first :: "int \<Rightarrow> string list \<Rightarrow> string list" where
  "keep_first used [] = []"
| "keep_first used (body # rest) =
     (if body = [] then keep_first used rest
      else if maxJiraCommentBytes < used + int (length body) then []
      else body # keep_first (used + int (length body)) rest)"

definition extractComments :: "json list option \<Rightarrow> string" where
  "extractComments comments =
     (case comments of
        None \<Rightarrow> []
      | Some bodies \<Rightarrow> str_join (keep_first 0 (map commentBodyToString bodies)) ([CHR 0x0A] @ ''---'' @ [CHR 0x0A]))"

definition extractIssueNumber :: "string \<Rightarrow> int" where
  "extractIssueNumber key =
     (case str_cut key ''-'' of
        None \<Rightarrow> 0
      | Some (_, n) \<Rightarrow> (case parse_int n of Some v \<Rightarrow> v | None \<Rightarrow> 0))"

section \<open>The query\<close>

definition upper_char :: "char \<Rightarrow> char" where
  "upper_char c = (if byte_in 97 122 c then char_of ((of_char c :: nat) - 32) else c)"

definition splitJQLOrderBy :: "string \<Rightarrow> string \<times> string" where
  "splitJQLOrderBy jql =
     (case str_last_index ''ORDER BY'' (map upper_char jql) of
        None \<Rightarrow> (trim_space jql, [])
      | Some idx \<Rightarrow> (trim_space (take idx jql), trim_space (drop idx jql)))"

definition buildJQL :: "jira_source \<Rightarrow> string" where
  "buildJQL s =
     (if js_jql s = [] then ''project = '' @ js_project s
      else (let (cond, orderBy) = splitJQLOrderBy (js_jql s)
            in ''project = '' @ js_project s @ '' AND ('' @ cond @ '')''
               @ (if orderBy = [] then [] else '' '' @ orderBy)))"

section \<open>Pages\<close>

text \<open>A page, or an error that tells whether it is Jira's answer 404.\<close>

definition jira_auth :: "jira_source \<Rightarrow> string" where
  "jira_auth s =
     (if js_token s = [] then []
      else if js_user s = [] then ''Bearer '' @ js_token s
      else ''Basic '' @ js_user s @ '':'' @ js_token s)"

definition jira_page_url :: "spawner_env \<Rightarrow> jira_source \<Rightarrow> string \<Rightarrow> int \<Rightarrow> bool \<Rightarrow> string" where
  "jira_page_url S s nextPageToken startAt legacy =
     trim_right_set ''/'' (js_base_url s)
     @ (if legacy then ''/rest/api/2/search'' else ''/rest/api/2/search/jql'') @ ''?'' @ l_query S
       ([(''jql'', buildJQL s), (''maxResults'', itoa maxJiraResults)]
        @ (if legacy then [(''startAt'', itoa startAt)]
           else if nextPageToken = [] then [] else [(''nextPageToken'', nextPageToken)])
        @ [(''fields'', ''summary,status,labels,comment,issuetype'')])"

definition fetch_jira_page ::
  "spawner_env \<Rightarrow> jira_source \<Rightarrow> string \<Rightarrow> int \<Rightarrow> bool \<Rightarrow> ((go_err \<times> bool) + jira_page) io" where
  "fetch_jira_page S s nextPageToken startAt legacy = do {
     r \<leftarrow> http_get S (jira_page_url S s nextPageToken startAt legacy) (jira_auth s);
     ret (case r of
        Inl e \<Rightarrow> Inl (wrap_err ''fetching issues'' e, False)
      | Inr resp \<Rightarrow>
          if hr_status resp \<noteq> 200
          then Inl (new_err (''Jira API returned status '' @ itoa (hr_status resp) @ '': ''
                 @ take 1024 (hr_body resp)), hr_status resp = 404)
          else (case l_jira_page S (hr_body resp) of
             Inl e \<Rightarrow> Inl (wrap_err ''decoding response'' e, False)
           | Inr p \<Rightarrow> Inr p))
   }"

text \<open>
  One turn of the loop fetches a page, a second time over the old endpoint when the new one is
  missing, and says whether the old endpoint is used from here on and where it started.
\<close>

definition jira_turn ::
  "spawner_env \<Rightarrow> jira_source \<Rightarrow> nat \<Rightarrow> string \<Rightarrow> int \<Rightarrow> bool \<Rightarrow> (go_err + (jira_page \<times> int \<times> bool)) io" where
  "jira_turn S s fetched nextPageToken startAt legacy = do {
     r \<leftarrow> fetch_jira_page S s nextPageToken startAt legacy;
     (case r of
        Inr p \<Rightarrow> ret (Inr (p, startAt, legacy))
      | Inl (e, missing) \<Rightarrow>
          if legacy \<or> \<not> missing then ret (Inl e)
          else do {
            r' \<leftarrow> fetch_jira_page S s nextPageToken (int fetched) True;
            ret (case r' of Inl (e', _) \<Rightarrow> Inl e' | Inr p \<Rightarrow> Inr (p, int fetched, True))
          })
   }"

fun jira_pages ::
  "spawner_env \<Rightarrow> jira_source \<Rightarrow> nat \<Rightarrow> jira_issue list \<Rightarrow> string \<Rightarrow> int \<Rightarrow> bool \<Rightarrow> (go_err + jira_issue list) io" where
  "jira_pages S s 0 acc nextPageToken startAt legacy = ret (Inr acc)"
| "jira_pages S s (Suc n) acc nextPageToken startAt legacy = do {
     r \<leftarrow> jira_turn S s (length acc) nextPageToken startAt legacy;
     (case r of
        Inl e \<Rightarrow> ret (Inl e)
      | Inr (p, startAt', legacy') \<Rightarrow>
          (let acc' = acc @ jp_issues p
           in if legacy'
              then (let next_start = startAt' + int (length (jp_issues p))
                    in if jp_issues p = [] \<or> jp_total p \<le> next_start then ret (Inr acc')
                       else jira_pages S s n acc' nextPageToken next_start legacy')
              else if jp_last p \<or> jp_next p = [] then ret (Inr acc')
              else jira_pages S s n acc' (jp_next p) startAt' legacy'))
   }"

definition jira_item :: "jira_source \<Rightarrow> jira_issue \<Rightarrow> work_item" where
  "jira_item s issue =
     blank_item\<lparr>wi_id := ji_key issue, wi_number := extractIssueNumber (ji_key issue),
       wi_title := ji_summary issue, wi_url := trim_right_set ''/'' (js_base_url s) @ ''/browse/'' @ ji_key issue,
       wi_labels := ji_labels issue, wi_comments := extractComments (ji_comments issue),
       wi_kind := (case ji_type issue of None \<Rightarrow> ''Issue'' | Some k \<Rightarrow> k)\<rparr>"

definition discover_jira :: "spawner_env \<Rightarrow> jira_source \<Rightarrow> (go_err + work_item list) io" where
  "discover_jira S s = do {
     r \<leftarrow> jira_pages S s maxJiraPages [] [] 0 False;
     ret (case r of Inl e \<Rightarrow> Inl e | Inr issues \<Rightarrow> Inr (map (jira_item s) issues))
   }"

end
