(* ===== verification/Spawner.thy ===== *)
theory Spawner
  imports GitHubSource JiraSource
begin

text \<open>
  The process that serves one polling \<^verbatim>\<open>TaskSpawner\<close>, \<^verbatim>\<open>cmd/kelos-spawner\<close>: a discovery cycle
  (\<^verbatim>\<open>main.go\<close>) asks the source for work items, drops those that have a task already and creates
  tasks for the others within the limits; the loop around it is \<^verbatim>\<open>reconciler.go\<close>. The client of
  a cycle is not a cache, so every read is logged. Measuring how long a cycle takes is left out.
\<close>

section \<open>Sources\<close>

record spawner_config =
  cfg_owner :: string
  cfg_repo :: string
  cfg_api_base_url :: string
  cfg_proxy_url :: string
  cfg_jira_base_url :: string
  cfg_jira_project :: string
  cfg_jira_jql :: string
  cfg_jira_user :: string
  cfg_jira_token :: string

datatype source =
  IssueSource github_source | PullSource pull_source | JiraSource jira_source | CronSource string int

definition Discover :: "env \<Rightarrow> spawner_env \<Rightarrow> source \<Rightarrow> (go_err + work_item list) io" where
  "Discover E S src =
     (case src of
        IssueSource s \<Rightarrow> discover_issues E S s
      | PullSource s \<Rightarrow> discover_pulls E S s
      | JiraSource s \<Rightarrow> discover_jira S s
      | CronSource schedule lastDiscovery \<Rightarrow> cron_discover E S schedule lastDiscovery)"

definition resolveGitHubCommentPolicy :: "comment_policy_spec option \<Rightarrow> comment_policy_spec" where
  "resolveGitHubCommentPolicy policy =
     (case policy of
        None \<Rightarrow> \<lparr>cp_trigger = [], cp_exclude = [], cp_users = [], cp_teams = [], cp_permission = []\<rparr>
      | Some p \<Rightarrow> p)"

text \<open>The base URL and the token for reading from GitHub; the proxy needs no token.\<close>

definition github_access :: "spawner_env \<Rightarrow> spawner_config \<Rightarrow> (go_err + (string \<times> string)) io" where
  "github_access S cfg =
     (if cfg_proxy_url cfg \<noteq> [] then ret (Inr (cfg_proxy_url cfg, []))
      else (case q_resolve_token S of
         None \<Rightarrow> ret (Inr (cfg_api_base_url cfg, []))
       | Some resolve \<Rightarrow> do {
           r \<leftarrow> peek resolve;
           ret (case r of Inl e \<Rightarrow> Inl e | Inr token \<Rightarrow> Inr (cfg_api_base_url cfg, token))
         }))"

definition issue_source :: "spawner_config \<Rightarrow> github_issues \<Rightarrow> string \<times> string \<Rightarrow> source" where
  "issue_source cfg gh access =
     IssueSource \<lparr>gs_owner = cfg_owner cfg, gs_repo = cfg_repo cfg, gs_types = gi_types gh,
       gs_labels = gi_labels gh, gs_exclude_labels = gi_exclude_labels gh, gs_state = gi_state gh,
       gs_assignee = gi_assignee gh, gs_author = gi_author gh, gs_exclude_authors = gi_exclude_authors gh,
       gs_token = snd access, gs_base_url = fst access, gs_policy = resolveGitHubCommentPolicy (gi_policy gh)\<rparr>"

definition pull_request_source :: "spawner_config \<Rightarrow> github_pull_requests \<Rightarrow> string \<times> string \<Rightarrow> source" where
  "pull_request_source cfg gh access =
     PullSource \<lparr>pq_owner = cfg_owner cfg, pq_repo = cfg_repo cfg, pq_labels = gp_labels gh,
       pq_exclude_labels = gp_exclude_labels gh, pq_state = gp_state gh, pq_author = gp_author gh,
       pq_exclude_authors = gp_exclude_authors gh, pq_token = snd access, pq_base_url = fst access,
       pq_review_state = gp_review_state gh, pq_policy = resolveGitHubCommentPolicy (gp_policy gh),
       pq_draft = gp_draft gh,
       pq_include = (case gp_files gh of None \<Rightarrow> [] | Some p \<Rightarrow> fp_include p),
       pq_exclude = (case gp_files gh of None \<Rightarrow> [] | Some p \<Rightarrow> fp_exclude p)\<rparr>"

definition buildSourceWithProxy ::
  "spawner_env \<Rightarrow> spawner_config \<Rightarrow> task_spawner \<Rightarrow> (go_err + source) io" where
  "buildSourceWithProxy S cfg ts =
     (case wn_issues (s_when ts) of
        Some gh \<Rightarrow> do {
          r \<leftarrow> github_access S cfg;
          ret (case r of Inl e \<Rightarrow> Inl e | Inr access \<Rightarrow> Inr (issue_source cfg gh access))
        }
      | None \<Rightarrow>
     (case wn_pulls (s_when ts) of
        Some gh \<Rightarrow> do {
          r \<leftarrow> github_access S cfg;
          ret (case r of Inl e \<Rightarrow> Inl e | Inr access \<Rightarrow> Inr (pull_request_source cfg gh access))
        }
      | None \<Rightarrow>
     (case wn_jira (s_when ts) of
        Some j \<Rightarrow> ret (Inr (JiraSource \<lparr>js_base_url = cfg_jira_base_url cfg, js_project = cfg_jira_project cfg,
                    js_jql = cfg_jira_jql cfg, js_user = cfg_jira_user cfg, js_token = cfg_jira_token cfg\<rparr>))
      | None \<Rightarrow>
     (case wn_cron (s_when ts) of
        Some schedule \<Rightarrow>
          ret (Inr (CronSource schedule (case sst_last_discovery (s_status ts) of
                      Some t \<Rightarrow> t | None \<Rightarrow> m_creation (s_meta ts))))
      | None \<Rightarrow> ret (Inl (new_err (''no source configured in TaskSpawner '' @ s_namespace ts @ ''/'' @ s_name ts)))))))"

definition priorityLabelsForTaskSpawner :: "task_spawner \<Rightarrow> string list" where
  "priorityLabelsForTaskSpawner ts =
     (case wn_issues (s_when ts) of
        Some gh \<Rightarrow> gi_priority gh
      | None \<Rightarrow> (case wn_pulls (s_when ts) of Some gh \<Rightarrow> gp_priority gh | None \<Rightarrow> []))"

section \<open>Repositories\<close>

definition GitHubRepositoryName :: "string \<Rightarrow> string" where
  "GitHubRepositoryName ref =
     (let repoRef = trim_suffix (trim_suffix ref ''/'') ''.git''
      in if repoRef = [] then []
         else if (case str_cut repoRef ''/'' of
                    None \<Rightarrow> False
                  | Some (owner, _) \<Rightarrow> \<not> str_contains owner '':'' \<and> \<not> str_contains owner ''.'')
         then repoRef
         else (let path = (case str_index '':'' repoRef of
                             Some idx \<Rightarrow> if 0 < idx \<and> \<not> prefix ''http'' repoRef then drop (Suc idx) repoRef else repoRef
                           | None \<Rightarrow> repoRef);
                   parts = split_char (CHR ''/'') path; n = length parts
               in if n < 2 then [] else parts ! (n - 2) @ ''/'' @ parts ! (n - 1)))"

definition deriveUpstreamRepo :: "task_spawner \<Rightarrow> string" where
  "deriveUpstreamRepo ts =
     (let issues = (case wn_issues (s_when ts) of None \<Rightarrow> [] | Some gh \<Rightarrow> gi_repo gh);
          pulls = (case wn_pulls (s_when ts) of None \<Rightarrow> [] | Some gh \<Rightarrow> gp_repo gh)
      in GitHubRepositoryName (if issues \<noteq> [] then issues else pulls))"

section \<open>Annotations\<close>

definition source_reporting :: "task_spawner \<Rightarrow> github_reporting option" where
  "source_reporting ts =
     (case wn_issues (s_when ts) of
        Some gh \<Rightarrow> gi_reporting gh
      | None \<Rightarrow> (case wn_pulls (s_when ts) of Some gh \<Rightarrow> gp_reporting gh | None \<Rightarrow> None))"

definition reportingEnabled :: "task_spawner \<Rightarrow> bool" where
  "reportingEnabled ts =
     (case map_option gi_reporting (wn_issues (s_when ts)) of
        Some (Some rep) \<Rightarrow> gr_enabled rep \<or> gr_comments rep \<noteq> None
      | _ \<Rightarrow>
          (case map_option gp_reporting (wn_pulls (s_when ts)) of
             Some (Some rep) \<Rightarrow> gr_enabled rep \<or> gr_comments rep \<noteq> None
           | _ \<Rightarrow> False))"

definition resolvedCommentMode :: "task_spawner \<Rightarrow> string" where
  "resolvedCommentMode ts =
     (case source_reporting ts of
        Some rep \<Rightarrow> (case gr_comments rep of
                       Some mode \<Rightarrow> if mode \<noteq> [] then mode else ''PerTask''
                     | None \<Rightarrow> ''PerTask'')
      | None \<Rightarrow> ''PerTask'')"

definition resolved_check :: "task_spawner \<Rightarrow> string option" where
  "resolved_check ts =
     (case wn_pulls (s_when ts) of
        None \<Rightarrow> None
      | Some gh \<Rightarrow> (case gp_reporting gh of None \<Rightarrow> None | Some rep \<Rightarrow> gr_checks rep))"

definition checksReportingEnabled :: "task_spawner \<Rightarrow> bool" where
  "checksReportingEnabled ts \<longleftrightarrow> resolved_check ts \<noteq> None"

definition resolvedCheckName :: "task_spawner \<Rightarrow> string" where
  "resolvedCheckName ts = (case resolved_check ts of None \<Rightarrow> [] | Some name \<Rightarrow> name)"

definition sourceAnnotations :: "task_spawner \<Rightarrow> work_item \<Rightarrow> strmap" where
  "sourceAnnotations ts item =
     (if wn_issues (s_when ts) = None \<and> wn_pulls (s_when ts) = None then []
      else [(''kelos.dev/source-kind'', if wi_kind item = ''PR'' then ''pull-request'' else ''issue''),
            (''kelos.dev/source-number'', itoa (wi_number item))]
        @ (if reportingEnabled ts
           then [(''kelos.dev/github-reporting'', ''enabled''),
                 (''kelos.dev/github-comment-mode'', resolvedCommentMode ts)] else [])
        @ (if checksReportingEnabled ts
           then [(''kelos.dev/github-checks'', ''enabled'')]
             @ (if wi_head_sha item \<noteq> [] then [(''kelos.dev/source-sha'', wi_head_sha item)] else [])
             @ (if resolvedCheckName ts \<noteq> [] then [(''kelos.dev/github-check-name'', resolvedCheckName ts)] else [])
           else []))"

section \<open>Status\<close>

definition spawner_condition ::
  "env \<Rightarrow> string \<Rightarrow> cond_status \<Rightarrow> string \<Rightarrow> string \<Rightarrow> task_spawner \<Rightarrow> task_spawner" where
  "spawner_condition E type status reason message ts =
     ts\<lparr>s_status := (s_status ts)\<lparr>sst_conditions := l_set_condition E (sst_conditions (s_status ts))
          \<lparr>c_type = type, c_status = status, c_reason = reason, c_message = message,
           c_generation = m_generation (s_meta ts), c_transition = 0\<rparr>\<rparr>\<rparr>"

definition setDiscoveryErrorCondition :: "env \<Rightarrow> go_err option \<Rightarrow> task_spawner \<Rightarrow> task_spawner" where
  "setDiscoveryErrorCondition E cycleErr ts =
     (case cycleErr of
        None \<Rightarrow> spawner_condition E ''DiscoveryError'' CondFalse ''NoErrors''
                  ''Task creation succeeded for all discovered items'' ts
      | Some e \<Rightarrow> spawner_condition E ''DiscoveryError'' CondTrue ''TaskCreationFailed'' (err_text e) ts)"

definition join_two :: "go_err \<Rightarrow> go_err \<Rightarrow> go_err" where
  "join_two e f = (case join_errs [e, f] of Some j \<Rightarrow> j | None \<Rightarrow> e)"

definition recordCycleFailure ::
  "env \<Rightarrow> spawner_env \<Rightarrow> string \<Rightarrow> string \<Rightarrow> go_err \<Rightarrow> go_err io" where
  "recordCycleFailure E S ns name cycleErr = do {
     r \<leftarrow> read_obj (q_spawner S) ''TaskSpawner'' ns name;
     (case r of
        Inl e \<Rightarrow> ret (join_two cycleErr (wrap_err ''fetching TaskSpawner to record failure'' e))
      | Inr ts \<Rightarrow> do {
          e \<leftarrow> write_call E (UpdateSpawnerStatus (setDiscoveryErrorCondition E (Some cycleErr)
                 (ts\<lparr>s_status := (s_status ts)\<lparr>sst_phase := SpawnerFailed,
                                               sst_message := err_text cycleErr\<rparr>\<rparr>)));
          ret (case e of
             None \<Rightarrow> cycleErr
           | Some e \<Rightarrow> join_two cycleErr (wrap_err ''updating TaskSpawner status'' e))
        })
   }"

definition is_suspended :: "task_spawner \<Rightarrow> bool" where
  "is_suspended ts \<longleftrightarrow> s_suspend ts = Some True"

definition suspend_status :: "env \<Rightarrow> task_spawner \<Rightarrow> task_spawner" where
  "suspend_status E ts =
     spawner_condition E ''Suspended'' CondTrue ''UserSuspended'' ''TaskSpawner is suspended by user''
       (ts\<lparr>s_status := (s_status ts)\<lparr>sst_phase := SpawnerSuspended, sst_message := ''Suspended by user''\<rparr>\<rparr>)"

definition record_suspension ::
  "env \<Rightarrow> spawner_env \<Rightarrow> string \<Rightarrow> string \<Rightarrow> task_spawner \<Rightarrow> go_err option io" where
  "record_suspension E S ns name ts =
     (if sst_phase (s_status ts) = SpawnerSuspended then ret None
      else do {
        r \<leftarrow> read_obj (q_spawner S) ''TaskSpawner'' ns name;
        (case r of
           Inl e \<Rightarrow> ret (Some (wrap_err ''re-fetching TaskSpawner for suspend status'' e))
         | Inr fresh \<Rightarrow>
             if \<not> is_suspended fresh \<or> sst_phase (s_status fresh) = SpawnerSuspended then ret None
             else do {
               e \<leftarrow> write_call E (UpdateSpawnerStatus (suspend_status E fresh));
               ret (map_option (wrap_err ''updating status for suspend'') e)
             })
      })"

section \<open>Selection\<close>

definition taskNameForWorkItem :: "string \<Rightarrow> string \<Rightarrow> string" where
  "taskNameForWorkItem taskSpawnerName workItemID = to_lower (taskSpawnerName @ ''-'' @ workItemID)"

definition item_task_name :: "spawner_env \<Rightarrow> task_spawner \<Rightarrow> work_item \<Rightarrow> go_err + string" where
  "item_task_name S ts item =
     ResolveTaskName S (taskNameForWorkItem (s_name ts) (wi_id item)) (s_template ts)
       (WorkItemToTemplateVars item)"

definition owned :: "task_spawner \<Rightarrow> task \<Rightarrow> bool" where
  "owned ts t \<longleftrightarrow> TaskBelongsToSpawner t (s_name ts) (m_uid (s_meta ts))"

definition existing_tasks :: "task_spawner \<Rightarrow> task list \<Rightarrow> (string \<times> task) list" where
  "existing_tasks ts tasks = foldl (\<lambda>m t. map_put (t_name t) t m) [] (filter (owned ts) tasks)"

definition count_active :: "task_spawner \<Rightarrow> task list \<Rightarrow> int" where
  "count_active ts tasks = int (length (filter (\<lambda>t. owned ts t \<and> \<not> isTerminalTaskPhase (t_phase t)) tasks))"

definition retriggered :: "work_item \<Rightarrow> task \<Rightarrow> bool" where
  "retriggered item t \<longleftrightarrow> wi_trigger item \<noteq> zero_time \<and> isTerminalTaskPhase (t_phase t)
     \<and> (case st_completion (t_status t) of None \<Rightarrow> False | Some ct \<Rightarrow> ct < wi_trigger item)"

text \<open>Whether an item is new; a task that is retriggered is deleted first.\<close>

definition is_new_item :: "env \<Rightarrow> (string \<times> task) list \<Rightarrow> string \<Rightarrow> work_item \<Rightarrow> bool io" where
  "is_new_item E existing taskName item =
     (case map_of existing taskName of
        None \<Rightarrow> ret True
      | Some t \<Rightarrow>
          if retriggered item t
          then do {
            e \<leftarrow> write_call E (DeleteTask (t_namespace t) (t_name t));
            ret (case e of None \<Rightarrow> True | Some e \<Rightarrow> is_not_found e)
          }
          else ret False)"

fun select_items ::
  "env \<Rightarrow> spawner_env \<Rightarrow> task_spawner \<Rightarrow> (string \<times> task) list \<Rightarrow> work_item list \<Rightarrow>
   (go_err + work_item list) io" where
  "select_items E S ts existing [] = ret (Inr [])"
| "select_items E S ts existing (item # items) =
     (case item_task_name S ts item of
        Inl e \<Rightarrow> ret (Inl (wrap_err (''resolving task name for item '' @ wi_id item) e))
      | Inr taskName \<Rightarrow> do {
          is_new \<leftarrow> is_new_item E existing taskName item;
          r \<leftarrow> select_items E S ts existing items;
          ret (case r of
             Inl e \<Rightarrow> Inl e
           | Inr rest \<Rightarrow> Inr (if is_new then item # rest else rest))
        })"

section \<open>Creation\<close>

definition annotate :: "strmap \<Rightarrow> task \<Rightarrow> task" where
  "annotate annotations t =
     t\<lparr>t_meta := (t_meta t)\<lparr>m_annotations :=
         foldl (\<lambda>m (k, v). map_put k v m) (m_annotations (t_meta t)) annotations\<rparr>\<rparr>"

definition default_upstream :: "string \<Rightarrow> task \<Rightarrow> task" where
  "default_upstream upstreamRepo t =
     (if ts_upstream_repo (t_spec t) = [] \<and> upstreamRepo \<noteq> []
      then t\<lparr>t_spec := (t_spec t)\<lparr>ts_upstream_repo := upstreamRepo\<rparr>\<rparr> else t)"

definition spawner_ref_of :: "task_spawner \<Rightarrow> spawner_ref" where
  "spawner_ref_of ts = \<lparr>sr_name = s_name ts, sr_uid = m_uid (s_meta ts),
     sr_api_version = ''kelos.dev/v1alpha2'', sr_kind = ''TaskSpawner''\<rparr>"

definition item_vars :: "spawner_env \<Rightarrow> task_spawner \<Rightarrow> work_item \<Rightarrow> (go_err + template_vars) io" where
  "item_vars S ts item =
     (let vars = WorkItemToTemplateVars item; sources = tt_context (s_template ts)
      in if sources = [] then ret (Inr vars)
         else do {
           r \<leftarrow> fetch_context S sources vars;
           ret (case r of
              Inl e \<Rightarrow> Inl (wrap_err ''fetching context sources'' e)
            | Inr data \<Rightarrow> Inr (map_put ''Context'' data vars))
         })"

definition item_task :: "spawner_env \<Rightarrow> task_spawner \<Rightarrow> work_item \<Rightarrow> (go_err + task) io" where
  "item_task S ts item = do {
     v \<leftarrow> item_vars S ts item;
     (case v of
        Inl e \<Rightarrow> ret (Inl e)
      | Inr vars \<Rightarrow>
          (case BuildTask S (taskNameForWorkItem (s_name ts) (wi_id item)) (s_namespace ts) (s_template ts)
                  vars (Some (spawner_ref_of ts)) of
             Inl e \<Rightarrow> ret (Inl (wrap_err ''building task'' e))
           | Inr t \<Rightarrow> do {
               r \<leftarrow> AssignSpawnerCredential S ts t;
               ret (case r of
                  Inl e \<Rightarrow> Inl (wrap_err ''assigning TaskSpawner credential'' e)
                | Inr t' \<Rightarrow> Inr (default_upstream (deriveUpstreamRepo ts) (annotate (sourceAnnotations ts item) t')))
             }))
   }"

text \<open>
  Creating the task: whether it was created, and the error of the item. A name that is taken by a
  task of this spawner is no error.
\<close>

definition create_item_task :: "env \<Rightarrow> task_spawner \<Rightarrow> task \<Rightarrow> (bool \<times> go_err option) io" where
  "create_item_task E ts t = do {
     e \<leftarrow> write_call E (CreateTask t);
     (case e of
        None \<Rightarrow> ret (True, None)
      | Some e \<Rightarrow>
          if \<not> is_already_exists e
          then ret (False, Some (wrap_err (''creating Task '' @ t_name t) e))
          else do {
            r \<leftarrow> read_obj (q_task E) ''Task'' (t_namespace t) (t_name t);
            ret (False, case r of
               Inl e \<Rightarrow> Some (wrap_err (''reading existing Task '' @ t_name t) e)
             | Inr existing \<Rightarrow>
                 if owned ts existing then None
                 else Some (new_err (''task '' @ t_name t @ '' name collides with an existing Task not owned by spawner ''
                        @ s_name ts)))
          })
   }"

definition process_item :: "env \<Rightarrow> spawner_env \<Rightarrow> task_spawner \<Rightarrow> work_item \<Rightarrow> (bool \<times> go_err option) io" where
  "process_item E S ts item = do {
     r \<leftarrow> item_task S ts item;
     (created, e) \<leftarrow> (case r of Inl e \<Rightarrow> ret (False, Some e) | Inr t \<Rightarrow> create_item_task E ts t);
     ret (created, map_option (wrap_err (''item '' @ wi_id item)) e)
   }"

definition concurrency_reached :: "task_spawner \<Rightarrow> int \<Rightarrow> bool" where
  "concurrency_reached ts active \<longleftrightarrow>
     (case s_max_concurrency ts of None \<Rightarrow> False | Some m \<Rightarrow> 0 < m \<and> m \<le> wrap32 active)"

definition max_total :: "task_spawner \<Rightarrow> int" where
  "max_total ts = (case s_max_total ts of None \<Rightarrow> 0 | Some m \<Rightarrow> m)"

definition total_reached :: "task_spawner \<Rightarrow> int \<Rightarrow> bool" where
  "total_reached ts created \<longleftrightarrow>
     0 < max_total ts \<and> max_total ts \<le> sst_created (s_status ts) + created"

text \<open>The loop over the new items: how many tasks were created, how many are active, the errors.\<close>

fun create_items ::
  "env \<Rightarrow> spawner_env \<Rightarrow> task_spawner \<Rightarrow> work_item list \<Rightarrow> int \<Rightarrow> int \<Rightarrow> go_err list \<Rightarrow>
   (int \<times> int \<times> go_err list) io" where
  "create_items E S ts [] created active errs = ret (created, active, errs)"
| "create_items E S ts (item # items) created active errs =
     (if concurrency_reached ts active \<or> total_reached ts created then ret (created, active, errs)
      else do {
        (ok, e) \<leftarrow> process_item E S ts item;
        (if ok then create_items E S ts items (created + 1) (active + 1) errs
         else create_items E S ts items created active (case e of None \<Rightarrow> errs | Some e \<Rightarrow> errs @ [e]))
      })"

section \<open>The cycle\<close>

definition cycle_message :: "int \<Rightarrow> int \<Rightarrow> go_err list \<Rightarrow> string" where
  "cycle_message discovered total_created errs =
     ''Discovered '' @ itoa discovered @ '' items, created '' @ itoa total_created @ '' tasks total''
     @ (case join_errs errs of
          None \<Rightarrow> []
        | Some e \<Rightarrow> ''; '' @ itoa (int (length errs)) @ '' creation error(s): '' @ err_text e)"

definition limit_conditions :: "env \<Rightarrow> int \<Rightarrow> task_spawner \<Rightarrow> task_spawner" where
  "limit_conditions E maxTotalTasks ts =
     (let total_created = sst_created (s_status ts);
          (status, reason, message) =
            (if 0 < maxTotalTasks \<and> maxTotalTasks \<le> total_created
             then (CondTrue, ''LimitReached'', ''Total tasks created ('' @ itoa total_created @ '') has reached maxTotalTasks (''
                     @ itoa maxTotalTasks @ '')'')
             else (CondFalse, ''LimitAvailable'', ''maxTotalTasks limit has not been reached''))
      in spawner_condition E ''TaskBudgetExhausted'' status reason message
           (spawner_condition E ''MaxTotalTasksReached'' status reason message ts))"

definition cycle_status ::
  "env \<Rightarrow> int \<Rightarrow> int \<Rightarrow> int \<Rightarrow> int \<Rightarrow> go_err list \<Rightarrow> int \<Rightarrow> task_spawner \<Rightarrow> task_spawner" where
  "cycle_status E now discovered created active errs maxTotalTasks ts =
     (let total_created = sst_created (s_status ts) + created
      in limit_conditions E maxTotalTasks
           (spawner_condition E ''Suspended'' CondFalse ''Running'' ''TaskSpawner is running''
             (setDiscoveryErrorCondition E (join_errs errs)
               (ts\<lparr>s_status := (s_status ts)\<lparr>sst_phase := SpawnerRunning, sst_last_discovery := Some now,
                  sst_discovered := discovered, sst_created := total_created, sst_active := active,
                  sst_message := cycle_message discovered total_created errs\<rparr>\<rparr>))))"

text \<open>\<^verbatim>\<open>maxTotalTasks\<close> is the limit as it was read at the start of the cycle.\<close>

definition finish_cycle ::
  "env \<Rightarrow> spawner_env \<Rightarrow> string \<Rightarrow> string \<Rightarrow> int \<Rightarrow> int \<Rightarrow> int \<times> int \<times> go_err list \<Rightarrow> go_err option io" where
  "finish_cycle E S ns name maxTotalTasks discovered result =
     (let (created, active, errs) = result
      in do {
        log_call (AddCounter ''kelos_spawner_tasks_created_total'' created);
        r \<leftarrow> read_obj (q_spawner S) ''TaskSpawner'' ns name;
        (case r of
           Inl e \<Rightarrow> ret (Some (wrap_err ''re-fetching TaskSpawner for status update'' e))
         | Inr ts \<Rightarrow> do {
             now \<leftarrow> clock E;
             e \<leftarrow> write_call E (UpdateSpawnerStatus
                    (cycle_status E now discovered created active errs maxTotalTasks ts));
             (case e of
                Some e \<Rightarrow> ret (Some (wrap_err ''updating TaskSpawner status'' e))
              | None \<Rightarrow>
                  (case join_errs errs of
                     Some e \<Rightarrow> ret (Some e)
                   | None \<Rightarrow> do { log_call (AddCounter ''kelos_spawner_discovery_total'' 1); ret None }))
           })
      })"

definition ordered_items :: "task_spawner \<Rightarrow> work_item list \<Rightarrow> work_item list" where
  "ordered_items ts newItems = SortByLabelPriority newItems (priorityLabelsForTaskSpawner ts)"

definition spawn_tasks ::
  "env \<Rightarrow> spawner_env \<Rightarrow> string \<Rightarrow> string \<Rightarrow> task_spawner \<Rightarrow> work_item list \<Rightarrow> go_err option io" where
  "spawn_tasks E S ns name ts items = do {
     log_call (AddCounter ''kelos_spawner_items_discovered_total'' (int (length items)));
     l \<leftarrow> read_obj (q_spawner_tasks S) ''TaskList'' (s_namespace ts) (s_name ts);
     (case l of
        Inl e \<Rightarrow> ret (Some (wrap_err ''listing existing Tasks'' e))
      | Inr tasks \<Rightarrow> do {
          r \<leftarrow> select_items E S ts (existing_tasks ts tasks) items;
          (case r of
             Inl e \<Rightarrow> do { e' \<leftarrow> recordCycleFailure E S ns name e; ret (Some e') }
           | Inr newItems \<Rightarrow> do {
               result \<leftarrow> create_items E S ts (ordered_items ts newItems) 0 (count_active ts tasks) [];
               finish_cycle E S ns name (max_total ts) (int (length items)) result
             })
        })
   }"

definition runCycleWithSourceCore ::
  "env \<Rightarrow> spawner_env \<Rightarrow> string \<Rightarrow> string \<Rightarrow> source \<Rightarrow> go_err option io" where
  "runCycleWithSourceCore E S ns name src = do {
     r \<leftarrow> read_obj (q_spawner S) ''TaskSpawner'' ns name;
     (case r of
        Inl e \<Rightarrow> ret (Some (wrap_err ''fetching TaskSpawner'' e))
      | Inr ts \<Rightarrow>
          if is_suspended ts then record_suspension E S ns name ts
          else do {
            d \<leftarrow> Discover E S src;
            (case d of
               Inl e \<Rightarrow> ret (Some (wrap_err ''discovering items'' e))
             | Inr items \<Rightarrow> spawn_tasks E S ns name ts items)
          })
   }"

definition runCycleCore ::
  "env \<Rightarrow> spawner_env \<Rightarrow> spawner_config \<Rightarrow> string \<Rightarrow> string \<Rightarrow> go_err option io" where
  "runCycleCore E S cfg ns name = do {
     r \<leftarrow> read_obj (q_spawner S) ''TaskSpawner'' ns name;
     (case r of
        Inl e \<Rightarrow> ret (Some (wrap_err ''fetching TaskSpawner'' e))
      | Inr ts \<Rightarrow> do {
          b \<leftarrow> buildSourceWithProxy S cfg ts;
          (case b of
             Inl e \<Rightarrow> ret (Some (wrap_err ''building source'' e))
           | Inr src \<Rightarrow> runCycleWithSourceCore E S ns name src)
        })
   }"

definition runCycleWithProxy ::
  "env \<Rightarrow> spawner_env \<Rightarrow> spawner_config \<Rightarrow> string \<Rightarrow> string \<Rightarrow> go_err option io" where
  "runCycleWithProxy E S cfg ns name = do {
     e \<leftarrow> runCycleCore E S cfg ns name;
     when_io (e \<noteq> None) (log_call (AddCounter ''kelos_spawner_discovery_errors_total'' 1));
     ret e
   }"

section \<open>The loop\<close>

fun report_tasks :: "env \<Rightarrow> task list \<Rightarrow> unit io" where
  "report_tasks E [] = skip_io"
| "report_tasks E (t # ts) = do { e \<leftarrow> write_call E (ReportTask t); report_tasks E ts }"

definition runReportingCycle :: "env \<Rightarrow> spawner_env \<Rightarrow> string \<Rightarrow> string \<Rightarrow> go_err option io" where
  "runReportingCycle E S ns name = do {
     l \<leftarrow> read_obj (q_spawner_tasks S) ''TaskList'' ns name;
     (case l of
        Inl e \<Rightarrow> ret (Some (wrap_err ''listing tasks for reporting'' e))
      | Inr tasks \<Rightarrow> do { report_tasks E tasks; ret None })
   }"

definition parsePollInterval :: "spawner_env \<Rightarrow> string \<Rightarrow> int" where
  "parsePollInterval S s =
     (if s = [] then minutes 5
      else (case l_parse_duration S s of
         Some d \<Rightarrow> d
       | None \<Rightarrow> (case parse_int s of Some n \<Rightarrow> wrap64 (seconds n) | None \<Rightarrow> minutes 5)))"

definition resolvedPollInterval :: "spawner_env \<Rightarrow> task_spawner \<Rightarrow> int" where
  "resolvedPollInterval S ts =
     parsePollInterval S
       (case wn_issues (s_when ts) of
          Some gh \<Rightarrow> gi_poll gh
        | None \<Rightarrow> (case wn_pulls (s_when ts) of
             Some gh \<Rightarrow> gp_poll gh
           | None \<Rightarrow> (case wn_jira (s_when ts) of Some j \<Rightarrow> jw_poll j | None \<Rightarrow> [])))"

definition runOnce ::
  "env \<Rightarrow> spawner_env \<Rightarrow> spawner_config \<Rightarrow> string \<Rightarrow> string \<Rightarrow> (go_err + int) io" where
  "runOnce E S cfg ns name = do {
     e \<leftarrow> runCycleWithProxy E S cfg ns name;
     (case e of
        Some e \<Rightarrow> ret (Inl e)
      | None \<Rightarrow> do {
          r \<leftarrow> read_obj (q_spawner S) ''TaskSpawner'' ns name;
          (case r of
             Inl e \<Rightarrow> ret (Inl (wrap_err ''fetching TaskSpawner after cycle'' e))
           | Inr ts \<Rightarrow>
               if \<not> (reportingEnabled ts \<or> checksReportingEnabled ts) then ret (Inr (resolvedPollInterval S ts))
               else if q_resolve_token S = None
               then ret (Inl (new_err ''GitHub reporting is enabled but no token resolver is configured''))
               else do {
                 e' \<leftarrow> runReportingCycle E S ns name;
                 ret (case e' of Some e' \<Rightarrow> Inl e' | None \<Rightarrow> Inr (resolvedPollInterval S ts))
               })
        })
   }"

definition spawner_reconcile ::
  "env \<Rightarrow> spawner_env \<Rightarrow> spawner_config \<Rightarrow> string \<times> string \<Rightarrow> string \<times> string \<Rightarrow> outcome io" where
  "spawner_reconcile E S cfg key request =
     (if request \<noteq> key then ret (no_requeue, None)
      else do {
        r \<leftarrow> runOnce E S cfg (fst key) (snd key);
        ret (case r of
           Inl e \<Rightarrow> if is_not_found e then (no_requeue, None) else (no_requeue, Some e)
         | Inr interval \<Rightarrow> (after interval, None))
      })"

text \<open>Which changes of tasks and of the spawner wake the loop.\<close>

definition matchesNamespacedName :: "object_meta \<Rightarrow> string \<times> string \<Rightarrow> bool" where
  "matchesNamespacedName m key \<longleftrightarrow> m_namespace m = fst key \<and> m_name m = snd key"

definition matchesSpawnerTask :: "task \<Rightarrow> string \<times> string \<Rightarrow> bool" where
  "matchesSpawnerTask t key \<longleftrightarrow>
     t_namespace t = fst key \<and> map_str (m_labels (t_meta t)) spawner_label = snd key"

definition spawner_update_wakes :: "string \<times> string \<Rightarrow> object_meta \<Rightarrow> object_meta \<Rightarrow> bool" where
  "spawner_update_wakes key old new \<longleftrightarrow>
     matchesNamespacedName new key \<and> m_generation old \<noteq> m_generation new"

definition task_update_wakes :: "string \<times> string \<Rightarrow> task \<Rightarrow> task \<Rightarrow> bool" where
  "task_update_wakes key old new \<longleftrightarrow>
     matchesSpawnerTask new key
     \<and> (t_phase old \<noteq> t_phase new \<or> (m_deletion (t_meta old) \<noteq> None) \<noteq> (m_deletion (t_meta new) \<noteq> None))"

definition requestsForTask :: "string \<times> string \<Rightarrow> task \<Rightarrow> (string \<times> string) list" where
  "requestsForTask key t = (if matchesSpawnerTask t key then [key] else [])"

end
