(* ===== verification/SpawnerCluster.thy ===== *)
theory SpawnerCluster
  imports Cluster Spawner
begin

text \<open>
  A quiet world for the examples of the spawner: no spawner exists, every HTTP request fails,
  templates render to themselves and every schedule ticks once a minute.
\<close>

definition idle_spawner_env :: spawner_env where
  "idle_spawner_env =
     \<lparr>q_spawner = (\<lambda>h ns name. not_found), q_spawner_tasks = (\<lambda>h ns name. Inr []),
      q_http = (\<lambda>h url token. Inl (new_err ''no network'')), q_context = (\<lambda>h sources vars. Inr (TMap [])),
      q_random = (\<lambda>h n. 0), q_resolve_token = None,
      l_template = (\<lambda>name s. Inr (\<lambda>data. Inr s)), l_template_tree = (\<lambda>s. Inr None),
      l_dns_subdomain_errors = (\<lambda>s. []), l_glob = (\<lambda>pattern s. pattern = s),
      l_cron = (\<lambda>s. Inr (\<lambda>t. (t div minutes 1 + 1) * minutes 1)), l_format_tick = (\<lambda>t. itoa (t div minutes 1)),
      l_parse_duration = (\<lambda>s. None), l_query = (\<lambda>m. str_join (map (\<lambda>(k, v). k @ ''='' @ v) m) ''&''),
      l_issues = (\<lambda>s. Inr []), l_comments = (\<lambda>s. Inr []), l_pulls = (\<lambda>s. Inr []),
      l_reviews = (\<lambda>s. Inr []), l_review_comments = (\<lambda>s. Inr []), l_files = (\<lambda>s. Inr []),
      l_permission = (\<lambda>s. Inr \<lparr>gp_permission = s, gp_role_name = []\<rparr>), l_membership = (\<lambda>s. Inr s),
      l_jira_page = (\<lambda>s. Inr \<lparr>jp_issues = [], jp_next = [], jp_last = True, jp_total = 0\<rparr>)\<rparr>"

definition plain_template :: task_template where
  "plain_template =
     \<lparr>tt_worker = None, tt_pool = None, tt_type = ''claude-code'', tt_credentials = None, tt_model = [],
      tt_effort = [], tt_image = [], tt_workspace = None, tt_agent_configs = [], tt_depends_on = [],
      tt_branch = [], tt_branch_lock = LockUnset, tt_prompt = ''fix it'', tt_name = [], tt_ttl = None,
      tt_pod_overrides = None, tt_pod_failure_policy = None, tt_metadata = None, tt_context = [],
      tt_upstream_repo = []\<rparr>"

definition plain_spawner :: task_spawner where
  "plain_spawner =
     \<lparr>s_meta = blank_meta\<lparr>m_name := ''fix'', m_namespace := ''default'', m_uid := ''fix-uid''\<rparr>,
      s_when = \<lparr>wn_issues = None, wn_pulls = None, wn_cron = Some ''* * * * *'', wn_jira = None,
        wn_github = None, wn_linear = None, wn_generic = None, wn_slack = None\<rparr>,
      s_template = plain_template, s_credentials = [], s_max_concurrency = None, s_suspend = None,
      s_max_total = None,
      s_status = \<lparr>sst_phase = SpawnerRunning, sst_deployment = [], sst_cron_job = [], sst_discovered = 0,
        sst_created = 0, sst_active = 0, sst_last_discovery = Some 0, sst_message = [], sst_conditions = []\<rparr>\<rparr>"

definition plain_item :: "string \<Rightarrow> work_item" where
  "plain_item key = blank_item\<lparr>wi_id := key, wi_title := ''a title''\<rparr>"

text \<open>A task as the spawner \<open>ts\<close> builds it, in a given phase.\<close>

definition spawned_task :: "task_spawner \<Rightarrow> string \<Rightarrow> task_phase \<Rightarrow> task" where
  "spawned_task ts name ph =
     (let t = plain_task name
      in t\<lparr>t_meta := (t_meta t)\<lparr>m_labels := [(spawner_label, s_name ts)],
                                m_owners := [spawner_owner (spawner_ref_of ts)]\<rparr>,
           t_status := new_status\<lparr>st_phase := ph\<rparr>\<rparr>)"

lemmas spawner_cluster_defs = idle_spawner_env_def plain_template_def plain_spawner_def plain_item_def
  spawned_task_def

end
