(* ===== verification/TaskBuilderFacts.thy ===== *)
theory TaskBuilderFacts
  imports SpawnerCluster
begin

text \<open>
  Names and tasks made from templates: a sanitized name is a valid name, and the task that is
  built for a work item is found again by the next discovery cycle.
\<close>

section \<open>Joining\<close>

lemma length_join:
  "length (str_join ls [d]) = sum_list (map length ls) + (length ls - 1)"
  by (induction ls rule: induct_list012) auto

lemma set_join: "set (str_join ls [d]) \<subseteq> \<Union> (set ` set ls) \<union> {d}"
  by (induction ls rule: induct_list012) auto

lemma shorter_parts:
  assumes "\<And>l. l \<in> set ls \<Longrightarrow> length (f l) \<le> length l"
  shows "sum_list (map length (filter P (map f ls))) \<le> sum_list (map length ls)"
  using assms by (induction ls) (auto intro: add_mono trans_le_add2)

lemma join_shorter:
  assumes "\<And>l. l \<in> set ls \<Longrightarrow> length (f l) \<le> length l"
  shows "length (str_join (filter P (map f ls)) [d]) \<le> length (str_join ls [d])"
  unfolding length_join
  using shorter_parts [of ls f P, OF assms] length_filter_le [of P "map f ls"]
  by (simp add: add_mono diff_le_mono)

section \<open>Trimming\<close>

text \<open>Trimming keeps a part of the label that neither begins nor ends with a dash.\<close>

lemma trim_right_split: "\<exists>b. s = trim_right_set cs s @ b"
  using trim_right_set_prefix [of cs s] by (auto simp: prefix_def)

lemma trim_dashes_split: "\<exists>a b. l = a @ trim_dashes l @ b"
proof -
  have "l = takeWhile (\<lambda>c. c = CHR ''-'') l @ dropWhile (\<lambda>c. c = CHR ''-'') l" by simp
  then show ?thesis
    unfolding trim_dashes_def using trim_right_split by metis
qed

lemma trim_dashes_hd: "trim_dashes l \<noteq> [] \<Longrightarrow> hd (trim_dashes l) \<noteq> CHR ''-''"
proof -
  let ?m = "dropWhile (\<lambda>c. c = CHR ''-'') l"
  assume ne: "trim_dashes l \<noteq> []"
  obtain b where b: "?m = trim_dashes l @ b"
    unfolding trim_dashes_def using trim_right_split by blast
  with ne have "hd (trim_dashes l) = hd ?m" "?m \<noteq> []" by auto
  then show ?thesis using hd_dropWhile [of "\<lambda>c. c = CHR ''-''" l] by auto
qed

lemma trim_dashes_last: "trim_dashes l \<noteq> [] \<Longrightarrow> last (trim_dashes l) \<noteq> CHR ''-''"
  using hd_dropWhile [of "\<lambda>c. c \<in> set [CHR ''-'']"]
  by (auto simp: trim_dashes_def trim_right_set_def last_rev)

lemma trim_dashes_parts: "set (trim_dashes l) \<subseteq> set l" "length (trim_dashes l) \<le> length l"
proof -
  obtain a b where ab: "l = a @ trim_dashes l @ b" using trim_dashes_split by blast
  show "set (trim_dashes l) \<subseteq> set l" by (subst (2) ab) auto
  show "length (trim_dashes l) \<le> length l" by (subst (2) ab) simp
qed

lemma trim_dashes_id:
  assumes "l \<noteq> []" and "hd l \<noteq> CHR ''-''" and "last l \<noteq> CHR ''-''"
  shows "trim_dashes l = l"
proof -
  have "dropWhile (\<lambda>c. c = CHR ''-'') l = l" using assms by (cases l) auto
  moreover have "dropWhile (\<lambda>c. c \<in> set [CHR ''-'']) (rev l) = rev l"
    using assms by (cases l rule: rev_cases) auto
  ultimately show ?thesis by (simp add: trim_dashes_def trim_right_set_def)
qed

section \<open>Valid names\<close>

text \<open>What Kubernetes calls an RFC 1123 subdomain.\<close>

definition label_char :: "char \<Rightarrow> bool" where
  "label_char c \<longleftrightarrow> byte_in 97 122 c \<or> byte_in 48 57 c \<or> c = CHR ''-''"

definition dns1123_label :: "string \<Rightarrow> bool" where
  "dns1123_label l \<longleftrightarrow> l \<noteq> [] \<and> list_all label_char l \<and> hd l \<noteq> CHR ''-'' \<and> last l \<noteq> CHR ''-''"

definition dns1123_subdomain :: "string \<Rightarrow> bool" where
  "dns1123_subdomain s \<longleftrightarrow> length s \<le> 253 \<and> list_all dns1123_label (split_char (CHR ''.'') s)"

lemma sanitize_rune_char: "name_char (sanitize_rune r)"
  by (auto simp: sanitize_rune_def name_char_def byte_in_def split: list.splits)

lemma name_char_label: "name_char c \<Longrightarrow> c \<noteq> CHR ''.'' \<Longrightarrow> label_char c"
  by (simp add: name_char_def label_char_def)

lemma cleaned_labels:
  assumes "list_all name_char name"
    and "l \<in> set (filter (\<lambda>l. l \<noteq> []) (map trim_dashes (split_char (CHR ''.'') name)))"
  shows "dns1123_label l"
proof -
  from assms(2) obtain p where p: "p \<in> set (split_char (CHR ''.'') name)" "l = trim_dashes p" "l \<noteq> []"
    by auto
  have "set l \<subseteq> set p" using p trim_dashes_parts by blast
  with split_char_parts [OF p(1)] assms(1) have "list_all label_char l"
    by (force simp: list_all_iff intro: name_char_label)
  then show ?thesis using p trim_dashes_hd trim_dashes_last by (simp add: dns1123_label_def)
qed

lemma dns1123_label_no_dot: "dns1123_label l \<Longrightarrow> CHR ''.'' \<notin> set l"
  by (auto simp: dns1123_label_def list_all_iff label_char_def byte_in_def)

lemma sanitizeName_subdomain:
  assumes "sanitizeName s \<noteq> []"
  shows "dns1123_subdomain (sanitizeName s) \<and> length (sanitizeName s) \<le> 63"
proof -
  define name where "name = take 63 (map sanitize_rune (go_runes s))"
  define cleaned where "cleaned = filter (\<lambda>l. l \<noteq> []) (map trim_dashes (split_char (CHR ''.'') name))"
  have s: "sanitizeName s = str_join cleaned ''.''"
    by (simp add: sanitizeName_def cleaned_def name_def)
  have "list_all name_char name"
    by (auto simp: name_def list_all_iff sanitize_rune_char dest!: in_set_takeD)
  then have labels: "\<forall>l \<in> set cleaned. dns1123_label l"
    using cleaned_labels unfolding cleaned_def by blast
  have "cleaned \<noteq> []" using assms s by auto
  then have "split_char (CHR ''.'') (sanitizeName s) = cleaned"
    unfolding s using labels dns1123_label_no_dot by (intro split_join) auto
  moreover have "length (sanitizeName s) \<le> length (str_join (split_char (CHR ''.'') name) ''.'')"
    unfolding s cleaned_def by (rule join_shorter) (rule trim_dashes_parts)
  ultimately show ?thesis
    using labels by (simp add: join_split dns1123_subdomain_def list_all_iff name_def)
qed

lemma rune_width_ascii: "(of_char c :: nat) < 128 \<Longrightarrow> rune_width (c # s) = 1"
  by (auto simp: byte_in_def split: list.splits)

lemma go_runes_ascii: "(\<And>c. c \<in> set s \<Longrightarrow> (of_char c :: nat) < 128) \<Longrightarrow> go_runes s = map (\<lambda>c. [c]) s"
proof (induction s)
  case (Cons c s)
  have "rune_width (c # s) = 1" using Cons.prems by (intro rune_width_ascii) simp
  then show ?case using Cons by (subst go_runes.simps) (simp del: rune_width.simps)
qed (simp add: go_runes.simps)

lemma name_char_rune: "name_char c \<Longrightarrow> sanitize_rune [c] = c"
  by (auto simp: sanitize_rune_def lower_char_def name_char_def byte_in_def)

lemma sanitizeName_id:
  assumes "dns1123_subdomain s" and "length s \<le> 63"
  shows "sanitizeName s = s"
proof -
  let ?ls = "split_char (CHR ''.'') s"
  have labels: "\<forall>l \<in> set ?ls. dns1123_label l"
    using assms(1) by (simp add: dns1123_subdomain_def list_all_iff)
  have chars: "name_char c" if "c \<in> set s" for c
  proof -
    have "c \<in> set (str_join ?ls ''.'')" using that by (simp add: join_split)
    then have "c = CHR ''.'' \<or> (\<exists>l \<in> set ?ls. c \<in> set l)" using set_join [of ?ls "CHR ''.''"] by blast
    then show ?thesis
      using labels by (auto simp: dns1123_label_def list_all_iff label_char_def name_char_def)
  qed
  have "go_runes s = map (\<lambda>c. [c]) s"
    using chars by (intro go_runes_ascii) (force simp: name_char_def byte_in_def)
  then have "map sanitize_rune (go_runes s) = s"
    using chars by (simp add: name_char_rune map_idI)
  moreover have "map trim_dashes ?ls = ?ls"
    using labels by (intro map_idI) (auto simp: dns1123_label_def intro: trim_dashes_id)
  moreover have "filter (\<lambda>l. l \<noteq> []) ?ls = ?ls"
    using labels by (intro filter_True) (auto simp: dns1123_label_def)
  ultimately show ?thesis using assms(2) by (simp add: sanitizeName_def join_split)
qed

lemma ResolveTaskName_Inr:
  assumes "tt_name template \<noteq> []"
  shows "ResolveTaskName S d template vars = Inr name \<longleftrightarrow>
    checkNoContextReference S (tt_name template) = None
    \<and> (\<exists>r. renderTemplate S ''name'' (tt_name template) (nameTemplateVars vars) = Inr r
          \<and> \<not> str_contains r ''<no value>'' \<and> name = sanitizeName r \<and> name \<noteq> []
          \<and> l_dns_subdomain_errors S name = [])"
  using assms by (auto simp: ResolveTaskName_def Let_def split: option.splits sum.splits)

text \<open>
  C35. Every name that a name template gives is a name: it is an RFC 1123 subdomain of at most 63
  characters, which sanitizing leaves alone. So with a validation that accepts the RFC 1123
  subdomains, a template without a reference to the context fails only if it does not render,
  renders a missing value, or renders nothing that a name can be made of.
\<close>

theorem names_are_subdomains:
  assumes "\<And>n. l_dns_subdomain_errors S n = [] \<longleftrightarrow> dns1123_subdomain n" and "tt_name template \<noteq> []"
  shows "((\<exists>name. ResolveTaskName S d template vars = Inr name) \<longleftrightarrow>
      checkNoContextReference S (tt_name template) = None
      \<and> (\<exists>r. renderTemplate S ''name'' (tt_name template) (nameTemplateVars vars) = Inr r
            \<and> \<not> str_contains r ''<no value>'' \<and> sanitizeName r \<noteq> []))
    \<and> (\<forall>name. ResolveTaskName S d template vars = Inr name \<longrightarrow>
        dns1123_subdomain name \<and> length name \<le> 63 \<and> sanitizeName name = name)"
  using sanitizeName_subdomain sanitizeName_id assms
  by (auto simp: ResolveTaskName_Inr [OF assms(2)])

definition strict_names :: spawner_env where
  "strict_names = idle_spawner_env
     \<lparr>l_dns_subdomain_errors := (\<lambda>n. if dns1123_subdomain n then [] else [''invalid''])\<rparr>"

lemma names_are_subdomains_witness:
  "ResolveTaskName strict_names ''d'' (plain_template\<lparr>tt_name := ''Fix #1.-2''\<rparr>) [] = Inr ''fix--1.2''
   \<and> dns1123_subdomain ''fix--1.2'' \<and> length ''fix--1.2'' \<le> 63 \<and> sanitizeName ''fix--1.2'' = ''fix--1.2''"
proof -
  have valid: "l_dns_subdomain_errors strict_names n = [] \<longleftrightarrow> dns1123_subdomain n" for n
    by (simp add: strict_names_def)
  have "tt_name (plain_template\<lparr>tt_name := ''Fix #1.-2''\<rparr>) \<noteq> []" by simp
  moreover have "ResolveTaskName strict_names ''d'' (plain_template\<lparr>tt_name := ''Fix #1.-2''\<rparr>) [] = Inr ''fix--1.2''"
    by code_simp
  ultimately show ?thesis using names_are_subdomains [OF valid] by blast
qed

section \<open>Built tasks\<close>

lemma nameTemplateVars_context:
  assumes "map_of vars nameTemplateForbiddenKey = None"
  shows "nameTemplateVars (map_put nameTemplateForbiddenKey c vars) = nameTemplateVars vars"
proof -
  have fresh: "nameTemplateForbiddenKey \<notin> fst ` set vars" using assms by (simp add: map_of_eq_None_iff)
  then have "map_put nameTemplateForbiddenKey c vars = vars @ [(nameTemplateForbiddenKey, c)]"
    by (induction vars) auto
  moreover have "filter (\<lambda>kv. fst kv \<noteq> nameTemplateForbiddenKey) vars = vars"
    using fresh by (intro filter_True) force
  ultimately show ?thesis using assms by (simp add: nameTemplateVars_def)
qed

text \<open>A name does not depend on the context data, whatever the template engine does with it.\<close>

lemma ResolveTaskName_context:
  "map_of vars nameTemplateForbiddenKey = None \<Longrightarrow>
     ResolveTaskName S d template (map_put nameTemplateForbiddenKey c vars) = ResolveTaskName S d template vars"
  unfolding ResolveTaskName_def by (subst nameTemplateVars_context) simp_all

lemma BuildTask_Inr:
  assumes "BuildTask S d ns template vars (Some r) = Inr t"
  shows "ResolveTaskName S d template vars = Inr (t_name t) \<and> t_namespace t = ns
    \<and> m_owners (t_meta t) = [spawner_owner r] \<and> map_str (m_labels (t_meta t)) spawner_label = sr_name r"
  using assms
  by (auto simp: BuildTask_def template_task_def split: sum.splits if_splits prod.splits)

lemma AssignSpawnerCredential_meta:
  assumes "run_state (AssignSpawnerCredential S ts t) w = (Inr t', w')"
  shows "t_name t' = t_name t \<and> t_namespace t' = t_namespace t
    \<and> m_owners (t_meta t') = m_owners (t_meta t)
    \<and> map_str (m_labels (t_meta t')) spawner_label = map_str (m_labels (t_meta t)) spawner_label"
  using assms
  by (auto simp: AssignSpawnerCredential_def Select_def with_credential_def AssignmentLabel_def
      spawner_label_def io_run elim!: run_bindE split: if_splits option.splits)

lemma item_vars_name:
  assumes "run_state (item_vars S ts item) w = (Inr vars, w')"
  shows "ResolveTaskName S d template vars = ResolveTaskName S d template (WorkItemToTemplateVars item)"
proof -
  have "map_of (WorkItemToTemplateVars item) nameTemplateForbiddenKey = None"
    by (simp add: WorkItemToTemplateVars_def nameTemplateForbiddenKey_def)
  from ResolveTaskName_context [OF this] show ?thesis
    using assms
    by (auto simp: item_vars_def Let_def nameTemplateForbiddenKey_def io_run elim!: run_bindE
        split: if_splits sum.splits)
qed

lemma existing_tasks_member:
  assumes "t \<in> set tasks" and "owned ts t"
  shows "map_of (existing_tasks ts tasks) (t_name t) \<noteq> None"
proof -
  have "map_of (foldl (\<lambda>m t. map_put (t_name t) t m) m us) (t_name u) \<noteq> None"
    if "u \<in> set us \<or> map_of m (t_name u) \<noteq> None" for u us m
    using that
  proof (induction us arbitrary: m)
    case (Cons v us)
    then show ?case by (auto simp: update_conv' simp del: map_of_eq_None_iff)
  qed simp
  then show ?thesis using assms unfolding existing_tasks_def by simp
qed

text \<open>
  A task is recognised: the task that is built for an item has the name by which the cycle
  looks the item up, although its other templates may use context data, and belongs to the
  spawner. As long as it is listed, the item is therefore not new, unless it is retriggered.
\<close>

theorem built_task_recognised:
  assumes "run_state (item_task S ts item) w = (Inr t, w')"
    and "t_meta t' = t_meta t" and "t' \<in> set tasks"
  shows "item_task_name S ts item = Inr (t_name t) \<and> owned ts t \<and> t_namespace t = s_namespace ts
    \<and> map_of (existing_tasks ts tasks) (t_name t) \<noteq> None"
proof -
  from assms(1) obtain vars w1 b a w2 where vars: "run_state (item_vars S ts item) w = (Inr vars, w1)"
    and b: "BuildTask S (taskNameForWorkItem (s_name ts) (wi_id item)) (s_namespace ts) (s_template ts) vars
        (Some (spawner_ref_of ts)) = Inr b"
    and a: "run_state (AssignSpawnerCredential S ts b) w1 = (Inr a, w2)"
    and t: "t = default_upstream (deriveUpstreamRepo ts) (annotate (sourceAnnotations ts item) a)"
    unfolding item_task_def by (elim run_bindE) (auto split: sum.splits prod.splits)
  have meta: "t_name t = t_name b" "t_namespace t = t_namespace b" "m_owners (t_meta t) = m_owners (t_meta b)"
    using AssignSpawnerCredential_meta [OF a] by (simp_all add: t default_upstream_def annotate_def)
  have "owned ts t"
    using BuildTask_Inr [OF b] meta
    by (simp add: owned_def TaskBelongsToSpawner_def spawner_owner_def spawner_ref_of_def)
  moreover from this have "owned ts t'"
    unfolding owned_def TaskBelongsToSpawner_def assms(2) .
  ultimately show ?thesis
    using BuildTask_Inr [OF b] item_vars_name [OF vars] meta existing_tasks_member [OF assms(3)] assms(2)
    by (simp add: item_task_name_def)
qed

lemma built_task_recognised_witness:
  "let S = idle_spawner_env; ts = plain_spawner; item = plain_item ''7''
   in \<exists>t. item_task_name S ts item = Inr (t_name t) \<and> owned ts t
        \<and> map_of (existing_tasks ts [t]) (t_name t) \<noteq> None"
proof -
  let ?r = "run_state (item_task idle_spawner_env plain_spawner (plain_item ''7'')) start"
  have "case fst ?r of Inl e \<Rightarrow> False | Inr t \<Rightarrow> True" by code_simp
  then obtain t where "?r = (Inr t, snd ?r)" by (auto simp: prod_eq_iff split: sum.splits)
  from built_task_recognised [OF this refl, of "[t]"] show ?thesis by auto
qed

end
