(* ===== verification/SpawnerFacts.thy ===== *)
theory SpawnerFacts
  imports TaskBuilderFacts
begin

text \<open>
  The discovery cycle: which tasks it creates and how many, what it does when a name cannot be
  resolved, and two ways in which it loses work.
\<close>

section \<open>Accepted creations\<close>

text \<open>The tasks whose creation the API server accepted, for calls made after the history \<open>h\<close>.\<close>

fun accepted_creates :: "env \<Rightarrow> call list \<Rightarrow> call list \<Rightarrow> task list" where
  "accepted_creates E h [] = []"
| "accepted_creates E h (c # cs) =
     (case c of CreateTask t \<Rightarrow> if q_write E h c = None then [t] else [] | _ \<Rightarrow> [])
     @ accepted_creates E (h @ [c]) cs"

definition creates_none :: "call \<Rightarrow> bool" where
  "creates_none c \<longleftrightarrow> (case c of CreateTask t \<Rightarrow> False | _ \<Rightarrow> True)"

lemma creates_none_simps [simp]:
  "creates_none (CreateTask t) = False" "creates_none (Read k ns n)" "creates_none (HttpGet u a)"
  "creates_none (FetchContext ss)" "creates_none (UpdateSpawnerStatus s)" "creates_none (AddCounter n i)"
  "creates_none (DeleteTask ns n)" "creates_none (ReportTask t)"
  by (simp_all add: creates_none_def)

lemma accepted_creates_append:
  "accepted_creates E h (cs @ ds) = accepted_creates E h cs @ accepted_creates E (h @ cs) ds"
  by (induction E h cs rule: accepted_creates.induct) auto

lemma accepted_creates_none: "list_all creates_none cs \<Longrightarrow> accepted_creates E h cs = []"
  by (induction E h cs rule: accepted_creates.induct) (auto split: call.splits)

definition run_creates :: "env \<Rightarrow> world \<Rightarrow> world \<Rightarrow> task list" where
  "run_creates E w w' = accepted_creates E (w_calls w) (new_calls w w')"

lemma run_creates_trans:
  assumes "grows w w1" and "grows w1 w2"
  shows "run_creates E w w2 = run_creates E w w1 @ run_creates E w1 w2"
proof -
  have "w_calls w @ new_calls w w1 = w_calls w1" using assms(1) by (auto simp: grows_def prefix_def)
  then show ?thesis
    unfolding run_creates_def new_calls_append [OF assms] accepted_creates_append by simp
qed

lemma run_creates_none:
  assumes "emits creates_none m" and "run_state m w = (a, w')"
  shows "run_creates E w w' = []"
  using assms(1,2) by (elim emitsD) (auto simp: run_creates_def list_all_iff intro!: accepted_creates_none)

lemma no_create_call: "emits creates_none m \<Longrightarrow> run_state m w = (a, w') \<Longrightarrow> CreateTask t \<notin> set (new_calls w w')"
  by (metis (no_types) emitsD append_eq_conv_conj creates_none_simps(1))

section \<open>What the parts of a cycle call\<close>

lemma emits_fetch_pages [emits_intro]:
  "(\<And>u. emits P (fetch u)) \<Longrightarrow> emits P (fetch_pages fetch n url)"
  by (induction n arbitrary: url) (auto intro!: emits_intro)

lemma emits_any_team [emits_intro]:
  "(\<And>u a. P (HttpGet u a)) \<Longrightarrow> emits P (any_team S a login teams e)"
  by (induction teams arbitrary: e) (auto simp: isTeamMember_def getJSON_def intro!: emits_intro)

lemma emits_authorized [emits_intro]:
  "(\<And>u a. P (HttpGet u a)) \<Longrightarrow> emits P (isAuthorizedLogin S a cache user)"
  by (auto simp: isAuthorizedLogin_def authorizeLogin_def hasMinimumPermission_def getJSON_def Let_def
      intro!: emits_intro)

lemma emits_scan_comments [emits_intro]:
  "(\<And>u a. P (HttpGet u a)) \<Longrightarrow> emits P (scan_comments E S a cache commands m i comments)"
  by (induction comments arbitrary: cache m i) (auto intro!: emits_intro)

lemma emits_apply_policy [emits_intro]:
  "(\<And>u a. P (HttpGet u a)) \<Longrightarrow> emits P (apply_policy E S what body user comments policy a cache)"
  unfolding apply_policy_def evaluateGitHubCommentPolicy_def latestAuthorizedCommentMatch_def Let_def
  by (intro emits_intro)

lemma emits_fetch_all [emits_intro]:
  "(\<And>u. emits P (fetch u)) \<Longrightarrow> emits P (fetch_all fetch context url)"
  unfolding fetch_all_def by (intro emits_intro)

lemma emits_fetch_page [emits_intro]:
  "(\<And>u a. P (HttpGet u a)) \<Longrightarrow> emits P (fetch_page S token transport decoding decode url)"
  "(\<And>u a. P (HttpGet u a)) \<Longrightarrow> emits P (fetchGitHubPage S token decode url)"
  unfolding fetchGitHubPage_def fetch_page_def by (intro emits_intro; simp)+

lemma emits_issue_items [emits_intro]:
  "(\<And>u a. P (HttpGet u a)) \<Longrightarrow> emits P (issue_items E S s a cache issues)"
  by (induction issues arbitrary: cache) (auto simp: fetchComments_def intro!: emits_intro)

lemma emits_pull_items [emits_intro]:
  "(\<And>u a. P (HttpGet u a)) \<Longrightarrow> emits P (pull_items E S s a cache prs)"
  by (induction prs arbitrary: cache) (auto simp: fetchComments_def Let_def intro!: emits_intro)

lemma emits_filter_by_files [emits_intro]:
  "(\<And>u a. P (HttpGet u a)) \<Longrightarrow> emits P (filter_by_files S s prs)"
  by (induction prs) (auto simp: fetchPRFiles_def intro!: emits_intro)

lemma emits_jira_pages [emits_intro]:
  "(\<And>u a. P (HttpGet u a)) \<Longrightarrow> emits P (jira_pages S s n acc nxt startAt legacy)"
  by (induction n arbitrary: acc nxt startAt legacy)
    (auto simp: jira_turn_def fetch_jira_page_def Let_def intro!: emits_intro)

lemma emits_Discover [emits_intro]:
  "(\<And>u a. P (HttpGet u a)) \<Longrightarrow> emits P (Discover E S src)"
  by (cases src)
    (auto simp: Discover_def discover_issues_def discover_pulls_def discover_jira_def cron_discover_def
      intro!: emits_intro)

lemma emits_select_items [emits_intro]:
  "(\<And>ns n. P (DeleteTask ns n)) \<Longrightarrow> emits P (select_items E S ts existing items)"
  by (induction items) (auto simp: is_new_item_def intro!: emits_intro)

lemma emits_item_task [emits_intro]:
  "(\<And>ss. P (FetchContext ss)) \<Longrightarrow> emits P (item_task S ts item)"
  unfolding item_task_def item_vars_def AssignSpawnerCredential_def Select_def Let_def
  by (intro emits_intro)

lemma emits_recordCycleFailure [emits_intro]:
  assumes "P (Read ''TaskSpawner'' ns name)" and "\<And>ts. P (UpdateSpawnerStatus ts)"
  shows "emits P (recordCycleFailure E S ns name e)"
  unfolding recordCycleFailure_def by (intro emits_intro) (use assms in auto)

lemma emits_finish_cycle [emits_intro]:
  assumes "P (Read ''TaskSpawner'' ns name)" and "\<And>ts. P (UpdateSpawnerStatus ts)" and "\<And>n i. P (AddCounter n i)"
  shows "emits P (finish_cycle E S ns name m d result)"
  unfolding finish_cycle_def Let_def by (intro emits_intro) (use assms in auto)

section \<open>Creation\<close>

lemma create_item_task_run:
  assumes "run_state (create_item_task E ts t) w = ((ok, e), w')"
  shows "grows w w' \<and> run_creates E w w' = (if ok then [t] else [])
    \<and> (\<forall>t'. CreateTask t' \<in> set (new_calls w w') \<longrightarrow> t' = t)"
  using assms
  by (auto simp: create_item_task_def io_run run_creates_def elim!: run_bindE
      split: option.splits if_splits prod.splits)

lemma process_item_run:
  assumes "run_state (process_item E S ts item) w = ((ok, e), w')"
  shows "grows w w' \<and> length (run_creates E w w') = (if ok then 1 else 0)
    \<and> (\<forall>t. CreateTask t \<in> set (new_calls w w') \<longrightarrow> (\<exists>w1. run_state (item_task S ts item) w = (Inr t, w1)))"
proof -
  obtain r w1 where r: "run_state (item_task S ts item) w = (r, w1)" by (cases "run_state (item_task S ts item) w")
  have pre: "emits creates_none (item_task S ts item)" by (intro emits_intro) simp
  have g: "grows w w1" using pre r by (rule emits_grows)
  have none: "run_creates E w w1 = []" using pre r by (rule run_creates_none)
  have no_create: "CreateTask t \<notin> set (new_calls w w1)" for t
    using no_create_call [OF pre r] .
  show ?thesis
  proof (cases r)
    case (Inl f)
    then have "w' = w1" "\<not> ok" using assms r by (auto simp: process_item_def)
    then show ?thesis using g none no_create by auto
  next
    case (Inr t)
    then obtain e' where c: "run_state (create_item_task E ts t) w1 = ((ok, e'), w')"
      using assms r by (auto simp: process_item_def elim!: run_bindE split: prod.splits)
    from create_item_task_run [OF c] have g': "grows w1 w'" by simp
    show ?thesis
      using create_item_task_run [OF c] run_creates_trans [OF g g'] none no_create r Inr
        new_calls_append [OF g g'] grows_trans [OF g g'] by auto
  qed
qed

text \<open>One turn of the loop that creates tasks, and the rest of it.\<close>

lemma create_items_step:
  assumes "run_state (create_items E S ts (item # items) created active errs) w = (x, w')"
    and "\<not> (concurrency_reached ts active \<or> total_reached ts created)"
  obtains ok e w1 errs1 where "run_state (process_item E S ts item) w = ((ok, e), w1)"
    and "run_state (create_items E S ts items (created + (if ok then 1 else 0))
           (active + (if ok then 1 else 0)) errs1) w1 = (x, w')"
proof -
  obtain ok e w1 where p: "run_state (process_item E S ts item) w = ((ok, e), w1)" by (metis surj_pair)
  with assms show thesis by (cases ok) (auto intro: that)
qed

lemma create_items_run:
  assumes "run_state (create_items E S ts items created active errs) w = ((created', active', errs'), w')"
  shows "grows w w' \<and> created' = created + int (length (run_creates E w w'))
    \<and> active' = active + int (length (run_creates E w w'))
    \<and> length (run_creates E w w') \<le> length items
    \<and> (\<forall>t. CreateTask t \<in> set (new_calls w w') \<longrightarrow>
         (\<exists>item \<in> set items. \<exists>v v'. run_state (item_task S ts item) v = (Inr t, v')))"
  using assms
proof (induction items arbitrary: created active errs w)
  case Nil
  then show ?case by (simp add: run_creates_def)
next
  case (Cons item items)
  show ?case
  proof (cases "concurrency_reached ts active \<or> total_reached ts created")
    case True
    with Cons.prems show ?thesis by (simp add: run_creates_def)
  next
    case False
    then obtain ok e w1 errs1 where p: "run_state (process_item E S ts item) w = ((ok, e), w1)"
      and rest: "run_state (create_items E S ts items (created + (if ok then 1 else 0))
        (active + (if ok then 1 else 0)) errs1) w1 = ((created', active', errs'), w')"
      using create_items_step [OF Cons.prems] by blast
    note item = process_item_run [OF p] and ih = Cons.IH [OF rest]
    show ?thesis
      using ih item run_creates_trans [OF conjunct1 [OF item] conjunct1 [OF ih]]
        new_calls_append [OF conjunct1 [OF item] conjunct1 [OF ih]]
        grows_trans [OF conjunct1 [OF item] conjunct1 [OF ih]]
      by (auto split: if_splits) blast+
  qed
qed

lemma create_items_bounds:
  assumes "run_state (create_items E S ts items created active errs) w = (x, w')"
    and "n = int (length (run_creates E w w'))"
  shows "(s_max_concurrency ts = Some m \<and> 0 < m \<and> 0 \<le> active \<and> active + n \<le> 2 ^ 31 \<longrightarrow> n = 0 \<or> active + n \<le> m)
    \<and> (0 < max_total ts \<longrightarrow> n = 0 \<or> sst_created (s_status ts) + created + n \<le> max_total ts)"
  using assms
proof (induction items arbitrary: created active errs w n)
  case Nil
  then show ?case by (simp add: run_creates_def)
next
  case (Cons item items)
  show ?case
  proof (cases "concurrency_reached ts active \<or> total_reached ts created")
    case True
    with Cons.prems show ?thesis by (simp add: run_creates_def)
  next
    case False
    then obtain ok e w1 errs1 where p: "run_state (process_item E S ts item) w = ((ok, e), w1)"
      and rest: "run_state (create_items E S ts items (created + (if ok then 1 else 0))
        (active + (if ok then 1 else 0)) errs1) w1 = (x, w')"
      using create_items_step [OF Cons.prems(1)] by blast
    obtain c a es where x: "x = (c, a, es)" by (cases x)
    note item = process_item_run [OF p] and grow = create_items_run [OF rest [unfolded x]]
    have n: "n = (if ok then 1 else 0) + int (length (run_creates E w1 w'))"
      using item run_creates_trans [OF conjunct1 [OF item] conjunct1 [OF grow]] Cons.prems(2) by simp
    have room: "s_max_concurrency ts = Some m \<and> 0 < m \<and> 0 \<le> active \<and> active < 2 ^ 31 \<Longrightarrow> active < m"
      using False wrap32_id [of active] by (auto simp: concurrency_reached_def)
    have left: "0 < max_total ts \<Longrightarrow> sst_created (s_status ts) + created < max_total ts"
      using False by (auto simp: total_reached_def)
    show ?thesis
      using Cons.IH [OF rest refl] n room left by (auto split: if_splits)
  qed
qed

section \<open>The way to the loop that creates tasks\<close>

text \<open>Any list of calls is possible; the rules give that a program only extends the history.\<close>

lemma emits_process_item [emits_intro]: "emits (\<lambda>_. True) (process_item E S ts item)"
  unfolding process_item_def create_item_task_def by (intro emits_intro) simp_all

lemma emits_create_items [emits_intro]: "emits (\<lambda>_. True) (create_items E S ts items c a errs)"
  by (induction items arbitrary: c a errs) (auto intro!: emits_intro)

lemma emits_spawn_tasks [emits_intro]: "emits (\<lambda>_. True) (spawn_tasks E S ns name ts items)"
  unfolding spawn_tasks_def by (intro emits_intro) simp_all

lemma emits_record_suspension [emits_intro]:
  assumes "P (Read ''TaskSpawner'' ns name)" and "\<And>ts. P (UpdateSpawnerStatus ts)"
  shows "emits P (record_suspension E S ns name ts)"
  unfolding record_suspension_def by (intro emits_intro) (use assms in auto)

lemma emits_with_source [emits_intro]: "emits (\<lambda>_. True) (runCycleWithSourceCore E S ns name src)"
  unfolding runCycleWithSourceCore_def by (intro emits_intro) simp_all

lemma emits_buildSource [emits_intro]: "emits P (buildSourceWithProxy S cfg ts)"
  unfolding buildSourceWithProxy_def github_access_def by (intro emits_intro)

lemma creates_bind:
  assumes "run_state (State_Monad.bind m f) w = (a, w')" and "emits creates_none m"
    and "\<And>b. emits (\<lambda>_. True) (f b)"
  obtains b w1 where "run_state m w = (b, w1)" and "run_state (f b) w1 = (a, w')" and "grows w w1"
    and "run_creates E w w' = run_creates E w1 w'"
proof -
  from assms(1) obtain b w1 where m: "run_state m w = (b, w1)" and f: "run_state (f b) w1 = (a, w')"
    by (elim run_bindE)
  have g: "grows w w1" "grows w1 w'"
    using emits_grows [OF assms(2) m] emits_grows [OF assms(3) f] by auto
  have "run_creates E w w' = run_creates E w1 w'"
    unfolding run_creates_trans [OF g] run_creates_none [OF assms(2) m] by simp
  with m f g show thesis using that by blast
qed

text \<open>
  What a cycle creates it creates in \<open>spawn_tasks\<close>, for a spawner that was read as not suspended.
\<close>

lemma with_source_creates:
  assumes "run_state (runCycleWithSourceCore E S ns name src) w = (r, w')" and "run_creates E w w' \<noteq> []"
  obtains ts items w1 where "q_spawner S (w_calls w) ns name = Inr ts" and "\<not> is_suspended ts"
    and "grows w w1" and "run_state (spawn_tasks E S ns name ts items) w1 = (r, w')"
    and "run_creates E w w' = run_creates E w1 w'"
proof -
  let ?rest = "\<lambda>ts. do {
      d \<leftarrow> Discover E S src;
      (case d of
         Inl e \<Rightarrow> ret (Some (wrap_err ''discovering items'' e))
       | Inr items \<Rightarrow> spawn_tasks E S ns name ts items)
    }"
  let ?f = "\<lambda>r. case r of
      Inl e \<Rightarrow> ret (Some (wrap_err ''fetching TaskSpawner'' e))
    | Inr ts \<Rightarrow> if is_suspended ts then record_suspension E S ns name ts else ?rest ts"
  obtain b w1 where b: "b = q_spawner S (w_calls w) ns name" "grows w w1"
    "run_creates E w w' = run_creates E w1 w'" "run_state (?f b) w1 = (r, w')"
    using assms(1) unfolding runCycleWithSourceCore_def
    by (elim creates_bind [where E = E]) (auto simp: io_run intro!: emits_intro)
  have "\<exists>ts. b = Inr ts \<and> \<not> is_suspended ts"
  proof (rule ccontr)
    assume "\<nexists>ts. b = Inr ts \<and> \<not> is_suspended ts"
    then have "emits creates_none (?f b)" by (cases b) (auto intro!: emits_intro)
    from run_creates_none [OF this b(4)] show False using assms(2) b(3) by simp
  qed
  then obtain ts where ts: "b = Inr ts" "\<not> is_suspended ts" by blast
  then have "run_state (?rest ts) w1 = (r, w')" using b(4) by simp
  then obtain d w2 where d: "grows w1 w2" "run_creates E w1 w' = run_creates E w2 w'"
    "run_state (case d of Inl e \<Rightarrow> ret (Some (wrap_err ''discovering items'' e))
       | Inr items \<Rightarrow> spawn_tasks E S ns name ts items) w2 = (r, w')"
    by (elim creates_bind [where E = E]) (auto intro!: emits_intro)
  obtain items where "d = Inr items"
    using d assms(2) b(3) by (cases d) (auto simp: run_creates_def)
  then show thesis using that [of ts w2 items] b d ts grows_trans by simp
qed

lemma cycle_creates:
  assumes "run_state (runCycleWithProxy E S cfg ns name) w = (r, w')" and "run_creates E w w' \<noteq> []"
  obtains h ts items w1 w2 r' where "q_spawner S h ns name = Inr ts" and "\<not> is_suspended ts"
    and "grows w w1" and "run_state (spawn_tasks E S ns name ts items) w1 = (r', w2)" and "grows w2 w'"
    and "run_creates E w w' = run_creates E w1 w2"
proof -
  let ?count = "\<lambda>e. do { when_io (e \<noteq> None) (log_call (AddCounter ''kelos_spawner_discovery_errors_total'' 1)); ret e }"
  let ?build = "\<lambda>ts. do {
      b \<leftarrow> buildSourceWithProxy S cfg ts;
      (case b of Inl e \<Rightarrow> ret (Some (wrap_err ''building source'' e))
       | Inr src \<Rightarrow> runCycleWithSourceCore E S ns name src)
    }"
  obtain e w3 where core: "run_state (runCycleCore E S cfg ns name) w = (e, w3)" by (metis surj_pair)
  have rest: "run_state (?count e) w3 = (r, w')" using assms(1) core by (simp add: runCycleWithProxy_def)
  have count: "emits creates_none (?count e)" by (intro emits_intro) simp
  have core_any: "emits (\<lambda>_. True) (runCycleCore E S cfg ns name)"
    unfolding runCycleCore_def by (intro emits_intro) simp_all
  have same: "run_creates E w w' = run_creates E w w3" and grow: "grows w3 w'"
    using run_creates_trans [OF emits_grows [OF core_any core] emits_grows [OF count rest]]
      run_creates_none [OF count rest] emits_grows [OF count rest] by simp_all
  obtain b v1 where 1: "grows w v1" "run_creates E w w3 = run_creates E v1 w3"
    "run_state (case b of Inl e \<Rightarrow> ret (Some (wrap_err ''fetching TaskSpawner'' e)) | Inr ts \<Rightarrow> ?build ts) v1
       = (e, w3)"
    using core unfolding runCycleCore_def
    by (elim creates_bind [where E = E]) (auto simp: io_run intro!: emits_intro)
  then obtain ts where "run_state (?build ts) v1 = (e, w3)"
    using same assms(2) by (cases b) (auto simp: run_creates_def)
  then obtain b v2 where 2: "grows v1 v2" "run_creates E v1 w3 = run_creates E v2 w3"
    "run_state (case b of Inl e \<Rightarrow> ret (Some (wrap_err ''building source'' e))
       | Inr src \<Rightarrow> runCycleWithSourceCore E S ns name src) v2 = (e, w3)"
    by (elim creates_bind [where E = E]) (auto intro!: emits_intro)
  then obtain src where 3: "run_state (runCycleWithSourceCore E S ns name src) v2 = (e, w3)"
    using 1 same assms(2) by (cases b) (auto simp: run_creates_def)
  have eq: "run_creates E w w' = run_creates E v2 w3" using 1(2) 2(2) same by simp
  with assms(2) have "run_creates E v2 w3 \<noteq> []" by simp
  from with_source_creates [OF 3 this] obtain ts' items v3 where 4: "q_spawner S (w_calls v2) ns name = Inr ts'"
    "\<not> is_suspended ts'" "grows v2 v3" "run_state (spawn_tasks E S ns name ts' items) v3 = (e, w3)"
    "run_creates E v2 w3 = run_creates E v3 w3" .
  have "grows w v3" using 1(1) 2(1) 4(3) grows_trans by blast
  from that [OF 4(1,2) this 4(4) grow] show thesis using eq 4(5) by simp
qed

section \<open>Examples\<close>

text \<open>A created task and a written status, found by evaluation.\<close>

definition created :: "world \<Rightarrow> bool" where
  "created w \<longleftrightarrow> list_ex (\<lambda>c. \<not> creates_none c) (w_calls w)"

lemma createdD:
  assumes "created w"
  obtains cs t ds where "w_calls w = cs @ CreateTask t # ds"
proof -
  obtain c where c: "c \<in> set (w_calls w)" and P: "\<not> creates_none c"
    using assms unfolding created_def list_ex_iff by blast
  from P obtain t where "c = CreateTask t" by (cases c) (simp_all add: creates_none_def)
  with c show thesis using that split_list by metis
qed

definition written :: "(task_spawner \<Rightarrow> bool) \<Rightarrow> world \<Rightarrow> bool" where
  "written P w \<longleftrightarrow> list_ex (\<lambda>c. case c of UpdateSpawnerStatus ts \<Rightarrow> P ts | _ \<Rightarrow> False) (w_calls w)"

lemma writtenD:
  assumes "written P w"
  shows "\<exists>ts. UpdateSpawnerStatus ts \<in> set (w_calls w) \<and> P ts"
proof -
  obtain c where c: "c \<in> set (w_calls w)" and P: "case c of UpdateSpawnerStatus ts \<Rightarrow> P ts | _ \<Rightarrow> False"
    using assms unfolding written_def list_ex_iff by blast
  from P obtain ts where "c = UpdateSpawnerStatus ts" "P ts" by (cases c) simp_all
  with c show ?thesis by blast
qed

definition plain_config :: spawner_config where
  "plain_config = \<lparr>cfg_owner = ''o'', cfg_repo = ''r'', cfg_api_base_url = [], cfg_proxy_url = [],
     cfg_jira_base_url = [], cfg_jira_project = [], cfg_jira_jql = [], cfg_jira_user = [], cfg_jira_token = []\<rparr>"

text \<open>A spawner that may have one active task, seen two ticks after its last discovery.\<close>

definition busy_spawner :: task_spawner where
  "busy_spawner = plain_spawner\<lparr>s_max_concurrency := Some 1\<rparr>"

definition late_cluster :: env where
  "late_cluster = idle_cluster\<lparr>q_clock := (\<lambda>h. seconds 125), l_format_time := (\<lambda>t. itoa (t div minutes 1))\<rparr>"

definition free_env :: spawner_env where
  "free_env = idle_spawner_env\<lparr>q_spawner := (\<lambda>h ns name. Inr busy_spawner)\<rparr>"

definition limited_cycle :: "go_err option \<times> world" where
  "limited_cycle = run_state (runCycleWithProxy late_cluster free_env plain_config ''default'' ''fix'') start"

text \<open>A finished task whose item is triggered again, and a spawner whose names cannot be resolved.\<close>

definition old_task :: task where
  "old_task = (let t = spawned_task plain_spawner ''fix-7'' PhaseSucceeded
               in t\<lparr>t_status := (t_status t)\<lparr>st_completion := Some 1\<rparr>\<rparr>)"

definition again :: "work_item list" where
  "again = [(plain_item ''7'')\<lparr>wi_trigger := 2\<rparr>]"

definition again_cycle :: "go_err option \<times> world" where
  "again_cycle = run_state (spawn_tasks idle_cluster
     (idle_spawner_env\<lparr>q_spawner_tasks := (\<lambda>h ns name. Inr [old_task])\<rparr>) ''default'' ''fix'' plain_spawner again) start"

definition nameless_spawner :: task_spawner where
  "nameless_spawner = plain_spawner\<lparr>s_template := plain_template\<lparr>tt_name := ''{{''\<rparr>\<rparr>"

definition nameless_env :: spawner_env where
  "nameless_env = idle_spawner_env\<lparr>q_spawner := (\<lambda>h ns name. Inr nameless_spawner),
     l_template := (\<lambda>name s. Inl (new_err ''unclosed action''))\<rparr>"

definition nameless_cycle :: "go_err option \<times> world" where
  "nameless_cycle = run_state (spawn_tasks idle_cluster nameless_env ''default'' ''fix'' nameless_spawner
     [plain_item ''7'']) start"

section \<open>Limits\<close>

text \<open>The history when the tasks are listed, and the world after that.\<close>

definition listing :: "task_spawner \<Rightarrow> work_item list \<Rightarrow> world \<Rightarrow> call list" where
  "listing ts items w = w_calls w @ [AddCounter ''kelos_spawner_items_discovered_total'' (int (length items))]"

definition listed :: "task_spawner \<Rightarrow> work_item list \<Rightarrow> world \<Rightarrow> world" where
  "listed ts items w = w\<lparr>w_calls := listing ts items w @ [Read ''TaskList'' (s_namespace ts) (s_name ts)]\<rparr>"

lemma listed_no_create: "grows w (listed ts items w)" "run_creates E w (listed ts items w) = []"
  "CreateTask t \<notin> set (new_calls w (listed ts items w))"
  by (simp_all add: listed_def listing_def grows_def run_creates_def)

lemma spawn_tasks_run:
  assumes "run_state (spawn_tasks E S ns name ts items) w = (r, w')"
  shows "(\<exists>e. q_spawner_tasks S (listing ts items w) (s_namespace ts) (s_name ts) = Inl e \<and> w' = listed ts items w)
    \<or> (\<exists>tasks. q_spawner_tasks S (listing ts items w) (s_namespace ts) (s_name ts) = Inr tasks \<and>
        ((\<exists>e w1 e'. run_state (select_items E S ts (existing_tasks ts tasks) items) (listed ts items w) = (Inl e, w1)
            \<and> run_state (recordCycleFailure E S ns name e) w1 = (e', w') \<and> r = Some e')
       \<or> (\<exists>news w1 x w2. run_state (select_items E S ts (existing_tasks ts tasks) items) (listed ts items w) = (Inr news, w1)
            \<and> run_state (create_items E S ts (ordered_items ts news) 0 (count_active ts tasks) []) w1 = (x, w2)
            \<and> run_state (finish_cycle E S ns name (max_total ts) (int (length items)) x) w2 = (r, w'))))"
  using assms
  by (auto simp: spawn_tasks_def io_run listing_def listed_def elim!: run_bindE split: sum.splits prod.splits)

lemma select_no_create: "emits creates_none (select_items E S ts existing items)"
  and finish_no_create: "emits creates_none (finish_cycle E S ns name m d x)"
  and failure_no_create: "emits creates_none (recordCycleFailure E S ns name e)"
  by (intro emits_intro; simp)+

text \<open>Where a creation is, the loop was reached.\<close>

lemma spawn_tasks_creates:
  assumes "run_state (spawn_tasks E S ns name ts items) w = (r, w')" and "CreateTask t \<in> set (new_calls w w')"
  obtains tasks news w1 x w2 where "q_spawner_tasks S (listing ts items w) (s_namespace ts) (s_name ts) = Inr tasks"
    and "run_state (select_items E S ts (existing_tasks ts tasks) items) (listed ts items w) = (Inr news, w1)"
    and "run_state (create_items E S ts (ordered_items ts news) 0 (count_active ts tasks) []) w1 = (x, w2)"
    and "run_state (finish_cycle E S ns name (max_total ts) (int (length items)) x) w2 = (r, w')"
proof -
  have "\<not> (\<exists>e v e'. run_state (select_items E S ts ex items) (listed ts items w) = (Inl e, v)
      \<and> run_state (recordCycleFailure E S ns name e) v = (e', w'))" for ex
  proof clarify
    fix e v e'
    assume 1: "run_state (select_items E S ts ex items) (listed ts items w) = (Inl e, v)"
      and 2: "run_state (recordCycleFailure E S ns name e) v = (e', w')"
    show False
      using assms(2) no_create_call [OF select_no_create 1] no_create_call [OF failure_no_create 2]
        listed_no_create(3) [of t w ts items]
        new_calls_append [OF listed_no_create(1) grows_trans [OF emits_grows [OF select_no_create 1]
            emits_grows [OF failure_no_create 2]]]
        new_calls_append [OF emits_grows [OF select_no_create 1] emits_grows [OF failure_no_create 2]]
      by auto
  qed
  then show thesis
    using spawn_tasks_run [OF assms(1)] assms(2) listed_no_create(3) [of t w ts items] that by blast
qed

lemma accepted_is_call: "t \<in> set (accepted_creates E h cs) \<Longrightarrow> CreateTask t \<in> set cs"
  by (induction E h cs rule: accepted_creates.induct) (auto split: call.splits if_splits)

text \<open>
  C26. A cycle keeps the limits: it creates tasks only for a spawner that it read as not
  suspended, and with them there are at most \<^verbatim>\<open>maxConcurrency\<close> active tasks of the spawner among
  those it listed and created, and at most \<^verbatim>\<open>maxTotalTasks\<close> by its own count; as long as the
  number of active tasks fits in an \<^verbatim>\<open>int32\<close>.
\<close>

theorem cycle_limits:
  assumes "run_state (runCycleWithProxy E S cfg ns name) w = (r, w')"
    and "n = int (length (run_creates E w w'))" and "0 < n"
  shows "\<exists>h h' ts tasks. q_spawner S h ns name = Inr ts \<and> \<not> is_suspended ts
    \<and> q_spawner_tasks S h' (s_namespace ts) (s_name ts) = Inr tasks
    \<and> (\<forall>m. s_max_concurrency ts = Some m \<and> 0 < m \<and> count_active ts tasks + n \<le> 2 ^ 31 \<longrightarrow>
         count_active ts tasks + n \<le> m)
    \<and> (0 < max_total ts \<longrightarrow> sst_created (s_status ts) + n \<le> max_total ts)"
proof -
  have "run_creates E w w' \<noteq> []" using assms(2,3) by auto
  from cycle_creates [OF assms(1) this] obtain h ts items w1 w2 r' where
    ts: "q_spawner S h ns name = Inr ts" "\<not> is_suspended ts" and "grows w w1"
    and spawn: "run_state (spawn_tasks E S ns name ts items) w1 = (r', w2)" and "grows w2 w'"
    and same: "run_creates E w w' = run_creates E w1 w2" .
  have "hd (run_creates E w1 w2) \<in> set (run_creates E w1 w2)"
    using \<open>run_creates E w w' \<noteq> []\<close> unfolding same by (rule hd_in_set)
  then have "CreateTask (hd (run_creates E w1 w2)) \<in> set (new_calls w1 w2)"
    unfolding run_creates_def by (rule accepted_is_call)
  from spawn_tasks_creates [OF spawn this] obtain tasks news v1 x v2 where
    tasks: "q_spawner_tasks S (listing ts items w1) (s_namespace ts) (s_name ts) = Inr tasks"
    and select: "run_state (select_items E S ts (existing_tasks ts tasks) items) (listed ts items w1) = (Inr news, v1)"
    and create: "run_state (create_items E S ts (ordered_items ts news) 0 (count_active ts tasks) []) v1 = (x, v2)"
    and finish: "run_state (finish_cycle E S ns name (max_total ts) (int (length items)) x) v2 = (r', w2)" .
  obtain c a es where "x = (c, a, es)" by (cases x)
  note created = create_items_run [OF create [unfolded this]]
  note g = listed_no_create(1) [of w1 ts items] emits_grows [OF select_no_create select]
    conjunct1 [OF created] emits_grows [OF finish_no_create finish]
  have "run_creates E w1 w2 = run_creates E v1 v2"
    using run_creates_trans [OF g(1) grows_trans [OF g(2) grows_trans [OF g(3,4)]]]
      run_creates_trans [OF g(2) grows_trans [OF g(3,4)]] run_creates_trans [OF g(3,4)]
      run_creates_none [OF select_no_create select] run_creates_none [OF finish_no_create finish]
      listed_no_create(2) by simp
  then have n: "n = int (length (run_creates E v1 v2))" using assms(2) same by simp
  have "0 \<le> count_active ts tasks" by (simp add: count_active_def)
  with create_items_bounds [OF create n] assms(3) ts tasks show ?thesis by fastforce
qed

lemma cycle_limits_witness:
  "length (run_creates late_cluster start (snd limited_cycle)) = 1
   \<and> (\<exists>h h' ts tasks. q_spawner free_env h ''default'' ''fix'' = Inr ts \<and> \<not> is_suspended ts
        \<and> q_spawner_tasks free_env h' (s_namespace ts) (s_name ts) = Inr tasks
        \<and> (\<forall>m. s_max_concurrency ts = Some m \<and> 0 < m \<and> count_active ts tasks + 1 \<le> 2 ^ 31 \<longrightarrow>
             count_active ts tasks + 1 \<le> m)
        \<and> (0 < max_total ts \<longrightarrow> sst_created (s_status ts) + 1 \<le> max_total ts))"
proof -
  have one: "length (run_creates late_cluster start (snd limited_cycle)) = 1" by code_simp
  have run: "run_state (runCycleWithProxy late_cluster free_env plain_config ''default'' ''fix'') start
    = (fst limited_cycle, snd limited_cycle)" by (simp add: limited_cycle_def)
  from cycle_limits [OF run refl] one show ?thesis by simp
qed

section \<open>Duplicates\<close>

lemma select_items_step:
  assumes "run_state (select_items E S ts existing (i # items)) w = (Inr news, w')"
  obtains name is_new w1 rest where "item_task_name S ts i = Inr name"
    and "run_state (is_new_item E existing name i) w = (is_new, w1)"
    and "run_state (select_items E S ts existing items) w1 = (Inr rest, w')"
    and "news = (if is_new then i # rest else rest)"
  using assms by (auto split: sum.splits prod.splits)

lemma select_items_run:
  assumes "run_state (select_items E S ts existing items) w = (Inr news, w')" and "item \<in> set news"
  shows "item \<in> set items \<and> (\<exists>name. item_task_name S ts item = Inr name \<and>
     (map_of existing name = None \<or> (\<exists>t. map_of existing name = Some t \<and> retriggered item t
        \<and> DeleteTask (t_namespace t) (t_name t) \<in> set (new_calls w w'))))"
  using assms
proof (induction items arbitrary: w news)
  case (Cons i items)
  from Cons.prems(1) obtain name is_new w1 rest where name: "item_task_name S ts i = Inr name"
    and new: "run_state (is_new_item E existing name i) w = (is_new, w1)"
    and rest: "run_state (select_items E S ts existing items) w1 = (Inr rest, w')"
    and news: "news = (if is_new then i # rest else rest)"
    by (rule select_items_step)
  have "emits (\<lambda>_. True) (is_new_item E existing name i)" unfolding is_new_item_def by (intro emits_intro) simp
  note g = emits_grows [OF this new] emits_grows [OF select_no_create rest]
  have later: "DeleteTask (t_namespace t) (t_name t) \<in> set (new_calls w1 w') \<Longrightarrow>
      DeleteTask (t_namespace t) (t_name t) \<in> set (new_calls w w')" for t
    using new_calls_append [OF g] by simp
  show ?case
  proof (cases "item = i \<and> is_new")
    case True
    have "map_of existing name = None \<or> (\<exists>t. map_of existing name = Some t \<and> retriggered i t
        \<and> DeleteTask (t_namespace t) (t_name t) \<in> set (new_calls w w1))"
      using new True by (auto simp: is_new_item_def io_run split: option.splits if_splits)
    then show ?thesis using True name new_calls_append [OF g] by auto
  next
    case False
    then have "item \<in> set rest" using Cons.prems(2) news by (auto split: if_splits)
    from Cons.IH [OF rest this] show ?thesis using later by auto
  qed
qed simp

text \<open>Calls before a creation are before it in any way of cutting the history there.\<close>

lemma cut_at_create:
  assumes "as @ bs = cs @ c # ds" and "c \<notin> set as"
  shows "set as \<subseteq> set cs"
  using assms by (auto simp: append_eq_append_conv2 Cons_eq_append_conv append_eq_Cons_conv)

lemma set_ordered_items [simp]: "set (ordered_items ts items) = set items"
  by (simp add: ordered_items_def SortByLabelPriority_def)

text \<open>
  C27. No duplicates: a task that a cycle creates belongs to the spawner and has the name of one
  of the discovered items, and if the spawner already had a task of that name in the list, then
  that task was finished before the item was triggered again, and the cycle has asked for its
  deletion before.
\<close>

theorem no_duplicates:
  assumes "run_state (spawn_tasks E S ns name ts items) w = (r, w')"
    and "new_calls w w' = cs @ CreateTask t # ds"
    and "q_spawner_tasks S (listing ts items w) (s_namespace ts) (s_name ts) = Inr tasks"
  shows "owned ts t \<and> (\<exists>item \<in> set items. item_task_name S ts item = Inr (t_name t) \<and>
     (map_of (existing_tasks ts tasks) (t_name t) = None \<or>
      (\<exists>old. map_of (existing_tasks ts tasks) (t_name t) = Some old \<and> retriggered item old
         \<and> DeleteTask (t_namespace old) (t_name old) \<in> set cs)))"
proof -
  have "CreateTask t \<in> set (new_calls w w')" using assms(2) by simp
  from spawn_tasks_creates [OF assms(1) this] obtain news w1 x w2 where
    select: "run_state (select_items E S ts (existing_tasks ts tasks) items) (listed ts items w) = (Inr news, w1)"
    and create: "run_state (create_items E S ts (ordered_items ts news) 0 (count_active ts tasks) []) w1 = (x, w2)"
    and finish: "run_state (finish_cycle E S ns name (max_total ts) (int (length items)) x) w2 = (r, w')"
    using assms(3) by (metis sum.inject(2))
  obtain c a es where x: "x = (c, a, es)" by (cases x)
  note created = create_items_run [OF create [unfolded x]]
  note g = listed_no_create(1) [of w ts items] emits_grows [OF select_no_create select]
    conjunct1 [OF created] emits_grows [OF finish_no_create finish]
  let ?as = "new_calls w (listed ts items w) @ new_calls (listed ts items w) w1"
  have split: "new_calls w w' = ?as @ new_calls w1 w2 @ new_calls w2 w'"
    using new_calls_append [OF g(1) grows_trans [OF g(2) grows_trans [OF g(3,4)]]]
      new_calls_append [OF g(2) grows_trans [OF g(3,4)]] new_calls_append [OF g(3,4)] by simp
  have none: "CreateTask t \<notin> set ?as" "CreateTask t \<notin> set (new_calls w2 w')"
    using listed_no_create(3) no_create_call [OF select_no_create select]
      no_create_call [OF finish_no_create finish] by auto
  have before: "set (new_calls (listed ts items w) w1) \<subseteq> set cs"
    using cut_at_create [of ?as _ cs _ ds, OF _ none(1)] split assms(2) by simp
  have "CreateTask t \<in> set (new_calls w1 w2)"
    using split none \<open>CreateTask t \<in> set (new_calls w w')\<close> by simp
  then obtain item v v' where item: "item \<in> set news" "run_state (item_task S ts item) v = (Inr t, v')"
    using created by auto
  from built_task_recognised [OF item(2) refl, of "[t]"]
  have "item_task_name S ts item = Inr (t_name t)" "owned ts t" by auto
  with select_items_run [OF select item(1)] before show ?thesis by auto
qed

lemma no_duplicates_witness:
  "\<exists>cs t ds. new_calls start (snd again_cycle) = cs @ CreateTask t # ds \<and> owned plain_spawner t
    \<and> (\<exists>item \<in> set again. item_task_name idle_spawner_env plain_spawner item = Inr (t_name t)
        \<and> (map_of [(''fix-7'', old_task)] (t_name t) = None \<or> retriggered item old_task
             \<and> DeleteTask (t_namespace old_task) ''fix-7'' \<in> set cs))"
proof -
  let ?S = "idle_spawner_env\<lparr>q_spawner_tasks := (\<lambda>h ns name. Inr [old_task])\<rparr>"
  have "created (snd again_cycle)" by code_simp
  then obtain cs t ds where cs: "new_calls start (snd again_cycle) = cs @ CreateTask t # ds"
    by (elim createdD) (simp add: start_def)
  have old: "existing_tasks plain_spawner [old_task] = [(''fix-7'', old_task)]" "t_name old_task = ''fix-7''"
    by code_simp+
  have same: "item_task_name ?S plain_spawner item = item_task_name idle_spawner_env plain_spawner item" for item
    by (simp add: item_task_name_def ResolveTaskName_def plain_spawner_def plain_template_def)
  have "run_state (spawn_tasks idle_cluster ?S ''default'' ''fix'' plain_spawner again) start
    = (fst again_cycle, snd again_cycle)" by (simp add: again_cycle_def)
  from no_duplicates [OF this cs] show ?thesis unfolding same using cs old
    by (auto split: if_splits)
qed

section \<open>Failures\<close>

lemma failure_run:
  assumes "run_state (recordCycleFailure E S ns name e) w = (e', w')"
    and "UpdateSpawnerStatus ts' \<in> set (new_calls w w')"
  obtains ts where "q_spawner S (w_calls w) ns name = Inr ts"
    and "sst_last_discovery (s_status ts') = sst_last_discovery (s_status ts)"
    and "sst_phase (s_status ts') = SpawnerFailed"
  using assms
  by (auto simp: recordCycleFailure_def io_run setDiscoveryErrorCondition_def spawner_condition_def
      elim!: run_bindE split: sum.splits)

lemma select_items_total:
  assumes "run_state (select_items E S ts existing items) w = (Inr news, w')" and "item \<in> set items"
  shows "\<exists>name. item_task_name S ts item = Inr name"
  using assms
proof (induction items arbitrary: w news)
  case (Cons i items)
  from select_items_step [OF Cons.prems(1)] Cons.IH Cons.prems(2) show ?case by (metis set_ConsD)
qed simp

text \<open>
  A cycle in which the name of an item cannot be resolved fails without losing items: it
  creates no task, even for the other items, returns an error, and if it writes the status it
  marks the spawner as failed and leaves the time of the last discovery, from which the next
  cycle goes on, as it reads it.
\<close>

theorem failed_cycle_keeps_watermark:
  assumes "run_state (spawn_tasks E S ns name ts items) w = (r, w')"
    and "item \<in> set items" and "item_task_name S ts item = Inl e"
  shows "(\<forall>t. CreateTask t \<notin> set (new_calls w w')) \<and> r \<noteq> None
    \<and> (\<forall>ts'. UpdateSpawnerStatus ts' \<in> set (new_calls w w') \<longrightarrow>
         sst_phase (s_status ts') = SpawnerFailed
         \<and> (\<exists>h fresh. q_spawner S h ns name = Inr fresh
              \<and> sst_last_discovery (s_status ts') = sst_last_discovery (s_status fresh)))"
  using spawn_tasks_run [OF assms(1)]
proof (elim disjE exE conjE)
  fix f assume "w' = listed ts items w"
    and "q_spawner_tasks S (listing ts items w) (s_namespace ts) (s_name ts) = Inl f"
  moreover from this have "r \<noteq> None"
    using assms(1) by (auto simp: spawn_tasks_def io_run listing_def elim!: run_bindE)
  ultimately show ?thesis by (auto simp: listed_def listing_def)
next
  fix tasks f w1 e'
  assume 1: "run_state (select_items E S ts (existing_tasks ts tasks) items) (listed ts items w) = (Inl f, w1)"
    and 2: "run_state (recordCycleFailure E S ns name f) w1 = (e', w')" and "r = Some e'"
  note g = listed_no_create(1) [of w ts items] emits_grows [OF select_no_create 1] emits_grows [OF failure_no_create 2]
  have split: "new_calls w w' = new_calls w (listed ts items w) @ new_calls (listed ts items w) w1 @ new_calls w1 w'"
    using new_calls_append [OF g(1) grows_trans [OF g(2,3)]] new_calls_append [OF g(2,3)] by simp
  have "emits (\<lambda>c. \<forall>ts'. c \<noteq> UpdateSpawnerStatus ts') (select_items E S ts (existing_tasks ts tasks) items)"
    by (intro emits_intro) simp
  from this 1 have no_update: "UpdateSpawnerStatus ts' \<notin> set (new_calls (listed ts items w) w1)" for ts'
    by (elim emitsD) (auto, blast)
  have "UpdateSpawnerStatus ts' \<notin> set (new_calls w (listed ts items w))" for ts'
    by (simp add: listed_def listing_def)
  moreover have "CreateTask t \<notin> set (new_calls w w')" for t
    using split listed_no_create(3) no_create_call [OF select_no_create 1] no_create_call [OF failure_no_create 2]
    by auto
  ultimately show ?thesis using no_update split \<open>r = Some e'\<close> failure_run [OF 2] by (auto, metis, metis)
next
  fix tasks news w1 x w2
  assume "run_state (select_items E S ts (existing_tasks ts tasks) items) (listed ts items w) = (Inr news, w1)"
  from select_items_total [OF this assms(2)] assms(3) show ?thesis by simp
qed

lemma failed_cycle_keeps_watermark_witness:
  "(\<forall>t. CreateTask t \<notin> set (new_calls start (snd nameless_cycle))) \<and> fst nameless_cycle \<noteq> None
   \<and> (\<exists>ts. UpdateSpawnerStatus ts \<in> set (new_calls start (snd nameless_cycle))
        \<and> sst_last_discovery (s_status ts) = Some 0)"
proof -
  have "isl (item_task_name nameless_env nameless_spawner (plain_item ''7''))" by code_simp
  then obtain e where unnamed: "item_task_name nameless_env nameless_spawner (plain_item ''7'') = Inl e"
    by (auto simp: isl_def)
  from failed_cycle_keeps_watermark [OF _ _ unnamed, of idle_cluster "''default''" "''fix''" "[plain_item ''7'']" start
      "fst nameless_cycle" "snd nameless_cycle"]
  have failed: "(\<forall>t. CreateTask t \<notin> set (new_calls start (snd nameless_cycle))) \<and> fst nameless_cycle \<noteq> None"
    and unmoved: "UpdateSpawnerStatus ts' \<in> set (new_calls start (snd nameless_cycle)) \<Longrightarrow>
      (\<exists>h fresh. q_spawner nameless_env h ''default'' ''fix'' = Inr fresh
         \<and> sst_last_discovery (s_status ts') = sst_last_discovery (s_status fresh))" for ts'
    by (auto simp: nameless_cycle_def)
  have "written (\<lambda>ts. True) (snd nameless_cycle)" by code_simp
  then obtain ts where ts: "UpdateSpawnerStatus ts \<in> set (new_calls start (snd nameless_cycle))"
    using writtenD by (fastforce simp: start_def)
  with unmoved [OF ts] have "sst_last_discovery (s_status ts) = Some 0"
    by (simp add: nameless_env_def nameless_spawner_def plain_spawner_def)
  with failed ts show ?thesis by blast
qed

section \<open>Cron\<close>

lemma cron_ticks_run:
  assumes "\<And>t. t < sched t" and "found < maxCronTicks" and "ticks = cron_ticks found sched now c"
  shows "int (length ticks) \<le> maxCronTicks - found
    \<and> (\<forall>i < length ticks. ticks ! i = (sched ^^ Suc i) c \<and> c < ticks ! i \<and> ticks ! i \<le> now)
    \<and> (int (length ticks) < maxCronTicks - found \<longrightarrow> now < (sched ^^ Suc (length ticks)) c)"
  using assms
proof (induction found sched now c arbitrary: ticks rule: cron_ticks.induct)
  case (1 found sched now c)
  note ticks = "1.prems"(3) [unfolded cron_ticks.simps [of found sched now c]]
  consider "now < sched c" | "\<not> now < sched c" "maxCronTicks \<le> found + 1"
    | "\<not> now < sched c" "\<not> maxCronTicks \<le> found + 1" by blast
  then show ?case
  proof cases
    case 3
    have shift: "(sched ^^ Suc i) (sched c) = (sched ^^ Suc (Suc i)) c" for i
      by (simp add: funpow_swap1)
    have up: "c < sched c" by (rule 1)
    define rest where "rest = cron_ticks (found + 1) sched now (sched c)"
    have ih: "int (length rest) \<le> maxCronTicks - (found + 1)
      \<and> (\<forall>i < length rest. rest ! i = (sched ^^ Suc (Suc i)) c \<and> sched c < rest ! i \<and> rest ! i \<le> now)
      \<and> (int (length rest) < maxCronTicks - (found + 1) \<longrightarrow> now < (sched ^^ Suc (Suc (length rest))) c)"
    proof -
      have "found + 1 < maxCronTicks" using 3 by simp
      with "1.IH" [OF refl _ _ "1.prems"(1) _ rest_def] 3 show ?thesis unfolding shift by blast
    qed
    have "ticks = sched c # rest" using ticks 3 by (simp add: rest_def Let_def)
    have ends: "int (length ticks) \<le> maxCronTicks - found"
      "int (length ticks) < maxCronTicks - found \<longrightarrow> now < (sched ^^ Suc (length ticks)) c"
      using ih by (simp_all add: \<open>ticks = sched c # rest\<close> del: funpow.simps)
    have "ticks ! i = (sched ^^ Suc i) c \<and> c < ticks ! i \<and> ticks ! i \<le> now" if "i < length ticks" for i
    proof (cases i)
      case 0
      then show ?thesis using \<open>ticks = sched c # rest\<close> up 3 by simp
    next
      case (Suc j)
      with that \<open>ticks = sched c # rest\<close> ih have "rest ! j = (sched ^^ Suc (Suc j)) c" "sched c < rest ! j" "rest ! j \<le> now"
        by auto
      then show ?thesis using Suc \<open>ticks = sched c # rest\<close> less_trans [OF up]
        by (simp del: funpow.simps)
    qed
    with ends show ?thesis by blast
  qed (use ticks "1.prems"(1,2) in \<open>simp_all add: Let_def\<close>)
qed

text \<open>
  C28. Cron discovery finds the ticks after the last discovery up to now, in order and without a
  gap: as many as there are, and at most a thousand.
\<close>

theorem cron_discovers_ticks:
  assumes "\<And>t. t < sched t" and "l_cron S schedule = Inr sched" and "since \<noteq> zero_time"
  shows "\<exists>ticks. run_state (cron_discover E S schedule since) w = (Inr (map (tick_item E S schedule) ticks), w)
    \<and> length ticks \<le> 1000
    \<and> (\<forall>i < length ticks. ticks ! i = (sched ^^ Suc i) since \<and> since < ticks ! i \<and> ticks ! i \<le> q_clock E (w_calls w))
    \<and> (length ticks < 1000 \<longrightarrow> q_clock E (w_calls w) < (sched ^^ Suc (length ticks)) since)"
  using assms(2,3) cron_ticks_run [OF assms(1) _ refl, of 0 "q_clock E (w_calls w)" since]
  by (intro exI [where x = "cron_ticks 0 sched (q_clock E (w_calls w)) since"])
    (auto simp: cron_discover_def io_run maxCronTicks_def simp del: funpow.simps)

lemma cron_discovers_ticks_witness:
  "\<exists>ticks. run_state (cron_discover idle_cluster idle_spawner_env ''* * * * *'' (- minutes 3)) start
     = (Inr (map (tick_item idle_cluster idle_spawner_env ''* * * * *'') ticks), start) \<and> length ticks \<le> 1000"
proof -
  let ?sched = "\<lambda>t::int. (t div minutes 1 + 1) * minutes 1"
  have up: "t < ?sched t" for t by presburger
  have "l_cron idle_spawner_env ''* * * * *'' = Inr ?sched" by (simp add: idle_spawner_env_def)
  from cron_discovers_ticks [OF up this, of "- minutes 3" idle_cluster start] show ?thesis
    by (auto simp: zero_time_def)
qed

text \<open>The same spawner with its one active task.\<close>

definition busy_env :: spawner_env where
  "busy_env = idle_spawner_env
     \<lparr>q_spawner := (\<lambda>h ns name. Inr busy_spawner),
      q_spawner_tasks := (\<lambda>h ns name. Inr [spawned_task busy_spawner ''fix-0'' PhaseRunning])\<rparr>"

definition cron_cycle :: "go_err option \<times> world" where
  "cron_cycle = run_state (runCycleWithSourceCore late_cluster busy_env ''default'' ''fix''
     (CronSource ''* * * * *'' 0)) start"

text \<open>
  A tick that is not served at once is lost: with the limit on active tasks reached, a
  successful cycle discovers two ticks, creates no task for them, and moves the time of the
  last discovery past them; discovery from that time finds only later ticks.
\<close>

theorem skipped_ticks_lost:
  "fst cron_cycle = None \<and> run_creates late_cluster start (snd cron_cycle) = []
   \<and> (\<exists>ts. UpdateSpawnerStatus ts \<in> set (w_calls (snd cron_cycle)) \<and> sst_discovered (s_status ts) = 2
        \<and> sst_last_discovery (s_status ts) = Some (seconds 125))
   \<and> (\<forall>E w. \<exists>ticks. run_state (cron_discover E busy_env ''* * * * *'' (seconds 125)) w
        = (Inr (map (tick_item E busy_env ''* * * * *'') ticks), w) \<and> list_all (\<lambda>t. seconds 125 < t) ticks)"
proof (intro conjI allI)
  have "case cron_cycle of (r, w) \<Rightarrow> r = None \<and> run_creates late_cluster start w = []
      \<and> written (\<lambda>ts. sst_discovered (s_status ts) = 2 \<and> sst_last_discovery (s_status ts) = Some (seconds 125)) w"
    by code_simp
  then have cycle: "fst cron_cycle = None" "run_creates late_cluster start (snd cron_cycle) = []"
    "written (\<lambda>ts. sst_discovered (s_status ts) = 2 \<and> sst_last_discovery (s_status ts) = Some (seconds 125))
      (snd cron_cycle)"
    by (simp_all add: split_beta)
  then show "fst cron_cycle = None" "run_creates late_cluster start (snd cron_cycle) = []" by blast+
  from cycle show "\<exists>ts. UpdateSpawnerStatus ts \<in> set (w_calls (snd cron_cycle)) \<and> sst_discovered (s_status ts) = 2
        \<and> sst_last_discovery (s_status ts) = Some (seconds 125)"
    using writtenD by blast
  let ?sched = "\<lambda>t::int. (t div minutes 1 + 1) * minutes 1"
  have up: "t < ?sched t" for t by presburger
  have cron: "l_cron busy_env ''* * * * *'' = Inr ?sched" by (simp add: busy_env_def idle_spawner_env_def)
  show "\<exists>ticks. run_state (cron_discover E busy_env ''* * * * *'' (seconds 125)) w
        = (Inr (map (tick_item E busy_env ''* * * * *'') ticks), w) \<and> list_all (\<lambda>t. seconds 125 < t) ticks" for E w
    using cron cron_ticks_run [OF up _ refl, of 0 "q_clock E (w_calls w)" "seconds 125"]
    by (intro exI [where x = "cron_ticks 0 ?sched (q_clock E (w_calls w)) (seconds 125)"])
      (auto simp: cron_discover_def io_run zero_time_def list_all_length maxCronTicks_def simp del: funpow.simps)
qed

section \<open>Polling that stops\<close>

definition polling_spawner :: task_spawner where
  "polling_spawner = plain_spawner
     \<lparr>s_when := \<lparr>wn_issues = Some \<lparr>gi_repo = [], gi_types = [], gi_labels = [], gi_exclude_labels = [],
        gi_state = [], gi_policy = None, gi_assignee = [], gi_author = [], gi_exclude_authors = [],
        gi_priority = [], gi_reporting = None, gi_poll = []\<rparr>,
        wn_pulls = None, wn_cron = None, wn_jira = None,
        wn_github = None, wn_linear = None, wn_generic = None, wn_slack = None\<rparr>,
      s_template := plain_template\<lparr>tt_context := [Opaque ''needs a Secret'']\<rparr>\<rparr>"

definition polling_env :: spawner_env where
  "polling_env = idle_spawner_env
     \<lparr>q_spawner := (\<lambda>h ns name. Inr polling_spawner),
      q_http := (\<lambda>h url token. Inr \<lparr>hr_status = 200, hr_link = [], hr_body = []\<rparr>),
      l_issues := (\<lambda>s. Inr [\<lparr>is_number = 7, is_title = ''a title'', is_body = [], is_url = [], is_labels = [],
                            is_user = ''ann'', is_pull_request = False\<rparr>]),
      q_context := (\<lambda>h sources vars. Inl (wrap_err ''reading Secret'' (GoErr NotFound ''not found'')))\<rparr>"

text \<open>
  Polling can stop for good without an error: when the Secret of a context source does not
  exist, the cycle fails with an error that counts as \<open>not found\<close>, which the loop takes for its
  own spawner being deleted. It neither returns the error nor asks to be called again, although
  every read of the spawner succeeds and its poll interval is five minutes; and the status it
  has written does not wake it.
\<close>

theorem missing_secret_stops_polling:
  "fst (run_state (spawner_reconcile idle_cluster polling_env plain_config (''default'', ''fix'') (''default'', ''fix'')) start)
     = (no_requeue, None)
   \<and> (\<forall>h ns name. q_spawner polling_env h ns name = Inr polling_spawner)
   \<and> resolvedPollInterval polling_env polling_spawner = minutes 5
   \<and> (\<exists>ts. UpdateSpawnerStatus ts \<in> set (w_calls (snd (run_state (spawner_reconcile idle_cluster polling_env plain_config
          (''default'', ''fix'') (''default'', ''fix'')) start)))
        \<and> \<not> spawner_update_wakes (''default'', ''fix'') (s_meta polling_spawner) (s_meta ts))"
proof (intro conjI allI)
  let ?r = "run_state (spawner_reconcile idle_cluster polling_env plain_config (''default'', ''fix'') (''default'', ''fix'')) start"
  have "case ?r of (x, w) \<Rightarrow> x = (no_requeue, None)
      \<and> written (\<lambda>ts. \<not> spawner_update_wakes (''default'', ''fix'') (s_meta polling_spawner) (s_meta ts)) w"
    by code_simp
  then have cycle: "fst ?r = (no_requeue, None)"
    "written (\<lambda>ts. \<not> spawner_update_wakes (''default'', ''fix'') (s_meta polling_spawner) (s_meta ts)) (snd ?r)"
    by (simp_all add: split_beta)
  then show "fst ?r = (no_requeue, None)" by blast
  from cycle show "\<exists>ts. UpdateSpawnerStatus ts \<in> set (w_calls (snd ?r))
        \<and> \<not> spawner_update_wakes (''default'', ''fix'') (s_meta polling_spawner) (s_meta ts)"
    using writtenD by blast
  show "q_spawner polling_env h ns name = Inr polling_spawner" for h ns name by (simp add: polling_env_def)
  show "resolvedPollInterval polling_env polling_spawner = minutes 5" by code_simp
qed

end
