(* ===== verification/WebhookEnv.thy ===== *)
theory WebhookEnv
  imports SpawnerEnv GitHubToken
begin

text \<open>
  What the webhook server (\<^verbatim>\<open>internal/webhook\<close>) sees: the payloads of GitHub as the types of
  \<^verbatim>\<open>go-github\<close> that it decodes them into, and its parameter, the record \<open>webhook_env\<close>. A pointer
  that may be nil is an option; the \<^verbatim>\<open>Get\<close> accessors of \<^verbatim>\<open>go-github\<close> give zero values for nil.
\<close>

section \<open>Events of GitHub\<close>

record hook_repository =
  ho_full_name :: string
  ho_owner :: string
  ho_name :: string

record hook_base =
  hb_action :: string
  hb_sender :: string
  hb_repo :: "hook_repository option"

text \<open>\<open>hi_pull\<close> are the links to the pull request that an issue is; the URL is what is read.\<close>

record hook_issue =
  hi_number :: int
  hi_title :: string
  hi_body :: string
  hi_url :: string
  hi_state :: string
  hi_labels :: "string list"
  hi_user :: string
  hi_pull :: "string option"

text \<open>\<open>hp_head\<close> has the ref and the SHA.\<close>

record hook_pull =
  hp_number :: int
  hp_title :: string
  hp_body :: string
  hp_url :: string
  hp_state :: string
  hp_draft :: bool
  hp_labels :: "string list"
  hp_user :: string
  hp_head :: "(string \<times> string) option"

record hook_comment =
  hc_body :: string
  hc_url :: string

record hook_commit =
  hm_added :: "string list"
  hm_removed :: "string list"
  hm_modified :: "string list"

record hook_release =
  hl_id :: int
  hl_tag :: string
  hl_name :: string
  hl_body :: string
  hl_url :: string

text \<open>\<open>ck_pulls\<close> has the ref of the head, if there is a head, and the number.\<close>

record hook_check_run =
  ck_id :: int
  ck_name :: string
  ck_url :: string
  ck_sha :: string
  ck_conclusion :: string
  ck_pulls :: "(string option \<times> int) list"
  ck_app :: "string option"

datatype github_event =
    IssuesEvent hook_base "hook_issue option"
  | IssueCommentEvent hook_base "hook_issue option" "hook_comment option"
  | PullRequestEvent hook_base "hook_pull option"
  | PullRequestReviewEvent hook_base "hook_pull option" "hook_comment option"
  | PullRequestReviewCommentEvent hook_base "hook_pull option" "hook_comment option"
  | PushEvent hook_base string "string option" "hook_commit list"
  | CreateEvent hook_base string string
  | ReleaseEvent hook_base "hook_release option"
  | CheckRunEvent hook_base "hook_check_run option"
  | OtherEvent opaque

section \<open>The parameter\<close>

text \<open>
  The fields \<open>wq_\<close> are answers of services. Of the libraries, \<open>wl_sha256\<close> and \<open>wl_hmac\<close> give hex
  digests, \<open>wl_json\<close> and \<open>wl_json_object\<close> decode a JSON text into any value or into a map,
  \<open>wl_jsonpath\<close> evaluates an expression, \<open>wl_show\<close> is the verb \<^verbatim>\<open>%v\<close> and \<open>wl_float\<close> the verb \<^verbatim>\<open>%.0f\<close>,
  \<open>wl_regexp\<close> compiles a regular expression, \<open>wl_file_match\<close> is \<^verbatim>\<open>filepath.Match\<close>,
  \<open>wl_github_event\<close> is \<^verbatim>\<open>github.ParseWebHook\<close>, \<open>wl_event_value\<close> and \<open>wl_json_value\<close> are what a template
  sees of a payload, \<open>wl_pr_head\<close> and \<open>wl_linear_labels\<close> decode the answers of GitHub and Linear, the
  latter into label names and error messages, and \<open>wl_no_match\<close> is \<^verbatim>\<open>meta.IsNoMatchError\<close>.
  \<open>linear_api_key\<close> is the environment variable.
\<close>

record webhook_env =
  wq_spawners :: "task_spawner list answer"
  wq_session_spawners :: "session_spawner list answer"
  wq_session_spawner :: "session_spawner answer"
  wq_gateway :: "webhook_gateway answer"
  wq_post :: "call list \<Rightarrow> string \<Rightarrow> string \<Rightarrow> string \<Rightarrow> go_err + http_response"
  wl_no_match :: "go_err \<Rightarrow> bool"
  wl_sha256 :: "string \<Rightarrow> string"
  wl_hmac :: "string \<Rightarrow> string \<Rightarrow> string"
  wl_json :: "string \<Rightarrow> go_err + json"
  wl_json_object :: "string \<Rightarrow> go_err + (string \<times> json) list"
  wl_jsonpath :: "string \<Rightarrow> json \<Rightarrow> go_err + json"
  wl_show :: "json \<Rightarrow> string"
  wl_float :: "opaque \<Rightarrow> string"
  wl_regexp :: "string \<Rightarrow> go_err + (string \<Rightarrow> bool)"
  wl_file_match :: "string \<Rightarrow> string \<Rightarrow> go_err + bool"
  wl_github_event :: "string \<Rightarrow> string \<Rightarrow> go_err + github_event"
  wl_event_value :: "github_event \<Rightarrow> tmpl_value"
  wl_json_value :: "json \<Rightarrow> tmpl_value"
  wl_pr_head :: "string \<Rightarrow> go_err + (string \<times> string)"
  wl_linear_request :: "string \<Rightarrow> string \<Rightarrow> string"
  wl_linear_labels :: "string \<Rightarrow> go_err + (string list \<times> string list)"
  linear_api_key :: string

definition http_post :: "webhook_env \<Rightarrow> string \<Rightarrow> string \<Rightarrow> string \<Rightarrow> (go_err + http_response) io" where
  "http_post W url auth body =
     State (\<lambda>w. (wq_post W (w_calls w) url auth body, w\<lparr>w_calls := w_calls w @ [HttpPost url body]\<rparr>))"

lemma run_http_post [io_run]:
  "run_state (http_post W url auth body) w =
     (wq_post W (w_calls w) url auth body, w\<lparr>w_calls := w_calls w @ [HttpPost url body]\<rparr>)"
  by (simp add: http_post_def)

lemma emits_http_post [emits_intro]: "P (HttpPost url body) \<Longrightarrow> emits P (http_post W url auth body)"
  by (simp add: emits_def io_run)

lemma keeps_locks_http_post [emits_intro]: "keeps_locks (http_post W url auth body)"
  by (simp add: keeps_locks_def io_run)

section \<open>Reading JSON values\<close>

text \<open>Type assertions \<^verbatim>\<open>v, ok := m[k].(T)\<close>.\<close>

definition json_str :: "(string \<times> json) list \<Rightarrow> string \<Rightarrow> string option" where
  "json_str m k = (case map_of m k of Some (JStr s) \<Rightarrow> Some s | _ \<Rightarrow> None)"

definition json_obj :: "(string \<times> json) list \<Rightarrow> string \<Rightarrow> (string \<times> json) list option" where
  "json_obj m k = (case map_of m k of Some (JObj ob) \<Rightarrow> Some ob | _ \<Rightarrow> None)"

definition json_arr :: "(string \<times> json) list \<Rightarrow> string \<Rightarrow> json list option" where
  "json_arr m k = (case map_of m k of Some (JArr xs) \<Rightarrow> Some xs | _ \<Rightarrow> None)"

definition or_empty :: "string option \<Rightarrow> string" where
  "or_empty s = (case s of None \<Rightarrow> [] | Some x \<Rightarrow> x)"

text \<open>The value of a field \<^verbatim>\<open>name\<close> of the objects in a list.\<close>

definition json_names :: "json list \<Rightarrow> string list" where
  "json_names xs = List.map_filter (\<lambda>x. case x of JObj m \<Rightarrow> json_str m ''name'' | _ \<Rightarrow> None) xs"

end
