(* ===== verification/WebhookFilters.thy ===== *)
theory WebhookFilters
  imports WebhookEnv Spawner
begin

text \<open>
  Which webhook events a spawner wants: \<^verbatim>\<open>github_filter.go\<close>, \<^verbatim>\<open>linear_filter.go\<close> and
  \<^verbatim>\<open>generic_filter.go\<close> of \<^verbatim>\<open>internal/webhook\<close>. A chain of early returns of \<^verbatim>\<open>false\<close> is a
  conjunction; what is logged on the way is left out.
\<close>

section \<open>GitHub events\<close>

subsection \<open>Parsing\<close>

record github_event_data =
  ge_event :: string
  ge_action :: string
  ge_sender :: string
  ge_ref :: string
  ge_repository :: string
  ge_owner :: string
  ge_repo_name :: string
  ge_raw :: github_event
  ge_id :: string
  ge_title :: string
  ge_number :: int
  ge_body :: string
  ge_url :: string
  ge_branch :: string
  ge_comment_body :: string
  ge_comment_url :: string
  ge_files :: "string list"
  ge_tag :: string
  ge_ref_type :: string
  ge_sha :: string
  ge_pr_url :: string
  ge_pr_author :: string

definition new_event_data :: "string \<Rightarrow> github_event \<Rightarrow> github_event_data" where
  "new_event_data eventType event =
     \<lparr>ge_event = eventType, ge_action = [], ge_sender = [], ge_ref = [], ge_repository = [], ge_owner = [],
      ge_repo_name = [], ge_raw = event, ge_id = [], ge_title = [], ge_number = 0, ge_body = [], ge_url = [],
      ge_branch = [], ge_comment_body = [], ge_comment_url = [], ge_files = [], ge_tag = [], ge_ref_type = [],
      ge_sha = [], ge_pr_url = [], ge_pr_author = []\<rparr>"

text \<open>The repository, and the sender and action; push and create events have no action.\<close>

definition with_base :: "hook_base \<Rightarrow> github_event_data \<Rightarrow> github_event_data" where
  "with_base b d =
     (case hb_repo b of
        None \<Rightarrow> d
      | Some r \<Rightarrow> d\<lparr>ge_repository := ho_full_name r, ge_owner := ho_owner r, ge_repo_name := ho_name r\<rparr>)
     \<lparr>ge_action := hb_action b, ge_sender := hb_sender b\<rparr>"

definition with_issue :: "hook_issue option \<Rightarrow> github_event_data \<Rightarrow> github_event_data" where
  "with_issue i d =
     (case i of
        None \<Rightarrow> d
      | Some i \<Rightarrow> d\<lparr>ge_id := itoa (hi_number i), ge_title := hi_title i, ge_number := hi_number i,
                    ge_body := hi_body i, ge_url := hi_url i\<rparr>)"

definition with_issue_pull :: "hook_issue option \<Rightarrow> github_event_data \<Rightarrow> github_event_data" where
  "with_issue_pull i d =
     (case i of
        None \<Rightarrow> d
      | Some i \<Rightarrow> (case hi_pull i of
          None \<Rightarrow> d
        | Some url \<Rightarrow> d\<lparr>ge_pr_url := url, ge_pr_author := hi_user i\<rparr>))"

definition with_pull :: "hook_pull option \<Rightarrow> github_event_data \<Rightarrow> github_event_data" where
  "with_pull p d =
     (case p of
        None \<Rightarrow> d
      | Some p \<Rightarrow>
          (let d' = d\<lparr>ge_id := itoa (hp_number p), ge_title := hp_title p, ge_number := hp_number p,
                      ge_body := hp_body p, ge_url := hp_url p, ge_pr_author := hp_user p\<rparr>
           in case hp_head p of None \<Rightarrow> d' | Some (ref, sha) \<Rightarrow> d'\<lparr>ge_branch := ref, ge_sha := sha\<rparr>))"

definition with_comment :: "hook_comment option \<Rightarrow> github_event_data \<Rightarrow> github_event_data" where
  "with_comment c d =
     (case c of None \<Rightarrow> d | Some c \<Rightarrow> d\<lparr>ge_comment_body := hc_body c, ge_comment_url := hc_url c\<rparr>)"

text \<open>\<^verbatim>\<open>remdups\<close> keeps last occurrences, the code keeps the first ones.\<close>

definition extractPushEventFiles :: "hook_commit list \<Rightarrow> string list" where
  "extractPushEventFiles commits =
     rev (remdups (rev (concat (map (\<lambda>c. hm_added c @ hm_removed c @ hm_modified c) commits))))"

definition with_push ::
  "string \<Rightarrow> string option \<Rightarrow> hook_commit list \<Rightarrow> github_event_data \<Rightarrow> github_event_data" where
  "with_push ref head commits d =
     (let branch = (if prefix ''refs/heads/'' ref then trim_prefix ref ''refs/heads/'' else [])
      in d\<lparr>ge_ref := ref, ge_branch := branch, ge_id := or_empty head, ge_title := ''Push to '' @ branch,
           ge_files := extractPushEventFiles commits\<rparr>)"

definition with_create :: "string \<Rightarrow> string \<Rightarrow> github_event_data \<Rightarrow> github_event_data" where
  "with_create ref refType d =
     (let d' = d\<lparr>ge_ref := ref, ge_ref_type := refType, ge_id := ref\<rparr>
      in if refType = ''tag'' then d'\<lparr>ge_tag := ref, ge_title := ''Tag created: '' @ ref\<rparr>
         else if refType = ''branch'' then d'\<lparr>ge_branch := ref, ge_title := ''Branch created: '' @ ref\<rparr>
         else d')"

definition with_release :: "hook_release option \<Rightarrow> github_event_data \<Rightarrow> github_event_data" where
  "with_release r d =
     (case r of
        None \<Rightarrow> d
      | Some r \<Rightarrow> d\<lparr>ge_tag := hl_tag r, ge_title := hl_name r, ge_body := hl_body r, ge_url := hl_url r,
                    ge_id := itoa (hl_id r)\<rparr>)"

definition with_check_run :: "hook_check_run option \<Rightarrow> github_event_data \<Rightarrow> github_event_data" where
  "with_check_run c d =
     (case c of
        None \<Rightarrow> d
      | Some c \<Rightarrow>
          (let d' = d\<lparr>ge_id := itoa (ck_id c), ge_title := ck_name c, ge_url := ck_url c, ge_sha := ck_sha c\<rparr>
           in case List.find (\<lambda>p. fst p \<noteq> None) (ck_pulls c) of
                Some (Some ref, number) \<Rightarrow> d'\<lparr>ge_branch := ref, ge_number := number\<rparr>
              | _ \<Rightarrow> d'))"

text \<open>Events without a case of their own: what can be read off the JSON.\<close>

definition with_raw :: "webhook_env \<Rightarrow> string \<Rightarrow> github_event_data \<Rightarrow> github_event_data" where
  "with_raw W payload d =
     (case wl_json_object W payload of
        Inl e \<Rightarrow> d
      | Inr raw \<Rightarrow>
          d\<lparr>ge_sender := (case json_obj raw ''sender'' of
                             None \<Rightarrow> [] | Some m \<Rightarrow> or_empty (json_str m ''login'')),
            ge_action := or_empty (json_str raw ''action''),
            ge_pr_author := (case json_obj raw ''pull_request'' of
                None \<Rightarrow> []
              | Some pr \<Rightarrow> (case json_obj pr ''user'' of
                    None \<Rightarrow> [] | Some user \<Rightarrow> or_empty (json_str user ''login'')))\<rparr>)"

definition event_data :: "webhook_env \<Rightarrow> string \<Rightarrow> string \<Rightarrow> github_event \<Rightarrow> github_event_data" where
  "event_data W eventType payload event =
     (let d = new_event_data eventType event
      in case event of
           IssuesEvent b i \<Rightarrow> with_issue i (with_base b d)
         | IssueCommentEvent b i c \<Rightarrow> with_issue_pull i (with_issue i (with_comment c (with_base b d)))
         | PullRequestEvent b p \<Rightarrow> with_pull p (with_base b d)
         | PullRequestReviewEvent b p r \<Rightarrow> with_pull p (with_comment r (with_base b d))
         | PullRequestReviewCommentEvent b p c \<Rightarrow> with_pull p (with_comment c (with_base b d))
         | PushEvent b ref head commits \<Rightarrow> with_push ref head commits ((with_base b d)\<lparr>ge_action := []\<rparr>)
         | CreateEvent b ref refType \<Rightarrow> with_create ref refType ((with_base b d)\<lparr>ge_action := []\<rparr>)
         | ReleaseEvent b r \<Rightarrow> with_release r (with_base b d)
         | CheckRunEvent b c \<Rightarrow> with_check_run c (with_base b d)
         | OtherEvent x \<Rightarrow> with_raw W payload d)"

definition ParseGitHubWebhook :: "webhook_env \<Rightarrow> string \<Rightarrow> string \<Rightarrow> go_err + github_event_data" where
  "ParseGitHubWebhook W eventType payload =
     (case wl_github_event W eventType payload of
        Inl e \<Rightarrow> Inl (wrap_err ''failed to parse GitHub webhook'' e)
      | Inr event \<Rightarrow> Inr (event_data W eventType payload event))"

subsection \<open>Matching\<close>

definition matchesPattern :: "webhook_env \<Rightarrow> string \<Rightarrow> string \<Rightarrow> go_err + bool" where
  "matchesPattern W body pattern =
     (case wl_regexp W pattern of
        Inl e \<Rightarrow> Inl (wrap_err (''Invalid body pattern '' @ quote pattern) e)
      | Inr matches \<Rightarrow> Inr (matches body))"

fun matchesAnyPattern :: "webhook_env \<Rightarrow> string \<Rightarrow> string list \<Rightarrow> go_err + bool" where
  "matchesAnyPattern W body [] = Inr False"
| "matchesAnyPattern W body (p # ps) =
     (case wl_regexp W p of
        Inl e \<Rightarrow> Inl (wrap_err (''Invalid body pattern '' @ quote p) e)
      | Inr matches \<Rightarrow> if matches body then Inr True else matchesAnyPattern W body ps)"

text \<open>A pattern that is not set accepts; one that is malformed rejects.\<close>

definition glob_accepts :: "webhook_env \<Rightarrow> string \<Rightarrow> string \<Rightarrow> bool" where
  "glob_accepts W pattern s \<longleftrightarrow>
     pattern = [] \<or> s \<noteq> [] \<and> wl_file_match W pattern s = Inr True"

definition body_accepted :: "webhook_env \<Rightarrow> github_webhook_filter \<Rightarrow> string option \<Rightarrow> bool" where
  "body_accepted W f body \<longleftrightarrow>
     (gf_body_contains f = [] \<or> (case body of None \<Rightarrow> True | Some b \<Rightarrow> str_contains b (gf_body_contains f)))
     \<and> (gf_body_pattern f = [] \<or> matchesPattern W (or_empty body) (gf_body_pattern f) = Inr True)
     \<and> (gf_exclude_body f = [] \<or> matchesAnyPattern W (or_empty body) (gf_exclude_body f) = Inr False)"

definition labels_accepted :: "github_webhook_filter \<Rightarrow> string list \<Rightarrow> bool" where
  "labels_accepted f labels \<longleftrightarrow>
     list_all (\<lambda>l. l \<in> set labels) (gf_labels f)
     \<and> \<not> list_ex (\<lambda>l. l \<in> set labels) (gf_exclude_labels f)"

definition issue_accepted :: "github_webhook_filter \<Rightarrow> hook_issue option \<Rightarrow> bool" where
  "issue_accepted f issue \<longleftrightarrow>
     (case issue of
        None \<Rightarrow> True
      | Some i \<Rightarrow> (gf_state f = [] \<or> gf_state f = hi_state i) \<and> labels_accepted f (hi_labels i))"

definition comment_on_accepted :: "github_webhook_filter \<Rightarrow> hook_issue option \<Rightarrow> bool" where
  "comment_on_accepted f issue \<longleftrightarrow>
     (case issue of
        None \<Rightarrow> True
      | Some i \<Rightarrow>
          (if gf_comment_on f = ''Issue'' then hi_pull i = None
           else if gf_comment_on f = ''PullRequest'' then hi_pull i \<noteq> None else True))"

definition pull_accepted :: "webhook_env \<Rightarrow> github_webhook_filter \<Rightarrow> hook_pull option \<Rightarrow> (hook_pull \<Rightarrow> string option) \<Rightarrow> bool" where
  "pull_accepted W f pull body \<longleftrightarrow>
     (case pull of
        None \<Rightarrow> True
      | Some p \<Rightarrow>
          (gf_state f = [] \<or> gf_state f = hp_state p)
          \<and> (case gf_draft f of None \<Rightarrow> True | Some b \<Rightarrow> b = hp_draft p)
          \<and> labels_accepted f (hp_labels p) \<and> body_accepted W f (body p))"

definition check_run_accepted :: "webhook_env \<Rightarrow> github_webhook_filter \<Rightarrow> hook_check_run option \<Rightarrow> bool" where
  "check_run_accepted W f c \<longleftrightarrow>
     (case c of
        None \<Rightarrow> True
      | Some c \<Rightarrow>
          (gf_conclusion f = [] \<or> gf_conclusion f = ck_conclusion c)
          \<and> (gf_check_name f = [] \<or> wl_file_match W (gf_check_name f) (ck_name c) = Inr True))"

definition event_accepted :: "webhook_env \<Rightarrow> github_webhook_filter \<Rightarrow> github_event \<Rightarrow> bool" where
  "event_accepted W f event \<longleftrightarrow>
     (case event of
        IssuesEvent b i \<Rightarrow> issue_accepted f i \<and> body_accepted W f (map_option hi_body i)
      | IssueCommentEvent b i c \<Rightarrow>
          comment_on_accepted f i \<and> issue_accepted f i \<and> body_accepted W f (map_option hc_body c)
      | PullRequestEvent b p \<Rightarrow> pull_accepted W f p (\<lambda>p. Some (hp_body p))
      | PullRequestReviewEvent b p r \<Rightarrow> pull_accepted W f p (\<lambda>p. map_option hc_body r)
      | PullRequestReviewCommentEvent b p c \<Rightarrow> pull_accepted W f p (\<lambda>p. map_option hc_body c)
      | CheckRunEvent b c \<Rightarrow> check_run_accepted W f c
      | _ \<Rightarrow> True)"

definition author_excluded :: "string list \<Rightarrow> github_event_data \<Rightarrow> bool" where
  "author_excluded authors d \<longleftrightarrow> ge_sender d \<noteq> [] \<and> ge_sender d \<in> set authors"

definition matchesFilterWithoutFilePatterns ::
  "webhook_env \<Rightarrow> github_webhook_filter \<Rightarrow> github_event_data \<Rightarrow> bool" where
  "matchesFilterWithoutFilePatterns W f d \<longleftrightarrow>
     (gf_action f = [] \<or> gf_action f = ge_action d)
     \<and> (gf_author f = [] \<or> gf_author f = ge_sender d)
     \<and> (gf_pr_author f = [] \<or> gf_pr_author f = ge_pr_author d)
     \<and> \<not> author_excluded (gf_exclude_authors f) d
     \<and> glob_accepts W (gf_branch f) (ge_branch d) \<and> glob_accepts W (gf_tag f) (ge_tag d)
     \<and> event_accepted W f (ge_raw d)"

definition matchesWebhookFilePatterns :: "spawner_env \<Rightarrow> string list \<Rightarrow> file_patterns \<Rightarrow> bool" where
  "matchesWebhookFilePatterns S files p = MatchesFilePaths S files (fp_include p) (fp_exclude p)"

definition matchesFilter ::
  "spawner_env \<Rightarrow> webhook_env \<Rightarrow> github_webhook_filter \<Rightarrow> github_event_data \<Rightarrow> bool" where
  "matchesFilter S W f d \<longleftrightarrow>
     matchesFilterWithoutFilePatterns W f d
     \<and> (case gf_files f of None \<Rightarrow> True | Some p \<Rightarrow> matchesWebhookFilePatterns S (ge_files d) p)"

definition githubWebhookAllowsEvent :: "github_webhook \<Rightarrow> string \<Rightarrow> github_event_data \<Rightarrow> bool" where
  "githubWebhookAllowsEvent gw eventType d \<longleftrightarrow>
     eventType \<in> set (gw_events gw) \<and> \<not> author_excluded (gw_exclude_authors gw) d"

definition matchesAnyGitHubExcludeFilter ::
  "webhook_env \<Rightarrow> github_webhook_filter list \<Rightarrow> string \<Rightarrow> github_event_data \<Rightarrow> bool" where
  "matchesAnyGitHubExcludeFilter W filters eventType d \<longleftrightarrow>
     list_ex (\<lambda>f. (gf_event f = [] \<or> gf_event f = eventType) \<and> matchesFilterWithoutFilePatterns W f d) filters"

definition MatchesGitHubEvent ::
  "spawner_env \<Rightarrow> webhook_env \<Rightarrow> github_webhook \<Rightarrow> string \<Rightarrow> github_event_data \<Rightarrow> bool" where
  "MatchesGitHubEvent S W gw eventType d \<longleftrightarrow>
     githubWebhookAllowsEvent gw eventType d
     \<and> \<not> matchesAnyGitHubExcludeFilter W (gw_exclude_filters gw) eventType d
     \<and> (gw_filters gw = [] \<or> list_ex (\<lambda>f. gf_event f = eventType \<and> matchesFilter S W f d) (gw_filters gw))"

definition githubWebhookNeedsChangedFiles ::
  "webhook_env \<Rightarrow> github_webhook \<Rightarrow> string \<Rightarrow> github_event_data \<Rightarrow> bool" where
  "githubWebhookNeedsChangedFiles W gw eventType d \<longleftrightarrow>
     githubWebhookAllowsEvent gw eventType d
     \<and> \<not> matchesAnyGitHubExcludeFilter W (gw_exclude_filters gw) eventType d
     \<and> list_ex (\<lambda>f. gf_event f = eventType \<and> gf_files f \<noteq> None \<and> matchesFilterWithoutFilePatterns W f d)
          (gw_filters gw)"

definition changedFilesForSpawner ::
  "webhook_env \<Rightarrow> github_webhook option \<Rightarrow> string \<Rightarrow> github_event_data \<Rightarrow> string list" where
  "changedFilesForSpawner W gw eventType d =
     (if eventType = ''push''
         \<or> (case gw of None \<Rightarrow> False | Some g \<Rightarrow> githubWebhookNeedsChangedFiles W g eventType d)
      then ge_files d else [])"

definition needsBranchEnrichment :: "github_event_data \<Rightarrow> bool" where
  "needsBranchEnrichment d \<longleftrightarrow> ge_branch d = [] \<and> ge_pr_url d \<noteq> []"

subsection \<open>Template variables\<close>

text \<open>An entry for a string that is not empty.\<close>

definition opt_var :: "string \<Rightarrow> string \<Rightarrow> template_vars" where
  "opt_var k s = (if s = [] then [] else [(k, TStr s)])"

definition check_run_vars :: "github_event \<Rightarrow> template_vars" where
  "check_run_vars event =
     (case event of
        CheckRunEvent b (Some c) \<Rightarrow>
          opt_var ''CheckName'' (ck_name c) @ opt_var ''Conclusion'' (ck_conclusion c)
          @ opt_var ''CheckRunURL'' (ck_url c) @ opt_var ''HeadSHA'' (ck_sha c)
          @ opt_var ''CheckApp'' (or_empty (ck_app c))
      | _ \<Rightarrow> [])"

definition ExtractGitHubWorkItem :: "webhook_env \<Rightarrow> github_event_data \<Rightarrow> string list \<Rightarrow> template_vars" where
  "ExtractGitHubWorkItem W d changedFiles =
     [(''Event'', TStr (ge_event d)), (''Action'', TStr (ge_action d)), (''Sender'', TStr (ge_sender d)),
      (''Ref'', TStr (ge_ref d)), (''Repository'', TStr (ge_repository d)),
      (''RepositoryOwner'', TStr (ge_owner d)), (''RepositoryName'', TStr (ge_repo_name d)),
      (''Payload'', wl_event_value W (ge_raw d)), (''ID'', TStr (ge_id d)), (''Title'', TStr (ge_title d)),
      (''Kind'', TStr ''webhook''), (''ChangedFiles'', TList (map TStr changedFiles))]
     @ (if 0 < ge_number d then [(''Number'', TInt (ge_number d))] else [])
     @ opt_var ''Body'' (ge_body d) @ opt_var ''URL'' (ge_url d) @ opt_var ''Branch'' (ge_branch d)
     @ opt_var ''CommentBody'' (ge_comment_body d) @ opt_var ''CommentURL'' (ge_comment_url d)
     @ opt_var ''Tag'' (ge_tag d) @ opt_var ''RefType'' (ge_ref_type d) @ check_run_vars (ge_raw d)"

section \<open>Linear events\<close>

text \<open>\<^verbatim>\<open>strings.EqualFold\<close>.\<close>

definition equal_fold :: "string \<Rightarrow> string \<Rightarrow> bool" where
  "equal_fold a b \<longleftrightarrow> to_lower a = to_lower b"

record linear_event_data =
  le_id :: string
  le_title :: string
  le_type :: string
  le_action :: string
  le_payload :: "(string \<times> json) list"
  le_labels :: "string list"
  le_state :: string

definition ParseLinearWebhook :: "webhook_env \<Rightarrow> string \<Rightarrow> go_err + linear_event_data" where
  "ParseLinearWebhook W payload =
     (case wl_json_object W payload of
        Inl e \<Rightarrow> Inl (wrap_err ''invalid JSON payload'' e)
      | Inr raw \<Rightarrow>
          (let data = (case json_obj raw ''data'' of None \<Rightarrow> [] | Some m \<Rightarrow> m)
           in Inr \<lparr>le_id = or_empty (json_str data ''id''), le_title = or_empty (json_str data ''title''),
                   le_type = or_empty (json_str raw ''type''), le_action = or_empty (json_str raw ''action''),
                   le_payload = raw,
                   le_labels = (case json_arr data ''labels'' of None \<Rightarrow> [] | Some xs \<Rightarrow> json_names xs),
                   le_state = (case json_obj data ''state'' of
                      None \<Rightarrow> [] | Some m \<Rightarrow> or_empty (json_str m ''name''))\<rparr>))"

text \<open>A list of labels that is there and not empty.\<close>

definition some_labels :: "(string \<times> json) list \<Rightarrow> json list option" where
  "some_labels m = (case json_arr m ''labels'' of Some (x # xs) \<Rightarrow> Some (x # xs) | _ \<Rightarrow> None)"

definition extractLabels :: "(string \<times> json) list \<Rightarrow> json list option" where
  "extractLabels dataObj =
     (case some_labels dataObj of
        Some xs \<Rightarrow> Some xs
      | None \<Rightarrow> (case json_obj dataObj ''issue'' of None \<Rightarrow> None | Some issue \<Rightarrow> some_labels issue))"

definition linear_labels_accepted :: "linear_webhook_filter \<Rightarrow> linear_event_data \<Rightarrow> bool" where
  "linear_labels_accepted f d =
     (if lf_labels f = [] \<and> lf_exclude_labels f = [] then True
      else (case json_obj (le_payload d) ''data'' of
         None \<Rightarrow> lf_labels f = []
       | Some dataObj \<Rightarrow>
           (case extractLabels dataObj of
              None \<Rightarrow> lf_labels f = []
            | Some labels \<Rightarrow>
                (let present = map to_lower (json_names labels)
                 in list_all (\<lambda>l. to_lower l \<in> set present) (lf_labels f)
                    \<and> \<not> list_ex (\<lambda>l. to_lower l \<in> set present) (lf_exclude_labels f)))))"

definition matchesLinearFilter :: "linear_webhook_filter \<Rightarrow> linear_event_data \<Rightarrow> bool" where
  "matchesLinearFilter f d \<longleftrightarrow>
     (lf_action f = [] \<or> equal_fold (lf_action f) (le_action d))
     \<and> (lf_states f = [] \<or> list_ex (\<lambda>s. equal_fold s (le_state d)) (lf_states f))
     \<and> linear_labels_accepted f d"

definition MatchesLinearEvent :: "linear_webhook \<Rightarrow> linear_event_data \<Rightarrow> bool" where
  "MatchesLinearEvent config d \<longleftrightarrow>
     list_ex (equal_fold (le_type d)) (lw_types config)
     \<and> (lw_filters config = []
        \<or> list_ex (\<lambda>f. (lf_type f = [] \<or> equal_fold (lf_type f) (le_type d)) \<and> matchesLinearFilter f d)
             (lw_filters config))"

text \<open>The first filter for comments that looks at labels decides.\<close>

definition spawnerNeedsLinearLabels :: "task_spawner \<Rightarrow> linear_event_data \<Rightarrow> bool" where
  "spawnerNeedsLinearLabels ts d \<longleftrightarrow>
     le_type d = ''Comment''
     \<and> (case wn_linear (s_when ts) of
          None \<Rightarrow> False
        | Some lw \<Rightarrow>
            list_ex (\<lambda>f. (lf_type f = [] \<or> equal_fold (lf_type f) ''Comment'')
                      \<and> (lf_labels f \<noteq> [] \<or> lf_exclude_labels f \<noteq> [])) (lw_filters lw)
            \<and> (case json_obj (le_payload d) ''data'' of None \<Rightarrow> True | Some m \<Rightarrow> extractLabels m = None))"

text \<open>The identifier of the issue that a comment is on.\<close>

definition comment_issue_id :: "webhook_env \<Rightarrow> (string \<times> json) list \<Rightarrow> string" where
  "comment_issue_id W issue =
     (case map_of issue ''id'' of Some (JStr s) \<Rightarrow> s | Some (JNum n) \<Rightarrow> wl_float W n | _ \<Rightarrow> [])"

definition ExtractLinearWorkItem :: "webhook_env \<Rightarrow> linear_event_data \<Rightarrow> template_vars" where
  "ExtractLinearWorkItem W d =
     [(''ID'', TStr (le_id d)), (''Title'', TStr (le_title d)), (''Kind'', TStr ''LinearWebhook''),
      (''Type'', TStr (le_type d)), (''Action'', TStr (le_action d)), (''State'', TStr (le_state d)),
      (''Labels'', TStr (str_join (le_labels d) '', '')),
      (''IssueID'', TStr (if le_type d = ''Comment''
         then (case json_obj (le_payload d) ''data'' of
                 None \<Rightarrow> []
               | Some m \<Rightarrow> (case json_obj m ''issue'' of None \<Rightarrow> [] | Some issue \<Rightarrow> comment_issue_id W issue))
         else [])),
      (''Payload'', wl_json_value W (JObj (le_payload d)))]"

section \<open>Generic webhooks\<close>

record generic_event_data =
  xe_fields :: strmap
  xe_payload :: json

definition ParseGenericWebhook :: "webhook_env \<Rightarrow> string \<Rightarrow> go_err + generic_event_data" where
  "ParseGenericWebhook W payload =
     (case wl_json W payload of
        Inl e \<Rightarrow> Inl (wrap_err ''invalid JSON payload'' e)
      | Inr v \<Rightarrow> Inr \<lparr>xe_fields = [], xe_payload = v\<rparr>)"

definition parsing_error :: "go_err \<Rightarrow> bool" where
  "parsing_error e \<longleftrightarrow> prefix ''parsing error:'' (err_text e)"

text \<open>
  \<^verbatim>\<open>range\<close> over the mapping goes in the order of the list, which decides only which of several
  errors is reported.
\<close>

fun extract_fields :: "webhook_env \<Rightarrow> json \<Rightarrow> strmap \<Rightarrow> strmap \<Rightarrow> go_err + strmap" where
  "extract_fields W payload [] got = Inr got"
| "extract_fields W payload ((key, expr) # rest) got =
     (case wl_jsonpath W expr payload of
        Inl e \<Rightarrow>
          if parsing_error e
          then Inl (wrap_err (''invalid JSONPath expression for field '' @ quote key) e)
          else extract_fields W payload rest (map_put key [] got)
      | Inr v \<Rightarrow> extract_fields W payload rest (map_put key (wl_show W v) got))"

definition ExtractFields :: "webhook_env \<Rightarrow> strmap \<Rightarrow> generic_event_data \<Rightarrow> go_err + generic_event_data" where
  "ExtractFields W fieldMapping d =
     (case extract_fields W (xe_payload d) fieldMapping [] of
        Inl e \<Rightarrow> Inl e | Inr got \<Rightarrow> Inr (d\<lparr>xe_fields := got\<rparr>))"

definition matchesGenericFilter :: "webhook_env \<Rightarrow> generic_webhook_filter \<Rightarrow> json \<Rightarrow> go_err + bool" where
  "matchesGenericFilter W f payload =
     (case wl_jsonpath W (xf_field f) payload of
        Inl e \<Rightarrow>
          if parsing_error e then Inl (wrap_err (''invalid JSONPath expression '' @ quote (xf_field f)) e)
          else Inr False
      | Inr v \<Rightarrow>
          (case xf_value f of
             Some s \<Rightarrow> Inr (wl_show W v = s)
           | None \<Rightarrow>
               if xf_pattern f = [] then Inr True
               else (case wl_regexp W (xf_pattern f) of
                  Inl e \<Rightarrow> Inl (wrap_err (''invalid regex pattern '' @ quote (xf_pattern f)) e)
                | Inr matches \<Rightarrow> Inr (matches (wl_show W v)))))"

fun MatchesGenericFilters :: "webhook_env \<Rightarrow> generic_webhook_filter list \<Rightarrow> json \<Rightarrow> go_err + bool" where
  "MatchesGenericFilters W [] payload = Inr True"
| "MatchesGenericFilters W (f # fs) payload =
     (case matchesGenericFilter W f payload of
        Inl e \<Rightarrow> Inl e
      | Inr b \<Rightarrow> if b then MatchesGenericFilters W fs payload else Inr False)"

fun MatchesGenericExcludeFilters :: "webhook_env \<Rightarrow> generic_webhook_filter list \<Rightarrow> json \<Rightarrow> go_err + bool" where
  "MatchesGenericExcludeFilters W [] payload = Inr False"
| "MatchesGenericExcludeFilters W (f # fs) payload =
     (case matchesGenericFilter W f payload of
        Inl e \<Rightarrow> Inl e
      | Inr b \<Rightarrow> if b then Inr True else MatchesGenericExcludeFilters W fs payload)"

definition canonicalFieldNames :: strmap where
  "canonicalFieldNames = [(''id'', ''ID''), (''title'', ''Title''), (''body'', ''Body''), (''url'', ''URL'')]"

text \<open>
  The order of \<^verbatim>\<open>range\<close> matters only to a mapping that has a standard name in both spellings.
\<close>

definition generic_vars :: "strmap \<Rightarrow> template_vars \<Rightarrow> template_vars" where
  "generic_vars mapped vars =
     foldl (\<lambda>vs (key, v).
        (let vs' = map_put key (TStr v) vs
         in case map_of canonicalFieldNames key of None \<Rightarrow> vs' | Some upper \<Rightarrow> map_put upper (TStr v) vs'))
       vars mapped"

definition ExtractGenericWorkItem :: "webhook_env \<Rightarrow> generic_event_data \<Rightarrow> template_vars" where
  "ExtractGenericWorkItem W d =
     foldl (\<lambda>vs k. if map_of vs k = None then map_put k (TStr []) vs else vs)
       (generic_vars (xe_fields d)
          [(''Kind'', TStr ''GenericWebhook''), (''Payload'', wl_json_value W (xe_payload d))])
       [''ID'', ''Title'', ''Body'', ''URL'']"

fun genericIDFromSpawners :: "webhook_env \<Rightarrow> string \<Rightarrow> task_spawner list \<Rightarrow> string \<Rightarrow> string option" where
  "genericIDFromSpawners W body [] sourceFilter = None"
| "genericIDFromSpawners W body (sp # sps) sourceFilter =
     (case wn_generic (s_when sp) of
        None \<Rightarrow> genericIDFromSpawners W body sps sourceFilter
      | Some wh \<Rightarrow>
          if sourceFilter \<noteq> [] \<and> xw_source wh \<noteq> sourceFilter then genericIDFromSpawners W body sps sourceFilter
          else if map_str (xw_mapping wh) ''id'' = [] then genericIDFromSpawners W body sps sourceFilter
          else (case wl_json W body of
             Inl e \<Rightarrow> None
           | Inr payload \<Rightarrow>
               (case wl_jsonpath W (map_str (xw_mapping wh) ''id'') payload of
                  Inl e \<Rightarrow> None
                | Inr v \<Rightarrow> if v = JNull \<or> wl_show W v = [] then None else Some (wl_show W v))))"

definition extractGenericDeliveryID :: "webhook_env \<Rightarrow> string \<Rightarrow> string \<Rightarrow> task_spawner list \<Rightarrow> string" where
  "extractGenericDeliveryID W sourceName body spawners =
     ''generic-'' @ sourceName @ ''-'' @
     (case genericIDFromSpawners W body spawners sourceName of Some i \<Rightarrow> i | None \<Rightarrow> wl_sha256 W body)"

definition extractGatewayGenericDeliveryID :: "webhook_env \<Rightarrow> string \<Rightarrow> string \<Rightarrow> task_spawner list \<Rightarrow> string" where
  "extractGatewayGenericDeliveryID W pre body spawners =
     ''generic-'' @ pre @ ''-'' @
     (case genericIDFromSpawners W body spawners [] of Some i \<Rightarrow> i | None \<Rightarrow> wl_sha256 W body)"

definition extractSourceFromPath :: "string \<Rightarrow> go_err + string" where
  "extractSourceFromPath path =
     (let parts = split_char (CHR ''/'') (trim_suffix path ''/'')
      in if length parts < 3 \<or> parts ! 2 = []
         then Inl (new_err (''path '' @ quote path @ '' missing source segment, expected /webhook/<source>''))
         else if 3 < length parts
         then Inl (new_err (''path '' @ quote path @ '' has too many segments, expected /webhook/<source>''))
         else if parts ! 1 \<noteq> ''webhook''
         then Inl (new_err (''path '' @ quote path @ '' has unexpected prefix, expected /webhook/<source>''))
         else Inr (parts ! 2))"

end
