(* ===== verification/WebhookServer.thy ===== *)
theory WebhookServer
  imports WebhookFilters
begin

text \<open>
  The webhook server, \<^verbatim>\<open>internal/webhook\<close>: deliveries are authenticated (\<^verbatim>\<open>signature.go\<close>), told
  apart from repetitions by a cache of delivery IDs, and turned into tasks and sessions for the
  spawners that match (\<^verbatim>\<open>handler.go\<close>), after data that the payload lacks was fetched
  (\<^verbatim>\<open>github_api.go\<close>, \<^verbatim>\<open>github_files.go\<close>, \<^verbatim>\<open>linear_api.go\<close>). \<^verbatim>\<open>gateway_handler.go\<close> does the same for
  the spawners bound to one gateway. Sessions are built by \<^verbatim>\<open>internal/sessionbuilder\<close>.

  The parsed delivery and the token resolver, which caches its token, are changed through
  pointers in the code; here they are returned. The delivery cache is passed along: a request
  reads and writes it once before and once after its work.
\<close>

section \<open>The cache of deliveries\<close>

type_synonym delivery_cache = "(string \<times> int) list"

definition CheckAndMark :: "delivery_cache \<Rightarrow> string \<Rightarrow> int \<Rightarrow> bool \<times> delivery_cache" where
  "CheckAndMark cache deliveryID now =
     (if map_of cache deliveryID \<noteq> None then (True, cache) else (False, map_put deliveryID now cache))"

definition Forget :: "delivery_cache \<Rightarrow> string \<Rightarrow> delivery_cache" where
  "Forget cache deliveryID = map_del deliveryID cache"

definition cleanup :: "delivery_cache \<Rightarrow> int \<Rightarrow> delivery_cache" where
  "cleanup cache now = filter (\<lambda>(i, t). \<not> t < now - minutes (24 * 60)) cache"

section \<open>Signatures\<close>

definition validateHMACSignature :: "webhook_env \<Rightarrow> string \<Rightarrow> string \<Rightarrow> string \<Rightarrow> go_err option" where
  "validateHMACSignature W payload expectedSig secret =
     (if wl_hmac W secret payload = expectedSig then None
      else Some (new_err ''signature verification failed''))"

definition ValidateGitHubSignature :: "webhook_env \<Rightarrow> string \<Rightarrow> string \<Rightarrow> string \<Rightarrow> go_err option" where
  "ValidateGitHubSignature W payload signature secret =
     (if signature = [] then Some (new_err ''missing signature'')
      else if \<not> prefix ''sha256='' signature
      then Some (new_err ''invalid signature format: expected sha256= prefix'')
      else validateHMACSignature W payload (drop 7 signature) secret)"

definition ValidateLinearSignature :: "webhook_env \<Rightarrow> string \<Rightarrow> string \<Rightarrow> string \<Rightarrow> go_err option" where
  "ValidateLinearSignature W payload signature secret =
     (if signature = [] then Some (new_err ''missing signature'')
      else validateHMACSignature W payload signature secret)"

section \<open>Fetching what a payload lacks\<close>

datatype webhook_source = GitHubHooks | LinearHooks | GenericHooks

record webhook_handler =
  wh_source :: webhook_source
  wh_secret :: string
  wh_api_base :: string
  wh_gateway :: string

definition resolveGitHubToken :: "env \<Rightarrow> token_resolver \<Rightarrow> ((go_err + string) \<times> token_resolver) io" where
  "resolveGitHubToken E r =
     (case r of
        NoResolver \<Rightarrow> ret (Inr [], r)
      | FixedToken token \<Rightarrow> ret (Inr token, r)
      | ProviderToken tp \<Rightarrow> do { (t, tp') \<leftarrow> Token E tp; ret (t, ProviderToken tp') })"

subsection \<open>The head of a pull request\<close>

definition fetchGitHubPRBranchWithToken ::
  "spawner_env \<Rightarrow> webhook_env \<Rightarrow> string \<Rightarrow> string \<Rightarrow> (go_err + (string \<times> string)) io" where
  "fetchGitHubPRBranchWithToken S W prAPIURL token =
     (if token = [] then ret (Inr ([], []))
      else do {
        r \<leftarrow> http_get S prAPIURL (''Bearer '' @ token);
        ret (case r of
           Inl e \<Rightarrow> Inl (wrap_err ''calling GitHub API'' e)
         | Inr resp \<Rightarrow>
             if hr_status resp \<noteq> 200 then Inl (api_status_error resp)
             else (case wl_pr_head W (hr_body resp) of
                Inl e \<Rightarrow> Inl (wrap_err ''decoding GitHub API response'' e)
              | Inr head \<Rightarrow> Inr head))
      })"

definition enrichGitHubIssueCommentBranch ::
  "env \<Rightarrow> spawner_env \<Rightarrow> webhook_env \<Rightarrow> token_resolver \<Rightarrow> github_event_data \<Rightarrow>
   (github_event_data \<times> token_resolver) io" where
  "enrichGitHubIssueCommentBranch E S W r d =
     (if ge_pr_url d = [] then ret (d, r)
      else do {
        (t, r') \<leftarrow> resolveGitHubToken E r;
        (case t of
           Inl e \<Rightarrow> ret (d, r')
         | Inr token \<Rightarrow> do {
             h \<leftarrow> fetchGitHubPRBranchWithToken S W (ge_pr_url d) token;
             ret (case h of
                Inl e \<Rightarrow> d
              | Inr (branch, sha) \<Rightarrow> if branch = [] then d else d\<lparr>ge_branch := branch, ge_sha := sha\<rparr>, r')
           })
      })"

subsection \<open>The labels of a Linear issue\<close>

definition defaultLinearAPIURL :: string where
  "defaultLinearAPIURL = ''https://api.linear.app/graphql''"

definition linearIssueLabelsQuery :: string where
  "linearIssueLabelsQuery = str_join
     [''query IssueLabels($id: String!) {'', ''  issue(id: $id) {'', ''    labels {'', ''      nodes {'',
      ''        name'', ''      }'', ''    }'', ''  }'', ''}''] [CHR 0x0A]"

definition fetchLinearIssueLabels :: "webhook_env \<Rightarrow> string \<Rightarrow> (go_err + string list) io" where
  "fetchLinearIssueLabels W issueID =
     (if linear_api_key W = [] then ret (Inr [])
      else do {
        r \<leftarrow> http_post W defaultLinearAPIURL (linear_api_key W)
               (wl_linear_request W linearIssueLabelsQuery issueID);
        ret (case r of
           Inl e \<Rightarrow> Inl (wrap_err ''calling Linear API'' e)
         | Inr resp \<Rightarrow>
             if hr_status resp \<noteq> 200
             then Inl (new_err (''Linear API returned status '' @ itoa (hr_status resp) @ '': ''
                    @ take 1024 (hr_body resp)))
             else (case wl_linear_labels W (hr_body resp) of
                Inl e \<Rightarrow> Inl (wrap_err ''decoding Linear API response'' e)
              | Inr (labels, messages) \<Rightarrow>
                  (case messages of
                     [] \<Rightarrow> Inr labels
                   | m # ms \<Rightarrow> Inl (new_err (''Linear API error: '' @ m)))))
      })"

definition put_issue_labels :: "string list \<Rightarrow> (string \<times> json) list \<Rightarrow> (string \<times> json) list \<Rightarrow> (string \<times> json) list \<Rightarrow> (string \<times> json) list" where
  "put_issue_labels labels issue dataObj payload =
     map_put ''data'' (JObj (map_put ''issue''
        (JObj (map_put ''labels'' (JArr (map (\<lambda>l. JObj [(''name'', JStr l)]) labels)) issue)) dataObj)) payload"

definition enrichLinearCommentLabels :: "webhook_env \<Rightarrow> linear_event_data \<Rightarrow> linear_event_data io" where
  "enrichLinearCommentLabels W d =
     (case json_obj (le_payload d) ''data'' of
        None \<Rightarrow> ret d
      | Some dataObj \<Rightarrow>
          (case json_obj dataObj ''issue'' of
             None \<Rightarrow> ret d
           | Some issue \<Rightarrow>
               if comment_issue_id W issue = [] then ret d
               else do {
                 r \<leftarrow> fetchLinearIssueLabels W (comment_issue_id W issue);
                 ret (case r of
                    Inl e \<Rightarrow> d
                  | Inr labels \<Rightarrow>
                      if labels = [] then d
                      else d\<lparr>le_payload := put_issue_labels labels issue dataObj (le_payload d),
                             le_labels := labels\<rparr>)
               }))"

subsection \<open>The files of a pull request\<close>

definition resolveTaskSpawnerWorkspaceRef :: "env \<Rightarrow> task_spawner \<Rightarrow> (go_err + string option) io" where
  "resolveTaskSpawnerWorkspaceRef E ts =
     (let template = s_template ts
      in case tt_workspace template of
           Some ws \<Rightarrow> ret (Inr (Some ws))
         | None \<Rightarrow>
             (case (case tt_worker template of None \<Rightarrow> None | Some w \<Rightarrow> wk_workspace w) of
                Some ws \<Rightarrow> ret (Inr (Some ws))
              | None \<Rightarrow>
                  (case tt_pool template of
                     None \<Rightarrow> ret (Inr None)
                   | Some p \<Rightarrow> do {
                       r \<leftarrow> read_obj (q_pool E) ''WorkerPool'' (s_namespace ts) p;
                       ret (case r of
                          Inl e \<Rightarrow> Inl (wrap_err (''fetching workerpool '' @ p) e)
                        | Inr pool \<Rightarrow> Inr (wk_workspace (wp_worker pool)))
                     })))"

definition token_of_secret :: "env \<Rightarrow> string \<Rightarrow> string \<Rightarrow> string \<Rightarrow> strmap \<Rightarrow> (go_err + string) io" where
  "token_of_secret E ws name apiBaseURL data =
     (if map_str data ''GITHUB_TOKEN'' \<noteq> [] then ret (Inr (map_str data ''GITHUB_TOKEN''))
      else if IsGitHubApp data
      then (case ParseCredentials E data of
         Inl e \<Rightarrow> ret (Inl (wrap_err (''parsing GitHub App credentials from secret '' @ name) e))
       | Inr creds \<Rightarrow> do {
           (t, tp) \<leftarrow> Token E (NewTokenProvider
             (if apiBaseURL \<noteq> [] then apiBaseURL else defaultGitHubAPIURL) creds);
           ret (case t of
              Inl e \<Rightarrow> Inl (wrap_err (''generating GitHub App token from secret '' @ name) e)
            | Inr token \<Rightarrow> Inr token)
         })
      else ret (Inl (new_err (''secret '' @ name @ '' referenced by workspace '' @ ws
             @ '' contains neither a GITHUB_TOKEN key nor valid GitHub App credentials (appID, installationID, privateKey)''))))"

definition resolveGitHubTokenFromWorkspaceRef ::
  "env \<Rightarrow> string \<Rightarrow> string option \<Rightarrow> string \<Rightarrow> (go_err + string) io" where
  "resolveGitHubTokenFromWorkspaceRef E ns wsRef apiBaseURL =
     (case wsRef of
        None \<Rightarrow> ret (Inr [])
      | Some name \<Rightarrow> do {
          r \<leftarrow> read_obj (q_workspace E) ''Workspace'' ns name;
          (case r of
             Inl e \<Rightarrow> ret (Inl (wrap_err (''fetching workspace '' @ name) e))
           | Inr ws \<Rightarrow>
               (case ws_secret ws of
                  None \<Rightarrow> ret (Inr [])
                | Some secretRef \<Rightarrow> do {
                    s \<leftarrow> read_obj (q_secret E) ''Secret'' ns secretRef;
                    (case s of
                       Inl e \<Rightarrow> ret (Inl (wrap_err (''fetching secret '' @ secretRef) e))
                     | Inr sec \<Rightarrow> token_of_secret E name secretRef apiBaseURL (sec_data sec))
                  }))
        })"

definition resolveFallbackGitHubToken ::
  "env \<Rightarrow> string \<Rightarrow> token_resolver \<Rightarrow> ((go_err + string) \<times> token_resolver) io" where
  "resolveFallbackGitHubToken E token r =
     (if token \<noteq> [] then ret (Inr token, r) else resolveGitHubToken E r)"

definition prFilesMaxPages :: nat where "prFilesMaxPages = 10"

definition fetchGitHubFilesPage :: "spawner_env \<Rightarrow> string \<Rightarrow> string \<Rightarrow> (go_err + (string list \<times> string)) io" where
  "fetchGitHubFilesPage S token url = fetch_page S token id ''decoding response'' (l_files S) url"

definition fetchPRChangedFilesWithToken ::
  "spawner_env \<Rightarrow> string \<Rightarrow> string \<Rightarrow> string \<Rightarrow> string \<Rightarrow> int \<Rightarrow> (go_err + string list) io" where
  "fetchPRChangedFilesWithToken S token apiBaseURL owner repo number = do {
     r \<leftarrow> fetch_pages (fetchGitHubFilesPage S token) prFilesMaxPages
            ((if apiBaseURL = [] then ''https://api.github.com'' else apiBaseURL) @ ''/repos/'' @ owner @ ''/'' @ repo
             @ ''/pulls/'' @ itoa number @ ''/files?per_page=100'');
     ret (case r of
        Inl e \<Rightarrow> Inl e
      | Inr (files, u) \<Rightarrow>
          if u \<noteq> []
          then Inl (new_err (''PR #'' @ itoa number @ '' has more than '' @ itoa (int prFilesMaxPages)
                 @ '' pages of changed files; refusing to evaluate filters on incomplete data''))
          else Inr files)
   }"

text \<open>With the workspace of a task spawner or of a session template; an event without a number has no files.\<close>

definition changed_files_with ::
  "env \<Rightarrow> spawner_env \<Rightarrow> webhook_handler \<Rightarrow> (go_err + string) io \<Rightarrow> token_resolver \<Rightarrow> github_event_data \<Rightarrow>
   ((go_err + string list) \<times> token_resolver) io" where
  "changed_files_with E S h workspace_token r d = do {
     t \<leftarrow> workspace_token;
     (case t of
        Inl e \<Rightarrow> ret (Inl (wrap_err ''resolving GitHub token for PR files'' e), r)
      | Inr token \<Rightarrow> do {
          (t', r') \<leftarrow> resolveFallbackGitHubToken E token r;
          (case t' of
             Inl e \<Rightarrow> ret (Inl (wrap_err ''resolving GitHub token for PR files'' e), r')
           | Inr token' \<Rightarrow> do {
               f \<leftarrow> fetchPRChangedFilesWithToken S token' (wh_api_base h) (ge_owner d) (ge_repo_name d) (ge_number d);
               ret (f, r')
             })
        })
   }"

definition enrichPRChangedFiles ::
  "env \<Rightarrow> spawner_env \<Rightarrow> webhook_handler \<Rightarrow> task_spawner \<Rightarrow> token_resolver \<Rightarrow> github_event_data \<Rightarrow>
   ((go_err + string list) \<times> token_resolver) io" where
  "enrichPRChangedFiles E S h ts r d =
     (if ge_number d = 0 \<or> ge_repository d = [] then ret (Inr [], r)
      else changed_files_with E S h (do {
        w \<leftarrow> resolveTaskSpawnerWorkspaceRef E ts;
        (case w of
           Inl e \<Rightarrow> ret (Inl e)
         | Inr wsRef \<Rightarrow> resolveGitHubTokenFromWorkspaceRef E (s_namespace ts) wsRef (wh_api_base h))
      }) r d)"

definition enrichSessionSpawnerPRChangedFiles ::
  "env \<Rightarrow> spawner_env \<Rightarrow> webhook_handler \<Rightarrow> session_spawner \<Rightarrow> token_resolver \<Rightarrow> github_event_data \<Rightarrow>
   ((go_err + string list) \<times> token_resolver) io" where
  "enrichSessionSpawnerPRChangedFiles E S h sp r d =
     (if ge_number d = 0 \<or> ge_repository d = [] then ret (Inr [], r)
      else changed_files_with E S h
        (resolveGitHubTokenFromWorkspaceRef E (sp_namespace sp) (wk_workspace (se_worker (sp_template sp)))
           (wh_api_base h)) r d)"

section \<open>Matching\<close>

text \<open>The answer, the event data with the files that were fetched, and the resolver.\<close>

definition matchesGitHubWebhook ::
  "spawner_env \<Rightarrow> webhook_env \<Rightarrow> github_webhook option \<Rightarrow> string \<Rightarrow> github_event_data \<Rightarrow> token_resolver \<Rightarrow>
   (token_resolver \<Rightarrow> github_event_data \<Rightarrow> ((go_err + string list) \<times> token_resolver) io) \<Rightarrow>
   ((go_err + bool) \<times> github_event_data \<times> token_resolver) io" where
  "matchesGitHubWebhook S W gw eventType d r fetch =
     (case gw of
        None \<Rightarrow> ret (Inr False, d, r)
      | Some g \<Rightarrow>
          if gw_repository g \<noteq> [] \<and> gw_repository g \<noteq> ge_repository d then ret (Inr False, d, r)
          else if MatchesGitHubEvent S W g eventType d \<or> ge_files d \<noteq> []
                  \<or> \<not> githubWebhookNeedsChangedFiles W g eventType d
          then ret (Inr (MatchesGitHubEvent S W g eventType d), d, r)
          else do {
            (f, r') \<leftarrow> fetch r d;
            ret (case f of
               Inl e \<Rightarrow> (Inl (wrap_err ''fetching pull request changed files'' e), d, r')
             | Inr files \<Rightarrow>
                 (Inr (MatchesGitHubEvent S W g eventType (d\<lparr>ge_files := files\<rparr>)), d\<lparr>ge_files := files\<rparr>, r'))
          })"

datatype parsed_webhook =
    ParsedGitHub github_event_data | ParsedLinear linear_event_data | ParsedGeneric generic_event_data

definition matches_generic ::
  "webhook_env \<Rightarrow> webhook_handler \<Rightarrow> generic_webhook option \<Rightarrow> string \<Rightarrow> generic_event_data \<Rightarrow>
   (go_err + bool) \<times> generic_event_data" where
  "matches_generic W h xw eventType d =
     (case xw of
        None \<Rightarrow> (Inr False, d)
      | Some x \<Rightarrow>
          if wh_gateway h = [] \<and> xw_source x \<noteq> eventType then (Inr False, d)
          else (case ExtractFields W (xw_mapping x) d of
             Inl e \<Rightarrow> (Inl e, d)
           | Inr d' \<Rightarrow>
               (case MatchesGenericFilters W (xw_filters x) (xe_payload d') of
                  Inl e \<Rightarrow> Inl e
                | Inr matched \<Rightarrow>
                    if \<not> matched then Inr False
                    else (case MatchesGenericExcludeFilters W (xw_exclude_filters x) (xe_payload d') of
                       Inl e \<Rightarrow> Inl e
                     | Inr excluded \<Rightarrow> Inr (\<not> excluded)), d')))"

definition matchesSpawner ::
  "env \<Rightarrow> spawner_env \<Rightarrow> webhook_env \<Rightarrow> webhook_handler \<Rightarrow> task_spawner \<Rightarrow> string \<Rightarrow> parsed_webhook \<Rightarrow>
   token_resolver \<Rightarrow> ((go_err + bool) \<times> parsed_webhook \<times> token_resolver) io" where
  "matchesSpawner E S W h ts eventType parsed r =
     (case parsed of
        ParsedGitHub d \<Rightarrow> do {
          (m, d', r') \<leftarrow> matchesGitHubWebhook S W (wn_github (s_when ts)) eventType d r
                          (enrichPRChangedFiles E S h ts);
          ret (m, ParsedGitHub d', r')
        }
      | ParsedLinear d \<Rightarrow>
          ret (Inr (case wn_linear (s_when ts) of None \<Rightarrow> False | Some lw \<Rightarrow> MatchesLinearEvent lw d), parsed, r)
      | ParsedGeneric d \<Rightarrow>
          (let (m, d') = matches_generic W h (wn_generic (s_when ts)) eventType d
           in ret (m, ParsedGeneric d', r)))"

section \<open>Creating a task\<close>

definition webhookSpawnName :: "webhook_env \<Rightarrow> string \<Rightarrow> string \<Rightarrow> string \<Rightarrow> string" where
  "webhookSpawnName W spawnerName eventType deliveryID =
     (let sanitized = map (\<lambda>c. if c = CHR ''_'' then CHR ''-'' else c) eventType;
          name = spawnerName @ ''-'' @ sanitized @ ''-'' @ take 12 (wl_sha256 W deliveryID)
      in if 63 < length name then trim_right_set ''-.'' (take 63 name) else name)"

definition webhookSourceKind :: "string \<Rightarrow> github_event_data \<Rightarrow> string" where
  "webhookSourceKind eventType d =
     (if eventType \<in> {''pull_request'', ''pull_request_review'', ''pull_request_review_comment'', ''pull_request_target''}
      then ''pull-request''
      else if eventType = ''issue_comment'' then (if ge_pr_url d \<noteq> [] then ''pull-request'' else ''issue'')
      else if eventType = ''check_run'' then (if 0 < ge_number d then ''pull-request'' else ''issue'')
      else ''issue'')"

definition reporting_annotations ::
  "webhook_handler \<Rightarrow> task_spawner \<Rightarrow> string \<Rightarrow> github_event_data \<Rightarrow> strmap" where
  "reporting_annotations h ts eventType d =
     (case (case wn_github (s_when ts) of None \<Rightarrow> None | Some g \<Rightarrow> gw_reporting g) of
        None \<Rightarrow> []
      | Some rep \<Rightarrow>
          if \<not> 0 < ge_number d then []
          else (let comments = (gr_enabled rep \<or> gr_comments rep \<noteq> None)
                in (if comments \<or> gr_checks rep \<noteq> None
                    then [(''kelos.dev/source-kind'', webhookSourceKind eventType d),
                          (''kelos.dev/source-number'', itoa (ge_number d)),
                          (''kelos.dev/source-owner'', ge_owner d), (''kelos.dev/source-repo'', ge_repo_name d)]
                         @ (if wh_gateway h \<noteq> [] then [(''kelos.dev/webhook-gateway'', wh_gateway h)] else [])
                    else [])
                   @ (if comments
                      then [(''kelos.dev/github-reporting'', ''enabled''),
                            (''kelos.dev/github-comment-mode'', case gr_comments rep of
                               Some mode \<Rightarrow> if mode \<noteq> [] then mode else ''PerTask''
                             | None \<Rightarrow> ''PerTask'')]
                      else [])
                   @ (case gr_checks rep of
                        None \<Rightarrow> []
                      | Some name \<Rightarrow>
                          if ge_sha d = [] then []
                          else [(''kelos.dev/github-checks'', ''enabled''), (''kelos.dev/source-sha'', ge_sha d)]
                               @ (if name \<noteq> [] then [(''kelos.dev/github-check-name'', name)] else []))))"

definition webhook_vars :: "webhook_env \<Rightarrow> task_spawner \<Rightarrow> string \<Rightarrow> parsed_webhook \<Rightarrow> template_vars" where
  "webhook_vars W ts eventType parsed =
     (case parsed of
        ParsedGitHub d \<Rightarrow>
          ExtractGitHubWorkItem W d (changedFilesForSpawner W (wn_github (s_when ts)) eventType d)
      | ParsedLinear d \<Rightarrow> ExtractLinearWorkItem W d
      | ParsedGeneric d \<Rightarrow> ExtractGenericWorkItem W d)"

text \<open>
  Before anything is fetched or built, a name template is looked up: \<open>Some\<close> is the answer when the
  name is taken or cannot be found out about.
\<close>

definition existing_for_name ::
  "env \<Rightarrow> spawner_env \<Rightarrow> task_spawner \<Rightarrow> template_vars \<Rightarrow> (go_err + bool) option io" where
  "existing_for_name E S ts vars =
     (if tt_name (s_template ts) = [] then ret None
      else (case ResolveTaskName S [] (s_template ts) vars of
         Inl e \<Rightarrow> ret (Some (Inl (wrap_err ''resolving task name'' e)))
       | Inr name \<Rightarrow> do {
           g \<leftarrow> read_obj (q_task E) ''Task'' (s_namespace ts) name;
           ret (case g of
              Inr existing \<Rightarrow>
                Some (if owned ts existing then Inr False
                      else Inl (new_err (''task '' @ name
                             @ '' name collides with an existing Task not owned by spawner '' @ s_name ts)))
            | Inl e \<Rightarrow>
                if is_not_found e then None
                else Some (Inl (wrap_err (''reading existing Task '' @ name) e)))
         }))"

definition webhook_context :: "spawner_env \<Rightarrow> task_spawner \<Rightarrow> template_vars \<Rightarrow> (go_err + template_vars) io" where
  "webhook_context S ts vars =
     (let sources = tt_context (s_template ts)
      in if sources = [] then ret (Inr vars)
         else do {
           r \<leftarrow> fetch_context S sources vars;
           ret (case r of
              Inl e \<Rightarrow> Inl (wrap_err ''fetching context sources'' e)
            | Inr data \<Rightarrow> Inr (map_put ''Context'' data vars))
         })"

text \<open>The task before it is created.\<close>

definition webhook_task ::
  "spawner_env \<Rightarrow> webhook_env \<Rightarrow> webhook_handler \<Rightarrow> task_spawner \<Rightarrow> string \<Rightarrow> parsed_webhook \<Rightarrow> string \<Rightarrow>
   template_vars \<Rightarrow> (go_err + task) io" where
  "webhook_task S W h ts eventType parsed deliveryID vars =
     (case BuildTask S (webhookSpawnName W (s_name ts) eventType deliveryID) (s_namespace ts) (s_template ts)
             vars (Some (spawner_ref_of ts)) of
        Inl e \<Rightarrow> ret (Inl (wrap_err ''failed to build task'' e))
      | Inr t \<Rightarrow> do {
          r \<leftarrow> AssignSpawnerCredential S ts t;
          ret (case r of
             Inl e \<Rightarrow> Inl (wrap_err ''assigning TaskSpawner credential'' e)
           | Inr t' \<Rightarrow> Inr (case parsed of
                ParsedGitHub d \<Rightarrow> annotate (reporting_annotations h ts eventType d) t'
              | _ \<Rightarrow> t'))
        })"

definition create_webhook_task :: "env \<Rightarrow> task_spawner \<Rightarrow> task \<Rightarrow> (go_err + bool) io" where
  "create_webhook_task E ts t = do {
     e \<leftarrow> write_call E (CreateTask t);
     (case e of
        None \<Rightarrow> ret (Inr True)
      | Some e \<Rightarrow>
          if \<not> is_already_exists e then ret (Inl (wrap_err ''failed to create task'' e))
          else do {
            g \<leftarrow> read_obj (q_task E) ''Task'' (t_namespace t) (t_name t);
            ret (case g of
               Inl e \<Rightarrow> Inl (wrap_err (''failed to read existing Task '' @ t_name t @ '' after create conflict'') e)
             | Inr existing \<Rightarrow>
                 if owned ts existing then Inr False
                 else Inl (new_err (''task '' @ t_name t
                        @ '' name collides with an existing Task not owned by spawner '' @ s_name ts)))
          })
   }"

definition createTask ::
  "env \<Rightarrow> spawner_env \<Rightarrow> webhook_env \<Rightarrow> webhook_handler \<Rightarrow> task_spawner \<Rightarrow> string \<Rightarrow> parsed_webhook \<Rightarrow>
   string \<Rightarrow> (go_err + bool) io" where
  "createTask E S W h ts eventType parsed deliveryID =
     (let vars = webhook_vars W ts eventType parsed
      in do {
        x \<leftarrow> existing_for_name E S ts vars;
        (case x of
           Some answer \<Rightarrow> ret answer
         | None \<Rightarrow> do {
             v \<leftarrow> webhook_context S ts vars;
             (case v of
                Inl e \<Rightarrow> ret (Inl e)
              | Inr vars' \<Rightarrow> do {
                  r \<leftarrow> webhook_task S W h ts eventType parsed deliveryID vars';
                  (case r of Inl e \<Rightarrow> ret (Inl e) | Inr t \<Rightarrow> create_webhook_task E ts t)
                })
           })
      })"

section \<open>Sessions\<close>

definition LabelSessionSpawner :: string where "LabelSessionSpawner = ''kelos.dev/sessionspawner''"
definition AnnotationSessionSpawnerName :: string where
  "AnnotationSessionSpawnerName = ''kelos.dev/sessionspawner-name''"

definition Render :: "spawner_env \<Rightarrow> string \<Rightarrow> string \<Rightarrow> template_vars \<Rightarrow> go_err + string" where
  "Render S name v vars =
     (case l_template S name v of
        Inl e \<Rightarrow> Inl (wrap_err ''parsing template'' e)
      | Inr execute \<Rightarrow>
          (case execute (TMap vars) of
             Inl e \<Rightarrow> Inl (wrap_err ''executing template'' e)
           | Inr s \<Rightarrow> Inr s))"

definition Build ::
  "spawner_env \<Rightarrow> string \<Rightarrow> string \<Rightarrow> session_spec \<Rightarrow> template_vars \<Rightarrow> spawner_ref \<Rightarrow> go_err + session" where
  "Build S name namespace template vars spawnerRef =
     (case Render S ''initialPrompt'' (se_prompt template) vars of
        Inl e \<Rightarrow> Inl (wrap_err ''rendering Session initialPrompt'' e)
      | Inr prompt \<Rightarrow>
          (case (if se_branch template = [] then Inr [] else Render S ''initialBranch'' (se_branch template) vars) of
             Inl e \<Rightarrow> Inl (wrap_err ''rendering Session initialBranch'' e)
           | Inr branch \<Rightarrow>
               Inr \<lparr>se_meta = blank_meta\<lparr>m_name := name, m_namespace := namespace,
                      m_labels := [(LabelSessionSpawner, sr_uid spawnerRef)],
                      m_annotations := [(AnnotationSessionSpawnerName, sr_name spawnerRef)],
                      m_owners := [spawner_owner spawnerRef]\<rparr>,
                    se_spec = template\<lparr>se_prompt := prompt, se_branch := branch\<rparr>\<rparr>))"

definition assign_session_credential ::
  "spawner_env \<Rightarrow> session_spawner \<Rightarrow> session \<Rightarrow> (go_err + session) io" where
  "assign_session_credential S sp ses =
     (if sp_credentials sp = [] then ret (Inr ses)
      else if wk_credentials (se_worker (se_spec ses)) \<noteq> None
      then ret (Inl (new_err ''SessionSpawner credentials cannot be combined with sessionTemplate.worker.credentials''))
      else do {
        selected \<leftarrow> Select S (sp_credentials sp);
        ret (Inr (ses\<lparr>se_spec := (se_spec ses)\<lparr>se_worker :=
                       (se_worker (se_spec ses))\<lparr>wk_credentials := Some (Materialize selected)\<rparr>\<rparr>,
                     se_meta := (se_meta ses)\<lparr>m_labels :=
                       map_put AssignmentLabel (sc_name selected) (m_labels (se_meta ses))\<rparr>\<rparr>))
      })"

definition session_spawner_ref :: "session_spawner \<Rightarrow> spawner_ref" where
  "session_spawner_ref sp = \<lparr>sr_name = sp_name sp, sr_uid = m_uid (sp_meta sp),
     sr_api_version = ''kelos.dev/v1alpha2'', sr_kind = ''SessionSpawner''\<rparr>"

definition updateSessionSpawnerDeliveryStatus ::
  "env \<Rightarrow> webhook_env \<Rightarrow> session_spawner \<Rightarrow> string \<Rightarrow> cond_status \<Rightarrow> string \<Rightarrow> string \<Rightarrow> go_err option io" where
  "updateSessionSpawnerDeliveryStatus E W sp sessionName status reason message = do {
     r \<leftarrow> read_obj (wq_session_spawner W) ''SessionSpawner'' (sp_namespace sp) (sp_name sp);
     (case r of
        Inl e \<Rightarrow> ret (Some e)
      | Inr current \<Rightarrow> do {
          now \<leftarrow> clock E;
          write_call E (PatchSessionSpawner
            (current\<lparr>sp_last_session := (if sessionName \<noteq> [] then sessionName else sp_last_session current),
                     sp_last_delivery := Some now,
                     sp_conditions := l_set_condition E (sp_conditions current)
                       \<lparr>c_type = ''LastDeliverySucceeded'', c_status = status, c_reason = reason,
                        c_message = message, c_generation = m_generation (sp_meta sp), c_transition = 0\<rparr>\<rparr>))
        })
   }"

definition recordSessionSpawnerFailure ::
  "env \<Rightarrow> webhook_env \<Rightarrow> session_spawner \<Rightarrow> string \<Rightarrow> go_err \<Rightarrow> (go_err + bool) io" where
  "recordSessionSpawnerFailure E W sp reason deliveryErr = do {
     e \<leftarrow> updateSessionSpawnerDeliveryStatus E W sp [] CondFalse reason (err_text deliveryErr);
     ret (Inl (case e of
        None \<Rightarrow> deliveryErr
      | Some e \<Rightarrow> join_two deliveryErr (wrap_err ''updating SessionSpawner status'' e)))
   }"

definition recordSessionSpawnerSuccess ::
  "env \<Rightarrow> webhook_env \<Rightarrow> session_spawner \<Rightarrow> string \<Rightarrow> string \<Rightarrow> string \<Rightarrow> (go_err + bool) io" where
  "recordSessionSpawnerSuccess E W sp sessionName reason message = do {
     e \<leftarrow> updateSessionSpawnerDeliveryStatus E W sp sessionName CondTrue reason message;
     ret (case e of None \<Rightarrow> Inr True | Some e \<Rightarrow> Inl e)
   }"

definition create_session ::
  "env \<Rightarrow> spawner_env \<Rightarrow> webhook_env \<Rightarrow> session_spawner \<Rightarrow> string \<Rightarrow> template_vars \<Rightarrow> (go_err + bool) io" where
  "create_session E S W sp sessionName vars =
     (case Build S sessionName (sp_namespace sp) (sp_template sp) vars (session_spawner_ref sp) of
        Inl e \<Rightarrow> recordSessionSpawnerFailure E W sp ''SessionBuildFailed'' e
      | Inr ses \<Rightarrow> do {
          a \<leftarrow> assign_session_credential S sp ses;
          (case a of
             Inl e \<Rightarrow> recordSessionSpawnerFailure E W sp ''SessionBuildFailed'' e
           | Inr ses' \<Rightarrow> do {
               e \<leftarrow> write_call E (CreateSession ses');
               (case e of
                  None \<Rightarrow> recordSessionSpawnerSuccess E W sp sessionName ''SessionCreated''
                            ''Created Session for matching webhook delivery''
                | Some e \<Rightarrow>
                    if is_already_exists e
                    then recordSessionSpawnerSuccess E W sp sessionName ''DeliveryAlreadyProcessed''
                           ''Session already exists for webhook delivery''
                    else recordSessionSpawnerFailure E W sp ''SessionCreateFailed'' e)
             })
        })"

text \<open>
  The only error of \<open>matchesGitHubWebhook\<close> is that of fetching the files, so the reason
  \<^verbatim>\<open>FilterEvaluationFailed\<close> of the code does not occur.
\<close>

definition processSessionSpawner ::
  "env \<Rightarrow> spawner_env \<Rightarrow> webhook_env \<Rightarrow> webhook_handler \<Rightarrow> session_spawner \<Rightarrow> string \<Rightarrow> github_event_data \<Rightarrow>
   string \<Rightarrow> token_resolver \<Rightarrow> ((go_err + bool) \<times> github_event_data \<times> token_resolver) io" where
  "processSessionSpawner E S W h sp eventType d deliveryID r = do {
     (m, d', r') \<leftarrow> matchesGitHubWebhook S W (sp_github sp) eventType d r
                     (enrichSessionSpawnerPRChangedFiles E S h sp);
     x \<leftarrow> (case m of
        Inl e \<Rightarrow> recordSessionSpawnerFailure E W sp ''ChangedFilesFetchFailed'' e
      | Inr matches \<Rightarrow>
          if \<not> matches then ret (Inr False)
          else create_session E S W sp (webhookSpawnName W (sp_name sp) eventType deliveryID)
                 (ExtractGitHubWorkItem W d' (changedFilesForSpawner W (sp_github sp) eventType d')));
     ret (x, d', r')
   }"

section \<open>Processing a delivery\<close>

definition parse_webhook ::
  "webhook_env \<Rightarrow> webhook_handler \<Rightarrow> string \<Rightarrow> string \<Rightarrow> go_err + (string \<times> parsed_webhook)" where
  "parse_webhook W h eventType payload =
     (case wh_source h of
        GitHubHooks \<Rightarrow>
          (case ParseGitHubWebhook W eventType payload of
             Inl e \<Rightarrow> Inl (wrap_err ''failed to parse github webhook'' e)
           | Inr d \<Rightarrow> Inr (eventType, ParsedGitHub d))
      | LinearHooks \<Rightarrow>
          (case ParseLinearWebhook W payload of
             Inl e \<Rightarrow> Inl (wrap_err ''failed to parse linear webhook'' e)
           | Inr d \<Rightarrow> Inr (if le_type d \<noteq> [] then to_lower (le_type d) else eventType, ParsedLinear d))
      | GenericHooks \<Rightarrow>
          (case ParseGenericWebhook W payload of
             Inl e \<Rightarrow> Inl (wrap_err ''failed to parse generic webhook'' e)
           | Inr d \<Rightarrow> Inr (eventType, ParsedGeneric d)))"

text \<open>Whether a spawner is served by the server of a source, not by a gateway.\<close>

definition serves :: "webhook_source \<Rightarrow> task_spawner \<Rightarrow> bool" where
  "serves src ts \<longleftrightarrow>
     (case src of
        GitHubHooks \<Rightarrow> (case wn_github (s_when ts) of None \<Rightarrow> False | Some g \<Rightarrow> gw_gateway g = None)
      | LinearHooks \<Rightarrow> (case wn_linear (s_when ts) of None \<Rightarrow> False | Some l \<Rightarrow> lw_gateway l = None)
      | GenericHooks \<Rightarrow> (case wn_generic (s_when ts) of None \<Rightarrow> False | Some x \<Rightarrow> xw_gateway x = None))"

definition getMatchingSpawners :: "webhook_env \<Rightarrow> webhook_source \<Rightarrow> (go_err + task_spawner list) io" where
  "getMatchingSpawners W src = do {
     l \<leftarrow> read_obj (wq_spawners W) ''TaskSpawnerList'' [] [];
     ret (case l of Inl e \<Rightarrow> Inl e | Inr ts \<Rightarrow> Inr (filter (serves src) ts))
   }"

text \<open>An error and an empty list are both the nil slice.\<close>

definition getGenericSpawners :: "webhook_env \<Rightarrow> task_spawner list io" where
  "getGenericSpawners W = do {
     l \<leftarrow> read_obj (wq_spawners W) ''TaskSpawnerList'' [] [];
     ret (case l of Inl e \<Rightarrow> [] | Inr ts \<Rightarrow> filter (serves GenericHooks) ts)
   }"

definition getMatchingSessionSpawners :: "webhook_env \<Rightarrow> (go_err + session_spawner list) io" where
  "getMatchingSessionSpawners W = do {
     l \<leftarrow> read_obj (wq_session_spawners W) ''SessionSpawnerList'' [] [];
     ret (case l of
        Inl e \<Rightarrow> if wl_no_match W e \<or> is_not_found e then Inr [] else Inl e
      | Inr sps \<Rightarrow>
          Inr (filter (\<lambda>sp. case sp_github sp of None \<Rightarrow> False | Some g \<Rightarrow> gw_gateway g = None) sps))
   }"

definition limit_reached :: "task_spawner \<Rightarrow> bool" where
  "limit_reached ts \<longleftrightarrow>
     (case s_max_concurrency ts of
        None \<Rightarrow> False | Some m \<Rightarrow> 0 < m \<and> m \<le> wrap32 (sst_active (s_status ts)))"

text \<open>What the loop over the spawners carries along, besides the number of tasks and the errors.\<close>

record delivery =
  dl_parsed :: parsed_webhook
  dl_resolver :: token_resolver
  dl_enriched :: bool

definition enrich_linear :: "webhook_env \<Rightarrow> task_spawner \<Rightarrow> delivery \<Rightarrow> delivery io" where
  "enrich_linear W ts dl =
     (case dl_parsed dl of
        ParsedLinear d \<Rightarrow>
          if \<not> dl_enriched dl \<and> spawnerNeedsLinearLabels ts d
          then do {
            d' \<leftarrow> enrichLinearCommentLabels W d;
            ret (dl\<lparr>dl_parsed := ParsedLinear d', dl_enriched := True\<rparr>)
          }
          else ret dl
      | _ \<Rightarrow> ret dl)"

text \<open>One spawner: nothing, or the outcome of \<^verbatim>\<open>createTask\<close>. A failed match is only logged.\<close>

definition serve_spawner ::
  "env \<Rightarrow> spawner_env \<Rightarrow> webhook_env \<Rightarrow> webhook_handler \<Rightarrow> string \<Rightarrow> string \<Rightarrow> task_spawner \<Rightarrow> delivery \<Rightarrow>
   ((go_err + bool) option \<times> delivery) io" where
  "serve_spawner E S W h eventType deliveryID ts dl =
     (if is_suspended ts \<or> limit_reached ts then ret (None, dl)
      else do {
        dl' \<leftarrow> enrich_linear W ts dl;
        (m, parsed, r) \<leftarrow> matchesSpawner E S W h ts eventType (dl_parsed dl') (dl_resolver dl');
        let dl'' = dl'\<lparr>dl_parsed := parsed, dl_resolver := r\<rparr>;
        (if m = Inr True
         then do { c \<leftarrow> createTask E S W h ts eventType parsed deliveryID; ret (Some c, dl'') }
         else ret (None, dl''))
      })"

fun serve_spawners ::
  "env \<Rightarrow> spawner_env \<Rightarrow> webhook_env \<Rightarrow> webhook_handler \<Rightarrow> string \<Rightarrow> string \<Rightarrow> task_spawner list \<Rightarrow> delivery \<Rightarrow>
   (nat \<times> go_err list \<times> delivery) io" where
  "serve_spawners E S W h eventType deliveryID [] dl = ret (0, [], dl)"
| "serve_spawners E S W h eventType deliveryID (ts # rest) dl = do {
     (c, dl') \<leftarrow> serve_spawner E S W h eventType deliveryID ts dl;
     (n, errs, dl'') \<leftarrow> serve_spawners E S W h eventType deliveryID rest dl';
     ret (if c = Some (Inr True) then Suc n else n,
          (case c of Some (Inl e) \<Rightarrow> wrap_err (''spawner '' @ s_name ts) e # errs | _ \<Rightarrow> errs), dl'')
   }"

fun serve_sessions ::
  "env \<Rightarrow> spawner_env \<Rightarrow> webhook_env \<Rightarrow> webhook_handler \<Rightarrow> string \<Rightarrow> string \<Rightarrow> session_spawner list \<Rightarrow>
   github_event_data \<Rightarrow> token_resolver \<Rightarrow> (nat \<times> go_err list \<times> token_resolver) io" where
  "serve_sessions E S W h eventType deliveryID [] d r = ret (0, [], r)"
| "serve_sessions E S W h eventType deliveryID (sp # rest) d r = do {
     (x, d', r') \<leftarrow> processSessionSpawner E S W h sp eventType d deliveryID r;
     (n, errs, r'') \<leftarrow> serve_sessions E S W h eventType deliveryID rest d' r';
     ret (if x = Inr True then Suc n else n, (case x of Inl e \<Rightarrow> e # errs | _ \<Rightarrow> errs), r'')
   }"

definition enrich_branch ::
  "env \<Rightarrow> spawner_env \<Rightarrow> webhook_env \<Rightarrow> token_resolver \<Rightarrow> parsed_webhook \<Rightarrow> (parsed_webhook \<times> token_resolver) io" where
  "enrich_branch E S W r parsed =
     (case parsed of
        ParsedGitHub d \<Rightarrow>
          if needsBranchEnrichment d
          then do { (d', r') \<leftarrow> enrichGitHubIssueCommentBranch E S W r d; ret (ParsedGitHub d', r') }
          else ret (parsed, r)
      | _ \<Rightarrow> ret (parsed, r))"

definition serve_all ::
  "env \<Rightarrow> spawner_env \<Rightarrow> webhook_env \<Rightarrow> webhook_handler \<Rightarrow> token_resolver \<Rightarrow> string \<Rightarrow> parsed_webhook \<Rightarrow> string \<Rightarrow>
   task_spawner list \<Rightarrow> session_spawner list \<Rightarrow> ((bool \<times> go_err option) \<times> token_resolver) io" where
  "serve_all E S W h r eventType parsed deliveryID spawners sessionSpawners = do {
     (parsed', r') \<leftarrow> enrich_branch E S W r parsed;
     (n, errs, dl) \<leftarrow> serve_spawners E S W h eventType deliveryID spawners
                        \<lparr>dl_parsed = parsed', dl_resolver = r', dl_enriched = False\<rparr>;
     (m, errs', r'') \<leftarrow> (case dl_parsed dl of
        ParsedGitHub d \<Rightarrow> serve_sessions E S W h eventType deliveryID sessionSpawners d (dl_resolver dl)
      | _ \<Rightarrow> ret (0, [], dl_resolver dl));
     ret ((0 < n \<or> 0 < m, join_errs (errs @ errs')), r'')
   }"

definition processWebhook ::
  "env \<Rightarrow> spawner_env \<Rightarrow> webhook_env \<Rightarrow> webhook_handler \<Rightarrow> token_resolver \<Rightarrow> string \<Rightarrow> string \<Rightarrow> string \<Rightarrow>
   task_spawner list option \<Rightarrow> session_spawner list option \<Rightarrow> ((bool \<times> go_err option) \<times> token_resolver) io" where
  "processWebhook E S W h r eventType payload deliveryID prefetched prefetchedSessions =
     (case parse_webhook W h eventType payload of
        Inl e \<Rightarrow> ret ((False, Some e), r)
      | Inr (eventType', parsed) \<Rightarrow> do {
          l \<leftarrow> (case prefetched of Some ts \<Rightarrow> ret (Inr ts) | None \<Rightarrow> getMatchingSpawners W (wh_source h));
          (case l of
             Inl e \<Rightarrow> ret ((False, Some (wrap_err ''failed to get matching spawners'' e)), r)
           | Inr spawners \<Rightarrow> do {
               l' \<leftarrow> (if wh_source h \<noteq> GitHubHooks then ret (Inr [])
                      else (case prefetchedSessions of
                              Some sps \<Rightarrow> ret (Inr sps) | None \<Rightarrow> getMatchingSessionSpawners W));
               (case l' of
                  Inl e \<Rightarrow> ret ((False, Some (wrap_err ''failed to get matching SessionSpawners'' e)), r)
                | Inr sessionSpawners \<Rightarrow>
                    if spawners = [] \<and> sessionSpawners = [] then ret ((True, None), r)
                    else serve_all E S W h r eventType' parsed deliveryID spawners sessionSpawners)
             })
        })"

section \<open>The HTTP handlers\<close>

record http_request =
  rq_method :: string
  rq_path :: string
  rq_headers :: strmap
  rq_body :: "go_err + string"

definition maxPayloadSize :: int where "maxPayloadSize = 10 * 1024 * 1024"

definition linearDeliveryID :: "webhook_env \<Rightarrow> string \<Rightarrow> string" where
  "linearDeliveryID W body = ''linear-'' @ wl_sha256 W body"

definition githubDeliveryID :: "webhook_env \<Rightarrow> string \<Rightarrow> string" where
  "githubDeliveryID W body = ''github-'' @ wl_sha256 W body"

definition first_of :: "string \<Rightarrow> string \<Rightarrow> string" where
  "first_of a b = (if a = [] then b else a)"

text \<open>
  What is left of a delivery after authentication: the event type, the delivery ID, and the
  spawners if they were listed already; or the status code of a refusal.
\<close>

definition identify ::
  "webhook_env \<Rightarrow> webhook_handler \<Rightarrow> http_request \<Rightarrow> string \<Rightarrow>
   (int + (string \<times> string \<times> task_spawner list option)) io" where
  "identify W h req body =
     (case wh_source h of
        GitHubHooks \<Rightarrow>
          ret (if ValidateGitHubSignature W body (map_str (rq_headers req) ''X-Hub-Signature-256'') (wh_secret h) \<noteq> None
               then Inl 401
               else Inr (map_str (rq_headers req) ''X-GitHub-Event'',
                         first_of (map_str (rq_headers req) ''X-GitHub-Delivery'') (githubDeliveryID W body), None))
      | LinearHooks \<Rightarrow>
          ret (if ValidateLinearSignature W body (map_str (rq_headers req) ''Linear-Signature'') (wh_secret h) \<noteq> None
               then Inl 401
               else Inr (''linear'',
                         first_of (map_str (rq_headers req) ''Linear-Delivery'') (linearDeliveryID W body), None))
      | GenericHooks \<Rightarrow>
          (case extractSourceFromPath (rq_path req) of
             Inl e \<Rightarrow> ret (Inl 400)
           | Inr sourceName \<Rightarrow> do {
               spawners \<leftarrow> getGenericSpawners W;
               ret (Inr (sourceName, extractGenericDeliveryID W sourceName body spawners,
                         if spawners = [] then None else Some spawners))
             }))"

definition admit ::
  "webhook_env \<Rightarrow> webhook_handler \<Rightarrow> http_request \<Rightarrow>
   (int + (string \<times> string \<times> task_spawner list option) \<times> string) io" where
  "admit W h req =
     (if rq_method req \<noteq> ''POST'' then ret (Inl 405)
      else (case rq_body req of
         Inl e \<Rightarrow> ret (Inl 400)
       | Inr body \<Rightarrow>
           if maxPayloadSize < int (length body) then ret (Inl 413)
           else do {
             i \<leftarrow> identify W h req body;
             ret (case i of Inl code \<Rightarrow> Inl code | Inr x \<Rightarrow> Inr (x, body))
           }))"

text \<open>The status code after the work is done, and what becomes of the mark in the cache.\<close>

definition conclude :: "go_err option \<Rightarrow> string \<Rightarrow> delivery_cache \<Rightarrow> int \<times> delivery_cache" where
  "conclude e deliveryID cache =
     (case e of
        None \<Rightarrow> (200, cache)
      | Some _ \<Rightarrow> (500, if deliveryID \<noteq> [] then Forget cache deliveryID else cache))"

definition mark :: "delivery_cache \<Rightarrow> string \<Rightarrow> int \<Rightarrow> bool \<times> delivery_cache" where
  "mark cache deliveryID now =
     (if deliveryID = [] then (False, cache) else CheckAndMark cache deliveryID now)"

text \<open>A request that no other request runs along with.\<close>

definition ServeHTTP ::
  "env \<Rightarrow> spawner_env \<Rightarrow> webhook_env \<Rightarrow> webhook_handler \<Rightarrow> token_resolver \<Rightarrow> http_request \<Rightarrow> delivery_cache \<Rightarrow>
   (int \<times> token_resolver \<times> delivery_cache) io" where
  "ServeHTTP E S W h r req cache = do {
     a \<leftarrow> admit W h req;
     (case a of
        Inl code \<Rightarrow> ret (code, r, cache)
      | Inr ((eventType, deliveryID, prefetched), body) \<Rightarrow> do {
          now \<leftarrow> clock E;
          (case mark cache deliveryID now of
             (True, cache1) \<Rightarrow> ret (200, r, cache1)
           | (False, cache1) \<Rightarrow> do {
               ((b, e), r') \<leftarrow> processWebhook E S W h r eventType body deliveryID prefetched None;
               (case conclude e deliveryID cache1 of (code, cache2) \<Rightarrow> ret (code, r', cache2))
             })
        })
   }"

section \<open>Gateways\<close>

definition gatewayWebhookSecretKey :: string where "gatewayWebhookSecretKey = ''webhook-secret''"

definition trim_set :: "char list \<Rightarrow> string \<Rightarrow> string" where
  "trim_set cs s = trim_right_set cs (dropWhile (\<lambda>c. c \<in> set cs) s)"

definition parseGatewayPath :: "string \<Rightarrow> go_err + (string \<times> string)" where
  "parseGatewayPath path =
     (case split_char (CHR ''/'') (trim_set ''/'' path) of
        [w, ns, name] \<Rightarrow>
          if w = ''webhook'' \<and> ns \<noteq> [] \<and> name \<noteq> [] then Inr (ns, name)
          else Inl (new_err (''invalid gateway webhook path '' @ quote path @ '': expected /webhook/<namespace>/<name>''))
      | _ \<Rightarrow> Inl (new_err (''invalid gateway webhook path '' @ quote path @ '': expected /webhook/<namespace>/<name>'')))"

definition gatewaySource :: "webhook_gateway \<Rightarrow> webhook_source option" where
  "gatewaySource gw =
     (if wg_github gw \<noteq> None then Some GitHubHooks
      else if wg_linear gw \<noteq> None then Some LinearHooks
      else if wg_generic gw then Some GenericHooks else None)"

definition gatewaySecretRef :: "webhook_gateway \<Rightarrow> string option" where
  "gatewaySecretRef gw =
     (case wg_github gw of Some g \<Rightarrow> Some (gg_secret g) | None \<Rightarrow> wg_linear gw)"

definition resolveGatewaySecret :: "env \<Rightarrow> webhook_gateway \<Rightarrow> (go_err + string) io" where
  "resolveGatewaySecret E gw =
     (case gatewaySecretRef gw of
        None \<Rightarrow> ret (Inl (new_err (''gateway '' @ m_namespace (wg_meta gw) @ ''/'' @ m_name (wg_meta gw)
                     @ '' has no secretRef'')))
      | Some ref \<Rightarrow> do {
          s \<leftarrow> read_obj (q_secret E) ''Secret'' (m_namespace (wg_meta gw)) ref;
          ret (case s of
             Inl e \<Rightarrow> Inl (wrap_err (''fetching gateway secret '' @ ref) e)
           | Inr sec \<Rightarrow>
               (let v = map_str (sec_data sec) gatewayWebhookSecretKey
                in if v = [] then Inl (new_err (''gateway secret '' @ ref @ '' is missing key ''
                                         @ quote gatewayWebhookSecretKey))
                   else Inr v))
        })"

definition resolveGatewayTokenResolver :: "env \<Rightarrow> webhook_gateway \<Rightarrow> (go_err + token_resolver) io" where
  "resolveGatewayTokenResolver E gw =
     (case wg_github gw of
        None \<Rightarrow> ret (Inr NoResolver)
      | Some g \<Rightarrow>
          (case gg_credentials g of
             None \<Rightarrow> ret (Inr NoResolver)
           | Some ref \<Rightarrow> do {
               s \<leftarrow> read_obj (q_secret E) ''Secret'' (m_namespace (wg_meta gw)) ref;
               ret (case s of
                  Inl e \<Rightarrow> Inl (wrap_err (''fetching gateway credentials '' @ ref) e)
                | Inr sec \<Rightarrow> NewSecretTokenResolver E (sec_data sec) (gg_api_base_url g))
             }))"

definition gateway_ref :: "webhook_source \<Rightarrow> task_spawner \<Rightarrow> string option" where
  "gateway_ref src ts =
     (case src of
        GitHubHooks \<Rightarrow> (case wn_github (s_when ts) of None \<Rightarrow> None | Some g \<Rightarrow> gw_gateway g)
      | LinearHooks \<Rightarrow> (case wn_linear (s_when ts) of None \<Rightarrow> None | Some l \<Rightarrow> lw_gateway l)
      | GenericHooks \<Rightarrow> (case wn_generic (s_when ts) of None \<Rightarrow> None | Some x \<Rightarrow> xw_gateway x))"

definition listGatewayScopedSpawners ::
  "webhook_env \<Rightarrow> string \<Rightarrow> string \<Rightarrow> webhook_source \<Rightarrow> (go_err + task_spawner list) io" where
  "listGatewayScopedSpawners W ns name src = do {
     l \<leftarrow> read_obj (wq_spawners W) ''TaskSpawnerList'' ns [];
     ret (case l of
        Inl e \<Rightarrow> Inl (wrap_err (''listing TaskSpawners in namespace '' @ ns) e)
      | Inr ts \<Rightarrow> Inr (filter (\<lambda>t. gateway_ref src t = Some name) ts))
   }"

definition listGatewayScopedSessionSpawners ::
  "webhook_env \<Rightarrow> string \<Rightarrow> string \<Rightarrow> (go_err + session_spawner list) io" where
  "listGatewayScopedSessionSpawners W ns name = do {
     l \<leftarrow> read_obj (wq_session_spawners W) ''SessionSpawnerList'' ns [];
     ret (case l of
        Inl e \<Rightarrow> if wl_no_match W e \<or> is_not_found e then Inr []
                 else Inl (wrap_err (''listing SessionSpawners in namespace '' @ ns) e)
      | Inr sps \<Rightarrow>
          Inr (filter (\<lambda>sp. case sp_github sp of None \<Rightarrow> False | Some g \<Rightarrow> gw_gateway g = Some name) sps))
   }"

definition gatewayFallbackDeliveryID :: "string \<Rightarrow> string \<Rightarrow> string \<Rightarrow> string" where
  "gatewayFallbackDeliveryID ns name deliveryID = ns @ ''/'' @ name @ ''/'' @ deliveryID"

definition handlerForGateway :: "webhook_gateway \<Rightarrow> webhook_source \<Rightarrow> string \<Rightarrow> webhook_handler" where
  "handlerForGateway gw src secret =
     \<lparr>wh_source = src, wh_secret = secret,
      wh_api_base = (case wg_github gw of None \<Rightarrow> [] | Some g \<Rightarrow> gg_api_base_url g),
      wh_gateway = m_name (wg_meta gw)\<rparr>"

definition gateway_identify ::
  "webhook_env \<Rightarrow> string \<Rightarrow> string \<Rightarrow> webhook_handler \<Rightarrow> http_request \<Rightarrow> string \<Rightarrow>
   (int + (string \<times> string \<times> task_spawner list option)) io" where
  "gateway_identify W ns name h req body =
     (case wh_source h of
        GitHubHooks \<Rightarrow>
          ret (if ValidateGitHubSignature W body (map_str (rq_headers req) ''X-Hub-Signature-256'') (wh_secret h) \<noteq> None
               then Inl 401
               else Inr (map_str (rq_headers req) ''X-GitHub-Event'',
                         first_of (map_str (rq_headers req) ''X-GitHub-Delivery'')
                           (gatewayFallbackDeliveryID ns name (githubDeliveryID W body)), None))
      | LinearHooks \<Rightarrow>
          ret (if ValidateLinearSignature W body (map_str (rq_headers req) ''Linear-Signature'') (wh_secret h) \<noteq> None
               then Inl 401
               else Inr (''linear'',
                         first_of (map_str (rq_headers req) ''Linear-Delivery'')
                           (gatewayFallbackDeliveryID ns name (linearDeliveryID W body)), None))
      | GenericHooks \<Rightarrow> do {
          l \<leftarrow> listGatewayScopedSpawners W ns name GenericHooks;
          ret (case l of
             Inl e \<Rightarrow> Inl 500
           | Inr spawners \<Rightarrow>
               Inr (name, extractGatewayGenericDeliveryID W (ns @ ''/'' @ name) body spawners, Some spawners))
        })"

text \<open>From the request to the gateway, its handler and the delivery.\<close>

definition gateway_admit ::
  "env \<Rightarrow> webhook_env \<Rightarrow> http_request \<Rightarrow>
   (int + (webhook_gateway \<times> webhook_handler \<times> string \<times> string)
        \<times> (string \<times> string \<times> task_spawner list option) \<times> string) io" where
  "gateway_admit E W req =
     (if rq_method req \<noteq> ''POST'' then ret (Inl 405)
      else (case parseGatewayPath (rq_path req) of
         Inl e \<Rightarrow> ret (Inl 400)
       | Inr (ns, name) \<Rightarrow> do {
           g \<leftarrow> read_obj (wq_gateway W) ''WebhookGateway'' ns name;
           (case g of
              Inl e \<Rightarrow> ret (Inl (if is_not_found e then 404 else 500))
            | Inr gw \<Rightarrow>
                (case rq_body req of
                   Inl e \<Rightarrow> ret (Inl 400)
                 | Inr body \<Rightarrow>
                     if maxPayloadSize < int (length body) then ret (Inl 413)
                     else (case gatewaySource gw of
                        None \<Rightarrow> ret (Inl 500)
                      | Some src \<Rightarrow> do {
                          s \<leftarrow> (if src = GenericHooks then ret (Inr []) else resolveGatewaySecret E gw);
                          (case s of
                             Inl e \<Rightarrow> ret (Inl 503)
                           | Inr secret \<Rightarrow> do {
                               i \<leftarrow> gateway_identify W ns name (handlerForGateway gw src secret) req body;
                               ret (case i of
                                  Inl code \<Rightarrow> Inl code
                                | Inr x \<Rightarrow> Inr ((gw, handlerForGateway gw src secret, ns, name), x, body))
                             })
                        })))
         }))"

text \<open>The work between the two looks at the cache: its status code.\<close>

definition gateway_process ::
  "env \<Rightarrow> spawner_env \<Rightarrow> webhook_env \<Rightarrow> webhook_gateway \<Rightarrow> webhook_handler \<Rightarrow> string \<Rightarrow> string \<Rightarrow> string \<Rightarrow>
   string \<Rightarrow> task_spawner list option \<Rightarrow> string \<Rightarrow> int io" where
  "gateway_process E S W gw h ns name eventType deliveryID prefetched body = do {
     l \<leftarrow> (case prefetched of Some ts \<Rightarrow> ret (Inr ts) | None \<Rightarrow> listGatewayScopedSpawners W ns name (wh_source h));
     (case l of
        Inl e \<Rightarrow> ret 500
      | Inr spawners \<Rightarrow> do {
          l' \<leftarrow> (if wh_source h = GitHubHooks then listGatewayScopedSessionSpawners W ns name else ret (Inr []));
          (case l' of
             Inl e \<Rightarrow> ret 500
           | Inr sessionSpawners \<Rightarrow>
               if spawners = [] \<and> sessionSpawners = [] then ret 200
               else do {
                 t \<leftarrow> resolveGatewayTokenResolver E gw;
                 (case t of
                    Inl e \<Rightarrow> ret 503
                  | Inr r \<Rightarrow> do {
                      ((b, e), r') \<leftarrow> processWebhook E S W h r eventType body deliveryID
                                        (Some spawners) (Some sessionSpawners);
                      ret (if e = None then 200 else 500)
                    })
               })
        })
   }"

definition gateway_ServeHTTP ::
  "env \<Rightarrow> spawner_env \<Rightarrow> webhook_env \<Rightarrow> http_request \<Rightarrow> delivery_cache \<Rightarrow> (int \<times> delivery_cache) io" where
  "gateway_ServeHTTP E S W req cache = do {
     a \<leftarrow> gateway_admit E W req;
     (case a of
        Inl code \<Rightarrow> ret (code, cache)
      | Inr ((gw, h, ns, name), (eventType, deliveryID, prefetched), body) \<Rightarrow> do {
          now \<leftarrow> clock E;
          (case mark cache deliveryID now of
             (True, cache1) \<Rightarrow> ret (200, cache1)
           | (False, cache1) \<Rightarrow> do {
               code \<leftarrow> gateway_process E S W gw h ns name eventType deliveryID prefetched body;
               ret (code, if code \<noteq> 200 \<and> deliveryID \<noteq> [] then Forget cache1 deliveryID else cache1)
             })
        })
   }"

end
