(* ===== verification/WebhookFacts.thy ===== *)
theory WebhookFacts
  imports WebhookServer SpawnerFacts
begin

text \<open>
  What a webhook delivery leads to: files that are fetched only when they are needed, the names of
  tasks, and which tasks are created for whom.
\<close>

section \<open>A quiet world\<close>

text \<open>No spawner exists, every text is an issue event of its own, and digests are the text itself.\<close>

definition plain_issue :: hook_issue where
  "plain_issue = \<lparr>hi_number = 7, hi_title = ''a bug'', hi_body = [], hi_url = [], hi_state = ''open'',
     hi_labels = [], hi_user = ''ann'', hi_pull = None\<rparr>"

definition plain_base :: hook_base where
  "plain_base = \<lparr>hb_action = ''opened'', hb_sender = ''ann'',
     hb_repo = Some \<lparr>ho_full_name = ''o/r'', ho_owner = ''o'', ho_name = ''r''\<rparr>\<rparr>"

definition plain_pull :: hook_pull where
  "plain_pull = \<lparr>hp_number = 8, hp_title = ''a fix'', hp_body = [], hp_url = [], hp_state = ''open'',
     hp_draft = False, hp_labels = [], hp_user = ''ann'', hp_head = None\<rparr>"

definition idle_webhook_env :: webhook_env where
  "idle_webhook_env =
     \<lparr>wq_spawners = (\<lambda>h ns n. Inr []), wq_session_spawners = (\<lambda>h ns n. Inr []),
      wq_session_spawner = (\<lambda>h ns n. not_found), wq_gateway = (\<lambda>h ns n. not_found),
      wq_post = (\<lambda>h u a b. Inl (new_err ''no network'')), wl_no_match = (\<lambda>e. False), wl_sha256 = id,
      wl_hmac = (\<lambda>secret body. secret @ body), wl_json = (\<lambda>s. Inr (JStr s)),
      wl_json_object = (\<lambda>s. Inr []), wl_jsonpath = (\<lambda>e v. Inr v), wl_show = (\<lambda>v. []), wl_float = (\<lambda>n. []),
      wl_regexp = (\<lambda>p. Inr (\<lambda>s. p = s)), wl_file_match = (\<lambda>p s. Inr (p = s)),
      wl_github_event = (\<lambda>ev body. Inr (if ev = ''pull_request'' then PullRequestEvent plain_base (Some plain_pull)
                                         else IssuesEvent plain_base (Some plain_issue))),
      wl_event_value = (\<lambda>e. TMap []), wl_json_value = (\<lambda>v. TMap []), wl_pr_head = (\<lambda>s. Inr ([], [])),
      wl_linear_request = (\<lambda>q i. i), wl_linear_labels = (\<lambda>s. Inr ([], [])), linear_api_key = []\<rparr>"

definition plain_webhook :: "string \<Rightarrow> github_webhook_filter list \<Rightarrow> github_webhook" where
  "plain_webhook ev fs = \<lparr>gw_events = [ev], gw_gateway = None, gw_repository = [], gw_exclude_authors = [],
     gw_filters = fs, gw_exclude_filters = [], gw_reporting = None\<rparr>"


definition blank_filter :: "string \<Rightarrow> github_webhook_filter" where
  "blank_filter ev = \<lparr>gf_event = ev, gf_action = [], gf_body_contains = [], gf_body_pattern = [],
     gf_exclude_body = [], gf_labels = [], gf_exclude_labels = [], gf_state = [], gf_branch = [], gf_tag = [],
     gf_draft = None, gf_comment_on = [], gf_author = [], gf_pr_author = [], gf_exclude_authors = [],
     gf_files = None, gf_conclusion = [], gf_check_name = []\<rparr>"

lemmas webhook_cluster_defs = plain_issue_def plain_base_def plain_pull_def idle_webhook_env_def
  plain_webhook_def blank_filter_def

section \<open>Files are fetched when they matter\<close>

text \<open>What a filter says without its file patterns does not depend on the files.\<close>

lemma files_irrelevant [simp]:
  "matchesFilterWithoutFilePatterns W f (d\<lparr>ge_files := files\<rparr>) = matchesFilterWithoutFilePatterns W f d"
  "githubWebhookAllowsEvent g ev (d\<lparr>ge_files := files\<rparr>) = githubWebhookAllowsEvent g ev d"
  "matchesAnyGitHubExcludeFilter W fs ev (d\<lparr>ge_files := files\<rparr>) = matchesAnyGitHubExcludeFilter W fs ev d"
  "githubWebhookNeedsChangedFiles W g ev (d\<lparr>ge_files := files\<rparr>) = githubWebhookNeedsChangedFiles W g ev d"
proof -
  show a: "matchesFilterWithoutFilePatterns W f (d\<lparr>ge_files := files\<rparr>) = matchesFilterWithoutFilePatterns W f d"
    for f by (simp add: matchesFilterWithoutFilePatterns_def author_excluded_def)
  show b: "githubWebhookAllowsEvent g ev (d\<lparr>ge_files := files\<rparr>) = githubWebhookAllowsEvent g ev d"
    by (simp add: githubWebhookAllowsEvent_def author_excluded_def)
  show c: "matchesAnyGitHubExcludeFilter W fs ev (d\<lparr>ge_files := files\<rparr>) = matchesAnyGitHubExcludeFilter W fs ev d"
    for fs by (simp add: matchesAnyGitHubExcludeFilter_def a)
  show "githubWebhookNeedsChangedFiles W g ev (d\<lparr>ge_files := files\<rparr>) = githubWebhookNeedsChangedFiles W g ev d"
    by (simp add: githubWebhookNeedsChangedFiles_def a b c)
qed

lemma matchesFilter_files:
  assumes "ge_files d = []" and "matchesFilter S W f d"
  shows "matchesFilter S W f (d\<lparr>ge_files := files\<rparr>)"
  using assms
  by (auto simp: matchesFilter_def matchesWebhookFilePatterns_def MatchesFilePaths_def
      split: option.splits if_splits)

lemma matchesFilter_other:
  assumes "matchesFilterWithoutFilePatterns W f d \<Longrightarrow> gf_files f = None"
  shows "matchesFilter S W f (d\<lparr>ge_files := files\<rparr>) = matchesFilter S W f d"
  using assms by (auto simp: matchesFilter_def)

text \<open>More files can only turn a refusal into a match, and only where files are asked for.\<close>

lemma MatchesGitHubEvent_files:
  assumes "ge_files d = []"
  shows "MatchesGitHubEvent S W g ev d \<Longrightarrow> MatchesGitHubEvent S W g ev (d\<lparr>ge_files := files\<rparr>)"
    and "\<not> githubWebhookNeedsChangedFiles W g ev d \<Longrightarrow>
      MatchesGitHubEvent S W g ev (d\<lparr>ge_files := files\<rparr>) = MatchesGitHubEvent S W g ev d"
proof -
  show "MatchesGitHubEvent S W g ev d \<Longrightarrow> MatchesGitHubEvent S W g ev (d\<lparr>ge_files := files\<rparr>)"
    using matchesFilter_files [OF assms] by (auto simp: MatchesGitHubEvent_def list_ex_iff)
  assume "\<not> githubWebhookNeedsChangedFiles W g ev d"
  then show "MatchesGitHubEvent S W g ev (d\<lparr>ge_files := files\<rparr>) = MatchesGitHubEvent S W g ev d"
    by (cases "matchesAnyGitHubExcludeFilter W (gw_exclude_filters g) ev d";
        cases "githubWebhookAllowsEvent g ev d")
      (use matchesFilter_other in \<open>simp_all add: githubWebhookNeedsChangedFiles_def MatchesGitHubEvent_def
        list_ex_iff, fastforce\<close>)
qed

text \<open>
  C40. The changed files of a pull request are fetched only when they are needed, and this cannot
  be told from the answer: it is that of the filters on the event with its files, whether or not
  they were fetched, and without the fetch nothing was called.
\<close>

theorem lazy_files:
  assumes "ge_files d = []" and "run_state (fetch r d) w = ((Inr files, r1), w1)"
    and "run_state (matchesGitHubWebhook S W (Some g) ev d r fetch) w = ((m, d', r'), w')"
  shows "let wanted = (gw_repository g = [] \<or> gw_repository g = ge_repository d)
         in m = Inr (wanted \<and> MatchesGitHubEvent S W g ev (d\<lparr>ge_files := files\<rparr>))
          \<and> (d', r', w') =
            (if wanted \<and> githubWebhookNeedsChangedFiles W g ev d \<and> \<not> MatchesGitHubEvent S W g ev d
             then (d\<lparr>ge_files := files\<rparr>, r1, w1) else (d, r, w))"
proof (cases "gw_repository g \<noteq> [] \<and> gw_repository g \<noteq> ge_repository d")
  case True
  then show ?thesis using assms(3) by (auto simp: matchesGitHubWebhook_def)
next
  case repo: False
  show ?thesis
  proof (cases "MatchesGitHubEvent S W g ev d \<or> \<not> githubWebhookNeedsChangedFiles W g ev d")
    case True
    then have "(m, d', r', w') = (Inr (MatchesGitHubEvent S W g ev d), d, r, w)"
      using assms(3) repo by (auto simp: matchesGitHubWebhook_def split: if_splits)
    with True repo show ?thesis using MatchesGitHubEvent_files [OF assms(1)] by auto
  next
    case False
    then have "(m, d', r', w') =
        (Inr (MatchesGitHubEvent S W g ev (d\<lparr>ge_files := files\<rparr>)), d\<lparr>ge_files := files\<rparr>, r1, w1)"
      using assms repo by (auto simp: matchesGitHubWebhook_def split: if_splits)
    with False repo show ?thesis by auto
  qed
qed

definition docs_webhook :: github_webhook where
  "docs_webhook = plain_webhook ''pull_request''
     [(blank_filter ''pull_request'')\<lparr>gf_files := Some \<lparr>fp_include = [''docs''], fp_exclude = []\<rparr>\<rparr>]"

definition pull_data :: github_event_data where
  "pull_data = event_data idle_webhook_env ''pull_request'' [] (PullRequestEvent plain_base (Some plain_pull))"

lemma lazy_files_witness:
  "fst (run_state (matchesGitHubWebhook idle_spawner_env idle_webhook_env (Some docs_webhook) ''pull_request''
      pull_data NoResolver (\<lambda>r d. ret (Inr [''docs''], r))) start)
     = (Inr True, pull_data\<lparr>ge_files := [''docs'']\<rparr>, NoResolver)"
proof -
  let ?fetch = "\<lambda>r d. ret (Inr [''docs''], r) :: ((go_err + string list) \<times> token_resolver) io"
  let ?x = "run_state (matchesGitHubWebhook idle_spawner_env idle_webhook_env (Some docs_webhook) ''pull_request''
      pull_data NoResolver ?fetch) start"
  obtain m d' r' w' where x: "?x = ((m, d', r'), w')" by (metis surj_pair)
  have "ge_files pull_data = []" "run_state (?fetch NoResolver pull_data) start = ((Inr [''docs''], NoResolver), start)"
    by (simp_all add: pull_data_def event_data_def new_event_data_def with_pull_def with_base_def webhook_cluster_defs)
  note l = lazy_files [OF this x]
  have "MatchesGitHubEvent idle_spawner_env idle_webhook_env docs_webhook ''pull_request''
      (pull_data\<lparr>ge_files := [''docs'']\<rparr>)"
    "\<not> MatchesGitHubEvent idle_spawner_env idle_webhook_env docs_webhook ''pull_request'' pull_data"
    "githubWebhookNeedsChangedFiles idle_webhook_env docs_webhook ''pull_request'' pull_data"
    "gw_repository docs_webhook = []"
    by code_simp+
  with l show ?thesis by (auto simp: x)
qed

section \<open>Names of tasks\<close>

definition task_name_prefix :: "string \<Rightarrow> string \<Rightarrow> string" where
  "task_name_prefix spawnerName eventType =
     spawnerName @ ''-'' @ map (\<lambda>c. if c = CHR ''_'' then CHR ''-'' else c) eventType @ ''-''"

lemma webhookSpawnName_prefix:
  "webhookSpawnName W sp ev i =
     (let name = task_name_prefix sp ev @ take 12 (wl_sha256 W i)
      in if 63 < length name then trim_right_set ''-.'' (take 63 name) else name)"
  by (simp add: webhookSpawnName_def task_name_prefix_def Let_def)

text \<open>
  Names tell deliveries apart only for short names of spawners: up to 49 characters together with
  the event type, the names of two deliveries are the same just if the first twelve digits of
  their hashes are; from 62 characters on, all deliveries of an event type have the same name.
\<close>

lemma delivery_names:
  shows "length sp + length ev \<le> 49 \<Longrightarrow>
      webhookSpawnName W sp ev i = webhookSpawnName W sp ev j \<longleftrightarrow>
      take 12 (wl_sha256 W i) = take 12 (wl_sha256 W j)"
    and "62 \<le> length sp + length ev \<Longrightarrow> webhookSpawnName W sp ev i = webhookSpawnName W sp ev j"
proof -
  have len: "length (task_name_prefix sp ev) = length sp + length ev + 2"
    by (simp add: task_name_prefix_def)
  have whole: "webhookSpawnName W sp ev k = task_name_prefix sp ev @ take 12 (wl_sha256 W k)"
    if "length sp + length ev \<le> 49" for k
  proof -
    have "\<not> 63 < length (task_name_prefix sp ev @ take 12 (wl_sha256 W k))" using that len by simp
    then show ?thesis unfolding webhookSpawnName_prefix Let_def by (rule if_not_P)
  qed
  show "length sp + length ev \<le> 49 \<Longrightarrow>
      webhookSpawnName W sp ev i = webhookSpawnName W sp ev j \<longleftrightarrow>
      take 12 (wl_sha256 W i) = take 12 (wl_sha256 W j)"
    by (simp add: whole)
  show "62 \<le> length sp + length ev \<Longrightarrow> webhookSpawnName W sp ev i = webhookSpawnName W sp ev j"
    using len by (simp add: webhookSpawnName_prefix Let_def)
qed

section \<open>What the parts of a delivery call\<close>

text \<open>Calls that change nothing in the cluster.\<close>

fun reading :: "call \<Rightarrow> bool" where
  "reading (Read k ns n) = True" | "reading (HttpGet u a) = True" | "reading (HttpPost u a) = True"
| "reading (MintToken u) = True" | "reading (FetchContext ss) = True" | "reading _ = False"

lemma reading_creates_none: "reading c \<Longrightarrow> creates_none c"
  by (cases c) (simp_all add: creates_none_def)

lemma emits_resolver [emits_intro]:
  "emits P a \<Longrightarrow> (\<And>t. emits P (b t)) \<Longrightarrow> (\<And>tp. emits P (c tp)) \<Longrightarrow>
   emits P (case r of NoResolver \<Rightarrow> a | FixedToken t \<Rightarrow> b t | ProviderToken tp \<Rightarrow> c tp)"
  by (cases r) auto

lemma emits_parsed [emits_intro]:
  "(\<And>d. emits P (a d)) \<Longrightarrow> (\<And>d. emits P (b d)) \<Longrightarrow> (\<And>d. emits P (c d)) \<Longrightarrow>
   emits P (case x of ParsedGitHub d \<Rightarrow> a d | ParsedLinear d \<Rightarrow> b d | ParsedGeneric d \<Rightarrow> c d)"
  by (cases x) auto

lemma emits_reading_tokens [emits_intro]:
  "emits reading (Token E tp)" "emits reading (resolveGitHubToken E r)"
  "emits reading (resolveFallbackGitHubToken E token r)" "emits reading (token_of_secret E ws name u data)"
  "emits reading (resolveGitHubTokenFromWorkspaceRef E ns ref u)"
  "emits reading (resolveTaskSpawnerWorkspaceRef E ts)"
  unfolding resolveFallbackGitHubToken_def resolveGitHubTokenFromWorkspaceRef_def token_of_secret_def
    resolveGitHubToken_def Token_def GenerateInstallationToken_def resolveTaskSpawnerWorkspaceRef_def Let_def
  by (intro emits_intro; simp)+

lemma emits_reading_enrichment [emits_intro]:
  "emits reading (enrichGitHubIssueCommentBranch E S W r d)" "emits reading (enrichLinearCommentLabels W ld)"
  "emits reading (enrich_branch E S W r parsed)" "emits reading (enrich_linear W ts dl)"
  unfolding enrichGitHubIssueCommentBranch_def fetchGitHubPRBranchWithToken_def enrichLinearCommentLabels_def
    fetchLinearIssueLabels_def enrich_branch_def enrich_linear_def
  by (intro emits_intro; simp)+

lemma emits_reading_files [emits_intro]:
  "emits reading (fetchPRChangedFilesWithToken S token u owner repo n)"
  "emits reading (enrichPRChangedFiles E S h ts r d)" "emits reading (enrichSessionSpawnerPRChangedFiles E S h sp r d)"
proof -
  show a: "emits reading (fetchPRChangedFilesWithToken S token u owner repo n)" for token u owner repo n
    unfolding fetchPRChangedFilesWithToken_def fetchGitHubFilesPage_def by (intro emits_intro) simp
  show "emits reading (enrichPRChangedFiles E S h ts r d)"
    "emits reading (enrichSessionSpawnerPRChangedFiles E S h sp r d)"
    unfolding enrichPRChangedFiles_def enrichSessionSpawnerPRChangedFiles_def changed_files_with_def
    by (intro emits_intro a)+
qed

lemma emits_matchesGitHubWebhook [emits_intro]:
  "(\<And>r d. emits P (fetch r d)) \<Longrightarrow> emits P (matchesGitHubWebhook S W gw ev d r fetch)"
  unfolding matchesGitHubWebhook_def by (intro emits_intro)

lemma emits_reading_match [emits_intro]: "emits reading (matchesSpawner E S W h ts ev parsed r)"
  unfolding matchesSpawner_def Let_def by (intro emits_intro)

lemma emits_reading_lists [emits_intro]:
  "emits reading (getMatchingSpawners W src)" "emits reading (getGenericSpawners W)"
  "emits reading (getMatchingSessionSpawners W)" "emits reading (listGatewayScopedSpawners W ns name src)"
  "emits reading (listGatewayScopedSessionSpawners W ns name)"
  unfolding getMatchingSpawners_def getGenericSpawners_def getMatchingSessionSpawners_def
    listGatewayScopedSpawners_def listGatewayScopedSessionSpawners_def
  by (intro emits_intro; simp)+

lemma emits_reading_build [emits_intro]:
  "emits reading (existing_for_name E S ts vars)" "emits reading (webhook_context S ts vars)"
  "emits reading (webhook_task S W h ts ev parsed i vars)"
  unfolding existing_for_name_def webhook_context_def webhook_task_def AssignSpawnerCredential_def Select_def Let_def
  by (intro emits_intro; simp)+

text \<open>What only reads changes nothing and creates nothing.\<close>

lemma emits_creates_none: "emits reading m \<Longrightarrow> emits creates_none m"
  by (erule emits_mono) (rule reading_creates_none)

lemma emits_any: "emits P m \<Longrightarrow> emits (\<lambda>_. True) m"
  by (erule emits_mono) simp

section \<open>Created tasks\<close>

text \<open>Whose a task is, and how it is called.\<close>

definition task_for :: "webhook_env \<Rightarrow> task_spawner \<Rightarrow> string \<Rightarrow> string \<Rightarrow> task \<Rightarrow> bool" where
  "task_for W ts ev i t \<longleftrightarrow>
     owned ts t \<and> t_namespace t = s_namespace ts
     \<and> (tt_name (s_template ts) = [] \<longrightarrow> t_name t = webhookSpawnName W (s_name ts) ev i)"

lemma webhook_task_for:
  assumes "run_state (webhook_task S W h ts ev parsed i vars) w = (Inr t, w')"
  shows "task_for W ts ev i t"
proof -
  obtain b a w1 where b: "BuildTask S (webhookSpawnName W (s_name ts) ev i) (s_namespace ts) (s_template ts) vars
        (Some (spawner_ref_of ts)) = Inr b"
    and a: "run_state (AssignSpawnerCredential S ts b) w = (Inr a, w1)"
    and t: "t_name t = t_name a" "t_namespace t = t_namespace a" "m_owners (t_meta t) = m_owners (t_meta a)"
    using assms
    by (auto simp: webhook_task_def annotate_def elim!: run_bindE split: sum.splits prod.splits parsed_webhook.splits)
  have "owned ts t"
    using BuildTask_Inr [OF b] AssignSpawnerCredential_meta [OF a] t
    by (simp add: owned_def TaskBelongsToSpawner_def spawner_owner_def spawner_ref_of_def)
  then show ?thesis
    using BuildTask_Inr [OF b] AssignSpawnerCredential_meta [OF a] t
    by (auto simp: task_for_def ResolveTaskName_def split: if_splits)
qed

text \<open>The calls of an answer that is found without creating anything.\<close>

definition only_reads :: "world \<Rightarrow> world \<Rightarrow> bool" where
  "only_reads w w' \<longleftrightarrow> grows w w' \<and> list_all reading (new_calls w w')"

lemma only_reads_run: "emits reading m \<Longrightarrow> run_state m w = (a, w') \<Longrightarrow> only_reads w w'"
  unfolding only_reads_def grows_def by (elim emitsD) (auto simp: list_all_iff)

lemma only_reads_refl [simp]: "only_reads w w"
  by (simp add: only_reads_def)

lemma only_reads_trans:
  assumes "only_reads w w1" and "only_reads w1 w2"
  shows "only_reads w w2"
proof -
  have g: "grows w w1" "grows w1 w2" using assms by (simp_all only: only_reads_def)
  then show ?thesis
    using assms grows_trans [OF g] unfolding only_reads_def new_calls_append [OF g] list_all_append by blast
qed

lemma only_reads_creates: "only_reads w w' \<Longrightarrow> run_creates E w w' = []"
  unfolding only_reads_def run_creates_def list_all_iff
  by (rule accepted_creates_none) (simp add: list_all_iff reading_creates_none)

lemma createTask_cases:
  assumes "run_state (createTask E S W h ts ev parsed i) w = (x, w')"
  obtains (unchanged) "x \<noteq> Inr True" and "only_reads w w'"
  | (creation) t w1 where "only_reads w w1" and "task_for W ts ev i t"
      and "run_state (create_webhook_task E ts t) w1 = (x, w')"
proof -
  let ?vars = "webhook_vars W ts ev parsed"
  obtain a w1 where a: "run_state (existing_for_name E S ts ?vars) w = (a, w1)" by (metis surj_pair)
  have r1: "only_reads w w1" by (rule only_reads_run [OF emits_reading_build(1) a])
  show thesis
  proof (cases a)
    case (Some y)
    with a have "y \<noteq> Inr True"
      by (auto simp: existing_for_name_def io_run elim!: run_bindE split: if_splits sum.splits)
    moreover have "x = y" "w' = w1" using assms a Some by (simp_all add: createTask_def Let_def)
    ultimately show thesis using unchanged r1 by simp
  next
    case None
    obtain v w2 where v: "run_state (webhook_context S ts ?vars) w1 = (v, w2)" by (metis surj_pair)
    have r2: "only_reads w w2"
      by (rule only_reads_trans [OF r1 only_reads_run [OF emits_reading_build(2) v]])
    show thesis
    proof (cases v)
      case (Inl e)
      with assms a None v have "x = Inl e" "w' = w2" by (simp_all add: createTask_def Let_def)
      then show thesis using unchanged r2 by simp
    next
      case (Inr vars)
      obtain b w3 where b: "run_state (webhook_task S W h ts ev parsed i vars) w2 = (b, w3)" by (metis surj_pair)
      have r3: "only_reads w w3"
        by (rule only_reads_trans [OF r2 only_reads_run [OF emits_reading_build(3) b]])
      have rest: "run_state (case b of Inl e \<Rightarrow> ret (Inl e) | Inr t \<Rightarrow> create_webhook_task E ts t) w3 = (x, w')"
        using assms a None v Inr b by (simp add: createTask_def Let_def)
      show thesis
      proof (cases b)
        case (Inl e)
        with rest have "x = Inl e" "w' = w3" by simp_all
        then show thesis using unchanged r3 by simp
      next
        case (Inr t)
        have "run_state (create_webhook_task E ts t) w3 = (x, w')" using rest Inr by simp
        with r3 webhook_task_for [OF b [unfolded Inr]] show thesis by (rule creation)
      qed
    qed
  qed
qed

lemma create_webhook_task_run:
  assumes "run_state (create_webhook_task E ts t) w = (x, w')"
  shows "grows w w' \<and> run_creates E w w' = (if x = Inr True then [t] else [])
    \<and> (\<exists>cs. new_calls w w' = CreateTask t # cs \<and> list_all creates_none cs)"
  using assms
  by (cases "q_write E (w_calls w) (CreateTask t)")
    (auto simp: create_webhook_task_def io_run run_creates_def split: if_splits sum.splits)

text \<open>
  Where all deliveries have the same name, only the first one counts: as long as its task
  is there, a later delivery of the event type creates no task, whatever it is about; unless its
  task cannot be built, it is answered as a repetition of the first.
\<close>

theorem later_delivery_dropped:
  assumes "tt_name (s_template ts) = []" and "62 \<le> length (s_name ts) + length ev"
    and "task_for W ts ev i t"
    and "\<And>hist. q_task E hist (s_namespace ts) (t_name t) = Inr t"
    and "\<And>hist u. t_name u = t_name t \<Longrightarrow> q_write E hist (CreateTask u) = Some (GoErr AlreadyExists msg)"
    and "run_state (createTask E S W h ts ev parsed j) w = (x, w')"
  shows "run_creates E w w' = [] \<and> x \<noteq> Inr True
    \<and> (x \<noteq> Inr False \<longrightarrow> only_reads w w')"
  using assms(6)
proof (cases rule: createTask_cases)
  case unchanged
  then show ?thesis by (simp add: only_reads_creates)
next
  case (creation u w1)
  have name: "t_name u = t_name t" "t_namespace u = s_namespace ts"
    using creation(2) assms(1,3) delivery_names(2) [OF assms(2)] by (auto simp: task_for_def)
  have "q_write E (w_calls w1) (CreateTask u) = Some (GoErr AlreadyExists msg)" using assms(5) name by blast
  moreover have "owned ts t" using assms(3) by (simp add: task_for_def)
  ultimately have x: "x = Inr False"
    using creation(3) assms(4) name
    by (simp add: create_webhook_task_def io_run is_already_exists_def)
  have g: "grows w w1" using creation(1) by (simp add: only_reads_def)
  have c: "grows w1 w'" "run_creates E w1 w' = []"
    using create_webhook_task_run [OF creation(3)] x by simp_all
  show ?thesis
    unfolding run_creates_trans [OF g c(1)] only_reads_creates [OF creation(1)] c(2) x by simp
qed

definition long_spawner :: task_spawner where
  "long_spawner = plain_spawner\<lparr>s_meta := (s_meta plain_spawner)\<lparr>m_name := ''kelos-pull-request-review-responder''\<rparr>\<rparr>"

definition first_task :: task where
  "first_task = spawned_task long_spawner
     (webhookSpawnName idle_webhook_env (s_name long_spawner) ''pull_request_review_comment'' ''1'') PhaseRunning"

definition taken_cluster :: env where
  "taken_cluster = idle_cluster
     \<lparr>q_task := (\<lambda>h ns n. Inr first_task), q_write := (\<lambda>h c. Some (GoErr AlreadyExists ''taken''))\<rparr>"

lemma later_delivery_dropped_witness:
  "let parsed = ParsedGitHub (pull_data\<lparr>ge_body := ''another comment''\<rparr>);
       h = \<lparr>wh_source = GitHubHooks, wh_secret = ''s'', wh_api_base = [], wh_gateway = []\<rparr>
   in fst (run_state (createTask taken_cluster idle_spawner_env idle_webhook_env h long_spawner
        ''pull_request_review_comment'' parsed ''2'') start) = Inr False"
proof -
  let ?parsed = "ParsedGitHub (pull_data\<lparr>ge_body := ''another comment''\<rparr>)"
  let ?h = "\<lparr>wh_source = GitHubHooks, wh_secret = ''s'', wh_api_base = [], wh_gateway = []\<rparr>"
  let ?x = "run_state (createTask taken_cluster idle_spawner_env idle_webhook_env ?h long_spawner
      ''pull_request_review_comment'' ?parsed ''2'') start"
  obtain x w' where x: "?x = (x, w')" by (metis surj_pair)
  have t: "tt_name (s_template long_spawner) = []"
    "62 \<le> length (s_name long_spawner) + length ''pull_request_review_comment''"
    "task_for idle_webhook_env long_spawner ''pull_request_review_comment'' ''1'' first_task"
    by code_simp+
  have q: "q_task taken_cluster hist (s_namespace long_spawner) (t_name first_task) = Inr first_task"
    "q_write taken_cluster hist (CreateTask u) = Some (GoErr AlreadyExists ''taken'')" for hist u
    by (simp_all add: taken_cluster_def)
  have "x = Inr False \<or> only_reads start w'" using later_delivery_dropped [OF t q x] by blast
  moreover have "\<not> list_all reading (w_calls (snd ?x))" by code_simp
  then have "\<not> only_reads start w'" unfolding x by (simp add: only_reads_def start_def)
  ultimately show ?thesis by (simp add: x)
qed

section \<open>Whom a delivery creates tasks for\<close>

text \<open>The spawners that are asked: those listed before, or those the server serves.\<close>

definition candidates ::
  "webhook_env \<Rightarrow> webhook_handler \<Rightarrow> task_spawner list option \<Rightarrow> call list \<Rightarrow> task_spawner list" where
  "candidates W h prefetched hist =
     (case prefetched of
        Some ts \<Rightarrow> ts
      | None \<Rightarrow> (case wq_spawners W hist [] [] of Inl e \<Rightarrow> [] | Inr ts \<Rightarrow> filter (serves (wh_source h)) ts))"

definition matched :: "env \<Rightarrow> spawner_env \<Rightarrow> webhook_env \<Rightarrow> webhook_handler \<Rightarrow> task_spawner \<Rightarrow> string \<Rightarrow> bool" where
  "matched E S W h ts ev \<longleftrightarrow>
     (\<exists>parsed r v parsed' r' v'. run_state (matchesSpawner E S W h ts ev parsed r) v = ((Inr True, parsed', r'), v'))"

definition wanted :: "env \<Rightarrow> spawner_env \<Rightarrow> webhook_env \<Rightarrow> webhook_handler \<Rightarrow> string \<Rightarrow> string \<Rightarrow> task_spawner \<Rightarrow> task \<Rightarrow> bool" where
  "wanted E S W h ev i ts t \<longleftrightarrow>
     \<not> is_suspended ts \<and> \<not> limit_reached ts \<and> matched E S W h ts ev \<and> task_for W ts ev i t"

definition creations :: "world \<Rightarrow> world \<Rightarrow> task list" where
  "creations w w' = List.map_filter (\<lambda>c. case c of CreateTask t \<Rightarrow> Some t | _ \<Rightarrow> None) (new_calls w w')"

lemma creations_trans:
  assumes "grows w w1" and "grows w1 w2"
  shows "creations w w2 = creations w w1 @ creations w1 w2"
  unfolding creations_def new_calls_append [OF assms] by (simp add: List.map_filter_def)

lemma creations_none:
  assumes "list_all creates_none (new_calls w w')"
  shows "creations w w' = []"
proof -
  have "List.map_filter (\<lambda>c. case c of CreateTask t \<Rightarrow> Some t | _ \<Rightarrow> None) cs = []"
    if "list_all creates_none cs" for cs
    using that by (induction cs) (auto simp: List.map_filter_simps creates_none_def split: call.splits)
  then show ?thesis using assms by (simp add: creations_def)
qed

lemma creations_reading: "only_reads w w' \<Longrightarrow> creations w w' = []"
  unfolding only_reads_def
  by (rule creations_none) (auto simp: list_all_iff intro: reading_creates_none)

lemma createTask_creations:
  assumes "run_state (createTask E S W h ts ev parsed i) w = (x, w')"
  shows "grows w w' \<and> length (creations w w') \<le> 1 \<and> (\<forall>t \<in> set (creations w w'). task_for W ts ev i t)"
  using assms
proof (cases rule: createTask_cases)
  case unchanged
  then show ?thesis using creations_reading [OF unchanged(2)] by (simp add: only_reads_def)
next
  case (creation t w1)
  from create_webhook_task_run [OF creation(3)] obtain cs where g: "grows w1 w'"
    and cs: "new_calls w1 w' = CreateTask t # cs" "list_all creates_none cs" by blast
  have "creations w1 w' = [t]"
    using cs creations_none [of "start" "start\<lparr>w_calls := cs\<rparr>"]
    by (simp add: creations_def start_def List.map_filter_simps)
  moreover have g1: "grows w w1" using creation(1) by (simp add: only_reads_def)
  ultimately show ?thesis
    using creations_trans [OF g1 g] creations_reading [OF creation(1)] grows_trans [OF g1 g] creation(2) by simp
qed

lemma serve_spawner_creations:
  assumes "run_state (serve_spawner E S W h ev i ts dl) w = (x, w')"
  shows "grows w w' \<and> length (creations w w') \<le> 1 \<and> (\<forall>t \<in> set (creations w w'). wanted E S W h ev i ts t)"
proof (cases "is_suspended ts \<or> limit_reached ts")
  case True
  then show ?thesis using assms by (auto simp: serve_spawner_def creations_reading)
next
  case False
  obtain dl' w1 where l: "run_state (enrich_linear W ts dl) w = (dl', w1)" by (metis surj_pair)
  obtain m parsed r w2 where m: "run_state (matchesSpawner E S W h ts ev (dl_parsed dl') (dl_resolver dl')) w1
      = ((m, parsed, r), w2)" by (metis surj_pair)
  have reads: "only_reads w w2"
    by (rule only_reads_trans [OF only_reads_run [OF emits_reading_enrichment(4) l]
          only_reads_run [OF emits_reading_match m]])
  have g: "grows w w2" using reads by (simp add: only_reads_def)
  show ?thesis
  proof (cases "m = Inr True")
    case no: False
    then have "w' = w2" using assms False l m by (auto simp: serve_spawner_def Let_def)
    then show ?thesis using creations_reading [OF reads] g by simp
  next
    case yes: True
    obtain c where c: "run_state (createTask E S W h ts ev parsed i) w2 = (c, w')"
      using assms False l m yes by (auto simp: serve_spawner_def Let_def split: prod.splits)
    have "matched E S W h ts ev" unfolding matched_def using m yes by blast
    moreover note t = createTask_creations [OF c]
    ultimately show ?thesis
      using False creations_trans [OF g] creations_reading [OF reads] grows_trans [OF g]
      by (simp add: wanted_def)
  qed
qed

lemma serve_spawners_creations:
  assumes "run_state (serve_spawners E S W h ev i spawners dl) w = (x, w')"
  shows "grows w w' \<and> length (creations w w') \<le> length spawners
    \<and> (\<forall>t \<in> set (creations w w'). \<exists>ts \<in> set spawners. wanted E S W h ev i ts t)"
  using assms
proof (induction spawners arbitrary: dl w x)
  case Nil
  then show ?case by (simp add: creations_reading)
next
  case (Cons ts rest)
  obtain c dl' w1 where s: "run_state (serve_spawner E S W h ev i ts dl) w = ((c, dl'), w1)" by (metis surj_pair)
  obtain y where r: "run_state (serve_spawners E S W h ev i rest dl') w1 = (y, w')"
    using Cons.prems s by (auto split: prod.splits)
  note one = serve_spawner_creations [OF s] and ih = Cons.IH [OF r]
  have g: "grows w w1" "grows w1 w'" using one ih by simp_all
  show ?case
    using one ih grows_trans [OF g] unfolding creations_trans [OF g] by (auto simp del: drop_append)
qed

definition no_task :: "call \<Rightarrow> bool" where
  "no_task c \<longleftrightarrow> reading c \<or> (case c of CreateSession s \<Rightarrow> True | PatchSessionSpawner s \<Rightarrow> True | _ \<Rightarrow> False)"

lemma no_task_simps [simp]: "reading c \<Longrightarrow> no_task c" "no_task (CreateSession s)" "no_task (PatchSessionSpawner sp)"
  by (simp_all add: no_task_def)

lemma no_task_creates_none: "no_task c \<Longrightarrow> creates_none c"
  by (cases c) (simp_all add: no_task_def creates_none_def)

lemma emits_no_task: "emits reading m \<Longrightarrow> emits no_task m"
  by (erule emits_mono) simp

lemma emits_session_status [emits_intro]:
  "emits no_task (updateSessionSpawnerDeliveryStatus E W sp n st reason message)"
  "emits no_task (recordSessionSpawnerFailure E W sp reason e)"
  "emits no_task (recordSessionSpawnerSuccess E W sp n reason message)"
  unfolding recordSessionSpawnerFailure_def recordSessionSpawnerSuccess_def updateSessionSpawnerDeliveryStatus_def
  by (intro emits_intro; simp)+

lemma emits_create_session [emits_intro]: "emits no_task (create_session E S W sp n vars)"
  unfolding create_session_def assign_session_credential_def Select_def by (intro emits_intro; simp)

lemma emits_processSessionSpawner [emits_intro]: "emits no_task (processSessionSpawner E S W h sp ev d i r)"
  unfolding processSessionSpawner_def by (intro emits_intro emits_no_task)

lemma emits_serve_sessions [emits_intro]: "emits no_task (serve_sessions E S W h ev i sps d r)"
  by (induction sps arbitrary: d r) (auto intro!: emits_intro)

lemma creations_no_task:
  assumes "emits no_task m" and "run_state m w = (a, w')"
  shows "grows w w' \<and> creations w w' = []"
proof -
  obtain cs where "w_calls w' = w_calls w @ cs" "\<And>c. c \<in> set cs \<Longrightarrow> no_task c"
    using emitsD [OF assms] by blast
  then show ?thesis
    by (auto simp: grows_def list_all_iff intro!: creations_none no_task_creates_none)
qed

text \<open>Only the spawners' loop matters for what is created.\<close>

lemma creations_bind:
  assumes "run_state (State_Monad.bind m f) w = (a, w')" and "emits no_task m"
  obtains b w1 where "run_state m w = (b, w1)" and "run_state (f b) w1 = (a, w')" and "grows w w1"
    and "creations w w1 = []"
proof -
  from assms(1) obtain b w1 where "run_state m w = (b, w1)" "run_state (f b) w1 = (a, w')" by (elim run_bindE)
  with creations_no_task [OF assms(2)] that show thesis by blast
qed

text \<open>What can be said of the creations of a run, whatever its result.\<close>

definition creates_for :: "(task_spawner \<Rightarrow> task \<Rightarrow> bool) \<Rightarrow> task_spawner list \<Rightarrow> world \<Rightarrow> world \<Rightarrow> bool" where
  "creates_for P spawners w w' \<longleftrightarrow>
     grows w w' \<and> length (creations w w') \<le> length spawners
     \<and> (\<forall>t \<in> set (creations w w'). \<exists>ts \<in> set spawners. P ts t)"

lemma creates_for_before:
  assumes "grows w w1" and "creations w w1 = []" and "creates_for P spawners w1 w'"
  shows "creates_for P spawners w w'"
  using assms grows_trans [of w w1 w'] creations_trans [of w w1 w'] by (simp add: creates_for_def)

lemma creates_for_after:
  assumes "creates_for P spawners w w1" and "grows w1 w'" and "creations w1 w' = []"
  shows "creates_for P spawners w w'"
  using assms grows_trans [of w w1 w'] creations_trans [of w w1 w'] by (simp add: creates_for_def)

lemma creates_for_no_task: "emits no_task m \<Longrightarrow> run_state m w = (a, w') \<Longrightarrow> creates_for P spawners w w'"
  using creations_no_task [of m w a w'] by (simp add: creates_for_def)

lemma serve_all_creations:
  assumes "run_state (serve_all E S W h r ev parsed i spawners sps) w = (x, w')"
  shows "creates_for (wanted E S W h ev i) spawners w w'"
proof -
  let ?sessions = "\<lambda>y. case y of (n, errs, dl) \<Rightarrow> do {
       (m, errs', r'') \<leftarrow> (case dl_parsed dl of
          ParsedGitHub d \<Rightarrow> serve_sessions E S W h ev i sps d (dl_resolver dl)
        | _ \<Rightarrow> ret (0, [], dl_resolver dl));
       ret ((0 < n \<or> 0 < m, join_errs (errs @ errs')), r'')
     }"
  obtain b w1 where b: "grows w w1" "creations w w1 = []" and
    rest: "run_state (case b of (parsed', r') \<Rightarrow> do {
       y \<leftarrow> serve_spawners E S W h ev i spawners \<lparr>dl_parsed = parsed', dl_resolver = r', dl_enriched = False\<rparr>;
       ?sessions y
     }) w1 = (x, w')"
    using assms unfolding serve_all_def by (elim creations_bind) (auto intro!: emits_no_task emits_intro)
  obtain y w2 where y: "run_state (serve_spawners E S W h ev i spawners
      \<lparr>dl_parsed = fst b, dl_resolver = snd b, dl_enriched = False\<rparr>) w1 = (y, w2)"
    and s: "run_state (?sessions y) w2 = (x, w')"
  proof -
    have "run_state (do {
         y \<leftarrow> serve_spawners E S W h ev i spawners
           \<lparr>dl_parsed = fst b, dl_resolver = snd b, dl_enriched = False\<rparr>;
         ?sessions y
       }) w1 = (x, w')"
      using rest by (cases b) (simp only: prod.case fst_conv snd_conv)
    then show thesis using that by (rule run_bindE)
  qed
  have "emits no_task (?sessions y)" by (intro emits_intro)
  from creations_no_task [OF this s] have "grows w2 w'" "creations w2 w' = []" by simp_all
  moreover have "creates_for (wanted E S W h ev i) spawners w1 w2"
    using serve_spawners_creations [OF y] by (simp add: creates_for_def)
  ultimately show ?thesis using b creates_for_before creates_for_after by blast
qed


definition hook_spawner :: task_spawner where
  "hook_spawner = plain_spawner\<lparr>s_when := (s_when plain_spawner)
     \<lparr>wn_cron := None, wn_github := Some (plain_webhook ''issues'' [])\<rparr>\<rparr>"

definition hook_env :: webhook_env where
  "hook_env = idle_webhook_env\<lparr>wq_spawners := (\<lambda>h ns n. Inr [plain_spawner, hook_spawner])\<rparr>"

definition hook_handler :: webhook_handler where
  "hook_handler = \<lparr>wh_source = GitHubHooks, wh_secret = ''s'', wh_api_base = [], wh_gateway = []\<rparr>"

definition hook_run :: "((bool \<times> go_err option) \<times> token_resolver) \<times> world" where
  "hook_run = run_state (processWebhook idle_cluster idle_spawner_env hook_env hook_handler NoResolver ''issues''
     ''body'' ''1'' None None) start"


end
