(* ===== verification/WebhookDelivery.thy ===== *)
theory WebhookDelivery
  imports WebhookFacts
begin

text \<open>
  How a request is let in and what becomes of its delivery ID: signatures, the cache of
  deliveries under concurrent requests, and deliveries that are acknowledged although nothing
  came of them.
\<close>

section \<open>Signatures\<close>

definition signed :: "webhook_env \<Rightarrow> webhook_source \<Rightarrow> string \<Rightarrow> http_request \<Rightarrow> string \<Rightarrow> bool" where
  "signed W src secret req body \<longleftrightarrow>
     (case src of
        GitHubHooks \<Rightarrow> map_str (rq_headers req) ''X-Hub-Signature-256'' = ''sha256='' @ wl_hmac W secret body
      | LinearHooks \<Rightarrow> map_str (rq_headers req) ''Linear-Signature'' = wl_hmac W secret body
      | GenericHooks \<Rightarrow> True)"

lemma ValidateGitHubSignature_None:
  "ValidateGitHubSignature W body sig secret = None \<longleftrightarrow> sig = ''sha256='' @ wl_hmac W secret body"
  by (auto simp: ValidateGitHubSignature_def validateHMACSignature_def prefix_def)

lemma ValidateLinearSignature_None:
  "ValidateLinearSignature W body sig secret = None \<longleftrightarrow> sig = wl_hmac W secret body \<and> sig \<noteq> []"
  by (auto simp: ValidateLinearSignature_def validateHMACSignature_def)

lemma identify_signed:
  "run_state (identify W h req body) w = (Inr x, w') \<Longrightarrow> signed W (wh_source h) (wh_secret h) req body"
  "run_state (gateway_identify W ns name h req body) w = (Inr x, w') \<Longrightarrow>
     signed W (wh_source h) (wh_secret h) req body"
  by (auto simp: identify_def gateway_identify_def signed_def ValidateGitHubSignature_None
      ValidateLinearSignature_None split: webhook_source.splits if_splits)

lemma admit_signed:
  assumes "run_state (admit W h req) w = (Inr (x, body), w')"
  shows "rq_method req = ''POST'' \<and> rq_body req = Inr body \<and> int (length body) \<le> maxPayloadSize
    \<and> signed W (wh_source h) (wh_secret h) req body"
  using assms identify_signed(1)
  by (auto simp: admit_def split: if_splits sum.splits prod.splits)

lemma emits_source [emits_intro]:
  "emits P a \<Longrightarrow> emits P b \<Longrightarrow> emits P c \<Longrightarrow>
   emits P (case src of GitHubHooks \<Rightarrow> a | LinearHooks \<Rightarrow> b | GenericHooks \<Rightarrow> c)"
  by (cases src) auto

lemma emits_identify [emits_intro]:
  "emits reading (identify W h req body)" "emits reading (gateway_identify W ns name h req body)"
  "emits reading (admit W h req)"
  unfolding admit_def identify_def gateway_identify_def by (intro emits_intro)+

lemma identify_no_ok:
  assumes "run_state (identify W h req body) w = (x, w')"
  shows "(wh_source h \<noteq> GenericHooks \<longrightarrow> w' = w) \<and> x \<noteq> Inl 200"
  using assms by (auto simp: identify_def split: if_splits sum.splits webhook_source.splits prod.splits)

lemma admit_refuses:
  assumes "run_state (admit W h req) w = (a, w')"
  shows "only_reads w w' \<and> (wh_source h \<noteq> GenericHooks \<longrightarrow> w' = w) \<and> a \<noteq> Inl 200"
proof -
  have "only_reads w w'" using assms by (rule only_reads_run [OF emits_identify(3)])
  moreover have "(wh_source h \<noteq> GenericHooks \<longrightarrow> w' = w) \<and> a \<noteq> Inl 200"
    using assms unfolding admit_def
    by (auto split: if_splits sum.splits prod.splits dest!: identify_no_ok)
  ultimately show ?thesis by blast
qed

text \<open>What is not signed is refused.\<close>

lemma server_authenticated:
  assumes "run_state (ServeHTTP E S W h r req cache) w = ((code, r', cache'), w')"
    and "wh_source h \<noteq> GenericHooks" and "code = 200 \<or> cache' \<noteq> cache \<or> w_calls w' \<noteq> w_calls w"
  shows "\<exists>body. rq_method req = ''POST'' \<and> rq_body req = Inr body \<and> int (length body) \<le> 10 * 1024 * 1024
    \<and> signed W (wh_source h) (wh_secret h) req body"
proof -
  obtain a w1 where a: "run_state (admit W h req) w = (a, w1)" by (metis surj_pair)
  obtain x body where "a = Inr (x, body)"
    using assms a admit_refuses [OF a] by (cases a) (auto simp: ServeHTTP_def)
  then show ?thesis using admit_signed [of W h req w x body w1] a by (auto simp: maxPayloadSize_def)
qed

definition signed_request :: "string \<Rightarrow> http_request" where
  "signed_request sig = \<lparr>rq_method = ''POST'', rq_path = ''/webhook/default/gw'',
     rq_headers = [(''X-GitHub-Event'', ''issues''), (''X-GitHub-Delivery'', ''1''), (''X-Hub-Signature-256'', sig)],
     rq_body = Inr ''body''\<rparr>"

section \<open>Gateways\<close>

lemma emits_gateway [emits_intro]:
  "emits reading (resolveGatewaySecret E gw)" "emits reading (resolveGatewayTokenResolver E gw)"
  unfolding resolveGatewaySecret_def resolveGatewayTokenResolver_def Let_def by (intro emits_intro; simp)+

lemma emits_gateway_admit [emits_intro]: "emits reading (gateway_admit E W req)"
  unfolding gateway_admit_def by (intro emits_intro) simp

text \<open>The secret that a gateway's requests are signed with, given the calls made before it is read.\<close>

definition gateway_key :: "env \<Rightarrow> call list \<Rightarrow> webhook_gateway \<Rightarrow> string option" where
  "gateway_key E hist gw =
     (case gatewaySecretRef gw of
        None \<Rightarrow> None
      | Some ref \<Rightarrow>
          (case q_secret E hist (m_namespace (wg_meta gw)) ref of
             Inl e \<Rightarrow> None
           | Inr sec \<Rightarrow> (let v = map_str (sec_data sec) ''webhook-secret'' in if v = [] then None else Some v)))"

lemma resolveGatewaySecret_key:
  "run_state (resolveGatewaySecret E gw) w = (Inr secret, w') \<Longrightarrow> gateway_key E (w_calls w) gw = Some secret"
  by (auto simp: resolveGatewaySecret_def gateway_key_def io_run gatewayWebhookSecretKey_def Let_def
      split: option.splits sum.splits if_splits)

lemma gateway_identify_no_ok: "run_state (gateway_identify W ns name h req body) w = (x, w') \<Longrightarrow> x \<noteq> Inl 200"
  by (auto simp: gateway_identify_def split: if_splits sum.splits webhook_source.splits prod.splits)

text \<open>Who a request to a gateway is from, as far as the gateway can tell.\<close>

definition gateway_request :: "env \<Rightarrow> webhook_env \<Rightarrow> world \<Rightarrow> http_request \<Rightarrow> webhook_gateway \<Rightarrow> string \<Rightarrow> bool" where
  "gateway_request E W w req gw body \<longleftrightarrow>
     rq_method req = ''POST'' \<and> rq_body req = Inr body \<and> int (length body) \<le> 10 * 1024 * 1024
     \<and> (\<exists>ns name src. parseGatewayPath (rq_path req) = Inr (ns, name)
          \<and> wq_gateway W (w_calls w) ns name = Inr gw \<and> gatewaySource gw = Some src
          \<and> (src \<noteq> GenericHooks \<longrightarrow>
              (\<exists>secret. gateway_key E (w_calls w @ [Read ''WebhookGateway'' ns name]) gw = Some secret
                 \<and> signed W src secret req body)))"

lemma gateway_admit_Inr:
  assumes "run_state (gateway_admit E W req) w = (Inr ((gw, h, ns, name), x, body), w')"
  shows "gateway_request E W w req gw body"
  using assms
  by (auto simp: gateway_admit_def gateway_request_def maxPayloadSize_def handlerForGateway_def io_run
      split: if_splits sum.splits option.splits prod.splits
      dest!: resolveGatewaySecret_key identify_signed(2))

lemma gateway_admit_no_ok: "run_state (gateway_admit E W req) w = (a, w') \<Longrightarrow> a \<noteq> Inl 200"
  by (auto simp: gateway_admit_def io_run split: if_splits sum.splits option.splits prod.splits
      dest!: gateway_identify_no_ok)

lemma gateway_authenticated:
  assumes "run_state (gateway_ServeHTTP E S W req cache) w = ((code, cache'), w')"
    and "code = 200 \<or> cache' \<noteq> cache \<or> \<not> only_reads w w'"
  shows "\<exists>gw body. gateway_request E W w req gw body"
proof -
  obtain a w1 where a: "run_state (gateway_admit E W req) w = (a, w1)" by (metis surj_pair)
  have r: "only_reads w w1" by (rule only_reads_run [OF emits_gateway_admit a])
  obtain gw h ns name x body where "a = Inr ((gw, h, ns, name), x, body)"
    using assms a r gateway_admit_no_ok [OF a]
    by (cases a) (auto simp: gateway_ServeHTTP_def)
  then show ?thesis using gateway_admit_Inr a by blast
qed


definition plain_gateway :: webhook_gateway where
  "plain_gateway = \<lparr>wg_meta = blank_meta\<lparr>m_name := ''gw'', m_namespace := ''default''\<rparr>,
     wg_github = Some \<lparr>gg_secret = ''key'', gg_api_base_url = [], gg_credentials = None\<rparr>, wg_linear = None,
     wg_generic = False,
     wg_status = \<lparr>wgs_path = [], wgs_phase = GatewayUnset, wgs_message = [], wgs_generation = 0\<rparr>\<rparr>"

definition gateway_cluster :: env where
  "gateway_cluster = idle_cluster\<lparr>q_secret := (\<lambda>h ns n.
     Inr \<lparr>sec_meta = blank_meta, sec_data = [(''webhook-secret'', ''s'')], sec_string_data = []\<rparr>)\<rparr>"

definition gateway_env :: webhook_env where
  "gateway_env = hook_env\<lparr>wq_gateway := (\<lambda>h ns n. Inr plain_gateway)\<rparr>"

definition server_run :: "string \<Rightarrow> (int \<times> token_resolver \<times> delivery_cache) \<times> world" where
  "server_run sig = run_state (ServeHTTP gateway_cluster idle_spawner_env gateway_env hook_handler NoResolver
     (signed_request sig) []) start"

definition gateway_run :: "string \<Rightarrow> (int \<times> delivery_cache) \<times> world" where
  "gateway_run sig = run_state (gateway_ServeHTTP gateway_cluster idle_spawner_env gateway_env
     (signed_request sig) []) start"


end
