(* ===== verification/DeliveryCache.thy ===== *)
theory DeliveryCache
  imports WebhookDelivery
begin

text \<open>
  The cache of deliveries under concurrent requests: each request marks its ID before its work and
  takes the mark back when the work fails, while a timer drops marks that are a day old. The
  contract of the cache is the locale \<open>delivery_store\<close>, the requests are a step relation, and the
  handlers of the server are shown to be runs of it.
\<close>

section \<open>What the cache promises\<close>

abbreviation day :: int where "day \<equiv> minutes (24 * 60)"

text \<open>
  Attempts that were let in and have not failed, the latest first: those with the same ID are more
  than a day apart, an attempt's ID is marked with its time unless the mark is a day old, and the
  IDs of attempts that still run are marked.
\<close>

definition attempts_ok :: "(string \<Rightarrow> int option) \<Rightarrow> (string \<times> int) list \<Rightarrow> (string \<times> int) set \<Rightarrow> int \<Rightarrow> bool" where
  "attempts_ok look attempts running now \<longleftrightarrow>
     sorted_wrt (\<lambda>(i, t) (j, u). i = j \<longrightarrow> u < t - day) attempts
     \<and> (\<forall>i t. (i, t) \<in> set attempts \<longrightarrow>
          t \<le> now \<and> (case look i of None \<Rightarrow> t < now - day | Some u \<Rightarrow> t = u \<or> t < u - day))
     \<and> running \<subseteq> set attempts \<and> (\<forall>i t. (i, t) \<in> running \<longrightarrow> look i = Some t)
     \<and> (\<forall>i t. look i = Some t \<longrightarrow> t \<le> now)"

locale delivery_store =
  fixes valid :: "'c \<Rightarrow> bool"
    and look :: "'c \<Rightarrow> string \<Rightarrow> int option"
    and check :: "'c \<Rightarrow> string \<Rightarrow> int \<Rightarrow> bool \<times> 'c"
    and forget :: "'c \<Rightarrow> string \<Rightarrow> 'c"
    and expire :: "'c \<Rightarrow> int \<Rightarrow> 'c"
  assumes check_seen: "look c i \<noteq> None \<Longrightarrow> check c i now = (True, c)"
    and check_new: "look c i = None \<Longrightarrow> valid c \<Longrightarrow>
      \<exists>c'. check c i now = (False, c') \<and> valid c' \<and> look c' = (look c)(i \<mapsto> now)"
    and forget: "valid c \<Longrightarrow> valid (forget c i) \<and> look (forget c i) = (look c)(i := None)"
    and expire: "valid c \<Longrightarrow> valid (expire c now) \<and> look (expire c now) =
      (\<lambda>i. case look c i of None \<Rightarrow> None | Some t \<Rightarrow> if t < now - day then None else Some t)"
begin

lemma check_accepts:
  assumes "check c i now = (False, c')" and "valid c"
  shows "valid c'" and "look c i = None" and "look c' = (look c)(i \<mapsto> now)"
  using assms check_seen [of c i now] check_new [of c i now] by (cases "look c i"; force)+

lemma accepted_ok:
  assumes "attempts_ok (look c) attempts running clk" and "check c i now = (False, c')" and "valid c"
    and "clk \<le> now"
  shows "attempts_ok (look c') ((i, now) # attempts) (insert (i, now) running) now"
proof -
  note c = check_accepts [OF assms(2,3)]
  have old: "u < now - day" if "(i, u) \<in> set attempts" for u
    using assms(1,4) that c(2) by (force simp: attempts_ok_def)
  have other: "i \<notin> fst ` running" using assms(1) c(2) by (force simp: attempts_ok_def)
  show ?thesis
    unfolding attempts_ok_def
  proof (intro conjI allI impI)
    show "sorted_wrt (\<lambda>(i, t) (j, u). i = j \<longrightarrow> u < t - day) ((i, now) # attempts)"
      using assms(1) old by (auto simp: attempts_ok_def)
    show "insert (i, now) running \<subseteq> set ((i, now) # attempts)"
      using assms(1) by (auto simp: attempts_ok_def)
    fix j t
    show "(j, t) \<in> insert (i, now) running \<Longrightarrow> look c' j = Some t"
      using assms(1) c(3) other by (force simp: attempts_ok_def)
    show "look c' j = Some t \<Longrightarrow> t \<le> now"
      using assms(1,4) c(3) by (force simp: attempts_ok_def split: if_splits)
    assume j: "(j, t) \<in> set ((i, now) # attempts)"
    show "t \<le> now" using j assms(1,4) by (force simp: attempts_ok_def)
    show "case look c' j of None \<Rightarrow> t < now - day | Some u \<Rightarrow> t = u \<or> t < u - day"
    proof (cases "j = i")
      case True
      then show ?thesis using j old c(3) by auto
    next
      case False
      then have "case look c j of None \<Rightarrow> t < clk - day | Some u \<Rightarrow> t = u \<or> t < u - day"
        using j assms(1) by (auto simp: attempts_ok_def)
      then show ?thesis using False c(3) assms(4) by (auto split: option.splits)
    qed
  qed
qed

lemma failed_ok:
  assumes "attempts_ok (look c) attempts running now" and "(i, t) \<in> running" and "valid c"
  shows "attempts_ok (look (forget c i)) (filter (\<lambda>a. a \<noteq> (i, t)) attempts) (running - {(i, t)}) now"
proof -
  have l: "look (forget c i) = (look c)(i := None)" using forget [OF assms(3)] by simp
  have it: "look c i = Some t" "t \<le> now" using assms(1,2) by (auto simp: attempts_ok_def)
  have old: "u < now - day" if "(i, u) \<in> set attempts" "u \<noteq> t" for u
    using assms(1) that it by (force simp: attempts_ok_def)
  show ?thesis
    using assms(1) old it unfolding attempts_ok_def l
    by (auto simp: sorted_wrt_filter split: option.splits)
qed

lemma expired_ok:
  assumes "attempts_ok (look c) attempts running clk" and "\<And>i t. (i, t) \<in> running \<Longrightarrow> \<not> t < now - day"
    and "valid c" and "clk \<le> now"
  shows "attempts_ok (look (expire c now)) attempts running now"
proof -
  have l: "look (expire c now) =
      (\<lambda>i. case look c i of None \<Rightarrow> None | Some t \<Rightarrow> if t < now - day then None else Some t)"
    using expire [OF assms(3)] by simp
  show ?thesis
    unfolding attempts_ok_def
  proof (intro conjI allI impI)
    show "sorted_wrt (\<lambda>(i, t) (j, u). i = j \<longrightarrow> u < t - day) attempts" "running \<subseteq> set attempts"
      using assms(1) by (auto simp: attempts_ok_def)
    fix j t
    show "(j, t) \<in> running \<Longrightarrow> look (expire c now) j = Some t"
      using assms(1,2) by (force simp: attempts_ok_def l)
    show "look (expire c now) j = Some t \<Longrightarrow> t \<le> now"
      using assms(1,4) by (force simp: attempts_ok_def l split: option.splits if_splits)
    assume j: "(j, t) \<in> set attempts"
    then have t: "t \<le> clk" "case look c j of None \<Rightarrow> t < clk - day | Some u \<Rightarrow> t = u \<or> t < u - day"
      using assms(1) by (auto simp: attempts_ok_def)
    show "t \<le> now" using t assms(4) by simp
    show "case look (expire c now) j of None \<Rightarrow> t < now - day | Some u \<Rightarrow> t = u \<or> t < u - day"
      using t assms(4) by (auto simp: l split: option.splits)
  qed
qed

end

section \<open>The cache of the code\<close>

lemma map_of_cleanup:
  assumes "distinct (map fst cache)"
  shows "map_of (cleanup cache now) =
    (\<lambda>i. case map_of cache i of None \<Rightarrow> None | Some t \<Rightarrow> if t < now - day then None else Some t)"
  using assms
proof (induction cache)
  case (Cons e cache)
  obtain i t where e: "e = (i, t)" by (cases e)
  have "map_of cache i = None" using Cons.prems e by (simp add: map_of_eq_None_iff)
  then show ?case using Cons by (auto simp: cleanup_def e fun_eq_iff)
qed (simp add: cleanup_def fun_eq_iff)

interpretation cache: delivery_store "\<lambda>c. distinct (map fst c)" map_of CheckAndMark Forget cleanup
proof
  fix c :: delivery_cache and i now
  show "map_of c i \<noteq> None \<Longrightarrow> CheckAndMark c i now = (True, c)" by (simp add: CheckAndMark_def)
  show "map_of c i = None \<Longrightarrow> distinct (map fst c) \<Longrightarrow>
      \<exists>c'. CheckAndMark c i now = (False, c') \<and> distinct (map fst c') \<and> map_of c' = (map_of c)(i \<mapsto> now)"
    by (simp add: CheckAndMark_def distinct_update update_conv')
  show "distinct (map fst c) \<Longrightarrow> distinct (map fst (Forget c i)) \<and> map_of (Forget c i) = (map_of c)(i := None)"
    by (simp add: Forget_def distinct_delete delete_conv')
  show "distinct (map fst c) \<Longrightarrow> distinct (map fst (cleanup c now)) \<and> map_of (cleanup c now) =
      (\<lambda>i. case map_of c i of None \<Rightarrow> None | Some t \<Rightarrow> if t < now - day then None else Some t)"
    using map_of_cleanup [of c now] by (simp add: cleanup_def distinct_map_filter)
qed

section \<open>Requests at the same time\<close>

text \<open>
  \<open>in_attempts\<close> are the attempts that were let in and have not failed, \<open>in_running\<close> those whose
  work goes on, and \<open>in_acked\<close> the IDs answered with 200.
\<close>

record intake =
  in_cache :: delivery_cache
  in_now :: int
  in_attempts :: "(string \<times> int) list"
  in_running :: "(string \<times> int) set"
  in_acked :: "string list"

definition fresh_intake :: intake where
  "fresh_intake = \<lparr>in_cache = [], in_now = 0, in_attempts = [], in_running = {}, in_acked = []\<rparr>"

text \<open>The timer assumes that no request runs for a day.\<close>

inductive intake_step :: "intake \<Rightarrow> intake \<Rightarrow> bool" where
  let_in: "mark (in_cache s) i now = (False, c) \<Longrightarrow> i \<noteq> [] \<Longrightarrow> in_now s \<le> now \<Longrightarrow>
     intake_step s (s\<lparr>in_cache := c, in_now := now, in_attempts := (i, now) # in_attempts s,
                      in_running := insert (i, now) (in_running s)\<rparr>)"
| repetition: "mark (in_cache s) i now = (True, c) \<Longrightarrow>
     intake_step s (s\<lparr>in_cache := c, in_acked := i # in_acked s\<rparr>)"
| success: "(i, t) \<in> in_running s \<Longrightarrow> conclude None i (in_cache s) = (code, c) \<Longrightarrow>
     intake_step s (s\<lparr>in_cache := c, in_running := in_running s - {(i, t)}, in_acked := i # in_acked s\<rparr>)"
| failure: "(i, t) \<in> in_running s \<Longrightarrow> conclude (Some e) i (in_cache s) = (code, c) \<Longrightarrow>
     intake_step s (s\<lparr>in_cache := c, in_running := in_running s - {(i, t)},
                      in_attempts := filter (\<lambda>a. a \<noteq> (i, t)) (in_attempts s)\<rparr>)"
| timer: "in_now s \<le> now \<Longrightarrow> (\<And>i t. (i, t) \<in> in_running s \<Longrightarrow> \<not> t < now - day) \<Longrightarrow>
     intake_step s (s\<lparr>in_cache := cleanup (in_cache s) now, in_now := now\<rparr>)"

definition intake_ok :: "intake \<Rightarrow> bool" where
  "intake_ok s \<longleftrightarrow>
     distinct (map fst (in_cache s)) \<and> (\<forall>a \<in> in_running s. fst a \<noteq> [])
     \<and> attempts_ok (map_of (in_cache s)) (in_attempts s) (in_running s) (in_now s)"

lemma mark_new: "mark c i now = (False, c') \<Longrightarrow> i \<noteq> [] \<Longrightarrow> CheckAndMark c i now = (False, c')"
  by (simp add: mark_def)

lemma mark_repeated: "mark c i now = (True, c') \<Longrightarrow> c' = c"
  by (auto simp: mark_def CheckAndMark_def split: if_splits)

lemma intake_step_ok: "intake_step s s' \<Longrightarrow> intake_ok s \<Longrightarrow> intake_ok s'"
proof (induction rule: intake_step.induct)
  case (let_in s i now c)
  note new = mark_new [OF let_in(1,2)]
  show ?case
    using let_in(4) cache.check_accepts(1) [OF new] cache.accepted_ok [OF _ new _ let_in(3)] let_in(2)
    by (auto simp: intake_ok_def)
next
  case (repetition s i now c)
  then show ?case using mark_repeated [of "in_cache s" i now c] by (simp add: intake_ok_def)
next
  case (success i t s code c)
  then show ?case by (auto simp: intake_ok_def conclude_def attempts_ok_def)
next
  case (failure i t s e code c)
  then have "c = Forget (in_cache s) i" by (auto simp: conclude_def intake_ok_def split: if_splits)
  then show ?case
    using failure cache.forget [of "in_cache s" i]
      cache.failed_ok [of "in_cache s" "in_attempts s" "in_running s" "in_now s" i t]
    by (auto simp: intake_ok_def)
next
  case (timer s now)
  then show ?case
    using cache.expire [of "in_cache s" now]
      cache.expired_ok [of "in_cache s" "in_attempts s" "in_running s" "in_now s" now]
    by (auto simp: intake_ok_def)
qed

text \<open>
  C37. However requests are interleaved, a delivery is worked on at most once a day: of the attempts
  that were let in and did not fail, those with the same ID are more than a day apart, and no ID
  is worked on twice at the same time.
\<close>

theorem deliveries_exclusive:
  assumes "intake_step\<^sup>*\<^sup>* fresh_intake s"
  shows "sorted_wrt (\<lambda>(i, t) (j, u). i = j \<longrightarrow> u < t - day) (in_attempts s)
    \<and> in_running s \<subseteq> set (in_attempts s) \<and> inj_on fst (in_running s)
    \<and> (\<forall>(i, t) \<in> in_running s. map_of (in_cache s) i = Some t)"
proof -
  have "intake_ok fresh_intake" by (simp add: fresh_intake_def intake_ok_def attempts_ok_def)
  with assms have "intake_ok s" by induction (auto intro: intake_step_ok)
  then have ok: "attempts_ok (map_of (in_cache s)) (in_attempts s) (in_running s) (in_now s)"
    by (simp add: intake_ok_def)
  then have marked: "map_of (in_cache s) (fst a) = Some (snd a)" if "a \<in> in_running s" for a
    using that by (cases a) (auto simp: attempts_ok_def)
  then have "inj_on fst (in_running s)" by (intro inj_onI) (metis option.inject prod_eqI)
  with ok marked show ?thesis by (auto simp: attempts_ok_def)
qed

definition retried_intake :: intake where
  "retried_intake = fresh_intake\<lparr>in_cache := [(''1'', 2)], in_now := 2, in_attempts := [(''1'', 2)],
     in_running := {(''1'', 2)}\<rparr>"

lemma retried_reachable: "intake_step\<^sup>*\<^sup>* fresh_intake retried_intake"
proof -
  have "intake_step fresh_intake retried_intake"
    using let_in [of fresh_intake "''1''" 2 "[(''1'', 2)]"]
    by (simp add: fresh_intake_def retried_intake_def mark_def CheckAndMark_def)
  then show ?thesis by blast
qed

lemma deliveries_exclusive_witness: "map_of (in_cache retried_intake) ''1'' = Some 2 \<and> in_running retried_intake \<noteq> {}"
  using deliveries_exclusive [OF retried_reachable] by (simp add: retried_intake_def)

text \<open>
  A repetition is acknowledged before it is known how the first attempt ends: a sender that
  repeats a delivery while it is worked on is answered with 200, and when the first attempt then
  fails, nothing is left of the delivery, neither an attempt nor a mark.
\<close>

theorem acknowledged_and_lost:
  assumes "i \<noteq> []"
  shows "\<exists>s. intake_step\<^sup>*\<^sup>* fresh_intake s \<and> in_acked s = [i] \<and> in_attempts s = [] \<and> in_running s = {}
     \<and> map_of (in_cache s) i = None"
proof -
  let ?s = "fresh_intake\<lparr>in_cache := [(i, 2)], in_now := 2, in_attempts := [(i, 2)], in_running := {(i, 2)}\<rparr>"
  let ?t = "?s\<lparr>in_acked := [i]\<rparr>"
  let ?u = "?t\<lparr>in_cache := [], in_attempts := [], in_running := {}\<rparr>"
  have 1: "intake_step fresh_intake ?s"
    using let_in [of fresh_intake i 2 "[(i, 2)]"] assms by (simp add: fresh_intake_def mark_def CheckAndMark_def)
  have 2: "intake_step ?s ?t"
    using repetition [of ?s i 3 "[(i, 2)]"] assms by (simp add: fresh_intake_def mark_def CheckAndMark_def)
  have 3: "intake_step ?t ?u"
    using failure [of i 2 ?t e 500 "[]"] assms by (simp add: fresh_intake_def conclude_def Forget_def)
  from 1 2 3 have "intake_step\<^sup>*\<^sup>* fresh_intake ?u" by (meson r_into_rtranclp rtranclp_trans)
  then show ?thesis by (intro exI [of _ ?u]) (simp add: fresh_intake_def)
qed

section \<open>The handlers are runs of the protocol\<close>

lemma identified:
  "run_state (identify W h req body) w = (Inr (ev, i, p), w') \<Longrightarrow> i \<noteq> []"
  "run_state (gateway_identify W ns name h req body) w = (Inr (ev, i, p), w') \<Longrightarrow> i \<noteq> []"
  by (auto simp: identify_def gateway_identify_def first_of_def githubDeliveryID_def linearDeliveryID_def
      gatewayFallbackDeliveryID_def extractGenericDeliveryID_def extractGatewayGenericDeliveryID_def
      split: webhook_source.splits if_splits sum.splits prod.splits)

lemma admitted: "run_state (admit W h req) w = (Inr ((ev, i, p), body), w') \<Longrightarrow> i \<noteq> []"
  by (auto simp: admit_def split: if_splits sum.splits prod.splits dest: identified(1))

lemma gateway_admitted: "run_state (gateway_admit E W req) w = (Inr (g, (ev, i, p), body), w') \<Longrightarrow> i \<noteq> []"
  by (auto simp: gateway_admit_def io_run split: if_splits sum.splits option.splits prod.splits
      dest: identified(2))

text \<open>What a request that nothing else interferes with does to the protocol.\<close>

definition request_run :: "intake \<Rightarrow> intake \<Rightarrow> bool" where
  "request_run s s' \<longleftrightarrow> intake_step\<^sup>*\<^sup>* s s' \<and> in_running s' = in_running s"

lemma request_run_attempt:
  assumes "mark (in_cache s) i now = (False, c)" and "i \<noteq> []" and "in_now s \<le> now"
    and "\<And>t. (i, t) \<notin> in_running s"
    and "conclude e i c = (code, c')"
  shows "\<exists>s'. request_run s s' \<and> in_cache s' = c'"
proof -
  let ?s = "s\<lparr>in_cache := c, in_now := now, in_attempts := (i, now) # in_attempts s,
              in_running := insert (i, now) (in_running s)\<rparr>"
  have 1: "intake_step s ?s" by (rule let_in [OF assms(1-3)])
  have "\<exists>s'. intake_step ?s s' \<and> in_running s' = in_running s \<and> in_cache s' = c'"
  proof (cases e)
    case None
    show ?thesis
      using success [of i now ?s code c'] assms(4,5) None by fastforce
  next
    case (Some f)
    show ?thesis
      using failure [of i now ?s f code c'] assms(4,5) Some by fastforce
  qed
  then obtain s' where "intake_step ?s s'" "in_running s' = in_running s" "in_cache s' = c'" by blast
  moreover from 1 this(1) have "intake_step\<^sup>*\<^sup>* s s'" by (meson r_into_rtranclp rtranclp_trans)
  ultimately show ?thesis unfolding request_run_def by blast
qed



section \<open>Failed matches\<close>

text \<open>The match of each spawner ends in an error, for event data that stays as it is.\<close>

definition all_matches_fail ::
  "env \<Rightarrow> spawner_env \<Rightarrow> webhook_env \<Rightarrow> webhook_handler \<Rightarrow> string \<Rightarrow> github_event_data \<Rightarrow> task_spawner list \<Rightarrow> bool" where
  "all_matches_fail E S W h ev d spawners \<longleftrightarrow>
     (\<forall>ts \<in> set spawners. \<forall>r v. \<exists>e r' v'.
        run_state (matchesSpawner E S W h ts ev (ParsedGitHub d) r) v = ((Inl e, ParsedGitHub d, r'), v'))"

lemma failed_spawners:
  assumes "all_matches_fail E S W h ev d spawners" and "dl_parsed dl = ParsedGitHub d"
    and "run_state (serve_spawners E S W h ev i spawners dl) w = (x, w')"
  shows "(\<exists>dl'. x = (0, [], dl') \<and> dl_parsed dl' = ParsedGitHub d) \<and> only_reads w w'"
  using assms
proof (induction spawners arbitrary: dl w x)
  case (Cons ts rest)
  obtain c dl' w1 where s: "run_state (serve_spawner E S W h ev i ts dl) w = ((c, dl'), w1)" by (metis surj_pair)
  have one: "c = None \<and> dl_parsed dl' = ParsedGitHub d \<and> only_reads w w1"
  proof (cases "is_suspended ts \<or> limit_reached ts")
    case True
    then show ?thesis using s Cons.prems(2) by (auto simp: serve_spawner_def)
  next
    case False
    obtain e r' v' where m: "run_state (matchesSpawner E S W h ts ev (ParsedGitHub d) (dl_resolver dl)) w
        = ((Inl e, ParsedGitHub d, r'), v')"
      using Cons.prems(1) unfolding all_matches_fail_def by (metis list.set_intros(1))
    then show ?thesis
      using s False Cons.prems(2) only_reads_run [OF emits_reading_match m]
      by (auto simp: serve_spawner_def enrich_linear_def Let_def)
  qed
  obtain y where y: "run_state (serve_spawners E S W h ev i rest dl') w1 = (y, w')"
    using Cons.prems(3) s by (auto split: prod.splits)
  have "all_matches_fail E S W h ev d rest" using Cons.prems(1) by (simp add: all_matches_fail_def)
  from Cons.IH [OF this _ y] one obtain dl'' where "y = (0, [], dl'')" "dl_parsed dl'' = ParsedGitHub d"
    "only_reads w w'" using only_reads_trans by blast
  then show ?case using Cons.prems(3) s y one by auto
qed simp

lemma failed_delivery:
  assumes "wh_source h = GitHubHooks" and "ParseGitHubWebhook W ev body = Inr d" and "\<not> needsBranchEnrichment d"
    and "all_matches_fail E S W h ev d (candidates W h None (w_calls w))"
    and "wq_spawners W (w_calls w) [] [] = Inr spawners" and "\<And>hist. wq_session_spawners W hist [] [] = Inr []"
    and "run_state (processWebhook E S W h r ev body i None None) w = (((b, e), r'), w')"
  shows "e = None \<and> creations w w' = []"
proof -
  let ?spawners = "candidates W h None (w_calls w)"
  obtain l w1 where l: "run_state (getMatchingSpawners W (wh_source h)) w = (l, w1)" by (metis surj_pair)
  obtain l' w2 where l': "run_state (getMatchingSessionSpawners W) w1 = (l', w2)" by (metis surj_pair)
  have lists: "l = Inr ?spawners" "l' = Inr []"
    using l l' assms(5,6) by (auto simp: candidates_def getMatchingSpawners_def getMatchingSessionSpawners_def io_run)
  have reads: "only_reads w w2"
    by (rule only_reads_trans [OF only_reads_run [OF _ l] only_reads_run [OF _ l']]) (intro emits_intro)+
  have rest: "run_state (if ?spawners = [] then ret ((True, None), r)
      else serve_all E S W h r ev (ParsedGitHub d) i ?spawners []) w2 = (((b, e), r'), w')"
    using assms(1,2,7) l l' lists by (simp add: processWebhook_def parse_webhook_def)
  obtain x w3 where x: "run_state (serve_spawners E S W h ev i ?spawners
      \<lparr>dl_parsed = ParsedGitHub d, dl_resolver = r, dl_enriched = False\<rparr>) w2 = (x, w3)" by (metis surj_pair)
  from failed_spawners [OF assms(4) _ this] obtain dl' where dl: "x = (0, [], dl')" "dl_parsed dl' = ParsedGitHub d"
    and reads': "only_reads w2 w3" by auto
  have "e = None \<and> (w' = w2 \<or> w' = w3)"
    using rest x dl assms(3) by (auto simp: serve_all_def enrich_branch_def join_errs_def split: if_splits)
  then show ?thesis using creations_reading reads only_reads_trans [OF reads reads'] by blast
qed

text \<open>
  Errors of matching are only logged: when the changed files cannot be fetched for any task
  spawner of a delivery, it is answered with 200 and stays marked, although nothing was created,
  so that GitHub does not repeat it and a repetition by hand is dropped for a day.
\<close>

theorem failed_match_acknowledged:
  assumes "run_state (admit W h req) w = (Inr ((ev, i, None), body), w)" and "wh_source h = GitHubHooks"
    and "map_of cache i = None" and "ParseGitHubWebhook W ev body = Inr d" and "\<not> needsBranchEnrichment d"
    and "all_matches_fail E S W h ev d (candidates W h None (w_calls w))"
    and "wq_spawners W (w_calls w) [] [] = Inr spawners" and "\<And>hist. wq_session_spawners W hist [] [] = Inr []"
    and "run_state (ServeHTTP E S W h r req cache) w = ((code, r', cache'), w')"
  shows "code = 200 \<and> map_of cache' i \<noteq> None \<and> creations w w' = []"
proof -
  obtain b e r1 w1 where p: "run_state (processWebhook E S W h r ev body i None None) w = (((b, e), r1), w1)"
    by (metis surj_pair)
  have out: "e = None \<and> creations w w1 = []"
    using failed_delivery assms(2,4-8) p by blast
  have "i \<noteq> []" using admitted assms(1) by blast
  then have "mark cache i (q_clock E (w_calls w)) = (False, map_put i (q_clock E (w_calls w)) cache)"
    using assms(3) by (simp add: mark_def CheckAndMark_def)
  then have "code = 200 \<and> cache' = map_put i (q_clock E (w_calls w)) cache \<and> w' = w1"
    using assms(1,9) p out by (simp add: ServeHTTP_def io_run conclude_def)
  then show ?thesis using out by (simp add: update_conv')
qed

text \<open>A spawner that asks for files, where the network is down.\<close>

definition docs_spawner :: task_spawner where
  "docs_spawner = plain_spawner\<lparr>s_when := (s_when plain_spawner)\<lparr>wn_cron := None, wn_github := Some docs_webhook\<rparr>\<rparr>"

definition docs_env :: webhook_env where
  "docs_env = idle_webhook_env\<lparr>wq_spawners := (\<lambda>h ns n. Inr [docs_spawner])\<rparr>"

definition pull_request :: http_request where
  "pull_request = (signed_request ''sha256=sbody'')
     \<lparr>rq_headers := [(''X-GitHub-Event'', ''pull_request''), (''X-GitHub-Delivery'', ''1''),
                     (''X-Hub-Signature-256'', ''sha256=sbody'')]\<rparr>"

lemma files_unreachable:
  "\<exists>e v'. run_state (fetchPRChangedFilesWithToken idle_spawner_env token u owner repo n) v = (Inl e, v')"
  by (simp add: fetchPRChangedFilesWithToken_def fetchGitHubFilesPage_def fetch_page_def prFilesMaxPages_def
      io_run idle_spawner_env_def numeral_eq_Suc split: sum.splits prod.splits)

lemma docs_fetch_fails:
  "\<exists>e r' v'. run_state (enrichPRChangedFiles idle_cluster idle_spawner_env hook_handler docs_spawner r pull_data) v
     = ((Inl e, r'), v')"
proof -
  have n: "\<not> (ge_number pull_data = 0 \<or> ge_repository pull_data = [])" by code_simp
  have ws: "run_state (resolveTaskSpawnerWorkspaceRef idle_cluster docs_spawner) v = (Inr None, v)"
    by (simp add: resolveTaskSpawnerWorkspaceRef_def docs_spawner_def plain_spawner_def plain_template_def)
  obtain t r1 v1 where t: "run_state (resolveGitHubToken idle_cluster r) v = ((t, r1), v1)" by (metis surj_pair)
  show ?thesis
  proof (cases t)
    case (Inl e)
    with n ws t show ?thesis
      by (simp add: enrichPRChangedFiles_def changed_files_with_def resolveGitHubTokenFromWorkspaceRef_def
          resolveFallbackGitHubToken_def)
  next
    case (Inr token)
    obtain e v2 where "run_state (fetchPRChangedFilesWithToken idle_spawner_env token (wh_api_base hook_handler)
        (ge_owner pull_data) (ge_repo_name pull_data) (ge_number pull_data)) v1 = (Inl e, v2)"
      using files_unreachable by blast
    with Inr n ws t show ?thesis
      by (simp add: enrichPRChangedFiles_def changed_files_with_def resolveGitHubTokenFromWorkspaceRef_def
          resolveFallbackGitHubToken_def)
  qed
qed

lemma docs_match_fails:
  "all_matches_fail idle_cluster idle_spawner_env docs_env hook_handler ''pull_request'' pull_data [docs_spawner]"
proof -
  have 1: "\<not> MatchesGitHubEvent idle_spawner_env docs_env docs_webhook ''pull_request'' pull_data"
    "githubWebhookNeedsChangedFiles docs_env docs_webhook ''pull_request'' pull_data"
    "ge_files pull_data = []" "gw_repository docs_webhook = []" by code_simp+
  have when_docs: "wn_github (s_when docs_spawner) = Some docs_webhook" by (simp add: docs_spawner_def)
  show ?thesis
    unfolding all_matches_fail_def
  proof (intro ballI allI)
    fix ts r v
    assume "ts \<in> set [docs_spawner]"
    then have ts: "ts = docs_spawner" by simp
    obtain e r' v' where "run_state (enrichPRChangedFiles idle_cluster idle_spawner_env hook_handler docs_spawner r
        pull_data) v = ((Inl e, r'), v')" using docs_fetch_fails by blast
    then show "\<exists>e r' v'. run_state (matchesSpawner idle_cluster idle_spawner_env docs_env hook_handler ts
        ''pull_request'' (ParsedGitHub pull_data) r) v = ((Inl e, ParsedGitHub pull_data, r'), v')"
      using 1 by (simp add: ts matchesSpawner_def when_docs matchesGitHubWebhook_def)
  qed
qed

lemma failed_match_acknowledged_witness:
  "\<exists>code r' cache' w'. run_state (ServeHTTP idle_cluster idle_spawner_env docs_env hook_handler NoResolver
       pull_request []) start = ((code, r', cache'), w')
     \<and> code = 200 \<and> map_of cache' ''1'' \<noteq> None \<and> creations start w' = []"
proof -
  obtain code r' cache' w' where run: "run_state (ServeHTTP idle_cluster idle_spawner_env docs_env hook_handler
      NoResolver pull_request []) start = ((code, r', cache'), w')" by (metis surj_pair)
  have a: "run_state (admit docs_env hook_handler pull_request) start
      = (Inr ((''pull_request'', ''1'', None), ''body''), start)"
    by (simp add: admit_def identify_def pull_request_def signed_request_def hook_handler_def docs_env_def
        idle_webhook_env_def maxPayloadSize_def ValidateGitHubSignature_None first_of_def map_str_def)
  have h: "wh_source hook_handler = GitHubHooks" by (simp add: hook_handler_def)
  have p: "ParseGitHubWebhook docs_env ''pull_request'' ''body'' = Inr pull_data"
    by (simp add: ParseGitHubWebhook_def docs_env_def idle_webhook_env_def pull_data_def event_data_def)
  have c: "candidates docs_env hook_handler None (w_calls start) = [docs_spawner]"
    by (simp add: candidates_def docs_env_def h serves_def docs_spawner_def docs_webhook_def plain_webhook_def)
  have "\<not> needsBranchEnrichment pull_data" by code_simp
  moreover have "wq_spawners docs_env (w_calls start) [] [] = Inr [docs_spawner]"
    "wq_session_spawners docs_env hist [] [] = Inr []" for hist
    by (simp_all add: docs_env_def idle_webhook_env_def)
  ultimately show ?thesis
    using failed_match_acknowledged [OF a h _ p _ _ _ _ run] docs_match_fails run by (simp add: c)
qed

end
