(* ===== verification/Workloads.thy ===== *)
theory Workloads
  imports GitHubToken
begin

text \<open>
  What the controllers of spawners, workspaces, gateways and Codex credentials share: their
  parameter, names and environment of the proxy of a workspace, and the comparison of container
  resources. Code: \<^verbatim>\<open>taskspawner_deployment_builder.go\<close> and \<^verbatim>\<open>workspace_ghproxy_builder.go\<close>.
\<close>

section \<open>The parameter\<close>

text \<open>
  As in \<open>env\<close>, fields \<open>o_\<close> are answers of the API server, \<open>l_\<close> are functions of libraries and \<open>cfg_\<close>
  is the configuration of the builders: image, pull policy and, if set, the resources.
  \<open>o_dry_run\<close> is the answer to an update of a CronJob that is not persisted: the object as the
  server would store it. \<open>l_resources\<close> looks into the resources of a container; quantities are
  integers in the smallest unit.
\<close>

record resources =
  rs_claims :: "opaque list"
  rs_requests :: "(string \<times> int) list"
  rs_limits :: "(string \<times> int) list"

record image_config =
  ic_image :: string
  ic_pull :: string
  ic_resources :: "opaque option"

record workload_env =
  o_spawner :: "task_spawner answer"
  o_spawners :: "task_spawner list answer"
  o_spawner_tasks :: "task list answer"
  o_deployment :: "deployment answer"
  o_cron_job :: "cron_job answer"
  o_workspace :: "workspace answer"
  o_gateway :: "webhook_gateway answer"
  o_gateways :: "webhook_gateway list answer"
  o_session_spawner :: "session_spawner answer"
  o_sessions :: "session list answer"
  o_account :: "object_meta answer"
  o_role :: "role answer"
  o_binding :: "role_binding answer"
  o_refreshable :: "secret list answer"
  o_dry_run :: "call list \<Rightarrow> cron_job \<Rightarrow> go_err + cron_job"
  l_resources :: "opaque option \<Rightarrow> resources"
  l_quantity :: "string \<Rightarrow> go_err + int"
  l_cron_equal :: "cron_job_spec \<Rightarrow> cron_job_spec \<Rightarrow> bool"
  l_cron_derivative :: "cron_job_spec \<Rightarrow> cron_job_spec \<Rightarrow> bool"
  l_sha256_10 :: "string \<Rightarrow> string"
  cfg_spawner :: image_config
  cfg_ghproxy :: image_config
  cfg_cache_ttl :: "string option"
  cfg_refresher :: image_config
  cfg_schedule :: string

definition dry_run :: "workload_env \<Rightarrow> cron_job \<Rightarrow> (go_err + cron_job) io" where
  "dry_run W c =
     State (\<lambda>w. (o_dry_run W (w_calls w) c, w\<lparr>w_calls := w_calls w @ [DryRunCronJob c]\<rparr>))"

lemma run_dry_run [io_run]:
  "run_state (dry_run W c) w = (o_dry_run W (w_calls w) c, w\<lparr>w_calls := w_calls w @ [DryRunCronJob c]\<rparr>)"
  by (simp add: dry_run_def)

lemma emits_dry_run [emits_intro]: "P (DryRunCronJob c) \<Longrightarrow> emits P (dry_run W c)"
  by (simp add: emits_def io_run)

lemma keeps_locks_dry_run [emits_intro]: "keeps_locks (dry_run W c)"
  by (simp add: keeps_locks_def io_run)

text \<open>\<^verbatim>\<open>if err := r.Delete(...); err != nil && !apierrors.IsNotFound(err)\<close>\<close>

definition delete_existing :: "env \<Rightarrow> call \<Rightarrow> go_err option io" where
  "delete_existing E c = do {
     d \<leftarrow> write_call E c;
     ret (case d of None \<Rightarrow> None | Some e \<Rightarrow> if is_not_found e then None else Some e)
   }"

section \<open>Bringing an object to its desired state\<close>

text \<open>
  The updates of all these controllers go through an object part by part: a part that is not as
  desired is set, and the object is written if any was. A part is a test and a setter.
\<close>

type_synonym 'a part = "('a \<Rightarrow> bool) \<times> ('a \<Rightarrow> 'a)"

definition settle :: "'a part list \<Rightarrow> 'a \<Rightarrow> bool \<times> 'a" where
  "settle parts x = foldl (\<lambda>r (ok, put). if ok (snd r) then r else (True, put (snd r))) (False, x) parts"

text \<open>The contract: a setter establishes its own part and leaves the others as they are.\<close>

locale settling =
  fixes parts :: "'a part list"
  assumes establishes: "(ok, put) \<in> set parts \<Longrightarrow> ok (put x)"
    and preserves: "(ok, put) \<in> set parts \<Longrightarrow> (ok', put') \<in> set parts \<Longrightarrow> ok x \<Longrightarrow> ok (put' x)"
begin

lemma settle_parts:
  "set ps \<subseteq> set parts \<Longrightarrow> set qs \<subseteq> set parts \<Longrightarrow> \<forall>(ok, put) \<in> set qs. ok (snd r) \<Longrightarrow>
     \<forall>(ok, put) \<in> set qs \<union> set ps.
       ok (snd (foldl (\<lambda>r (ok, put). if ok (snd r) then r else (True, put (snd r))) r ps))"
proof (induction ps arbitrary: r qs)
  case (Cons p ps)
  obtain ok put where p: "p = (ok, put)" by (cases p)
  let ?r = "if ok (snd r) then r else (True, put (snd r))"
  have "ok (snd ?r)" using Cons.prems(1) establishes [of ok put] by (simp add: p)
  moreover have "ok' (snd ?r)" if "(ok', put') \<in> set qs" for ok' put'
    using that Cons.prems preserves [of ok' put' ok put "snd r"] by (auto simp: p)
  ultimately have "\<forall>(ok, put) \<in> set (p # qs). ok (snd ?r)" by (auto simp: p)
  from Cons.IH [OF _ _ this] Cons.prems show ?case by (simp add: p)
qed simp

lemma settled: "(ok, put) \<in> set parts \<Longrightarrow> ok (snd (settle parts x))"
  using settle_parts [of parts "[]" "(False, x)"] by (auto simp: settle_def)

end

lemma settle_nothing: "\<forall>(ok, put) \<in> set parts. ok x \<Longrightarrow> settle parts x = (False, x)"
  by (induction parts) (auto simp: settle_def)

lemma settle_marked: "fst (foldl (\<lambda>r (ok, put). if ok (snd r) then r else (True, put (snd r))) (True, x) ps)"
  by (induction ps arbitrary: x) auto

lemma settle_changed: "\<not> fst (settle parts x) \<longleftrightarrow> (\<forall>(ok, put) \<in> set parts. ok x)"
  by (induction parts) (auto simp: settle_def settle_marked split: if_splits)

context settling
begin

lemma settle_once: "settle parts (snd (settle parts x)) = (False, snd (settle parts x))"
  using settled by (intro settle_nothing) auto

lemma settle_quiet: "\<not> fst (settle parts x) \<Longrightarrow> snd (settle parts x) = x"
  using settle_changed [of parts x] settle_nothing [of parts x] by simp

end

section \<open>The proxy of a workspace\<close>

definition workspaceUsesGHProxy :: "workspace_spec option \<Rightarrow> bool" where
  "workspaceUsesGHProxy workspace = (case workspace of None \<Rightarrow> False | Some ws \<Rightarrow> ws_ghproxy ws)"

definition workspaceProxyPort :: int where "workspaceProxyPort = 8888"

definition workspaceProxyNamePrefix :: string where "workspaceProxyNamePrefix = ''ghproxy-''"

definition WorkspaceGHProxyName :: "env \<Rightarrow> string \<Rightarrow> string" where
  "WorkspaceGHProxyName E workspaceName =
     (let name = workspaceProxyNamePrefix @ workspaceName
      in if length name \<le> 63 then name
         else (let suffix = l_hash8 E name; maxPrefixLen = 63 - length suffix - 1
               in take maxPrefixLen name @ ''-'' @ suffix))"

definition WorkspaceGHProxyServiceURL :: "env \<Rightarrow> string \<Rightarrow> string \<Rightarrow> string" where
  "WorkspaceGHProxyServiceURL E namespace workspaceName =
     ''http://'' @ WorkspaceGHProxyName E workspaceName @ ''.'' @ namespace @ '':'' @ itoa workspaceProxyPort"

text \<open>The variables with the GitHub credentials of a workspace, for spawners and proxies alike.\<close>

definition github_env :: "string \<Rightarrow> bool \<Rightarrow> env_var list" where
  "github_env secret isGitHubApp =
     (if isGitHubApp
      then [secret_env ''GITHUB_APP_ID'' secret ''appID'',
            secret_env ''GITHUB_APP_INSTALLATION_ID'' secret ''installationID'',
            secret_env ''GITHUB_APP_PRIVATE_KEY'' secret ''privateKey'']
      else [secret_env ''GITHUB_TOKEN'' secret ''GITHUB_TOKEN''])"

section \<open>Resources\<close>

definition resourceListEqual :: "(string \<times> int) list \<Rightarrow> (string \<times> int) list \<Rightarrow> bool" where
  "resourceListEqual a b \<longleftrightarrow>
     length a = length b \<and> list_all (\<lambda>(name, _). map_of a name = map_of b name) a"

definition resourceRequirementsEqual :: "workload_env \<Rightarrow> opaque option \<Rightarrow> opaque option \<Rightarrow> bool" where
  "resourceRequirementsEqual W a b \<longleftrightarrow>
     rs_claims (l_resources W a) = rs_claims (l_resources W b)
     \<and> resourceListEqual (rs_requests (l_resources W a)) (rs_requests (l_resources W b))
     \<and> resourceListEqual (rs_limits (l_resources W a)) (rs_limits (l_resources W b))"

text \<open>\<open>Inr None\<close> is the nil list of an empty text.\<close>

fun parse_resources ::
  "(string \<Rightarrow> go_err + int) \<Rightarrow> (string \<times> int) list \<Rightarrow> string list \<Rightarrow> go_err + (string \<times> int) list" where
  "parse_resources quantity rl [] = Inr rl"
| "parse_resources quantity rl (raw # rest) =
     (let entry = trim_space raw
      in if entry = [] then parse_resources quantity rl rest
         else (let bad = Inl (new_err (''invalid resource entry '' @ quote entry @ '': expected name=value''))
               in case str_cut entry ''='' of
                    None \<Rightarrow> bad
                  | Some (l, r) \<Rightarrow>
                      (let name = trim_space l; value = trim_space r
                       in if name = [] \<or> value = [] then bad
                          else (case quantity value of
                                  Inl e \<Rightarrow> Inl (wrap_err (''invalid quantity for '' @ quote name) e)
                                | Inr qty \<Rightarrow> parse_resources quantity (map_put name qty rl) rest))))"

definition ParseResourceList :: "workload_env \<Rightarrow> string \<Rightarrow> go_err + (string \<times> int) list option" where
  "ParseResourceList W s =
     (let s = trim_space s
      in if s = [] then Inr None
         else (case parse_resources (l_quantity W) [] (split_char (CHR '','') s) of
                 Inl e \<Rightarrow> Inl e
               | Inr rl \<Rightarrow> Inr (Some rl)))"

end
