(* ===== verification/SpawnerController.thy ===== *)
theory SpawnerController
  imports TaskController Workloads
begin

text \<open>
  The controller of task spawners: it keeps a Deployment for a spawner that polls, a CronJob for one
  with a schedule and neither for one that listens for webhooks. Code: \<^verbatim>\<open>taskspawner_controller.go\<close>
  and \<^verbatim>\<open>taskspawner_deployment_builder.go\<close>.
\<close>

section \<open>The pod of a spawner\<close>

definition SpawnerServiceAccount :: string where "SpawnerServiceAccount = ''kelos-spawner''"

definition SpawnerClusterRole :: string where "SpawnerClusterRole = ''kelos-spawner-role''"

definition DefaultSpawnerImage :: string where "DefaultSpawnerImage = ''ghcr.io/kelos-dev/kelos-spawner:latest''"

definition NewDeploymentBuilder :: image_config where
  "NewDeploymentBuilder = \<lparr>ic_image = DefaultSpawnerImage, ic_pull = [], ic_resources = None\<rparr>"

definition githubSourceRepoOverride :: "task_spawner \<Rightarrow> string" where
  "githubSourceRepoOverride ts =
     (case wn_issues (s_when ts) of
        Some i \<Rightarrow> if gi_repo i \<noteq> [] then gi_repo i
                  else (case wn_pulls (s_when ts) of None \<Rightarrow> [] | Some p \<Rightarrow> gp_repo p)
      | None \<Rightarrow> (case wn_pulls (s_when ts) of None \<Rightarrow> [] | Some p \<Rightarrow> gp_repo p))"

definition gitHubReportingNeedsToken :: "github_reporting option \<Rightarrow> bool" where
  "gitHubReportingNeedsToken reporting =
     (case reporting of
        None \<Rightarrow> False
      | Some r \<Rightarrow> gr_enabled r \<or> gr_comments r \<noteq> None \<or> gr_checks r \<noteq> None)"

definition taskSpawnerNeedsGitHubToken :: "task_spawner \<Rightarrow> bool \<Rightarrow> bool" where
  "taskSpawnerNeedsGitHubToken ts ghProxyConfigured =
     (case wn_issues (s_when ts) of
        Some i \<Rightarrow> \<not> ghProxyConfigured \<or> gitHubReportingNeedsToken (gi_reporting i)
      | None \<Rightarrow>
          (case wn_pulls (s_when ts) of
             Some p \<Rightarrow> \<not> ghProxyConfigured \<or> gitHubReportingNeedsToken (gp_reporting p)
           | None \<Rightarrow> False))"

definition validateWorkspaceGHProxyRepoOverride :: "task_spawner \<Rightarrow> workspace_spec option \<Rightarrow> go_err option" where
  "validateWorkspaceGHProxyRepoOverride ts workspace =
     (case workspace of
        None \<Rightarrow> None
      | Some ws \<Rightarrow>
          (let repoOverride = githubSourceRepoOverride ts;
               workspaceHost = repo_host (ws_repo ws); overrideHost = repo_host repoOverride
           in if repoOverride = [] \<or> overrideHost = [] \<or> workspaceHost = [] \<or> overrideHost = workspaceHost then None
              else Some (new_err (''github source repo override host '' @ quote overrideHost
                     @ '' does not match Workspace host '' @ quote workspaceHost))))"

text \<open>Host, owner and repository; an override without a host keeps that of the workspace.\<close>

definition spawner_repo :: "task_spawner \<Rightarrow> workspace_spec \<Rightarrow> string \<times> string \<times> string" where
  "spawner_repo ts ws =
     (let (host, owner, repo) = parseGitHubRepo (ws_repo ws); repoOverride = githubSourceRepoOverride ts
      in if repoOverride = [] then (host, owner, repo)
         else (let (h, ow, r) = parseGitHubRepo repoOverride in (if h \<noteq> [] then h else host, ow, r)))"

definition workspace_args :: "env \<Rightarrow> task_spawner \<Rightarrow> workspace_spec \<Rightarrow> string list" where
  "workspace_args E ts ws =
     (let (host, owner, repo) = spawner_repo ts ws; apiBaseURL = gitHubAPIBaseURL host
      in [''--github-owner='' @ owner, ''--github-repo='' @ repo]
         @ (case tt_workspace (s_template ts) of
              Some ref \<Rightarrow> if ws_ghproxy ws
                          then [''--gh-proxy-url='' @ WorkspaceGHProxyServiceURL E (s_namespace ts) ref] else []
            | None \<Rightarrow> [])
         @ (if apiBaseURL \<noteq> [] then [''--github-api-base-url='' @ apiBaseURL] else []))"

definition workspace_secret_env :: "task_spawner \<Rightarrow> workspace_spec \<Rightarrow> bool \<Rightarrow> env_var list" where
  "workspace_secret_env ts ws isGitHubApp =
     (case ws_secret ws of
        Some secret \<Rightarrow>
          if taskSpawnerNeedsGitHubToken ts (ws_ghproxy ws) then github_env secret isGitHubApp else []
      | None \<Rightarrow> [])"

definition jira_args :: "jira_when \<Rightarrow> string list" where
  "jira_args jira =
     [''--jira-base-url='' @ jw_base_url jira, ''--jira-project='' @ jw_project jira]
     @ (if jw_jql jira \<noteq> [] then [''--jira-jql='' @ jw_jql jira] else [])"

definition jira_env :: "jira_when \<Rightarrow> env_var list" where
  "jira_env jira =
     [\<lparr>ev_name = ''JIRA_USER'', ev_value = [],
       ev_from = Some (no_source\<lparr>es_secret :=
         Some \<lparr>ks_name = jw_secret jira, ks_key = ''JIRA_USER'', ks_optional = Some True\<rparr>\<rparr>)\<rparr>,
      secret_env ''JIRA_TOKEN'' (jw_secret jira) ''JIRA_TOKEN'']"

record spawner_pod_parts =
  spp_args :: "string list"
  spp_env :: "env_var list"
  spp_labels :: strmap

definition buildPodParts :: "env \<Rightarrow> task_spawner \<Rightarrow> workspace_spec option \<Rightarrow> bool \<Rightarrow> spawner_pod_parts" where
  "buildPodParts E ts workspace isGitHubApp =
     \<lparr>spp_args =
        [''--taskspawner-name='' @ s_name ts, ''--taskspawner-namespace='' @ s_namespace ts]
        @ (case workspace of None \<Rightarrow> [] | Some ws \<Rightarrow> workspace_args E ts ws)
        @ (case wn_jira (s_when ts) of None \<Rightarrow> [] | Some jira \<Rightarrow> jira_args jira),
      spp_env =
        (case workspace of None \<Rightarrow> [] | Some ws \<Rightarrow> workspace_secret_env ts ws isGitHubApp)
        @ (case wn_jira (s_when ts) of None \<Rightarrow> [] | Some jira \<Rightarrow> jira_env jira),
      spp_labels =
        [(''kelos.dev/name'', ''kelos''), (''kelos.dev/component'', ''spawner''),
         (''kelos.dev/managed-by'', ''kelos-controller''), (''kelos.dev/taskspawner'', s_name ts)]\<rparr>"

definition spawner_container :: "workload_env \<Rightarrow> string list \<Rightarrow> env_var list \<Rightarrow> container" where
  "spawner_container W args env =
     blank_container\<lparr>ct_name := ''spawner'', ct_image := ic_image (cfg_spawner W), ct_pull := ic_pull (cfg_spawner W),
       ct_args := args, ct_env := env, ct_resources := ic_resources (cfg_spawner W)\<rparr>"

definition spawner_deployment ::
  "env \<Rightarrow> workload_env \<Rightarrow> task_spawner \<Rightarrow> workspace_spec option \<Rightarrow> bool \<Rightarrow> deployment" where
  "spawner_deployment E W ts workspace isGitHubApp =
     (let p = buildPodParts E ts workspace isGitHubApp
      in \<lparr>dp_meta = blank_meta\<lparr>m_name := s_name ts, m_namespace := s_namespace ts, m_labels := spp_labels p\<rparr>,
          dp_replicas = Some 1, dp_selector = spp_labels p,
          dp_template = \<lparr>tpl_labels = spp_labels p, tpl_annotations = [],
            tpl_spec = blank_pod_spec\<lparr>pd_service_account := SpawnerServiceAccount, pd_restart := ''Always'',
              pd_containers := [(spawner_container W (spp_args p) (spp_env p))\<lparr>ct_ports :=
                [\<lparr>cp_name = ''metrics'', cp_port = 8080, cp_protocol = ''TCP''\<rparr>]\<rparr>]\<rparr>\<rparr>,
          dp_rest = nothing\<rparr>)"

definition BuildCronJob ::
  "env \<Rightarrow> workload_env \<Rightarrow> task_spawner \<Rightarrow> workspace_spec option \<Rightarrow> bool \<Rightarrow> cron_job" where
  "BuildCronJob E W ts workspace isGitHubApp =
     (let p = buildPodParts E ts workspace isGitHubApp
      in \<lparr>cj_meta = blank_meta\<lparr>m_name := s_name ts, m_namespace := s_namespace ts, m_labels := spp_labels p\<rparr>,
          cj_spec =
            \<lparr>cjs_schedule = (case wn_cron (s_when ts) of None \<Rightarrow> [] | Some schedule \<Rightarrow> schedule),
             cjs_policy = ''Forbid'', cjs_suspend = None, cjs_successful = Some 3, cjs_failed = Some 1,
             cjs_labels = spp_labels p,
             cjs_job = blank_job_spec\<lparr>js_backoff := Some 0,
               js_template := \<lparr>tpl_labels = spp_labels p, tpl_annotations = [],
                 tpl_spec = blank_pod_spec\<lparr>pd_service_account := SpawnerServiceAccount, pd_restart := ''Never'',
                   pd_containers := [spawner_container W (spp_args p @ [''--one-shot'']) (spp_env p)]\<rparr>\<rparr>\<rparr>,
             cjs_rest = nothing\<rparr>\<rparr>)"

section \<open>Access of the spawner\<close>

definition spawner_binding :: "string \<Rightarrow> role_binding" where
  "spawner_binding ns =
     \<lparr>rb_meta = blank_meta\<lparr>m_name := SpawnerServiceAccount, m_namespace := ns\<rparr>,
      rb_group = ''rbac.authorization.k8s.io'', rb_kind = ''ClusterRole'', rb_name = SpawnerClusterRole,
      rb_subjects = [\<lparr>rsu_kind = ''ServiceAccount'', rsu_name = SpawnerServiceAccount, rsu_namespace = ns\<rparr>]\<rparr>"

definition look_up :: "'a answer \<Rightarrow> string \<Rightarrow> string \<Rightarrow> string \<Rightarrow> (go_err + unit) io" where
  "look_up q kind ns name = do {
     r \<leftarrow> read_obj q kind ns name;
     ret (case r of Inl e \<Rightarrow> Inl e | Inr x \<Rightarrow> Inr ())
   }"

definition ensureSpawnerRBAC :: "env \<Rightarrow> workload_env \<Rightarrow> string \<Rightarrow> go_err option io" where
  "ensureSpawnerRBAC E W ns = do {
     a \<leftarrow> ensure_exists E (look_up (o_account W) ''ServiceAccount'' ns SpawnerServiceAccount)
            (CreateAccount (blank_meta\<lparr>m_name := SpawnerServiceAccount, m_namespace := ns\<rparr>));
     (case a of
        Some e \<Rightarrow> ret (Some e)
      | None \<Rightarrow> ensure_exists E (look_up (o_binding W) ''RoleBinding'' ns SpawnerServiceAccount)
            (CreateBinding (spawner_binding ns)))
   }"

section \<open>The workspace of a spawner\<close>

text \<open>\<open>Inl\<close> is an early return.\<close>

definition resolveTaskSpawnerWorkspaceRef :: "env \<Rightarrow> task_spawner \<Rightarrow> (outcome + string option) io" where
  "resolveTaskSpawnerWorkspaceRef E ts =
     (let template = s_template ts; own = (case tt_worker template of None \<Rightarrow> None | Some w \<Rightarrow> wk_workspace w)
      in if tt_workspace template \<noteq> None then ret (Inr (tt_workspace template))
         else if own \<noteq> None then ret (Inr own)
         else (case tt_pool template of
                 None \<Rightarrow> ret (Inr None)
               | Some pool \<Rightarrow> do {
                   r \<leftarrow> read_obj (q_pool E) ''WorkerPool'' (s_namespace ts) pool;
                   (case r of
                      Inr p \<Rightarrow> ret (Inr (wk_workspace (wp_worker p)))
                    | Inl e \<Rightarrow>
                        if is_not_found e then do {
                          recordEvent ''Normal'' ''WorkerPoolNotFound''
                            (''WorkerPool '' @ pool @ '' not found, requeuing'');
                          ret (Inl (after (seconds 2), None))
                        }
                        else ret (Inl (no_requeue, Some e)))
                 }))"

definition resolveTaskSpawnerWorkspace ::
  "env \<Rightarrow> task_spawner \<Rightarrow> (outcome + (workspace_spec option \<times> string option \<times> bool)) io" where
  "resolveTaskSpawnerWorkspace E ts = do {
     r \<leftarrow> resolveTaskSpawnerWorkspaceRef E ts;
     (case r of
        Inl out \<Rightarrow> ret (Inl out)
      | Inr None \<Rightarrow> ret (Inr (None, None, False))
      | Inr (Some ref) \<Rightarrow> do {
          w \<leftarrow> read_obj (q_workspace E) ''Workspace'' (s_namespace ts) ref;
          (case w of
             Inl e \<Rightarrow>
               if is_not_found e then do {
                 recordEvent ''Normal'' ''WorkspaceNotFound'' (''Workspace '' @ ref @ '' not found, requeuing'');
                 ret (Inl (after (seconds 2), None))
               }
               else ret (Inl (no_requeue, Some e))
           | Inr ws \<Rightarrow>
               (case ws_secret ws of
                  None \<Rightarrow> ret (Inr (Some ws, Some ref, False))
                | Some secret \<Rightarrow> do {
                    s \<leftarrow> read_obj (q_secret E) ''Secret'' (s_namespace ts) secret;
                    (case s of
                       Inr sec \<Rightarrow> ret (Inr (Some ws, Some ref, IsGitHubApp (sec_data sec)))
                     | Inl e \<Rightarrow>
                         if is_not_found e then do {
                           recordEvent ''Normal'' ''WorkspaceSecretNotFound''
                             (''Workspace secret '' @ secret @ '' not found, requeuing'');
                           ret (Inl (after (seconds 2), None))
                         }
                         else ret (Inl (no_requeue, Some e)))
                  }))
        })
   }"

definition taskSpawnerWithEffectiveWorkspaceRef :: "task_spawner \<Rightarrow> string option \<Rightarrow> task_spawner" where
  "taskSpawnerWithEffectiveWorkspaceRef ts workspaceRef =
     (if workspaceRef = None \<or> tt_workspace (s_template ts) \<noteq> None then ts
      else ts\<lparr>s_template := (s_template ts)\<lparr>tt_workspace := workspaceRef\<rparr>\<rparr>)"

section \<open>Status\<close>

text \<open>\<^verbatim>\<open>retry.RetryOnConflict\<close> around reading the spawner again and updating its status.\<close>

definition modify_spawner_status ::
  "env \<Rightarrow> workload_env \<Rightarrow> task_spawner \<Rightarrow> (spawner_status \<Rightarrow> spawner_status) \<Rightarrow> go_err option io" where
  "modify_spawner_status E W ts f = do {
     r \<leftarrow> read_obj (o_spawner W) ''TaskSpawner'' (s_namespace ts) (s_name ts);
     (case r of
        Inl e \<Rightarrow> ret (Some e)
      | Inr fresh \<Rightarrow> write_call E (UpdateSpawnerStatus (fresh\<lparr>s_status := f (s_status fresh)\<rparr>)))
   }"

definition suspended :: "task_spawner \<Rightarrow> bool" where
  "suspended ts \<longleftrightarrow> s_suspend ts = Some True"

definition countActiveTasks :: "workload_env \<Rightarrow> string \<Rightarrow> string \<Rightarrow> (go_err + int) io" where
  "countActiveTasks W ns name = do {
     r \<leftarrow> read_obj (o_spawner_tasks W) ''TaskList'' ns name;
     ret (case r of
            Inl e \<Rightarrow> Inl (wrap_err (''listing tasks for TaskSpawner '' @ name) e)
          | Inr tasks \<Rightarrow>
              Inr (int (length (filter (\<lambda>t. t_phase t \<noteq> PhaseSucceeded \<and> t_phase t \<noteq> PhaseFailed) tasks))))
   }"

section \<open>Resources of an earlier kind\<close>

definition owned_by_spawner :: "object_meta \<Rightarrow> bool" where
  "owned_by_spawner meta =
     list_ex (\<lambda>ref. or_api_version ref \<in> {''kelos.dev/v1alpha1'', ''kelos.dev/v1alpha2''}
                    \<and> or_kind ref = ''TaskSpawner'' \<and> or_controller ref = Some True) (m_owners meta)"

definition deleteStaleResource ::
  "env \<Rightarrow> ('a \<Rightarrow> object_meta) \<Rightarrow> 'a answer \<Rightarrow> string \<Rightarrow> (string \<Rightarrow> string \<Rightarrow> call) \<Rightarrow> string \<Rightarrow> string \<Rightarrow> go_err option io" where
  "deleteStaleResource E meta q kind del ns name = do {
     r \<leftarrow> read_obj q kind ns name;
     (case r of
        Inl e \<Rightarrow> ret (if is_not_found e then None else Some e)
      | Inr obj \<Rightarrow>
          if \<not> owned_by_spawner (meta obj) then ret None
          else delete_existing E (del (m_namespace (meta obj)) (m_name (meta obj))))
   }"

abbreviation delete_stale_deployment :: "env \<Rightarrow> workload_env \<Rightarrow> string \<Rightarrow> string \<Rightarrow> go_err option io" where
  "delete_stale_deployment E W \<equiv> deleteStaleResource E dp_meta (o_deployment W) ''Deployment'' DeleteDeployment"

abbreviation delete_stale_cron_job :: "env \<Rightarrow> workload_env \<Rightarrow> string \<Rightarrow> string \<Rightarrow> go_err option io" where
  "delete_stale_cron_job E W \<equiv> deleteStaleResource E cj_meta (o_cron_job W) ''CronJob'' DeleteCronJob"

section \<open>The Deployment\<close>

definition equal_env_var :: "env_var \<Rightarrow> env_var \<Rightarrow> bool" where
  "equal_env_var a b \<longleftrightarrow>
     ev_name a = ev_name b \<and> ev_value a = ev_value b
     \<and> (case (ev_from a, ev_from b) of
          (None, None) \<Rightarrow> True
        | (Some x, Some y) \<Rightarrow>
            (case (es_secret x, es_secret y) of
               (None, None) \<Rightarrow> True
             | (Some k, Some l) \<Rightarrow> ks_name k = ks_name l \<and> ks_key k = ks_key l
             | _ \<Rightarrow> False)
        | _ \<Rightarrow> False)"

definition equalEnvVars :: "env_var list \<Rightarrow> env_var list \<Rightarrow> bool" where
  "equalEnvVars = list_all2 equal_env_var"

text \<open>The first container, as far as the controller looks at it.\<close>

definition same_container :: "workload_env \<Rightarrow> container \<Rightarrow> container \<Rightarrow> bool" where
  "same_container W current target \<longleftrightarrow>
     ct_image current = ct_image target \<and> ct_args current = ct_args target
     \<and> equalEnvVars (ct_env current) (ct_env target) \<and> ct_mounts current = ct_mounts target
     \<and> ct_ports current = ct_ports target
     \<and> resourceRequirementsEqual W (ct_resources current) (ct_resources target)"

definition update_container :: "container \<Rightarrow> container \<Rightarrow> container" where
  "update_container current target =
     current\<lparr>ct_image := ct_image target, ct_args := ct_args target, ct_env := ct_env target,
             ct_mounts := ct_mounts target, ct_ports := ct_ports target, ct_resources := ct_resources target\<rparr>"

definition set_pod :: "(pod_spec \<Rightarrow> pod_spec) \<Rightarrow> deployment \<Rightarrow> deployment" where
  "set_pod f d = d\<lparr>dp_template := (dp_template d)\<lparr>tpl_spec := f (tpl_spec (dp_template d))\<rparr>\<rparr>"

text \<open>The Deployment brought to what is desired, and whether that changes anything.\<close>

abbreviation dp_pod :: "deployment \<Rightarrow> pod_spec" where "dp_pod d \<equiv> tpl_spec (dp_template d)"

definition main_settled :: "workload_env \<Rightarrow> container \<Rightarrow> deployment \<Rightarrow> bool" where
  "main_settled W target d =
     (case pd_containers (dp_pod d) of [] \<Rightarrow> True | c # _ \<Rightarrow> same_container W c target)"

definition put_main :: "container \<Rightarrow> deployment \<Rightarrow> deployment" where
  "put_main target = set_pod (\<lambda>pod. pod\<lparr>pd_containers :=
     (case pd_containers pod of [] \<Rightarrow> [] | c # cs \<Rightarrow> update_container c target # cs)\<rparr>)"

definition drift_parts :: "workload_env \<Rightarrow> deployment \<Rightarrow> int \<Rightarrow> deployment part list" where
  "drift_parts W desired replicas =
     [(main_settled W (hd (pd_containers (dp_pod desired))), put_main (hd (pd_containers (dp_pod desired)))),
      (\<lambda>d. pd_init (dp_pod d) = pd_init (dp_pod desired),
       set_pod (\<lambda>pod. pod\<lparr>pd_init := pd_init (dp_pod desired)\<rparr>)),
      (\<lambda>d. pd_volumes (dp_pod d) = pd_volumes (dp_pod desired),
       set_pod (\<lambda>pod. pod\<lparr>pd_volumes := pd_volumes (dp_pod desired)\<rparr>)),
      (\<lambda>d. dp_replicas d = Some replicas, \<lambda>d. d\<lparr>dp_replicas := Some replicas\<rparr>)]"

definition drift :: "workload_env \<Rightarrow> deployment \<Rightarrow> deployment \<Rightarrow> int \<Rightarrow> bool \<times> deployment" where
  "drift W deploy desired replicas = settle (drift_parts W desired replicas) deploy"

definition updateDeployment ::
  "env \<Rightarrow> workload_env \<Rightarrow> task_spawner \<Rightarrow> deployment \<Rightarrow> workspace_spec option \<Rightarrow> bool \<Rightarrow> int \<Rightarrow> go_err option io" where
  "updateDeployment E W ts deploy workspace isGitHubApp desiredReplicas =
     (let (needsUpdate, d) = drift W deploy (spawner_deployment E W ts workspace isGitHubApp) desiredReplicas
      in if \<not> needsUpdate then ret None
         else do {
           x \<leftarrow> write_call E (UpdateDeployment d);
           (case x of
              Some e \<Rightarrow> ret (Some e)
            | None \<Rightarrow> do {
                recordEvent ''Normal'' ''DeploymentUpdated''
                  (''Updated spawner Deployment '' @ m_name (dp_meta d));
                ret None
              })
         })"

definition created_status :: "string \<Rightarrow> int \<Rightarrow> spawner_status \<Rightarrow> spawner_status" where
  "created_status name replicas s =
     (if replicas = 0 then s\<lparr>sst_phase := SpawnerSuspended, sst_message := ''Suspended by user''\<rparr>
      else s\<lparr>sst_phase := SpawnerPending\<rparr>)\<lparr>sst_deployment := name, sst_cron_job := []\<rparr>"

definition createDeployment ::
  "env \<Rightarrow> workload_env \<Rightarrow> task_spawner \<Rightarrow> workspace_spec option \<Rightarrow> bool \<Rightarrow> int \<Rightarrow> outcome io" where
  "createDeployment E W ts workspace isGitHubApp replicas =
     (let deploy = (spawner_deployment E W ts workspace isGitHubApp)\<lparr>dp_replicas := Some replicas\<rparr>;
          name = m_name (dp_meta deploy)
      in case l_set_controller E (s_meta ts) (dp_meta deploy) of
           Inl e \<Rightarrow> ret (no_requeue, Some e)
         | Inr meta \<Rightarrow> do {
             c \<leftarrow> write_call E (CreateDeployment (deploy\<lparr>dp_meta := meta\<rparr>));
             (case c of
                Some e \<Rightarrow> ret (if is_already_exists e then (requeue_now, None) else (no_requeue, Some e))
              | None \<Rightarrow> do {
                  recordEvent ''Normal'' ''DeploymentCreated'' (''Created spawner Deployment '' @ name);
                  x \<leftarrow> modify_spawner_status E W ts (created_status name replicas);
                  ret (case x of Some e \<Rightarrow> (no_requeue, Some e) | None \<Rightarrow> (requeue_now, None))
                })
           })"

text \<open>The old labels of a selector, which cannot be changed: such a Deployment is created anew.\<close>

definition stale_selector :: "deployment \<Rightarrow> bool" where
  "stale_selector d \<longleftrightarrow> map_of (dp_selector d) ''app.kubernetes.io/component'' \<noteq> None"

text \<open>\<open>Inr\<close> is the Deployment that is kept, if it is; \<open>Inl\<close> is an early return.\<close>

definition migrate_deployment :: "env \<Rightarrow> deployment \<Rightarrow> (outcome + deployment option) io" where
  "migrate_deployment E d =
     (if stale_selector d then do {
        x \<leftarrow> delete_existing E (DeleteDeployment (m_namespace (dp_meta d)) (m_name (dp_meta d)));
        (case x of
           Some e \<Rightarrow> ret (Inl (no_requeue, Some e))
         | None \<Rightarrow> do {
             recordEvent ''Normal'' ''DeploymentMigrated'' (''Deleted Deployment '' @ m_name (dp_meta d)
               @ '' with old app.kubernetes.io/* labels; it will be recreated with kelos.dev/* labels'');
             ret (Inr None)
           })
      }
      else ret (Inr (Some d)))"

text \<open>A spawner whose source is on another host than the proxy of its workspace.\<close>

definition failed_status :: "string \<Rightarrow> spawner_status \<Rightarrow> spawner_status" where
  "failed_status message s =
     s\<lparr>sst_phase := SpawnerFailed, sst_message := message, sst_deployment := [], sst_cron_job := []\<rparr>"

definition reject_override ::
  "env \<Rightarrow> workload_env \<Rightarrow> task_spawner \<Rightarrow> call option \<Rightarrow> go_err \<Rightarrow> outcome io" where
  "reject_override E W ts existing err = do {
     d \<leftarrow> (case existing of None \<Rightarrow> ret None | Some del \<Rightarrow> delete_existing E del);
     (case d of
        Some e \<Rightarrow> ret (no_requeue, Some e)
      | None \<Rightarrow> do {
          recordEvent ''Warning'' ''InvalidGitHubRepoOverride'' (err_text err);
          x \<leftarrow> modify_spawner_status E W ts (failed_status (err_text err));
          ret (no_requeue, x)
        })
   }"

definition desired_phase :: "bool \<Rightarrow> spawner_phase \<Rightarrow> spawner_phase" where
  "desired_phase isSuspended phase =
     (if isSuspended then SpawnerSuspended
      else if phase = SpawnerSuspended then SpawnerRunning else phase)"

definition deployed_status :: "bool \<Rightarrow> string \<Rightarrow> spawner_status \<Rightarrow> spawner_status" where
  "deployed_status isSuspended name s0 =
     (let s = s0\<lparr>sst_deployment := name, sst_cron_job := []\<rparr>
      in if isSuspended then s\<lparr>sst_phase := SpawnerSuspended, sst_message := ''Suspended by user''\<rparr>
         else if sst_phase s = SpawnerSuspended then s\<lparr>sst_phase := SpawnerRunning, sst_message := ''Resumed''\<rparr>
         else if sst_phase s = SpawnerUnset then s\<lparr>sst_phase := SpawnerPending\<rparr> else s)"

definition keep_deployment ::
  "env \<Rightarrow> workload_env \<Rightarrow> task_spawner \<Rightarrow> task_spawner \<Rightarrow> deployment \<Rightarrow> workspace_spec option \<Rightarrow> bool \<Rightarrow> int \<Rightarrow> outcome io" where
  "keep_deployment E W ts buildTS deploy workspace isGitHubApp desiredReplicas = do {
     u \<leftarrow> updateDeployment E W buildTS deploy workspace isGitHubApp desiredReplicas;
     (case u of
        Some e \<Rightarrow> ret (no_requeue, Some e)
      | None \<Rightarrow>
          (let name = m_name (dp_meta deploy); st = s_status ts
           in if sst_deployment st \<noteq> name \<or> sst_cron_job st \<noteq> []
                 \<or> sst_phase st \<noteq> desired_phase (suspended ts) (sst_phase st)
              then do {
                x \<leftarrow> modify_spawner_status E W ts (deployed_status (suspended ts) name);
                ret (no_requeue, x)
              }
              else ret (no_requeue, None)))
   }"

definition place_deployment ::
  "env \<Rightarrow> workload_env \<Rightarrow> task_spawner \<Rightarrow> deployment option \<Rightarrow> outcome io" where
  "place_deployment E W ts deploy = do {
     r \<leftarrow> resolveTaskSpawnerWorkspace E ts;
     (case r of
        Inl out \<Rightarrow> ret out
      | Inr (workspace, workspaceRef, isGitHubApp) \<Rightarrow>
          (let buildTS = taskSpawnerWithEffectiveWorkspaceRef ts workspaceRef;
               desiredReplicas = (if suspended ts then 0 else 1);
               invalid = (if workspaceUsesGHProxy workspace then validateWorkspaceGHProxyRepoOverride ts workspace else None)
           in case invalid of
                Some e \<Rightarrow>
                  reject_override E W ts
                    (map_option (\<lambda>d. DeleteDeployment (m_namespace (dp_meta d)) (m_name (dp_meta d))) deploy) e
              | None \<Rightarrow>
                  (case deploy of
                     None \<Rightarrow> createDeployment E W buildTS workspace isGitHubApp desiredReplicas
                   | Some d \<Rightarrow> keep_deployment E W ts buildTS d workspace isGitHubApp desiredReplicas)))
   }"

definition spawner_reconcileDeployment :: "env \<Rightarrow> workload_env \<Rightarrow> task_spawner \<Rightarrow> outcome io" where
  "spawner_reconcileDeployment E W ts = do {
     s \<leftarrow> delete_stale_cron_job E W (s_namespace ts) (s_name ts);
     (case s of
        Some e \<Rightarrow> ret (no_requeue, Some e)
      | None \<Rightarrow> do {
          g \<leftarrow> read_obj (o_deployment W) ''Deployment'' (s_namespace ts) (s_name ts);
          (case g of
             Inl e \<Rightarrow> if is_not_found e then place_deployment E W ts None else ret (no_requeue, Some e)
           | Inr d \<Rightarrow> do {
               m \<leftarrow> migrate_deployment E d;
               (case m of Inl out \<Rightarrow> ret out | Inr deploy \<Rightarrow> place_deployment E W ts deploy)
             })
        })
   }"

section \<open>The CronJob\<close>

definition isDryRunUnsupported :: "go_err \<Rightarrow> bool" where
  "isDryRunUnsupported e \<longleftrightarrow> is_bad_request e \<and> str_contains (err_text e) ''does not support dry run''"

definition write_cron_job :: "env \<Rightarrow> cron_job \<Rightarrow> string \<Rightarrow> go_err option io" where
  "write_cron_job E candidate name = do {
     x \<leftarrow> write_call E (UpdateCronJob candidate);
     (case x of
        Some e \<Rightarrow> ret (Some (wrap_err (''updating CronJob '' @ quote name) e))
      | None \<Rightarrow> do {
          recordEvent ''Normal'' ''CronJobUpdated'' (''Updated spawner CronJob '' @ m_name (cj_meta candidate));
          ret None
        })
   }"

definition updateCronJob ::
  "env \<Rightarrow> workload_env \<Rightarrow> task_spawner \<Rightarrow> cron_job \<Rightarrow> workspace_spec option \<Rightarrow> bool \<Rightarrow> bool \<Rightarrow> go_err option io" where
  "updateCronJob E W ts cronJob workspace isGitHubApp isSuspended =
     (let desired = (cj_spec (BuildCronJob E W ts workspace isGitHubApp))\<lparr>cjs_suspend := Some isSuspended\<rparr>;
          candidate = cronJob\<lparr>cj_spec := desired\<rparr>; name = m_name (cj_meta cronJob)
      in do {
        d \<leftarrow> dry_run W candidate;
        (case d of
           Inl e \<Rightarrow>
             if \<not> isDryRunUnsupported e then ret (Some (wrap_err (''dry-run updating CronJob '' @ quote name) e))
             else if l_cron_derivative W desired (cj_spec cronJob) then ret None
             else write_cron_job E candidate name
         | Inr normalized \<Rightarrow>
             if l_cron_equal W (cj_spec cronJob) (cj_spec normalized) then ret None
             else write_cron_job E normalized name)
      })"

definition scheduled_status :: "bool \<Rightarrow> bool \<Rightarrow> string \<Rightarrow> spawner_status \<Rightarrow> spawner_status" where
  "scheduled_status fresh isSuspended name s =
     (if isSuspended then s\<lparr>sst_phase := SpawnerSuspended, sst_message := ''Suspended by user''\<rparr>
      else if fresh then s\<lparr>sst_phase := SpawnerRunning\<rparr>
      else s\<lparr>sst_phase := SpawnerRunning, sst_message := []\<rparr>)\<lparr>sst_cron_job := name, sst_deployment := []\<rparr>"

definition createCronJob ::
  "env \<Rightarrow> workload_env \<Rightarrow> task_spawner \<Rightarrow> workspace_spec option \<Rightarrow> bool \<Rightarrow> bool \<Rightarrow> outcome io" where
  "createCronJob E W ts workspace isGitHubApp isSuspended =
     (let built = BuildCronJob E W ts workspace isGitHubApp;
          cronJob = built\<lparr>cj_spec := (cj_spec built)\<lparr>cjs_suspend := Some isSuspended\<rparr>\<rparr>; name = m_name (cj_meta built)
      in case l_set_controller E (s_meta ts) (cj_meta cronJob) of
           Inl e \<Rightarrow> ret (no_requeue, Some e)
         | Inr meta \<Rightarrow> do {
             c \<leftarrow> write_call E (CreateCronJob (cronJob\<lparr>cj_meta := meta\<rparr>));
             (case c of
                Some e \<Rightarrow> ret (if is_already_exists e then (requeue_now, None) else (no_requeue, Some e))
              | None \<Rightarrow> do {
                  recordEvent ''Normal'' ''CronJobCreated'' (''Created spawner CronJob '' @ name
                    @ '' with schedule '' @ cjs_schedule (cj_spec cronJob));
                  x \<leftarrow> modify_spawner_status E W ts (scheduled_status True isSuspended name);
                  ret (case x of Some e \<Rightarrow> (no_requeue, Some e) | None \<Rightarrow> (requeue_now, None))
                })
           })"

definition keep_cron_job ::
  "env \<Rightarrow> workload_env \<Rightarrow> task_spawner \<Rightarrow> task_spawner \<Rightarrow> cron_job \<Rightarrow> workspace_spec option \<Rightarrow> bool \<Rightarrow> outcome io" where
  "keep_cron_job E W ts buildTS cronJob workspace isGitHubApp = do {
     u \<leftarrow> updateCronJob E W buildTS cronJob workspace isGitHubApp (suspended ts);
     (case u of
        Some e \<Rightarrow> ret (no_requeue, Some e)
      | None \<Rightarrow>
          (let name = m_name (cj_meta cronJob); st = s_status ts;
               phase = (if suspended ts then SpawnerSuspended else SpawnerRunning)
           in if sst_cron_job st \<noteq> name \<or> sst_deployment st \<noteq> [] \<or> sst_phase st \<noteq> phase
              then do {
                x \<leftarrow> modify_spawner_status E W ts (scheduled_status False (suspended ts) name);
                ret (no_requeue, x)
              }
              else ret (no_requeue, None)))
   }"

definition place_cron_job :: "env \<Rightarrow> workload_env \<Rightarrow> task_spawner \<Rightarrow> cron_job option \<Rightarrow> outcome io" where
  "place_cron_job E W ts cronJob = do {
     r \<leftarrow> resolveTaskSpawnerWorkspace E ts;
     (case r of
        Inl out \<Rightarrow> ret out
      | Inr (workspace, workspaceRef, isGitHubApp) \<Rightarrow>
          (let buildTS = taskSpawnerWithEffectiveWorkspaceRef ts workspaceRef;
               invalid = (if workspaceUsesGHProxy workspace then validateWorkspaceGHProxyRepoOverride ts workspace else None)
           in case invalid of
                Some e \<Rightarrow>
                  reject_override E W ts
                    (map_option (\<lambda>c. DeleteCronJob (m_namespace (cj_meta c)) (m_name (cj_meta c))) cronJob) e
              | None \<Rightarrow>
                  (case cronJob of
                     None \<Rightarrow> createCronJob E W buildTS workspace isGitHubApp (suspended ts)
                   | Some c \<Rightarrow> keep_cron_job E W ts buildTS c workspace isGitHubApp)))
   }"

definition reconcileCronJob :: "env \<Rightarrow> workload_env \<Rightarrow> task_spawner \<Rightarrow> outcome io" where
  "reconcileCronJob E W ts = do {
     s \<leftarrow> delete_stale_deployment E W (s_namespace ts) (s_name ts);
     (case s of
        Some e \<Rightarrow> ret (no_requeue, Some e)
      | None \<Rightarrow> do {
          g \<leftarrow> read_obj (o_cron_job W) ''CronJob'' (s_namespace ts) (s_name ts);
          (case g of
             Inr c \<Rightarrow> place_cron_job E W ts (Some c)
           | Inl e \<Rightarrow> if is_not_found e then place_cron_job E W ts None else ret (no_requeue, Some e))
        })
   }"

section \<open>Webhooks\<close>

definition listening_status :: "bool \<Rightarrow> int \<Rightarrow> spawner_status \<Rightarrow> spawner_status" where
  "listening_status isSuspended activeTasks s =
     s\<lparr>sst_deployment := [], sst_cron_job := [],
       sst_phase := (if isSuspended then SpawnerSuspended else SpawnerRunning),
       sst_message := (if isSuspended then ''Suspended by user'' else ''Webhook-driven TaskSpawner ready''),
       sst_active := activeTasks\<rparr>"

definition reconcileWebhook :: "env \<Rightarrow> workload_env \<Rightarrow> task_spawner \<Rightarrow> outcome io" where
  "reconcileWebhook E W ts = do {
     d \<leftarrow> delete_stale_deployment E W (s_namespace ts) (s_name ts);
     (case d of
        Some e \<Rightarrow> ret (no_requeue, Some e)
      | None \<Rightarrow> do {
          c \<leftarrow> delete_stale_cron_job E W (s_namespace ts) (s_name ts);
          (case c of
             Some e \<Rightarrow> ret (no_requeue, Some e)
           | None \<Rightarrow> do {
               n \<leftarrow> countActiveTasks W (s_namespace ts) (s_name ts);
               (case n of
                  Inl e \<Rightarrow> ret (no_requeue, Some e)
                | Inr activeTasks \<Rightarrow>
                    (let st = s_status ts
                     in if sst_deployment st \<noteq> [] \<or> sst_cron_job st \<noteq> []
                           \<or> sst_phase st \<noteq> (if suspended ts then SpawnerSuspended else SpawnerRunning)
                           \<or> sst_active st \<noteq> activeTasks
                        then do {
                          x \<leftarrow> modify_spawner_status E W ts (listening_status (suspended ts) activeTasks);
                          ret (no_requeue, x)
                        }
                        else ret (no_requeue, None)))
             })
        })
   }"

section \<open>Reconcile\<close>

definition taskSpawnerFinalizer :: string where
  "taskSpawnerFinalizer = ''kelos.dev/taskspawner-finalizer''"

definition isCronBased :: "task_spawner \<Rightarrow> bool" where
  "isCronBased ts \<longleftrightarrow> wn_cron (s_when ts) \<noteq> None"

definition isWebhookBased :: "task_spawner \<Rightarrow> bool" where
  "isWebhookBased ts \<longleftrightarrow>
     wn_github (s_when ts) \<noteq> None \<or> wn_linear (s_when ts) \<noteq> None \<or> wn_generic (s_when ts) \<noteq> None
     \<or> wn_slack (s_when ts) \<noteq> None"

definition spawner_finalizers :: "(string list \<Rightarrow> string list) \<Rightarrow> task_spawner \<Rightarrow> task_spawner" where
  "spawner_finalizers f ts = ts\<lparr>s_meta := (s_meta ts)\<lparr>m_finalizers := f (m_finalizers (s_meta ts))\<rparr>\<rparr>"

definition spawner_handleDeletion :: "env \<Rightarrow> task_spawner \<Rightarrow> outcome io" where
  "spawner_handleDeletion E ts =
     (if taskSpawnerFinalizer \<in> set (m_finalizers (s_meta ts)) then do {
        e \<leftarrow> write_call E (UpdateSpawner (spawner_finalizers (removeAll taskSpawnerFinalizer) ts));
        ret (no_requeue, e)
      }
      else ret (no_requeue, None))"

definition serve_workload :: "env \<Rightarrow> workload_env \<Rightarrow> task_spawner \<Rightarrow> outcome io" where
  "serve_workload E W ts = do {
     a \<leftarrow> ensureSpawnerRBAC E W (s_namespace ts);
     (case a of
        Some e \<Rightarrow> ret (no_requeue, Some e)
      | None \<Rightarrow>
          if isCronBased ts then reconcileCronJob E W ts
          else if isWebhookBased ts then reconcileWebhook E W ts
          else spawner_reconcileDeployment E W ts)
   }"

definition spawner_controller :: "env \<Rightarrow> workload_env \<Rightarrow> string \<Rightarrow> string \<Rightarrow> outcome io" where
  "spawner_controller E W ns name = do {
     r \<leftarrow> read_obj (o_spawner W) ''TaskSpawner'' ns name;
     (case r of
        Inl e \<Rightarrow>
          if is_not_found e then ret (no_requeue, None)
          else do { log_call (CountReconcileError ''taskspawner''); ret (no_requeue, Some e) }
      | Inr ts \<Rightarrow>
          if m_deletion (s_meta ts) \<noteq> None then spawner_handleDeletion E ts
          else if taskSpawnerFinalizer \<notin> set (m_finalizers (s_meta ts)) then do {
            x \<leftarrow> write_call E (UpdateSpawner (spawner_finalizers (\<lambda>fs. fs @ [taskSpawnerFinalizer]) ts));
            ret (case x of Some e \<Rightarrow> (no_requeue, Some e) | None \<Rightarrow> (requeue_now, None))
          }
          else serve_workload E W ts)
   }"

section \<open>Whom to reconcile next\<close>

definition spawner_request :: "task_spawner \<Rightarrow> request" where
  "spawner_request ts = (s_namespace ts, s_name ts)"

definition taskSpawnerEffectiveWorkspaceName :: "task_spawner \<Rightarrow> strmap \<Rightarrow> string" where
  "taskSpawnerEffectiveWorkspaceName ts poolWorkspaceNames =
     (let template = s_template ts; own = (case tt_worker template of None \<Rightarrow> None | Some w \<Rightarrow> wk_workspace w)
      in case tt_workspace template of
           Some ref \<Rightarrow> ref
         | None \<Rightarrow>
             (case own of
                Some ref \<Rightarrow> ref
              | None \<Rightarrow> (case tt_pool template of None \<Rightarrow> [] | Some pool \<Rightarrow> map_str poolWorkspaceNames pool)))"

definition workerPoolWorkspaceNames :: "env \<Rightarrow> string \<Rightarrow> strmap io" where
  "workerPoolWorkspaceNames E ns = do {
     r \<leftarrow> read_obj (q_pools E) ''WorkerPoolList'' ns [];
     ret (case r of
            Inl e \<Rightarrow> []
          | Inr pools \<Rightarrow>
              foldl (\<lambda>names pool. case wk_workspace (wp_worker pool) of
                       None \<Rightarrow> names | Some ref \<Rightarrow> map_put (wp_name pool) ref names) [] pools)
   }"

text \<open>The spawners whose effective workspace satisfies a condition.\<close>

definition spawners_on :: "env \<Rightarrow> workload_env \<Rightarrow> string \<Rightarrow> (string \<Rightarrow> bool) \<Rightarrow> request list io" where
  "spawners_on E W ns P = do {
     r \<leftarrow> read_obj (o_spawners W) ''TaskSpawnerList'' ns [];
     (case r of
        Inl e \<Rightarrow> ret []
      | Inr spawners \<Rightarrow> do {
          names \<leftarrow> workerPoolWorkspaceNames E ns;
          ret (map spawner_request (filter (\<lambda>ts. P (taskSpawnerEffectiveWorkspaceName ts names)) spawners))
        })
   }"

definition findTaskSpawnersForSecret :: "env \<Rightarrow> workload_env \<Rightarrow> string \<Rightarrow> string \<Rightarrow> request list io" where
  "findTaskSpawnersForSecret E W ns secret = do {
     w \<leftarrow> read_obj (q_workspaces E) ''WorkspaceList'' ns [];
     (case w of
        Inl e \<Rightarrow> ret []
      | Inr workspaces \<Rightarrow>
          (let workspaceNames = map fst (filter (\<lambda>(name, ws). ws_secret ws = Some secret) workspaces)
           in if workspaceNames = [] then ret []
              else spawners_on E W ns (\<lambda>name. name \<in> set workspaceNames)))
   }"

definition findTaskSpawnersForWorkspace :: "env \<Rightarrow> workload_env \<Rightarrow> string \<Rightarrow> string \<Rightarrow> request list io" where
  "findTaskSpawnersForWorkspace E W ns workspace = spawners_on E W ns (\<lambda>name. name = workspace)"

definition findTaskSpawnersForWorkerPool :: "workload_env \<Rightarrow> string \<Rightarrow> string \<Rightarrow> request list io" where
  "findTaskSpawnersForWorkerPool W ns pool = do {
     r \<leftarrow> read_obj (o_spawners W) ''TaskSpawnerList'' ns [];
     ret (case r of
            Inl e \<Rightarrow> []
          | Inr spawners \<Rightarrow> map spawner_request (filter (\<lambda>ts. tt_pool (s_template ts) = Some pool) spawners))
   }"

definition findTaskSpawnersForTask :: "task \<Rightarrow> request list" where
  "findTaskSpawnersForTask t =
     (case map_of (m_labels (t_meta t)) ''kelos.dev/taskspawner'' of
        None \<Rightarrow> [] | Some name \<Rightarrow> [(t_namespace t, name)])"

end
