(* ===== verification/WorkspaceController.thy ===== *)
theory WorkspaceController
  imports SpawnerController
begin

text \<open>
  The controllers of workspaces, webhook gateways and session spawners. The first keeps a proxy of the
  GitHub API beside each workspace that asks for one; the others only report. Code:
  \<^verbatim>\<open>workspace_controller.go\<close>, \<^verbatim>\<open>workspace_ghproxy_builder.go\<close>, \<^verbatim>\<open>webhookgateway_controller.go\<close> and
  \<^verbatim>\<open>sessionspawner_controller.go\<close>.
\<close>

abbreviation wsp_name :: "workspace \<Rightarrow> string" where "wsp_name w \<equiv> m_name (wsp_meta w)"
abbreviation wsp_namespace :: "workspace \<Rightarrow> string" where "wsp_namespace w \<equiv> m_namespace (wsp_meta w)"

section \<open>The objects of a proxy\<close>

definition DefaultGHProxyImage :: string where "DefaultGHProxyImage = ''ghcr.io/kelos-dev/ghproxy:latest''"

definition NewWorkspaceGHProxyBuilder :: image_config where
  "NewWorkspaceGHProxyBuilder = \<lparr>ic_image = DefaultGHProxyImage, ic_pull = [], ic_resources = None\<rparr>"

definition workspaceProxyLabels :: "string \<Rightarrow> strmap" where
  "workspaceProxyLabels workspaceName =
     [(''kelos.dev/name'', ''kelos''), (''kelos.dev/component'', ''ghproxy''),
      (''kelos.dev/managed-by'', ''kelos-controller''), (''kelos.dev/workspace'', workspaceName)]"

definition workspaceProxyUpstreamBaseURL :: "workspace \<Rightarrow> string" where
  "workspaceProxyUpstreamBaseURL workspace =
     (let apiBaseURL = gitHubAPIBaseURL (repo_host (ws_repo (wsp_spec workspace)))
      in if apiBaseURL \<noteq> [] then apiBaseURL else ''https://api.github.com'')"

definition BuildService :: "env \<Rightarrow> workspace \<Rightarrow> service" where
  "BuildService E workspace =
     (let labels = workspaceProxyLabels (wsp_name workspace)
      in \<lparr>svc_meta = blank_meta\<lparr>m_name := WorkspaceGHProxyName E (wsp_name workspace),
                                m_namespace := wsp_namespace workspace, m_labels := labels\<rparr>,
          svc_selector = labels, svc_cluster_ip = [],
          svc_ports =
            [\<lparr>spt_name = ''http'', spt_port = workspaceProxyPort, spt_target = workspaceProxyPort, spt_protocol = ''TCP''\<rparr>,
             \<lparr>spt_name = ''metrics'', spt_port = 9090, spt_target = 9090, spt_protocol = ''TCP''\<rparr>]\<rparr>)"

definition proxy_container :: "workload_env \<Rightarrow> workspace \<Rightarrow> bool \<Rightarrow> container" where
  "proxy_container W workspace isGitHubApp =
     blank_container\<lparr>ct_name := ''ghproxy'', ct_image := ic_image (cfg_ghproxy W), ct_pull := ic_pull (cfg_ghproxy W),
       ct_args := [''--upstream-base-url='' @ workspaceProxyUpstreamBaseURL workspace]
         @ (case cfg_cache_ttl W of None \<Rightarrow> [] | Some ttl \<Rightarrow> [''--cache-ttl='' @ ttl]),
       ct_env := (case ws_secret (wsp_spec workspace) of None \<Rightarrow> [] | Some secret \<Rightarrow> github_env secret isGitHubApp),
       ct_ports :=
         [\<lparr>cp_name = ''http'', cp_port = workspaceProxyPort, cp_protocol = ''TCP''\<rparr>,
          \<lparr>cp_name = ''metrics'', cp_port = 9090, cp_protocol = ''TCP''\<rparr>],
       ct_resources := ic_resources (cfg_ghproxy W),
       ct_security := Some \<lparr>scx_user = None,
         scx_rest = Opaque ''{\"allowPrivilegeEscalation\":false,\"capabilities\":{\"drop\":[\"ALL\"]}}''\<rparr>\<rparr>"

definition BuildDeployment :: "env \<Rightarrow> workload_env \<Rightarrow> workspace \<Rightarrow> bool \<Rightarrow> deployment" where
  "BuildDeployment E W workspace isGitHubApp =
     (let labels = workspaceProxyLabels (wsp_name workspace)
      in \<lparr>dp_meta = blank_meta\<lparr>m_name := WorkspaceGHProxyName E (wsp_name workspace),
                               m_namespace := wsp_namespace workspace, m_labels := labels\<rparr>,
          dp_replicas = Some 1, dp_selector = labels,
          dp_template = \<lparr>tpl_labels = labels, tpl_annotations = [],
            tpl_spec = blank_pod_spec\<lparr>
              pd_security := Some \<lparr>psc_fs_group = None, psc_rest = Opaque ''{\"runAsNonRoot\":true}''\<rparr>,
              pd_containers := [proxy_container W workspace isGitHubApp]\<rparr>\<rparr>,
          dp_rest = nothing\<rparr>)"

section \<open>Reconciling them\<close>

definition deleteProxyResources :: "env \<Rightarrow> workspace \<Rightarrow> go_err option io" where
  "deleteProxyResources E workspace =
     (let name = WorkspaceGHProxyName E (wsp_name workspace); ns = wsp_namespace workspace
      in do {
        d \<leftarrow> delete_existing E (DeleteDeployment ns name);
        (case d of Some e \<Rightarrow> ret (Some e) | None \<Rightarrow> delete_existing E (DeleteService ns name))
      })"

text \<open>Write an object and report it.\<close>

definition write_reported :: "env \<Rightarrow> call \<Rightarrow> string \<Rightarrow> string \<Rightarrow> go_err option io" where
  "write_reported E c reason message = do {
     x \<leftarrow> write_call E c;
     (case x of
        Some e \<Rightarrow> ret (Some e)
      | None \<Rightarrow> do { recordEvent ''Normal'' reason message; ret None })
   }"

definition proxy_reconcileService :: "env \<Rightarrow> workspace \<Rightarrow> go_err option io" where
  "proxy_reconcileService E workspace =
     (let desired = BuildService E workspace; name = m_name (svc_meta desired)
      in case l_set_controller E (wsp_meta workspace) (svc_meta desired) of
           Inl e \<Rightarrow> ret (Some e)
         | Inr meta \<Rightarrow> do {
             r \<leftarrow> read_obj (q_service E) ''Service'' (m_namespace meta) (m_name meta);
             (case r of
                Inl e \<Rightarrow>
                  if is_not_found e
                  then write_reported E (CreateService (desired\<lparr>svc_meta := meta\<rparr>)) ''WorkspaceProxyServiceCreated''
                         (''Created workspace ghproxy Service '' @ name)
                  else ret (Some e)
              | Inr current \<Rightarrow>
                  if svc_ports current = svc_ports desired \<and> strmap_equal (svc_selector current) (svc_selector desired)
                     \<and> strmap_equal (m_labels (svc_meta current)) (m_labels meta)
                  then ret None
                  else write_reported E
                         (UpdateService (current\<lparr>svc_meta := (svc_meta current)\<lparr>m_labels := m_labels meta\<rparr>,
                            svc_ports := svc_ports desired, svc_selector := svc_selector desired\<rparr>))
                         ''WorkspaceProxyServiceUpdated'' (''Updated workspace ghproxy Service '' @ name))
           })"

definition containerEqual :: "workload_env \<Rightarrow> container \<Rightarrow> container \<Rightarrow> bool" where
  "containerEqual W a b \<longleftrightarrow>
     resourceRequirementsEqual W (ct_resources a) (ct_resources b)
     \<and> a\<lparr>ct_resources := None\<rparr> = b\<lparr>ct_resources := None\<rparr>"

definition containersEqual :: "workload_env \<Rightarrow> container list \<Rightarrow> container list \<Rightarrow> bool" where
  "containersEqual W = list_all2 (containerEqual W)"

definition proxy_parts :: "workload_env \<Rightarrow> deployment \<Rightarrow> deployment part list" where
  "proxy_parts W desired =
     (let pod = dp_pod desired; labels = m_labels (dp_meta desired); pod_labels = tpl_labels (dp_template desired)
      in [(\<lambda>d. strmap_equal (m_labels (dp_meta d)) labels,
           \<lambda>d. d\<lparr>dp_meta := (dp_meta d)\<lparr>m_labels := labels\<rparr>\<rparr>),
          (\<lambda>d. dp_replicas d \<noteq> None \<and> dp_replicas desired \<noteq> None \<and> dp_replicas d = dp_replicas desired,
           \<lambda>d. d\<lparr>dp_replicas := dp_replicas desired\<rparr>),
          (\<lambda>d. strmap_equal (tpl_labels (dp_template d)) pod_labels,
           \<lambda>d. d\<lparr>dp_template := (dp_template d)\<lparr>tpl_labels := pod_labels\<rparr>\<rparr>),
          (\<lambda>d. containersEqual W (pd_init (dp_pod d)) (pd_init pod), set_pod (\<lambda>p. p\<lparr>pd_init := pd_init pod\<rparr>)),
          (\<lambda>d. pd_volumes (dp_pod d) = pd_volumes pod, set_pod (\<lambda>p. p\<lparr>pd_volumes := pd_volumes pod\<rparr>)),
          (\<lambda>d. containersEqual W (pd_containers (dp_pod d)) (pd_containers pod),
           set_pod (\<lambda>p. p\<lparr>pd_containers := pd_containers pod\<rparr>))])"

definition proxy_drift :: "workload_env \<Rightarrow> deployment \<Rightarrow> deployment \<Rightarrow> bool \<times> deployment" where
  "proxy_drift W current desired = settle (proxy_parts W desired) current"

definition proxy_reconcileDeployment :: "env \<Rightarrow> workload_env \<Rightarrow> workspace \<Rightarrow> bool \<Rightarrow> go_err option io" where
  "proxy_reconcileDeployment E W workspace isGitHubApp =
     (let desired = BuildDeployment E W workspace isGitHubApp; name = m_name (dp_meta desired)
      in case l_set_controller E (wsp_meta workspace) (dp_meta desired) of
           Inl e \<Rightarrow> ret (Some e)
         | Inr meta \<Rightarrow> do {
             r \<leftarrow> read_obj (o_deployment W) ''Deployment'' (m_namespace meta) (m_name meta);
             (case r of
                Inl e \<Rightarrow>
                  if is_not_found e
                  then write_reported E (CreateDeployment (desired\<lparr>dp_meta := meta\<rparr>)) ''WorkspaceProxyDeploymentCreated''
                         (''Created workspace ghproxy Deployment '' @ name)
                  else ret (Some e)
              | Inr current \<Rightarrow>
                  (let (needsUpdate, d) = proxy_drift W current (desired\<lparr>dp_meta := meta\<rparr>)
                   in if \<not> needsUpdate then ret None
                      else write_reported E (UpdateDeployment d) ''WorkspaceProxyDeploymentUpdated''
                             (''Updated workspace ghproxy Deployment '' @ name)))
           })"

text \<open>Whether the secret holds the credentials of an App; \<open>Inl\<close> is an early return.\<close>

definition workspace_app :: "env \<Rightarrow> workspace \<Rightarrow> (outcome + bool) io" where
  "workspace_app E workspace =
     (case ws_secret (wsp_spec workspace) of
        None \<Rightarrow> ret (Inr False)
      | Some secret \<Rightarrow> do {
          r \<leftarrow> read_obj (q_secret E) ''Secret'' (wsp_namespace workspace) secret;
          (case r of
             Inr sec \<Rightarrow> ret (Inr (IsGitHubApp (sec_data sec)))
           | Inl e \<Rightarrow>
               if is_not_found e then do {
                 recordEvent ''Normal'' ''WorkspaceSecretNotFound''
                   (''Workspace secret '' @ secret @ '' not found, requeuing'');
                 ret (Inl (after (seconds 2), None))
               }
               else ret (Inl (no_requeue, Some e)))
        })"

definition workspace_controller :: "env \<Rightarrow> workload_env \<Rightarrow> string \<Rightarrow> string \<Rightarrow> outcome io" where
  "workspace_controller E W ns name = do {
     r \<leftarrow> read_obj (o_workspace W) ''Workspace'' ns name;
     (case r of
        Inl e \<Rightarrow>
          if is_not_found e then ret (no_requeue, None)
          else do { log_call (CountReconcileError ''workspace''); ret (no_requeue, Some e) }
      | Inr workspace \<Rightarrow>
          if \<not> workspaceUsesGHProxy (Some (wsp_spec workspace)) then do {
            x \<leftarrow> deleteProxyResources E workspace;
            ret (no_requeue, x)
          }
          else do {
            a \<leftarrow> workspace_app E workspace;
            (case a of
               Inl out \<Rightarrow> ret out
             | Inr isGitHubApp \<Rightarrow> do {
                 s \<leftarrow> proxy_reconcileService E workspace;
                 (case s of
                    Some e \<Rightarrow> ret (no_requeue, Some e)
                  | None \<Rightarrow> do {
                      d \<leftarrow> proxy_reconcileDeployment E W workspace isGitHubApp;
                      ret (no_requeue, d)
                    })
               })
          })
   }"

definition findWorkspacesForSecret :: "env \<Rightarrow> string \<Rightarrow> string \<Rightarrow> request list io" where
  "findWorkspacesForSecret E ns secret = do {
     r \<leftarrow> read_obj (q_workspaces E) ''WorkspaceList'' ns [];
     ret (case r of
            Inl e \<Rightarrow> []
          | Inr workspaces \<Rightarrow>
              map (\<lambda>(name, ws). (ns, name)) (filter (\<lambda>(name, ws). ws_secret ws = Some secret) workspaces))
   }"

section \<open>Webhook gateways\<close>

abbreviation wg_name :: "webhook_gateway \<Rightarrow> string" where "wg_name g \<equiv> m_name (wg_meta g)"
abbreviation wg_namespace :: "webhook_gateway \<Rightarrow> string" where "wg_namespace g \<equiv> m_namespace (wg_meta g)"

type_synonym verdict = "gateway_phase \<times> string \<times> bool"

definition secretMissing :: "env \<Rightarrow> string \<Rightarrow> string \<Rightarrow> (go_err + bool) io" where
  "secretMissing E ns name = do {
     r \<leftarrow> read_obj (q_secret E) ''Secret'' ns name;
     ret (case r of Inr s \<Rightarrow> Inr False | Inl e \<Rightarrow> if is_not_found e then Inr True else Inl e)
   }"

text \<open>The verdict for a Secret that is missing; no phase if it is there.\<close>

definition checkSecret :: "env \<Rightarrow> string \<Rightarrow> string \<Rightarrow> string \<Rightarrow> (go_err + verdict) io" where
  "checkSecret E ns name kind = do {
     m \<leftarrow> secretMissing E ns name;
     ret (case m of
            Inl e \<Rightarrow> Inl e
          | Inr missing \<Rightarrow>
              Inr (if missing then (GatewaySecretMissing, kind @ '' '' @ quote name @ '' not found'', True)
                   else (GatewayUnset, [], False)))
   }"

definition authenticated :: verdict where "authenticated = (GatewayAuthenticated, [], False)"

definition evaluate :: "env \<Rightarrow> webhook_gateway \<Rightarrow> (go_err + verdict) io" where
  "evaluate E gw =
     (if wg_generic gw then ret (Inr (GatewayUnauthenticated,
        ''Generic gateways have no verification scheme; inbound deliveries are accepted without authentication. Restrict access at the network layer.'',
        False))
      else (case wg_github gw of
        Some gg \<Rightarrow> do {
          c \<leftarrow> checkSecret E (wg_namespace gw) (gg_secret gg) ''HMAC secret'';
          (case c of
             Inl e \<Rightarrow> ret (Inl e)
           | Inr v \<Rightarrow>
               if fst v \<noteq> GatewayUnset then ret (Inr v)
               else (case gg_credentials gg of
                       None \<Rightarrow> ret (Inr authenticated)
                     | Some creds \<Rightarrow> do {
                         c2 \<leftarrow> checkSecret E (wg_namespace gw) creds ''credentials secret'';
                         ret (case c2 of
                                Inl e \<Rightarrow> Inl e
                              | Inr v2 \<Rightarrow> Inr (if fst v2 \<noteq> GatewayUnset then v2 else authenticated))
                       }))
        }
      | None \<Rightarrow>
          (case wg_linear gw of
             Some secret \<Rightarrow> do {
               c \<leftarrow> checkSecret E (wg_namespace gw) secret ''HMAC secret'';
               ret (case c of
                      Inl e \<Rightarrow> Inl e
                    | Inr v \<Rightarrow> Inr (if fst v \<noteq> GatewayUnset then v else authenticated))
             }
           | None \<Rightarrow> ret (Inr (GatewaySecretMissing,
               ''no source configured: exactly one of github, linear, or generic is required'', False)))))"

definition gateway_status_of :: "webhook_gateway \<Rightarrow> verdict \<Rightarrow> gateway_status" where
  "gateway_status_of gw v =
     \<lparr>wgs_path = ''/webhook/'' @ wg_namespace gw @ ''/'' @ wg_name gw, wgs_phase = fst v, wgs_message = fst (snd v),
      wgs_generation = m_generation (wg_meta gw)\<rparr>"

definition gateway_controller :: "env \<Rightarrow> workload_env \<Rightarrow> string \<Rightarrow> string \<Rightarrow> outcome io" where
  "gateway_controller E W ns name = do {
     r \<leftarrow> read_obj (o_gateway W) ''WebhookGateway'' ns name;
     (case r of
        Inl e \<Rightarrow> ret (no_requeue, if is_not_found e then None else Some e)
      | Inr gw \<Rightarrow> do {
          v \<leftarrow> evaluate E gw;
          (case v of
             Inl e \<Rightarrow> ret (no_requeue, Some e)
           | Inr verdict \<Rightarrow> do {
               x \<leftarrow> (if wg_status gw = gateway_status_of gw verdict then ret None
                    else do {
                      f \<leftarrow> read_obj (o_gateway W) ''WebhookGateway'' ns name;
                      (case f of
                         Inl e \<Rightarrow> ret (Some e)
                       | Inr fresh \<Rightarrow>
                           if m_generation (wg_meta fresh) \<noteq> m_generation (wg_meta gw) then ret None
                           else write_call E (UpdateGatewayStatus (fresh\<lparr>wg_status := gateway_status_of gw verdict\<rparr>)))
                    });
               ret (case x of
                      Some e \<Rightarrow> (no_requeue, Some e)
                    | None \<Rightarrow> (if snd (snd verdict) then after (seconds 2) else no_requeue, None))
             })
        })
   }"

definition gatewayReferencesSecret :: "webhook_gateway \<Rightarrow> string \<Rightarrow> bool" where
  "gatewayReferencesSecret gw name =
     (case wg_github gw of
        Some gg \<Rightarrow> gg_secret gg = name \<or> gg_credentials gg = Some name
      | None \<Rightarrow> wg_linear gw = Some name)"

definition findGatewaysForSecret :: "workload_env \<Rightarrow> string \<Rightarrow> string \<Rightarrow> request list io" where
  "findGatewaysForSecret W ns secret = do {
     r \<leftarrow> read_obj (o_gateways W) ''WebhookGatewayList'' ns [];
     ret (case r of
            Inl e \<Rightarrow> []
          | Inr gws \<Rightarrow>
              map (\<lambda>gw. (wg_namespace gw, wg_name gw)) (filter (\<lambda>gw. gatewayReferencesSecret gw secret) gws))
   }"

section \<open>Session spawners\<close>

definition session_spawner_controller :: "env \<Rightarrow> workload_env \<Rightarrow> string \<Rightarrow> string \<Rightarrow> outcome io" where
  "session_spawner_controller E W ns name = do {
     r \<leftarrow> read_obj (o_session_spawner W) ''SessionSpawner'' ns name;
     (case r of
        Inl e \<Rightarrow>
          ret (no_requeue, if is_not_found e then None
               else Some (wrap_err (''getting SessionSpawner '' @ quote name) e))
      | Inr spawner \<Rightarrow> do {
          l \<leftarrow> read_obj (o_sessions W) ''SessionList'' (sp_namespace spawner) (m_uid (sp_meta spawner));
          (case l of
             Inl e \<Rightarrow> ret (no_requeue, Some (wrap_err (''listing Sessions for SessionSpawner ''
                          @ quote (sp_name spawner)) e))
           | Inr sessions \<Rightarrow> do {
               x \<leftarrow> write_call E (PatchSessionSpawner (spawner\<lparr>sp_generation := m_generation (sp_meta spawner),
                      sp_total := wrap32 (int (length (filter (\<lambda>se. l_controlled_by E (se_meta se) (sp_meta spawner)) sessions)))\<rparr>));
               ret (no_requeue, x)
             })
        })
   }"

end
