(* ===== verification/CodexRefresher.thy ===== *)
theory CodexRefresher
  imports TaskController Workloads
begin

text \<open>
  The refresh of Codex credentials: a controller that keeps a CronJob, with an account that may read
  and write one Secret, beside each Secret that asks for it, and the program that the CronJob runs.
  Code: \<^verbatim>\<open>codex_auth_refresher_builder.go\<close>, \<^verbatim>\<open>codex_auth_refresher_controller.go\<close> and
  \<^verbatim>\<open>internal/codexauth/refresher.go\<close>.
\<close>

section \<open>Names\<close>

definition codexAuthRefresherCronJobNameMaxLength :: nat where "codexAuthRefresherCronJobNameMaxLength = 52"
definition codexAuthRefresherCronJobNamePrefix :: string where "codexAuthRefresherCronJobNamePrefix = ''kelos-codex-auth-''"
definition codexAuthRefresherComponentLabel :: string where "codexAuthRefresherComponentLabel = ''codex-auth-refresher''"
definition codexAuthSecretNamespaceAnnotation :: string where
  "codexAuthSecretNamespaceAnnotation = ''kelos.dev/codex-auth-secret-namespace''"
definition codexAuthSecretNameAnnotation :: string where
  "codexAuthSecretNameAnnotation = ''kelos.dev/codex-auth-secret-name''"
definition RefreshLabel :: string where "RefreshLabel = ''kelos.dev/codex-oauth-refresh''"
definition codexSecretKey :: string where "codexSecretKey = ''CODEX_AUTH_JSON''"

text \<open>\<^verbatim>\<open>strings.Trim(s, "-")\<close>.\<close>

definition trim_dash :: "string \<Rightarrow> string" where
  "trim_dash s = rev (dropWhile (\<lambda>c. c = CHR ''-'') (rev (dropWhile (\<lambda>c. c = CHR ''-'') s)))"

definition dns_name_char :: "char \<Rightarrow> bool" where
  "dns_name_char c \<longleftrightarrow> 97 \<le> byte c \<and> byte c \<le> 122 \<or> 48 \<le> byte c \<and> byte c \<le> 57 \<or> c = CHR ''-''"

text \<open>Each run of other characters becomes a dash; \<open>inside\<close> says that one has begun.\<close>

fun replace_runs :: "bool \<Rightarrow> string \<Rightarrow> string" where
  "replace_runs inside [] = []"
| "replace_runs inside (c # s) =
     (if dns_name_char c then c # replace_runs False s
      else if inside then replace_runs True s else CHR ''-'' # replace_runs True s)"

text \<open>Replacing \<^verbatim>\<open>--\<close> by \<^verbatim>\<open>-\<close> until there is none leaves one dash of each run.\<close>

fun single_dashes :: "string \<Rightarrow> string" where
  "single_dashes (c # d # s) =
     (if c = CHR ''-'' \<and> d = CHR ''-'' then single_dashes (d # s) else c # single_dashes (d # s))"
| "single_dashes s = s"

definition dnsNameFragment :: "string \<Rightarrow> string" where
  "dnsNameFragment s = single_dashes (trim_dash (replace_runs False (to_lower s)))"

definition CodexAuthRefresherCronJobName :: "workload_env \<Rightarrow> string \<Rightarrow> string \<Rightarrow> string" where
  "CodexAuthRefresherCronJobName W namespace secretName =
     (let suffix = l_sha256_10 W (namespace @ ''/'' @ secretName);
          baseMax = codexAuthRefresherCronJobNameMaxLength - length codexAuthRefresherCronJobNamePrefix - 1 - length suffix;
          full = dnsNameFragment (namespace @ ''-'' @ secretName);
          base = (if baseMax < length full then trim_dash (take baseMax full) else full)
      in codexAuthRefresherCronJobNamePrefix @ (if base = [] then ''secret'' else base) @ ''-'' @ suffix)"

definition codexAuthRefresherServiceAccountName :: "workload_env \<Rightarrow> string \<Rightarrow> string \<Rightarrow> string" where
  "codexAuthRefresherServiceAccountName = CodexAuthRefresherCronJobName"

section \<open>Objects\<close>

definition IsCodexAuthRefreshable :: "secret \<Rightarrow> bool" where
  "IsCodexAuthRefreshable s \<longleftrightarrow>
     map_str (m_labels (sec_meta s)) RefreshLabel = ''true'' \<and> map_str (sec_data s) codexSecretKey \<noteq> []"

definition codexAuthRefresherLabels :: strmap where
  "codexAuthRefresherLabels =
     [(''app.kubernetes.io/name'', ''kelos''), (''app.kubernetes.io/component'', codexAuthRefresherComponentLabel),
      (''kelos.dev/managed-by'', ''kelos-controller'')]"

abbreviation sec_name :: "secret \<Rightarrow> string" where "sec_name s \<equiv> m_name (sec_meta s)"
abbreviation sec_namespace :: "secret \<Rightarrow> string" where "sec_namespace s \<equiv> m_namespace (sec_meta s)"

definition codexAuthSecretAnnotations :: "secret \<Rightarrow> strmap" where
  "codexAuthSecretAnnotations s =
     [(codexAuthSecretNamespaceAnnotation, sec_namespace s), (codexAuthSecretNameAnnotation, sec_name s)]"

definition refresher_meta :: "workload_env \<Rightarrow> secret \<Rightarrow> object_meta" where
  "refresher_meta W s =
     blank_meta\<lparr>m_name := CodexAuthRefresherCronJobName W (sec_namespace s) (sec_name s), m_namespace := sec_namespace s,
                m_labels := codexAuthRefresherLabels, m_annotations := codexAuthSecretAnnotations s\<rparr>"

definition BuildServiceAccount :: "workload_env \<Rightarrow> secret \<Rightarrow> object_meta" where
  "BuildServiceAccount W s =
     (refresher_meta W s)\<lparr>m_name := codexAuthRefresherServiceAccountName W (sec_namespace s) (sec_name s)\<rparr>"

definition BuildRole :: "workload_env \<Rightarrow> secret \<Rightarrow> role" where
  "BuildRole W s =
     \<lparr>ro_meta = refresher_meta W s,
      ro_rules = [\<lparr>rr_groups = [''''], rr_resources = [''secrets''], rr_names = [sec_name s],
                   rr_verbs = [''get'', ''update'']\<rparr>]\<rparr>"

definition BuildRoleBinding :: "workload_env \<Rightarrow> secret \<Rightarrow> role_binding" where
  "BuildRoleBinding W s =
     (let name = CodexAuthRefresherCronJobName W (sec_namespace s) (sec_name s)
      in \<lparr>rb_meta = refresher_meta W s, rb_group = ''rbac.authorization.k8s.io'', rb_kind = ''Role'', rb_name = name,
          rb_subjects = [\<lparr>rsu_kind = ''ServiceAccount'',
            rsu_name = codexAuthRefresherServiceAccountName W (sec_namespace s) (sec_name s),
            rsu_namespace = sec_namespace s\<rparr>]\<rparr>)"

definition DefaultCodexAuthRefreshSchedule :: string where "DefaultCodexAuthRefreshSchedule = ''0 */6 * * *''"

definition refresher_container :: "workload_env \<Rightarrow> secret \<Rightarrow> container" where
  "refresher_container W s =
     blank_container\<lparr>ct_name := ''codex-auth-refresher'',
       ct_image := (if ic_image (cfg_refresher W) = [] then ''ghcr.io/kelos-dev/codex:latest'' else ic_image (cfg_refresher W)),
       ct_pull := ic_pull (cfg_refresher W), ct_command := [''/kelos/kelos-codex-auth-refresh''],
       ct_args := [''--namespace='' @ sec_namespace s, ''--secret='' @ sec_name s],
       ct_security := Some \<lparr>scx_user = None,
         scx_rest = Opaque ''{\"allowPrivilegeEscalation\":false,\"capabilities\":{\"drop\":[\"ALL\"]}}''\<rparr>,
       ct_resources := Some (Opaque
         ''{\"limits\":{\"cpu\":\"100m\",\"memory\":\"64Mi\"},\"requests\":{\"cpu\":\"10m\",\"memory\":\"32Mi\"}}'')\<rparr>"

definition refresher_cron_job :: "workload_env \<Rightarrow> secret \<Rightarrow> cron_job" where
  "refresher_cron_job W s =
     \<lparr>cj_meta = refresher_meta W s,
      cj_spec =
        \<lparr>cjs_schedule = (if cfg_schedule W = [] then DefaultCodexAuthRefreshSchedule else cfg_schedule W),
         cjs_policy = ''Forbid'', cjs_suspend = None, cjs_successful = Some 1, cjs_failed = Some 1,
         cjs_labels = codexAuthRefresherLabels,
         cjs_job = blank_job_spec\<lparr>js_backoff := Some 3, js_deadline := Some 600,
           js_template := \<lparr>tpl_labels = codexAuthRefresherLabels, tpl_annotations = [],
             tpl_spec = blank_pod_spec\<lparr>
               pd_service_account := codexAuthRefresherServiceAccountName W (sec_namespace s) (sec_name s),
               pd_security := Some \<lparr>psc_fs_group = None,
                 psc_rest = Opaque ''{\"runAsNonRoot\":true,\"runAsUser\":61100}''\<rparr>,
               pd_restart := ''OnFailure'', pd_containers := [refresher_container W s]\<rparr>\<rparr>\<rparr>,
         cjs_rest = nothing\<rparr>\<rparr>"

section \<open>Updates\<close>

text \<open>The parts of metadata, for any object that has them.\<close>

definition meta_parts ::
  "('a \<Rightarrow> object_meta) \<Rightarrow> ((object_meta \<Rightarrow> object_meta) \<Rightarrow> 'a \<Rightarrow> 'a) \<Rightarrow> object_meta \<Rightarrow> 'a part list" where
  "meta_parts get put desired =
     [(\<lambda>x. strmap_equal (m_labels (get x)) (m_labels desired), put (m_labels_update (\<lambda>_. m_labels desired))),
      (\<lambda>x. strmap_equal (m_annotations (get x)) (m_annotations desired),
       put (m_annotations_update (\<lambda>_. m_annotations desired))),
      (\<lambda>x. m_owners (get x) = m_owners desired, put (m_owners_update (\<lambda>_. m_owners desired)))]"

definition put_job :: "(job_spec \<Rightarrow> job_spec) \<Rightarrow> cron_job \<Rightarrow> cron_job" where
  "put_job f c = c\<lparr>cj_spec := (cj_spec c)\<lparr>cjs_job := f (cjs_job (cj_spec c))\<rparr>\<rparr>"

definition put_cron_pod :: "(pod_spec \<Rightarrow> pod_spec) \<Rightarrow> cron_job \<Rightarrow> cron_job" where
  "put_cron_pod f = put_job (\<lambda>j. j\<lparr>js_template := (js_template j)\<lparr>tpl_spec := f (tpl_spec (js_template j))\<rparr>\<rparr>)"

abbreviation cj_pod :: "cron_job \<Rightarrow> pod_spec" where
  "cj_pod c \<equiv> tpl_spec (js_template (cjs_job (cj_spec c)))"

definition codex_container_same :: "workload_env \<Rightarrow> container \<Rightarrow> container \<Rightarrow> bool" where
  "codex_container_same W current desired \<longleftrightarrow>
     ct_name current = ct_name desired \<and> ct_image current = ct_image desired
     \<and> (ct_pull desired = [] \<or> ct_pull current = ct_pull desired)
     \<and> ct_command current = ct_command desired \<and> ct_args current = ct_args desired
     \<and> ct_env current = ct_env desired \<and> ct_mounts current = ct_mounts desired
     \<and> ct_security current = ct_security desired
     \<and> resourceRequirementsEqual W (ct_resources current) (ct_resources desired)"

text \<open>Field by field, as the code has it; resources that are equal are left as they are written.\<close>

definition codex_put_container :: "workload_env \<Rightarrow> container \<Rightarrow> container \<Rightarrow> container" where
  "codex_put_container W current desired =
     current\<lparr>ct_name := ct_name desired, ct_image := ct_image desired,
             ct_pull := (if ct_pull desired \<noteq> [] then ct_pull desired else ct_pull current),
             ct_command := ct_command desired, ct_args := ct_args desired, ct_env := ct_env desired,
             ct_mounts := ct_mounts desired, ct_security := ct_security desired,
             ct_resources := (if resourceRequirementsEqual W (ct_resources current) (ct_resources desired)
                              then ct_resources current else ct_resources desired)\<rparr>"

definition updateCodexAuthRefresherContainers :: "workload_env \<Rightarrow> container list \<Rightarrow> container list \<Rightarrow> bool \<times> container list" where
  "updateCodexAuthRefresherContainers W current desired =
     (if length current \<noteq> length desired then (True, desired)
      else (\<not> list_all2 (codex_container_same W) current desired, map2 (codex_put_container W) current desired))"

definition refresher_parts :: "workload_env \<Rightarrow> cron_job \<Rightarrow> cron_job part list" where
  "refresher_parts W desired =
     (let spec = cj_spec desired; job = cjs_job spec; tpl = js_template job; pod = tpl_spec tpl;
          put_spec = (\<lambda>f c. c\<lparr>cj_spec := f (cj_spec c)\<rparr>)
      in meta_parts cj_meta (\<lambda>f c. c\<lparr>cj_meta := f (cj_meta c)\<rparr>) (cj_meta desired) @
         [(\<lambda>c. cjs_schedule (cj_spec c) = cjs_schedule spec, put_spec (cjs_schedule_update (\<lambda>_. cjs_schedule spec))),
          (\<lambda>c. cjs_policy (cj_spec c) = cjs_policy spec, put_spec (cjs_policy_update (\<lambda>_. cjs_policy spec))),
          (\<lambda>c. cjs_successful (cj_spec c) = cjs_successful spec, put_spec (cjs_successful_update (\<lambda>_. cjs_successful spec))),
          (\<lambda>c. cjs_failed (cj_spec c) = cjs_failed spec, put_spec (cjs_failed_update (\<lambda>_. cjs_failed spec))),
          (\<lambda>c. strmap_equal (cjs_labels (cj_spec c)) (cjs_labels spec), put_spec (cjs_labels_update (\<lambda>_. cjs_labels spec))),
          (\<lambda>c. js_backoff (cjs_job (cj_spec c)) = js_backoff job, put_job (js_backoff_update (\<lambda>_. js_backoff job))),
          (\<lambda>c. js_deadline (cjs_job (cj_spec c)) = js_deadline job, put_job (js_deadline_update (\<lambda>_. js_deadline job))),
          (\<lambda>c. strmap_equal (tpl_labels (js_template (cjs_job (cj_spec c)))) (tpl_labels tpl),
           put_job (\<lambda>j. j\<lparr>js_template := (js_template j)\<lparr>tpl_labels := tpl_labels tpl\<rparr>\<rparr>)),
          (\<lambda>c. pd_service_account (cj_pod c) = pd_service_account pod,
           put_cron_pod (pd_service_account_update (\<lambda>_. pd_service_account pod))),
          (\<lambda>c. pd_security (cj_pod c) = pd_security pod, put_cron_pod (pd_security_update (\<lambda>_. pd_security pod))),
          (\<lambda>c. pd_restart (cj_pod c) = pd_restart pod, put_cron_pod (pd_restart_update (\<lambda>_. pd_restart pod))),
          (\<lambda>c. pd_init (cj_pod c) = pd_init pod, put_cron_pod (pd_init_update (\<lambda>_. pd_init pod))),
          (\<lambda>c. pd_volumes (cj_pod c) = pd_volumes pod, put_cron_pod (pd_volumes_update (\<lambda>_. pd_volumes pod))),
          (\<lambda>c. \<not> fst (updateCodexAuthRefresherContainers W (pd_containers (cj_pod c)) (pd_containers pod)),
           put_cron_pod (\<lambda>p. p\<lparr>pd_containers :=
             snd (updateCodexAuthRefresherContainers W (pd_containers p) (pd_containers pod))\<rparr>))])"

definition updateCodexAuthRefresherCronJob :: "workload_env \<Rightarrow> cron_job \<Rightarrow> cron_job \<Rightarrow> bool \<times> cron_job" where
  "updateCodexAuthRefresherCronJob W current desired = settle (refresher_parts W desired) current"

section \<open>The controller\<close>

text \<open>Look for an object, create it or bring it to its desired state.\<close>

definition ensure_settled ::
  "env \<Rightarrow> (go_err + 'a) io \<Rightarrow> call \<Rightarrow> ('a \<Rightarrow> bool \<times> 'a) \<Rightarrow> ('a \<Rightarrow> call) \<Rightarrow> go_err option io" where
  "ensure_settled E look create change put = do {
     r \<leftarrow> look;
     (case r of
        Inl e \<Rightarrow>
          if \<not> is_not_found e then ret (Some e)
          else do {
            c \<leftarrow> write_call E create;
            ret (case c of None \<Rightarrow> None | Some e \<Rightarrow> if is_already_exists e then None else Some e)
          }
      | Inr current \<Rightarrow>
          (let (needsUpdate, x) = change current
           in if needsUpdate then write_call E (put x) else ret None))
   }"

definition ensureServiceAccount :: "env \<Rightarrow> workload_env \<Rightarrow> object_meta \<Rightarrow> go_err option io" where
  "ensureServiceAccount E W desired =
     ensure_settled E (read_obj (o_account W) ''ServiceAccount'' (m_namespace desired) (m_name desired))
       (CreateAccount desired) (settle (meta_parts (\<lambda>m. m) (\<lambda>f m. f m) desired)) UpdateAccount"

definition role_parts :: "role \<Rightarrow> role part list" where
  "role_parts desired =
     meta_parts ro_meta (\<lambda>f r. r\<lparr>ro_meta := f (ro_meta r)\<rparr>) (ro_meta desired)
     @ [(\<lambda>r. ro_rules r = ro_rules desired, \<lambda>r. r\<lparr>ro_rules := ro_rules desired\<rparr>)]"

definition ensureRole :: "env \<Rightarrow> workload_env \<Rightarrow> role \<Rightarrow> go_err option io" where
  "ensureRole E W desired =
     ensure_settled E (read_obj (o_role W) ''Role'' (m_namespace (ro_meta desired)) (m_name (ro_meta desired)))
       (CreateRole desired) (settle (role_parts desired)) UpdateRole"

definition binding_parts :: "role_binding \<Rightarrow> role_binding part list" where
  "binding_parts desired =
     meta_parts rb_meta (\<lambda>f r. r\<lparr>rb_meta := f (rb_meta r)\<rparr>) (rb_meta desired)
     @ [(\<lambda>r. rb_subjects r = rb_subjects desired, \<lambda>r. r\<lparr>rb_subjects := rb_subjects desired\<rparr>)]"

text \<open>The role of a binding cannot be changed: a binding of another role is created anew.\<close>

definition ensureRoleBinding :: "env \<Rightarrow> workload_env \<Rightarrow> role_binding \<Rightarrow> go_err option io" where
  "ensureRoleBinding E W desired = do {
     r \<leftarrow> read_obj (o_binding W) ''RoleBinding'' (m_namespace (rb_meta desired)) (m_name (rb_meta desired));
     (case r of
        Inl e \<Rightarrow>
          if \<not> is_not_found e then ret (Some e)
          else do {
            c \<leftarrow> write_call E (CreateBinding desired);
            ret (case c of None \<Rightarrow> None | Some e \<Rightarrow> if is_already_exists e then None else Some e)
          }
      | Inr current \<Rightarrow>
          if rb_group current \<noteq> rb_group desired \<or> rb_kind current \<noteq> rb_kind desired \<or> rb_name current \<noteq> rb_name desired
          then do {
            d \<leftarrow> write_call E (DeleteBinding (m_namespace (rb_meta current)) (m_name (rb_meta current)));
            (case d of
               Some e \<Rightarrow> ret (Some e)
             | None \<Rightarrow> do {
                 c \<leftarrow> write_call E (CreateBinding desired);
                 ret (case c of None \<Rightarrow> None | Some e \<Rightarrow> if is_already_exists e then None else Some e)
               })
          }
          else (let (needsUpdate, x) = settle (binding_parts desired) current
                in if needsUpdate then write_call E (UpdateBinding x) else ret None))
   }"

definition ensureRefreshAccess :: "env \<Rightarrow> workload_env \<Rightarrow> secret \<Rightarrow> go_err option io" where
  "ensureRefreshAccess E W s =
     (let role = BuildRole W s; binding = BuildRoleBinding W s
      in case l_set_controller E (sec_meta s) (BuildServiceAccount W s) of
           Inl e \<Rightarrow> ret (Some e)
         | Inr account \<Rightarrow> do {
             a \<leftarrow> ensureServiceAccount E W account;
             (case a of
                Some e \<Rightarrow> ret (Some e)
              | None \<Rightarrow>
                  (case l_set_controller E (sec_meta s) (ro_meta role) of
                     Inl e \<Rightarrow> ret (Some e)
                   | Inr meta \<Rightarrow> do {
                       r \<leftarrow> ensureRole E W (role\<lparr>ro_meta := meta\<rparr>);
                       (case r of
                          Some e \<Rightarrow> ret (Some e)
                        | None \<Rightarrow>
                            (case l_set_controller E (sec_meta s) (rb_meta binding) of
                               Inl e \<Rightarrow> ret (Some e)
                             | Inr meta \<Rightarrow> ensureRoleBinding E W (binding\<lparr>rb_meta := meta\<rparr>)))
                     }))
           })"

text \<open>Objects of a Secret that no longer asks for them: those that name it in their annotations.\<close>

definition annotated_for :: "string \<Rightarrow> string \<Rightarrow> object_meta \<Rightarrow> bool" where
  "annotated_for ns name meta \<longleftrightarrow>
     map_str (m_annotations meta) codexAuthSecretNamespaceAnnotation = ns
     \<and> map_str (m_annotations meta) codexAuthSecretNameAnnotation = name"

definition delete_managed ::
  "env \<Rightarrow> ('a \<Rightarrow> object_meta) \<Rightarrow> 'a answer \<Rightarrow> string \<Rightarrow> (string \<Rightarrow> string \<Rightarrow> call) \<Rightarrow> string \<Rightarrow> string \<Rightarrow> string \<Rightarrow>
   go_err option io" where
  "delete_managed E meta q kind del ns name secretName = do {
     r \<leftarrow> read_obj q kind ns name;
     (case r of
        Inl e \<Rightarrow> ret (if is_not_found e then None else Some e)
      | Inr obj \<Rightarrow>
          if \<not> annotated_for ns secretName (meta obj) then ret None
          else write_call E (del (m_namespace (meta obj)) (m_name (meta obj))))
   }"

text \<open>One after the other, up to the first error.\<close>

fun in_turn :: "go_err option io list \<Rightarrow> go_err option io" where
  "in_turn [] = ret None"
| "in_turn (m # ms) = do { x \<leftarrow> m; (case x of Some e \<Rightarrow> ret (Some e) | None \<Rightarrow> in_turn ms) }"

definition deleteManagedResources :: "env \<Rightarrow> workload_env \<Rightarrow> string \<Rightarrow> string \<Rightarrow> go_err option io" where
  "deleteManagedResources E W ns secretName =
     (let name = CodexAuthRefresherCronJobName W ns secretName
      in in_turn
           [delete_managed E cj_meta (o_cron_job W) ''CronJob'' DeleteCronJob ns name secretName,
            delete_managed E rb_meta (o_binding W) ''RoleBinding'' DeleteBinding ns name secretName,
            delete_managed E ro_meta (o_role W) ''Role'' DeleteRole ns name secretName,
            delete_managed E (\<lambda>m. m) (o_account W) ''ServiceAccount'' DeleteAccount ns
              (codexAuthRefresherServiceAccountName W ns secretName) secretName])"

definition keep_refresher :: "env \<Rightarrow> workload_env \<Rightarrow> secret \<Rightarrow> outcome io" where
  "keep_refresher E W s = do {
     a \<leftarrow> ensureRefreshAccess E W s;
     (case a of
        Some e \<Rightarrow> ret (no_requeue, Some e)
      | None \<Rightarrow>
          (let built = refresher_cron_job W s
           in case l_set_controller E (sec_meta s) (cj_meta built) of
                Inl e \<Rightarrow> ret (no_requeue, Some e)
              | Inr meta \<Rightarrow> do {
                  r \<leftarrow> read_obj (o_cron_job W) ''CronJob'' (m_namespace meta) (m_name meta);
                  (case r of
                     Inl e \<Rightarrow>
                       if \<not> is_not_found e then ret (no_requeue, Some e)
                       else do { c \<leftarrow> write_call E (CreateCronJob (built\<lparr>cj_meta := meta\<rparr>)); ret (no_requeue, c) }
                   | Inr current \<Rightarrow>
                       (let (needsUpdate, x) = updateCodexAuthRefresherCronJob W current (built\<lparr>cj_meta := meta\<rparr>)
                        in if needsUpdate then do { c \<leftarrow> write_call E (UpdateCronJob x); ret (no_requeue, c) }
                           else ret (no_requeue, None)))
                }))
   }"

definition codex_controller :: "env \<Rightarrow> workload_env \<Rightarrow> string \<Rightarrow> string \<Rightarrow> outcome io" where
  "codex_controller E W ns name = do {
     r \<leftarrow> read_obj (q_secret E) ''Secret'' ns name;
     (case r of
        Inl e \<Rightarrow>
          if is_not_found e then do { d \<leftarrow> deleteManagedResources E W ns name; ret (no_requeue, d) }
          else ret (no_requeue, Some e)
      | Inr s \<Rightarrow>
          if \<not> IsCodexAuthRefreshable s then do {
            d \<leftarrow> deleteManagedResources E W (sec_namespace s) (sec_name s);
            ret (no_requeue, d)
          }
          else keep_refresher E W s)
   }"

section \<open>Whom to reconcile next\<close>

definition requestsForCodexAuthSource :: "object_meta \<Rightarrow> request list" where
  "requestsForCodexAuthSource meta =
     (let ns = map_str (m_annotations meta) codexAuthSecretNamespaceAnnotation;
          name = map_str (m_annotations meta) codexAuthSecretNameAnnotation
      in if ns = [] \<or> name = [] then [] else [(ns, name)])"

definition requestsForNamedCodexAuthSource :: "object_meta \<Rightarrow> (string \<Rightarrow> string \<Rightarrow> string) \<Rightarrow> request list" where
  "requestsForNamedCodexAuthSource meta nameForSource =
     (case requestsForCodexAuthSource meta of
        [(ns, name)] \<Rightarrow>
          if m_namespace meta \<noteq> ns \<or> m_name meta \<noteq> nameForSource ns name then [] else [(ns, name)]
      | _ \<Rightarrow> [])"

definition requestsForRefreshableSecretByObjectName ::
  "workload_env \<Rightarrow> object_meta \<Rightarrow> (string \<Rightarrow> string \<Rightarrow> string) \<Rightarrow> request list io" where
  "requestsForRefreshableSecretByObjectName W meta nameForSecret = do {
     r \<leftarrow> read_obj (o_refreshable W) ''SecretList'' (m_namespace meta) [];
     ret (case r of
            Inl e \<Rightarrow> []
          | Inr secrets \<Rightarrow>
              map (\<lambda>s. (sec_namespace s, sec_name s))
                (filter (\<lambda>s. IsCodexAuthRefreshable s \<and> nameForSecret (sec_namespace s) (sec_name s) = m_name meta) secrets))
   }"

definition requestsForManagedObject :: "workload_env \<Rightarrow> object_meta \<Rightarrow> request list io" where
  "requestsForManagedObject W meta =
     (let requests = requestsForNamedCodexAuthSource meta (CodexAuthRefresherCronJobName W)
      in if length requests = 1 then ret requests
         else requestsForRefreshableSecretByObjectName W meta (CodexAuthRefresherCronJobName W))"

definition requestsForServiceAccount :: "workload_env \<Rightarrow> object_meta \<Rightarrow> request list io" where
  "requestsForServiceAccount W meta =
     (let requests = requestsForNamedCodexAuthSource meta (codexAuthRefresherServiceAccountName W)
      in if length requests = 1 then ret requests
         else requestsForRefreshableSecretByObjectName W meta (codexAuthRefresherServiceAccountName W))"

definition requestsForCronJob :: "object_meta \<Rightarrow> request list" where
  "requestsForCronJob = requestsForCodexAuthSource"

text \<open>Which events are looked at.\<close>

definition managed_labels :: "object_meta \<Rightarrow> bool" where
  "managed_labels meta \<longleftrightarrow>
     map_str (m_labels meta) ''app.kubernetes.io/component'' = codexAuthRefresherComponentLabel
     \<and> map_str (m_labels meta) ''kelos.dev/managed-by'' = ''kelos-controller''"

definition isManagedCodexAuthRefresherObject :: "object_meta \<Rightarrow> bool" where
  "isManagedCodexAuthRefresherObject meta \<longleftrightarrow>
     managed_labels meta \<and> map_str (m_annotations meta) codexAuthSecretNamespaceAnnotation \<noteq> []
     \<and> map_str (m_annotations meta) codexAuthSecretNameAnnotation \<noteq> []"

definition isManagedCodexAuthRefresherServiceAccount :: "workload_env \<Rightarrow> object_meta \<Rightarrow> bool" where
  "isManagedCodexAuthRefresherServiceAccount W meta \<longleftrightarrow>
     isManagedCodexAuthRefresherObject meta
     \<and> m_name meta = codexAuthRefresherServiceAccountName W
          (map_str (m_annotations meta) codexAuthSecretNamespaceAnnotation)
          (map_str (m_annotations meta) codexAuthSecretNameAnnotation)"

definition refresh_labelled :: "secret \<Rightarrow> bool" where
  "refresh_labelled s \<longleftrightarrow> map_str (m_labels (sec_meta s)) RefreshLabel = ''true''"

text \<open>An update is looked at if the object qualified before or does so now.\<close>

definition update_seen :: "('a \<Rightarrow> bool) \<Rightarrow> 'a \<Rightarrow> 'a \<Rightarrow> bool" where
  "update_seen P old new \<longleftrightarrow> P old \<or> P new"

section \<open>The refresh\<close>

text \<open>
  JSON as far as the program looks into it; \<open>rf_parse\<close> gives the fields of an object and \<open>rf_encode\<close>
  is its inverse in the library. \<open>rf_post\<close> is the answer of the token endpoint to a form.
\<close>

datatype jvalue = JNull | JText string | JObject "(string \<times> jvalue) list" | JOther opaque

record token_response =
  tr_status :: int
  tr_status_text :: string
  tr_body :: "go_err + string"
  tr_close :: "go_err option"

record refresh_env =
  rf_secret :: "secret answer"
  rf_post :: "call list \<Rightarrow> strmap \<Rightarrow> go_err + token_response"
  rf_form :: "strmap \<Rightarrow> string"
  rf_parse :: "string \<Rightarrow> go_err + (string \<times> jvalue) list"
  rf_encode :: "(string \<times> jvalue) list \<Rightarrow> go_err + string"

definition oauthTokenURL :: string where "oauthTokenURL = ''https://auth.openai.com/oauth/token''"
definition defaultOAuthClientID :: string where "defaultOAuthClientID = ''app_EMoamEEZ73f0CkXaXp7hrann''"

definition post_form :: "refresh_env \<Rightarrow> strmap \<Rightarrow> (go_err + token_response) io" where
  "post_form R form =
     State (\<lambda>w. (rf_post R (w_calls w) form, w\<lparr>w_calls := w_calls w @ [HttpPost oauthTokenURL (rf_form R form)]\<rparr>))"

definition text_field :: "(string \<times> jvalue) list \<Rightarrow> string \<Rightarrow> string" where
  "text_field m k = (case map_of m k of Some (JText s) \<Rightarrow> s | _ \<Rightarrow> [])"

definition object_field :: "(string \<times> jvalue) list \<Rightarrow> string \<Rightarrow> (string \<times> jvalue) list option" where
  "object_field m k = (case map_of m k of Some (JObject f) \<Rightarrow> Some f | _ \<Rightarrow> None)"

definition token_keys :: "string list" where
  "token_keys = [''access_token'', ''id_token'', ''refresh_token'', ''token_type'', ''scope'', ''expires_at'', ''expires_in'']"

definition take_over :: "(string \<times> jvalue) list \<Rightarrow> (string \<times> jvalue) list \<Rightarrow> string \<Rightarrow> (string \<times> jvalue) list" where
  "take_over response tokens key =
     (case map_of response key of
        None \<Rightarrow> tokens
      | Some v \<Rightarrow> if v = JNull \<or> v = JText [] then tokens else map_put key v tokens)"

definition merged_tokens :: "(string \<times> jvalue) list \<Rightarrow> (string \<times> jvalue) list \<Rightarrow> (string \<times> jvalue) list" where
  "merged_tokens response tokens =
     (let tokens =
        (if map_of response ''expires_at'' \<in> {None, Some JNull} \<and> map_of response ''expires_in'' \<noteq> None
         then map_del ''expires_at'' tokens else tokens)
      in foldl (take_over response) tokens token_keys)"

definition refresh_form :: "(string \<times> jvalue) list \<Rightarrow> (string \<times> jvalue) list \<Rightarrow> strmap" where
  "refresh_form bundle tokens =
     (let own = text_field bundle ''client_id''; other = text_field tokens ''client_id'';
          client = (if own \<noteq> [] then own else if other \<noteq> [] then other else defaultOAuthClientID)
      in [(''grant_type'', ''refresh_token''), (''refresh_token'', text_field tokens ''refresh_token''), (''client_id'', client)])"

text \<open>What a response does to the bundle, at a time.\<close>

definition refreshed_bundle ::
  "env \<Rightarrow> refresh_env \<Rightarrow> int \<Rightarrow> (string \<times> jvalue) list \<Rightarrow> (string \<times> jvalue) list \<Rightarrow> string \<Rightarrow> go_err + string" where
  "refreshed_bundle E R now bundle tokens body =
     (case rf_parse R body of
        Inl e \<Rightarrow> Inl (wrap_err ''parsing OAuth refresh response'' e)
      | Inr response \<Rightarrow>
          if text_field response ''access_token'' = [] then Inl (new_err ''OAuth response is missing access_token'')
          else (case rf_encode R (map_put ''last_refresh'' (JText (l_format_time E now))
                       (map_put ''tokens'' (JObject (merged_tokens response tokens)) bundle)) of
                  Inl e \<Rightarrow> Inl (wrap_err ''building refreshed auth.json bundle'' e)
                | Inr text \<Rightarrow> Inr text))"

definition refreshWithOAuthToken :: "env \<Rightarrow> refresh_env \<Rightarrow> string \<Rightarrow> (go_err + string) io" where
  "refreshWithOAuthToken E R authJSON =
     (case rf_parse R authJSON of
        Inl e \<Rightarrow> ret (Inl (wrap_err ''parsing auth.json bundle'' e))
      | Inr bundle \<Rightarrow>
          (case object_field bundle ''tokens'' of
             None \<Rightarrow> ret (Inl (new_err ''auth.json missing tokens object''))
           | Some tokens \<Rightarrow>
               if text_field tokens ''refresh_token'' = [] then ret (Inl (new_err ''auth.json missing refresh_token''))
               else do {
                 p \<leftarrow> post_form R (refresh_form bundle tokens);
                 (case p of
                    Inl e \<Rightarrow> ret (Inl (wrap_err ''calling OAuth refresh endpoint'' e))
                  | Inr response \<Rightarrow>
                      (case tr_body response of
                         Inl e \<Rightarrow> ret (Inl (wrap_err ''reading OAuth refresh response'' e))
                       | Inr body \<Rightarrow>
                           (case tr_close response of
                              Some e \<Rightarrow> ret (Inl (wrap_err ''closing OAuth refresh response'' e))
                            | None \<Rightarrow>
                                if tr_status response \<noteq> 200
                                then ret (Inl (new_err (''OAuth refresh endpoint returned '' @ tr_status_text response
                                       @ '': '' @ trim_space body)))
                                else do {
                                  now \<leftarrow> clock E;
                                  ret (refreshed_bundle E R now bundle tokens body)
                                })))
               }))"

text \<open>\<open>Inr None\<close>: the bundle has no refresh token.\<close>

definition authWithRefreshToken :: "refresh_env \<Rightarrow> string \<Rightarrow> go_err + string option" where
  "authWithRefreshToken R raw =
     (case rf_parse R raw of
        Inl e \<Rightarrow> Inl (wrap_err ''parsing auth.json bundle'' e)
      | Inr bundle \<Rightarrow>
          (case object_field bundle ''tokens'' of
             None \<Rightarrow> Inr None
           | Some tokens \<Rightarrow> Inr (if text_field tokens ''refresh_token'' = [] then None else Some raw)))"

text \<open>The Secret is read again before it is written.\<close>

definition store_refreshed :: "env \<Rightarrow> refresh_env \<Rightarrow> secret \<Rightarrow> string \<Rightarrow> (go_err + bool) io" where
  "store_refreshed E R s updated =
     (let failed = (\<lambda>verb e. Inl (wrap_err (if is_not_found e then ''secret no longer exists'' else verb @ '' Secret'') e))
      in do {
        r \<leftarrow> read_obj (rf_secret R) ''Secret'' (sec_namespace s) (sec_name s);
        (case r of
           Inl e \<Rightarrow> ret (failed ''getting'' e)
         | Inr current \<Rightarrow> do {
             x \<leftarrow> write_call E (UpdateSecret (current\<lparr>sec_data := map_put codexSecretKey updated (sec_data current)\<rparr>));
             ret (case x of Some e \<Rightarrow> failed ''updating'' e | None \<Rightarrow> Inr True)
           })
      })"

definition refreshSecret :: "env \<Rightarrow> refresh_env \<Rightarrow> secret \<Rightarrow> (go_err + bool) io" where
  "refreshSecret E R s =
     (case map_of (sec_data s) codexSecretKey of
        None \<Rightarrow> ret (Inr False)
      | Some raw \<Rightarrow>
          if trim_space raw = [] then ret (Inr False)
          else (case authWithRefreshToken R raw of
                  Inl e \<Rightarrow> ret (Inl e)
                | Inr None \<Rightarrow> ret (Inr False)
                | Inr (Some refreshable) \<Rightarrow> do {
                    u \<leftarrow> refreshWithOAuthToken E R refreshable;
                    (case u of
                       Inl e \<Rightarrow> ret (Inl e)
                     | Inr updated \<Rightarrow>
                         if trim_space updated = trim_space raw then ret (Inr False)
                         else store_refreshed E R s updated)
                  }))"

definition refresh_run :: "env \<Rightarrow> refresh_env \<Rightarrow> string \<Rightarrow> string \<Rightarrow> go_err option io" where
  "refresh_run E R ns name =
     (if ns = [] then ret (Some (new_err ''namespace is required''))
      else if name = [] then ret (Some (new_err ''secret name is required''))
      else do {
        r \<leftarrow> read_obj (rf_secret R) ''Secret'' ns name;
        (case r of
           Inl e \<Rightarrow> ret (Some (wrap_err (''getting Codex OAuth Secret '' @ ns @ ''/'' @ name) e))
         | Inr s \<Rightarrow>
             if map_str (m_labels (sec_meta s)) RefreshLabel \<noteq> ''true'' then ret None
             else do {
               c \<leftarrow> refreshSecret E R s;
               ret (case c of
                      Inl e \<Rightarrow> Some (wrap_err (''secret '' @ sec_namespace s @ ''/'' @ sec_name s) e)
                    | Inr changed \<Rightarrow> None)
             })
      })"

end
