(* ===== verification/WorkloadCluster.thy ===== *)
theory WorkloadCluster
  imports Cluster Workloads
begin

text \<open>
  A cluster without spawners, Deployments, CronJobs and the rest, for the examples: nothing exists,
  lists are empty, and the server stores CronJobs as they are sent.
\<close>

definition idle_workload_env :: workload_env where
  "idle_workload_env =
     \<lparr>o_spawner = (\<lambda>h ns name. not_found), o_spawners = (\<lambda>h ns name. Inr []), o_spawner_tasks = (\<lambda>h ns name. Inr []),
      o_deployment = (\<lambda>h ns name. not_found), o_cron_job = (\<lambda>h ns name. not_found),
      o_workspace = (\<lambda>h ns name. not_found), o_gateway = (\<lambda>h ns name. not_found), o_gateways = (\<lambda>h ns name. Inr []),
      o_session_spawner = (\<lambda>h ns name. not_found), o_sessions = (\<lambda>h ns name. Inr []),
      o_account = (\<lambda>h ns name. not_found), o_role = (\<lambda>h ns name. not_found), o_binding = (\<lambda>h ns name. not_found),
      o_refreshable = (\<lambda>h ns name. Inr []), o_dry_run = (\<lambda>h c. Inr c),
      l_resources = (\<lambda>r. \<lparr>rs_claims = [], rs_requests = [], rs_limits = []\<rparr>), l_quantity = (\<lambda>s. not_found),
      l_cron_equal = (\<lambda>a b. a = b), l_cron_derivative = (\<lambda>a b. a = b), l_sha256_10 = (\<lambda>s. ''0123456789''),
      cfg_spawner = \<lparr>ic_image = ''spawner'', ic_pull = [], ic_resources = None\<rparr>,
      cfg_ghproxy = \<lparr>ic_image = ''ghproxy'', ic_pull = [], ic_resources = None\<rparr>, cfg_cache_ttl = None,
      cfg_refresher = \<lparr>ic_image = [], ic_pull = [], ic_resources = None\<rparr>, cfg_schedule = []\<rparr>"

end
