(* ===== verification/WorkloadFacts.thy ===== *)
theory WorkloadFacts
  imports WorkspaceController CodexRefresher TaskFacts SpawnerCluster WorkloadCluster
begin

text \<open>
  What the controllers of spawners, workspaces and Codex credentials guarantee: which objects they
  write and delete, that one update settles an object, that events reach the spawners they concern,
  and where objects of others are not safe from them.
\<close>

section \<open>One update settles an object\<close>

lemma resources_refl [simp]: "resourceRequirementsEqual W r r"
  by (simp add: resourceRequirementsEqual_def resourceListEqual_def list_all_iff)

lemma equal_env_refl [simp]: "equalEnvVars env env"
  by (induction env) (simp_all add: equalEnvVars_def equal_env_var_def split: option.splits)

lemma strmap_equal_refl [simp]: "strmap_equal m m"
  by (simp add: strmap_equal_def list_all_iff split_beta)

lemma containersEqual_refl [simp]: "containersEqual W cs cs"
  by (induction cs) (simp_all add: containersEqual_def containerEqual_def)

lemma main_settled_put [simp]: "main_settled W target (put_main target d)"
  by (cases "pd_containers (dp_pod d)")
    (simp_all add: main_settled_def put_main_def set_pod_def same_container_def update_container_def)

lemma set_pod_simps [simp]:
  "dp_pod (set_pod f d) = f (dp_pod d)" "dp_replicas (set_pod f d) = dp_replicas d"
  "dp_meta (set_pod f d) = dp_meta d" "tpl_labels (dp_template (set_pod f d)) = tpl_labels (dp_template d)"
  by (simp_all add: set_pod_def)

lemma put_main_simps [simp]:
  "pd_init (dp_pod (put_main target d)) = pd_init (dp_pod d)"
  "pd_volumes (dp_pod (put_main target d)) = pd_volumes (dp_pod d)"
  "dp_replicas (put_main target d) = dp_replicas d"
  by (simp_all add: put_main_def)

lemma main_settled_others [simp]:
  "main_settled W target (set_pod (pd_init_update f) d) = main_settled W target d"
  "main_settled W target (set_pod (pd_volumes_update g) d) = main_settled W target d"
  "main_settled W target (dp_replicas_update h d) = main_settled W target d"
  by (simp_all add: main_settled_def)

interpretation spawner_drift: settling "drift_parts W desired replicas" for W desired replicas
  by unfold_locales (auto simp: drift_parts_def)

interpretation proxy_drift: settling "proxy_parts W (desired\<lparr>dp_replicas := Some n\<rparr>)" for W desired n
  by unfold_locales (auto simp: proxy_parts_def Let_def)

lemma codex_put_same [simp]: "codex_container_same W (codex_put_container W c d) d"
  by (simp add: codex_container_same_def codex_put_container_def)

lemma codex_same_refl [simp]: "codex_container_same W c c"
  by (simp add: codex_container_same_def)

lemma codex_containers_put [simp]:
  "\<not> fst (updateCodexAuthRefresherContainers W (snd (updateCodexAuthRefresherContainers W cs ds)) ds)"
proof (cases "length cs = length ds")
  case True
  then have "list_all2 (codex_container_same W) (map2 (codex_put_container W) cs ds) ds"
    by (induction cs ds rule: list_induct2) simp_all
  with True show ?thesis by (simp add: updateCodexAuthRefresherContainers_def)
qed (simp add: updateCodexAuthRefresherContainers_def list_all2_refl)

lemma put_job_simps [simp]:
  "cj_meta (put_job f c) = cj_meta c" "cjs_job (cj_spec (put_job f c)) = f (cjs_job (cj_spec c))"
  "cjs_schedule (cj_spec (put_job f c)) = cjs_schedule (cj_spec c)" "cjs_policy (cj_spec (put_job f c)) = cjs_policy (cj_spec c)"
  "cjs_successful (cj_spec (put_job f c)) = cjs_successful (cj_spec c)"
  "cjs_failed (cj_spec (put_job f c)) = cjs_failed (cj_spec c)" "cjs_labels (cj_spec (put_job f c)) = cjs_labels (cj_spec c)"
  by (simp_all add: put_job_def)

interpretation refresher_drift: settling "refresher_parts W desired" for W desired
  by unfold_locales (auto simp: refresher_parts_def meta_parts_def put_cron_pod_def Let_def)

lemma drift_replicas: "dp_replicas (snd (drift W d desired n)) = Some n"
  and drift_main: "main_settled W (hd (pd_containers (dp_pod desired))) (snd (drift W d desired n))"
proof -
  have "((\<lambda>d. dp_replicas d = Some n), (\<lambda>d. d\<lparr>dp_replicas := Some n\<rparr>)) \<in> set (drift_parts W desired n)"
    and "(main_settled W (hd (pd_containers (dp_pod desired))), put_main (hd (pd_containers (dp_pod desired))))
       \<in> set (drift_parts W desired n)"
    by (simp_all add: drift_parts_def)
  from this [THEN spawner_drift.settled] show "dp_replicas (snd (drift W d desired n)) = Some n"
    and "main_settled W (hd (pd_containers (dp_pod desired))) (snd (drift W d desired n))"
    by (simp_all add: drift_def)
qed

text \<open>
  C30. One update is enough: what a controller writes when a Deployment of a spawner, a Deployment of
  a proxy or a CronJob that refreshes credentials has drifted needs no further update; the Deployment
  of a spawner then has the replicas and the main container that are desired.
\<close>
theorem one_update_settles:
  "drift W (snd (drift W d desired n)) desired n = (False, snd (drift W d desired n))
   \<and> dp_replicas (snd (drift W d desired n)) = Some n
   \<and> main_settled W (hd (pd_containers (dp_pod desired))) (snd (drift W d desired n))
   \<and> proxy_drift W (snd (proxy_drift W d (desired\<lparr>dp_replicas := Some n\<rparr>))) (desired\<lparr>dp_replicas := Some n\<rparr>)
     = (False, snd (proxy_drift W d (desired\<lparr>dp_replicas := Some n\<rparr>)))
   \<and> updateCodexAuthRefresherCronJob W (snd (updateCodexAuthRefresherCronJob W c wanted)) wanted
     = (False, snd (updateCodexAuthRefresherCronJob W c wanted))"
  using spawner_drift.settle_once proxy_drift.settle_once refresher_drift.settle_once
  by (simp add: drift_def proxy_drift_def updateCodexAuthRefresherCronJob_def drift_replicas [unfolded drift_def]
      drift_main [unfolded drift_def])

section \<open>Workloads follow their spawner\<close>

lemma effective_ref_simps [simp]:
  "s_meta (taskSpawnerWithEffectiveWorkspaceRef ts ref) = s_meta ts"
  "s_when (taskSpawnerWithEffectiveWorkspaceRef ts ref) = s_when ts"
  "s_suspend (taskSpawnerWithEffectiveWorkspaceRef ts ref) = s_suspend ts"
  by (simp_all add: taskSpawnerWithEffectiveWorkspaceRef_def)

definition polls :: "task_spawner \<Rightarrow> bool" where
  "polls ts \<longleftrightarrow> \<not> isCronBased ts \<and> \<not> isWebhookBased ts"

definition runs_spawner :: "task_spawner \<Rightarrow> pod_spec \<Rightarrow> bool" where
  "runs_spawner ts pod =
     (case pd_containers pod of
        [c] \<Rightarrow> take 2 (ct_args c) = [''--taskspawner-name='' @ s_name ts, ''--taskspawner-namespace='' @ s_namespace ts]
      | _ \<Rightarrow> False)"

fun fits :: "task_spawner \<Rightarrow> call \<Rightarrow> bool" where
  "fits ts (CreateDeployment d) =
     (polls ts \<and> dp_replicas d = Some (if suspended ts then 0 else 1) \<and> runs_spawner ts (dp_pod d))"
| "fits ts (UpdateDeployment d) = (polls ts \<and> dp_replicas d = Some (if suspended ts then 0 else 1))"
| "fits ts (CreateCronJob c) =
     (wn_cron (s_when ts) = Some (cjs_schedule (cj_spec c)) \<and> cjs_suspend (cj_spec c) = Some (suspended ts)
      \<and> runs_spawner ts (cj_pod c))"
| "fits ts (DryRunCronJob c) =
     (wn_cron (s_when ts) = Some (cjs_schedule (cj_spec c)) \<and> cjs_suspend (cj_spec c) = Some (suspended ts)
      \<and> runs_spawner ts (cj_pod c))"
| "fits ts (UpdateCronJob c) = isCronBased ts"
| "fits ts _ = True"

lemma suspended_effective [simp]: "suspended (taskSpawnerWithEffectiveWorkspaceRef ts ref) = suspended ts"
  by (simp add: suspended_def)

lemma built_deployment [simp]:
  "runs_spawner ts (dp_pod (spawner_deployment E W (taskSpawnerWithEffectiveWorkspaceRef ts ref) ws app))"
  by (simp add: spawner_deployment_def Let_def runs_spawner_def spawner_container_def buildPodParts_def numeral_2_eq_2)

lemma built_cron_job [simp]:
  "runs_spawner ts (cj_pod (BuildCronJob E W (taskSpawnerWithEffectiveWorkspaceRef ts ref) ws app))"
  "cjs_schedule (cj_spec (BuildCronJob E W (taskSpawnerWithEffectiveWorkspaceRef ts ref) ws app))
     = (case wn_cron (s_when ts) of None \<Rightarrow> [] | Some schedule \<Rightarrow> schedule)"
  by (simp_all add: BuildCronJob_def Let_def runs_spawner_def spawner_container_def buildPodParts_def
      blank_job_spec_def numeral_2_eq_2)

lemma emits_delete_existing [emits_intro]: "P c \<Longrightarrow> emits P (delete_existing E c)"
  unfolding delete_existing_def by (intro emits_intro; simp)

lemma emits_ensure_exists [emits_intro]: "emits P look \<Longrightarrow> P c \<Longrightarrow> emits P (ensure_exists E look c)"
  unfolding ensure_exists_def by (intro emits_intro; simp)


lemma drift_eq: "drift W d desired n = (b, d') \<Longrightarrow> dp_replicas d' = Some n"
  using drift_replicas [of W d desired n] by simp

lemma emits_modify_spawner_status [emits_intro]:
  "(\<And>ns name. P (Read ''TaskSpawner'' ns name)) \<Longrightarrow> (\<And>ts. P (UpdateSpawnerStatus ts)) \<Longrightarrow>
   emits P (modify_spawner_status E W ts f)"
  unfolding modify_spawner_status_def by (intro emits_intro; assumption)

lemma fits_deleteStaleResource [emits_intro]:
  "(\<And>a b. fits ts (del a b)) \<Longrightarrow> emits (fits ts) (deleteStaleResource E meta q kind del ns name)"
  unfolding deleteStaleResource_def by (intro emits_intro; simp only: fits.simps)

lemma fits_look_up [emits_intro]: "emits (fits ts) (look_up q kind ns name)"
  unfolding look_up_def by (intro emits_intro; simp only: fits.simps)

lemma fits_ensureSpawnerRBAC [emits_intro]: "emits (fits ts) (ensureSpawnerRBAC E W ns)"
  unfolding ensureSpawnerRBAC_def by (intro emits_intro; simp only: fits.simps)

lemma fits_resolveRef [emits_intro]: "emits (fits ts) (resolveTaskSpawnerWorkspaceRef E ts')"
  unfolding resolveTaskSpawnerWorkspaceRef_def Let_def by (intro emits_intro; simp only: fits.simps)

lemma fits_resolve [emits_intro]: "emits (fits ts) (resolveTaskSpawnerWorkspace E ts')"
  unfolding resolveTaskSpawnerWorkspace_def by (intro emits_intro; simp only: fits.simps)

lemma fits_reject_override [emits_intro]:
  "(\<And>c. del = Some c \<Longrightarrow> fits ts c) \<Longrightarrow> emits (fits ts) (reject_override E W ts' del e)"
  unfolding reject_override_def by (intro emits_intro; simp only: fits.simps)

lemma fits_migrate [emits_intro]: "emits (fits ts) (migrate_deployment E d)"
  unfolding migrate_deployment_def by (intro emits_intro; simp only: fits.simps)

lemma fits_countActiveTasks [emits_intro]: "emits (fits ts) (countActiveTasks W ns name)"
  unfolding countActiveTasks_def by (intro emits_intro; simp only: fits.simps)

lemma fits_createDeployment:
  assumes "polls ts"
  shows "emits (fits ts) (createDeployment E W (taskSpawnerWithEffectiveWorkspaceRef ts ref) ws app
           (if suspended ts then 0 else 1))"
  unfolding createDeployment_def Let_def
  by (intro emits_intro; simp only: fits.simps) (simp add: assms)

lemma fits_keep_deployment:
  assumes "polls ts"
  shows "emits (fits ts) (keep_deployment E W ts' ts'' d ws app (if suspended ts then 0 else 1))"
  unfolding keep_deployment_def updateDeployment_def Let_def
  by (intro emits_intro; simp only: fits.simps) (simp add: assms drift_eq)

lemma fits_deployment:
  assumes "polls ts"
  shows "emits (fits ts) (spawner_reconcileDeployment E W ts)"
  unfolding spawner_reconcileDeployment_def place_deployment_def Let_def
  by (intro emits_intro fits_createDeployment fits_keep_deployment assms; auto simp only: fits.simps)

lemma fits_write_cron_job [emits_intro]: "isCronBased ts \<Longrightarrow> emits (fits ts) (write_cron_job E c name)"
  unfolding write_cron_job_def by (intro emits_intro; simp only: fits.simps)

lemma fits_createCronJob:
  assumes "isCronBased ts"
  shows "emits (fits ts) (createCronJob E W (taskSpawnerWithEffectiveWorkspaceRef ts ref) ws app (suspended ts))"
  unfolding createCronJob_def Let_def
  by (intro emits_intro; simp only: fits.simps) (use assms in \<open>auto simp: isCronBased_def split: option.splits\<close>)

lemma fits_keep_cron_job:
  assumes "isCronBased ts"
  shows "emits (fits ts) (keep_cron_job E W ts (taskSpawnerWithEffectiveWorkspaceRef ts ref) c ws app)"
  unfolding keep_cron_job_def updateCronJob_def Let_def
  by (intro emits_intro assms; simp only: fits.simps) (use assms in \<open>auto simp: isCronBased_def split: option.splits\<close>)

lemma fits_cron_job:
  assumes "isCronBased ts"
  shows "emits (fits ts) (reconcileCronJob E W ts)"
  unfolding reconcileCronJob_def place_cron_job_def Let_def
  by (intro emits_intro fits_createCronJob fits_keep_cron_job assms; auto simp only: fits.simps)

lemma fits_webhook [emits_intro]: "emits (fits ts) (reconcileWebhook E W ts)"
  unfolding reconcileWebhook_def Let_def by (intro emits_intro; simp only: fits.simps)

lemma fits_workload: "emits (fits ts) (serve_workload E W ts)"
  unfolding serve_workload_def
  by (intro emits_intro fits_cron_job fits_deployment) (auto simp: polls_def)

text \<open>Writes of Deployments and CronJobs.\<close>

fun writes_workload :: "call \<Rightarrow> bool" where
  "writes_workload (CreateDeployment d) = True"
| "writes_workload (UpdateDeployment d) = True"
| "writes_workload (CreateCronJob c) = True"
| "writes_workload (UpdateCronJob c) = True"
| "writes_workload _ = False"

text \<open>The spawner that a run of the controller has read, which is to be served.\<close>

definition served :: "workload_env \<Rightarrow> call list \<Rightarrow> string \<Rightarrow> string \<Rightarrow> task_spawner \<Rightarrow> bool" where
  "served W calls ns name ts \<longleftrightarrow>
     o_spawner W calls ns name = Inr ts \<and> m_deletion (s_meta ts) = None
     \<and> taskSpawnerFinalizer \<in> set (m_finalizers (s_meta ts))"


text \<open>A cluster with one spawner that polls.\<close>

definition idle_spawner :: task_spawner where
  "idle_spawner =
     plain_spawner\<lparr>s_meta := (s_meta plain_spawner)\<lparr>m_finalizers := [taskSpawnerFinalizer]\<rparr>,
                   s_when := (s_when plain_spawner)\<lparr>wn_cron := None\<rparr>\<rparr>"

definition spawner_cluster :: workload_env where
  "spawner_cluster = idle_workload_env\<lparr>o_spawner := (\<lambda>h ns name. Inr idle_spawner)\<rparr>"


section \<open>Events reach the spawners they concern\<close>

lemma pool_names:
  assumes "p \<in> set pools" and "distinct (map wp_name pools)" and "wk_workspace (wp_worker p) = Some ref"
  shows "map_str (foldl (\<lambda>names pool. case wk_workspace (wp_worker pool) of
                     None \<Rightarrow> names | Some ref \<Rightarrow> map_put (wp_name pool) ref names) names pools) (wp_name p) = ref"
  using assms
proof (induction pools rule: rev_induct)
  case (snoc q pools)
  then show ?case by (cases "q = p") (auto split: option.splits)
qed simp

text \<open>A namespace that stands still: its pools and its spawners, each read as it is listed.\<close>

definition still :: "env \<Rightarrow> workload_env \<Rightarrow> string \<Rightarrow> worker_pool list \<Rightarrow> task_spawner list \<Rightarrow> bool" where
  "still E W ns pools spawners \<longleftrightarrow>
     (\<forall>h name p. q_pool E h ns name = Inr p \<longrightarrow> p \<in> set pools \<and> wp_name p = name)
     \<and> distinct (map wp_name pools) \<and> (\<forall>h. q_pools E h ns [] = Inr pools)
     \<and> (\<forall>h. o_spawners W h ns [] = Inr spawners) \<and> (\<forall>ts \<in> set spawners. s_namespace ts = ns)"

lemma still_pool:
  assumes "still E W ns pools spawners" and "q_pool E h ns name = Inr p" and "wk_workspace (wp_worker p) = Some ref"
  shows "map_str (fst (run_state (workerPoolWorkspaceNames E ns) w)) name = ref"
proof -
  from assms(1,2) have "p \<in> set pools" "wp_name p = name" "distinct (map wp_name pools)" "q_pools E (w_calls w) ns [] = Inr pools"
    by (auto simp: still_def)
  with pool_names [OF this(1,3) assms(3)] show ?thesis by (simp add: workerPoolWorkspaceNames_def io_run)
qed

lemma pool_resolved:
  assumes "fst (run_state (resolveTaskSpawnerWorkspaceRef E ts) w) = Inr (Some ref)"
    and "tt_workspace (s_template ts) = None" and "(case tt_worker (s_template ts) of None \<Rightarrow> None | Some x \<Rightarrow> wk_workspace x) = None"
  obtains name p where "tt_pool (s_template ts) = Some name" and "q_pool E (w_calls w) (s_namespace ts) name = Inr p"
    and "wk_workspace (wp_worker p) = Some ref"
proof (cases "tt_pool (s_template ts)")
  case None
  with assms show thesis by (simp add: resolveTaskSpawnerWorkspaceRef_def)
next
  case (Some name)
  show thesis
  proof (cases "q_pool E (w_calls w) (s_namespace ts) name")
    case (Inl e)
    with Some assms show thesis
      by (cases "is_not_found e") (simp_all add: resolveTaskSpawnerWorkspaceRef_def io_run split_beta)
  next
    case (Inr p)
    with Some assms show thesis by (intro that [of name p]) (simp_all add: resolveTaskSpawnerWorkspaceRef_def io_run)
  qed
qed

lemma effective_workspace:
  assumes still: "still E W ns pools spawners" and ts: "ts \<in> set spawners"
    and ref: "fst (run_state (resolveTaskSpawnerWorkspaceRef E ts) w) = Inr (Some ref)"
  shows "taskSpawnerEffectiveWorkspaceName ts (fst (run_state (workerPoolWorkspaceNames E ns) w')) = ref"
proof -
  let ?own = "case tt_worker (s_template ts) of None \<Rightarrow> None | Some x \<Rightarrow> wk_workspace x"
  have ns: "s_namespace ts = ns" using still ts by (simp add: still_def)
  consider "tt_workspace (s_template ts) \<noteq> None" | "tt_workspace (s_template ts) = None" "?own \<noteq> None"
    | "tt_workspace (s_template ts) = None" "?own = None" by blast
  then show ?thesis
  proof cases
    case 3
    from ref 3 obtain name p where "tt_pool (s_template ts) = Some name"
      "q_pool E (w_calls w) (s_namespace ts) name = Inr p" "wk_workspace (wp_worker p) = Some ref"
      by (rule pool_resolved)
    with 3 still_pool [OF still] ns show ?thesis by (simp add: taskSpawnerEffectiveWorkspaceName_def)
  qed (use ref in \<open>auto simp: resolveTaskSpawnerWorkspaceRef_def taskSpawnerEffectiveWorkspaceName_def Let_def\<close>)
qed

text \<open>
  C31. Whenever the controller resolves a workspace for a spawner, an event of that workspace
  reconciles the spawner, and so does an event of the Secret that the workspace names: the three
  places that determine the workspace of a spawner (its template, its own worker, its worker pool)
  are looked at in the same order.
\<close>
theorem workspace_watched:
  assumes still: "still E W ns pools spawners" and ts: "ts \<in> set spawners"
    and ref: "fst (run_state (resolveTaskSpawnerWorkspaceRef E ts) w) = Inr (Some ref)"
  shows "spawner_request ts \<in> set (fst (run_state (findTaskSpawnersForWorkspace E W ns ref) w'))
    \<and> (\<forall>h workspaces ws secret. q_workspaces E h ns [] = Inr workspaces \<and> (ref, ws) \<in> set workspaces \<and> ws_secret ws = Some secret
         \<longrightarrow> spawner_request ts \<in> set (fst (run_state (findTaskSpawnersForSecret E W ns secret) (w'\<lparr>w_calls := h\<rparr>))))"
proof -
  have found: "spawner_request ts \<in> set (fst (run_state (spawners_on E W ns P) w1))" if "P ref" for P w1
    using still ts that effective_workspace [OF still ts ref]
    by (auto simp: spawners_on_def still_def io_run split_beta)
  have named: "spawner_request ts \<in> set (fst (run_state (findTaskSpawnersForSecret E W ns secret) w1))"
    if "q_workspaces E (w_calls w1) ns [] = Inr workspaces" "(ref, ws) \<in> set workspaces" "ws_secret ws = Some secret"
    for w1 workspaces ws secret
  proof -
    let ?names = "map fst (filter (\<lambda>(name, ws). ws_secret ws = Some secret) workspaces)"
    from that(2,3) have "ref \<in> set ?names" by force
    then have "?names \<noteq> []" by (metis list.distinct(1) list.set_cases)
    with that(1) have "run_state (findTaskSpawnersForSecret E W ns secret) w1
        = run_state (spawners_on E W ns (\<lambda>name. name \<in> set ?names)) (w1\<lparr>w_calls := w_calls w1 @ [Read ''WorkspaceList'' ns []]\<rparr>)"
      by (simp only: findTaskSpawnersForSecret_def Let_def io_run sum.case if_False prod.case run_state_bind)
    with found [of "\<lambda>name. name \<in> set ?names"] \<open>ref \<in> set ?names\<close> show ?thesis by simp
  qed
  show ?thesis
    by (auto simp: findTaskSpawnersForWorkspace_def found intro!: named)
qed

definition pool_at_work :: worker_pool where
  "pool_at_work =
     \<lparr>wp_meta = blank_meta\<lparr>m_name := ''pool'', m_namespace := ''default''\<rparr>,
      wp_worker = \<lparr>wk_type = ''codex'', wk_credentials = None, wk_model = [], wk_effort = [], wk_image = [],
        wk_workspace = Some ''work'', wk_agent_configs = [], wk_pod_overrides = None\<rparr>,
      wp_replicas = Some 1, wp_claim_template = Opaque [], wp_status =
        \<lparr>wps_generation = 0, wps_phase = PoolUnset, wps_stateful_set = [], wps_service = [], wps_replicas = 0,
         wps_ready = 0, wps_message = []\<rparr>\<rparr>"

definition pooled_spawner :: task_spawner where
  "pooled_spawner = idle_spawner\<lparr>s_template := plain_template\<lparr>tt_pool := Some ''pool''\<rparr>\<rparr>"

definition pooled_cluster :: env where
  "pooled_cluster = idle_cluster\<lparr>q_pool := (\<lambda>h ns name. if name = ''pool'' then Inr pool_at_work else not_found),
                                 q_pools := (\<lambda>h ns name. Inr [pool_at_work])\<rparr>"

definition pooled_workloads :: workload_env where
  "pooled_workloads = idle_workload_env\<lparr>o_spawners := (\<lambda>h ns name. Inr [pooled_spawner])\<rparr>"

lemma workspace_watched_witness:
  "(''default'', ''fix'') \<in> set (fst (run_state
     (findTaskSpawnersForWorkspace pooled_cluster pooled_workloads ''default'' ''work'') start))"
proof -
  have still: "still pooled_cluster pooled_workloads ''default'' [pool_at_work] [pooled_spawner]"
    by (simp add: still_def pooled_cluster_def pooled_workloads_def pool_at_work_def pooled_spawner_def idle_spawner_def
        plain_spawner_def not_found_def blank_meta_def)
  have "fst (run_state (resolveTaskSpawnerWorkspaceRef pooled_cluster pooled_spawner) start) = Inr (Some ''work'')"
    by code_simp
  from workspace_watched [OF still _ this, of start] show ?thesis
    by (simp add: spawner_request_def pooled_spawner_def idle_spawner_def plain_spawner_def blank_meta_def)
qed

section \<open>Whose Deployment it is\<close>

lemma settle_keeps:
  assumes "\<And>ok put x. (ok, put) \<in> set parts \<Longrightarrow> f (put x) = f x"
  shows "f (snd (settle parts x)) = f x"
proof -
  have "f (snd (foldl (\<lambda>r (ok, put). if ok (snd r) then r else (True, put (snd r))) r ps)) = f (snd r)"
    if "set ps \<subseteq> set parts" for r ps
    using that assms by (induction ps arbitrary: r) auto
  from this [of parts "(False, x)"] show ?thesis by (simp add: settle_def)
qed

lemma drift_meta [simp]: "dp_meta (snd (drift W d desired n)) = dp_meta d"
  unfolding drift_def by (rule settle_keeps) (auto simp: drift_parts_def put_main_def)

lemma bind_calls:
  assumes "\<And>a. emits (\<lambda>c. True) (f a)" and "c \<in> set (new_calls w (snd (run_state m w)))"
  shows "c \<in> set (new_calls w (snd (run_state (State_Monad.bind m f) w)))"
proof -
  obtain a v where m: "run_state m w = (a, v)" by fastforce
  from assms(1) [of a] obtain cs where "w_calls (snd (run_state (f a) v)) = w_calls v @ cs"
    by (auto simp: emits_def)
  with assms(2) m show ?thesis by simp
qed

lemma drift_written:
  assumes "drift W d (spawner_deployment E W ts ws app) n = (True, D)"
  shows "UpdateDeployment D \<in> set (new_calls w (snd (run_state (updateDeployment E W ts d ws app n) w)))"
  unfolding updateDeployment_def Let_def assms prod.case not_True_eq_False if_False
  by (rule bind_calls) ((intro emits_intro; rule TrueI), simp add: io_run)

lemma keep_updates:
  assumes "drift W d (spawner_deployment E W ts ws app) n = (True, D)"
  shows "UpdateDeployment D \<in> set (new_calls w (snd (run_state (keep_deployment E W ts' ts d ws app n) w)))"
  unfolding keep_deployment_def Let_def
  by (rule bind_calls [OF _ drift_written [OF assms]]) (intro emits_intro; rule TrueI)

lemma new_calls_after:
  "c \<in> set (new_calls (w\<lparr>w_calls := w_calls w @ h\<rparr>) w') \<Longrightarrow> c \<in> set (new_calls w w')"
  using set_drop_subset_set_drop [of "length (w_calls w)" "length (w_calls w) + length h" "w_calls w'"] by auto

text \<open>
  C32. A Deployment with the name of a spawner that belongs to someone else is not spared: when it does
  not look like the one of the spawner, the controller overwrites its containers, its volumes and its
  replicas, although it deletes a Deployment of that name only if the spawner owns it.
\<close>
theorem foreign_deployment_rewritten:
  assumes foreign: "\<not> owned_by_spawner (dp_meta d)" and new: "\<not> stale_selector d"
    and there: "\<And>h. o_deployment W h (s_namespace ts) (s_name ts) = Inr d"
    and bare: "tt_workspace (s_template ts) = None" "tt_worker (s_template ts) = None" "tt_pool (s_template ts) = None"
    and alone: "\<And>h. o_cron_job W h (s_namespace ts) (s_name ts) = Inl (GoErr NotFound message)"
    and unlike: "fst (drift W d (spawner_deployment E W ts None False) (if suspended ts then 0 else 1))"
  shows "\<exists>d'. UpdateDeployment d' \<in> set (new_calls w (snd (run_state (spawner_reconcileDeployment E W ts) w)))
              \<and> dp_meta d' = dp_meta d \<and> dp_replicas d' = Some (if suspended ts then 0 else 1)
              \<and> run_state (delete_stale_deployment E W (s_namespace ts) (s_name ts)) w
                = (None, w\<lparr>w_calls := w_calls w @ [Read ''Deployment'' (s_namespace ts) (s_name ts)]\<rparr>)"
proof -
  let ?n = "if suspended ts then 0 else 1"
  let ?d = "snd (drift W d (spawner_deployment E W ts None False) ?n)"
  let ?h = "w_calls w @ [Read ''CronJob'' (s_namespace ts) (s_name ts), Read ''Deployment'' (s_namespace ts) (s_name ts)]"
  have resolved: "run_state (resolveTaskSpawnerWorkspace E ts) v = (Inr (None, None, False), v)" for v
    by (simp add: resolveTaskSpawnerWorkspace_def resolveTaskSpawnerWorkspaceRef_def bare)
  have "drift W d (spawner_deployment E W ts None False) ?n = (True, ?d)"
    using unlike by (simp add: prod_eq_iff)
  then have "UpdateDeployment ?d \<in> set (new_calls (w\<lparr>w_calls := ?h\<rparr>) (snd (run_state
      (keep_deployment E W ts ts d None False ?n) (w\<lparr>w_calls := ?h\<rparr>))))"
    by (rule keep_updates)
  then have rewritten: "UpdateDeployment ?d \<in> set (new_calls w (snd (run_state
      (keep_deployment E W ts ts d None False ?n) (w\<lparr>w_calls := ?h\<rparr>))))"
    by (rule new_calls_after)
  have "run_state (spawner_reconcileDeployment E W ts) w
     = run_state (keep_deployment E W ts ts d None False ?n) (w\<lparr>w_calls := ?h\<rparr>)"
    by (simp add: spawner_reconcileDeployment_def place_deployment_def deleteStaleResource_def migrate_deployment_def io_run
        resolved there alone new is_not_found_def workspaceUsesGHProxy_def taskSpawnerWithEffectiveWorkspaceRef_def Let_def)
  with rewritten have "UpdateDeployment ?d \<in> set (new_calls w (snd (run_state (spawner_reconcileDeployment E W ts) w)))"
    by simp
  moreover have "run_state (delete_stale_deployment E W (s_namespace ts) (s_name ts)) w
      = (None, w\<lparr>w_calls := w_calls w @ [Read ''Deployment'' (s_namespace ts) (s_name ts)]\<rparr>)"
    using foreign by (simp add: deleteStaleResource_def io_run there)
  ultimately show ?thesis using drift_meta drift_replicas by metis
qed

definition foreign_deployment :: deployment where
  "foreign_deployment =
     \<lparr>dp_meta = blank_meta\<lparr>m_name := ''fix'', m_namespace := ''default''\<rparr>, dp_replicas = Some 3, dp_selector = [],
      dp_template = \<lparr>tpl_labels = [], tpl_annotations = [],
        tpl_spec = blank_pod_spec\<lparr>pd_containers := [blank_container\<lparr>ct_name := ''web'', ct_image := ''nginx''\<rparr>]\<rparr>\<rparr>,
      dp_rest = nothing\<rparr>"

definition shared_cluster :: workload_env where
  "shared_cluster =
     idle_workload_env\<lparr>o_deployment := (\<lambda>h ns name. Inr foreign_deployment),
                       o_cron_job := (\<lambda>h ns name. Inl (GoErr NotFound ''not found''))\<rparr>"

lemma foreign_deployment_rewritten_witness:
  "\<exists>d'. UpdateDeployment d' \<in> set (w_calls (snd (run_state (spawner_reconcileDeployment idle_cluster shared_cluster idle_spawner) start)))
     \<and> dp_meta d' = dp_meta foreign_deployment \<and> dp_replicas d' = Some 1"
proof -
  have foreign: "\<not> owned_by_spawner (dp_meta foreign_deployment)" and new: "\<not> stale_selector foreign_deployment"
    by code_simp+
  have there: "o_deployment shared_cluster h ns name = Inr foreign_deployment"
    and alone: "o_cron_job shared_cluster h ns name = Inl (GoErr NotFound ''not found'')" for h ns name
    by (simp_all add: shared_cluster_def)
  have bare: "tt_workspace (s_template idle_spawner) = None" "tt_worker (s_template idle_spawner) = None"
    "tt_pool (s_template idle_spawner) = None" by code_simp+
  have unlike: "fst (drift shared_cluster foreign_deployment (spawner_deployment idle_cluster shared_cluster idle_spawner None False)
      (if suspended idle_spawner then 0 else 1))" by code_simp
  have "\<not> suspended idle_spawner" by code_simp
  then show ?thesis
    using foreign_deployment_rewritten [OF foreign new there bare alone unlike, of start] by (fastforce dest: in_set_dropD)
qed

end
