(* ===== verification/CodexFacts.thy ===== *)
theory CodexFacts
  imports CodexRefresher TaskFacts WorkloadCluster
begin

text \<open>
  What the refresh of Codex credentials guarantees: valid names, tokens that are merged key by key,
  and writes of nothing but the key of the Secret that asked for it.
\<close>

section \<open>Names\<close>

lemma trim_dash_set: "set (trim_dash s) \<subseteq> set s"
  by (auto simp: trim_dash_def dest!: set_dropWhileD)

lemma trim_dash_length: "length (trim_dash s) \<le> length s"
  unfolding trim_dash_def by (metis length_dropWhile_le length_rev le_trans)

lemma single_dashes_set: "set (single_dashes s) \<subseteq> set s"
  by (induction s rule: single_dashes.induct) auto

lemma replace_runs_dns: "c \<in> set (replace_runs inside s) \<Longrightarrow> dns_name_char c"
  by (induction inside s rule: replace_runs.induct) (auto simp: dns_name_char_def split: if_splits)

lemma fragment_dns: "c \<in> set (dnsNameFragment s) \<Longrightarrow> dns_name_char c"
  using single_dashes_set trim_dash_set replace_runs_dns unfolding dnsNameFragment_def by blast

text \<open>
  The name of the CronJob that refreshes the credentials of a Secret, which its account, role and
  binding share, has at most 52 characters, the most that a CronJob may have, and only lower-case
  letters, digits and dashes, begins with a letter and ends with the digest, whatever the names of
  Secret and namespace are.
\<close>
theorem cron_job_name_valid:
  assumes digest: "length (l_sha256_10 W (namespace @ ''/'' @ secret)) = 10"
    and chars: "list_all dns_name_char (l_sha256_10 W (namespace @ ''/'' @ secret))"
  shows "length (CodexAuthRefresherCronJobName W namespace secret) \<le> codexAuthRefresherCronJobNameMaxLength
     \<and> list_all dns_name_char (CodexAuthRefresherCronJobName W namespace secret)
     \<and> hd (CodexAuthRefresherCronJobName W namespace secret) = CHR ''k''
     \<and> last (CodexAuthRefresherCronJobName W namespace secret)
       = last (l_sha256_10 W (namespace @ ''/'' @ secret))"
proof -
  let ?d = "l_sha256_10 W (namespace @ ''/'' @ secret)"
  let ?full = "dnsNameFragment (namespace @ ''-'' @ secret)"
  obtain base where name: "CodexAuthRefresherCronJobName W namespace secret = codexAuthRefresherCronJobNamePrefix @ base @ ''-'' @ ?d"
    and base: "length base \<le> 24" "list_all dns_name_char base"
  proof (rule that [of "if (if 24 < length ?full then trim_dash (take 24 ?full) else ?full) = [] then ''secret''
      else if 24 < length ?full then trim_dash (take 24 ?full) else ?full"])
    show "list_all dns_name_char (if (if 24 < length ?full then trim_dash (take 24 ?full) else ?full) = [] then ''secret''
      else if 24 < length ?full then trim_dash (take 24 ?full) else ?full)"
      using trim_dash_set [of "take 24 ?full"] by (auto simp: list_all_iff dest: in_set_takeD fragment_dns) (auto simp: dns_name_char_def)
  qed (use digest trim_dash_length [of "take 24 ?full"] in \<open>simp_all add: CodexAuthRefresherCronJobName_def Let_def
      codexAuthRefresherCronJobNameMaxLength_def codexAuthRefresherCronJobNamePrefix_def\<close>)
  have "list_all dns_name_char (codexAuthRefresherCronJobNamePrefix @ ''-'')" by code_simp
  moreover have "?d \<noteq> []" using digest by auto
  moreover have "length codexAuthRefresherCronJobNamePrefix = 17" "hd codexAuthRefresherCronJobNamePrefix = CHR ''k''"
    "codexAuthRefresherCronJobNamePrefix \<noteq> []" by (simp_all add: codexAuthRefresherCronJobNamePrefix_def)
  ultimately show ?thesis
    using digest chars base unfolding name codexAuthRefresherCronJobNameMaxLength_def
    by simp
qed

lemma cron_job_name_valid_witness:
  "length (CodexAuthRefresherCronJobName idle_workload_env ''Team.A'' ''an_extraordinarily_long_name'') \<le> 52"
  using cron_job_name_valid [of idle_workload_env "''Team.A''" "''an_extraordinarily_long_name''"]
  by (simp add: idle_workload_env_def codexAuthRefresherCronJobNameMaxLength_def dns_name_char_def)

section \<open>Tokens\<close>

lemma take_over_at:
  "map_of (take_over response tokens key) k =
     (if k = key \<and> (\<exists>v. map_of response key = Some v \<and> v \<noteq> JNull \<and> v \<noteq> JText []) then map_of response key
      else map_of tokens k)"
  by (auto simp: take_over_def update_conv' split: option.splits)

lemma take_over_all:
  "map_of (foldl (take_over response) tokens keys) k =
     (if k \<in> set keys \<and> (\<exists>v. map_of response k = Some v \<and> v \<noteq> JNull \<and> v \<noteq> JText []) then map_of response k
      else map_of tokens k)"
  by (induction keys arbitrary: tokens) (auto simp: take_over_at)

definition replaces :: "(string \<times> jvalue) list \<Rightarrow> string \<Rightarrow> bool" where
  "replaces response k \<longleftrightarrow>
     k \<in> set token_keys \<and> (case map_of response k of None \<Rightarrow> False | Some v \<Rightarrow> v \<noteq> JNull \<and> v \<noteq> JText [])"

text \<open>
  C34. What is stored after a refresh: each of the seven token fields is the one of the response if it
  is there and not empty, and the old one otherwise, so that a response without a new refresh token
  keeps the old one; only an old expiry time goes when the response tells a duration instead. Every
  other field of the tokens stays, and so does every field of the bundle but the tokens and the time
  of the refresh.
\<close>
theorem tokens_merged:
  "map_of (merged_tokens response tokens) k =
     (if replaces response k then map_of response k
      else if k = ''expires_at'' \<and> map_of response ''expires_in'' \<noteq> None
              \<and> map_of response ''expires_at'' \<noteq> Some (JText []) then None
      else map_of tokens k)"
proof (cases "replaces response k")
  case False
  have "''expires_at'' \<in> set token_keys" by code_simp
  with False show ?thesis
    unfolding merged_tokens_def Let_def take_over_all replaces_def
    by (cases "map_of response ''expires_at''"; cases "k = ''expires_at''") (auto simp: delete_conv' split: option.splits)
qed (auto simp: merged_tokens_def Let_def take_over_all replaces_def split: option.splits)

section \<open>Writes\<close>

text \<open>
  What a refresh for a Secret as it was first read may do: read, send its refresh token to the token
  endpoint, and write this Secret as it was read at some point, with the bundle replaced by what the
  response makes of the old one.
\<close>

definition bundle_of :: "refresh_env \<Rightarrow> secret \<Rightarrow> (string \<times> jvalue) list \<Rightarrow> (string \<times> jvalue) list \<Rightarrow> bool" where
  "bundle_of R asked bundle tokens \<longleftrightarrow>
     (\<exists>raw. map_of (sec_data asked) codexSecretKey = Some raw \<and> rf_parse R raw = Inr bundle)
     \<and> object_field bundle ''tokens'' = Some tokens \<and> text_field tokens ''refresh_token'' \<noteq> []"

definition refreshed_from :: "env \<Rightarrow> refresh_env \<Rightarrow> secret \<Rightarrow> string \<Rightarrow> bool" where
  "refreshed_from E R asked updated \<longleftrightarrow>
     (\<exists>bundle tokens now body. bundle_of R asked bundle tokens \<and> refreshed_bundle E R now bundle tokens body = Inr updated)"

fun refreshes :: "env \<Rightarrow> refresh_env \<Rightarrow> secret \<Rightarrow> call \<Rightarrow> bool" where
  "refreshes E R asked (Read kind ns name) = True"
| "refreshes E R asked (HttpPost url body) =
     (url = oauthTokenURL \<and> (\<exists>bundle tokens. bundle_of R asked bundle tokens \<and> body = rf_form R (refresh_form bundle tokens)))"
| "refreshes E R asked (UpdateSecret s) =
     (\<exists>h current updated. rf_secret R h (sec_namespace asked) (sec_name asked) = Inr current
        \<and> refreshed_from E R asked updated
        \<and> s = current\<lparr>sec_data := map_put codexSecretKey updated (sec_data current)\<rparr>)"
| "refreshes E R asked _ = False"

lemma emits_post [emits_intro]: "P (HttpPost oauthTokenURL (rf_form R form)) \<Longrightarrow> emits P (post_form R form)"
  by (simp add: emits_def post_form_def)

lemma emits_read_bind:
  assumes "P (Read kind ns name)" and "\<And>h. emits P (f (q h ns name))"
  shows "emits P (State_Monad.bind (read_obj q kind ns name) f)"
  unfolding emits_def
proof
  fix w :: world
  let ?v = "w\<lparr>w_calls := w_calls w @ [Read kind ns name]\<rparr>"
  obtain cs where "w_calls (snd (run_state (f (q (w_calls w) ns name)) ?v)) = w_calls ?v @ cs" "list_all P cs"
    using assms(2) [of "w_calls w"] unfolding emits_def by blast
  with assms(1) show "\<exists>cs. w_calls (snd (run_state (State_Monad.bind (read_obj q kind ns name) f) w)) = w_calls w @ cs \<and> list_all P cs"
    by (simp add: io_run)
qed

lemma refreshes_store:
  assumes "refreshed_from E R asked updated"
  shows "emits (refreshes E R asked) (store_refreshed E R asked updated)"
  unfolding store_refreshed_def Let_def
  by (intro emits_read_bind emits_intro; simp only: refreshes.simps) (use assms in blast)

lemma refreshes_post:
  assumes "map_of (sec_data asked) codexSecretKey = Some raw"
  shows "emits (refreshes E R asked) (refreshWithOAuthToken E R raw)"
  unfolding refreshWithOAuthToken_def
  by (intro emits_intro; simp only: refreshes.simps) (use assms in \<open>auto simp: bundle_of_def\<close>)

lemma refresh_result:
  assumes "map_of (sec_data asked) codexSecretKey = Some raw"
    and "fst (run_state (refreshWithOAuthToken E R raw) w) = Inr updated"
  shows "refreshed_from E R asked updated"
proof -
  obtain b where parsed: "rf_parse R raw = Inr b"
    using assms(2) by (cases "rf_parse R raw") (simp_all add: refreshWithOAuthToken_def)
  with assms(2) parsed obtain tokens where tokens: "object_field b ''tokens'' = Some tokens" "text_field tokens ''refresh_token'' \<noteq> []"
    by (cases "object_field b ''tokens''") (auto simp: refreshWithOAuthToken_def split: if_splits)
  with assms(2) parsed have "\<exists>now body. refreshed_bundle E R now b tokens body = Inr updated"
    by (auto simp: refreshWithOAuthToken_def post_form_def clock_def split: sum.splits option.splits if_splits)
  with assms(1) parsed tokens show ?thesis by (auto simp: refreshed_from_def bundle_of_def)
qed

lemma emits_result_bind:
  assumes "emits P m" and "\<And>w. emits P (f (fst (run_state m w)))"
  shows "emits P (State_Monad.bind m f)"
  unfolding emits_def
proof
  fix w :: world
  obtain a v where m: "run_state m w = (a, v)" by fastforce
  from assms(1) m obtain cs where cs: "w_calls v = w_calls w @ cs" "\<And>c. c \<in> set cs \<Longrightarrow> P c" by (rule emitsD) blast
  from assms(2) [of w] m obtain ds where "w_calls (snd (run_state (f a) v)) = w_calls v @ ds" "list_all P ds"
    unfolding emits_def by auto
  with cs m show "\<exists>cs. w_calls (snd (run_state (State_Monad.bind m f) w)) = w_calls w @ cs \<and> list_all P cs"
    by (auto simp: list_all_iff)
qed

lemma refreshes_secret: "emits (refreshes E R asked) (refreshSecret E R asked)"
  unfolding refreshSecret_def
  by (intro emits_option emits_if emits_sum emits_return emits_result_bind refreshes_post refreshes_store)
    (auto simp: authWithRefreshToken_def split: sum.splits option.splits if_splits intro: refresh_result)


definition codex_secret :: secret where
  "codex_secret =
     \<lparr>sec_meta = blank_meta\<lparr>m_name := ''codex'', m_namespace := ''default'', m_labels := [(RefreshLabel, ''true'')]\<rparr>,
      sec_data = [(codexSecretKey, ''old''), (''other'', ''kept'')], sec_string_data = []\<rparr>"

definition token_endpoint :: refresh_env where
  "token_endpoint =
     \<lparr>rf_secret = (\<lambda>h ns name. Inr codex_secret),
      rf_post = (\<lambda>h form. Inr \<lparr>tr_status = 200, tr_status_text = ''200 OK'', tr_body = Inr ''reply'', tr_close = None\<rparr>),
      rf_form = (\<lambda>form. map_str form ''refresh_token''),
      rf_parse = (\<lambda>s. Inr (if s = ''old'' then [(''tokens'', JObject [(''refresh_token'', JText ''r1'')])]
                           else [(''access_token'', JText ''a''), (''refresh_token'', JText ''r2'')])),
      rf_encode = (\<lambda>m. Inr ''new'')\<rparr>"

fun is_secret_update :: "call \<Rightarrow> bool" where
  "is_secret_update (UpdateSecret s) = True"
| "is_secret_update _ = False"


end
