(* ===== verification/Spec2Isabelle.thy ===== *)
theory Spec2Isabelle
  imports AgentEnv TaskOutcome Cycles OutputFacts BudgetFacts TokenFacts ConfigFacts PoolFacts Handshake PipelineFacts System SpawnerFacts
    DeliveryCache WorkloadFacts CodexFacts
begin

text \<open>
  A model of the task core of kelos, the Kubernetes operator that runs coding agents: the
  reconcilers of \<^verbatim>\<open>internal/controller\<close> that decide when the Job of a \<^verbatim>\<open>Task\<close> may start, follow
  it, account for what it cost and clean up after it.

  \<^bold>\<open>The program.\<close> A \<^verbatim>\<open>Task\<close> names a prompt, an agent, a workspace, tasks it depends on and a
  branch. \<^verbatim>\<open>TaskReconciler\<close> (\<^verbatim>\<open>task_controller.go\<close>) is called again and again with the name
  of a task. It reads the task and its Job from the API server and does one of: add the
  finalizer, handle deletion, follow the Job that exists, or try to create one. Creation
  passes four gates in this order: the dependencies (\<^verbatim>\<open>checkDependencies\<close>, with the cycle
  check \<^verbatim>\<open>detectCycle\<close>), the branch queue and lock (\<^verbatim>\<open>checkBranchLock\<close>, \<^verbatim>\<open>BranchLocker\<close>),
  the budgets (\<^verbatim>\<open>checkBudgetAdmission\<close>) and the resolution of everything the Job needs
  (\<^verbatim>\<open>createJob\<close>: workspace and token, agent configurations, prompt, plugins), from which
  \<^verbatim>\<open>JobBuilder.Build\<close> (\<^verbatim>\<open>job_builder.go\<close>) makes the pod. A finished Job is read back: its log holds an output block (\<^verbatim>\<open>output_parser.go\<close>) from which results and
  usage come; usage is written to a \<^verbatim>\<open>TaskRecord\<close>, which the budgets sum up and a collector
  deletes later. Tasks that name a worker pool have no Job: \<^verbatim>\<open>WorkerPoolReconciler\<close>
  (\<^verbatim>\<open>workerpool_controller.go\<close>) hands them to a pod of the pool through the pod's annotations,
  the runner inside the pod (\<^verbatim>\<open>internal/workerrunner\<close>) works on them and reports through the
  annotations again. A \<^verbatim>\<open>TaskPipeline\<close> (\<^verbatim>\<open>taskpipeline_controller.go\<close>) is a list of stages, each
  of which is expanded into tasks once the stage before it has succeeded. Most tasks are not
  written by hand: a \<^verbatim>\<open>TaskSpawner\<close> that polls is served by a process of its own
  (\<^verbatim>\<open>cmd/kelos-spawner\<close>), which asks a source (\<^verbatim>\<open>internal/source\<close>: GitHub issues or pull requests,
  Jira, cron) for work items, drops those that have a task, builds tasks for the others from the
  template of the spawner (\<^verbatim>\<open>internal/taskbuilder\<close>), and creates them within the limits. A
  spawner that listens is served by the webhook server (\<^verbatim>\<open>internal/webhook\<close>): it authenticates
  a delivery of GitHub, Linear or any other sender, drops the repetitions, matches the event
  against the filters of every spawner and creates tasks or sessions. What serves a spawner is kept
  by \<^verbatim>\<open>TaskSpawnerReconciler\<close> (\<^verbatim>\<open>taskspawner_controller.go\<close>): a Deployment for one that polls, a
  CronJob for one with a schedule, nothing but its status for one that listens. Beside workspaces
  there may be a proxy of the GitHub API (\<^verbatim>\<open>workspace_controller.go\<close>), and beside Secrets with Codex
  credentials a CronJob that refreshes them (\<^verbatim>\<open>codex_auth_refresher_controller.go\<close>).

  \<^bold>\<open>The shape of the model.\<close> An operation with effects is a value of type \<open>'a io\<close>, a state
  monad over \<open>world\<close> (theory \<open>Effects\<close>): the calls made so far, in order, and the branch
  lock table, which is the only state that the process itself keeps. What is outside
  \<^verbatim>\<open>src/\<close> is the record \<open>env\<close>, a parameter: what the API server answers to each read,
  given the calls made before (so that answers may change over time and reads may fail),
  whether it accepts each write, the clock, and the libraries (quantities, label selectors,
  time zones, JSON of label maps, templates, the signing of JWTs, GitHub's token endpoint); its
  \<open>cfg_\<close> fields are the images that the operator is configured with. The spawner process has a second parameter, the record
  \<open>spawner_env\<close>: the HTTP APIs it polls, template and cron engines, its reads of the API
  server, which are not cached and so all logged, and random choices. The webhook server has
  a third, \<open>webhook_env\<close>: the decoder of its payloads, HMAC, regular expressions and globs, the
  reads it makes, and the APIs of GitHub and Linear that it asks for what a payload lacks. The
  controllers of workloads have \<open>workload_env\<close>: their reads, dry runs of updates, quantities, digests
  and the configuration of their builders; the program that refreshes Codex credentials has
  \<open>refresh_env\<close>: the token endpoint and JSON. The operations are functions of
  \<open>env\<close>; nothing is assumed of it except where a theorem says so by name. A Go error is a
  \<open>go_err\<close>; a function that returns a value and an error returns a sum, or a pair where the
  Go code uses both. A result that Go changes through a pointer (the task) is returned.

  \<^bold>\<open>Theories and code.\<close>
  \<^item> \<open>Prelude\<close>: Go's strings (as bytes, with UTF-8 aware trimming), numbers, maps with their
    sorted keys, and errors.
  \<^item> \<open>GoText\<close>: the standard library of Go on text (paths, JSON, base64, runes) and \<^verbatim>\<open>shellQuote\<close>;
    \<open>GitRepo\<close>: repository URLs, from \<^verbatim>\<open>taskspawner_deployment_builder.go\<close>; \<open>Pods\<close>: the types of
    Kubernetes pods, with what is only passed along as \<open>opaque\<close>.
  \<^item> \<open>Api\<close>: \<^verbatim>\<open>api/v1alpha2\<close>, the fields that the controllers read or write, and the
    resolvers of \<^verbatim>\<open>job_builder.go\<close> (\<^verbatim>\<open>resolveTaskType\<close> and so on).
  \<^item> \<open>BranchLocker\<close>: \<^verbatim>\<open>branch_locker.go\<close>; the contracts \<open>lock_service\<close> and \<open>lock_history\<close> and
    their interpretations on the table.
  \<^item> \<open>Effects\<close>: the boundary described above; \<open>Cluster\<close>: an idle cluster for the examples.
  \<^item> \<open>OutputParser\<close>: \<^verbatim>\<open>output_parser.go\<close> and \<^verbatim>\<open>usageFromResults\<close>.
  \<^item> \<open>TaskBudget\<close>: \<^verbatim>\<open>task_budget_admission.go\<close>, \<^verbatim>\<open>taskbudget_controller.go\<close> and
    \<^verbatim>\<open>taskrecord_controller.go\<close>; \<open>Metrics\<close>: \<^verbatim>\<open>metrics.go\<close>.
  \<^item> \<open>GitHubToken\<close>: \<^verbatim>\<open>internal/githubapp\<close>, \<^verbatim>\<open>github_token_secret.go\<close> and the token part of
    \<^verbatim>\<open>task_controller.go\<close>.
  \<^item> \<open>AgentConfig\<close>: \<^verbatim>\<open>agentconfig_merge.go\<close>, the resolution of MCP secrets in
    \<^verbatim>\<open>task_controller.go\<close> and the plugin data of \<^verbatim>\<open>job_builder.go\<close>.
  \<^item> \<open>JobBuilder\<close>: the rest of \<^verbatim>\<open>job_builder.go\<close> and \<^verbatim>\<open>agent_command.go\<close>, \<open>Build\<close> being \<^verbatim>\<open>Build\<close>;
    \<open>PoolBuilder\<close>: \<^verbatim>\<open>buildStatefulSet\<close> of \<^verbatim>\<open>workerpool_controller.go\<close>, from the same pieces.
  \<^item> \<open>WorkerPods\<close> and \<open>WorkerPool\<close>: \<^verbatim>\<open>workerpool_controller.go\<close>, its helpers on pod annotations
    and logs, and the reconciler, \<open>pool_reconcile\<close>.
  \<^item> \<open>WorkerRunner\<close>: \<^verbatim>\<open>internal/workerrunner/runner.go\<close>; the pod it reads is the pod the pool
    writes.
  \<^item> \<open>TaskController\<close>: \<^verbatim>\<open>task_controller.go\<close>, \<open>task_reconcile\<close> being \<^verbatim>\<open>Reconcile\<close>.
  \<^item> \<open>TaskPipeline\<close>: \<^verbatim>\<open>taskpipeline_controller.go\<close>, \<open>pipeline_reconcile\<close> being \<^verbatim>\<open>Reconcile\<close>.
  \<^item> \<open>SpawnerEnv\<close>: the parameter of the spawner process; \<open>TaskBuilder\<close>: \<^verbatim>\<open>internal/taskbuilder\<close> and
    \<^verbatim>\<open>internal/spawnercredentials\<close>.
  \<^item> \<open>Sources\<close>, \<open>GitHubSource\<close>, \<open>JiraSource\<close>: \<^verbatim>\<open>internal/source\<close>, with \<open>authorizer\<close> and \<open>auth_cache\<close>
    for the comment policy, \<open>discover_issues\<close>, \<open>discover_pulls\<close>, \<open>discover_jira\<close> and
    \<open>cron_discover\<close> for the four \<^verbatim>\<open>Discover\<close>.
  \<^item> \<open>Spawner\<close>: \<^verbatim>\<open>cmd/kelos-spawner\<close>, \<open>runCycleWithProxy\<close> being a cycle and \<open>spawner_reconcile\<close> the
    loop around it; \<open>SpawnerCluster\<close>: a quiet world for its examples.
  \<^item> \<open>WebhookEnv\<close>: the parameter of the webhook server; \<open>WebhookFilters\<close>: the \<^verbatim>\<open>*_filter.go\<close> of
    \<^verbatim>\<open>internal/webhook\<close>; \<open>WebhookServer\<close>: the rest of it, with \<open>ServeHTTP\<close> and
    \<open>gateway_ServeHTTP\<close> for its two handlers, and the builder of sessions in \<^verbatim>\<open>internal/sessionbuilder\<close>.
  \<^item> \<open>Workloads\<close>: the parameter \<open>workload_env\<close>, the comparison of resources, and the contract
    \<open>settling\<close> of updates that go through an object part by part; \<open>WorkloadCluster\<close>: an empty cluster.
  \<^item> \<open>SpawnerController\<close>: \<^verbatim>\<open>taskspawner_controller.go\<close>, \<open>spawner_controller\<close> being \<^verbatim>\<open>Reconcile\<close>, and
    \<^verbatim>\<open>taskspawner_deployment_builder.go\<close>, whose \<^verbatim>\<open>Build\<close> is \<open>spawner_deployment\<close>.
  \<^item> \<open>WorkspaceController\<close>: \<^verbatim>\<open>workspace_controller.go\<close>, \<^verbatim>\<open>workspace_ghproxy_builder.go\<close>,
    \<^verbatim>\<open>webhookgateway_controller.go\<close> and \<^verbatim>\<open>sessionspawner_controller.go\<close>, with \<open>workspace_controller\<close>,
    \<open>gateway_controller\<close> and \<open>session_spawner_controller\<close> for their \<^verbatim>\<open>Reconcile\<close>.
  \<^item> \<open>CodexRefresher\<close>: \<^verbatim>\<open>codex_auth_refresher_controller.go\<close> (\<open>codex_controller\<close>), its builder, and
    \<^verbatim>\<open>internal/codexauth/refresher.go\<close> (\<open>refresh_run\<close> being \<^verbatim>\<open>Run\<close>).

  \<^bold>\<open>What is shown.\<close>
  \<^item> \<open>TaskFacts\<close>: a Job is created only behind all four gates.
  \<^item> \<open>TextFacts\<close>: what a shell reads back from a quoted word and from the script that injects files;
    \<open>JobFacts\<close>: names in the pods of Jobs and of worker pools do not clash, mounts find their volumes;
    \<open>AgentEnv\<close>: the environment of the agent, where the GitHub token of a workspace goes, and that the
    reconciler creates only Jobs that were built so.
  \<^item> \<open>TaskLocks\<close> and \<open>OutputFacts\<close>: branches are exclusive, and a reconcile leaves the locks of
    other tasks alone. \<open>System\<close> puts the reconcilers together: the locale \<open>lock_discipline\<close> says
    what a process that shares the lock table owes to its clients, the interpretation
    \<open>controller\<close> that all reconcilers keep to it, and so how a branch changes hands.
  \<^item> \<open>Cycles\<close>: cycle detection against reachability, and where it reports too much.
  \<^item> \<open>TaskOutcome\<close>: what is written when a Job finishes, expiry, deletion, and who is woken.
  \<^item> \<open>BudgetFacts\<close>: limits, sums, periods, admission that fails closed, records.
  \<^item> \<open>OutputFacts\<close>: round trip of the output block, and the bounds of the parsed usage.
  \<^item> \<open>TokenFacts\<close>: which token is handed out, when it is refreshed, whose Secret is written;
    \<open>ConfigFacts\<close>: merged configurations, resolved environments, complete plugin data.
  \<^item> \<open>PoolFacts\<close>: assignment behind its gates, completion counted once, cancellation, and what the
    controller does not check. \<open>Handshake\<close>: the protocol on the pod's annotations as two step
    relations, its invariant and its progress, and that pool controller and runner refine it.
  \<^item> \<open>PipelineFacts\<close>: stages run in order, the verdict against its specification, names that clash.
  \<^item> \<open>TaskBuilderFacts\<close>: names are DNS subdomains, and the spawner recognises what it builds.
    \<open>SpawnerFacts\<close>: the limits of a cycle, no duplicates, what happens to the time of the last
    discovery, and two ways to lose work.
  \<^item> \<open>WebhookFacts\<close>: what a delivery creates, and that changed files are fetched at most once;
    \<open>WebhookDelivery\<close>: only signed requests reach the spawners. \<open>DeliveryCache\<close>: the cache of
    delivery identifiers meets the contract \<open>delivery_store\<close>, handlers that follow it process a
    delivery at most once at a time, and when an acknowledged delivery is lost nevertheless.
  \<^item> \<open>WorkloadFacts\<close>: the updates of these controllers meet \<open>settling\<close>, so that one update is enough;
    workloads follow their spawner; events of workspaces and Secrets reach the spawners that use them;
    and a Deployment of someone else that is overwritten. \<open>CodexFacts\<close>: valid names, tokens merged
    field by field, and what the refresher may send and write.

  \<^bold>\<open>Fuel and bounds.\<close> The loops over pages stop after ten pages and the loop
  over cron ticks after a thousand, as in the code. All other loops are structural recursions except \<^verbatim>\<open>walkDeps\<close>,
  which follows names of tasks and has a fuel argument (\<open>None\<close> is its exhaustion and nothing
  else), and the polls of the runner, which by design go on until it is stopped: their fuel is
  the number of polls, and theorems speak of every number. \<open>cycle_detection\<close> shows that more fuel than there are tasks is enough. Times and
  durations are integers in nanoseconds without the range check of Go; sums of tokens wrap
  as \<^verbatim>\<open>int64\<close> does. Quantities are integers in the smallest unit.

  \<^bold>\<open>Not modelled.\<close> The retries inside \<^verbatim>\<open>retry.RetryOnConflict\<close> (the last attempt is the one
  modelled, the earlier ones change nothing), log lines that reach only the operator's own
  log, the execution of templates and of the scripts that pods run (but for the words that a
  shell reads from them), the agent process of the runner and its sweep over procfs, the
  \<^verbatim>\<open>main\<close> function of the spawner, the time a cycle takes, the call of its token resolver (its answer is a parameter that
  may depend on the history) and what \<^verbatim>\<open>internal/reporting\<close> does with a task (\<open>ReportTask\<close> is a
  logged call), and letters beyond ASCII where Go folds case outside of names. The
  rest of the repository is not modelled: sessions (but for the count that a session spawner reports), Slack, reporting, the command line,
  the console, conversion between API versions, generated code.
\<close>

end
